(* ===== verification/Prelude.thy ===== *)
theory Prelude
  imports Main "HOL-Library.Word"
begin

section \<open>Prelude: C values, memory faults and sequential programs\<close>

text \<open>
  The shared vocabulary of the development.

  The program is C, compiled for an LP64 little-endian Linux target: \<open>int\<close> has 4 bytes,
  \<open>long\<close> and pointers 8, \<open>float\<close> 4, \<open>long double\<close> 16, \<open>_Bool\<close> 1.  Integers are words of
  their width; a floating point value is the word of its object representation: most of the code only copies it, and
  where the code computes with it the operations are parameters.

  A block of memory is the list of its bytes.  A pointer into a block is represented by the
  bytes from the pointer to the end of the block, so that reading or writing past the end of
  the block is visible: it is a value of type \<open>fault\<close>, never an unspecified result.
  A \<open>char *\<close> is \<open>None\<close> for \<open>NULL\<close> and \<open>Some b\<close> for a pointer to the start of the block \<open>b\<close>
  (the terminating zero byte included, when there is one).
\<close>

type_synonym u8 = "8 word"
type_synonym c_short = "16 word"
type_synonym c_int = "32 word"
type_synonym c_long = "64 word"
type_synonym c_float = "32 word"
type_synonym c_double = "64 word"
type_synonym c_ldouble = "128 word"
type_synonym cstr = "u8 list option"

datatype fault = Read_Out_Of_Bounds | Write_Out_Of_Bounds | Null_Dereference | Invalid_Free | Use_After_Free

named_theorems codec
  \<open>equations that turn encoders into writes of byte lists and decoders into reads\<close>
named_theorems ser_len
  \<open>lengths of the byte lists that the encoders write\<close>


subsection \<open>Sequencing of steps that may fault\<close>

definition and_then :: "fault + 'a \<Rightarrow> ('a \<Rightarrow> fault + 'b) \<Rightarrow> fault + 'b" where
  "and_then x f = (case x of Inl e \<Rightarrow> Inl e | Inr v \<Rightarrow> f v)"

lemma and_then_simps [simp]:
  "and_then (Inl e) f = Inl e"
  "and_then (Inr v) f = f v"
  by (simp_all add: and_then_def)

lemma and_then_eq_Inr:
  "and_then x f = Inr z \<longleftrightarrow> (\<exists>v. x = Inr v \<and> f v = Inr z)"
  by (cases x) simp_all

lemma and_then_assoc:
  "and_then (and_then x f) g = and_then x (\<lambda>v. and_then (f v) g)"
  by (cases x) simp_all

text \<open>A sequence of C statements: each changes the state, and the first fault ends the run.\<close>

type_synonym 's step = "'s \<Rightarrow> fault + 's"

primrec run_prog :: "'s step list \<Rightarrow> 's step" where
  "run_prog [] s = Inr s"
| "run_prog (p # ps) s = and_then (p s) (run_prog ps)"

lemma run_prog_append:
  "run_prog (ps @ qs) s = and_then (run_prog ps s) (run_prog qs)"
  by (induction ps arbitrary: s) (simp_all add: and_then_def split: sum.split)

lemma run_prog_single [simp]: "run_prog [p] s = p s"
  by (cases "p s") simp_all

lemma run_prog_nested [simp]:
  "run_prog (run_prog ps # qs) s = run_prog (ps @ qs) s"
  by (simp add: run_prog_append)


subsection \<open>Little-endian object representations\<close>

definition le_bytes :: "nat \<Rightarrow> 'a::len word \<Rightarrow> u8 list" where
  "le_bytes n w = map (\<lambda>i. ucast (drop_bit (8 * i) w)) [0..<n]"

primrec le_word :: "u8 list \<Rightarrow> 'a::len word" where
  "le_word [] = 0"
| "le_word (b # bs) = or (ucast b) (push_bit 8 (le_word bs))"

lemma length_le_bytes [simp, ser_len]: "length (le_bytes n w) = n"
  by (simp add: le_bytes_def)

lemma bit_le_word:
  "bit (le_word bs :: 'a::len word) k \<longleftrightarrow>
     k < LENGTH('a) \<and> k div 8 < length bs \<and> bit (bs ! (k div 8)) (k mod 8)"
proof (induction bs arbitrary: k)
  case Nil
  then show ?case by simp
next
  case (Cons b bs)
  show ?case
  proof (cases "k < 8")
    case True
    then show ?thesis
      by (auto simp: bit_simps)
  next
    case False
    then obtain j where j: "k = j + 8"
      by (metis add.commute le_Suc_ex not_less)
    have "\<not> bit b (j + 8)"
      using bit_imp_le_length [of b "j + 8"] by auto
    moreover have "(j + 8) div 8 = Suc (j div 8)"
      by simp
    ultimately show ?thesis
      using Cons.IH [of j] by (auto simp: j bit_simps)
  qed
qed

lemma le_word_le_bytes:
  assumes "8 * n = LENGTH('a)"
  shows "le_word (le_bytes n w) = (w :: 'a::len word)"
proof (rule bit_word_eqI)
  fix k assume k: "k < LENGTH('a)"
  have "8 * (k div 8) + k mod 8 = k"
    by simp
  moreover have "k div 8 < n" and "k mod 8 < 8"
    using k assms by auto
  ultimately show "bit (le_word (le_bytes n w) :: 'a word) k = bit w k"
    using k by (simp add: bit_le_word le_bytes_def bit_simps)
qed

lemma le_bytes_le_word:
  assumes "length bs = n" and "8 * n = LENGTH('a)"
  shows "le_bytes n (le_word bs :: 'a::len word) = bs"
proof (rule nth_equalityI)
  show "length (le_bytes n (le_word bs :: 'a word)) = length bs"
    using assms by simp
next
  fix i assume "i < length (le_bytes n (le_word bs :: 'a word))"
  then have i: "i < n" by simp
  show "le_bytes n (le_word bs :: 'a word) ! i = bs ! i"
  proof (rule bit_word_eqI)
    fix k assume "k < LENGTH(8)"
    then have k: "k < 8" by simp
    have "(8 * i + k) div 8 = i" and "(8 * i + k) mod 8 = k" and "8 * i + k < 8 * n"
      using k i by auto
    then show "bit (le_bytes n (le_word bs :: 'a word) ! i) k = bit (bs ! i) k"
      using i k assms by (simp add: le_bytes_def bit_le_word bit_simps)
  qed
qed


subsection \<open>C strings\<close>

text \<open>\<open>strlen\<close>, \<open>strcmp\<close>, \<open>strcpy\<close> and \<open>strncpy\<close> of the C library on blocks.\<close>

definition str_chars :: "u8 list \<Rightarrow> u8 list" where
  "str_chars b = takeWhile (\<lambda>c. c \<noteq> 0) b"

definition strlen :: "cstr \<Rightarrow> fault + nat" where
  "strlen s = (case s of
       None \<Rightarrow> Inl Null_Dereference
     | Some b \<Rightarrow> if 0 \<in> set b then Inr (length (str_chars b)) else Inl Read_Out_Of_Bounds)"

fun strcmp_eq :: "u8 list \<Rightarrow> u8 list \<Rightarrow> fault + bool" where
  "strcmp_eq (a # as) (b # bs) =
     (if a \<noteq> b then Inr False else if a = 0 then Inr True else strcmp_eq as bs)"
| "strcmp_eq _ _ = Inl Read_Out_Of_Bounds"

definition strcmp :: "cstr \<Rightarrow> cstr \<Rightarrow> fault + bool" where
  "strcmp s t = (case (s, t) of
       (Some a, Some b) \<Rightarrow> strcmp_eq a b
     | _ \<Rightarrow> Inl Null_Dereference)"

text \<open>\<open>strcpy (dst, src)\<close> into a block: the block after the copy.\<close>

definition strcpy :: "u8 list \<Rightarrow> u8 list \<Rightarrow> fault + u8 list" where
  "strcpy dst src = and_then (strlen (Some src)) (\<lambda>n.
     if n + 1 \<le> length dst then Inr (str_chars src @ [0] @ drop (n + 1) dst)
     else Inl Write_Out_Of_Bounds)"

text \<open>
  \<open>strncpy (dst, src, n)\<close> with a destination of exactly \<open>n\<close> bytes: at most \<open>n\<close> bytes are read,
  up to the first zero, and the rest of the destination is filled with zeros.  The result has
  no terminator when the first \<open>n\<close> source bytes hold none.
\<close>

definition strncpy :: "u8 list \<Rightarrow> nat \<Rightarrow> fault + u8 list" where
  "strncpy src n = (let cs = str_chars (take n src) in
     if length cs = n then Inr cs
     else if length cs < length src then Inr (cs @ replicate (n - length cs) 0)
     else Inl Read_Out_Of_Bounds)"

text \<open>Well-formed strings, their length and their canonical block.\<close>

definition wf_str :: "cstr \<Rightarrow> bool" where
  "wf_str s = (case s of None \<Rightarrow> True | Some b \<Rightarrow> 0 \<in> set b)"

definition chars :: "cstr \<Rightarrow> u8 list" where
  "chars s = (case s of None \<Rightarrow> [] | Some b \<Rightarrow> str_chars b)"

definition slen :: "cstr \<Rightarrow> nat" where
  "slen s = length (chars s)"

text \<open>What a string becomes when it is sent and received: \<open>NULL\<close> and the empty string coincide.\<close>

definition canon :: "cstr \<Rightarrow> cstr" where
  "canon s = (if chars s = [] then None else Some (chars s @ [0]))"

lemma str_chars_no_zero: "0 \<notin> set (str_chars b)"
  by (auto simp: str_chars_def dest: set_takeWhileD)

lemma str_chars_append [simp]:
  "0 \<notin> set cs \<Longrightarrow> str_chars (cs @ 0 # r) = cs"
  unfolding str_chars_def by (subst takeWhile_append2) auto

lemma str_chars_id: "0 \<notin> set cs \<Longrightarrow> str_chars cs = cs"
  unfolding str_chars_def by (rule takeWhile_eq_all_conv [THEN iffD2]) auto

lemma length_str_chars: "0 \<in> set b \<Longrightarrow> length (str_chars b) < length b"
  unfolding str_chars_def
  by (metis (mono_tags, lifting) length_takeWhile_le nat_less_le takeWhile_eq_all_conv
      takeWhile_eq_take take_all_iff)

lemma wf_str_simps [simp]:
  "wf_str None" "wf_str (Some (cs @ [0]))" "wf_str (Some (cs @ 0 # r))"
  by (simp_all add: wf_str_def)

lemma wf_str_canon [simp]: "wf_str (canon s)"
  by (simp add: canon_def)

lemma chars_no_zero: "0 \<notin> set (chars s)"
  by (simp add: chars_def str_chars_no_zero split: option.split)

lemma chars_simps [simp]:
  "chars None = []" "0 \<notin> set cs \<Longrightarrow> chars (Some (cs @ 0 # r)) = cs"
  by (simp_all add: chars_def)

lemma chars_canon [simp]: "chars (canon s) = chars s"
  by (simp add: canon_def chars_no_zero)

lemma slen_canon [simp]: "slen (canon s) = slen s"
  by (simp add: slen_def)

lemma canon_canon [simp]: "canon (canon s) = canon s"
  by (simp add: canon_def chars_no_zero)

lemma canon_None [simp]: "canon None = None"
  by (simp add: canon_def)

lemma slen_None [simp]: "slen None = 0"
  by (simp add: slen_def)

lemma strlen_wf: "wf_str s \<Longrightarrow> s \<noteq> None \<Longrightarrow> strlen s = Inr (slen s)"
  by (auto simp: strlen_def wf_str_def slen_def chars_def split: option.splits)

lemma canon_eq_None: "canon s = None \<longleftrightarrow> slen s = 0"
  by (simp add: canon_def slen_def)

lemma canon_nonempty:
  assumes "0 < slen s"
  obtains c where "canon s = Some c" "wf_str (Some c)" "chars (Some c) = chars s" "slen (Some c) = slen s"
proof -
  obtain c where c: "canon s = Some c"
    using assms canon_eq_None [of s] by auto
  then show ?thesis
    using that [OF c] wf_str_canon [of s] chars_canon [of s] slen_canon [of s] by simp
qed

lemma strcmp_eq_terminated:
  assumes "0 \<notin> set cs" and "0 \<notin> set ds"
  shows "strcmp_eq (cs @ 0 # r) (ds @ 0 # r') = Inr (cs = ds)"
  using assms
proof (induction cs arbitrary: ds)
  case Nil
  then show ?case by (cases ds) auto
next
  case (Cons c cs)
  then show ?case by (cases ds) auto
qed

end
