(* ===== verification/Buffer.thy ===== *)
theory Buffer
  imports Prelude
begin

section \<open>The buffer handlers (\<open>messaging/buffer_handler_fun.c\<close>)\<close>

text \<open>
  Every message of the protocol is a sequence of fields, written and read one after the other
  by the functions of \<open>buffer_handler_fun.c\<close>.  Each function takes the address of a cursor,
  copies the object representation of its argument with \<open>memcpy\<close> and moves the cursor.

  A write cursor \<open>(dn, room)\<close> splits the block at the cursor: \<open>dn\<close> has been written, \<open>room\<close> is
  the rest of the block.  A read cursor is the rest of the block.  Neither the encoders nor the
  decoders of the source check the bounds of the block; here a \<open>memcpy\<close> past its end is a fault.

  The lemmas show that each pair of functions is a codec of fixed width (interpretations of
  the locale \<open>scalar_codec\<close>), that strings survive the round trip up to \<open>canon\<close>, and what the
  header carries.
\<close>

type_synonym wcur = "u8 list \<times> u8 list"
type_synonym rcur = "u8 list"

definition put :: "u8 list \<Rightarrow> wcur step" where
  "put bs w = (if length bs \<le> length (snd w)
     then Inr (fst w @ bs, drop (length bs) (snd w))
     else Inl Write_Out_Of_Bounds)"

definition get_bytes :: "nat \<Rightarrow> rcur \<Rightarrow> fault + u8 list \<times> rcur" where
  "get_bytes n r = (if n \<le> length r then Inr (take n r, drop n r) else Inl Read_Out_Of_Bounds)"


subsection \<open>Sizes\<close>

definition sizeof :: "nat \<Rightarrow> fault + c_int" where
  "sizeof n = Inr (word_of_nat n)"

text \<open>The sum of the sizes of the fields, truncated to the \<open>int\<close> that holds it.\<close>

primrec sum_sizes :: "(fault + c_int) list \<Rightarrow> fault + c_int" where
  "sum_sizes [] = sizeof 0"
| "sum_sizes (x # xs) = and_then x (\<lambda>a. and_then (sum_sizes xs) (\<lambda>b. Inr (a + b)))"

definition strlen_ethanol :: "cstr \<Rightarrow> fault + c_int" where
  "strlen_ethanol s = and_then (if s = None then Inr 0 else strlen s)
     (\<lambda>p_version_len. sizeof (4 + (p_version_len + 1) * 1))"

definition bool_len_ethanol :: "fault + c_int" where
  "bool_len_ethanol = sizeof 4"


subsection \<open>Encoders\<close>

definition encode_byte :: "u8 \<Rightarrow> wcur step" where
  "encode_byte i = put (le_bytes 1 i)"

definition encode_int :: "c_int \<Rightarrow> wcur step" where
  "encode_int i = put (le_bytes 4 i)"

definition encode_uint :: "c_int \<Rightarrow> wcur step" where
  "encode_uint i = put (le_bytes 4 i)"

definition encode_ushort :: "c_short \<Rightarrow> wcur step" where
  "encode_ushort i = put (le_bytes 2 i)"

definition encode_short :: "c_short \<Rightarrow> wcur step" where
  "encode_short i = put (le_bytes 2 i)"

definition encode_long :: "c_long \<Rightarrow> wcur step" where
  "encode_long i = put (le_bytes 8 i)"

definition encode_ulong :: "c_long \<Rightarrow> wcur step" where
  "encode_ulong i = put (le_bytes 8 i)"

definition encode_2long :: "c_long \<Rightarrow> wcur step" where
  "encode_2long i = put (le_bytes 8 i)"

definition encode_u2long :: "c_long \<Rightarrow> wcur step" where
  "encode_u2long i = put (le_bytes 8 i)"

text \<open>\<open>sizeof (bool)\<close> is 1: one byte is written, although \<open>bool_len_ethanol\<close> counts 4.\<close>

definition encode_bool :: "bool \<Rightarrow> wcur step" where
  "encode_bool b = put [if b then 1 else 0]"

definition encode_float :: "c_float \<Rightarrow> wcur step" where
  "encode_float f = put (le_bytes 4 f)"

definition encode_double :: "c_double \<Rightarrow> wcur step" where
  "encode_double d = put (le_bytes 8 d)"

definition encode_longdouble :: "c_ldouble \<Rightarrow> wcur step" where
  "encode_longdouble d = put (le_bytes 16 d)"

text \<open>
  \<open>encode_char\<close>: the length, then, only for a length that is positive as an \<open>int\<close>, \<open>strcpy\<close> of
  the string at the cursor, which then moves by \<open>s_len + 1\<close>.
\<close>

definition encode_char :: "cstr \<Rightarrow> wcur step" where
  "encode_char s w = and_then (if s = None then Inr 0 else strlen s) (\<lambda>n.
     let s_len = (word_of_nat n :: c_int) in
     and_then (encode_int s_len w) (\<lambda>w'.
       if 0 < sint s_len then
         and_then (strcpy (snd w') (case s of None \<Rightarrow> [] | Some b \<Rightarrow> b)) (\<lambda>room.
           Inr (fst w' @ take (nat (sint s_len) + 1) room, drop (nat (sint s_len) + 1) room))
       else Inr w'))"

text \<open>
  \<open>encode_char2\<close>: a raw copy of \<open>s_len\<close> bytes; \<open>memcpy\<close> takes the \<open>int\<close> as a \<open>size_t\<close>, so that a
  negative count is a huge one.
\<close>

definition encode_char2 :: "cstr \<Rightarrow> c_int \<Rightarrow> wcur step" where
  "encode_char2 s s_len w = (let n = unat (scast s_len :: c_long) in
     case s of
       None \<Rightarrow> if n = 0 then Inr w else Inl Null_Dereference
     | Some b \<Rightarrow> if n \<le> length b then put (take n b) w else Inl Read_Out_Of_Bounds)"


text \<open>\<open>ETHANOL_VERSION\<close> of \<open>msg_common.h\<close>: the bytes of \<open>"1.0.3"\<close>.\<close>

definition version_chars :: "u8 list" where
  "version_chars = [0x31, 0x2E, 0x30, 0x2E, 0x33]"

definition ETHANOL_VERSION :: cstr where
  "ETHANOL_VERSION = Some (version_chars @ [0])"

definition encode_header :: "c_int \<Rightarrow> c_int \<Rightarrow> c_int \<Rightarrow> wcur step" where
  "encode_header m_type m_id m_size = run_prog
     [encode_int m_type,
      encode_int m_id,
      encode_char ETHANOL_VERSION,
      encode_int m_size]"


subsection \<open>Decoders\<close>

definition decode_byte :: "rcur \<Rightarrow> fault + u8 \<times> rcur" where
  "decode_byte r = and_then (get_bytes 1 r) (\<lambda>(bs, r'). Inr (le_word bs, r'))"

definition decode_int :: "rcur \<Rightarrow> fault + c_int \<times> rcur" where
  "decode_int r = and_then (get_bytes 4 r) (\<lambda>(bs, r'). Inr (le_word bs, r'))"

definition decode_uint :: "rcur \<Rightarrow> fault + c_int \<times> rcur" where
  "decode_uint r = and_then (get_bytes 4 r) (\<lambda>(bs, r'). Inr (le_word bs, r'))"

definition decode_ushort :: "rcur \<Rightarrow> fault + c_short \<times> rcur" where
  "decode_ushort r = and_then (get_bytes 2 r) (\<lambda>(bs, r'). Inr (le_word bs, r'))"

definition decode_short :: "rcur \<Rightarrow> fault + c_short \<times> rcur" where
  "decode_short r = and_then (get_bytes 2 r) (\<lambda>(bs, r'). Inr (le_word bs, r'))"

definition decode_long :: "rcur \<Rightarrow> fault + c_long \<times> rcur" where
  "decode_long r = and_then (get_bytes 8 r) (\<lambda>(bs, r'). Inr (le_word bs, r'))"

definition decode_ulong :: "rcur \<Rightarrow> fault + c_long \<times> rcur" where
  "decode_ulong r = and_then (get_bytes 8 r) (\<lambda>(bs, r'). Inr (le_word bs, r'))"

definition decode_2long :: "rcur \<Rightarrow> fault + c_long \<times> rcur" where
  "decode_2long r = and_then (get_bytes 8 r) (\<lambda>(bs, r'). Inr (le_word bs, r'))"

definition decode_u2long :: "rcur \<Rightarrow> fault + c_long \<times> rcur" where
  "decode_u2long r = and_then (get_bytes 8 r) (\<lambda>(bs, r'). Inr (le_word bs, r'))"

text \<open>The one byte of a \<open>bool\<close> is read back as true unless it is zero.\<close>

definition decode_bool :: "rcur \<Rightarrow> fault + bool \<times> rcur" where
  "decode_bool r = and_then (get_bytes 1 r) (\<lambda>(bs, r'). Inr (bs \<noteq> [0], r'))"

definition decode_float :: "rcur \<Rightarrow> fault + c_float \<times> rcur" where
  "decode_float r = and_then (get_bytes 4 r) (\<lambda>(bs, r'). Inr (le_word bs, r'))"

definition decode_double :: "rcur \<Rightarrow> fault + c_double \<times> rcur" where
  "decode_double r = and_then (get_bytes 8 r) (\<lambda>(bs, r'). Inr (le_word bs, r'))"

definition decode_longdouble :: "rcur \<Rightarrow> fault + c_ldouble \<times> rcur" where
  "decode_longdouble r = and_then (get_bytes 16 r) (\<lambda>(bs, r'). Inr (le_word bs, r'))"

text \<open>
  \<open>decode_char\<close>: \<open>s_len + 1\<close> is computed in \<open>unsigned int\<close> and wraps.  The new block is filled by
  \<open>strncpy\<close>; the cursor moves by \<open>s_len + 1\<close> whatever was copied.
\<close>

definition decode_char :: "rcur \<Rightarrow> fault + cstr \<times> rcur" where
  "decode_char r = and_then (decode_uint r) (\<lambda>(s_len, r').
     if s_len = 0 then Inr (None, r')
     else (let p_version_len = unat (s_len + 1) in
       and_then (strncpy r' p_version_len) (\<lambda>b. Inr (Some b, drop p_version_len r'))))"

definition decode_char2 :: "c_int \<Rightarrow> rcur \<Rightarrow> fault + cstr \<times> rcur" where
  "decode_char2 s_len r = and_then (get_bytes (unat s_len) r) (\<lambda>(b, r'). Inr (Some b, r'))"

text \<open>
  The structures of all messages start with the four fields of the header, so they are records
  that extend \<open>msg_header\<close>.  A decoder assigns the fields of a structure one after the other:
  its state is the cursor and the structure, whose fields hold whatever \<open>malloc\<close> left there
  until they are assigned.
\<close>

record msg_header =
  m_type :: c_int
  m_id :: c_int
  p_version :: cstr
  m_size :: c_int

definition into :: "(rcur \<Rightarrow> fault + 'v \<times> rcur) \<Rightarrow> (('v \<Rightarrow> 'v) \<Rightarrow> 'h \<Rightarrow> 'h) \<Rightarrow> (rcur \<times> 'h) step" where
  "into d upd s = and_then (d (fst s)) (\<lambda>(v, r). Inr (r, upd (\<lambda>_. v) (snd s)))"

definition decode_header :: "(rcur \<times> 'a msg_header_scheme) step" where
  "decode_header = run_prog
     [into decode_int m_type_update,
      into decode_int m_id_update,
      into decode_char p_version_update,
      into decode_int m_size_update]"

definition return_message_type :: "rcur \<Rightarrow> fault + c_int" where
  "return_message_type buf = and_then (decode_int buf) (\<lambda>(m_type, _). Inr m_type)"


subsection \<open>Writes and reads of byte lists\<close>

lemma put_ok [simp]:
  "length bs \<le> length room \<Longrightarrow> put bs (dn, room) = Inr (dn @ bs, drop (length bs) room)"
  by (simp add: put_def)

lemma put_overflow: "length room < length bs \<Longrightarrow> put bs (dn, room) = Inl Write_Out_Of_Bounds"
  by (simp add: put_def)

lemma run_put:
  "length bs \<le> length room \<Longrightarrow>
   run_prog (put bs # ps) (dn, room) = run_prog ps (dn @ bs, drop (length bs) room)"
  by simp

lemma put_put:
  "and_then (put bs w) (put cs) = (if length bs + length cs \<le> length (snd w)
     then put (bs @ cs) w else Inl Write_Out_Of_Bounds)"
  by (auto simp: put_def add.commute)

lemma get_bytes_append [simp]: "length bs = n \<Longrightarrow> get_bytes n (bs @ r) = Inr (bs, r)"
  by (simp add: get_bytes_def)

lemma get_bytes_short: "length r < n \<Longrightarrow> get_bytes n r = Inl Read_Out_Of_Bounds"
  by (simp add: get_bytes_def)

lemma into_ok: "d r = Inr (v, r') \<Longrightarrow> into d upd (r, h) = Inr (r', upd (\<lambda>_. v) h)"
  by (simp add: into_def)


subsection \<open>Fields of fixed width\<close>

text \<open>
  The contract of a pair of functions that copies a value of fixed width: the encoder writes
  \<open>width\<close> bytes that depend on the value only, and the decoder gives the value back from them.
\<close>

locale scalar_codec =
  fixes enc :: "'v \<Rightarrow> wcur step"
    and dec :: "rcur \<Rightarrow> fault + 'v \<times> rcur"
    and ser :: "'v \<Rightarrow> u8 list"
    and width :: nat
  assumes enc_put: "enc v = put (ser v)"
    and ser_width: "length (ser v) = width"
    and dec_ser: "dec (ser v @ r) = Inr (v, r)"
    and dec_short: "length r < width \<Longrightarrow> dec r = Inl Read_Out_Of_Bounds"
begin

lemma enc_in_bounds:
  "width \<le> length room \<Longrightarrow> enc v (dn, room) = Inr (dn @ ser v, drop width room)"
  by (simp add: enc_put ser_width)

lemma enc_overflow: "length room < width \<Longrightarrow> enc v (dn, room) = Inl Write_Out_Of_Bounds"
  by (simp add: enc_put ser_width put_overflow)

lemma ser_inj: "ser v = ser v' \<Longrightarrow> v = v'"
  using dec_ser [of v "[]"] dec_ser [of v' "[]"] by simp

text \<open>What was written is read back, whatever follows in the block.\<close>

lemma field_roundtrip:
  assumes "enc v (dn, room) = Inr (dn', room')"
  shows "\<exists>bs. dn' = dn @ bs \<and> length bs = width \<and> dec (bs @ r) = Inr (v, r)"
  using assms by (auto simp: enc_put put_def ser_width dec_ser split: if_splits)

lemma into_ser: "into dec upd (ser v @ r, h) = Inr (r, upd (\<lambda>_. v) h)"
  by (rule into_ok) (rule dec_ser)

end

lemma le_word_roundtrips [simp]:
  "le_word (le_bytes 1 (v1 :: u8)) = v1"
  "le_word (le_bytes (Suc 0) (v1 :: u8)) = v1"
  "le_word (le_bytes 2 (v2 :: c_short)) = v2"
  "le_word (le_bytes 4 (v4 :: c_int)) = v4"
  "le_word (le_bytes 8 (v8 :: c_long)) = v8"
  "le_word (le_bytes 16 (v16 :: c_ldouble)) = v16"
  by (rule le_word_le_bytes; simp)+

interpretation byte_f: scalar_codec encode_byte decode_byte "le_bytes 1" 1
  by unfold_locales (simp_all add: encode_byte_def decode_byte_def get_bytes_short)

interpretation int_f: scalar_codec encode_int decode_int "le_bytes 4" 4
  by unfold_locales (simp_all add: encode_int_def decode_int_def get_bytes_short)

interpretation uint_f: scalar_codec encode_uint decode_uint "le_bytes 4" 4
  by unfold_locales (simp_all add: encode_uint_def decode_uint_def get_bytes_short)

interpretation ushort_f: scalar_codec encode_ushort decode_ushort "le_bytes 2" 2
  by unfold_locales (simp_all add: encode_ushort_def decode_ushort_def get_bytes_short)

interpretation short_f: scalar_codec encode_short decode_short "le_bytes 2" 2
  by unfold_locales (simp_all add: encode_short_def decode_short_def get_bytes_short)

interpretation long_f: scalar_codec encode_long decode_long "le_bytes 8" 8
  by unfold_locales (simp_all add: encode_long_def decode_long_def get_bytes_short)

interpretation ulong_f: scalar_codec encode_ulong decode_ulong "le_bytes 8" 8
  by unfold_locales (simp_all add: encode_ulong_def decode_ulong_def get_bytes_short)

interpretation llong_f: scalar_codec encode_2long decode_2long "le_bytes 8" 8
  by unfold_locales (simp_all add: encode_2long_def decode_2long_def get_bytes_short)

interpretation ullong_f: scalar_codec encode_u2long decode_u2long "le_bytes 8" 8
  by unfold_locales (simp_all add: encode_u2long_def decode_u2long_def get_bytes_short)

definition ser_bool :: "bool \<Rightarrow> u8 list" where
  "ser_bool b = [if b then 1 else 0]"

lemma length_ser_bool [simp, ser_len]: "length (ser_bool b) = 1"
  by (simp add: ser_bool_def)

interpretation bool_f: scalar_codec encode_bool decode_bool ser_bool 1
  by unfold_locales
    (simp_all add: encode_bool_def decode_bool_def ser_bool_def get_bytes_short get_bytes_def)

interpretation float_f: scalar_codec encode_float decode_float "le_bytes 4" 4
  by unfold_locales (simp_all add: encode_float_def decode_float_def get_bytes_short)

interpretation double_f: scalar_codec encode_double decode_double "le_bytes 8" 8
  by unfold_locales (simp_all add: encode_double_def decode_double_def get_bytes_short)

interpretation ldouble_f: scalar_codec encode_longdouble decode_longdouble "le_bytes 16" 16
  by unfold_locales (simp_all add: encode_longdouble_def decode_longdouble_def get_bytes_short)

lemmas scalar_puts [codec] =
  byte_f.enc_put int_f.enc_put uint_f.enc_put ushort_f.enc_put short_f.enc_put long_f.enc_put
  ulong_f.enc_put llong_f.enc_put ullong_f.enc_put bool_f.enc_put float_f.enc_put
  double_f.enc_put ldouble_f.enc_put

lemmas scalar_decs =
  byte_f.dec_ser int_f.dec_ser uint_f.dec_ser ushort_f.dec_ser short_f.dec_ser long_f.dec_ser
  ulong_f.dec_ser llong_f.dec_ser ullong_f.dec_ser bool_f.dec_ser float_f.dec_ser
  double_f.dec_ser ldouble_f.dec_ser

lemmas scalar_intos [codec] =
  byte_f.into_ser int_f.into_ser uint_f.into_ser ushort_f.into_ser short_f.into_ser
  long_f.into_ser ulong_f.into_ser llong_f.into_ser ullong_f.into_ser bool_f.into_ser
  float_f.into_ser double_f.into_ser ldouble_f.into_ser


subsection \<open>Strings\<close>

text \<open>The bytes that \<open>encode_char\<close> writes: no terminator is sent for an empty string.\<close>

definition ser_str :: "cstr \<Rightarrow> u8 list" where
  "ser_str s = le_bytes 4 (word_of_nat (slen s) :: c_int)
     @ (if slen s = 0 then [] else chars s @ [0])"

text \<open>A string the code can send: terminated, and of a length that fits an \<open>int\<close>.\<close>

definition ok_str :: "cstr \<Rightarrow> bool" where
  "ok_str s = (wf_str s \<and> slen s < 2 ^ 31 - 1)"

lemma length_ser_str [ser_len]:
  "length (ser_str s) = (if slen s = 0 then 4 else slen s + 5)"
  by (simp add: ser_str_def slen_def)

lemma length_ser_str_le: "length (ser_str s) \<le> slen s + 5"
  by (simp add: length_ser_str)

lemma ok_str_simps [simp]: "ok_str None" "ok_str (canon s) \<longleftrightarrow> slen s < 2 ^ 31 - 1"
  by (simp_all add: ok_str_def)

lemma ok_strD: "ok_str s \<Longrightarrow> wf_str s" "ok_str s \<Longrightarrow> slen s < 2 ^ 31 - 1"
  by (simp_all add: ok_str_def)

lemma sint_word_of_small:
  assumes "n < 2 ^ 31"
  shows "sint (word_of_nat n :: c_int) = int n"
proof -
  have "sint (word_of_nat n :: c_int) = signed_take_bit 31 (int n)"
    by (simp add: signed_of_nat)
  also have "\<dots> = int n"
    using assms by (intro signed_take_bit_int_eq_self) auto
  finally show ?thesis .
qed

lemma unat_word_of_small:
  "n < 2 ^ 32 \<Longrightarrow> unat (word_of_nat n :: c_int) = n"
  by (simp add: unat_of_nat take_bit_nat_eq_self)

lemma unat_scast_small:
  assumes "n < 2 ^ 31"
  shows "unat (scast (word_of_nat n :: c_int) :: c_long) = n"
proof -
  have "(scast (word_of_nat n :: c_int) :: c_long) = word_of_int (sint (word_of_nat n :: c_int))"
    by (rule scast_eq)
  also have "\<dots> = word_of_nat n"
    by (simp add: sint_word_of_small [OF assms])
  finally show ?thesis
    using assms by (simp only: unat_of_nat) (simp add: take_bit_nat_eq_self)
qed

lemma strlen_or_zero:
  "wf_str s \<Longrightarrow> (if s = None then Inr 0 else strlen s) = Inr (slen s)"
  by (simp add: strlen_wf)

lemma strlen_ethanol_wf: "wf_str s \<Longrightarrow> strlen_ethanol s = sizeof (slen s + 5)"
  unfolding strlen_ethanol_def by (subst strlen_or_zero) (simp_all add: add.commute)

lemma strcpy_wf:
  assumes "wf_str (Some b)" and "slen (Some b) < length dst"
  shows "strcpy dst b = Inr (chars (Some b) @ [0] @ drop (slen (Some b) + 1) dst)"
  using assms by (simp add: strcpy_def strlen_wf chars_def)

lemma encode_char_put:
  assumes "ok_str s"
  shows "encode_char s = put (ser_str s)"
proof
  fix w :: wcur
  obtain dn room where w: "w = (dn, room)" by (cases w)
  have wf: "wf_str s" and small: "slen s < 2 ^ 31"
    using assms by (auto simp: ok_str_def)
  let ?l = "le_bytes 4 (word_of_nat (slen s) :: c_int)"
  have sint: "sint (word_of_nat (slen s) :: c_int) = int (slen s)"
    using small by (rule sint_word_of_small)
  have head: "encode_char s w = and_then (put ?l w) (\<lambda>w'.
       if 0 < slen s then
         and_then (strcpy (snd w') (case s of None \<Rightarrow> [] | Some b \<Rightarrow> b)) (\<lambda>room.
           Inr (fst w' @ take (slen s + 1) room, drop (slen s + 1) room))
       else Inr w')"
    unfolding encode_char_def strlen_or_zero [OF wf] by (simp add: sint encode_int_def Let_def cong: if_cong)
  show "encode_char s w = put (ser_str s) w"
  proof (cases "slen s = 0")
    case True
    then have "encode_char s w = and_then (put ?l w) Inr"
      unfolding head by simp
    with True show ?thesis
      by (cases "put ?l w") (simp_all add: ser_str_def)
  next
    case False
    then obtain b where s: "s = Some b"
      by (cases s) (auto simp: slen_def)
    show ?thesis
    proof (cases "length room < slen s + 5")
      case True
      then have "put (ser_str s) w = Inl Write_Out_Of_Bounds"
        using False by (simp add: w put_overflow length_ser_str)
      moreover have "encode_char s w = Inl Write_Out_Of_Bounds"
        unfolding head using True False wf
        by (auto simp: w s put_def strcpy_def strlen_wf)
      ultimately show ?thesis by simp
    next
      case room: False
      then have "strcpy (drop 4 room) b = Inr (chars s @ [0] @ drop (slen s + 5) room)"
        using wf by (subst strcpy_wf) (auto simp: s add.commute)
      then show ?thesis
        unfolding head using False room
        by (simp add: w s ser_str_def) (simp add: slen_def add.commute)
    qed
  qed
qed

lemma strncpy_terminated:
  assumes "0 \<notin> set cs" and "length cs < n"
  shows "strncpy (cs @ 0 # r) n = Inr (cs @ replicate (n - length cs) 0)"
proof -
  have "str_chars (take n (cs @ 0 # r)) = cs"
    using assms by (cases "n - length cs") simp_all
  then show ?thesis
    using assms by (simp add: strncpy_def)
qed

lemma decode_char_ser:
  assumes "ok_str s"
  shows "decode_char (ser_str s @ r) = Inr (canon s, r)"
proof (cases "slen s = 0")
  case True
  then show ?thesis
    by (simp add: ser_str_def decode_char_def uint_f.dec_ser canon_def slen_def)
next
  case False
  let ?l = "word_of_nat (slen s) :: c_int"
  have small: "slen s + 1 < 2 ^ 32"
    using assms by (simp add: ok_str_def)
  have nz: "?l \<noteq> 0"
    using False small by (metis add_lessD1 unat_0 unat_word_of_small)
  have "?l + 1 = word_of_nat (slen s + 1)"
    by simp
  then have len: "unat (?l + 1) = slen s + 1"
    using small unat_word_of_small by metis
  have "strncpy (chars s @ [0] @ r) (slen s + 1) = Inr (chars s @ [0])"
    by (simp add: slen_def strncpy_terminated chars_no_zero)
  moreover have "canon s = Some (chars s @ [0])"
    using False by (simp add: canon_def slen_def)
  ultimately show ?thesis
    using False nz by (simp add: ser_str_def decode_char_def uint_f.dec_ser len Let_def)
      (simp add: slen_def)
qed

lemma into_char_ser [codec]:
  "ok_str s \<Longrightarrow> into decode_char upd (ser_str s @ r, h) = Inr (r, upd (\<lambda>_. canon s) h)"
  by (rule into_ok) (rule decode_char_ser)


subsection \<open>The header\<close>

lemma ETHANOL_VERSION_simps [simp]:
  "chars ETHANOL_VERSION = version_chars" "slen ETHANOL_VERSION = 5"
  "canon ETHANOL_VERSION = ETHANOL_VERSION" "wf_str ETHANOL_VERSION" "ok_str ETHANOL_VERSION"
  "ETHANOL_VERSION \<noteq> None"
  by (simp_all add: ETHANOL_VERSION_def version_chars_def canon_def slen_def ok_str_def
      wf_str_def chars_def str_chars_def)

definition ser_header :: "c_int \<Rightarrow> c_int \<Rightarrow> c_int \<Rightarrow> u8 list" where
  "ser_header t i n = le_bytes 4 t @ le_bytes 4 i @ ser_str ETHANOL_VERSION @ le_bytes 4 n"

lemma length_ser_header [simp, ser_len]: "length (ser_header t i n) = 22"
  by (simp add: ser_header_def length_ser_str)

lemma run_prog_puts:
  "run_prog (map put bss) (dn, room) =
     (if length (concat bss) \<le> length room
      then Inr (dn @ concat bss, drop (length (concat bss)) room)
      else Inl Write_Out_Of_Bounds)"
proof (induction bss arbitrary: dn room)
  case Nil
  then show ?case by simp
next
  case (Cons bs bss)
  show ?case
  proof (cases "length bs \<le> length room")
    case True
    then show ?thesis
      using Cons.IH [of "dn @ bs" "drop (length bs) room"] by (auto simp: add.commute)
  next
    case False
    then show ?thesis by (simp add: put_overflow)
  qed
qed

lemma encode_header_put [codec]: "encode_header t i n = put (ser_header t i n)"
proof
  fix w :: wcur
  obtain dn room where w: "w = (dn, room)" by (cases w)
  have "encode_header t i n = run_prog (map put
      [le_bytes 4 t, le_bytes 4 i, ser_str ETHANOL_VERSION, le_bytes 4 n])"
    by (simp add: encode_header_def encode_char_put int_f.enc_put)
  then show "encode_header t i n w = put (ser_header t i n) w"
    by (simp only: w run_prog_puts put_def ser_header_def) simp
qed

lemma decode_header_ser [codec]:
  "decode_header (ser_header t i n @ r, h) =
     Inr (r, h\<lparr>m_type := t, m_id := i, p_version := ETHANOL_VERSION, m_size := n\<rparr>)"
  by (simp add: decode_header_def ser_header_def int_f.into_ser into_char_ser)

lemma return_message_type_ser [codec]: "return_message_type (ser_header t i n @ r) = Inr t"
  by (simp add: return_message_type_def ser_header_def int_f.dec_ser)


text \<open>
  C11 Round trip of a string field: \<open>encode_char\<close> appends bytes, no more than \<open>strlen_ethanol\<close> counts,
  from which \<open>decode_char\<close> reads the string back, whatever follows them; the empty string
  comes back as \<open>NULL\<close>.
\<close>

theorem string_roundtrip:
  assumes "ok_str s" "slen s + 5 \<le> length room"
  shows "\<exists>bs room'. encode_char s (dn, room) = Inr (dn @ bs, room') \<and> length bs \<le> slen s + 5 \<and>
    (\<forall>r. decode_char (bs @ r) = Inr (canon s, r))"
  by (rule exI [of _ "ser_str s"], rule exI [of _ "drop (length (ser_str s)) room"])
    (use assms in \<open>simp add: encode_char_put decode_char_ser length_ser_str\<close>)

theorem string_roundtrip_witness:
  "\<exists>bs room'. encode_char (Some [0x77, 0]) ([1], replicate 8 0) = Inr ([1] @ bs, room') \<and>
    length bs \<le> 6 \<and> (\<forall>r. decode_char (bs @ r) = Inr (Some [0x77, 0], r))"
proof -
  have "slen (Some [0x77, 0]) = 1" "wf_str (Some [0x77, 0])" "canon (Some [0x77, 0]) = Some [0x77, 0]"
    by code_simp+
  then show ?thesis
    using string_roundtrip [of "Some [0x77, 0]" "replicate 8 0" "[1]"] by (simp add: ok_str_def)
qed

text \<open>
  C28 The strings that a peer sends.  What \<open>decode_char\<close> stores is a C string, with a terminator inside its
  block, exactly when the peer put a zero among the bytes it announced: the block has one byte for
  each of them and \<open>strncpy\<close> adds no terminator of its own.  With the length \<open>0xFFFFFFFF\<close> the block is
  empty.
\<close>

theorem decoded_string_type:
  fixes n :: c_int
  assumes "decode_char (le_bytes 4 n @ r) = Inr (s, r')"
  shows "wf_str s \<longleftrightarrow> n = 0 \<or> 0 \<in> set (take (unat (n + 1)) r)"
proof (cases "n = 0")
  case True
  then show ?thesis
    using assms by (simp add: decode_char_def uint_f.dec_ser)
next
  case False
  let ?k = "unat (n + 1)"
  let ?cs = "str_chars (take ?k r)"
  obtain b where b: "strncpy r ?k = Inr b" "s = Some b"
    using assms False by (auto simp: decode_char_def uint_f.dec_ser and_then_eq_Inr Let_def)
  have z: "0 \<in> set (take ?k r) \<longleftrightarrow> length ?cs < length (take ?k r)"
    unfolding str_chars_def
    by (metis (mono_tags, lifting) length_takeWhile_le linorder_neqE_nat not_less takeWhile_eq_all_conv
        takeWhile_eq_take take_all_iff order_refl)
  have "0 \<notin> set ?cs"
    by (auto simp: str_chars_def dest: set_takeWhileD)
  then show ?thesis
    using b False z by (auto simp: strncpy_def wf_str_def Let_def split: if_splits)
qed

theorem decoded_string_type_witness:
  "decode_char (le_bytes 4 (2 :: c_int) @ [0x77, 0x78, 0x79, 0]) = Inr (Some [0x77, 0x78, 0x79], [0])
   \<and> \<not> wf_str (Some [0x77, 0x78, 0x79])"
proof -
  have d: "decode_char (le_bytes 4 (2 :: c_int) @ [0x77, 0x78, 0x79, 0]) = Inr (Some [0x77, 0x78, 0x79], [0])"
    by code_simp
  then show ?thesis
    using decoded_string_type [OF d] by simp
qed

end
