(* ===== verification/Strings.thy ===== *)
theory Strings
  imports Buffer
begin

section \<open>String helpers (\<open>ethanol_functions/utils_str.c\<close>)\<close>

text \<open>
  \<open>copy_string\<close> duplicates a string into a fresh block, \<open>trim_string\<close> gives a trimmed copy.

  The block that \<open>malloc (n)\<close> returns is a parameter of the model: \<open>mal n\<close> is its content, of
  unspecified bytes.  What C promises of it is \<open>allocates\<close>: at least \<open>n\<close> bytes are usable.

  \<open>copy_string\<close> asks for \<open>strlen (orig + 1)\<close> bytes, one less than the length of the string,
  and \<open>strcpy\<close> then writes two bytes more than that: the theorems below give exactly when the copy
  stays inside the block.
\<close>

type_synonym allocator = "nat \<Rightarrow> u8 list"

definition allocates :: "allocator \<Rightarrow> bool" where
  "allocates mal \<longleftrightarrow> (\<forall>n. n \<le> length (mal n))"

text \<open>A concrete allocator for the witnesses: every block has two bytes more than asked for.\<close>

definition demo_alloc :: allocator where
  "demo_alloc n = replicate (n + 2) 0"

lemma allocates_demo_alloc: "allocates demo_alloc"
  by (simp add: allocates_def demo_alloc_def)

definition copy_string :: "allocator \<Rightarrow> cstr \<Rightarrow> fault + cstr" where
  "copy_string mal orig = (case orig of
       None \<Rightarrow> Inr None
     | Some b \<Rightarrow>
         and_then (strlen (Some (drop 1 b))) (\<lambda>n.
         and_then (strcpy (mal n) b) (\<lambda>d. Inr (Some d))))"

text \<open>The two scanning loops of \<open>trim_string\<close>, on the characters of the string.\<close>

definition is_blank_left :: "u8 \<Rightarrow> bool" where
  "is_blank_left c \<longleftrightarrow> c = 0x20 \<or> c = 0x09"

definition is_blank_right :: "u8 \<Rightarrow> bool" where
  "is_blank_right c \<longleftrightarrow> c = 0x20 \<or> c = 0x09 \<or> c = 0x0A"

function trim_first :: "u8 list \<Rightarrow> nat \<Rightarrow> nat" where
  "trim_first cs i = (if i < length cs \<and> is_blank_left (cs ! i) then trim_first cs (Suc i) else i)"
  by pat_completeness auto
termination by (relation "measure (\<lambda>(cs, i). length cs - i)") auto

fun trim_last :: "u8 list \<Rightarrow> int \<Rightarrow> nat \<Rightarrow> int" where
  "trim_last cs i 0 = -1"
| "trim_last cs i (Suc f) =
     (if i \<le> int f \<and> is_blank_right (cs ! f) then trim_last cs i f else int f)"

text \<open>
  \<open>f\<close> starts at \<open>strlen (s) - 1\<close> (here the number of characters left, \<open>f + 1\<close>) and stops below
  \<open>i\<close> at the latest; the copy of \<open>tam\<close> characters gets a block of \<open>tam + 1\<close> bytes.
\<close>

definition trim_string :: "cstr \<Rightarrow> fault + cstr" where
  "trim_string s = (case s of
       None \<Rightarrow> Inr None
     | Some b \<Rightarrow> and_then (strlen s) (\<lambda>n.
         let i = trim_first (take n b) 0; f = trim_last (take n b) (int i) n in
         if int i \<le> f then
           (let tam = nat (f - int i + 1) in
            and_then (strncpy (drop i b) tam) (\<lambda>r. Inr (Some (r @ [0]))))
         else Inr None))"

declare trim_first.simps [simp del]


subsection \<open>\<open>copy_string\<close>\<close>

lemma strlen_tail:
  assumes "wf_str (Some b)" and "0 < slen (Some b)"
  shows "strlen (Some (drop 1 b)) = Inr (slen (Some b) - 1)"
  using assms by (cases b) (auto simp: wf_str_def strlen_def slen_def chars_def str_chars_def)

lemma copy_string_wf:
  assumes "wf_str s" and "0 < slen s" and "slen s < length (mal (slen s - 1))"
  shows "copy_string mal s = Inr (Some (chars s @ 0 # drop (slen s + 1) (mal (slen s - 1))))"
proof -
  obtain b where s: "s = Some b"
    using assms by (cases s) auto
  have "strlen (Some (drop 1 b)) = Inr (slen s - 1)"
    using strlen_tail assms s by metis
  then show ?thesis
    using assms by (simp add: s copy_string_def strcpy_wf)
qed

lemma copy_string_overflow:
  assumes "wf_str s" and "0 < slen s" and "length (mal (slen s - 1)) \<le> slen s"
  shows "copy_string mal s = Inl Write_Out_Of_Bounds"
proof -
  obtain b where s: "s = Some b"
    using assms by (cases s) auto
  have "strlen (Some (drop 1 b)) = Inr (slen s - 1)"
    using strlen_tail assms s by metis
  then show ?thesis
    using assms by (simp add: s copy_string_def strcpy_def strlen_wf)
qed

text \<open>The strings that \<open>copy_string\<close> copies without leaving the block.\<close>

definition copyable :: "allocator \<Rightarrow> cstr \<Rightarrow> bool" where
  "copyable mal s \<longleftrightarrow> s = None \<or>
     wf_str s \<and> 0 < slen s \<and> slen s < length (mal (slen s - 1)) \<and> slen s < 2 ^ 31 - 1"

lemma copyable_None [simp]: "copyable mal None"
  by (simp add: copyable_def)

lemma copyable_ok_str: "copyable mal s \<Longrightarrow> ok_str s"
  by (auto simp: copyable_def ok_str_def)

lemma copy_string_copyable:
  assumes "copyable mal s"
  obtains d where "copy_string mal s = Inr d" and "canon d = canon s" and "ok_str d"
    and "chars d = chars s" and "d = None \<longleftrightarrow> s = None"
proof (cases s)
  case None
  then show ?thesis using that [of None] by (simp add: copy_string_def)
next
  case (Some b)
  let ?d = "Some (chars s @ 0 # drop (slen s + 1) (mal (slen s - 1)))"
  have c: "wf_str s" "0 < slen s" "slen s < length (mal (slen s - 1))" "slen s < 2 ^ 31 - 1"
    using assms Some by (simp_all add: copyable_def)
  have d: "chars ?d = chars s"
    by (simp add: chars_no_zero)
  then have "slen ?d = slen s"
    by (simp add: slen_def)
  with c d show ?thesis
    using that [of ?d] copy_string_wf [of s mal] Some
    by (simp add: ok_str_def canon_def)
qed

text \<open>The copy that \<open>copy_string\<close> makes of a copyable string.\<close>

definition dup :: "allocator \<Rightarrow> cstr \<Rightarrow> cstr" where
  "dup mal s = (case copy_string mal s of Inr d \<Rightarrow> d | Inl _ \<Rightarrow> None)"

lemma dup_simps [simp]:
  assumes "copyable mal s"
  shows "copy_string mal s = Inr (dup mal s)" and "canon (dup mal s) = canon s"
    and "ok_str (dup mal s)" and "chars (dup mal s) = chars s" and "slen (dup mal s) = slen s"
    and "dup mal s = None \<longleftrightarrow> s = None"
proof -
  obtain d where d: "copy_string mal s = Inr d" "canon d = canon s" "ok_str d" "chars d = chars s"
      "d = None \<longleftrightarrow> s = None"
    using copy_string_copyable [OF assms] .
  then have "dup mal s = d"
    by (simp add: dup_def)
  with d show "copy_string mal s = Inr (dup mal s)" and "canon (dup mal s) = canon s"
    and "ok_str (dup mal s)" and "chars (dup mal s) = chars s" and "slen (dup mal s) = slen s"
    and "dup mal s = None \<longleftrightarrow> s = None"
    by (simp_all add: slen_def)
qed


lemma copyable_dup: "copyable mal s \<Longrightarrow> copyable mal (dup mal s)"
  using dup_simps(3,5,6) [of mal s] by (auto simp: copyable_def ok_str_def)


subsection \<open>\<open>trim_string\<close>\<close>

text \<open>The specification: blanks in front and blanks or newlines at the end are dropped.\<close>

definition trim_end :: "u8 list \<Rightarrow> u8 list" where
  "trim_end cs = rev (dropWhile is_blank_right (rev cs))"

definition trimmed :: "u8 list \<Rightarrow> u8 list" where
  "trimmed cs = trim_end (dropWhile is_blank_left cs)"

lemma trim_first_takeWhile:
  "trim_first cs i = i + length (takeWhile is_blank_left (drop i cs))"
proof (induction cs i rule: trim_first.induct)
  case (1 cs i)
  show ?case
  proof (cases "i < length cs \<and> is_blank_left (cs ! i)")
    case True
    then have "drop i cs = cs ! i # drop (Suc i) cs"
      by (simp add: Cons_nth_drop_Suc)
    then show ?thesis
      using True 1 by (subst trim_first.simps) simp
  next
    case False
    then have "takeWhile is_blank_left (drop i cs) = []"
      using Cons_nth_drop_Suc [of i cs] by (cases "i < length cs") (auto simp flip: Cons_nth_drop_Suc)
    then show ?thesis
      using False by (subst trim_first.simps) auto
  qed
qed

lemma trim_last_trim_end:
  "i \<le> n \<Longrightarrow> n \<le> length cs \<Longrightarrow>
   trim_last cs (int i) n = int i + int (length (trim_end (drop i (take n cs)))) - 1"
proof (induction n)
  case 0
  then show ?case by (simp add: trim_end_def)
next
  case (Suc f)
  show ?case
  proof (cases "i = Suc f")
    case True
    then show ?thesis by (simp add: trim_end_def)
  next
    case False
    then have "drop i (take (Suc f) cs) = drop i (take f cs) @ [cs ! f]"
      using Suc.prems by (simp add: take_Suc_conv_app_nth)
    then show ?thesis
      using Suc False by (auto simp: trim_end_def)
  qed
qed

lemma trim_end_prefix: "\<exists>r. cs = trim_end cs @ r"
  unfolding trim_end_def
  by (metis rev_append rev_rev_ident takeWhile_dropWhile_id)

text \<open>
  \<open>trim_string\<close> gives a fresh string with the characters of its argument without the blanks
  in front and the blanks and newlines at the end, and \<open>NULL\<close> when nothing remains.
\<close>

theorem trim_string_correct:
  assumes "wf_str (Some b)"
  shows "trim_string (Some b) = Inr (if trimmed (chars (Some b)) = [] then None
    else Some (trimmed (chars (Some b)) @ [0]))"
proof -
  let ?cs = "chars (Some b)"
  let ?i = "length (takeWhile is_blank_left ?cs)"
  let ?w = "drop ?i ?cs"
  have n: "strlen (Some b) = Inr (length ?cs)"
    using assms by (simp add: strlen_wf slen_def)
  obtain r where b: "b = ?cs @ 0 # r"
    using assms by (metis chars_def option.simps(5) split_list_first str_chars_append wf_str_def)
  then have tk: "take (length ?cs) b = ?cs"
    by (metis append_eq_conv_conj)
  have i: "trim_first ?cs 0 = ?i"
    by (simp add: trim_first_takeWhile)
  have w: "?w = dropWhile is_blank_left ?cs"
    by (simp add: dropWhile_eq_drop)
  have f: "trim_last ?cs (int ?i) (length ?cs) = int ?i + int (length (trim_end ?w)) - 1"
    by (simp add: trim_last_trim_end length_takeWhile_le)
  obtain s where s: "?w = trim_end ?w @ s"
    using trim_end_prefix by blast
  have "drop ?i b = ?w @ 0 # r"
    using b length_takeWhile_le [of is_blank_left ?cs] by (metis drop_append drop_0 diff_is_0_eq)
  then have d: "drop ?i b = trim_end ?w @ s @ 0 # r"
    using s by (metis append.assoc)
  have nz: "0 \<notin> set (trim_end ?w)"
    using chars_no_zero [of "Some b"] s by (metis Un_iff in_set_dropD set_append)
  have "strncpy (drop ?i b) (length (trim_end ?w)) = Inr (trim_end ?w)"
    unfolding d using nz by (simp add: strncpy_def str_chars_id)
  then show ?thesis
    by (simp add: trim_string_def n tk i f trimmed_def w [symmetric] Let_def)
qed

theorem trim_string_correct_witness:
  "trim_string (Some [0x20, 0x41, 0x20, 0x0A, 0]) = Inr (Some [0x41, 0])"
proof -
  have "chars (Some [0x20, 0x41, 0x20, 0x0A, 0]) = [0x20, 0x41, 0x20, 0x0A]"
    by code_simp
  moreover have "trimmed [0x20, 0x41, 0x20, 0x0A] = [0x41]"
    by code_simp
  ultimately show ?thesis
    using trim_string_correct [of "[0x20, 0x41, 0x20, 0x0A, 0]"] by (simp add: wf_str_def)
qed

text \<open>
  \<open>copy_string\<close> of a non-empty string fits into the block it allocates exactly when \<open>malloc\<close> hands
  out at least two bytes more than it was asked for; otherwise it writes past the end of the
  block.
\<close>

theorem copy_string_fits:
  assumes "wf_str s" "0 < slen s"
  shows "copy_string mal s = (if slen s - 1 + 2 \<le> length (mal (slen s - 1))
    then Inr (Some (chars s @ 0 # drop (slen s + 1) (mal (slen s - 1)))) else Inl Write_Out_Of_Bounds)"
  using copy_string_wf [OF assms, of mal] copy_string_overflow [OF assms, of mal] assms(2) by auto

theorem copy_string_fits_witness:
  "copy_string (\<lambda>n. replicate n 0) (Some [0x77, 0]) = Inl Write_Out_Of_Bounds"
proof -
  have "slen (Some [0x77, 0]) = 1" "wf_str (Some [0x77, 0])"
    by code_simp+
  then show ?thesis
    using copy_string_fits [of "Some [0x77, 0]" "\<lambda>n. replicate n 0"] by simp
qed

end
