(* ===== verification/Msg_Types.thy ===== *)
theory Msg_Types
  imports Buffer
begin

section \<open>Message types and error codes (\<open>messaging/msg_common.h\<close>)\<close>

text \<open>
  The enumeration constants of \<open>enum Enum_msg_type\<close> and \<open>enum Enum_msg_error_type\<close> are \<open>int\<close>
  values counted from 0 in the order of the header file.  The list \<open>Enum_msg_type\<close> is that order;
  a constant equals its position in it, so no two message types collide.
\<close>

abbreviation MSG_HELLO_TYPE :: c_int where "MSG_HELLO_TYPE \<equiv> 0"
abbreviation MSG_BYE_TYPE :: c_int where "MSG_BYE_TYPE \<equiv> 1"
abbreviation MSG_ERR_TYPE :: c_int where "MSG_ERR_TYPE \<equiv> 2"
abbreviation MSG_PING :: c_int where "MSG_PING \<equiv> 3"
abbreviation MSG_PONG :: c_int where "MSG_PONG \<equiv> 4"
abbreviation MSG_GET_MAC :: c_int where "MSG_GET_MAC \<equiv> 5"
abbreviation MSG_GET_ONE_INTF :: c_int where "MSG_GET_ONE_INTF \<equiv> 6"
abbreviation MSG_GET_ALL_INTF :: c_int where "MSG_GET_ALL_INTF \<equiv> 7"
abbreviation MSG_GET_AP_IN_RANGE_TYPE :: c_int where "MSG_GET_AP_IN_RANGE_TYPE \<equiv> 8"
abbreviation MSG_ENABLE_ASSOC_MSG :: c_int where "MSG_ENABLE_ASSOC_MSG \<equiv> 9"
abbreviation MSG_ASSOCIATION :: c_int where "MSG_ASSOCIATION \<equiv> 10"
abbreviation MSG_DISASSOCIATION :: c_int where "MSG_DISASSOCIATION \<equiv> 11"
abbreviation MSG_REASSOCIATION :: c_int where "MSG_REASSOCIATION \<equiv> 12"
abbreviation MSG_AUTHORIZATION :: c_int where "MSG_AUTHORIZATION \<equiv> 13"
abbreviation MSG_USER_DISCONNECTING :: c_int where "MSG_USER_DISCONNECTING \<equiv> 14"
abbreviation MSG_USER_CONNECTING :: c_int where "MSG_USER_CONNECTING \<equiv> 15"
abbreviation MSG_QUEUE_CREATE :: c_int where "MSG_QUEUE_CREATE \<equiv> 16"
abbreviation MSG_QUEUE_CLEAR :: c_int where "MSG_QUEUE_CLEAR \<equiv> 17"
abbreviation MSG_QUEUE_DESTROY :: c_int where "MSG_QUEUE_DESTROY \<equiv> 18"
abbreviation MSG_QUEUE_DESTROY_ALL :: c_int where "MSG_QUEUE_DESTROY_ALL \<equiv> 19"
abbreviation MSG_QUEUE_CONFIG :: c_int where "MSG_QUEUE_CONFIG \<equiv> 20"
abbreviation MSG_SHOW_PORTS :: c_int where "MSG_SHOW_PORTS \<equiv> 21"
abbreviation MSG_INFORM_BEACON :: c_int where "MSG_INFORM_BEACON \<equiv> 22"
abbreviation MSG_REQUEST_BEACON :: c_int where "MSG_REQUEST_BEACON \<equiv> 23"
abbreviation MSG_GET_PREAMBLE :: c_int where "MSG_GET_PREAMBLE \<equiv> 24"
abbreviation MSG_SET_PREAMBLE :: c_int where "MSG_SET_PREAMBLE \<equiv> 25"
abbreviation MSG_GET_QUEUEDISCIPLINE :: c_int where "MSG_GET_QUEUEDISCIPLINE \<equiv> 26"
abbreviation MSG_SET_QUEUEDISCIPLINE :: c_int where "MSG_SET_QUEUEDISCIPLINE \<equiv> 27"
abbreviation MSG_GET_SUPPORTEDINTERFACE :: c_int where "MSG_GET_SUPPORTEDINTERFACE \<equiv> 28"
abbreviation MSG_GET_INTERFERENCEMAP :: c_int where "MSG_GET_INTERFERENCEMAP \<equiv> 29"
abbreviation MSG_GET_AP_SSID :: c_int where "MSG_GET_AP_SSID \<equiv> 30"
abbreviation MSG_GET_AP_BROADCASTSSID :: c_int where "MSG_GET_AP_BROADCASTSSID \<equiv> 31"
abbreviation MSG_SET_AP_BROADCASTSSID :: c_int where "MSG_SET_AP_BROADCASTSSID \<equiv> 32"
abbreviation MSG_GET_AP_CAC :: c_int where "MSG_GET_AP_CAC \<equiv> 33"
abbreviation MSG_SET_AP_CAC :: c_int where "MSG_SET_AP_CAC \<equiv> 34"
abbreviation MSG_GET_AP_FRAMEBURSTENABLED :: c_int where "MSG_GET_AP_FRAMEBURSTENABLED \<equiv> 35"
abbreviation MSG_SET_AP_FRAMEBURSTENABLED :: c_int where "MSG_SET_AP_FRAMEBURSTENABLED \<equiv> 36"
abbreviation MSG_GET_AP_GUARDINTERVAL :: c_int where "MSG_GET_AP_GUARDINTERVAL \<equiv> 37"
abbreviation MSG_SET_AP_GUARDINTERVAL :: c_int where "MSG_SET_AP_GUARDINTERVAL \<equiv> 38"
abbreviation MSG_GET_AP_DTIMINTERVAL :: c_int where "MSG_GET_AP_DTIMINTERVAL \<equiv> 39"
abbreviation MSG_SET_AP_DTIMINTERVAL :: c_int where "MSG_SET_AP_DTIMINTERVAL \<equiv> 40"
abbreviation MSG_GET_AP_CTSPROTECTION_ENABLED :: c_int where "MSG_GET_AP_CTSPROTECTION_ENABLED \<equiv> 41"
abbreviation MSG_SET_AP_CTSPROTECTION_ENABLED :: c_int where "MSG_SET_AP_CTSPROTECTION_ENABLED \<equiv> 42"
abbreviation MSG_GET_AP_RTSTHRESHOLD :: c_int where "MSG_GET_AP_RTSTHRESHOLD \<equiv> 43"
abbreviation MSG_SET_AP_RTSTHRESHOLD :: c_int where "MSG_SET_AP_RTSTHRESHOLD \<equiv> 44"
abbreviation MSG_SET_AP_SSID :: c_int where "MSG_SET_AP_SSID \<equiv> 45"
abbreviation MSG_GET_AP_ENABLED :: c_int where "MSG_GET_AP_ENABLED \<equiv> 46"
abbreviation MSG_SET_AP_ENABLED :: c_int where "MSG_SET_AP_ENABLED \<equiv> 47"
abbreviation MSG_VAP_CREATE :: c_int where "MSG_VAP_CREATE \<equiv> 48"
abbreviation MSG_SET_CONF_SSID_RADIO :: c_int where "MSG_SET_CONF_SSID_RADIO \<equiv> 49"
abbreviation MSG_DISCONNECT_USER :: c_int where "MSG_DISCONNECT_USER \<equiv> 50"
abbreviation MSG_DEAUTHENTICATE_USER :: c_int where "MSG_DEAUTHENTICATE_USER \<equiv> 51"
abbreviation MSG_PROGRAM_PROBE_REQUEST :: c_int where "MSG_PROGRAM_PROBE_REQUEST \<equiv> 52"
abbreviation MSG_PROBERECEIVED :: c_int where "MSG_PROBERECEIVED \<equiv> 53"
abbreviation MSG_MGMTFRAME_REGISTER :: c_int where "MSG_MGMTFRAME_REGISTER \<equiv> 54"
abbreviation MSG_MGMTFRAME_UNREGISTER :: c_int where "MSG_MGMTFRAME_UNREGISTER \<equiv> 55"
abbreviation MSG_MGMTFRAME :: c_int where "MSG_MGMTFRAME \<equiv> 56"
abbreviation MSG_REQUEST_BEGIN_ASSOCIATION :: c_int where "MSG_REQUEST_BEGIN_ASSOCIATION \<equiv> 57"
abbreviation MSG_REQUEST_STATION_REASSOCIATE :: c_int where "MSG_REQUEST_STATION_REASSOCIATE \<equiv> 58"
abbreviation MSG_GET_ROUTES :: c_int where "MSG_GET_ROUTES \<equiv> 59"
abbreviation MSG_GET_VALIDCHANNELS :: c_int where "MSG_GET_VALIDCHANNELS \<equiv> 60"
abbreviation MSG_SET_CURRENTCHANNEL :: c_int where "MSG_SET_CURRENTCHANNEL \<equiv> 61"
abbreviation MSG_GET_CURRENTCHANNEL :: c_int where "MSG_GET_CURRENTCHANNEL \<equiv> 62"
abbreviation MSG_GET_FREQUENCY :: c_int where "MSG_GET_FREQUENCY \<equiv> 63"
abbreviation MSG_SET_FREQUENCY :: c_int where "MSG_SET_FREQUENCY \<equiv> 64"
abbreviation MSG_GET_BEACON_INTERVAL :: c_int where "MSG_GET_BEACON_INTERVAL \<equiv> 65"
abbreviation MSG_SET_BEACON_INTERVAL :: c_int where "MSG_SET_BEACON_INTERVAL \<equiv> 66"
abbreviation MSG_GET_TX_BITRATES :: c_int where "MSG_GET_TX_BITRATES \<equiv> 67"
abbreviation MSG_SET_TX_BITRATES :: c_int where "MSG_SET_TX_BITRATES \<equiv> 68"
abbreviation MSG_GET_TX_BITRATE :: c_int where "MSG_GET_TX_BITRATE \<equiv> 69"
abbreviation MSG_GET_POWERSAVEMODE :: c_int where "MSG_GET_POWERSAVEMODE \<equiv> 70"
abbreviation MSG_SET_POWERSAVEMODE :: c_int where "MSG_SET_POWERSAVEMODE \<equiv> 71"
abbreviation MSG_GET_FRAGMENTATIONTHRESHOLD :: c_int where "MSG_GET_FRAGMENTATIONTHRESHOLD \<equiv> 72"
abbreviation MSG_SET_FRAGMENTATIONTHRESHOLD :: c_int where "MSG_SET_FRAGMENTATIONTHRESHOLD \<equiv> 73"
abbreviation MSG_GET_CHANNELBANDWITDH :: c_int where "MSG_GET_CHANNELBANDWITDH \<equiv> 74"
abbreviation MSG_SET_CHANNELBANDWITDH :: c_int where "MSG_SET_CHANNELBANDWITDH \<equiv> 75"
abbreviation MSG_GET_CHANNELINFO :: c_int where "MSG_GET_CHANNELINFO \<equiv> 76"
abbreviation MSG_WLAN_INFO :: c_int where "MSG_WLAN_INFO \<equiv> 77"
abbreviation MSG_GET_RADIO_WLANS :: c_int where "MSG_GET_RADIO_WLANS \<equiv> 78"
abbreviation MSG_GET_RADIO_LINKSTATISTICS :: c_int where "MSG_GET_RADIO_LINKSTATISTICS \<equiv> 79"
abbreviation MSG_GET_IPV4_ADDRESS :: c_int where "MSG_GET_IPV4_ADDRESS \<equiv> 80"
abbreviation MSG_SET_IPV4_ADDRESS :: c_int where "MSG_SET_IPV4_ADDRESS \<equiv> 81"
abbreviation MSG_GET_IPV6_ADDRESS :: c_int where "MSG_GET_IPV6_ADDRESS \<equiv> 82"
abbreviation MSG_SET_IPV6_ADDRESS :: c_int where "MSG_SET_IPV6_ADDRESS \<equiv> 83"
abbreviation MSG_GET_802_11E_ENABLED :: c_int where "MSG_GET_802_11E_ENABLED \<equiv> 84"
abbreviation MSG_GET_FASTBSSTRANSITION_COMPATIBLE :: c_int where "MSG_GET_FASTBSSTRANSITION_COMPATIBLE \<equiv> 85"
abbreviation MSG_GET_BYTESRECEIVED :: c_int where "MSG_GET_BYTESRECEIVED \<equiv> 86"
abbreviation MSG_GET_BYTESSENT :: c_int where "MSG_GET_BYTESSENT \<equiv> 87"
abbreviation MSG_GET_PACKETSRECEIVED :: c_int where "MSG_GET_PACKETSRECEIVED \<equiv> 88"
abbreviation MSG_GET_PACKETSSENT :: c_int where "MSG_GET_PACKETSSENT \<equiv> 89"
abbreviation MSG_GET_PACKETSLOST :: c_int where "MSG_GET_PACKETSLOST \<equiv> 90"
abbreviation MSG_GET_JITTER :: c_int where "MSG_GET_JITTER \<equiv> 91"
abbreviation MSG_GET_DELAY :: c_int where "MSG_GET_DELAY \<equiv> 92"
abbreviation MSG_GET_TXPOWER :: c_int where "MSG_GET_TXPOWER \<equiv> 93"
abbreviation MSG_SET_TXPOWER :: c_int where "MSG_SET_TXPOWER \<equiv> 94"
abbreviation MSG_GET_SNR :: c_int where "MSG_GET_SNR \<equiv> 95"
abbreviation MSG_GET_QUALITY :: c_int where "MSG_GET_QUALITY \<equiv> 96"
abbreviation MSG_GET_UPTIME :: c_int where "MSG_GET_UPTIME \<equiv> 97"
abbreviation MSG_GET_RETRIES :: c_int where "MSG_GET_RETRIES \<equiv> 98"
abbreviation MSG_GET_FAILED :: c_int where "MSG_GET_FAILED \<equiv> 99"
abbreviation MSG_GET_APSINRANGE :: c_int where "MSG_GET_APSINRANGE \<equiv> 100"
abbreviation MSG_GET_BEACONINFO :: c_int where "MSG_GET_BEACONINFO \<equiv> 101"
abbreviation MSG_GET_NOISEINFO :: c_int where "MSG_GET_NOISEINFO \<equiv> 102"
abbreviation MSG_GET_LINKMEASUREMENT :: c_int where "MSG_GET_LINKMEASUREMENT \<equiv> 103"
abbreviation MSG_GET_STATISTICS :: c_int where "MSG_GET_STATISTICS \<equiv> 104"
abbreviation MSG_GET_LOCATION :: c_int where "MSG_GET_LOCATION \<equiv> 105"
abbreviation MSG_TRIGGER_TRANSITION :: c_int where "MSG_TRIGGER_TRANSITION \<equiv> 106"
abbreviation MSG_GET_CPU :: c_int where "MSG_GET_CPU \<equiv> 107"
abbreviation MSG_GET_MEMORY :: c_int where "MSG_GET_MEMORY \<equiv> 108"
abbreviation MSG_SCAN :: c_int where "MSG_SCAN \<equiv> 109"
abbreviation MSG_GET_LINK_INFO :: c_int where "MSG_GET_LINK_INFO \<equiv> 110"
abbreviation MSG_SET_SNR_THRESHOLD :: c_int where "MSG_SET_SNR_THRESHOLD \<equiv> 111"
abbreviation MSG_SET_SNR_INTERVAL :: c_int where "MSG_SET_SNR_INTERVAL \<equiv> 112"
abbreviation MSG_GET_ACS :: c_int where "MSG_GET_ACS \<equiv> 113"
abbreviation MSG_SET_SNR_THRESHOLD_REACHED :: c_int where "MSG_SET_SNR_THRESHOLD_REACHED \<equiv> 114"
abbreviation MSG_GET_STA_STATISTICS :: c_int where "MSG_GET_STA_STATISTICS \<equiv> 115"
abbreviation MSG_MEAN_STA_STATISTICS_GET :: c_int where "MSG_MEAN_STA_STATISTICS_GET \<equiv> 116"
abbreviation MSG_MEAN_STA_STATISTICS_SET_INTERFACE :: c_int where "MSG_MEAN_STA_STATISTICS_SET_INTERFACE \<equiv> 117"
abbreviation MSG_MEAN_STA_STATISTICS_REMOVE_INTERFACE :: c_int where "MSG_MEAN_STA_STATISTICS_REMOVE_INTERFACE \<equiv> 118"
abbreviation MSG_MEAN_STA_STATISTICS_SET_ALPHA :: c_int where "MSG_MEAN_STA_STATISTICS_SET_ALPHA \<equiv> 119"
abbreviation MSG_MEAN_STA_STATISTICS_SET_TIME :: c_int where "MSG_MEAN_STA_STATISTICS_SET_TIME \<equiv> 120"
abbreviation MSG_CHANGED_AP :: c_int where "MSG_CHANGED_AP \<equiv> 121"
abbreviation MSG_TOS_CLEANALL :: c_int where "MSG_TOS_CLEANALL \<equiv> 122"
abbreviation MSG_TOS_ADD :: c_int where "MSG_TOS_ADD \<equiv> 123"
abbreviation MSG_TOS_REPLACE :: c_int where "MSG_TOS_REPLACE \<equiv> 124"
abbreviation MSG_SET_MTU :: c_int where "MSG_SET_MTU \<equiv> 125"
abbreviation MSG_SET_TXQUEUELEN :: c_int where "MSG_SET_TXQUEUELEN \<equiv> 126"

definition Enum_msg_type :: "c_int list" where
  "Enum_msg_type =
    [MSG_HELLO_TYPE, MSG_BYE_TYPE, MSG_ERR_TYPE, MSG_PING, MSG_PONG, MSG_GET_MAC,
     MSG_GET_ONE_INTF, MSG_GET_ALL_INTF, MSG_GET_AP_IN_RANGE_TYPE,
     MSG_ENABLE_ASSOC_MSG, MSG_ASSOCIATION, MSG_DISASSOCIATION, MSG_REASSOCIATION,
     MSG_AUTHORIZATION, MSG_USER_DISCONNECTING, MSG_USER_CONNECTING, MSG_QUEUE_CREATE,
     MSG_QUEUE_CLEAR, MSG_QUEUE_DESTROY, MSG_QUEUE_DESTROY_ALL, MSG_QUEUE_CONFIG,
     MSG_SHOW_PORTS, MSG_INFORM_BEACON, MSG_REQUEST_BEACON, MSG_GET_PREAMBLE,
     MSG_SET_PREAMBLE, MSG_GET_QUEUEDISCIPLINE, MSG_SET_QUEUEDISCIPLINE,
     MSG_GET_SUPPORTEDINTERFACE, MSG_GET_INTERFERENCEMAP, MSG_GET_AP_SSID,
     MSG_GET_AP_BROADCASTSSID, MSG_SET_AP_BROADCASTSSID, MSG_GET_AP_CAC,
     MSG_SET_AP_CAC, MSG_GET_AP_FRAMEBURSTENABLED, MSG_SET_AP_FRAMEBURSTENABLED,
     MSG_GET_AP_GUARDINTERVAL, MSG_SET_AP_GUARDINTERVAL, MSG_GET_AP_DTIMINTERVAL,
     MSG_SET_AP_DTIMINTERVAL, MSG_GET_AP_CTSPROTECTION_ENABLED,
     MSG_SET_AP_CTSPROTECTION_ENABLED, MSG_GET_AP_RTSTHRESHOLD,
     MSG_SET_AP_RTSTHRESHOLD, MSG_SET_AP_SSID, MSG_GET_AP_ENABLED, MSG_SET_AP_ENABLED,
     MSG_VAP_CREATE, MSG_SET_CONF_SSID_RADIO, MSG_DISCONNECT_USER,
     MSG_DEAUTHENTICATE_USER, MSG_PROGRAM_PROBE_REQUEST, MSG_PROBERECEIVED,
     MSG_MGMTFRAME_REGISTER, MSG_MGMTFRAME_UNREGISTER, MSG_MGMTFRAME,
     MSG_REQUEST_BEGIN_ASSOCIATION, MSG_REQUEST_STATION_REASSOCIATE, MSG_GET_ROUTES,
     MSG_GET_VALIDCHANNELS, MSG_SET_CURRENTCHANNEL, MSG_GET_CURRENTCHANNEL,
     MSG_GET_FREQUENCY, MSG_SET_FREQUENCY, MSG_GET_BEACON_INTERVAL,
     MSG_SET_BEACON_INTERVAL, MSG_GET_TX_BITRATES, MSG_SET_TX_BITRATES,
     MSG_GET_TX_BITRATE, MSG_GET_POWERSAVEMODE, MSG_SET_POWERSAVEMODE,
     MSG_GET_FRAGMENTATIONTHRESHOLD, MSG_SET_FRAGMENTATIONTHRESHOLD,
     MSG_GET_CHANNELBANDWITDH, MSG_SET_CHANNELBANDWITDH, MSG_GET_CHANNELINFO,
     MSG_WLAN_INFO, MSG_GET_RADIO_WLANS, MSG_GET_RADIO_LINKSTATISTICS,
     MSG_GET_IPV4_ADDRESS, MSG_SET_IPV4_ADDRESS, MSG_GET_IPV6_ADDRESS,
     MSG_SET_IPV6_ADDRESS, MSG_GET_802_11E_ENABLED,
     MSG_GET_FASTBSSTRANSITION_COMPATIBLE, MSG_GET_BYTESRECEIVED, MSG_GET_BYTESSENT,
     MSG_GET_PACKETSRECEIVED, MSG_GET_PACKETSSENT, MSG_GET_PACKETSLOST,
     MSG_GET_JITTER, MSG_GET_DELAY, MSG_GET_TXPOWER, MSG_SET_TXPOWER, MSG_GET_SNR,
     MSG_GET_QUALITY, MSG_GET_UPTIME, MSG_GET_RETRIES, MSG_GET_FAILED,
     MSG_GET_APSINRANGE, MSG_GET_BEACONINFO, MSG_GET_NOISEINFO,
     MSG_GET_LINKMEASUREMENT, MSG_GET_STATISTICS, MSG_GET_LOCATION,
     MSG_TRIGGER_TRANSITION, MSG_GET_CPU, MSG_GET_MEMORY, MSG_SCAN, MSG_GET_LINK_INFO,
     MSG_SET_SNR_THRESHOLD, MSG_SET_SNR_INTERVAL, MSG_GET_ACS,
     MSG_SET_SNR_THRESHOLD_REACHED, MSG_GET_STA_STATISTICS,
     MSG_MEAN_STA_STATISTICS_GET, MSG_MEAN_STA_STATISTICS_SET_INTERFACE,
     MSG_MEAN_STA_STATISTICS_REMOVE_INTERFACE, MSG_MEAN_STA_STATISTICS_SET_ALPHA,
     MSG_MEAN_STA_STATISTICS_SET_TIME, MSG_CHANGED_AP, MSG_TOS_CLEANALL, MSG_TOS_ADD,
     MSG_TOS_REPLACE, MSG_SET_MTU, MSG_SET_TXQUEUELEN]"

abbreviation ERROR_UNKNOWN :: c_int where "ERROR_UNKNOWN \<equiv> 0"
abbreviation ERROR_VERSION_MISMATCH :: c_int where "ERROR_VERSION_MISMATCH \<equiv> 1"
abbreviation ERROR_PROCESS_NOT_IMPLEMENTED_FOR_THIS_MESSAGE :: c_int where "ERROR_PROCESS_NOT_IMPLEMENTED_FOR_THIS_MESSAGE \<equiv> 2"
abbreviation ERROR_MSG_WITHOUT_TYPE :: c_int where "ERROR_MSG_WITHOUT_TYPE \<equiv> 3"
abbreviation ERROR_FIELD_NOT_FOUND :: c_int where "ERROR_FIELD_NOT_FOUND \<equiv> 4"
abbreviation ERROR_INTERFACE_NOT_FOUND :: c_int where "ERROR_INTERFACE_NOT_FOUND \<equiv> 5"

datatype type_association = ASSOCIATION | DISASSOCIATION | REASSOCIATION | AUTHORIZATION
  | USER_DISCONNECTING | USER_CONNECTING

lemma Enum_msg_type_positions:
  "map unat Enum_msg_type = [0..<127]"
  by (simp add: Enum_msg_type_def upt_rec)

lemma Enum_msg_type_distinct: "distinct Enum_msg_type"
  using distinct_map [of unat Enum_msg_type] by (simp add: Enum_msg_type_positions)

end
