(* ===== verification/Frame.thy ===== *)
theory Frame
  imports Strings Msg_Types
begin

section \<open>Message frames and connections (\<open>messaging/ssl_common.c\<close> and the message modules)\<close>

text \<open>
  What the modules of \<open>messaging/\<close> share.  Each module has the same five parts: a size
  function, an encoder, a decoder, a server side \<open>process_\<close> function and client side \<open>send_\<close>
  functions.  The common statements of the encoders (\<open>encode_frame\<close>), of the decoders
  (\<open>decode_frame\<close>) and of the senders (\<open>send_sync\<close>, \<open>send_async\<close>) are factored out here; the
  modules apply them to their own list of fields.

  The parts of the system that are not in the repository are fields of the record \<open>env\<close>:
  \<open>malloc\<close> of the C library, name resolution and the socket, OpenSSL, the callbacks a program may
  register, and which of the two programs (access point or station) was built.  What the code
  does to the outside is the list of \<open>effect\<close>s it leaves.
\<close>

datatype effect =
    Socket_Open c_int | Socket_Close c_int
  | Ctx_New | Ctx_Free | Ssl_New | Ssl_Free
  | Ssl_Write cstr c_int "u8 list"
  | Hello_Event c_int cstr c_int
  | Bye_Event cstr c_int
  | Roam_Change_Ap cstr cstr
  | System "u8 list"

text \<open>
  \<open>sysfs path\<close> is the number in the file \<open>path\<close>, if it exists and holds one, and
  \<open>interface_stats\<close> what the station build reads from \<open>ethtool\<close> (the counters the message modules
  use).  \<open>popen_lines cmd\<close> are the lines that the command \<open>cmd\<close> prints, if \<open>popen\<close> can
  start it, and \<open>system_ret cmd\<close> is the exit status of \<open>system\<close>.  \<open>elapsed\<close> is the time between two \<open>gettimeofday\<close> calls around a request.
  \<open>ssl_read env host port request\<close> is the memory of the read buffer of the caller after
  \<open>SSL_read\<close>: what the peer answered to the request, followed by the stack bytes that the call
  left alone.
\<close>

record netlink_stats =
  nl_rx_packets :: c_long
  nl_rx_bytes :: c_long
  nl_rx_errors :: c_long
  nl_rx_dropped :: c_long
  nl_tx_packets :: c_long
  nl_tx_bytes :: c_long
  nl_tx_errors :: c_long
  nl_tx_dropped :: c_long
  nl_collisions :: c_long

record env =
  mallocs :: allocator
  ctx_new :: bool
  resolves :: "cstr \<Rightarrow> bool"
  connects :: "cstr \<Rightarrow> c_int \<Rightarrow> bool"
  socket_fd :: "c_int"
  ssl_new :: bool
  ssl_read :: "cstr \<Rightarrow> c_int \<Rightarrow> u8 list \<Rightarrow> u8 list"
  elapsed :: c_float
  process_station :: bool
  hello_event_set :: bool
  bye_event_set :: bool
  sysfs :: "u8 list \<Rightarrow> c_long option"
  interface_stats :: "cstr \<Rightarrow> netlink_stats option"
  popen_lines :: "u8 list \<Rightarrow> u8 list list option"
  system_ret :: "u8 list \<Rightarrow> c_int"

text \<open>A concrete environment for the witnesses: an access point whose peers echo every request.\<close>

definition demo_env :: env where
  "demo_env = \<lparr>mallocs = demo_alloc, ctx_new = True, resolves = (\<lambda>_. True), connects = (\<lambda>_ _. True),
     socket_fd = 3, ssl_new = True, ssl_read = (\<lambda>_ _ req. req @ [0, 0]), elapsed = 0,
     process_station = False, hello_event_set = True, bye_event_set = True,
     sysfs = (\<lambda>_. Some 42), interface_stats = (\<lambda>_. None), 
     popen_lines = (\<lambda>_. Some [map of_char ''/sbin/ip iptables'' @ [10]]), system_ret = (\<lambda>_. 0)\<rparr>"

lemma allocates_demo_env: "allocates (mallocs demo_env)"
  by (simp add: demo_env_def allocates_demo_alloc)

definition demo_name :: cstr where
  "demo_name = Some [0x77, 0]"

lemma demo_name_simps [simp]:
  "chars demo_name = [0x77]" "slen demo_name = 1" "canon demo_name = demo_name" "wf_str demo_name"
  "demo_name \<noteq> None"
  by (simp_all add: demo_name_def canon_def slen_def wf_str_def chars_def str_chars_def)

lemma copyable_demo_alloc:
  "wf_str s \<Longrightarrow> 0 < slen s \<Longrightarrow> slen s < 2 ^ 31 - 1 \<Longrightarrow> copyable demo_alloc s"
  by (simp add: copyable_def demo_alloc_def)

lemma copyable_demo_env:
  "wf_str s \<Longrightarrow> 0 < slen s \<Longrightarrow> slen s < 2 ^ 31 - 1 \<Longrightarrow> copyable (mallocs demo_env) s"
  by (simp add: copyable_demo_alloc demo_env_def)


subsection \<open>Encoders and decoders\<close>

text \<open>
  \<^verbatim>\<open>
  *buf_len = size(h);  *buf = malloc(*buf_len);  aux = *buf;  h->m_size = *buf_len;
  encode_...(&aux, ...); ...
  \<close>
  \<open>malloc\<close> takes the \<open>int\<close> as a \<open>size_t\<close>.  The result is the updated structure and the
  \<open>*buf_len\<close> bytes at \<open>*buf\<close>, which is what every caller passes on.
\<close>

definition encode_frame ::
  "allocator \<Rightarrow> ('a msg_header_scheme \<Rightarrow> fault + c_int) \<Rightarrow> ('a msg_header_scheme \<Rightarrow> wcur step list)
   \<Rightarrow> 'a msg_header_scheme \<Rightarrow> fault + 'a msg_header_scheme \<times> u8 list" where
  "encode_frame mal msize flds h = and_then (msize h) (\<lambda>buf_len.
     let h' = h\<lparr>m_size := buf_len\<rparr> in
     and_then (run_prog (flds h') ([], mal (unat (scast buf_len :: c_long)))) (\<lambda>(dn, room).
       Inr (h', take (nat (sint buf_len)) (dn @ room))))"

text \<open>
  \<^verbatim>\<open>
  *h = malloc(sizeof(struct ...));  aux = buf;  decode_...(&aux, &(*h)->...); ...
  \<close>
  \<open>h0\<close> is the uninitialised structure.  The parameter \<open>buf_len\<close> of the source is never read.
\<close>

definition decode_frame :: "(rcur \<times> 'h) step list \<Rightarrow> u8 list \<Rightarrow> 'h \<Rightarrow> fault + 'h" where
  "decode_frame flds buf h0 = and_then (run_prog flds (buf, h0)) (\<lambda>(_, h). Inr h)"


subsection \<open>Statements that fill a structure\<close>

definition assign :: "(('v \<Rightarrow> 'v) \<Rightarrow> 'h \<Rightarrow> 'h) \<Rightarrow> 'v \<Rightarrow> 'h step" where
  "assign upd v h = Inr (upd (\<lambda>_. v) h)"

text \<open>\<open>h.field = NULL; copy_string (&h.field, s);\<close>\<close>

definition copy_to :: "env \<Rightarrow> ((cstr \<Rightarrow> cstr) \<Rightarrow> 'h \<Rightarrow> 'h) \<Rightarrow> cstr \<Rightarrow> 'h step" where
  "copy_to e upd s h = and_then (copy_string (mallocs e) s) (\<lambda>v. Inr (upd (\<lambda>_. v) h))"

text \<open>\<open>h.m_size = size (&h);\<close>\<close>

definition set_size :: "('a msg_header_scheme \<Rightarrow> fault + c_int) \<Rightarrow> 'a msg_header_scheme step" where
  "set_size msize h = and_then (msize h) (\<lambda>n. Inr (h\<lparr>m_size := n\<rparr>))"


subsection \<open>Fields shared by many messages\<close>

text \<open>The interface concerned, and the station that an access point forwards a request to.\<close>

record intf_msg = msg_header +
  intf_name :: cstr

record sta_query = intf_msg +
  sta_ip :: cstr
  sta_port :: c_int


subsection \<open>Connections\<close>

record ssl_connection =
  ssl :: bool     \<comment> \<open>not \<open>NULL\<close>\<close>
  ctx :: bool     \<comment> \<open>not \<open>NULL\<close>\<close>
  server :: c_int

abbreviation FAIL :: c_int where "FAIL \<equiv> - 1"

definition OpenConnection :: "env \<Rightarrow> cstr \<Rightarrow> c_int \<Rightarrow> c_int \<times> effect list" where
  "OpenConnection e hostname port =
     (if \<not> resolves e hostname then (FAIL, [])
      else (let sd = socket_fd e in
        if \<not> connects e hostname port then (FAIL, [Socket_Open sd, Socket_Close sd])
        else (sd, [Socket_Open sd])))"

definition get_ssl_connection ::
  "env \<Rightarrow> cstr \<Rightarrow> c_int \<Rightarrow> c_int \<times> ssl_connection \<times> effect list" where
  "get_ssl_connection e hostname portnum =
     (if \<not> ctx_new e then (- 1, \<lparr>ssl = False, ctx = False, server = FAIL\<rparr>, [])
      else (let (sd, ev) = OpenConnection e hostname portnum in
        if sd = FAIL then (- 2, \<lparr>ssl = False, ctx = True, server = sd\<rparr>, Ctx_New # ev)
        else (0, \<lparr>ssl = ssl_new e, ctx = True, server = sd\<rparr>,
              Ctx_New # ev @ (if ssl_new e then [Ssl_New] else []))))"

definition close_ssl_connection :: "ssl_connection \<Rightarrow> effect list" where
  "close_ssl_connection h =
     (if ssl h then [Ssl_Free] else []) @
     (if server h \<noteq> FAIL then [Socket_Close (server h)] else []) @
     (if ctx h then [Ctx_Free] else [])"


subsection \<open>Senders\<close>

text \<open>
  The body of a \<open>send_\<close> function that waits for the answer: connect; fill the structure, with
  the message id taken from the counter of the caller, which is incremented; encode and write;
  read the answer into a stack buffer; decode it if its type is the expected one; close.
  The functions that expect no answer stop after the write.  Some of them test \<open>h_ssl.ssl\<close>
  only, without \<open>err\<close>; \<open>get_ssl_connection\<close> leaves \<open>ssl\<close> at \<open>NULL\<close> whenever \<open>err\<close> is not 0.
\<close>

definition send_sync ::
  "env \<Rightarrow> cstr \<Rightarrow> c_int \<Rightarrow> c_int \<Rightarrow> (c_int \<Rightarrow> fault + 'm) \<Rightarrow> ('m \<Rightarrow> fault + 'm \<times> u8 list)
   \<Rightarrow> (c_int \<Rightarrow> bool) \<Rightarrow> (u8 list \<Rightarrow> fault + 'm) \<Rightarrow> fault + effect list \<times> c_int \<times> 'm option" where
  "send_sync e hostname portnum idc build encode expected decode =
     (let (err, h_ssl, ev) = get_ssl_connection e hostname portnum in
      if err = 0 \<and> ssl h_ssl then
        and_then (build idc) (\<lambda>h.
        and_then (encode h) (\<lambda>(_, buffer).
          let buf = ssl_read e hostname portnum buffer in
          and_then (return_message_type buf) (\<lambda>t.
          and_then (if expected t then and_then (decode buf) (\<lambda>h1. Inr (Some h1)) else Inr None)
            (\<lambda>h1. Inr (ev @ Ssl_Write hostname portnum buffer # close_ssl_connection h_ssl,
                       idc + 1, h1)))))
      else Inr (ev @ close_ssl_connection h_ssl, idc, None))"

definition send_async ::
  "env \<Rightarrow> cstr \<Rightarrow> c_int \<Rightarrow> c_int \<Rightarrow> (c_int \<Rightarrow> fault + 'm) \<Rightarrow> ('m \<Rightarrow> fault + 'm \<times> u8 list)
   \<Rightarrow> fault + effect list \<times> c_int" where
  "send_async e hostname portnum idc build encode =
     (let (err, h_ssl, ev) = get_ssl_connection e hostname portnum in
      if err = 0 \<and> ssl h_ssl then
        and_then (build idc) (\<lambda>h.
        and_then (encode h) (\<lambda>(_, buffer).
          Inr (ev @ Ssl_Write hostname portnum buffer # close_ssl_connection h_ssl, idc + 1)))
      else Inr (ev @ close_ssl_connection h_ssl, idc))"


subsection \<open>Sizes\<close>

definition add_size :: "nat \<Rightarrow> fault + c_int \<Rightarrow> fault + c_int" where
  "add_size n x = and_then x (\<lambda>b. Inr (word_of_nat n + b))"

lemma add_size_sizeof [simp]: "add_size n (sizeof m) = sizeof (n + m)"
  by (simp add: add_size_def sizeof_def)

lemma sum_sizes_sizeof [simp]: "sum_sizes (sizeof n # xs) = add_size n (sum_sizes xs)"
  by (simp add: sizeof_def add_size_def)

lemma sum_sizes_str [simp]:
  "ok_str s \<Longrightarrow> sum_sizes (strlen_ethanol s # xs) = add_size (slen s + 5) (sum_sizes xs)"
  by (simp add: strlen_ethanol_wf ok_strD del: sum_sizes.simps)

lemma sum_sizes_bool [simp]: "sum_sizes (bool_len_ethanol # xs) = add_size 4 (sum_sizes xs)"
  by (simp add: bool_len_ethanol_def del: sum_sizes.simps)

declare sum_sizes.simps(2) [simp del]

lemma sum_sizes_fault [simp]: "sum_sizes (Inl f # xs) = Inl f"
  by (simp add: sum_sizes.simps(2))

lemma add_size_fault [simp]: "add_size n (Inl f) = Inl f"
  by (simp add: add_size_def)

lemma assign_apply [simp]: "assign upd v h = Inr (upd (\<lambda>_. v) h)"
  by (simp add: assign_def)

lemma set_size_ok: "msize h = sizeof n \<Longrightarrow> set_size msize h = Inr (h\<lparr>m_size := word_of_nat n\<rparr>)"
  by (simp add: set_size_def sizeof_def)

lemma copy_to_copyable [simp]:
  "copyable (mallocs e) s \<Longrightarrow> copy_to e upd s h = Inr (upd (\<lambda>_. dup (mallocs e) s) h)"
  by (simp add: copy_to_def)

lemma send_sync_built:
  "build i = Inr q \<Longrightarrow> send_sync e host port i build enc ex dec = send_sync e host port i (\<lambda>_. Inr q) enc ex dec"
  by (simp add: send_sync_def split: prod.split)

lemma send_async_built:
  "build i = Inr q \<Longrightarrow> send_async e host port i build enc = send_async e host port i (\<lambda>_. Inr q) enc"
  by (simp add: send_async_def split: prod.split)


subsection \<open>Reaching a server\<close>

text \<open>Every step of the connection to a server succeeds.\<close>

definition reaches :: "env \<Rightarrow> cstr \<Rightarrow> c_int \<Rightarrow> bool" where
  "reaches e host port \<longleftrightarrow> ctx_new e \<and> resolves e host \<and> connects e host port \<and> ssl_new e
     \<and> socket_fd e \<noteq> FAIL"

lemma reaches_demo_env: "reaches demo_env host port"
  by (simp add: reaches_def demo_env_def)

text \<open>The effects of one request: connect, write, close in the reverse order.\<close>

definition session :: "env \<Rightarrow> cstr \<Rightarrow> c_int \<Rightarrow> u8 list \<Rightarrow> effect list" where
  "session e host port req = [Ctx_New, Socket_Open (socket_fd e), Ssl_New, Ssl_Write host port req,
     Ssl_Free, Socket_Close (socket_fd e), Ctx_Free]"

text \<open>A request of type \<open>t\<close>: it starts with the header of the current version.\<close>

definition of_type :: "c_int \<Rightarrow> u8 list \<Rightarrow> bool" where
  "of_type t req \<longleftrightarrow> (\<exists>i n rest. req = ser_header t i n @ rest)"

text \<open>
  The peer at an address runs the server function \<open>srv\<close> on each request of type \<open>t\<close>, and its reply
  arrives.
\<close>

definition serves ::
  "env \<Rightarrow> cstr \<Rightarrow> c_int \<Rightarrow> c_int \<Rightarrow> (u8 list \<Rightarrow> fault + effect list \<times> u8 list option) \<Rightarrow> bool" where
  "serves e host port t srv \<longleftrightarrow> (\<forall>req ev out. of_type t req \<longrightarrow> srv req = Inr (ev, Some out)
     \<longrightarrow> (\<exists>r. ssl_read e host port req = out @ r))"

lemma servesD:
  "serves e host port t srv \<Longrightarrow> of_type t req \<Longrightarrow> srv req = Inr (ev, Some out)
   \<Longrightarrow> \<exists>r. ssl_read e host port req = out @ r"
  by (simp add: serves_def)

lemma of_type_message: "of_type t req \<Longrightarrow> return_message_type (req @ r) = Inr t"
  by (auto simp: of_type_def return_message_type_ser)

text \<open>A concrete peer that runs \<open>srv\<close>, for the witnesses.\<close>

definition demo_peer :: "(u8 list \<Rightarrow> fault + effect list \<times> u8 list option) \<Rightarrow> cstr \<Rightarrow> c_int \<Rightarrow> u8 list \<Rightarrow> u8 list" where
  "demo_peer srv host port req = (case srv req of Inr (_, Some out) \<Rightarrow> out @ [7] | _ \<Rightarrow> [])"

lemma serves_demo_peer: "serves (e\<lparr>ssl_read := demo_peer srv\<rparr>) host port t srv"
  by (simp add: serves_def demo_peer_def)

definition open_connection :: "env \<Rightarrow> ssl_connection" where
  "open_connection e = \<lparr>ssl = True, ctx = True, server = socket_fd e\<rparr>"

lemma reaches_connection [simp]:
  "reaches e host port \<Longrightarrow> get_ssl_connection e host port
     = (0, open_connection e, [Ctx_New, Socket_Open (socket_fd e), Ssl_New])"
  by (simp add: reaches_def get_ssl_connection_def OpenConnection_def open_connection_def Let_def)

lemma open_connection_simps [simp]: "ssl (open_connection e)"
  by (simp add: open_connection_def)

lemma close_open_connection:
  "reaches e host port \<Longrightarrow> [Ctx_New, Socket_Open (socket_fd e), Ssl_New] @
     Ssl_Write host port req # close_ssl_connection (open_connection e) = session e host port req"
  by (simp add: reaches_def open_connection_def close_ssl_connection_def session_def)


lemma send_sync_unreached:
  "\<not> reaches e host port \<Longrightarrow> \<exists>ev. send_sync e host port i build enc ex dec = Inr (ev, i, None)"
  by (auto simp: send_sync_def reaches_def get_ssl_connection_def OpenConnection_def Let_def)

lemma send_async_session:
  "reaches e host port \<Longrightarrow> encode q = Inr (q', req) \<Longrightarrow>
   send_async e host port i (\<lambda>_. Inr q) encode = Inr (session e host port req, i + 1)"
  using close_open_connection [of e host port req] by (simp add: send_async_def)


subsection \<open>Frames\<close>

text \<open>
  An encoder whose size function gives \<open>n\<close> and whose fields are writes of byte lists \<open>bss\<close> that fit
  into \<open>n\<close> bytes runs without fault; it sends exactly \<open>n\<close> bytes, which start with the bytes
  written; any bytes after them are the uninitialised tail of the block.
\<close>

lemma encode_frame_ok:
  assumes size: "msize h = sizeof n" and n: "n < 2 ^ 31" and mal: "allocates mal"
    and fields: "flds (h\<lparr>m_size := word_of_nat n\<rparr>) = map put bss"
    and fit: "length (concat bss) \<le> n"
  shows "\<exists>tail. encode_frame mal msize flds h
           = Inr (h\<lparr>m_size := word_of_nat n\<rparr>, concat bss @ tail)
         \<and> length (concat bss @ tail) = n"
proof -
  let ?blk = "mal n"
  have s: "sint (word_of_nat n :: c_int) = int n"
    using n by (rule sint_word_of_small)
  have u: "unat (scast (word_of_nat n :: c_int) :: c_long) = n"
    using n by (rule unat_scast_small)
  have blk: "n \<le> length ?blk"
    using mal by (simp add: allocates_def)
  let ?tail = "take (n - length (concat bss)) (drop (length (concat bss)) ?blk)"
  have "encode_frame mal msize flds h = Inr (h\<lparr>m_size := word_of_nat n\<rparr>, concat bss @ ?tail)"
    using fit blk
    by (simp add: encode_frame_def size sizeof_def Let_def fields run_prog_puts u s)
  moreover have "length (concat bss @ ?tail) = n"
    using fit blk by simp
  ultimately show ?thesis by blast
qed

text \<open>And when the fields do not fit into the block that was allocated, the write faults.\<close>

lemma encode_frame_overflow:
  assumes size: "msize h = sizeof n" and n: "n < 2 ^ 31"
    and fields: "flds (h\<lparr>m_size := word_of_nat n\<rparr>) = map put bss"
    and big: "length (mal n) < length (concat bss)"
  shows "encode_frame mal msize flds h = Inl Write_Out_Of_Bounds"
proof -
  have "unat (scast (word_of_nat n :: c_int) :: c_long) = n"
    using n by (rule unat_scast_small)
  then show ?thesis
    using big by (simp add: encode_frame_def size sizeof_def Let_def fields run_prog_puts)
qed

text \<open>The message after a round trip: the header that the encoder writes.\<close>

definition norm_header :: "nat \<Rightarrow> 'a msg_header_scheme \<Rightarrow> 'a msg_header_scheme" where
  "norm_header n h = h\<lparr>p_version := ETHANOL_VERSION, m_size := word_of_nat n\<rparr>"

text \<open>
  The encoder always writes \<open>ETHANOL_VERSION\<close>, while the size functions count the length of
  \<open>p_version\<close>: a structure is safe to encode when its version is not shorter.
\<close>

definition ok_header :: "'a msg_header_scheme \<Rightarrow> bool" where
  "ok_header h \<longleftrightarrow> ok_str (p_version h) \<and> 5 \<le> slen (p_version h)"

lemma ok_headerD:
  "ok_header h \<Longrightarrow> ok_str (p_version h)" "ok_header h \<Longrightarrow> 5 \<le> slen (p_version h)"
  by (simp_all add: ok_header_def)

lemma norm_header_simps [simp]:
  "m_type (norm_header n h) = m_type h" "m_id (norm_header n h) = m_id h"
  "p_version (norm_header n h) = ETHANOL_VERSION" "m_size (norm_header n h) = word_of_nat n"
  "msg_header.more (norm_header n h) = msg_header.more h"
  by (simp_all add: norm_header_def)

lemma ok_header_norm [simp]: "ok_header (norm_header n h)"
  by (simp add: ok_header_def)

lemma frame_codec:
  assumes size: "msize m = sizeof n" and n: "n < 2 ^ 31" and mal: "allocates mal"
    and fields: "flds (m\<lparr>m_size := word_of_nat n\<rparr>)
      = map put (ser_header (m_type m) (m_id m) (word_of_nat n) # bss)"
    and fit: "22 + length (concat bss) \<le> n"
    and decode: "\<And>r h0. run_prog ds (concat bss @ r, h0\<lparr>m_type := m_type m, m_id := m_id m,
      p_version := ETHANOL_VERSION, m_size := word_of_nat n\<rparr>) = Inr (r, m' h0)"
  shows "\<exists>m1 wire. encode_frame mal msize flds m = Inr (m1, wire) \<and> length wire = n
      \<and> of_type (m_type m) wire
      \<and> (\<forall>r h0. decode_frame (decode_header # ds) (wire @ r) h0 = Inr (m' h0))"
proof -
  let ?bss = "ser_header (m_type m) (m_id m) (word_of_nat n) # bss"
  have "length (concat ?bss) \<le> n"
    using fit by simp
  from encode_frame_ok [where msize = msize and flds = flds, OF size n mal fields this]
  obtain tail where t: "encode_frame mal msize flds m
      = Inr (m\<lparr>m_size := word_of_nat n\<rparr>, concat ?bss @ tail)"
    and len: "length (concat ?bss @ tail) = n"
    by blast
  have "of_type (m_type m) (concat ?bss @ tail)"
    by (auto simp: of_type_def)
  moreover have "decode_frame (decode_header # ds) ((concat ?bss @ tail) @ r) h0 = Inr (m' h0)" for r h0
    using decode [of "tail @ r" h0] by (simp add: decode_frame_def decode_header_ser)
  ultimately show ?thesis
    using t len by blast
qed


subsection \<open>The contract of a message codec\<close>

text \<open>
  The interface between the message modules and their users.  For the structures \<open>m\<close> with
  \<open>ok m\<close> the encoder faults for no allocator and sends \<open>bytes m\<close> bytes, which carry the type of the
  message in front; the decoder, given those bytes at the start of any buffer and any
  uninitialised structure \<open>h0\<close>, gives the normal form \<open>norm h0 m\<close> of what was sent (\<open>h0\<close>
  matters only where the wire format leaves a field out).  \<open>norm\<close> is what the
  wire format preserves: the version of the sender, strings up to \<open>canon\<close>.
\<close>

locale msg_codec =
  fixes enc :: "allocator \<Rightarrow> 'm \<Rightarrow> fault + 'm \<times> u8 list"
    and dec :: "u8 list \<Rightarrow> 'm \<Rightarrow> fault + 'm"
    and ok :: "'m \<Rightarrow> bool"
    and norm :: "'m \<Rightarrow> 'm \<Rightarrow> 'm"
    and bytes :: "'m \<Rightarrow> nat"
    and mtyp :: "'m \<Rightarrow> c_int"
  assumes enc_ok: "ok m \<Longrightarrow> allocates mal \<Longrightarrow>
      \<exists>m' wire. enc mal m = Inr (m', wire) \<and> length wire = bytes m
        \<and> of_type (mtyp m) wire
        \<and> (\<forall>r h0. dec (wire @ r) h0 = Inr (norm h0 m))"
begin

lemma enc_no_fault:
  "ok m \<Longrightarrow> allocates mal \<Longrightarrow> \<exists>m' wire. enc mal m = Inr (m', wire)"
  using enc_ok [of m mal] by blast

lemma roundtrip:
  "ok m \<Longrightarrow> allocates mal \<Longrightarrow> enc mal m = Inr (m', wire) \<Longrightarrow> dec (wire @ r) h0 = Inr (norm h0 m)"
  using enc_ok [of m mal] by auto

lemma wire_length:
  "ok m \<Longrightarrow> allocates mal \<Longrightarrow> enc mal m = Inr (m', wire) \<Longrightarrow> length wire = bytes m"
  using enc_ok [of m mal] by auto

lemma wire_type:
  "ok m \<Longrightarrow> allocates mal \<Longrightarrow> enc mal m = Inr (m', wire)
   \<Longrightarrow> of_type (mtyp m) wire"
  using enc_ok [of m mal] by auto

lemma wire_message_type:
  "ok m \<Longrightarrow> allocates mal \<Longrightarrow> enc mal m = Inr (m', wire)
   \<Longrightarrow> return_message_type (wire @ r) = Inr (mtyp m)"
  using wire_type of_type_message by blast

text \<open>A sent message never decodes to two things: equal wires have equal normal forms.\<close>

lemma wire_inj:
  assumes "ok m" "allocates mal" "enc mal m = Inr (m1, wire)"
    and "ok n" "allocates mal'" "enc mal' n = Inr (n1, wire)"
  shows "norm h0 m = norm h0 n"
  using roundtrip [OF assms(1-3), of "[]" h0] roundtrip [OF assms(4-6), of "[]" h0] by simp

text \<open>
  A request and its answer: when the peer answers a request that it can decode with an
  encoded message of the expected type, the sender returns the normal form of that answer.
\<close>

lemma send_sync_answer:
  assumes conn: "get_ssl_connection e host port = (0, c, ev)" and "ssl c"
    and build: "build i = Inr q" and "ok q" and "allocates (mallocs e)"
    and peer: "\<And>q' req. enc (mallocs e) q = Inr (q', req) \<Longrightarrow>
        \<exists>a' wire r. enc mal' a = Inr (a', wire) \<and> ssl_read e host port req = wire @ r"
    and "ok a" and "allocates mal'" and "expected (mtyp a)"
  shows "\<exists>req. send_sync e host port i build (enc (mallocs e)) expected (\<lambda>b. dec b h0)
     = Inr (ev @ Ssl_Write host port req # close_ssl_connection c, i + 1, Some (norm h0 a))"
proof -
  obtain q' req where q: "enc (mallocs e) q = Inr (q', req)"
    using enc_no_fault assms by blast
  obtain a' wire r where a: "enc mal' a = Inr (a', wire)" "ssl_read e host port req = wire @ r"
    using peer [OF q] by blast
  show ?thesis
    using assms roundtrip [OF \<open>ok a\<close> \<open>allocates mal'\<close> a(1)] wire_message_type [OF \<open>ok a\<close> \<open>allocates mal'\<close> a(1)]
    by (simp add: send_sync_def conn q a(2))
qed

lemma send_sync_session:
  assumes "reaches e host port" and "build i = Inr q" "ok q" "allocates (mallocs e)"
    and "\<And>q' req. enc (mallocs e) q = Inr (q', req) \<Longrightarrow>
        \<exists>a' wire r. enc mal' a = Inr (a', wire) \<and> ssl_read e host port req = wire @ r"
    and "ok a" "allocates mal'" "expected (mtyp a)"
  shows "\<exists>req. send_sync e host port i build (enc (mallocs e)) expected (\<lambda>b. dec b h0)
     = Inr (session e host port req, i + 1, Some (norm h0 a))"
proof -
  have "\<exists>req. send_sync e host port i build (enc (mallocs e)) expected (\<lambda>b. dec b h0)
     = Inr ([Ctx_New, Socket_Open (socket_fd e), Ssl_New] @
         Ssl_Write host port req # close_ssl_connection (open_connection e), i + 1, Some (norm h0 a))"
    by (rule send_sync_answer [where build = build and q = q and mal' = mal'])
      (use assms in \<open>simp_all only: reaches_connection open_connection_simps\<close>)
  then show ?thesis
    unfolding close_open_connection [OF assms(1)] .
qed

end


text \<open>How a message module establishes the contract: the bytes \<open>bss\<close> of its fields.\<close>

lemma frame_codecI:
  assumes "\<And>m. ok m \<Longrightarrow> msize m = sizeof (bytes m)" and "\<And>m. ok m \<Longrightarrow> bytes m < 2 ^ 31"
    and "\<And>m. ok m \<Longrightarrow> flds (m\<lparr>m_size := word_of_nat (bytes m)\<rparr>)
      = map put (ser_header (m_type m) (m_id m) (word_of_nat (bytes m)) # bss m)"
    and "\<And>m. ok m \<Longrightarrow> 22 + length (concat (bss m)) \<le> bytes m"
    and "\<And>m r h0. ok m \<Longrightarrow> run_prog ds (concat (bss m) @ r, h0\<lparr>m_type := m_type m,
      m_id := m_id m, p_version := ETHANOL_VERSION, m_size := word_of_nat (bytes m)\<rparr>)
      = Inr (r, norm h0 m)"
  shows "msg_codec (\<lambda>mal. encode_frame mal msize flds) (decode_frame (decode_header # ds))
    ok norm bytes m_type"
  by (unfold_locales, rule frame_codec) (use assms in simp_all)


subsection \<open>Balance of the connections\<close>

text \<open>Whatever is allocated or opened is released.\<close>

definition balanced :: "effect list \<Rightarrow> bool" where
  "balanced ev \<longleftrightarrow> count_list ev Ctx_New = count_list ev Ctx_Free \<and>
     count_list ev Ssl_New = count_list ev Ssl_Free \<and>
     (\<forall>fd. count_list ev (Socket_Open fd) = count_list ev (Socket_Close fd))"

lemma connection_balanced:
  assumes "socket_fd e \<noteq> FAIL" "get_ssl_connection e host port = (err, c, ev)"
  shows "balanced (ev @ close_ssl_connection c)" "balanced (ev @ Ssl_Write host port b # close_ssl_connection c)"
  using assms
  by (auto simp: get_ssl_connection_def OpenConnection_def close_ssl_connection_def balanced_def Let_def
      split: if_splits)

text \<open>
  C12 A sender leaves no socket, TLS session or TLS context behind: whether the connection succeeds,
  fails at any of its steps, or the answer has another type, each is released as often as it was
  created.
\<close>

theorem senders_balanced:
  assumes "socket_fd e \<noteq> FAIL"
  shows "(send_sync e host port i build enc ex dec = Inr (ev, i', r) \<longrightarrow> balanced ev) \<and>
    (send_async e host port i build enc = Inr (ev', i'') \<longrightarrow> balanced ev')"
proof -
  obtain err c evc where c: "get_ssl_connection e host port = (err, c, evc)"
    by (cases "get_ssl_connection e host port") 
  show ?thesis
    using connection_balanced [OF assms c]
    by (auto simp: send_sync_def send_async_def c and_then_eq_Inr Let_def split: if_splits)
qed

theorem senders_balanced_witness:
  "\<exists>ev. send_async (demo_env\<lparr>connects := \<lambda>_ _. False\<rparr>) demo_name 22223 5 (\<lambda>_. Inr ())
      (\<lambda>m. Inr (m, [1, 2])) = Inr (ev, 5) \<and> balanced ev"
proof -
  let ?e = "demo_env\<lparr>connects := \<lambda>_ _. False\<rparr>"
  have "socket_fd ?e \<noteq> FAIL" "send_async ?e demo_name 22223 5 (\<lambda>_. Inr ()) (\<lambda>m. Inr (m, [1, 2]))
      = Inr ([Ctx_New, Socket_Open 3, Socket_Close 3, Ctx_Free], 5)"
    by code_simp+
  then show ?thesis
    using senders_balanced [where e = ?e] by blast
qed

end
