(* ===== verification/Msg_Control.thy ===== *)
theory Msg_Control
  imports Frame
begin

section \<open>Control messages: hello, bye, ping and pong, error\<close>

text \<open>
  \<open>messaging/msg_hello.c\<close>, \<open>msg_bye.c\<close>, \<open>msg_ping.c\<close>, \<open>msg_error.c\<close>.  The arguments \<open>hs\<close> and \<open>hm\<close>
  of the functions are uninitialised structures: the local variable that a sender fills, and
  the block that a decoder gets from \<open>malloc\<close>.
\<close>

subsection \<open>\<open>msg_hello\<close>\<close>

record msg_hello = msg_header +
  device_type :: c_int
  tcp_port :: c_int
  rtt :: c_float

definition message_size_hello :: "msg_hello \<Rightarrow> fault + c_int" where
  "message_size_hello h = sum_sizes
     [sizeof 4, sizeof 4, strlen_ethanol (p_version h), sizeof 4, sizeof 4, sizeof 4, sizeof 4]"

definition encode_msg_hello :: "allocator \<Rightarrow> msg_hello \<Rightarrow> fault + msg_hello \<times> u8 list" where
  "encode_msg_hello mal = encode_frame mal message_size_hello (\<lambda>h.
     [encode_header (m_type h) (m_id h) (m_size h),
      encode_int (device_type h),
      encode_int (tcp_port h),
      encode_float (rtt h)])"

definition decode_msg_hello :: "u8 list \<Rightarrow> msg_hello \<Rightarrow> fault + msg_hello" where
  "decode_msg_hello = decode_frame
     [decode_header,
      into decode_int device_type_update,
      into decode_int tcp_port_update,
      into decode_float rtt_update]"

text \<open>The reply is the request itself: the \<open>input_len\<close> bytes at \<open>*input\<close>.\<close>

definition process_msg_hello ::
  "env \<Rightarrow> cstr \<Rightarrow> u8 list \<Rightarrow> nat \<Rightarrow> msg_hello \<Rightarrow> fault + effect list \<times> u8 list option" where
  "process_msg_hello e hostname input input_len hm =
     and_then (decode_msg_hello input hm) (\<lambda>h.
       Inr (if hello_event_set e then [Hello_Event (device_type h) hostname (tcp_port h)] else [],
            Some (take input_len input)))"

definition send_msg_hello ::
  "env \<Rightarrow> cstr \<Rightarrow> c_int \<Rightarrow> c_int \<Rightarrow> c_int \<Rightarrow> msg_hello \<Rightarrow> msg_hello
   \<Rightarrow> fault + effect list \<times> c_int \<times> msg_hello option" where
  "send_msg_hello e hostname portnum idc local_portnum hs hm =
     and_then (send_sync e hostname portnum idc
       (\<lambda>i. run_prog
         [assign m_type_update MSG_HELLO_TYPE,
          assign m_id_update i,
          copy_to e p_version_update ETHANOL_VERSION,
          assign device_type_update (if process_station e then 2 else 1),
          assign tcp_port_update local_portnum,
          assign rtt_update 0,
          set_size message_size_hello] hs)
       (encode_msg_hello (mallocs e))
       (\<lambda>t. t = MSG_HELLO_TYPE)
       (\<lambda>buf. decode_msg_hello buf hm))
     (\<lambda>(ev, idc', h1). Inr (ev, idc', map_option (\<lambda>h. h\<lparr>rtt := elapsed e\<rparr>) h1))"

definition ok_hello :: "msg_hello \<Rightarrow> bool" where
  "ok_hello h \<longleftrightarrow> ok_header h \<and> slen (p_version h) < 2 ^ 31 - 29"

definition bytes_hello :: "msg_hello \<Rightarrow> nat" where
  "bytes_hello h = slen (p_version h) + 29"

interpretation hello: msg_codec encode_msg_hello decode_msg_hello ok_hello
  "\<lambda>_ h. norm_header (bytes_hello h) h" bytes_hello m_type
  unfolding encode_msg_hello_def [abs_def] decode_msg_hello_def
  by (rule frame_codecI [where
        bss = "\<lambda>m. [le_bytes 4 (device_type m), le_bytes 4 (tcp_port m), le_bytes 4 (rtt m)]"])
    (simp_all add: codec ok_hello_def ok_header_def bytes_hello_def message_size_hello_def
      norm_header_def ac_simps)


subsection \<open>\<open>msg_bye\<close>\<close>

record msg_bye = msg_header +
  bye_tcp_port :: c_int

definition message_size_bye :: "msg_bye \<Rightarrow> fault + c_int" where
  "message_size_bye h = sum_sizes
     [sizeof 4, sizeof 4, strlen_ethanol (p_version h), sizeof 4, sizeof 4]"

definition encode_msg_bye :: "allocator \<Rightarrow> msg_bye \<Rightarrow> fault + msg_bye \<times> u8 list" where
  "encode_msg_bye mal = encode_frame mal message_size_bye (\<lambda>h.
     [encode_header (m_type h) (m_id h) (m_size h),
      encode_int (bye_tcp_port h)])"

definition decode_msg_bye :: "u8 list \<Rightarrow> msg_bye \<Rightarrow> fault + msg_bye" where
  "decode_msg_bye = decode_frame
     [decode_header,
      into decode_int bye_tcp_port_update]"

text \<open>
  \<open>*output\<close> is set to \<open>NULL\<close> first, and the message is then decoded from \<open>*output\<close>, not from
  \<open>*input\<close>: the decoder is called on the null pointer.
\<close>

definition process_msg_bye ::
  "env \<Rightarrow> cstr \<Rightarrow> u8 list \<Rightarrow> nat \<Rightarrow> msg_bye \<Rightarrow> fault + effect list \<times> u8 list option" where
  "process_msg_bye e hostname input input_len hm =
     (let output = (None :: u8 list option) in
      and_then (case output of None \<Rightarrow> Inl Null_Dereference | Some buf \<Rightarrow> decode_msg_bye buf hm) (\<lambda>h.
        Inr (if bye_event_set e then [Bye_Event hostname (bye_tcp_port h)] else [], output)))"

definition send_msg_bye ::
  "env \<Rightarrow> cstr \<Rightarrow> c_int \<Rightarrow> c_int \<Rightarrow> c_int \<Rightarrow> msg_bye \<Rightarrow> fault + effect list \<times> c_int" where
  "send_msg_bye e hostname portnum idc local_portnum hs =
     send_async e hostname portnum idc
       (\<lambda>i. run_prog
         [assign m_type_update MSG_BYE_TYPE,
          assign m_id_update i,
          copy_to e p_version_update ETHANOL_VERSION,
          assign bye_tcp_port_update local_portnum,
          set_size message_size_bye] hs)
       (encode_msg_bye (mallocs e))"

definition bytes_bye :: "msg_bye \<Rightarrow> nat" where
  "bytes_bye h = slen (p_version h) + 21"

definition ok_bye :: "msg_bye \<Rightarrow> bool" where
  "ok_bye h \<longleftrightarrow> ok_header h \<and> bytes_bye h < 2 ^ 31"

interpretation bye: msg_codec encode_msg_bye decode_msg_bye ok_bye
  "\<lambda>_ h. norm_header (bytes_bye h) h" bytes_bye m_type
  unfolding encode_msg_bye_def [abs_def] decode_msg_bye_def
  by (rule frame_codecI [where bss = "\<lambda>m. [le_bytes 4 (bye_tcp_port m)]"])
    (simp_all add: codec ok_bye_def ok_header_def bytes_bye_def message_size_bye_def
      norm_header_def ac_simps)


subsection \<open>\<open>msg_ping\<close> and \<open>msg_pong\<close>\<close>

record msg_ping = msg_header +
  ping_data :: cstr

record msg_pong = msg_header +
  pong_rtt :: c_float
  verify_data_ok :: bool

text \<open>\<open>BYTE_INICIAL\<close>; the remainder of C truncates towards zero.\<close>

definition c_rem :: "int \<Rightarrow> int \<Rightarrow> int" where
  "c_rem a b = sgn a * (\<bar>a\<bar> mod \<bar>b\<bar>)"

text \<open>
  \<open>(char) (BYTE_INICIAL + i) % 128\<close>: the cast binds tighter than the remainder, so the
  operand of \<open>%\<close> is a signed \<open>char\<close>.
\<close>

definition ping_value :: "nat \<Rightarrow> int" where
  "ping_value i = c_rem (sint (word_of_nat (48 + i) :: u8)) 128"

definition generate_ping_data :: "allocator \<Rightarrow> c_int \<Rightarrow> fault + u8 list" where
  "generate_ping_data mal p_size =
     (let data = mal (unat p_size); n = unat (p_size - 1) in
      if n + 1 \<le> length data
      then Inr (map (\<lambda>i. word_of_int (ping_value i)) [0..<n] @ [0] @ drop (n + 1) data)
      else Inl Write_Out_Of_Bounds)"

text \<open>
  The loop of \<open>verify_data\<close>: \<open>n\<close> counts the iterations left, \<open>i\<close> is the index.  It stops at the
  first byte that differs, so it reads past the end only if all bytes before are right.
\<close>

fun verify_loop :: "u8 list \<Rightarrow> nat \<Rightarrow> nat \<Rightarrow> fault + bool" where
  "verify_loop data i 0 = Inr True"
| "verify_loop data i (Suc n) =
     (if i < length data then
        if sint (data ! i) \<noteq> ping_value i then Inr False else verify_loop data (Suc i) n
      else Inl Read_Out_Of_Bounds)"

definition verify_data :: "u8 list \<Rightarrow> c_int \<Rightarrow> fault + bool" where
  "verify_data data p_size = verify_loop data 0 (unat (p_size - 1))"

definition message_size_ping :: "msg_ping \<Rightarrow> fault + c_int" where
  "message_size_ping h = sum_sizes
     [sizeof 4, sizeof 4, strlen_ethanol (p_version h), sizeof 4, strlen_ethanol (ping_data h)]"

definition message_size_pong :: "msg_pong \<Rightarrow> fault + c_int" where
  "message_size_pong h = sum_sizes
     [sizeof 4, sizeof 4, strlen_ethanol (p_version h), sizeof 4, sizeof 4, bool_len_ethanol]"

definition encode_msg_ping :: "allocator \<Rightarrow> msg_ping \<Rightarrow> fault + msg_ping \<times> u8 list" where
  "encode_msg_ping mal = encode_frame mal message_size_ping (\<lambda>h.
     [encode_header (m_type h) (m_id h) (m_size h),
      encode_char (ping_data h)])"

definition decode_msg_ping :: "u8 list \<Rightarrow> msg_ping \<Rightarrow> fault + msg_ping" where
  "decode_msg_ping = decode_frame
     [decode_header,
      into decode_char ping_data_update]"

definition encode_msg_pong :: "allocator \<Rightarrow> msg_pong \<Rightarrow> fault + msg_pong \<times> u8 list" where
  "encode_msg_pong mal = encode_frame mal message_size_pong (\<lambda>h.
     [encode_header (m_type h) (m_id h) (m_size h),
      encode_float (pong_rtt h),
      encode_bool (verify_data_ok h)])"

definition decode_msg_pong :: "u8 list \<Rightarrow> msg_pong \<Rightarrow> fault + msg_pong" where
  "decode_msg_pong = decode_frame
     [decode_header,
      into decode_float pong_rtt_update,
      into decode_bool verify_data_ok_update]"

definition process_msg_ping ::
  "env \<Rightarrow> u8 list \<Rightarrow> msg_ping \<Rightarrow> msg_pong \<Rightarrow> fault + effect list \<times> u8 list option" where
  "process_msg_ping e input hm hs =
     and_then (decode_msg_ping input hm) (\<lambda>ping.
     and_then (run_prog
       [assign m_type_update MSG_PONG,
        assign m_id_update (m_id ping),
        assign p_version_update ETHANOL_VERSION,
        set_size message_size_pong,
        assign pong_rtt_update 0] hs) (\<lambda>pong.
     and_then (strlen (ping_data ping)) (\<lambda>n.
     and_then (case ping_data ping of
         None \<Rightarrow> Inl Null_Dereference | Some d \<Rightarrow> verify_data d (word_of_nat n)) (\<lambda>v.
     and_then (encode_msg_pong (mallocs e) (pong\<lparr>verify_data_ok := v\<rparr>)) (\<lambda>(_, output).
       Inr ([], Some output))))))"

text \<open>
  \<open>send_msg_ping\<close>: the array of answers is allocated and not initialised; an attempt whose
  connection fails leaves its slot alone.
\<close>

datatype pong_slot = Slot_Uninitialised | Slot_Null | Slot_Pong msg_pong

fun ping_attempts ::
  "env \<Rightarrow> cstr \<Rightarrow> c_int \<Rightarrow> c_int \<Rightarrow> msg_ping \<Rightarrow> msg_pong \<Rightarrow> nat
   \<Rightarrow> fault + effect list \<times> c_int \<times> pong_slot list" where
  "ping_attempts e hostname portnum idc ping hm 0 = Inr ([], idc, [])"
| "ping_attempts e hostname portnum idc ping hm (Suc n) =
     (let (err, h_ssl, ev) = get_ssl_connection e hostname portnum in
      and_then
        (if err = 0 \<and> ssl h_ssl then
           and_then (encode_msg_ping (mallocs e) ping) (\<lambda>(ping', buffer).
             let buf = ssl_read e hostname portnum buffer in
             and_then (return_message_type buf) (\<lambda>t.
             and_then (if t = MSG_PONG
                       then and_then (decode_msg_pong buf hm)
                              (\<lambda>r. Inr (Slot_Pong (r\<lparr>pong_rtt := elapsed e\<rparr>)))
                       else Inr Slot_Null)
               (\<lambda>slot. Inr (ping', [Ssl_Write hostname portnum buffer], slot))))
         else Inr (ping, [], Slot_Uninitialised))
        (\<lambda>(ping', ev', slot).
           and_then (ping_attempts e hostname portnum (idc + 1) (ping'\<lparr>m_id := idc + 1\<rparr>) hm n)
             (\<lambda>(evs, idc', slots).
                Inr (ev @ ev' @ close_ssl_connection h_ssl @ evs, idc', slot # slots))))"

definition send_msg_ping ::
  "env \<Rightarrow> cstr \<Rightarrow> c_int \<Rightarrow> c_int \<Rightarrow> c_int \<Rightarrow> c_int \<Rightarrow> msg_ping \<Rightarrow> msg_pong
   \<Rightarrow> fault + effect list \<times> c_int \<times> pong_slot list" where
  "send_msg_ping e hostname portnum idc num_tries p_size hs hm =
     and_then (generate_ping_data (mallocs e) p_size) (\<lambda>data.
     and_then (run_prog
       [assign m_type_update MSG_PING,
        assign m_id_update idc,
        assign p_version_update ETHANOL_VERSION,
        assign ping_data_update (Some data),
        set_size message_size_ping] hs) (\<lambda>ping.
       ping_attempts e hostname portnum idc ping hm (nat (sint num_tries))))"

definition bytes_ping :: "msg_ping \<Rightarrow> nat" where
  "bytes_ping h = slen (p_version h) + slen (ping_data h) + 22"

definition ok_ping :: "msg_ping \<Rightarrow> bool" where
  "ok_ping h \<longleftrightarrow> ok_header h \<and> ok_str (ping_data h) \<and> bytes_ping h < 2 ^ 31"

definition norm_ping :: "msg_ping \<Rightarrow> msg_ping" where
  "norm_ping h = (norm_header (bytes_ping h) h)\<lparr>ping_data := canon (ping_data h)\<rparr>"

interpretation ping: msg_codec encode_msg_ping decode_msg_ping ok_ping "\<lambda>_. norm_ping" bytes_ping m_type
  unfolding encode_msg_ping_def [abs_def] decode_msg_ping_def
  by (rule frame_codecI [where bss = "\<lambda>m. [ser_str (ping_data m)]"])
    (simp_all add: codec encode_char_put ok_ping_def ok_header_def bytes_ping_def norm_ping_def
      message_size_ping_def norm_header_def ac_simps length_ser_str)

definition bytes_pong :: "msg_pong \<Rightarrow> nat" where
  "bytes_pong h = slen (p_version h) + 25"

definition ok_pong :: "msg_pong \<Rightarrow> bool" where
  "ok_pong h \<longleftrightarrow> ok_header h \<and> bytes_pong h < 2 ^ 31"

interpretation pong: msg_codec encode_msg_pong decode_msg_pong ok_pong
  "\<lambda>_ h. norm_header (bytes_pong h) h" bytes_pong m_type
  unfolding encode_msg_pong_def [abs_def] decode_msg_pong_def
  by (rule frame_codecI [where bss = "\<lambda>m. [le_bytes 4 (pong_rtt m), ser_bool (verify_data_ok m)]"])
    (simp_all add: codec ok_pong_def ok_header_def bytes_pong_def message_size_pong_def
      norm_header_def ac_simps)


subsection \<open>\<open>msg_error\<close>\<close>

record msg_error = msg_header +
  error_type :: c_int

definition size_msg_error :: "msg_error \<Rightarrow> fault + c_int" where
  "size_msg_error h = and_then (strlen (p_version h)) (\<lambda>p_version_len. sum_sizes
     [sizeof 4, sizeof (p_version_len + 1), sizeof 4, sizeof 4, sizeof 4, sizeof 4])"

text \<open>The argument \<open>msg_type\<close> of the source is not used.\<close>

definition return_error_msg_struct ::
  "allocator \<Rightarrow> c_int \<Rightarrow> c_int \<Rightarrow> msg_error \<Rightarrow> fault + u8 list" where
  "return_error_msg_struct mal error_typ m_idc hs =
     and_then (run_prog
       [assign m_type_update MSG_ERR_TYPE,
        assign error_type_update error_typ,
        assign m_id_update m_idc,
        assign p_version_update ETHANOL_VERSION] hs) (\<lambda>h.
     and_then (encode_frame mal size_msg_error (\<lambda>h.
       [encode_int (m_type h),
        encode_int (m_id h),
        encode_char (p_version h),
        encode_int (m_size h),
        encode_int (error_type h)]) h) (\<lambda>(_, buf). Inr buf))"


section \<open>Properties of the control messages\<close>

subsection \<open>Ping\<close>

lemma ping_value_ascii:
  assumes "i < 80"
  shows "ping_value i = 48 + int i" and "sint (word_of_int (ping_value i) :: u8) = ping_value i"
    and "(word_of_int (ping_value i) :: u8) \<noteq> 0"
proof -
  have s: "sint (word_of_nat (48 + i) :: u8) = 48 + int i"
  proof -
    have "sint (word_of_nat (48 + i) :: u8) = signed_take_bit 7 (int (48 + i))"
      by (simp only: signed_of_nat) simp
    also have "\<dots> = int (48 + i)"
      using assms by (intro signed_take_bit_int_eq_self) auto
    finally show ?thesis by simp
  qed
  show v: "ping_value i = 48 + int i"
    using assms by (simp add: ping_value_def s c_rem_def del: of_nat_add)
  have w: "word_of_int (ping_value i) = (word_of_nat (48 + i) :: u8)"
    by (simp add: v)
  show "sint (word_of_int (ping_value i) :: u8) = ping_value i"
    by (simp only: w s) (simp add: v)
  show "(word_of_int (ping_value i) :: u8) \<noteq> 0"
    unfolding w using s by (metis add_nonneg_eq_0_iff int_ops(1) of_nat_0_le_iff signed_0 zero_le_numeral zero_neq_numeral)
qed

lemma ping_value_80: "ping_value 80 = 0"
  by (simp add: ping_value_def c_rem_def)

lemma ping_data_chars:
  assumes "generate_ping_data mal p_size = Inr data" 
  shows "chars (Some data) = map (\<lambda>i. word_of_int (ping_value i)) [0..<min (unat (p_size - 1)) 80]"
    and "0 \<in> set data"
proof -
  let ?n = "unat (p_size - 1)" and ?f = "\<lambda>i. word_of_int (ping_value i) :: u8"
  obtain r where d: "data = map ?f [0..<?n] @ 0 # r"
    using assms by (auto simp: generate_ping_data_def Let_def split: if_splits)
  then show "0 \<in> set data" by simp
  have nz: "0 \<notin> set (map ?f [0..<m])" if "m \<le> 80" for m
    using that ping_value_ascii(3) by (fastforce dest!: sym [of 0])
  show "chars (Some data) = map ?f [0..<min ?n 80]"
  proof (cases "?n \<le> 80")
    case True
    then show ?thesis using nz [of ?n] by (simp add: d)
  next
    case False
    then have "[0..<?n] = [0..<80] @ 80 # [81..<?n]"
      using upt_add_eq_append [of 0 80 "?n - 80"] upt_conv_Cons [of 80 ?n] by simp
    then have "data = map ?f [0..<80] @ 0 # (map ?f [81..<?n] @ 0 # r)"
      by (simp add: d ping_value_80)
    then show ?thesis using nz [of 80] False by simp
  qed
qed

lemma verify_loop_True:
  assumes "\<And>j. i \<le> j \<Longrightarrow> j < i + n \<Longrightarrow> j < length data \<and> sint (data ! j) = ping_value j"
  shows "verify_loop data i n = Inr True"
  using assms by (induction n arbitrary: i) auto


lemma m_id_norm_ping [simp]: "m_id (norm_ping q) = m_id q"
  by (simp add: norm_ping_def)

lemma verify_ping_data:
  assumes "generate_ping_data mal p_size = Inr data" and "0 < slen (Some data)"
  shows "verify_data (chars (Some data) @ [0]) (word_of_nat (slen (Some data))) = Inr True"
proof -
  let ?m = "min (unat (p_size - 1)) 80"
  have c: "chars (Some data) = map (\<lambda>i. word_of_int (ping_value i)) [0..<?m]"
    using ping_data_chars assms(1) by blast
  then have l: "slen (Some data) = ?m"
    by (simp add: slen_def)
  have "unat (word_of_nat ?m - 1 :: c_int) = ?m - 1"
    using assms(2) l unat_word_of_small [of "?m - 1"] by (simp add: of_nat_diff)
  then show ?thesis
    unfolding verify_data_def l
    by (simp only:) (rule verify_loop_True, auto simp: c nth_append ping_value_ascii(2))
qed

text \<open>
  A ping that a client builds with \<open>generate_ping_data\<close> (at least two bytes, so that one
  character is sent) is answered by the server with a pong that carries the id of the ping and
  \<open>verify_data_ok = true\<close>, whatever follows the message in the receive buffer.  It holds for every
  size: the byte at index 80 of the pattern is zero, so that a longer ping is cut to 80
  characters, which still verify.
\<close>

theorem ping_answered:
  assumes "generate_ping_data mal p_size = Inr data" and "2 \<le> unat p_size"
    and "ping_data q = Some data" and "ok_header q" and "slen (p_version q) < 2 ^ 31 - 102"
    and "encode_msg_ping mal' q = Inr (q', wire)"
    and "allocates mal'" and "allocates (mallocs e)"
  shows "\<exists>out. process_msg_ping e (wire @ r) hm hs = Inr ([], Some out) \<and>
    (\<forall>r' h0. decode_msg_pong (out @ r') h0 = Inr \<lparr>m_type = MSG_PONG, m_id = m_id q,
       p_version = ETHANOL_VERSION, m_size = 30, pong_rtt = 0, verify_data_ok = True\<rparr>)"
proof -
  have d: "chars (Some data) = map (\<lambda>i. word_of_int (ping_value i)) [0..<min (unat (p_size - 1)) 80]"
      "0 \<in> set data"
    using ping_data_chars assms(1) by auto
  have "unat (p_size - 1) = unat p_size - 1"
    using assms(2) by (metis One_nat_def Suc_1 Suc_leD unat_1 unat_sub word_le_nat_alt)
  then have len: "slen (Some data) \<le> 80" "0 < slen (Some data)"
    using assms(2) d by (simp_all add: slen_def)
  then have ok: "ok_ping q"
    using assms d by (simp add: ok_ping_def bytes_ping_def ok_str_def wf_str_def)
  have dec: "decode_msg_ping (wire @ r) hm = Inr (norm_ping q)"
    by (rule ping.roundtrip [OF ok]) (rule assms)+
  have pd: "ping_data (norm_ping q) = Some (chars (Some data) @ [0])"
    using len assms(3) by (simp add: norm_ping_def canon_def slen_def)
  define a where "a = hs\<lparr>m_type := MSG_PONG, m_id := m_id q, p_version := ETHANOL_VERSION,
     m_size := 30, pong_rtt := 0, verify_data_ok := True\<rparr>"
  have ok_a: "ok_pong a"
    by (simp add: a_def ok_pong_def ok_header_def bytes_pong_def)
  obtain a' out where out: "encode_msg_pong (mallocs e) a = Inr (a', out)"
    using pong.enc_no_fault [OF ok_a] assms by blast
  have v: "verify_data (chars (Some data) @ [0]) (word_of_nat (slen (Some data))) = Inr True"
    using verify_ping_data assms(1) len(2) by blast
  have sz: "message_size_pong h = sizeof 30" if "p_version h = ETHANOL_VERSION" for h
    using that by (simp add: message_size_pong_def)
  have "strlen (Some (chars (Some data) @ [0])) = Inr (slen (Some data))"
    by (subst strlen_wf) (simp_all add: slen_def chars_no_zero)
  then have "process_msg_ping e (wire @ r) hm hs = Inr ([], Some out)"
    using v out by (simp add: process_msg_ping_def dec pd set_size_ok [where n = 30] sz a_def m_id_norm_ping)
  moreover have "norm_header (bytes_pong a) a = \<lparr>m_type = MSG_PONG, m_id = m_id q,
       p_version = ETHANOL_VERSION, m_size = 30, pong_rtt = 0, verify_data_ok = True\<rparr>"
    by (simp add: a_def norm_header_def bytes_pong_def)
  ultimately show ?thesis
    using pong.roundtrip [OF ok_a _ out] assms by auto
qed

definition demo_ping :: msg_ping where
  "demo_ping = \<lparr>m_type = MSG_PING, m_id = 7, p_version = ETHANOL_VERSION, m_size = 0,
     ping_data = Some [48, 49, 50, 0, 0, 0]\<rparr>"

theorem ping_answered_witness:
  "\<exists>out. process_msg_ping demo_env ([3,0,0,0, 7,0,0,0, 5,0,0,0, 0x31,0x2E,0x30,0x2E,0x33,0, 30,0,0,0,
       3,0,0,0, 48,49,50,0] @ [9, 9]) demo_ping \<lparr>m_type = 0, m_id = 0, p_version = None, m_size = 0,
       pong_rtt = 5, verify_data_ok = False\<rparr> = Inr ([], Some out) \<and>
    (\<forall>r' h0. decode_msg_pong (out @ r') h0 = Inr \<lparr>m_type = MSG_PONG, m_id = 7,
       p_version = ETHANOL_VERSION, m_size = 30, pong_rtt = 0, verify_data_ok = True\<rparr>)"
proof -
  have g: "generate_ping_data demo_alloc 4 = Inr [48, 49, 50, 0, 0, 0]"
    by code_simp
  have e: "encode_msg_ping demo_alloc demo_ping = Inr (demo_ping\<lparr>m_size := 30\<rparr>,
      [3,0,0,0, 7,0,0,0, 5,0,0,0, 0x31,0x2E,0x30,0x2E,0x33,0, 30,0,0,0, 3,0,0,0, 48,49,50,0])"
    by code_simp
  have q: "ping_data demo_ping = Some [48, 49, 50, 0, 0, 0]" "ok_header demo_ping"
      "slen (p_version demo_ping) < 2 ^ 31 - 102" "m_id demo_ping = 7"
    by (simp_all add: demo_ping_def ok_header_def)
  show ?thesis
    using ping_answered [OF g _ q(1-3) e allocates_demo_alloc allocates_demo_env] q(4) by simp
qed


text \<open>
  Whatever bytes arrive, the server side of the bye message dereferences a \<open>NULL\<close> pointer.
\<close>

theorem bye_crashes: "process_msg_bye e hostname input input_len hm = Inl Null_Dereference"
  by (simp add: process_msg_bye_def)

end
