(* ===== verification/Sys_Stats.thy ===== *)
theory Sys_Stats
  imports Frame
begin

section \<open>Interface counters (\<open>ethanol_functions/net_statistics.c\<close>, reading)\<close>

text \<open>
  \<open>get_statistics\<close> reads the counters of a network interface from
  \<open>/sys/class/net/<intf>/statistics/<metric>\<close>.  The name of the file is composed with \<open>sprintf\<close> in
  an array of 200 bytes; the name of the interface comes from the network.
\<close>

definition str_bytes :: "string \<Rightarrow> u8 list" where
  "str_bytes s = map of_char s"

text \<open>What \<open>%s\<close> prints: the GNU C library prints \<open>(null)\<close> for a null pointer.\<close>

definition fmt_str :: "cstr \<Rightarrow> fault + u8 list" where
  "fmt_str s = (case s of
       None \<Rightarrow> Inr (str_bytes ''(null)'')
     | Some b \<Rightarrow> if 0 \<in> set b then Inr (str_chars b) else Inl Read_Out_Of_Bounds)"

text \<open>\<open>sprintf\<close> into an array of \<open>n\<close> bytes.\<close>

definition sprintf_into :: "nat \<Rightarrow> u8 list \<Rightarrow> fault + u8 list" where
  "sprintf_into n cs = (if length cs + 1 \<le> n then Inr cs else Inl Write_Out_Of_Bounds)"

definition stat_path :: "cstr \<Rightarrow> string \<Rightarrow> fault + u8 list" where
  "stat_path intf metric = and_then (fmt_str intf) (\<lambda>i. sprintf_into 200
     (str_bytes ''/sys/class/net/'' @ i @ str_bytes ''/statistics/'' @ str_bytes metric))"

definition read_value_in_file :: "env \<Rightarrow> string \<Rightarrow> cstr \<Rightarrow> fault + c_long" where
  "read_value_in_file e metric intf = and_then (stat_path intf metric) (\<lambda>filename.
     Inr (case sysfs e filename of None \<Rightarrow> - 1 | Some valor \<Rightarrow> valor))"

record net_statistics =
  collisions :: c_long
  multicast :: c_long
  rx_bytes :: c_long
  rx_compressed :: c_long
  rx_crc_errors :: c_long
  rx_dropped :: c_long
  rx_errors :: c_long
  rx_fifo_errors :: c_long
  rx_frame_errors :: c_long
  rx_length_errors :: c_long
  rx_missed_errors :: c_long
  rx_over_errors :: c_long
  rx_packets :: c_long
  tx_aborted_errors :: c_long
  tx_bytes :: c_long
  tx_carrier_errors :: c_long
  tx_compressed :: c_long
  tx_dropped :: c_long
  tx_errors :: c_long
  tx_fifo_errors :: c_long
  tx_heartbeat_errors :: c_long
  tx_packets :: c_long
  tx_window_errors :: c_long

definition read_into ::
  "env \<Rightarrow> cstr \<Rightarrow> string \<Rightarrow> ((c_long \<Rightarrow> c_long) \<Rightarrow> net_statistics \<Rightarrow> net_statistics)
   \<Rightarrow> net_statistics step" where
  "read_into e intf metric upd r =
     and_then (read_value_in_file e metric intf) (\<lambda>v. Inr (upd (\<lambda>_. v) r))"

definition get_statistics_local :: "env \<Rightarrow> cstr \<Rightarrow> net_statistics step" where
  "get_statistics_local e intf = run_prog
    [read_into e intf ''collisions'' collisions_update,
     read_into e intf ''multicast'' multicast_update,
     read_into e intf ''rx_bytes'' rx_bytes_update,
     read_into e intf ''rx_compressed'' rx_compressed_update,
     read_into e intf ''rx_crc_errors'' rx_crc_errors_update,
     read_into e intf ''rx_dropped'' rx_dropped_update,
     read_into e intf ''rx_errors'' rx_errors_update,
     read_into e intf ''rx_fifo_errors'' rx_fifo_errors_update,
     read_into e intf ''rx_frame_errors'' rx_frame_errors_update,
     read_into e intf ''rx_length_errors'' rx_length_errors_update,
     read_into e intf ''rx_missed_errors'' rx_missed_errors_update,
     read_into e intf ''rx_over_errors'' rx_over_errors_update,
     read_into e intf ''rx_packets'' rx_packets_update,
     read_into e intf ''tx_aborted_errors'' tx_aborted_errors_update,
     read_into e intf ''tx_bytes'' tx_bytes_update,
     read_into e intf ''tx_carrier_errors'' tx_carrier_errors_update,
     read_into e intf ''tx_compressed'' tx_compressed_update,
     read_into e intf ''tx_dropped'' tx_dropped_update,
     read_into e intf ''tx_errors'' tx_errors_update,
     read_into e intf ''tx_fifo_errors'' tx_fifo_errors_update,
     read_into e intf ''tx_heartbeat_errors'' tx_heartbeat_errors_update,
     read_into e intf ''tx_packets'' tx_packets_update,
     read_into e intf ''tx_window_errors'' tx_window_errors_update]"

text \<open>\<open>r0\<close> is the uninitialised block of \<open>malloc\<close>.\<close>

definition get_statistics :: "env \<Rightarrow> cstr \<Rightarrow> net_statistics \<Rightarrow> fault + net_statistics" where
  "get_statistics e intf r0 = get_statistics_local e intf r0"


subsection \<open>Properties\<close>

definition stat_value :: "env \<Rightarrow> cstr \<Rightarrow> string \<Rightarrow> c_long" where
  "stat_value e intf metric = (case sysfs e (str_bytes ''/sys/class/net/'' @ chars intf
     @ str_bytes ''/statistics/'' @ str_bytes metric) of None \<Rightarrow> - 1 | Some v \<Rightarrow> v)"

lemma length_str_bytes [simp]: "length (str_bytes s) = length s"
  by (simp add: str_bytes_def)

lemma read_value_ok:
  assumes "wf_str (Some b)" and "slen (Some b) + length metric \<le> 172"
  shows "read_value_in_file e metric (Some b) = Inr (stat_value e (Some b) metric)"
proof -
  have "0 \<in> set b" and "length (str_chars b) + length metric \<le> 172"
    using assms by (simp_all add: wf_str_def slen_def chars_def)
  then show ?thesis
    by (simp add: read_value_in_file_def stat_path_def fmt_str_def sprintf_into_def
        stat_value_def chars_def)
qed

lemma read_value_overflow:
  assumes "wf_str (Some b)" and "172 < slen (Some b) + length metric"
  shows "read_value_in_file e metric (Some b) = Inl Write_Out_Of_Bounds"
proof -
  have "0 \<in> set b" and "172 < length (str_chars b) + length metric"
    using assms by (simp_all add: wf_str_def slen_def chars_def)
  then show ?thesis
    by (simp add: read_value_in_file_def stat_path_def fmt_str_def sprintf_into_def)
qed

text \<open>The longest metric, \<open>tx_heartbeat_errors\<close>, has 19 characters.\<close>

lemma get_statistics_ok:
  assumes "wf_str (Some b)" and "slen (Some b) \<le> 153"
  shows "get_statistics e (Some b) r0 = Inr \<lparr>
    collisions = stat_value e (Some b) ''collisions'',
    multicast = stat_value e (Some b) ''multicast'',
    rx_bytes = stat_value e (Some b) ''rx_bytes'',
    rx_compressed = stat_value e (Some b) ''rx_compressed'',
    rx_crc_errors = stat_value e (Some b) ''rx_crc_errors'',
    rx_dropped = stat_value e (Some b) ''rx_dropped'',
    rx_errors = stat_value e (Some b) ''rx_errors'',
    rx_fifo_errors = stat_value e (Some b) ''rx_fifo_errors'',
    rx_frame_errors = stat_value e (Some b) ''rx_frame_errors'',
    rx_length_errors = stat_value e (Some b) ''rx_length_errors'',
    rx_missed_errors = stat_value e (Some b) ''rx_missed_errors'',
    rx_over_errors = stat_value e (Some b) ''rx_over_errors'',
    rx_packets = stat_value e (Some b) ''rx_packets'',
    tx_aborted_errors = stat_value e (Some b) ''tx_aborted_errors'',
    tx_bytes = stat_value e (Some b) ''tx_bytes'',
    tx_carrier_errors = stat_value e (Some b) ''tx_carrier_errors'',
    tx_compressed = stat_value e (Some b) ''tx_compressed'',
    tx_dropped = stat_value e (Some b) ''tx_dropped'',
    tx_errors = stat_value e (Some b) ''tx_errors'',
    tx_fifo_errors = stat_value e (Some b) ''tx_fifo_errors'',
    tx_heartbeat_errors = stat_value e (Some b) ''tx_heartbeat_errors'',
    tx_packets = stat_value e (Some b) ''tx_packets'',
    tx_window_errors = stat_value e (Some b) ''tx_window_errors''\<rparr>"
  using assms
  by (simp add: get_statistics_def get_statistics_local_def read_into_def read_value_ok)

lemma get_statistics_overflow:
  assumes "wf_str (Some b)" and "162 < slen (Some b)"
  shows "get_statistics e (Some b) r0 = Inl Write_Out_Of_Bounds"
  using assms
  by (simp add: get_statistics_def get_statistics_local_def read_into_def read_value_overflow)

end
