(* ===== verification/Relay.thy ===== *)
theory Relay
  imports Sys_Stats
begin

section \<open>The service behind the traffic counters\<close>

text \<open>
  The five modules \<open>messaging/msg_bytesreceived.c\<close>, \<open>msg_bytessent.c\<close>, \<open>msg_packetsreceived.c\<close>,
  \<open>msg_packetssent.c\<close> and \<open>msg_packetslost.c\<close> follow one protocol.  A request names an interface and,
  optionally, a station.  An access point that gets a request with a station address forwards it
  to the station and passes the answer on; otherwise it reads its own counters.  The locale
  \<open>counter_service\<close> states that protocol as laws on the operations of a module; what follows from
  them, up to the path from a controller through an access point to a station, is proved
  here once and interpreted for each module in \<open>Msg_Stats\<close>.
\<close>

text \<open>The structure that the senders fill, for a message of \<open>n\<close> bytes.\<close>

definition sta_request :: "allocator \<Rightarrow> c_int \<Rightarrow> c_int \<Rightarrow> cstr \<Rightarrow> cstr \<Rightarrow> c_int
   \<Rightarrow> 'a sta_query_scheme \<Rightarrow> nat \<Rightarrow> 'a sta_query_scheme" where
  "sta_request mal mt i intf staip staport h n = h\<lparr>m_type := mt, m_id := i,
     p_version := dup mal ETHANOL_VERSION, intf_name := dup mal intf, sta_ip := dup mal staip,
     sta_port := staport, m_size := word_of_nat n\<rparr>"

text \<open>What a reply \<open>out\<close> to the request \<open>q\<close> must carry to answer it with the counter value \<open>v\<close>.\<close>

definition answers_with ::
  "(u8 list \<Rightarrow> 'a sta_query_scheme \<Rightarrow> fault + 'a sta_query_scheme) \<Rightarrow> ('a sta_query_scheme \<Rightarrow> c_long)
   \<Rightarrow> 'a sta_query_scheme \<Rightarrow> c_long \<Rightarrow> u8 list \<Rightarrow> bool" where
  "answers_with dec cnt q v out \<longleftrightarrow> (\<forall>r. return_message_type (out @ r) = Inr (m_type q)) \<and>
     (\<forall>r h0. \<exists>a. dec (out @ r) h0 = Inr a \<and> m_type a = m_type q \<and> m_id a = m_id q
        \<and> intf_name a = canon (intf_name q) \<and> cnt a = v)"

text \<open>
  A peer that runs \<open>srv\<close> on the requests of at most \<open>n\<close> bytes (a server reads a request into an array of
  fixed size); what becomes of a longer request is not said.
\<close>

definition serves_upto ::
  "nat \<Rightarrow> env \<Rightarrow> cstr \<Rightarrow> c_int \<Rightarrow> c_int \<Rightarrow> (u8 list \<Rightarrow> fault + effect list \<times> u8 list option) \<Rightarrow> bool" where
  "serves_upto n e host port t srv \<longleftrightarrow> (\<forall>req ev out. of_type t req \<longrightarrow> length req \<le> n \<longrightarrow>
     srv req = Inr (ev, Some out) \<longrightarrow> (\<exists>r. ssl_read e host port req = out @ r))"

lemma serves_uptoD:
  "serves_upto n e host port t srv \<Longrightarrow> of_type t req \<Longrightarrow> length req \<le> n \<Longrightarrow> srv req = Inr (ev, Some out)
   \<Longrightarrow> \<exists>r. ssl_read e host port req = out @ r"
  by (simp add: serves_upto_def)

locale counter_service = msg_codec enc dec ok norm bytes m_type
  for enc :: "allocator \<Rightarrow> 'a sta_query_scheme \<Rightarrow> fault + 'a sta_query_scheme \<times> u8 list"
    and dec ok norm bytes +
  fixes send :: "env \<Rightarrow> cstr \<Rightarrow> c_int \<Rightarrow> c_int \<Rightarrow> cstr \<Rightarrow> cstr \<Rightarrow> c_int \<Rightarrow> 'a sta_query_scheme
        \<Rightarrow> 'a sta_query_scheme \<Rightarrow> fault + effect list \<times> c_int \<times> 'a sta_query_scheme option"
    and process :: "env \<Rightarrow> u8 list \<Rightarrow> 'a sta_query_scheme \<Rightarrow> 'a sta_query_scheme \<Rightarrow> 'a sta_query_scheme
        \<Rightarrow> net_statistics \<Rightarrow> fault + effect list \<times> u8 list option"
    and mt :: c_int
    and cnt :: "'a sta_query_scheme \<Rightarrow> c_long"
    and set_cnt :: "c_long \<Rightarrow> 'a sta_query_scheme \<Rightarrow> 'a sta_query_scheme"
    and of_sys :: "net_statistics \<Rightarrow> c_long"
    and of_nl :: "netlink_stats \<Rightarrow> c_long"
  assumes cnt_set: "cnt (set_cnt v m) = v"
    and set_fields: "m_type (set_cnt v m) = m_type m" "m_id (set_cnt v m) = m_id m"
      "intf_name (set_cnt v m) = intf_name m" "sta_ip (set_cnt v m) = sta_ip m"
      "sta_port (set_cnt v m) = sta_port m"
    and ok_set: "ok (set_cnt v m) = ok m"
    and ok_norm: "ok m \<Longrightarrow> ok (norm h0 m)"
    and norm_fields: "m_type (norm h0 m) = m_type m" "m_id (norm h0 m) = m_id m"
      "intf_name (norm h0 m) = canon (intf_name m)" "sta_ip (norm h0 m) = canon (sta_ip m)"
      "sta_port (norm h0 m) = sta_port m" "cnt (norm h0 m) = cnt m"
    and send_eq: "\<lbrakk>copyable (mallocs e) ETHANOL_VERSION; copyable (mallocs e) intf; copyable (mallocs e) staip;
        intf \<noteq> None; slen intf + slen staip < 2 ^ 31 - 100\<rbrakk>
      \<Longrightarrow> \<exists>q. ok q \<and> m_type q = mt \<and> m_id q = i \<and> canon (intf_name q) = canon intf
          \<and> canon (sta_ip q) = canon staip \<and> sta_port q = staport \<and> slen (p_version q) = slen ETHANOL_VERSION
          \<and> send e host port i intf staip staport hs hm
            = send_sync e host port i (\<lambda>_. Inr q) (enc (mallocs e)) (\<lambda>t. t = mt) (\<lambda>b. dec b hm)"
    and process_eq: "process e input hm hs hm' r0 = and_then (dec input hm) (\<lambda>h.
     and_then
       (if sta_ip h \<noteq> None then
          and_then (send e (sta_ip h) (sta_port h) (m_id h) (intf_name h) None 0 hs hm')
            (\<lambda>(ev, _, h1). Inr (ev, case h1 of None \<Rightarrow> h | Some a \<Rightarrow> set_cnt (cnt a) h))
        else if process_station e then
          Inr ([], case interface_stats e (intf_name h) of
               Some stats \<Rightarrow> set_cnt (of_nl stats) h
             | None \<Rightarrow> set_cnt 0 h)
        else
          and_then (get_statistics e (intf_name h) r0) (\<lambda>stats. Inr ([], set_cnt (of_sys stats) h)))
       (\<lambda>(ev, h). and_then (enc (mallocs e) h) (\<lambda>(_, output). Inr (ev, Some output))))"
begin

lemma reply:
  assumes "ok q" and "allocates mal"
  shows "\<exists>m' out. enc mal (set_cnt v (norm hm q)) = Inr (m', out) \<and> answers_with dec cnt q v out"
proof -
  let ?a = "set_cnt v (norm hm q)"
  have ok: "ok ?a"
    using assms by (simp add: ok_set ok_norm)
  obtain m' out where e: "enc mal ?a = Inr (m', out)"
    using enc_no_fault [OF ok assms(2)] by blast
  have "answers_with dec cnt q v out"
    unfolding answers_with_def
    using wire_message_type [OF ok assms(2) e] roundtrip [OF ok assms(2) e]
    by (simp add: norm_fields set_fields cnt_set)
  with e show ?thesis by blast
qed

text \<open>An access point asked for its own counters.\<close>

lemma local_answer:
  assumes "ok q" "allocates mal" "enc mal q = Inr (q', wire)"
    and "allocates (mallocs e)" "\<not> process_station e" "slen (sta_ip q) = 0"
    and "get_statistics e (canon (intf_name q)) r0 = Inr stats"
  shows "\<exists>out. process e (wire @ r) hm hs hm' r0 = Inr ([], Some out) \<and> answers_with dec cnt q (of_sys stats) out"
proof -
  obtain m' out where "enc (mallocs e) (set_cnt (of_sys stats) (norm hm q)) = Inr (m', out)"
      "answers_with dec cnt q (of_sys stats) out"
    using reply [OF assms(1,4)] by blast
  moreover have "canon (sta_ip q) = None"
    using assms(6) by (simp add: canon_eq_None)
  ultimately show ?thesis
    using assms roundtrip [OF assms(1-3), of r hm]
    by (simp add: process_eq norm_fields)
qed

text \<open>A station asked for its own counters.\<close>

lemma station_answer:
  assumes "ok q" "allocates mal" "enc mal q = Inr (q', wire)"
    and "allocates (mallocs e)" "process_station e" "slen (sta_ip q) = 0"
  shows "\<exists>out. process e (wire @ r) hm hs hm' r0 = Inr ([], Some out) \<and>
      answers_with dec cnt q (case interface_stats e (canon (intf_name q)) of Some s \<Rightarrow> of_nl s | None \<Rightarrow> 0) out"
    (is "\<exists>out. _ \<and> answers_with dec cnt q ?v out")
proof -
  obtain m' out where "enc (mallocs e) (set_cnt ?v (norm hm q)) = Inr (m', out)" "answers_with dec cnt q ?v out"
    using reply [OF assms(1,4)] by blast
  moreover have "canon (sta_ip q) = None"
    using assms(6) by (simp add: canon_eq_None)
  ultimately show ?thesis
    using assms roundtrip [OF assms(1-3), of r hm]
    by (simp add: process_eq norm_fields split: option.splits)
qed

text \<open>The client that is answered gets the value.\<close>

lemma send_answered:
  assumes "copyable (mallocs e) ETHANOL_VERSION" "copyable (mallocs e) intf" "copyable (mallocs e) staip"
    and "intf \<noteq> None" "slen intf + slen staip < 2 ^ 31 - 100" "allocates (mallocs e)"
    and conn: "reaches e host port"
    and peer: "\<And>q q' req. \<lbrakk>ok q; m_type q = mt; m_id q = i; canon (intf_name q) = canon intf;
        canon (sta_ip q) = canon staip; sta_port q = staport; slen (p_version q) = slen ETHANOL_VERSION;
        enc (mallocs e) q = Inr (q', req)\<rbrakk>
      \<Longrightarrow> \<exists>out r. ssl_read e host port req = out @ r \<and> answers_with dec cnt q v out"
  shows "\<exists>req a. send e host port i intf staip staport hs hm
      = Inr (session e host port req, i + 1, Some a)
      \<and> m_id a = i \<and> intf_name a = canon intf \<and> cnt a = v"
proof -
  obtain q where q: "ok q" "m_type q = mt" "m_id q = i" "canon (intf_name q) = canon intf"
      "canon (sta_ip q) = canon staip" "sta_port q = staport" "slen (p_version q) = slen ETHANOL_VERSION"
    and s: "send e host port i intf staip staport hs hm
            = send_sync e host port i (\<lambda>_. Inr q) (enc (mallocs e)) (\<lambda>t. t = mt) (\<lambda>b. dec b hm)"
    using send_eq [OF assms(1-5)] by blast
  obtain q' req where e: "enc (mallocs e) q = Inr (q', req)"
    using enc_no_fault [OF q(1) assms(6)] by blast
  obtain out r where out: "ssl_read e host port req = out @ r" "answers_with dec cnt q v out"
    using peer [OF q e] by blast
  obtain a where a: "dec (out @ r) hm = Inr a" "m_id a = i" "intf_name a = canon intf" "cnt a = v"
    using out(2) q unfolding answers_with_def by metis
  have "return_message_type (out @ r) = Inr mt"
    using out(2) q(2) by (simp add: answers_with_def)
  then show ?thesis
    using a q(2) close_open_connection [OF conn, of req]
    by (auto simp add: s send_sync_def conn e out(1) Let_def)
qed

text \<open>
  An access point asked for the counters of a station forwards the request to it, and passes on
  what the station answers.
\<close>

lemma relay_answer:
  assumes q: "ok q" "allocates mal" "enc mal q = Inr (q', wire)" "m_type q = mt"
    and e: "allocates (mallocs e)" "copyable (mallocs e) ETHANOL_VERSION"
      "copyable (mallocs e) (canon (intf_name q))"
    and sta: "0 < slen (sta_ip q)" "0 < slen (intf_name q)" "slen (intf_name q) < 2 ^ 31 - 100"
    and conn: "reaches e (canon (sta_ip q)) (sta_port q)"
    and station: "process_station e2" "allocates (mallocs e2)"
    and peer: "serves_upto n e (canon (sta_ip q)) (sta_port q) mt (\<lambda>req. process e2 (req @ j req) hm2 hs2 hm2' r2)"
    and len: "\<And>q1. ok q1 \<Longrightarrow> slen (p_version q1) = slen ETHANOL_VERSION \<Longrightarrow> slen (intf_name q1) + slen (sta_ip q1) \<le> slen (intf_name q) \<Longrightarrow> bytes q1 \<le> n"
  shows "\<exists>req out. process e (wire @ r) hm hs hm' r0
       = Inr (session e (canon (sta_ip q)) (sta_port q) req, Some out)
     \<and> answers_with dec cnt q (case interface_stats e2 (canon (intf_name q)) of Some s \<Rightarrow> of_nl s | None \<Rightarrow> 0) out"
    (is "\<exists>req out. _ \<and> answers_with dec cnt q ?v out")
proof -
  let ?ip = "canon (sta_ip q)" and ?in = "canon (intf_name q)"
  have nn: "?ip \<noteq> None" "?in \<noteq> None"
    using sta by (simp_all add: canon_eq_None)
  have p: "\<exists>out r. ssl_read e ?ip (sta_port q) req = out @ r \<and> answers_with dec cnt q1 ?v out"
    if "ok q1" "canon (intf_name q1) = canon ?in" "canon (sta_ip q1) = canon None"
      "enc (mallocs e) q1 = Inr (q1', req)" "m_type q1 = mt" "slen (p_version q1) = slen ETHANOL_VERSION" for q1 q1' req
  proof -
    have "slen (sta_ip q1) = 0"
      using that(3) canon_eq_None [of "sta_ip q1"] by simp
    from station_answer [OF that(1) e(1) that(4) station(2,1) this, of "j req" hm2 hs2 hm2' r2]
    obtain out where out: "process e2 (req @ j req) hm2 hs2 hm2' r2 = Inr ([], Some out)"
        "answers_with dec cnt q1 ?v out"
      using \<open>canon (intf_name q1) = canon ?in\<close> by auto
    have "slen (intf_name q1) = slen (intf_name q)"
      using that(2) by (metis slen_canon)
    then have "length req \<le> n"
      using len [OF that(1,6)] wire_length [OF that(1) e(1) that(4)] \<open>slen (sta_ip q1) = 0\<close> by simp
    then show ?thesis
      using serves_uptoD [OF peer _ _ out(1)] wire_type [OF that(1) e(1) that(4)] that(5) out(2) by blast
  qed
  have "\<exists>req a. send e ?ip (sta_port q) (m_id q) ?in None 0 hs hm'
      = Inr (session e ?ip (sta_port q) req, m_id q + 1, Some a)
      \<and> m_id a = m_id q \<and> intf_name a = canon ?in \<and> cnt a = ?v"
    by (rule send_answered [OF e(2,3) copyable_None nn(2) _ e(1) conn]) (use sta p in auto)
  then obtain req a where a: "send e ?ip (sta_port q) (m_id q) ?in None 0 hs hm'
      = Inr (session e ?ip (sta_port q) req, m_id q + 1, Some a)"
      "cnt a = ?v"
    by blast
  obtain m' out where "enc (mallocs e) (set_cnt ?v (norm hm q)) = Inr (m', out)" "answers_with dec cnt q ?v out"
    using reply [OF q(1) e(1)] by blast
  then show ?thesis
    using a nn roundtrip [OF q(1-3), of r hm] by (auto simp: process_eq norm_fields)
qed

text \<open>
  The whole path: a controller \<open>e0\<close> asks the access point \<open>e1\<close> for the counters of an interface of
  the station \<open>e2\<close>, and gets the counter of the station, as long as the requests fit in the \<open>n\<close> bytes
  that the servers read.
\<close>

lemma end_to_end:
  assumes e0: "copyable (mallocs e0) ETHANOL_VERSION" "copyable (mallocs e0) intf"
      "copyable (mallocs e0) staip" "allocates (mallocs e0)" "reaches e0 host port"
      "serves_upto n e0 host port mt (\<lambda>req. process e1 (req @ j1 req) hm1 hs1 hm1' r1)"
    and e1: "allocates (mallocs e1)" "copyable (mallocs e1) ETHANOL_VERSION"
      "copyable (mallocs e1) (canon intf)" "reaches e1 (canon staip) staport"
      "serves_upto n e1 (canon staip) staport mt (\<lambda>req. process e2 (req @ j2 req) hm2 hs2 hm2' r2)"
    and e2: "process_station e2" "allocates (mallocs e2)"
    and names: "0 < slen intf" "0 < slen staip" "slen intf + slen staip < 2 ^ 31 - 100"
    and fits: "\<And>q. ok q \<Longrightarrow> slen (p_version q) = slen ETHANOL_VERSION \<Longrightarrow> slen (intf_name q) + slen (sta_ip q) \<le> slen intf + slen staip \<Longrightarrow> bytes q \<le> n"
  shows "\<exists>req a. send e0 host port i intf staip staport hs hm
      = Inr (session e0 host port req, i + 1, Some a) \<and> m_id a = i \<and> intf_name a = canon intf
      \<and> cnt a = (case interface_stats e2 (canon intf) of Some s \<Rightarrow> of_nl s | None \<Rightarrow> 0)"
proof (rule send_answered [OF e0(1-3) _ names(3) e0(4,5)])
  show "intf \<noteq> None"
    using names(1) by (cases intf) simp_all
next
  fix q q' req
  assume q: "ok q" "m_type q = mt" "m_id q = i" "canon (intf_name q) = canon intf"
    "canon (sta_ip q) = canon staip" "sta_port q = staport" "slen (p_version q) = slen ETHANOL_VERSION"
    "enc (mallocs e0) q = Inr (q', req)"
  have len: "slen (sta_ip q) = slen staip" "slen (intf_name q) = slen intf"
    using q(4,5) by (metis slen_canon)+
  have "\<exists>req' out. process e1 (req @ j1 req) hm1 hs1 hm1' r1
       = Inr (session e1 (canon (sta_ip q)) (sta_port q) req', Some out)
     \<and> answers_with dec cnt q
         (case interface_stats e2 (canon (intf_name q)) of Some s \<Rightarrow> of_nl s | None \<Rightarrow> 0) out"
    by (rule relay_answer [OF q(1) e0(4) q(8,2) e1(1,2), where n = n and j = j2])
      (use q len names e1 e2 fits in auto)
  moreover have "length req \<le> n"
    using fits [OF q(1,7)] wire_length [OF q(1) e0(4) q(8)] len by simp
  ultimately show "\<exists>out r. ssl_read e0 host port req = out @ r \<and> answers_with dec cnt q
       (case interface_stats e2 (canon intf) of Some s \<Rightarrow> of_nl s | None \<Rightarrow> 0) out"
    using serves_uptoD [OF e0(6), of req] wire_type [OF q(1) e0(4) q(8)] q(2,4) by metis
qed

end

text \<open>
  The modules that set a value at an access point or a station and expect no answer: what their
  senders put on the wire.
\<close>

locale relay_sender = msg_codec enc dec ok norm bytes m_type
  for enc :: "allocator \<Rightarrow> 'a sta_query_scheme \<Rightarrow> fault + 'a sta_query_scheme \<times> u8 list"
    and dec ok norm bytes +
  fixes send :: "env \<Rightarrow> cstr \<Rightarrow> c_int \<Rightarrow> c_int \<Rightarrow> cstr \<Rightarrow> cstr \<Rightarrow> c_int \<Rightarrow> 'v \<Rightarrow> 'a sta_query_scheme
        \<Rightarrow> fault + effect list \<times> c_int"
    and cnt :: "'a sta_query_scheme \<Rightarrow> 'v"
  assumes norm_fields: "m_id (norm h0 m) = m_id m"
      "intf_name (norm h0 m) = canon (intf_name m)" "sta_ip (norm h0 m) = canon (sta_ip m)"
      "sta_port (norm h0 m) = sta_port m" "cnt (norm h0 m) = cnt m"
    and send_eq: "\<lbrakk>copyable (mallocs e) ETHANOL_VERSION; copyable (mallocs e) intf; copyable (mallocs e) staip;
        slen intf + slen staip < 2 ^ 31 - 100\<rbrakk>
      \<Longrightarrow> \<exists>q. ok q \<and> canon (intf_name q) = canon intf
          \<and> canon (sta_ip q) = canon staip \<and> sta_port q = staport \<and> cnt q = v
          \<and> send e host port i intf staip staport v hs
            = send_async e host port i (\<lambda>_. Inr q) (enc (mallocs e))"
begin

text \<open>What a sender puts on the wire.\<close>

lemma sent:
  assumes "copyable (mallocs e) ETHANOL_VERSION" "copyable (mallocs e) intf" "copyable (mallocs e) staip"
    and "slen intf + slen staip < 2 ^ 31 - 100" "allocates (mallocs e)" "reaches e host port"
  obtains q q' req where "ok q" "canon (intf_name q) = canon intf" "canon (sta_ip q) = canon staip"
    "sta_port q = staport" "cnt q = v" "enc (mallocs e) q = Inr (q', req)"
    "send e host port i intf staip staport v hs = Inr (session e host port req, i + 1)"
proof -
  obtain q where q: "ok q" "canon (intf_name q) = canon intf" "canon (sta_ip q) = canon staip"
      "sta_port q = staport" "cnt q = v"
    and s: "send e host port i intf staip staport v hs = send_async e host port i (\<lambda>_. Inr q) (enc (mallocs e))"
    using send_eq [OF assms(1-4)] by blast
  obtain q' req where e: "enc (mallocs e) q = Inr (q', req)"
    using enc_no_fault [OF q(1) assms(5)] by blast
  have "send e host port i intf staip staport v hs = Inr (session e host port req, i + 1)"
    using send_async_session [OF assms(6), of "enc (mallocs e)"] e by (simp add: s)
  with q e show ?thesis using that by blast
qed

text \<open>
  A controller \<open>e0\<close> sends a value for a station to the access point \<open>e1\<close>, which sends it on: the
  two messages, and what each of them carries.
\<close>

lemma sent_twice:
  assumes e0: "copyable (mallocs e0) ETHANOL_VERSION" "copyable (mallocs e0) intf"
      "copyable (mallocs e0) staip" "allocates (mallocs e0)" "reaches e0 host port"
    and e1: "allocates (mallocs e1)" "copyable (mallocs e1) ETHANOL_VERSION"
      "copyable (mallocs e1) (canon intf)" "reaches e1 (canon staip) staport"
    and names: "0 < slen intf" "0 < slen staip" "slen intf + slen staip < 2 ^ 31 - 100"
  obtains q q' req p p' req' where
    "send e0 host port i intf staip staport v hs = Inr (session e0 host port req, i + 1)"
    "ok q" "enc (mallocs e0) q = Inr (q', req)"
    "\<forall>h. sta_ip (norm h q) = canon staip \<and> sta_port (norm h q) = staport
       \<and> intf_name (norm h q) = canon intf \<and> cnt (norm h q) = v"
    "send e1 (canon staip) staport (m_id q) (canon intf) None 0 v hs1
       = Inr (session e1 (canon staip) staport req', m_id q + 1)"
    "ok p" "enc (mallocs e1) p = Inr (p', req')" "slen (sta_ip p) = 0" "slen (intf_name p) = slen intf"
    "chars (intf_name p) = chars intf" "canon (intf_name p) = canon intf" "cnt p = v"
proof -
  obtain q q' req where q: "ok q" "canon (intf_name q) = canon intf" "canon (sta_ip q) = canon staip"
    "sta_port q = staport" "cnt q = v" "enc (mallocs e0) q = Inr (q', req)"
    and s0: "send e0 host port i intf staip staport v hs = Inr (session e0 host port req, i + 1)"
    using sent [OF e0(1-3) names(3) e0(4,5)] .
  obtain p p' req' where p: "ok p" "canon (intf_name p) = canon (canon intf)" "canon (sta_ip p) = canon None"
    "sta_port p = 0" "cnt p = v" "enc (mallocs e1) p = Inr (p', req')"
    and s1: "send e1 (canon staip) staport (m_id q) (canon intf) None 0 v hs1
       = Inr (session e1 (canon staip) staport req', m_id q + 1)"
    using sent [OF e1(2,3) copyable_None _ e1(1,4)] names
    by (metis add.right_neutral add_lessD1 slen_None slen_canon)
  have l: "slen (sta_ip p) = 0" "slen (intf_name p) = slen intf" "chars (intf_name p) = chars intf"
      "canon (intf_name p) = canon intf"
    using p(2,3) by (metis slen_canon slen_None chars_canon canon_canon)+
  show ?thesis
    by (rule that [OF s0 q(1,6) _ s1 p(1,6) l p(5)]) (auto simp: norm_fields q)
qed

end

end
