(* ===== verification/Msg_Stats.thy ===== *)
theory Msg_Stats
  imports Relay
begin

section \<open>Traffic counters: bytes and packets of an interface\<close>

text \<open>
  \<open>messaging/msg_bytesreceived.c\<close>, \<open>msg_bytessent.c\<close>, \<open>msg_packetsreceived.c\<close>,
  \<open>msg_packetssent.c\<close>, \<open>msg_packetslost.c\<close>.  The requests name an interface and, optionally, a
  station.  An access point that gets a request with a station address forwards it to the
  station and passes the answer on; otherwise it reads its own counters.  The arguments \<open>hs\<close>,
  \<open>hm\<close> and \<open>r0\<close> are uninitialised memory: the local structure of the sender, the structure of the
  decoder, the block of \<open>get_statistics\<close>.
\<close>


subsection \<open>\<open>msg_bytesreceived\<close>\<close>

record msg_bytesreceived = sta_query +
  bytes_received :: c_long

definition message_size_bytesreceived :: "msg_bytesreceived \<Rightarrow> fault + c_int" where
  "message_size_bytesreceived h = sum_sizes
     [strlen_ethanol (p_version h), sizeof 4, sizeof 4, sizeof 4,
      strlen_ethanol (intf_name h), strlen_ethanol (sta_ip h), sizeof 4, sizeof 8]"

definition encode_msg_bytesreceived :: "allocator \<Rightarrow> msg_bytesreceived \<Rightarrow> fault + msg_bytesreceived \<times> u8 list" where
  "encode_msg_bytesreceived mal = encode_frame mal message_size_bytesreceived (\<lambda>h.
     [encode_header (m_type h) (m_id h) (m_size h),
      encode_char (intf_name h),
      encode_char (sta_ip h),
      encode_int (sta_port h),
      encode_2long (bytes_received h)])"

definition decode_msg_bytesreceived :: "u8 list \<Rightarrow> msg_bytesreceived \<Rightarrow> fault + msg_bytesreceived" where
  "decode_msg_bytesreceived = decode_frame
     [decode_header,
      into decode_char intf_name_update,
      into decode_char sta_ip_update,
      into decode_int sta_port_update,
      into decode_2long bytes_received_update]"

definition send_msg_bytesreceived ::
  "env \<Rightarrow> cstr \<Rightarrow> c_int \<Rightarrow> c_int \<Rightarrow> cstr \<Rightarrow> cstr \<Rightarrow> c_int \<Rightarrow> msg_bytesreceived \<Rightarrow> msg_bytesreceived
   \<Rightarrow> fault + effect list \<times> c_int \<times> msg_bytesreceived option" where
  "send_msg_bytesreceived e hostname portnum idc intf staip staport hs hm =
     send_sync e hostname portnum idc
       (\<lambda>i. run_prog
         [assign m_type_update MSG_GET_BYTESRECEIVED,
          assign m_id_update i,
          copy_to e p_version_update ETHANOL_VERSION,
          copy_to e intf_name_update intf,
          copy_to e sta_ip_update staip,
          assign sta_port_update staport,
          assign bytes_received_update 0,
          set_size message_size_bytesreceived] hs)
       (encode_msg_bytesreceived (mallocs e))
       (\<lambda>t. t = MSG_GET_BYTESRECEIVED)
       (\<lambda>buf. decode_msg_bytesreceived buf hm)"

definition process_msg_bytesreceived ::
  "env \<Rightarrow> u8 list \<Rightarrow> msg_bytesreceived \<Rightarrow> msg_bytesreceived \<Rightarrow> msg_bytesreceived \<Rightarrow> net_statistics
   \<Rightarrow> fault + effect list \<times> u8 list option" where
  "process_msg_bytesreceived e input hm hs hm' r0 =
     and_then (decode_msg_bytesreceived input hm) (\<lambda>h.
     and_then
       (if sta_ip h \<noteq> None then
          and_then (send_msg_bytesreceived e (sta_ip h) (sta_port h) (m_id h) (intf_name h) None 0 hs hm')
            (\<lambda>(ev, _, h1). Inr (ev, case h1 of
               None \<Rightarrow> h
             | Some a \<Rightarrow> h\<lparr>bytes_received := bytes_received a\<rparr>))
        else if process_station e then
          Inr ([], case interface_stats e (intf_name h) of
               Some stats \<Rightarrow> h\<lparr>bytes_received := nl_rx_bytes stats\<rparr>
             | None \<Rightarrow> h\<lparr>bytes_received := 0\<rparr>)
        else
          and_then (get_statistics e (intf_name h) r0) (\<lambda>stats.
            Inr ([], h\<lparr>bytes_received := rx_bytes stats\<rparr>)))
       (\<lambda>(ev, h). and_then (encode_msg_bytesreceived (mallocs e) h) (\<lambda>(_, output). Inr (ev, Some output))))"

definition bytes_bytesreceived :: "msg_bytesreceived \<Rightarrow> nat" where
  "bytes_bytesreceived h = slen (p_version h) + slen (intf_name h) + slen (sta_ip h) + 39"

definition ok_bytesreceived :: "msg_bytesreceived \<Rightarrow> bool" where
  "ok_bytesreceived h \<longleftrightarrow> ok_header h \<and> ok_str (intf_name h) \<and> ok_str (sta_ip h)
     \<and> bytes_bytesreceived h < 2 ^ 31"

definition norm_bytesreceived :: "msg_bytesreceived \<Rightarrow> msg_bytesreceived \<Rightarrow> msg_bytesreceived" where
  "norm_bytesreceived h0 h = (norm_header (bytes_bytesreceived h) h)\<lparr>intf_name := canon (intf_name h), sta_ip := canon (sta_ip h)\<rparr>"

interpretation bytesreceived: msg_codec encode_msg_bytesreceived decode_msg_bytesreceived ok_bytesreceived
  norm_bytesreceived bytes_bytesreceived m_type
  unfolding encode_msg_bytesreceived_def [abs_def] decode_msg_bytesreceived_def
  by (rule frame_codecI [where bss = "\<lambda>m. [ser_str (intf_name m), ser_str (sta_ip m), le_bytes 4 (sta_port m),
          le_bytes 8 (bytes_received m)]"])
    (simp_all add: codec ok_bytesreceived_def ok_header_def bytes_bytesreceived_def norm_bytesreceived_def
      message_size_bytesreceived_def norm_header_def ac_simps encode_char_put length_ser_str)

interpretation bytesreceived_svc: counter_service encode_msg_bytesreceived decode_msg_bytesreceived ok_bytesreceived
  norm_bytesreceived bytes_bytesreceived send_msg_bytesreceived process_msg_bytesreceived MSG_GET_BYTESRECEIVED bytes_received "\<lambda>v h. h\<lparr>bytes_received := v\<rparr>"
  "\<lambda>stats. rx_bytes stats" "\<lambda>stats. nl_rx_bytes stats"
proof (unfold_locales, goal_cases)
  case (15 e intf staip i staport host port hs hm)
  let ?q = "sta_request (mallocs e) MSG_GET_BYTESRECEIVED i intf staip staport (hs\<lparr>bytes_received := 0\<rparr>)
    (slen intf + slen staip + 44)"
  have "send_msg_bytesreceived e host port i intf staip staport hs hm
      = send_sync e host port i (\<lambda>_. Inr ?q) (encode_msg_bytesreceived (mallocs e)) (\<lambda>t. t = MSG_GET_BYTESRECEIVED)
          (\<lambda>b. decode_msg_bytesreceived b hm)"
    unfolding send_msg_bytesreceived_def
    by (rule send_sync_built)
      (use 15 in \<open>simp add: sta_request_def set_size_ok message_size_bytesreceived_def ac_simps\<close>)
  then show ?case
    using 15
    by (intro exI [of _ ?q])
      (simp add: sta_request_def ok_bytesreceived_def ok_header_def bytes_bytesreceived_def)
qed (simp_all add: process_msg_bytesreceived_def ok_bytesreceived_def norm_bytesreceived_def bytes_bytesreceived_def ok_header_def norm_header_def
       cong: if_cong)


subsection \<open>\<open>msg_bytessent\<close>\<close>

record msg_bytessent = sta_query +
  bytes_sent :: c_long

definition message_size_bytessent :: "msg_bytessent \<Rightarrow> fault + c_int" where
  "message_size_bytessent h = sum_sizes
     [strlen_ethanol (p_version h), sizeof 4, sizeof 4, sizeof 4,
      strlen_ethanol (intf_name h), strlen_ethanol (sta_ip h), sizeof 4, sizeof 8]"

definition encode_msg_bytessent :: "allocator \<Rightarrow> msg_bytessent \<Rightarrow> fault + msg_bytessent \<times> u8 list" where
  "encode_msg_bytessent mal = encode_frame mal message_size_bytessent (\<lambda>h.
     [encode_header (m_type h) (m_id h) (m_size h),
      encode_char (intf_name h),
      encode_char (sta_ip h),
      encode_int (sta_port h),
      encode_2long (bytes_sent h)])"

definition decode_msg_bytessent :: "u8 list \<Rightarrow> msg_bytessent \<Rightarrow> fault + msg_bytessent" where
  "decode_msg_bytessent = decode_frame
     [decode_header,
      into decode_char intf_name_update,
      into decode_char sta_ip_update,
      into decode_int sta_port_update,
      into decode_2long bytes_sent_update]"

definition send_msg_bytessent ::
  "env \<Rightarrow> cstr \<Rightarrow> c_int \<Rightarrow> c_int \<Rightarrow> cstr \<Rightarrow> cstr \<Rightarrow> c_int \<Rightarrow> msg_bytessent \<Rightarrow> msg_bytessent
   \<Rightarrow> fault + effect list \<times> c_int \<times> msg_bytessent option" where
  "send_msg_bytessent e hostname portnum idc intf staip staport hs hm =
     send_sync e hostname portnum idc
       (\<lambda>i. run_prog
         [assign m_type_update MSG_GET_BYTESSENT,
          assign m_id_update i,
          copy_to e p_version_update ETHANOL_VERSION,
          copy_to e intf_name_update intf,
          copy_to e sta_ip_update staip,
          assign sta_port_update staport,
          assign bytes_sent_update 0,
          set_size message_size_bytessent] hs)
       (encode_msg_bytessent (mallocs e))
       (\<lambda>t. t = MSG_GET_BYTESSENT)
       (\<lambda>buf. decode_msg_bytessent buf hm)"

definition process_msg_bytessent ::
  "env \<Rightarrow> u8 list \<Rightarrow> msg_bytessent \<Rightarrow> msg_bytessent \<Rightarrow> msg_bytessent \<Rightarrow> net_statistics
   \<Rightarrow> fault + effect list \<times> u8 list option" where
  "process_msg_bytessent e input hm hs hm' r0 =
     and_then (decode_msg_bytessent input hm) (\<lambda>h.
     and_then
       (if sta_ip h \<noteq> None then
          and_then (send_msg_bytessent e (sta_ip h) (sta_port h) (m_id h) (intf_name h) None 0 hs hm')
            (\<lambda>(ev, _, h1). Inr (ev, case h1 of
               None \<Rightarrow> h
             | Some a \<Rightarrow> h\<lparr>bytes_sent := bytes_sent a\<rparr>))
        else if process_station e then
          Inr ([], case interface_stats e (intf_name h) of
               Some stats \<Rightarrow> h\<lparr>bytes_sent := nl_tx_bytes stats\<rparr>
             | None \<Rightarrow> h\<lparr>bytes_sent := 0\<rparr>)
        else
          and_then (get_statistics e (intf_name h) r0) (\<lambda>stats.
            Inr ([], h\<lparr>bytes_sent := tx_bytes stats\<rparr>)))
       (\<lambda>(ev, h). and_then (encode_msg_bytessent (mallocs e) h) (\<lambda>(_, output). Inr (ev, Some output))))"

definition bytes_bytessent :: "msg_bytessent \<Rightarrow> nat" where
  "bytes_bytessent h = slen (p_version h) + slen (intf_name h) + slen (sta_ip h) + 39"

definition ok_bytessent :: "msg_bytessent \<Rightarrow> bool" where
  "ok_bytessent h \<longleftrightarrow> ok_header h \<and> ok_str (intf_name h) \<and> ok_str (sta_ip h)
     \<and> bytes_bytessent h < 2 ^ 31"

definition norm_bytessent :: "msg_bytessent \<Rightarrow> msg_bytessent \<Rightarrow> msg_bytessent" where
  "norm_bytessent h0 h = (norm_header (bytes_bytessent h) h)\<lparr>intf_name := canon (intf_name h), sta_ip := canon (sta_ip h)\<rparr>"

interpretation bytessent: msg_codec encode_msg_bytessent decode_msg_bytessent ok_bytessent
  norm_bytessent bytes_bytessent m_type
  unfolding encode_msg_bytessent_def [abs_def] decode_msg_bytessent_def
  by (rule frame_codecI [where bss = "\<lambda>m. [ser_str (intf_name m), ser_str (sta_ip m), le_bytes 4 (sta_port m),
          le_bytes 8 (bytes_sent m)]"])
    (simp_all add: codec ok_bytessent_def ok_header_def bytes_bytessent_def norm_bytessent_def
      message_size_bytessent_def norm_header_def ac_simps encode_char_put length_ser_str)

interpretation bytessent_svc: counter_service encode_msg_bytessent decode_msg_bytessent ok_bytessent
  norm_bytessent bytes_bytessent send_msg_bytessent process_msg_bytessent MSG_GET_BYTESSENT bytes_sent "\<lambda>v h. h\<lparr>bytes_sent := v\<rparr>"
  "\<lambda>stats. tx_bytes stats" "\<lambda>stats. nl_tx_bytes stats"
proof (unfold_locales, goal_cases)
  case (15 e intf staip i staport host port hs hm)
  let ?q = "sta_request (mallocs e) MSG_GET_BYTESSENT i intf staip staport (hs\<lparr>bytes_sent := 0\<rparr>)
    (slen intf + slen staip + 44)"
  have "send_msg_bytessent e host port i intf staip staport hs hm
      = send_sync e host port i (\<lambda>_. Inr ?q) (encode_msg_bytessent (mallocs e)) (\<lambda>t. t = MSG_GET_BYTESSENT)
          (\<lambda>b. decode_msg_bytessent b hm)"
    unfolding send_msg_bytessent_def
    by (rule send_sync_built)
      (use 15 in \<open>simp add: sta_request_def set_size_ok message_size_bytessent_def ac_simps\<close>)
  then show ?case
    using 15
    by (intro exI [of _ ?q])
      (simp add: sta_request_def ok_bytessent_def ok_header_def bytes_bytessent_def)
qed (simp_all add: process_msg_bytessent_def ok_bytessent_def norm_bytessent_def bytes_bytessent_def ok_header_def norm_header_def
       cong: if_cong)


subsection \<open>\<open>msg_packetsreceived\<close>\<close>

record msg_packetsreceived = sta_query +
  packet_received :: c_long

definition message_size_packetsreceived :: "msg_packetsreceived \<Rightarrow> fault + c_int" where
  "message_size_packetsreceived h = sum_sizes
     [strlen_ethanol (p_version h), sizeof 4, sizeof 4, sizeof 4,
      strlen_ethanol (intf_name h), strlen_ethanol (sta_ip h), sizeof 4, sizeof 8]"

definition encode_msg_packetsreceived :: "allocator \<Rightarrow> msg_packetsreceived \<Rightarrow> fault + msg_packetsreceived \<times> u8 list" where
  "encode_msg_packetsreceived mal = encode_frame mal message_size_packetsreceived (\<lambda>h.
     [encode_header (m_type h) (m_id h) (m_size h),
      encode_char (intf_name h),
      encode_char (sta_ip h),
      encode_int (sta_port h),
      encode_2long (packet_received h)])"

definition decode_msg_packetsreceived :: "u8 list \<Rightarrow> msg_packetsreceived \<Rightarrow> fault + msg_packetsreceived" where
  "decode_msg_packetsreceived = decode_frame
     [decode_header,
      into decode_char intf_name_update,
      into decode_char sta_ip_update,
      into decode_int sta_port_update,
      into decode_2long packet_received_update]"

definition send_msg_get_packetsreceived ::
  "env \<Rightarrow> cstr \<Rightarrow> c_int \<Rightarrow> c_int \<Rightarrow> cstr \<Rightarrow> cstr \<Rightarrow> c_int \<Rightarrow> msg_packetsreceived \<Rightarrow> msg_packetsreceived
   \<Rightarrow> fault + effect list \<times> c_int \<times> msg_packetsreceived option" where
  "send_msg_get_packetsreceived e hostname portnum idc intf staip staport hs hm =
     send_sync e hostname portnum idc
       (\<lambda>i. run_prog
         [assign m_type_update MSG_GET_PACKETSRECEIVED,
          assign m_id_update i,
          copy_to e p_version_update ETHANOL_VERSION,
          copy_to e intf_name_update intf,
          copy_to e sta_ip_update staip,
          assign sta_port_update staport,
          assign packet_received_update 0,
          set_size message_size_packetsreceived] hs)
       (encode_msg_packetsreceived (mallocs e))
       (\<lambda>t. t = MSG_GET_PACKETSRECEIVED)
       (\<lambda>buf. decode_msg_packetsreceived buf hm)"

definition process_msg_packetsreceived ::
  "env \<Rightarrow> u8 list \<Rightarrow> msg_packetsreceived \<Rightarrow> msg_packetsreceived \<Rightarrow> msg_packetsreceived \<Rightarrow> net_statistics
   \<Rightarrow> fault + effect list \<times> u8 list option" where
  "process_msg_packetsreceived e input hm hs hm' r0 =
     and_then (decode_msg_packetsreceived input hm) (\<lambda>h.
     and_then
       (if sta_ip h \<noteq> None then
          and_then (send_msg_get_packetsreceived e (sta_ip h) (sta_port h) (m_id h) (intf_name h) None 0 hs hm')
            (\<lambda>(ev, _, h1). Inr (ev, case h1 of
               None \<Rightarrow> h
             | Some a \<Rightarrow> h\<lparr>packet_received := packet_received a\<rparr>))
        else if process_station e then
          Inr ([], case interface_stats e (intf_name h) of
               Some stats \<Rightarrow> h\<lparr>packet_received := nl_rx_packets stats\<rparr>
             | None \<Rightarrow> h\<lparr>packet_received := 0\<rparr>)
        else
          and_then (get_statistics e (intf_name h) r0) (\<lambda>stats.
            Inr ([], h\<lparr>packet_received := rx_packets stats\<rparr>)))
       (\<lambda>(ev, h). and_then (encode_msg_packetsreceived (mallocs e) h) (\<lambda>(_, output). Inr (ev, Some output))))"

definition bytes_packetsreceived :: "msg_packetsreceived \<Rightarrow> nat" where
  "bytes_packetsreceived h = slen (p_version h) + slen (intf_name h) + slen (sta_ip h) + 39"

definition ok_packetsreceived :: "msg_packetsreceived \<Rightarrow> bool" where
  "ok_packetsreceived h \<longleftrightarrow> ok_header h \<and> ok_str (intf_name h) \<and> ok_str (sta_ip h)
     \<and> bytes_packetsreceived h < 2 ^ 31"

definition norm_packetsreceived :: "msg_packetsreceived \<Rightarrow> msg_packetsreceived \<Rightarrow> msg_packetsreceived" where
  "norm_packetsreceived h0 h = (norm_header (bytes_packetsreceived h) h)\<lparr>intf_name := canon (intf_name h), sta_ip := canon (sta_ip h)\<rparr>"

interpretation packetsreceived: msg_codec encode_msg_packetsreceived decode_msg_packetsreceived ok_packetsreceived
  norm_packetsreceived bytes_packetsreceived m_type
  unfolding encode_msg_packetsreceived_def [abs_def] decode_msg_packetsreceived_def
  by (rule frame_codecI [where bss = "\<lambda>m. [ser_str (intf_name m), ser_str (sta_ip m), le_bytes 4 (sta_port m),
          le_bytes 8 (packet_received m)]"])
    (simp_all add: codec ok_packetsreceived_def ok_header_def bytes_packetsreceived_def norm_packetsreceived_def
      message_size_packetsreceived_def norm_header_def ac_simps encode_char_put length_ser_str)

interpretation packetsreceived_svc: counter_service encode_msg_packetsreceived decode_msg_packetsreceived ok_packetsreceived
  norm_packetsreceived bytes_packetsreceived send_msg_get_packetsreceived process_msg_packetsreceived MSG_GET_PACKETSRECEIVED packet_received "\<lambda>v h. h\<lparr>packet_received := v\<rparr>"
  "\<lambda>stats. rx_packets stats" "\<lambda>stats. nl_rx_packets stats"
proof (unfold_locales, goal_cases)
  case (15 e intf staip i staport host port hs hm)
  let ?q = "sta_request (mallocs e) MSG_GET_PACKETSRECEIVED i intf staip staport (hs\<lparr>packet_received := 0\<rparr>)
    (slen intf + slen staip + 44)"
  have "send_msg_get_packetsreceived e host port i intf staip staport hs hm
      = send_sync e host port i (\<lambda>_. Inr ?q) (encode_msg_packetsreceived (mallocs e)) (\<lambda>t. t = MSG_GET_PACKETSRECEIVED)
          (\<lambda>b. decode_msg_packetsreceived b hm)"
    unfolding send_msg_get_packetsreceived_def
    by (rule send_sync_built)
      (use 15 in \<open>simp add: sta_request_def set_size_ok message_size_packetsreceived_def ac_simps\<close>)
  then show ?case
    using 15
    by (intro exI [of _ ?q])
      (simp add: sta_request_def ok_packetsreceived_def ok_header_def bytes_packetsreceived_def)
qed (simp_all add: process_msg_packetsreceived_def ok_packetsreceived_def norm_packetsreceived_def bytes_packetsreceived_def ok_header_def norm_header_def
       cong: if_cong)


subsection \<open>\<open>msg_packetssent\<close>\<close>

record msg_packetssent = sta_query +
  packet_sent :: c_long

definition message_size_packetssent :: "msg_packetssent \<Rightarrow> fault + c_int" where
  "message_size_packetssent h = sum_sizes
     [strlen_ethanol (p_version h), sizeof 4, sizeof 4, sizeof 4,
      strlen_ethanol (intf_name h), strlen_ethanol (sta_ip h), sizeof 4, sizeof 8]"

definition encode_msg_packetssent :: "allocator \<Rightarrow> msg_packetssent \<Rightarrow> fault + msg_packetssent \<times> u8 list" where
  "encode_msg_packetssent mal = encode_frame mal message_size_packetssent (\<lambda>h.
     [encode_header (m_type h) (m_id h) (m_size h),
      encode_char (intf_name h),
      encode_char (sta_ip h),
      encode_int (sta_port h),
      encode_2long (packet_sent h)])"

definition decode_msg_packetssent :: "u8 list \<Rightarrow> msg_packetssent \<Rightarrow> fault + msg_packetssent" where
  "decode_msg_packetssent = decode_frame
     [decode_header,
      into decode_char intf_name_update,
      into decode_char sta_ip_update,
      into decode_int sta_port_update,
      into decode_2long packet_sent_update]"

definition send_msg_get_packetssent ::
  "env \<Rightarrow> cstr \<Rightarrow> c_int \<Rightarrow> c_int \<Rightarrow> cstr \<Rightarrow> cstr \<Rightarrow> c_int \<Rightarrow> msg_packetssent \<Rightarrow> msg_packetssent
   \<Rightarrow> fault + effect list \<times> c_int \<times> msg_packetssent option" where
  "send_msg_get_packetssent e hostname portnum idc intf staip staport hs hm =
     (if intf = None then Inr ([], idc, None)
      else send_sync e hostname portnum idc
       (\<lambda>i. run_prog
         [assign m_type_update MSG_GET_PACKETSSENT,
          assign m_id_update i,
          copy_to e p_version_update ETHANOL_VERSION,
          copy_to e intf_name_update intf,
          copy_to e sta_ip_update staip,
          assign sta_port_update staport,
          assign packet_sent_update 0,
          set_size message_size_packetssent] hs)
       (encode_msg_packetssent (mallocs e))
       (\<lambda>t. t = MSG_GET_PACKETSSENT)
       (\<lambda>buf. decode_msg_packetssent buf hm))"

definition process_msg_packetssent ::
  "env \<Rightarrow> u8 list \<Rightarrow> msg_packetssent \<Rightarrow> msg_packetssent \<Rightarrow> msg_packetssent \<Rightarrow> net_statistics
   \<Rightarrow> fault + effect list \<times> u8 list option" where
  "process_msg_packetssent e input hm hs hm' r0 =
     and_then (decode_msg_packetssent input hm) (\<lambda>h.
     and_then
       (if sta_ip h \<noteq> None then
          and_then (send_msg_get_packetssent e (sta_ip h) (sta_port h) (m_id h) (intf_name h) None 0 hs hm')
            (\<lambda>(ev, _, h1). Inr (ev, case h1 of
               None \<Rightarrow> h
             | Some a \<Rightarrow> h\<lparr>packet_sent := packet_sent a\<rparr>))
        else if process_station e then
          Inr ([], case interface_stats e (intf_name h) of
               Some stats \<Rightarrow> h\<lparr>packet_sent := nl_tx_packets stats\<rparr>
             | None \<Rightarrow> h\<lparr>packet_sent := 0\<rparr>)
        else
          and_then (get_statistics e (intf_name h) r0) (\<lambda>stats.
            Inr ([], h\<lparr>packet_sent := tx_packets stats\<rparr>)))
       (\<lambda>(ev, h). and_then (encode_msg_packetssent (mallocs e) h) (\<lambda>(_, output). Inr (ev, Some output))))"

definition bytes_packetssent :: "msg_packetssent \<Rightarrow> nat" where
  "bytes_packetssent h = slen (p_version h) + slen (intf_name h) + slen (sta_ip h) + 39"

definition ok_packetssent :: "msg_packetssent \<Rightarrow> bool" where
  "ok_packetssent h \<longleftrightarrow> ok_header h \<and> ok_str (intf_name h) \<and> ok_str (sta_ip h)
     \<and> bytes_packetssent h < 2 ^ 31"

definition norm_packetssent :: "msg_packetssent \<Rightarrow> msg_packetssent \<Rightarrow> msg_packetssent" where
  "norm_packetssent h0 h = (norm_header (bytes_packetssent h) h)\<lparr>intf_name := canon (intf_name h), sta_ip := canon (sta_ip h)\<rparr>"

interpretation packetssent: msg_codec encode_msg_packetssent decode_msg_packetssent ok_packetssent
  norm_packetssent bytes_packetssent m_type
  unfolding encode_msg_packetssent_def [abs_def] decode_msg_packetssent_def
  by (rule frame_codecI [where bss = "\<lambda>m. [ser_str (intf_name m), ser_str (sta_ip m), le_bytes 4 (sta_port m),
          le_bytes 8 (packet_sent m)]"])
    (simp_all add: codec ok_packetssent_def ok_header_def bytes_packetssent_def norm_packetssent_def
      message_size_packetssent_def norm_header_def ac_simps encode_char_put length_ser_str)

interpretation packetssent_svc: counter_service encode_msg_packetssent decode_msg_packetssent ok_packetssent
  norm_packetssent bytes_packetssent send_msg_get_packetssent process_msg_packetssent MSG_GET_PACKETSSENT packet_sent "\<lambda>v h. h\<lparr>packet_sent := v\<rparr>"
  "\<lambda>stats. tx_packets stats" "\<lambda>stats. nl_tx_packets stats"
proof (unfold_locales, goal_cases)
  case (15 e intf staip i staport host port hs hm)
  let ?q = "sta_request (mallocs e) MSG_GET_PACKETSSENT i intf staip staport (hs\<lparr>packet_sent := 0\<rparr>)
    (slen intf + slen staip + 44)"
  have "send_msg_get_packetssent e host port i intf staip staport hs hm
      = send_sync e host port i (\<lambda>_. Inr ?q) (encode_msg_packetssent (mallocs e)) (\<lambda>t. t = MSG_GET_PACKETSSENT)
          (\<lambda>b. decode_msg_packetssent b hm)"
    unfolding send_msg_get_packetssent_def if_not_P [OF 15(4)]
    by (rule send_sync_built)
      (use 15 in \<open>simp add: sta_request_def set_size_ok message_size_packetssent_def ac_simps\<close>)
  then show ?case
    using 15
    by (intro exI [of _ ?q])
      (simp add: sta_request_def ok_packetssent_def ok_header_def bytes_packetssent_def)
qed (simp_all add: process_msg_packetssent_def ok_packetssent_def norm_packetssent_def bytes_packetssent_def ok_header_def norm_header_def
       cong: if_cong)


subsection \<open>\<open>msg_packetslost\<close>\<close>

record msg_packetslost = sta_query +
  packet_lost :: c_long

definition message_size_packetslost :: "msg_packetslost \<Rightarrow> fault + c_int" where
  "message_size_packetslost h = sum_sizes
     [strlen_ethanol (p_version h), sizeof 4, sizeof 4, sizeof 4,
      strlen_ethanol (intf_name h), strlen_ethanol (sta_ip h), sizeof 4, sizeof 8]"

definition encode_msg_packetslost :: "allocator \<Rightarrow> msg_packetslost \<Rightarrow> fault + msg_packetslost \<times> u8 list" where
  "encode_msg_packetslost mal = encode_frame mal message_size_packetslost (\<lambda>h.
     [encode_header (m_type h) (m_id h) (m_size h),
      encode_char (intf_name h),
      encode_char (sta_ip h),
      encode_int (sta_port h),
      encode_2long (packet_lost h)])"

definition decode_msg_packetslost :: "u8 list \<Rightarrow> msg_packetslost \<Rightarrow> fault + msg_packetslost" where
  "decode_msg_packetslost = decode_frame
     [decode_header,
      into decode_char intf_name_update,
      into decode_char sta_ip_update,
      into decode_int sta_port_update,
      into decode_2long packet_lost_update]"

definition send_msg_get_packetslost ::
  "env \<Rightarrow> cstr \<Rightarrow> c_int \<Rightarrow> c_int \<Rightarrow> cstr \<Rightarrow> cstr \<Rightarrow> c_int \<Rightarrow> msg_packetslost \<Rightarrow> msg_packetslost
   \<Rightarrow> fault + effect list \<times> c_int \<times> msg_packetslost option" where
  "send_msg_get_packetslost e hostname portnum idc intf staip staport hs hm =
     (if intf = None then Inr ([], idc, None)
      else send_sync e hostname portnum idc
       (\<lambda>i. run_prog
         [assign m_type_update MSG_GET_PACKETSLOST,
          assign m_id_update i,
          copy_to e p_version_update ETHANOL_VERSION,
          copy_to e intf_name_update intf,
          copy_to e sta_ip_update staip,
          assign sta_port_update staport,
          assign packet_lost_update 0,
          set_size message_size_packetslost] hs)
       (encode_msg_packetslost (mallocs e))
       (\<lambda>t. t = MSG_GET_PACKETSLOST)
       (\<lambda>buf. decode_msg_packetslost buf hm))"

definition process_msg_packetslost ::
  "env \<Rightarrow> u8 list \<Rightarrow> msg_packetslost \<Rightarrow> msg_packetslost \<Rightarrow> msg_packetslost \<Rightarrow> net_statistics
   \<Rightarrow> fault + effect list \<times> u8 list option" where
  "process_msg_packetslost e input hm hs hm' r0 =
     and_then (decode_msg_packetslost input hm) (\<lambda>h.
     and_then
       (if sta_ip h \<noteq> None then
          and_then (send_msg_get_packetslost e (sta_ip h) (sta_port h) (m_id h) (intf_name h) None 0 hs hm')
            (\<lambda>(ev, _, h1). Inr (ev, case h1 of
               None \<Rightarrow> h
             | Some a \<Rightarrow> h\<lparr>packet_lost := packet_lost a\<rparr>))
        else if process_station e then
          Inr ([], case interface_stats e (intf_name h) of
               Some stats \<Rightarrow> h\<lparr>packet_lost := nl_rx_errors stats + nl_rx_dropped stats
                 + nl_tx_errors stats + nl_tx_dropped stats + nl_collisions stats\<rparr>
             | None \<Rightarrow> h\<lparr>packet_lost := 0\<rparr>)
        else
          and_then (get_statistics e (intf_name h) r0) (\<lambda>stats.
            Inr ([], h\<lparr>packet_lost := rx_errors stats + rx_dropped stats + tx_errors stats
                 + tx_dropped stats + collisions stats\<rparr>)))
       (\<lambda>(ev, h). and_then (encode_msg_packetslost (mallocs e) h) (\<lambda>(_, output). Inr (ev, Some output))))"

definition bytes_packetslost :: "msg_packetslost \<Rightarrow> nat" where
  "bytes_packetslost h = slen (p_version h) + slen (intf_name h) + slen (sta_ip h) + 39"

definition ok_packetslost :: "msg_packetslost \<Rightarrow> bool" where
  "ok_packetslost h \<longleftrightarrow> ok_header h \<and> ok_str (intf_name h) \<and> ok_str (sta_ip h)
     \<and> bytes_packetslost h < 2 ^ 31"

definition norm_packetslost :: "msg_packetslost \<Rightarrow> msg_packetslost \<Rightarrow> msg_packetslost" where
  "norm_packetslost h0 h = (norm_header (bytes_packetslost h) h)\<lparr>intf_name := canon (intf_name h), sta_ip := canon (sta_ip h)\<rparr>"

interpretation packetslost: msg_codec encode_msg_packetslost decode_msg_packetslost ok_packetslost
  norm_packetslost bytes_packetslost m_type
  unfolding encode_msg_packetslost_def [abs_def] decode_msg_packetslost_def
  by (rule frame_codecI [where bss = "\<lambda>m. [ser_str (intf_name m), ser_str (sta_ip m), le_bytes 4 (sta_port m),
          le_bytes 8 (packet_lost m)]"])
    (simp_all add: codec ok_packetslost_def ok_header_def bytes_packetslost_def norm_packetslost_def
      message_size_packetslost_def norm_header_def ac_simps encode_char_put length_ser_str)

interpretation packetslost_svc: counter_service encode_msg_packetslost decode_msg_packetslost ok_packetslost
  norm_packetslost bytes_packetslost send_msg_get_packetslost process_msg_packetslost MSG_GET_PACKETSLOST packet_lost "\<lambda>v h. h\<lparr>packet_lost := v\<rparr>"
  "\<lambda>stats. rx_errors stats + rx_dropped stats + tx_errors stats
                 + tx_dropped stats + collisions stats" "\<lambda>stats. nl_rx_errors stats + nl_rx_dropped stats
                 + nl_tx_errors stats + nl_tx_dropped stats + nl_collisions stats"
proof (unfold_locales, goal_cases)
  case (15 e intf staip i staport host port hs hm)
  let ?q = "sta_request (mallocs e) MSG_GET_PACKETSLOST i intf staip staport (hs\<lparr>packet_lost := 0\<rparr>)
    (slen intf + slen staip + 44)"
  have "send_msg_get_packetslost e host port i intf staip staport hs hm
      = send_sync e host port i (\<lambda>_. Inr ?q) (encode_msg_packetslost (mallocs e)) (\<lambda>t. t = MSG_GET_PACKETSLOST)
          (\<lambda>b. decode_msg_packetslost b hm)"
    unfolding send_msg_get_packetslost_def if_not_P [OF 15(4)]
    by (rule send_sync_built)
      (use 15 in \<open>simp add: sta_request_def set_size_ok message_size_packetslost_def ac_simps\<close>)
  then show ?case
    using 15
    by (intro exI [of _ ?q])
      (simp add: sta_request_def ok_packetslost_def ok_header_def bytes_packetslost_def)
qed (simp_all add: process_msg_packetslost_def ok_packetslost_def norm_packetslost_def bytes_packetslost_def ok_header_def norm_header_def
       cong: if_cong)


subsection \<open>Properties\<close>

definition demo_counters :: netlink_stats where
  "demo_counters = \<lparr>nl_rx_packets = 1, nl_rx_bytes = 2, nl_rx_errors = 3, nl_rx_dropped = 4,
     nl_tx_packets = 5, nl_tx_bytes = 6, nl_tx_errors = 7, nl_tx_dropped = 8, nl_collisions = 9\<rparr>"

definition demo_station :: env where
  "demo_station = demo_env\<lparr>process_station := True, interface_stats := (\<lambda>_. Some demo_counters)\<rparr>"

definition demo_msg :: msg_bytesreceived where
  "demo_msg = \<lparr>m_type = 0, m_id = 0, p_version = None, m_size = 0, intf_name = None, sta_ip = None,
     sta_port = 0, bytes_received = 0\<rparr>"

definition demo_stats :: net_statistics where
  "demo_stats = \<lparr>collisions = 0, multicast = 0, rx_bytes = 0, rx_compressed = 0, rx_crc_errors = 0,
     rx_dropped = 0, rx_errors = 0, rx_fifo_errors = 0, rx_frame_errors = 0, rx_length_errors = 0,
     rx_missed_errors = 0, rx_over_errors = 0, rx_packets = 0, tx_aborted_errors = 0, tx_bytes = 0,
     tx_carrier_errors = 0, tx_compressed = 0, tx_dropped = 0, tx_errors = 0, tx_fifo_errors = 0,
     tx_heartbeat_errors = 0, tx_packets = 0, tx_window_errors = 0\<rparr>"

text \<open>
  An access point asked for the lost packets of one of its own interfaces answers with the sum
  (modulo \<open>2 ^ 64\<close>) of five counters of the kernel: receive errors, dropped on receive, send
  errors, dropped on send, collisions; each counter that cannot be read enters as \<open>-1\<close>.
\<close>

theorem packetslost_local:
  assumes "ok_packetslost q" "allocates mal" "encode_msg_packetslost mal q = Inr (q', wire)"
    and "allocates (mallocs e)" "\<not> process_station e" "slen (sta_ip q) = 0"
    and "intf_name q = Some b" "0 < slen (Some b)" "slen (Some b) \<le> 153"
  shows "\<exists>out. process_msg_packetslost e (wire @ r) hm hs hm' r0 = Inr ([], Some out) \<and>
    answers_with decode_msg_packetslost packet_lost q
      (stat_value e (Some b) ''rx_errors'' + stat_value e (Some b) ''rx_dropped''
       + stat_value e (Some b) ''tx_errors'' + stat_value e (Some b) ''tx_dropped''
       + stat_value e (Some b) ''collisions'') out"
proof -
  obtain c where c: "canon (intf_name q) = Some c" "wf_str (Some c)"
      "chars (Some c) = chars (Some b)" "slen (Some c) = slen (Some b)"
    using canon_nonempty [OF assms(8)] assms(7) by metis
  then have l: "slen (Some c) \<le> 153"
    using assms(9) by simp
  have v: "stat_value e (Some c) m = stat_value e (Some b) m" for m
    by (simp add: stat_value_def c(3))
  have g: "get_statistics e (canon (intf_name q)) r0 = get_statistics e (Some c) r0"
    by (simp add: c(1))
  show ?thesis
    using packetslost_svc.local_answer [OF assms(1-6) trans [OF g get_statistics_ok [OF c(2) l]]]
    by (simp add: v)
qed

definition demo_lost :: msg_packetslost where
  "demo_lost = \<lparr>m_type = MSG_GET_PACKETSLOST, m_id = 1, p_version = ETHANOL_VERSION, m_size = 0,
     intf_name = demo_name, sta_ip = None, sta_port = 0, packet_lost = 0\<rparr>"

theorem packetslost_local_witness:
  "\<exists>q' wire out. encode_msg_packetslost demo_alloc demo_lost = Inr (q', wire)
     \<and> process_msg_packetslost demo_env (wire @ [8]) demo_lost demo_lost demo_lost demo_stats
       = Inr ([], Some out) \<and> answers_with decode_msg_packetslost packet_lost demo_lost 210 out"
proof -
  have ok: "ok_packetslost demo_lost" "slen (sta_ip demo_lost) = 0"
      "intf_name demo_lost = Some [0x77, 0]" "0 < slen (Some [0x77, 0])" "slen (Some [0x77, 0]) \<le> 153"
    using demo_name_simps(2,4)
    by (simp_all add: demo_lost_def ok_packetslost_def ok_header_def ok_str_def bytes_packetslost_def
        demo_name_def)
  obtain q' wire where "encode_msg_packetslost demo_alloc demo_lost = Inr (q', wire)"
    using packetslost.enc_no_fault [OF ok(1) allocates_demo_alloc] by blast
  then show ?thesis
    using packetslost_local [OF ok(1) allocates_demo_alloc _ allocates_demo_env _ ok(2-5), of q' wire
        "[8]" demo_lost demo_lost demo_lost demo_stats]
    by (simp add: demo_env_def stat_value_def)
qed

text \<open>
  A request whose interface name has more than 162 characters overflows the 200-byte array in
  which the access point composes the name of the file with the counter: every such message that
  the agent receives is an out-of-bounds write.
\<close>

theorem bytesreceived_overflow:
  assumes "ok_bytesreceived q" "allocates mal" "encode_msg_bytesreceived mal q = Inr (q', wire)"
    and "\<not> process_station e" "slen (sta_ip q) = 0" "162 < slen (intf_name q)"
  shows "process_msg_bytesreceived e (wire @ r) hm hs hm' r0 = Inl Write_Out_Of_Bounds"
proof -
  have "canon (sta_ip q) = None"
    using assms(5) by (simp add: canon_eq_None)
  moreover obtain c where c: "canon (intf_name q) = Some c" "wf_str (Some c)" "162 < slen (Some c)"
    using canon_nonempty [of "intf_name q"] assms(6) by (metis gr_implies_not_zero not_gr_zero)
  ultimately show ?thesis
    using bytesreceived.roundtrip [OF assms(1-3), of r hm] get_statistics_overflow [OF c(2,3)] assms(4)
    by (simp add: process_msg_bytesreceived_def norm_bytesreceived_def norm_header_def c(1))
qed

definition demo_long :: cstr where
  "demo_long = Some (replicate 163 0x77 @ [0])"

theorem bytesreceived_overflow_witness:
  "\<exists>q' wire. encode_msg_bytesreceived demo_alloc (demo_msg\<lparr>p_version := ETHANOL_VERSION, intf_name := demo_long\<rparr>)
      = Inr (q', wire)
    \<and> process_msg_bytesreceived demo_env (wire @ []) demo_msg demo_msg demo_msg demo_stats
      = Inl Write_Out_Of_Bounds"
proof -
  let ?q = "demo_msg\<lparr>p_version := ETHANOL_VERSION, intf_name := demo_long\<rparr>"
  have l: "slen demo_long = 163" "wf_str demo_long"
    by (simp_all add: demo_long_def slen_def)
  then have ok: "ok_bytesreceived ?q"
    by (simp add: demo_msg_def ok_bytesreceived_def ok_header_def ok_str_def bytes_bytesreceived_def)
  then obtain q' wire where e: "encode_msg_bytesreceived demo_alloc ?q = Inr (q', wire)"
    using bytesreceived.enc_no_fault allocates_demo_alloc by blast
  have "\<not> process_station demo_env" "slen (sta_ip ?q) = 0" "162 < slen (intf_name ?q)"
    by (simp_all add: demo_env_def demo_msg_def l)
  then show ?thesis
    using bytesreceived_overflow [OF ok allocates_demo_alloc e] e by blast
qed

end
