(* ===== verification/Intf_Table.thy ===== *)
theory Intf_Table
  imports Frame
begin

section \<open>Tables of settings per interface\<close>

text \<open>
  Three modules keep a linked list of settings, one entry per interface name, in a global
  variable: \<open>ethanol_functions/80211e.c\<close> (is 802.11e enabled), \<open>messaging/msg_set_snr_interval.c\<close>
  and \<open>messaging/msg_set_snr_threshold.c\<close>.  The state is the list, head first; an entry is the block
  of its name and its value.  \<open>set_snr_information.c\<close>, a fourth list with two values per
  interface, is in \<open>Snr_Info\<close>.

  The locale \<open>intf_store\<close> is what the users of such a table rely on: it behaves as a map
  from names to values.  Each of the three modules is an interpretation of it.
\<close>

type_synonym 'v table = "(u8 list \<times> 'v) list"

subsection \<open>Walking and inserting\<close>

text \<open>
  \<open>while ((p != NULL) && (strcmp (p->intf_name, intf_name) != 0)) p = p->next;\<close> gives the position
  of the first entry with the name.
\<close>

primrec search :: "'v table \<Rightarrow> cstr \<Rightarrow> fault + nat option" where
  "search [] intf = Inr None"
| "search (p # ps) intf = and_then (strcmp (Some (fst p)) intf) (\<lambda>eq.
     if eq then Inr (Some 0)
     else and_then (search ps intf) (\<lambda>i. Inr (map_option Suc i)))"

text \<open>\<open>n = malloc (strlen (s) + 1); strcpy (n, s);\<close>\<close>

definition new_name :: "allocator \<Rightarrow> cstr \<Rightarrow> fault + u8 list" where
  "new_name mal s = and_then (strlen s) (\<lambda>n. strcpy (mal (n + 1)) (case s of None \<Rightarrow> [] | Some b \<Rightarrow> b))"


subsection \<open>802.11e (\<open>ethanol_functions/80211e.c\<close>)\<close>

definition set_if_hostapd_is_80211e_enabled ::
  "allocator \<Rightarrow> bool table \<Rightarrow> cstr \<Rightarrow> bool \<Rightarrow> fault + bool table" where
  "set_if_hostapd_is_80211e_enabled mal h intf v = and_then (search h intf) (\<lambda>p.
     case p of
       Some i \<Rightarrow> Inr (h[i := (fst (h ! i), v)])
     | None \<Rightarrow> and_then (new_name mal intf) (\<lambda>n. Inr ((n, v) # h)))"

definition is_80211e_enabled :: "bool table \<Rightarrow> cstr \<Rightarrow> fault + bool" where
  "is_80211e_enabled h intf = and_then (search h intf) (\<lambda>p.
     case p of Some i \<Rightarrow> Inr (snd (h ! i)) | None \<Rightarrow> Inr False)"

definition free_hostapd_is_80211e_enabled :: "bool table \<Rightarrow> bool table" where
  "free_hostapd_is_80211e_enabled h = []"


subsection \<open>SNR interval and threshold (\<open>messaging/msg_set_snr_interval.c\<close>, \<open>msg_set_snr_threshold.c\<close>)\<close>

text \<open>The entry is linked in before its value is assigned.\<close>

definition set_snr_interval ::
  "allocator \<Rightarrow> c_long table \<Rightarrow> cstr \<Rightarrow> c_long \<Rightarrow> fault + c_long table" where
  "set_snr_interval mal l intf t = and_then (search l intf) (\<lambda>p.
     and_then (case p of
       None \<Rightarrow> and_then (new_name mal intf) (\<lambda>n. Inr ((n, 0) # l, 0))
     | Some i \<Rightarrow> Inr (l, i)) (\<lambda>(l, i). Inr (l[i := (fst (l ! i), t)])))"

definition get_snr_interval :: "c_long table \<Rightarrow> cstr \<Rightarrow> fault + c_long" where
  "get_snr_interval l intf = and_then (search l intf) (\<lambda>p.
     case p of None \<Rightarrow> Inr 1000 | Some i \<Rightarrow> Inr (snd (l ! i)))"

definition set_snr_threshold ::
  "allocator \<Rightarrow> c_long table \<Rightarrow> cstr \<Rightarrow> c_long \<Rightarrow> fault + c_long table" where
  "set_snr_threshold mal l intf t = and_then (search l intf) (\<lambda>p.
     and_then (case p of
       None \<Rightarrow> and_then (new_name mal intf) (\<lambda>n. Inr ((n, 0) # l, 0))
     | Some i \<Rightarrow> Inr (l, i)) (\<lambda>(l, i). Inr (l[i := (fst (l ! i), t)])))"

definition get_snr_threshold :: "c_long table \<Rightarrow> cstr \<Rightarrow> fault + c_long" where
  "get_snr_threshold l intf = and_then (search l intf) (\<lambda>p.
     case p of None \<Rightarrow> Inr (- 50) | Some i \<Rightarrow> Inr (snd (l ! i)))"


subsection \<open>The abstract map\<close>

text \<open>A usable interface name, and tables all of whose names are usable and different.\<close>

definition named :: "cstr \<Rightarrow> bool" where
  "named s \<longleftrightarrow> s \<noteq> None \<and> wf_str s"

lemma named_demo: "named demo_name"
  by (simp add: named_def)

definition wf_table :: "'v table \<Rightarrow> bool" where
  "wf_table t \<longleftrightarrow> (\<forall>p\<in>set t. 0 \<in> set (fst p)) \<and> distinct (map (\<lambda>p. str_chars (fst p)) t)"

definition table_map :: "'v table \<Rightarrow> u8 list \<rightharpoonup> 'v" where
  "table_map t = map_of (map (\<lambda>p. (str_chars (fst p), snd p)) t)"

lemma wf_table_simps [simp]:
  "wf_table []"
  "wf_table (p # t) \<longleftrightarrow> 0 \<in> set (fst p) \<and> str_chars (fst p) \<notin> (\<lambda>p. str_chars (fst p)) ` set t \<and> wf_table t"
  by (auto simp: wf_table_def)

lemma table_map_simps [simp]:
  "table_map [] = Map.empty" "table_map ((n, v) # t) = (table_map t)(str_chars n \<mapsto> v)"
  by (simp_all add: table_map_def)

lemma table_map_None: "table_map t k = None \<longleftrightarrow> k \<notin> (\<lambda>p. str_chars (fst p)) ` set t"
  by (simp add: table_map_def map_of_eq_None_iff image_image)

lemma split_terminated: "0 \<in> set b \<Longrightarrow> \<exists>r. b = str_chars b @ 0 # r"
  by (metis (mono_tags, lifting) append_Cons append_Nil split_list_first str_chars_append)

lemma strcmp_wf:
  assumes "0 \<in> set a" and "named s"
  shows "strcmp (Some a) s = Inr (str_chars a = chars s)"
proof -
  obtain b where b: "s = Some b" "0 \<in> set b"
    using assms(2) by (auto simp: named_def wf_str_def)
  obtain r r' where "a = str_chars a @ 0 # r" "b = str_chars b @ 0 # r'"
    using split_terminated assms(1) b(2) by blast
  then have "strcmp_eq a b = Inr (str_chars a = str_chars b)"
    using strcmp_eq_terminated [OF str_chars_no_zero str_chars_no_zero, of a r b r'] by metis
  then show ?thesis
    by (simp add: strcmp_def b chars_def)
qed

lemma strcmp_named: "named s \<Longrightarrow> named t \<Longrightarrow> strcmp s t = Inr (chars s = chars t)"
  using strcmp_wf by (auto simp: named_def wf_str_def chars_def split: option.splits)

text \<open>
  On a well-formed table the walk finds the name if and only if the map has it; the entry it
  stops at is the one to read or to update.
\<close>

lemma search_wf:
  assumes "wf_table t" and "named s"
  shows "(table_map t (chars s) = None \<and> search t s = Inr None) \<or>
    (\<exists>i < length t. search t s = Inr (Some i) \<and> table_map t (chars s) = Some (snd (t ! i))
       \<and> (\<forall>v. wf_table (t[i := (fst (t ! i), v)]) \<and>
            table_map (t[i := (fst (t ! i), v)]) = (table_map t)(chars s \<mapsto> v)))"
  using assms(1)
proof (induction t)
  case Nil
  then show ?case by simp
next
  case (Cons p t)
  obtain n w where p: "p = (n, w)" by (cases p)
  have cmp: "strcmp (Some n) s = Inr (str_chars n = chars s)"
    using strcmp_wf [OF _ assms(2)] Cons.prems p by simp
  show ?case
  proof (cases "str_chars n = chars s")
    case True
    then show ?thesis
      using Cons.prems by (intro disjI2 exI [of _ 0]) (simp add: p cmp fun_eq_iff)
  next
    case False
    have "wf_table t"
      using Cons.prems by simp
    from Cons.IH [OF this]
    consider "table_map t (chars s) = None" "search t s = Inr None"
      | i where "i < length t" "search t s = Inr (Some i)" "table_map t (chars s) = Some (snd (t ! i))"
        "\<forall>v. wf_table (t[i := (fst (t ! i), v)]) \<and>
            table_map (t[i := (fst (t ! i), v)]) = (table_map t)(chars s \<mapsto> v)"
      by metis
    then show ?thesis
    proof cases
      case 1
      then show ?thesis using False by (simp add: p cmp)
    next
      case 2
      have n: "str_chars n \<notin> (\<lambda>p. str_chars (fst p)) ` set (t[i := (fst (t ! i), v)])" for v
        using Cons.prems 2(1) False table_map_None [of t "str_chars n"]
          table_map_None [of "t[i := (fst (t ! i), v)]" "str_chars n"] 2(4) by (simp add: p)
      show ?thesis
        using 2 n False Cons.prems
        by (intro disjI2 exI [of _ "Suc i"]) (simp add: p cmp fun_eq_iff)
    qed
  qed
qed

lemma search_NULL: "t \<noteq> [] \<Longrightarrow> search t None = Inl Null_Dereference"
  by (cases t) (simp_all add: strcmp_def)

lemma new_name_ok:
  assumes "named s" and "allocates mal"
  obtains n where "new_name mal s = Inr n" and "str_chars n = chars s" and "0 \<in> set n"
proof -
  obtain b where b: "s = Some b" "wf_str (Some b)"
    using assms(1) by (auto simp: named_def)
  have "slen s < length (mal (slen s + 1))"
    using assms(2) by (metis Suc_eq_plus1 Suc_le_eq allocates_def)
  then have "new_name mal s = Inr (chars s @ 0 # drop (slen s + 1) (mal (slen s + 1)))"
    using b by (simp add: new_name_def strlen_wf strcpy_wf)
  then show ?thesis
    by (rule that) (simp_all add: chars_no_zero)
qed


subsection \<open>The contract of a table\<close>

locale intf_store =
  fixes empty :: 't
    and set_val :: "allocator \<Rightarrow> 't \<Rightarrow> cstr \<Rightarrow> 'v \<Rightarrow> fault + 't"
    and get_val :: "'t \<Rightarrow> cstr \<Rightarrow> fault + 'v"
    and inv :: "'t \<Rightarrow> bool"
    and absm :: "'t \<Rightarrow> u8 list \<rightharpoonup> 'v"
    and dflt :: 'v
  assumes inv_empty: "inv empty" and abs_empty: "absm empty = Map.empty"
    and set_val: "inv t \<Longrightarrow> named s \<Longrightarrow> allocates mal \<Longrightarrow>
      \<exists>t'. set_val mal t s v = Inr t' \<and> inv t' \<and> absm t' = (absm t)(chars s \<mapsto> v)"
    and get_val: "inv t \<Longrightarrow> named s \<Longrightarrow>
      get_val t s = Inr (case absm t (chars s) of None \<Rightarrow> dflt | Some v \<Rightarrow> v)"
begin

lemma get_set:
  assumes "inv t" "named s" "named n" "allocates mal" "set_val mal t s v = Inr t'"
  shows "get_val t' n = (if chars n = chars s then Inr v else get_val t n)"
proof -
  have "inv t'" "absm t' = (absm t)(chars s \<mapsto> v)"
    using set_val [OF assms(1,2,4), of v] assms(5) by auto
  then show ?thesis
    using get_val assms(1,3) by simp
qed

text \<open>
  A history of updates never faults, and afterwards every interface has the value that was
  set last for it, or the default.
\<close>

lemma history:
  assumes "inv t" "allocates mal" "\<forall>(s, v)\<in>set us. named s"
  shows "\<exists>t'. run_prog (map (\<lambda>(s, v) t. set_val mal t s v) us) t = Inr t' \<and> inv t' \<and>
    absm t' = absm t ++ map_of (rev (map (\<lambda>(s, v). (chars s, v)) us))"
  using assms(1,3)
proof (induction us arbitrary: t)
  case Nil
  then show ?case by simp
next
  case (Cons u us)
  obtain s v where u: "u = (s, v)" by (cases u)
  obtain t1 where t1: "set_val mal t s v = Inr t1" "inv t1" "absm t1 = (absm t)(chars s \<mapsto> v)"
    using set_val Cons.prems assms(2) u by fastforce
  obtain t' where "run_prog (map (\<lambda>(s, v) t. set_val mal t s v) us) t1 = Inr t'" "inv t'"
      "absm t' = absm t1 ++ map_of (rev (map (\<lambda>(s, v). (chars s, v)) us))"
    using Cons.IH [OF t1(2)] Cons.prems by auto
  then show ?case
    using t1 by (simp add: u map_add_def fun_eq_iff split: option.splits)
qed

lemma last_write:
  assumes "allocates mal" "\<forall>(s, v)\<in>set us. named s" "named n"
  shows "\<exists>t. run_prog (map (\<lambda>(s, v) t. set_val mal t s v) us) empty = Inr t \<and>
    get_val t n = Inr (case map_of (rev (map (\<lambda>(s, v). (chars s, v)) us)) (chars n) of
      None \<Rightarrow> dflt | Some v \<Rightarrow> v)"
  using history [OF inv_empty assms(1,2)] get_val assms(3) abs_empty by auto

end

text \<open>The two ways in which the modules insert give the same map.\<close>

lemma table_set_wf:
  assumes "wf_table t" "named s" "allocates mal"
    and found: "\<And>i. search t s = Inr (Some i) \<Longrightarrow> i < length t \<Longrightarrow> f = Inr (t[i := (fst (t ! i), v)])"
    and fresh: "\<And>n. search t s = Inr None \<Longrightarrow> new_name mal s = Inr n \<Longrightarrow> f = Inr ((n, v) # t)"
  shows "\<exists>t'. f = Inr t' \<and> wf_table t' \<and> table_map t' = (table_map t)(chars s \<mapsto> v)"
proof -
  from search_wf [OF assms(1,2)]
  consider "table_map t (chars s) = None" "search t s = Inr None"
    | i where "i < length t" "search t s = Inr (Some i)"
      "wf_table (t[i := (fst (t ! i), v)])"
      "table_map (t[i := (fst (t ! i), v)]) = (table_map t)(chars s \<mapsto> v)"
    by (elim disjE exE conjE) simp_all
  then show ?thesis
  proof cases
    case 1
    obtain n where n: "new_name mal s = Inr n" "str_chars n = chars s" "0 \<in> set n"
      using new_name_ok [OF assms(2,3)] .
    then show ?thesis
      using fresh [OF 1(2)] 1(1) assms(1) by (simp add: table_map_None)
  next
    case 2
    then show ?thesis using found by simp
  qed
qed

lemma table_get_wf:
  assumes "wf_table t" "named s"
  shows "and_then (search t s) (\<lambda>p. case p of None \<Rightarrow> Inr d | Some i \<Rightarrow> Inr (snd (t ! i)))
    = Inr (case table_map t (chars s) of None \<Rightarrow> d | Some v \<Rightarrow> v)"
  using search_wf [OF assms] by auto

interpretation wmm: intf_store "[]" set_if_hostapd_is_80211e_enabled is_80211e_enabled
  wf_table table_map False
proof unfold_locales
  show "\<exists>t'. set_if_hostapd_is_80211e_enabled mal t s v = Inr t' \<and> wf_table t' \<and>
      table_map t' = (table_map t)(chars s \<mapsto> v)"
    if "wf_table t" "named s" "allocates mal" for t s mal v
    by (rule table_set_wf [OF that]) (simp_all add: set_if_hostapd_is_80211e_enabled_def)
  show "is_80211e_enabled t s = Inr (case table_map t (chars s) of None \<Rightarrow> False | Some v \<Rightarrow> v)"
    if "wf_table t" "named s" for t s
    using table_get_wf [OF that, of False]
    by (simp add: is_80211e_enabled_def option.case_distrib cong: option.case_cong)
qed simp_all

interpretation snr_interval: intf_store "[]" set_snr_interval get_snr_interval
  wf_table table_map 1000
proof unfold_locales
  show "\<exists>t'. set_snr_interval mal t s v = Inr t' \<and> wf_table t' \<and>
      table_map t' = (table_map t)(chars s \<mapsto> v)"
    if "wf_table t" "named s" "allocates mal" for t s mal v
    by (rule table_set_wf [OF that]) (simp_all add: set_snr_interval_def)
  show "get_snr_interval t s = Inr (case table_map t (chars s) of None \<Rightarrow> 1000 | Some v \<Rightarrow> v)"
    if "wf_table t" "named s" for t s
    unfolding get_snr_interval_def by (rule table_get_wf [OF that])
qed simp_all

interpretation snr_threshold: intf_store "[]" set_snr_threshold get_snr_threshold
  wf_table table_map "- 50"
proof unfold_locales
  show "\<exists>t'. set_snr_threshold mal t s v = Inr t' \<and> wf_table t' \<and>
      table_map t' = (table_map t)(chars s \<mapsto> v)"
    if "wf_table t" "named s" "allocates mal" for t s mal v
    by (rule table_set_wf [OF that]) (simp_all add: set_snr_threshold_def)
  show "get_snr_threshold t s = Inr (case table_map t (chars s) of None \<Rightarrow> - 50 | Some v \<Rightarrow> v)"
    if "wf_table t" "named s" for t s
    unfolding get_snr_threshold_def by (rule table_get_wf [OF that])
qed simp_all

end
