(* ===== verification/Msg_Settings.thy ===== *)
theory Msg_Settings
  imports Relay Intf_Table
begin

section \<open>Settings of an interface: SNR interval, SNR threshold, 802.11e\<close>

text \<open>
  \<open>messaging/msg_set_snr_interval.c\<close>, \<open>msg_set_snr_threshold.c\<close>, \<open>msg_802_11e_enabled.c\<close>.  The two SNR
  messages set a value in the table of their module and have no answer; an access point that
  gets one with the address of a station sends it on to the station.  The 802.11e message reads
  the table of \<open>80211e.c\<close>.  The \<open>process_\<close> functions take the global table and give the table
  after the call.  The locale \<open>setting_service\<close> is the contract of the two SNR modules.
\<close>


subsection \<open>The service\<close>

locale setting_service = relay_sender enc dec ok norm bytes send cnt
    + intf_store "[]" set_val get_val wf_table table_map dflt
  for enc :: "allocator \<Rightarrow> 'a sta_query_scheme \<Rightarrow> fault + 'a sta_query_scheme \<times> u8 list"
    and dec ok norm bytes
    and send :: "env \<Rightarrow> cstr \<Rightarrow> c_int \<Rightarrow> c_int \<Rightarrow> cstr \<Rightarrow> cstr \<Rightarrow> c_int \<Rightarrow> c_long \<Rightarrow> 'a sta_query_scheme
        \<Rightarrow> fault + effect list \<times> c_int"
    and cnt
    and set_val :: "allocator \<Rightarrow> c_long table \<Rightarrow> cstr \<Rightarrow> c_long \<Rightarrow> fault + c_long table"
    and get_val dflt +
  fixes process :: "env \<Rightarrow> c_long table \<Rightarrow> u8 list \<Rightarrow> 'a sta_query_scheme \<Rightarrow> 'a sta_query_scheme
        \<Rightarrow> fault + c_long table \<times> effect list \<times> u8 list option"
  assumes process_eq: "process e tbl input hm hs = and_then (dec input hm) (\<lambda>h.
     if sta_ip h = None then
       and_then (set_val (mallocs e) tbl (intf_name h) (cnt h)) (\<lambda>tbl. Inr (tbl, [], None))
     else
       and_then (send e (sta_ip h) (sta_port h) (m_id h) (intf_name h) None 0 (cnt h) hs)
         (\<lambda>(ev, _). Inr (tbl, ev, None)))"
begin

text \<open>The receiver for which the message is meant stores the value.\<close>

lemma stored:
  assumes "ok q" "allocates mal" "enc mal q = Inr (q', req)"
    and "slen (sta_ip q) = 0" "0 < slen (intf_name q)" "wf_table tbl" "allocates (mallocs e)"
  shows "\<exists>tbl'. process e tbl (req @ r) hm hs = Inr (tbl', [], None) \<and> wf_table tbl' \<and>
     table_map tbl' = (table_map tbl)(chars (intf_name q) \<mapsto> cnt q)"
proof -
  have n: "named (canon (intf_name q))"
    using assms(5) by (simp add: named_def canon_eq_None)
  have "canon (sta_ip q) = None"
    using assms(4) by (simp add: canon_eq_None)
  then show ?thesis
    using set_val [OF assms(6) n assms(7), of "cnt q"] roundtrip [OF assms(1-3), of r hm]
    by (auto simp: process_eq norm_fields)
qed

text \<open>
  From the controller \<open>e0\<close> through the access point \<open>e1\<close> to the station \<open>e2\<close>: the access point
  leaves its own table alone and the station has the value afterwards.
\<close>

lemma end_to_end:
  assumes e0: "copyable (mallocs e0) ETHANOL_VERSION" "copyable (mallocs e0) intf"
      "copyable (mallocs e0) staip" "allocates (mallocs e0)" "reaches e0 host port"
    and e1: "allocates (mallocs e1)" "copyable (mallocs e1) ETHANOL_VERSION"
      "copyable (mallocs e1) (canon intf)" "reaches e1 (canon staip) staport"
    and e2: "allocates (mallocs e2)" "wf_table tbl2"
    and names: "0 < slen intf" "0 < slen staip" "slen intf + slen staip < 2 ^ 31 - 100"
  shows "\<exists>req req' tbl2'. send e0 host port i intf staip staport v hs
        = Inr (session e0 host port req, i + 1)
      \<and> process e1 tbl1 (req @ j1) hm1 hs1 = Inr (tbl1, session e1 (canon staip) staport req', None)
      \<and> process e2 tbl2 (req' @ j2) hm2 hs2 = Inr (tbl2', [], None) \<and> wf_table tbl2'
      \<and> table_map tbl2' = (table_map tbl2)(chars intf \<mapsto> v)"
proof -
  obtain q q' req p p' req' where
    s0: "send e0 host port i intf staip staport v hs = Inr (session e0 host port req, i + 1)"
    and q: "ok q" "enc (mallocs e0) q = Inr (q', req)"
    and n: "\<forall>h. sta_ip (norm h q) = canon staip \<and> sta_port (norm h q) = staport
      \<and> intf_name (norm h q) = canon intf \<and> cnt (norm h q) = v"
    and s1: "send e1 (canon staip) staport (m_id q) (canon intf) None 0 v hs1
       = Inr (session e1 (canon staip) staport req', m_id q + 1)"
    and p: "ok p" "enc (mallocs e1) p = Inr (p', req')" "slen (sta_ip p) = 0" "slen (intf_name p) = slen intf"
      "chars (intf_name p) = chars intf" "cnt p = v"
    using sent_twice [OF e0 e1 names] by metis
  have "canon staip \<noteq> None"
    using names(2) by (simp add: canon_eq_None)
  then have "process e1 tbl1 (req @ j1) hm1 hs1 = Inr (tbl1, session e1 (canon staip) staport req', None)"
    using roundtrip [OF q(1) e0(4) q(2), of j1 hm1] s1 n by (auto simp: process_eq norm_fields(1))
  moreover obtain tbl2' where "process e2 tbl2 (req' @ j2) hm2 hs2 = Inr (tbl2', [], None)"
      "wf_table tbl2'" "table_map tbl2' = (table_map tbl2)(chars (intf_name p) \<mapsto> cnt p)"
    using stored [OF p(1) e1(1) p(2,3) _ e2(2,1)] names(1) p(4) by metis
  ultimately show ?thesis
    using s0 p(5,6) by metis
qed

end


subsection \<open>\<open>msg_snr_interval\<close>\<close>

record msg_snr_interval = sta_query +
  interval :: c_long

definition message_size_snr_interval :: "msg_snr_interval \<Rightarrow> fault + c_int" where
  "message_size_snr_interval h = sum_sizes
     [strlen_ethanol (p_version h), sizeof 4, sizeof 4, sizeof 4,
      strlen_ethanol (intf_name h), strlen_ethanol (sta_ip h), sizeof 4, sizeof 8]"

definition encode_msg_snr_interval :: "allocator \<Rightarrow> msg_snr_interval \<Rightarrow> fault + msg_snr_interval \<times> u8 list" where
  "encode_msg_snr_interval mal = encode_frame mal message_size_snr_interval (\<lambda>h.
     [encode_header (m_type h) (m_id h) (m_size h),
      encode_char (intf_name h),
      encode_char (sta_ip h),
      encode_int (sta_port h),
      encode_2long (interval h)])"

definition decode_msg_snr_interval :: "u8 list \<Rightarrow> msg_snr_interval \<Rightarrow> fault + msg_snr_interval" where
  "decode_msg_snr_interval = decode_frame
     [decode_header,
      into decode_char intf_name_update,
      into decode_char sta_ip_update,
      into decode_int sta_port_update,
      into decode_2long interval_update]"

definition send_msg_set_snr_interval ::
  "env \<Rightarrow> cstr \<Rightarrow> c_int \<Rightarrow> c_int \<Rightarrow> cstr \<Rightarrow> cstr \<Rightarrow> c_int \<Rightarrow> c_long \<Rightarrow> msg_snr_interval
   \<Rightarrow> fault + effect list \<times> c_int" where
  "send_msg_set_snr_interval e hostname portnum idc intf staip staport v hs = send_async e hostname portnum idc
       (\<lambda>i. run_prog
         [assign m_type_update MSG_SET_SNR_INTERVAL,
          assign m_id_update i,
          copy_to e p_version_update ETHANOL_VERSION,
          copy_to e intf_name_update intf,
          copy_to e sta_ip_update staip,
          assign sta_port_update staport,
          assign interval_update v,
          set_size message_size_snr_interval] hs)
       (encode_msg_snr_interval (mallocs e))"

definition process_msg_snr_interval ::
  "env \<Rightarrow> c_long table \<Rightarrow> u8 list \<Rightarrow> msg_snr_interval \<Rightarrow> msg_snr_interval
   \<Rightarrow> fault + c_long table \<times> effect list \<times> u8 list option" where
  "process_msg_snr_interval e tbl input hm hs = and_then (decode_msg_snr_interval input hm) (\<lambda>h.
     if sta_ip h = None then
       and_then (set_snr_interval (mallocs e) tbl (intf_name h) (interval h)) (\<lambda>tbl. Inr (tbl, [], None))
     else
       and_then (send_msg_set_snr_interval e (sta_ip h) (sta_port h) (m_id h) (intf_name h) None 0 (interval h) hs)
         (\<lambda>(ev, _). Inr (tbl, ev, None)))"

definition bytes_snr_interval_msg :: "msg_snr_interval \<Rightarrow> nat" where
  "bytes_snr_interval_msg h = slen (p_version h) + slen (intf_name h) + slen (sta_ip h) + 39"

definition ok_snr_interval_msg :: "msg_snr_interval \<Rightarrow> bool" where
  "ok_snr_interval_msg h \<longleftrightarrow> ok_header h \<and> ok_str (intf_name h) \<and> ok_str (sta_ip h)
     \<and> bytes_snr_interval_msg h < 2 ^ 31"

definition norm_snr_interval_msg :: "msg_snr_interval \<Rightarrow> msg_snr_interval \<Rightarrow> msg_snr_interval" where
  "norm_snr_interval_msg h0 h = (norm_header (bytes_snr_interval_msg h) h)\<lparr>intf_name := canon (intf_name h), sta_ip := canon (sta_ip h)\<rparr>"

interpretation snr_interval_msg: msg_codec encode_msg_snr_interval decode_msg_snr_interval ok_snr_interval_msg
  norm_snr_interval_msg bytes_snr_interval_msg m_type
  unfolding encode_msg_snr_interval_def [abs_def] decode_msg_snr_interval_def
  by (rule frame_codecI [where bss = "\<lambda>m. [ser_str (intf_name m), ser_str (sta_ip m), le_bytes 4 (sta_port m),
          le_bytes 8 (interval m)]"])
    (simp_all add: codec ok_snr_interval_msg_def ok_header_def bytes_snr_interval_msg_def norm_snr_interval_msg_def
      message_size_snr_interval_def norm_header_def ac_simps encode_char_put length_ser_str)

interpretation snr_interval_svc: setting_service encode_msg_snr_interval decode_msg_snr_interval ok_snr_interval_msg
  norm_snr_interval_msg bytes_snr_interval_msg send_msg_set_snr_interval interval set_snr_interval get_snr_interval
  "1000" process_msg_snr_interval
proof (unfold_locales, goal_cases)
  case (6 e intf staip staport v host port i hs)
  let ?q = "sta_request (mallocs e) MSG_SET_SNR_INTERVAL i intf staip staport (hs\<lparr>interval := v\<rparr>)
    (slen intf + slen staip + 44)"
  have "send_msg_set_snr_interval e host port i intf staip staport v hs
      = send_async e host port i (\<lambda>_. Inr ?q) (encode_msg_snr_interval (mallocs e))"
    unfolding send_msg_set_snr_interval_def
    by (rule send_async_built)
      (use 6 in \<open>simp add: sta_request_def set_size_ok message_size_snr_interval_def ac_simps\<close>)
  then show ?case
    using 6
    by (intro exI [of _ ?q])
      (simp add: sta_request_def ok_snr_interval_msg_def ok_header_def bytes_snr_interval_msg_def)
qed (simp_all add: process_msg_snr_interval_def norm_snr_interval_msg_def norm_header_def cong: if_cong)


subsection \<open>\<open>msg_snr_threshold\<close>\<close>

record msg_snr_threshold = sta_query +
  threshold :: c_long

definition message_size_snr_threshold :: "msg_snr_threshold \<Rightarrow> fault + c_int" where
  "message_size_snr_threshold h = sum_sizes
     [strlen_ethanol (p_version h), sizeof 4, sizeof 4, sizeof 4,
      strlen_ethanol (intf_name h), strlen_ethanol (sta_ip h), sizeof 4, sizeof 8]"

definition encode_msg_snr_threshold :: "allocator \<Rightarrow> msg_snr_threshold \<Rightarrow> fault + msg_snr_threshold \<times> u8 list" where
  "encode_msg_snr_threshold mal = encode_frame mal message_size_snr_threshold (\<lambda>h.
     [encode_header (m_type h) (m_id h) (m_size h),
      encode_char (intf_name h),
      encode_char (sta_ip h),
      encode_int (sta_port h),
      encode_2long (threshold h)])"

definition decode_msg_snr_threshold :: "u8 list \<Rightarrow> msg_snr_threshold \<Rightarrow> fault + msg_snr_threshold" where
  "decode_msg_snr_threshold = decode_frame
     [decode_header,
      into decode_char intf_name_update,
      into decode_char sta_ip_update,
      into decode_int sta_port_update,
      into decode_2long threshold_update]"

definition send_msg_set_snr_threshold ::
  "env \<Rightarrow> cstr \<Rightarrow> c_int \<Rightarrow> c_int \<Rightarrow> cstr \<Rightarrow> cstr \<Rightarrow> c_int \<Rightarrow> c_long \<Rightarrow> msg_snr_threshold
   \<Rightarrow> fault + effect list \<times> c_int" where
  "send_msg_set_snr_threshold e hostname portnum idc intf staip staport v hs = send_async e hostname portnum idc
       (\<lambda>i. run_prog
         [assign m_type_update MSG_SET_SNR_THRESHOLD,
          assign m_id_update i,
          copy_to e p_version_update ETHANOL_VERSION,
          copy_to e intf_name_update intf,
          copy_to e sta_ip_update staip,
          assign sta_port_update staport,
          assign threshold_update v,
          set_size message_size_snr_threshold] hs)
       (encode_msg_snr_threshold (mallocs e))"

definition process_msg_snr_threshold ::
  "env \<Rightarrow> c_long table \<Rightarrow> u8 list \<Rightarrow> msg_snr_threshold \<Rightarrow> msg_snr_threshold
   \<Rightarrow> fault + c_long table \<times> effect list \<times> u8 list option" where
  "process_msg_snr_threshold e tbl input hm hs = and_then (decode_msg_snr_threshold input hm) (\<lambda>h.
     if sta_ip h = None then
       and_then (set_snr_threshold (mallocs e) tbl (intf_name h) (threshold h)) (\<lambda>tbl. Inr (tbl, [], None))
     else
       and_then (send_msg_set_snr_threshold e (sta_ip h) (sta_port h) (m_id h) (intf_name h) None 0 (threshold h) hs)
         (\<lambda>(ev, _). Inr (tbl, ev, None)))"

definition bytes_snr_threshold_msg :: "msg_snr_threshold \<Rightarrow> nat" where
  "bytes_snr_threshold_msg h = slen (p_version h) + slen (intf_name h) + slen (sta_ip h) + 39"

definition ok_snr_threshold_msg :: "msg_snr_threshold \<Rightarrow> bool" where
  "ok_snr_threshold_msg h \<longleftrightarrow> ok_header h \<and> ok_str (intf_name h) \<and> ok_str (sta_ip h)
     \<and> bytes_snr_threshold_msg h < 2 ^ 31"

definition norm_snr_threshold_msg :: "msg_snr_threshold \<Rightarrow> msg_snr_threshold \<Rightarrow> msg_snr_threshold" where
  "norm_snr_threshold_msg h0 h = (norm_header (bytes_snr_threshold_msg h) h)\<lparr>intf_name := canon (intf_name h), sta_ip := canon (sta_ip h)\<rparr>"

interpretation snr_threshold_msg: msg_codec encode_msg_snr_threshold decode_msg_snr_threshold ok_snr_threshold_msg
  norm_snr_threshold_msg bytes_snr_threshold_msg m_type
  unfolding encode_msg_snr_threshold_def [abs_def] decode_msg_snr_threshold_def
  by (rule frame_codecI [where bss = "\<lambda>m. [ser_str (intf_name m), ser_str (sta_ip m), le_bytes 4 (sta_port m),
          le_bytes 8 (threshold m)]"])
    (simp_all add: codec ok_snr_threshold_msg_def ok_header_def bytes_snr_threshold_msg_def norm_snr_threshold_msg_def
      message_size_snr_threshold_def norm_header_def ac_simps encode_char_put length_ser_str)

interpretation snr_threshold_svc: setting_service encode_msg_snr_threshold decode_msg_snr_threshold ok_snr_threshold_msg
  norm_snr_threshold_msg bytes_snr_threshold_msg send_msg_set_snr_threshold threshold set_snr_threshold get_snr_threshold
  "- 50" process_msg_snr_threshold
proof (unfold_locales, goal_cases)
  case (6 e intf staip staport v host port i hs)
  let ?q = "sta_request (mallocs e) MSG_SET_SNR_THRESHOLD i intf staip staport (hs\<lparr>threshold := v\<rparr>)
    (slen intf + slen staip + 44)"
  have "send_msg_set_snr_threshold e host port i intf staip staport v hs
      = send_async e host port i (\<lambda>_. Inr ?q) (encode_msg_snr_threshold (mallocs e))"
    unfolding send_msg_set_snr_threshold_def
    by (rule send_async_built)
      (use 6 in \<open>simp add: sta_request_def set_size_ok message_size_snr_threshold_def ac_simps\<close>)
  then show ?case
    using 6
    by (intro exI [of _ ?q])
      (simp add: sta_request_def ok_snr_threshold_msg_def ok_header_def bytes_snr_threshold_msg_def)
qed (simp_all add: process_msg_snr_threshold_def norm_snr_threshold_msg_def norm_header_def cong: if_cong)


subsection \<open>\<open>msg_802_11e_enabled\<close>\<close>

record msg_802_11e_enabled = sta_query +
  e_enabled :: bool

definition size_msg_802_11e_enabled :: "msg_802_11e_enabled \<Rightarrow> fault + c_int" where
  "size_msg_802_11e_enabled h = sum_sizes
     [strlen_ethanol (p_version h), sizeof 4, sizeof 4, sizeof 4,
      strlen_ethanol (intf_name h), strlen_ethanol (sta_ip h), sizeof 4,
      bool_len_ethanol]"

definition encode_msg_802_11e_enabled :: "allocator \<Rightarrow> msg_802_11e_enabled \<Rightarrow> fault + msg_802_11e_enabled \<times> u8 list" where
  "encode_msg_802_11e_enabled mal = encode_frame mal size_msg_802_11e_enabled (\<lambda>h.
     [encode_header (m_type h) (m_id h) (m_size h),
      encode_char (intf_name h),
      encode_char (sta_ip h),
      encode_int (sta_port h),
      encode_bool (e_enabled h)])"

definition decode_msg_802_11e_enabled :: "u8 list \<Rightarrow> msg_802_11e_enabled \<Rightarrow> fault + msg_802_11e_enabled" where
  "decode_msg_802_11e_enabled = decode_frame
     [decode_header,
      into decode_char intf_name_update,
      into decode_char sta_ip_update,
      into decode_int sta_port_update,
      into decode_bool e_enabled_update]"

definition send_msg_802_11e_enabled ::
  "env \<Rightarrow> cstr \<Rightarrow> c_int \<Rightarrow> c_int \<Rightarrow> cstr \<Rightarrow> cstr \<Rightarrow> c_int \<Rightarrow> msg_802_11e_enabled \<Rightarrow> msg_802_11e_enabled
   \<Rightarrow> fault + effect list \<times> c_int \<times> msg_802_11e_enabled option" where
  "send_msg_802_11e_enabled e hostname portnum idc intf staip staport hs hm =
     send_sync e hostname portnum idc
       (\<lambda>i. run_prog
         [assign m_type_update MSG_GET_802_11E_ENABLED,
          assign m_id_update i,
          copy_to e p_version_update ETHANOL_VERSION,
          copy_to e intf_name_update intf,
          copy_to e sta_ip_update staip,
          assign sta_port_update staport,
          assign e_enabled_update False,
          set_size size_msg_802_11e_enabled] hs)
       (encode_msg_802_11e_enabled (mallocs e))
       (\<lambda>t. t = MSG_GET_802_11E_ENABLED)
       (\<lambda>buf. decode_msg_802_11e_enabled buf hm)"

text \<open>
  \<open>&h->m_id\<close> is passed to the sender as the id counter: after a relay that got a connection the id
  of the answer is the id of the request plus one.
\<close>

definition process_msg_802_11e_enabled ::
  "env \<Rightarrow> bool table \<Rightarrow> u8 list \<Rightarrow> msg_802_11e_enabled \<Rightarrow> msg_802_11e_enabled \<Rightarrow> msg_802_11e_enabled
   \<Rightarrow> fault + effect list \<times> u8 list option" where
  "process_msg_802_11e_enabled e tbl input hm hs hm' =
     and_then (decode_msg_802_11e_enabled input hm) (\<lambda>h.
     and_then
       (if sta_ip h = None then
          and_then (is_80211e_enabled tbl (intf_name h)) (\<lambda>v. Inr ([], h\<lparr>e_enabled := v\<rparr>))
        else
          and_then (send_msg_802_11e_enabled e (sta_ip h) (sta_port h) (m_id h) (intf_name h) None 0 hs hm')
            (\<lambda>(ev, idc, h1). let h = h\<lparr>m_id := idc\<rparr> in Inr (ev, case h1 of
               None \<Rightarrow> h
             | Some a \<Rightarrow> h\<lparr>e_enabled := e_enabled a\<rparr>)))
       (\<lambda>(ev, h). and_then (encode_msg_802_11e_enabled (mallocs e) h)
          (\<lambda>(_, output). Inr (ev, Some output))))"

definition bytes_e80211_msg :: "msg_802_11e_enabled \<Rightarrow> nat" where
  "bytes_e80211_msg h = slen (p_version h) + slen (intf_name h) + slen (sta_ip h) + 35"

definition ok_e80211_msg :: "msg_802_11e_enabled \<Rightarrow> bool" where
  "ok_e80211_msg h \<longleftrightarrow> ok_header h \<and> ok_str (intf_name h) \<and> ok_str (sta_ip h)
     \<and> bytes_e80211_msg h < 2 ^ 31"

definition norm_e80211_msg :: "msg_802_11e_enabled \<Rightarrow> msg_802_11e_enabled \<Rightarrow> msg_802_11e_enabled" where
  "norm_e80211_msg h0 h = (norm_header (bytes_e80211_msg h) h)\<lparr>intf_name := canon (intf_name h), sta_ip := canon (sta_ip h)\<rparr>"

interpretation e80211_msg: msg_codec encode_msg_802_11e_enabled decode_msg_802_11e_enabled ok_e80211_msg
  norm_e80211_msg bytes_e80211_msg m_type
  unfolding encode_msg_802_11e_enabled_def [abs_def] decode_msg_802_11e_enabled_def
  by (rule frame_codecI [where bss = "\<lambda>m. [ser_str (intf_name m), ser_str (sta_ip m), le_bytes 4 (sta_port m),
          ser_bool (e_enabled m)]"])
    (simp_all add: codec ok_e80211_msg_def ok_header_def bytes_e80211_msg_def norm_e80211_msg_def
      size_msg_802_11e_enabled_def norm_header_def ac_simps encode_char_put length_ser_str)

subsection \<open>Properties\<close>

text \<open>
  C10 Setting the SNR threshold of a station from the controller.  The message goes through the
  access point, which relays it and leaves its own table unchanged; after the station has handled
  it, \<open>get_snr_threshold\<close> of the station gives the new value for that interface and the same value
  as before for every other one.  No step faults and nobody answers.
\<close>

theorem snr_threshold_end_to_end:
  assumes "copyable (mallocs e0) ETHANOL_VERSION" "copyable (mallocs e0) intf"
      "copyable (mallocs e0) staip" "allocates (mallocs e0)" "reaches e0 host port"
    and "allocates (mallocs e1)" "copyable (mallocs e1) ETHANOL_VERSION"
      "copyable (mallocs e1) (canon intf)" "reaches e1 (canon staip) staport"
    and "allocates (mallocs e2)" "wf_table tbl2"
    and "0 < slen intf" "0 < slen staip" "slen intf + slen staip < 2 ^ 31 - 100"
  shows "\<exists>req req' tbl2'. send_msg_set_snr_threshold e0 host port i intf staip staport v hs
        = Inr (session e0 host port req, i + 1)
      \<and> process_msg_snr_threshold e1 tbl1 (req @ j1) hm1 hs1
        = Inr (tbl1, session e1 (canon staip) staport req', None)
      \<and> process_msg_snr_threshold e2 tbl2 (req' @ j2) hm2 hs2 = Inr (tbl2', [], None)
      \<and> (\<forall>n. named n \<longrightarrow> get_snr_threshold tbl2' n
            = (if chars n = chars intf then Inr v else get_snr_threshold tbl2 n))"
proof -
  obtain req req' tbl2' where
    s: "send_msg_set_snr_threshold e0 host port i intf staip staport v hs
        = Inr (session e0 host port req, i + 1)"
      "process_msg_snr_threshold e1 tbl1 (req @ j1) hm1 hs1
        = Inr (tbl1, session e1 (canon staip) staport req', None)"
      "process_msg_snr_threshold e2 tbl2 (req' @ j2) hm2 hs2 = Inr (tbl2', [], None)"
    and t: "wf_table tbl2'" "table_map tbl2' = (table_map tbl2)(chars intf \<mapsto> v)"
    using snr_threshold_svc.end_to_end [OF assms, of i v hs tbl1 j1 hm1 hs1 j2 hm2 hs2] by blast
  have "get_snr_threshold tbl2' n = (if chars n = chars intf then Inr v else get_snr_threshold tbl2 n)"
    if "named n" for n
    using snr_threshold.get_val [OF t(1) that] snr_threshold.get_val [OF assms(11) that] t(2) by simp
  with s show ?thesis by blast
qed

definition demo_threshold :: msg_snr_threshold where
  "demo_threshold = \<lparr>m_type = 0, m_id = 0, p_version = None, m_size = 0, intf_name = None,
     sta_ip = None, sta_port = 0, threshold = 0\<rparr>"

theorem snr_threshold_end_to_end_witness:
  "\<exists>req req' tbl2'. send_msg_set_snr_threshold demo_env demo_name 22222 1 demo_name demo_name 22223 (- 70)
        demo_threshold = Inr (session demo_env demo_name 22222 req, 2)
      \<and> process_msg_snr_threshold demo_env [] (req @ [1]) demo_threshold demo_threshold
        = Inr ([], session demo_env demo_name 22223 req', None)
      \<and> process_msg_snr_threshold demo_env [([0x78, 0], 5)] (req' @ [2]) demo_threshold demo_threshold
        = Inr (tbl2', [], None)
      \<and> get_snr_threshold tbl2' demo_name = Inr (- 70)"
proof -
  have c: "copyable (mallocs demo_env) ETHANOL_VERSION" "copyable (mallocs demo_env) demo_name"
    by (simp_all add: copyable_demo_env)
  have "\<exists>req req' tbl2'. send_msg_set_snr_threshold demo_env demo_name 22222 1 demo_name demo_name 22223 (- 70)
        demo_threshold = Inr (session demo_env demo_name 22222 req, 1 + 1)
      \<and> process_msg_snr_threshold demo_env [] (req @ [1]) demo_threshold demo_threshold
        = Inr ([], session demo_env (canon demo_name) 22223 req', None)
      \<and> process_msg_snr_threshold demo_env [([0x78, 0], 5)] (req' @ [2]) demo_threshold demo_threshold
        = Inr (tbl2', [], None)
      \<and> (\<forall>n. named n \<longrightarrow> get_snr_threshold tbl2' n
            = (if chars n = chars demo_name then Inr (- 70) else get_snr_threshold [([0x78, 0], 5)] n))"
    by (rule snr_threshold_end_to_end)
      (simp_all add: c allocates_demo_env reaches_demo_env)
  then obtain req req' tbl2' where
      "send_msg_set_snr_threshold demo_env demo_name 22222 1 demo_name demo_name 22223 (- 70)
        demo_threshold = Inr (session demo_env demo_name 22222 req, 1 + 1)"
      "process_msg_snr_threshold demo_env [] (req @ [1]) demo_threshold demo_threshold
        = Inr ([], session demo_env (canon demo_name) 22223 req', None)"
      "process_msg_snr_threshold demo_env [([0x78, 0], 5)] (req' @ [2]) demo_threshold demo_threshold
        = Inr (tbl2', [], None)"
      "get_snr_threshold tbl2' demo_name = Inr (- 70)"
    using named_demo by metis
  then show ?thesis by auto
qed

text \<open>
  The table of SNR intervals behaves as a map.  After any sequence of \<open>set_snr_interval\<close> calls,
  starting from the empty list of the program, no call has faulted and \<open>get_snr_interval\<close> gives for
  every interface the value that was set last for it, and the default of 1000 ms if none was.
\<close>

theorem snr_interval_last_write:
  assumes "allocates mal" "\<forall>(s, v)\<in>set us. named s" "named n"
  shows "\<exists>t. run_prog (map (\<lambda>(s, v) t. set_snr_interval mal t s v) us) [] = Inr t \<and>
    get_snr_interval t n = Inr (case map_of (rev (map (\<lambda>(s, v). (chars s, v)) us)) (chars n) of
      None \<Rightarrow> 1000 | Some v \<Rightarrow> v)"
  by (rule snr_interval.last_write [OF assms])

theorem snr_interval_last_write_witness:
  "\<exists>t. run_prog (map (\<lambda>(s, v) t. set_snr_interval demo_alloc t s v)
        [(demo_name, 5), (Some [0x78, 0], 6), (demo_name, 7)]) [] = Inr t
     \<and> get_snr_interval t demo_name = Inr 7"
proof -
  let ?us = "[(demo_name, 5), (Some [0x78, 0], 6), (demo_name, 7)] :: (cstr \<times> c_long) list"
  have n: "\<forall>(s, v)\<in>set ?us. named s"
    using named_demo named_def [of "Some [0x78, 0]"] by (simp add: wf_str_def [of "Some [0x78, 0]"])
  have m: "map_of (rev (map (\<lambda>(s, v). (chars s, v)) ?us)) (chars demo_name) = Some 7"
    by simp
  show ?thesis
    using snr_interval_last_write [OF allocates_demo_alloc n named_demo] unfolding m by simp
qed

text \<open>
  A request for the 802.11e state without an interface name (an empty string arrives as
  \<open>NULL\<close>) crashes the access point as soon as one interface is in its table: the name is passed to
  \<open>strcmp\<close>.
\<close>

theorem e80211_null_name:
  assumes "ok_e80211_msg q" "allocates mal" "encode_msg_802_11e_enabled mal q = Inr (q', req)"
    and "slen (sta_ip q) = 0" "slen (intf_name q) = 0" "tbl \<noteq> []"
  shows "process_msg_802_11e_enabled e tbl (req @ r) hm hs hm' = Inl Null_Dereference"
proof -
  have "canon (sta_ip q) = None" "canon (intf_name q) = None"
    using assms(4,5) by (simp_all add: canon_eq_None)
  then show ?thesis
    using e80211_msg.roundtrip [OF assms(1-3), of r hm] search_NULL [OF assms(6)]
    by (simp add: process_msg_802_11e_enabled_def norm_e80211_msg_def norm_header_def is_80211e_enabled_def)
qed

definition demo_e80211 :: msg_802_11e_enabled where
  "demo_e80211 = \<lparr>m_type = MSG_GET_802_11E_ENABLED, m_id = 0, p_version = ETHANOL_VERSION, m_size = 0,
     intf_name = None, sta_ip = None, sta_port = 0, e_enabled = False\<rparr>"

theorem e80211_null_name_witness:
  "\<exists>q' req. encode_msg_802_11e_enabled demo_alloc demo_e80211 = Inr (q', req) \<and>
     process_msg_802_11e_enabled demo_env [([0x77, 0], True)] (req @ []) demo_e80211 demo_e80211 demo_e80211
       = Inl Null_Dereference"
proof -
  have ok: "ok_e80211_msg demo_e80211"
    by (simp add: demo_e80211_def ok_e80211_msg_def ok_header_def bytes_e80211_msg_def)
  then obtain q' req where e: "encode_msg_802_11e_enabled demo_alloc demo_e80211 = Inr (q', req)"
    using e80211_msg.enc_no_fault allocates_demo_alloc by blast
  have "slen (sta_ip demo_e80211) = 0" "slen (intf_name demo_e80211) = 0"
    by (simp_all add: demo_e80211_def)
  then show ?thesis
    using e80211_null_name [OF ok allocates_demo_alloc e] e by blast
qed

end
