(* ===== verification/Msg_AP.thy ===== *)
theory Msg_AP
  imports Frame
begin

section \<open>Configuration messages of an access point\<close>

text \<open>
  \<open>messaging/msg_ap_ctsprotection_enabled.c\<close>, \<open>msg_ap_broadcastssid.c\<close>, \<open>msg_ap_frameburstenabled.c\<close>,
  \<open>msg_ap_guardinterval.c\<close>, \<open>msg_ap_dtiminterval.c\<close>, \<open>msg_ap_rtsthreshold.c\<close>, \<open>msg_beacon_interval.c\<close>,
  \<open>msg_fragmentationthreshold.c\<close>.  Each module has a message to read a parameter and one to set it.
  The server side of the repository does not touch the radio yet: reading gives a fixed value,
  setting does nothing; the definitions follow the code in that, with the branches and the replies
  it has.  A structure that two modules share is one record.

  In the senders the order of the statements is the order of the source: some compute the size of
  the message before the interface name is assigned, that is from an uninitialised pointer.
\<close>

text \<open>A message with an on/off parameter.\<close>

record switch_msg = intf_msg +
  enabled :: bool

subsection \<open>CTS protection\<close>

type_synonym msg_ap_ctsprotection_enabled = switch_msg

definition size_msg_ap_ctsprotection_enabled :: "msg_ap_ctsprotection_enabled \<Rightarrow> fault + c_int" where
  "size_msg_ap_ctsprotection_enabled h = sum_sizes
     [strlen_ethanol (p_version h), sizeof 4, sizeof 4, sizeof 4,
      strlen_ethanol (intf_name h), bool_len_ethanol]"

definition encode_msg_ap_ctsprotection_enabled :: "allocator \<Rightarrow> msg_ap_ctsprotection_enabled \<Rightarrow> fault + msg_ap_ctsprotection_enabled \<times> u8 list" where
  "encode_msg_ap_ctsprotection_enabled mal = encode_frame mal size_msg_ap_ctsprotection_enabled (\<lambda>h.
     [encode_header (m_type h) (m_id h) (m_size h),
      encode_char (intf_name h),
      encode_bool (enabled h)])"

definition decode_msg_ap_ctsprotection_enabled :: "u8 list \<Rightarrow> msg_ap_ctsprotection_enabled \<Rightarrow> fault + msg_ap_ctsprotection_enabled" where
  "decode_msg_ap_ctsprotection_enabled = decode_frame
     [decode_header,
      into decode_char intf_name_update,
      into decode_bool enabled_update]"

definition process_msg_ap_ctsprotection_enabled ::
  "env \<Rightarrow> u8 list \<Rightarrow> msg_ap_ctsprotection_enabled \<Rightarrow> fault + effect list \<times> u8 list option" where
  "process_msg_ap_ctsprotection_enabled e input hm =
     and_then (decode_msg_ap_ctsprotection_enabled input hm) (\<lambda>h.
       if m_type h = MSG_GET_AP_CTSPROTECTION_ENABLED then
         and_then (encode_msg_ap_ctsprotection_enabled (mallocs e) (h\<lparr>enabled := False\<rparr>)) (\<lambda>(_, output). Inr ([], Some output))
       else Inr ([], None))"

definition send_msg_ap_ctsprotection_enabled ::
  "env \<Rightarrow> cstr \<Rightarrow> c_int \<Rightarrow> c_int \<Rightarrow> cstr \<Rightarrow> msg_ap_ctsprotection_enabled \<Rightarrow> msg_ap_ctsprotection_enabled
   \<Rightarrow> fault + effect list \<times> c_int \<times> msg_ap_ctsprotection_enabled option" where
  "send_msg_ap_ctsprotection_enabled e hostname portnum idc intf hs hm =
     send_sync e hostname portnum idc
       (\<lambda>i. run_prog
         [assign m_type_update MSG_GET_AP_CTSPROTECTION_ENABLED,
          assign m_id_update i,
          copy_to e p_version_update ETHANOL_VERSION,
          copy_to e intf_name_update intf,
          assign enabled_update False,
          set_size size_msg_ap_ctsprotection_enabled] hs)
       (encode_msg_ap_ctsprotection_enabled (mallocs e))
       (\<lambda>t. t = MSG_GET_AP_CTSPROTECTION_ENABLED)
       (\<lambda>buf. decode_msg_ap_ctsprotection_enabled buf hm)"

definition send_msg_ap_set_ctsprotection_enabled ::
  "env \<Rightarrow> cstr \<Rightarrow> c_int \<Rightarrow> c_int \<Rightarrow> cstr \<Rightarrow> bool \<Rightarrow> msg_ap_ctsprotection_enabled
   \<Rightarrow> fault + effect list \<times> c_int" where
  "send_msg_ap_set_ctsprotection_enabled e hostname portnum idc intf enable hs = send_async e hostname portnum idc
       (\<lambda>i. run_prog
         [assign m_type_update MSG_SET_AP_CTSPROTECTION_ENABLED,
          assign m_id_update i,
          assign intf_name_update None,
          copy_to e p_version_update ETHANOL_VERSION,
          set_size size_msg_ap_ctsprotection_enabled,
          copy_to e intf_name_update intf,
          assign enabled_update enable] hs)
       (encode_msg_ap_ctsprotection_enabled (mallocs e))"

definition bytes_cts :: "msg_ap_ctsprotection_enabled \<Rightarrow> nat" where
  "bytes_cts h = slen (p_version h) + slen (intf_name h) + 26"

definition ok_cts :: "msg_ap_ctsprotection_enabled \<Rightarrow> bool" where
  "ok_cts h \<longleftrightarrow> ok_header h \<and> ok_str (intf_name h)
     \<and> bytes_cts h < 2 ^ 31"

definition norm_cts :: "msg_ap_ctsprotection_enabled \<Rightarrow> msg_ap_ctsprotection_enabled \<Rightarrow> msg_ap_ctsprotection_enabled" where
  "norm_cts h0 h = (norm_header (bytes_cts h) h)\<lparr>intf_name := canon (intf_name h)\<rparr>"

interpretation cts: msg_codec encode_msg_ap_ctsprotection_enabled decode_msg_ap_ctsprotection_enabled ok_cts
  norm_cts bytes_cts m_type
  unfolding encode_msg_ap_ctsprotection_enabled_def [abs_def] decode_msg_ap_ctsprotection_enabled_def
  by (rule frame_codecI [where bss = "\<lambda>m. [ser_str (intf_name m), ser_bool (enabled m)]"])
    (simp_all add: codec ok_cts_def ok_header_def bytes_cts_def norm_cts_def
      size_msg_ap_ctsprotection_enabled_def norm_header_def ac_simps encode_char_put length_ser_str)


subsection \<open>SSID broadcast\<close>

record msg_ap_broadcastssid = intf_msg +
  ssid :: cstr
  ssid_enabled :: bool

definition size_msg_ap_broadcastssid :: "msg_ap_broadcastssid \<Rightarrow> fault + c_int" where
  "size_msg_ap_broadcastssid h = sum_sizes
     [strlen_ethanol (p_version h), sizeof 4, sizeof 4, sizeof 4, bool_len_ethanol,
      strlen_ethanol (ssid h)]"

definition encode_msg_ap_broadcastssid :: "allocator \<Rightarrow> msg_ap_broadcastssid \<Rightarrow> fault + msg_ap_broadcastssid \<times> u8 list" where
  "encode_msg_ap_broadcastssid mal = encode_frame mal size_msg_ap_broadcastssid (\<lambda>h.
     [encode_header (m_type h) (m_id h) (m_size h),
      encode_bool (ssid_enabled h),
      encode_char (ssid h)])"

definition decode_msg_ap_broadcastssid :: "u8 list \<Rightarrow> msg_ap_broadcastssid \<Rightarrow> fault + msg_ap_broadcastssid" where
  "decode_msg_ap_broadcastssid = decode_frame
     [decode_header,
      into decode_bool ssid_enabled_update,
      into decode_char ssid_update]"

text \<open>The structure has an interface name that the senders leave unset and that is not sent.\<close>

definition process_msg_ap_broadcastssid ::
  "env \<Rightarrow> u8 list \<Rightarrow> msg_ap_broadcastssid \<Rightarrow> fault + effect list \<times> u8 list option" where
  "process_msg_ap_broadcastssid e input hm =
     and_then (decode_msg_ap_broadcastssid input hm) (\<lambda>h.
       if m_type h = MSG_GET_AP_BROADCASTSSID then
         and_then (encode_msg_ap_broadcastssid (mallocs e) (h\<lparr>ssid_enabled := False\<rparr>)) (\<lambda>(_, output). Inr ([], Some output))
       else Inr ([], None))"

definition send_msg_get_ap_broadcastssid ::
  "env \<Rightarrow> cstr \<Rightarrow> c_int \<Rightarrow> c_int \<Rightarrow> cstr \<Rightarrow> msg_ap_broadcastssid \<Rightarrow> msg_ap_broadcastssid
   \<Rightarrow> fault + effect list \<times> c_int \<times> msg_ap_broadcastssid option" where
  "send_msg_get_ap_broadcastssid e hostname portnum idc ssid_arg hs hm =
     send_sync e hostname portnum idc
       (\<lambda>i. run_prog
         [assign m_type_update MSG_GET_AP_BROADCASTSSID,
          assign m_id_update i,
          copy_to e p_version_update ETHANOL_VERSION,
          copy_to e ssid_update ssid_arg,
          assign ssid_enabled_update False,
          set_size size_msg_ap_broadcastssid] hs)
       (encode_msg_ap_broadcastssid (mallocs e))
       (\<lambda>t. t = MSG_GET_AP_BROADCASTSSID)
       (\<lambda>buf. decode_msg_ap_broadcastssid buf hm)"

definition send_msg_set_ap_broadcastssid ::
  "env \<Rightarrow> cstr \<Rightarrow> c_int \<Rightarrow> c_int \<Rightarrow> cstr \<Rightarrow> bool \<Rightarrow> msg_ap_broadcastssid
   \<Rightarrow> fault + effect list \<times> c_int" where
  "send_msg_set_ap_broadcastssid e hostname portnum idc ssid_arg enable hs = send_async e hostname portnum idc
       (\<lambda>i. run_prog
         [assign m_type_update MSG_SET_AP_BROADCASTSSID,
          assign m_id_update i,
          copy_to e p_version_update ETHANOL_VERSION,
          copy_to e ssid_update ssid_arg,
          assign ssid_enabled_update enable,
          set_size size_msg_ap_broadcastssid] hs)
       (encode_msg_ap_broadcastssid (mallocs e))"

definition bytes_bcast :: "msg_ap_broadcastssid \<Rightarrow> nat" where
  "bytes_bcast h = slen (p_version h) + slen (ssid h) + 26"

definition ok_bcast :: "msg_ap_broadcastssid \<Rightarrow> bool" where
  "ok_bcast h \<longleftrightarrow> ok_header h \<and> ok_str (ssid h)
     \<and> bytes_bcast h < 2 ^ 31"

definition norm_bcast :: "msg_ap_broadcastssid \<Rightarrow> msg_ap_broadcastssid \<Rightarrow> msg_ap_broadcastssid" where
  "norm_bcast h0 h = (norm_header (bytes_bcast h) h)\<lparr>ssid := canon (ssid h), intf_name := intf_name h0\<rparr>"

interpretation bcast: msg_codec encode_msg_ap_broadcastssid decode_msg_ap_broadcastssid ok_bcast
  norm_bcast bytes_bcast m_type
  unfolding encode_msg_ap_broadcastssid_def [abs_def] decode_msg_ap_broadcastssid_def
  by (rule frame_codecI [where bss = "\<lambda>m. [ser_bool (ssid_enabled m), ser_str (ssid m)]"])
    (simp_all add: codec ok_bcast_def ok_header_def bytes_bcast_def norm_bcast_def
      size_msg_ap_broadcastssid_def norm_header_def ac_simps encode_char_put length_ser_str)


subsection \<open>Frame burst\<close>

type_synonym msg_ap_frameburstenabled = switch_msg

definition size_msg_ap_frameburstenabled :: "msg_ap_frameburstenabled \<Rightarrow> fault + c_int" where
  "size_msg_ap_frameburstenabled h = sum_sizes
     [strlen_ethanol (p_version h), sizeof 4, sizeof 4, sizeof 4,
      strlen_ethanol (intf_name h), bool_len_ethanol]"

definition encode_msg_ap_frameburstenabled :: "allocator \<Rightarrow> msg_ap_frameburstenabled \<Rightarrow> fault + msg_ap_frameburstenabled \<times> u8 list" where
  "encode_msg_ap_frameburstenabled mal = encode_frame mal size_msg_ap_frameburstenabled (\<lambda>h.
     [encode_header (m_type h) (m_id h) (m_size h),
      encode_char (intf_name h),
      encode_bool (enabled h)])"

definition decode_msg_ap_frameburstenabled :: "u8 list \<Rightarrow> msg_ap_frameburstenabled \<Rightarrow> fault + msg_ap_frameburstenabled" where
  "decode_msg_ap_frameburstenabled = decode_frame
     [decode_header,
      into decode_char intf_name_update,
      into decode_bool enabled_update]"

definition process_msg_ap_frameburstenabled ::
  "env \<Rightarrow> u8 list \<Rightarrow> msg_ap_frameburstenabled \<Rightarrow> fault + effect list \<times> u8 list option" where
  "process_msg_ap_frameburstenabled e input hm =
     and_then (decode_msg_ap_frameburstenabled input hm) (\<lambda>h.
       if m_type h = MSG_GET_AP_FRAMEBURSTENABLED then
         and_then (encode_msg_ap_frameburstenabled (mallocs e) (h\<lparr>enabled := False\<rparr>)) (\<lambda>(_, output). Inr ([], Some output))
       else Inr ([], None))"

definition send_msg_ap_get_frameburstenabled ::
  "env \<Rightarrow> cstr \<Rightarrow> c_int \<Rightarrow> c_int \<Rightarrow> cstr \<Rightarrow> msg_ap_frameburstenabled \<Rightarrow> msg_ap_frameburstenabled
   \<Rightarrow> fault + effect list \<times> c_int \<times> msg_ap_frameburstenabled option" where
  "send_msg_ap_get_frameburstenabled e hostname portnum idc intf hs hm =
     send_sync e hostname portnum idc
       (\<lambda>i. run_prog
         [assign m_type_update MSG_GET_AP_FRAMEBURSTENABLED,
          assign m_id_update i,
          copy_to e p_version_update ETHANOL_VERSION,
          copy_to e intf_name_update intf,
          assign enabled_update False,
          set_size size_msg_ap_frameburstenabled] hs)
       (encode_msg_ap_frameburstenabled (mallocs e))
       (\<lambda>t. t = MSG_GET_AP_FRAMEBURSTENABLED)
       (\<lambda>buf. decode_msg_ap_frameburstenabled buf hm)"

definition send_msg_ap_set_frameburstenabled ::
  "env \<Rightarrow> cstr \<Rightarrow> c_int \<Rightarrow> c_int \<Rightarrow> cstr \<Rightarrow> bool \<Rightarrow> msg_ap_frameburstenabled
   \<Rightarrow> fault + effect list \<times> c_int" where
  "send_msg_ap_set_frameburstenabled e hostname portnum idc intf enable hs = send_async e hostname portnum idc
       (\<lambda>i. run_prog
         [assign m_type_update MSG_SET_AP_FRAMEBURSTENABLED,
          assign m_id_update i,
          copy_to e p_version_update ETHANOL_VERSION,
          copy_to e intf_name_update intf,
          assign enabled_update enable,
          set_size size_msg_ap_frameburstenabled] hs)
       (encode_msg_ap_frameburstenabled (mallocs e))"

definition bytes_burst :: "msg_ap_frameburstenabled \<Rightarrow> nat" where
  "bytes_burst h = slen (p_version h) + slen (intf_name h) + 26"

definition ok_burst :: "msg_ap_frameburstenabled \<Rightarrow> bool" where
  "ok_burst h \<longleftrightarrow> ok_header h \<and> ok_str (intf_name h)
     \<and> bytes_burst h < 2 ^ 31"

definition norm_burst :: "msg_ap_frameburstenabled \<Rightarrow> msg_ap_frameburstenabled \<Rightarrow> msg_ap_frameburstenabled" where
  "norm_burst h0 h = (norm_header (bytes_burst h) h)\<lparr>intf_name := canon (intf_name h)\<rparr>"

interpretation burst: msg_codec encode_msg_ap_frameburstenabled decode_msg_ap_frameburstenabled ok_burst
  norm_burst bytes_burst m_type
  unfolding encode_msg_ap_frameburstenabled_def [abs_def] decode_msg_ap_frameburstenabled_def
  by (rule frame_codecI [where bss = "\<lambda>m. [ser_str (intf_name m), ser_bool (enabled m)]"])
    (simp_all add: codec ok_burst_def ok_header_def bytes_burst_def norm_burst_def
      size_msg_ap_frameburstenabled_def norm_header_def ac_simps encode_char_put length_ser_str)


subsection \<open>Guard interval\<close>

record msg_ap_guardinterval = intf_msg +
  guard_interval :: c_long

definition size_msg_ap_guardinterval :: "msg_ap_guardinterval \<Rightarrow> fault + c_int" where
  "size_msg_ap_guardinterval h = sum_sizes
     [strlen_ethanol (p_version h), sizeof 4, sizeof 4, sizeof 4,
      strlen_ethanol (intf_name h), sizeof 8]"

definition encode_msg_ap_guardinterval :: "allocator \<Rightarrow> msg_ap_guardinterval \<Rightarrow> fault + msg_ap_guardinterval \<times> u8 list" where
  "encode_msg_ap_guardinterval mal = encode_frame mal size_msg_ap_guardinterval (\<lambda>h.
     [encode_header (m_type h) (m_id h) (m_size h),
      encode_char (intf_name h),
      encode_2long (guard_interval h)])"

definition decode_msg_ap_guardinterval :: "u8 list \<Rightarrow> msg_ap_guardinterval \<Rightarrow> fault + msg_ap_guardinterval" where
  "decode_msg_ap_guardinterval = decode_frame
     [decode_header,
      into decode_char intf_name_update,
      into decode_2long guard_interval_update]"

text \<open>Both messages are answered with the structure that was received.\<close>

definition process_msg_ap_guardinterval ::
  "env \<Rightarrow> u8 list \<Rightarrow> msg_ap_guardinterval \<Rightarrow> fault + effect list \<times> u8 list option" where
  "process_msg_ap_guardinterval e input hm =
     and_then (decode_msg_ap_guardinterval input hm) (\<lambda>h.
     and_then (encode_msg_ap_guardinterval (mallocs e) h) (\<lambda>(_, output). Inr ([], Some output)))"

definition send_msg_get_ap_guardinterval ::
  "env \<Rightarrow> cstr \<Rightarrow> c_int \<Rightarrow> c_int \<Rightarrow> cstr \<Rightarrow> msg_ap_guardinterval \<Rightarrow> msg_ap_guardinterval
   \<Rightarrow> fault + effect list \<times> c_int \<times> msg_ap_guardinterval option" where
  "send_msg_get_ap_guardinterval e hostname portnum idc intf hs hm =
     send_sync e hostname portnum idc
       (\<lambda>i. run_prog
         [assign m_type_update MSG_GET_AP_GUARDINTERVAL,
          assign m_id_update i,
          copy_to e p_version_update ETHANOL_VERSION,
          copy_to e intf_name_update intf,
          assign guard_interval_update 0,
          set_size size_msg_ap_guardinterval] hs)
       (encode_msg_ap_guardinterval (mallocs e))
       (\<lambda>t. t = MSG_GET_AP_GUARDINTERVAL)
       (\<lambda>buf. decode_msg_ap_guardinterval buf hm)"

definition send_msg_set_ap_guardinterval ::
  "env \<Rightarrow> cstr \<Rightarrow> c_int \<Rightarrow> c_int \<Rightarrow> cstr \<Rightarrow> c_long \<Rightarrow> msg_ap_guardinterval
   \<Rightarrow> fault + effect list \<times> c_int" where
  "send_msg_set_ap_guardinterval e hostname portnum idc intf guard hs = send_async e hostname portnum idc
       (\<lambda>i. run_prog
         [assign m_type_update MSG_SET_AP_GUARDINTERVAL,
          assign m_id_update i,
          copy_to e p_version_update ETHANOL_VERSION,
          copy_to e intf_name_update intf,
          assign guard_interval_update guard,
          set_size size_msg_ap_guardinterval] hs)
       (encode_msg_ap_guardinterval (mallocs e))"

definition bytes_guard :: "msg_ap_guardinterval \<Rightarrow> nat" where
  "bytes_guard h = slen (p_version h) + slen (intf_name h) + 30"

definition ok_guard :: "msg_ap_guardinterval \<Rightarrow> bool" where
  "ok_guard h \<longleftrightarrow> ok_header h \<and> ok_str (intf_name h)
     \<and> bytes_guard h < 2 ^ 31"

definition norm_guard :: "msg_ap_guardinterval \<Rightarrow> msg_ap_guardinterval \<Rightarrow> msg_ap_guardinterval" where
  "norm_guard h0 h = (norm_header (bytes_guard h) h)\<lparr>intf_name := canon (intf_name h)\<rparr>"

interpretation guard: msg_codec encode_msg_ap_guardinterval decode_msg_ap_guardinterval ok_guard
  norm_guard bytes_guard m_type
  unfolding encode_msg_ap_guardinterval_def [abs_def] decode_msg_ap_guardinterval_def
  by (rule frame_codecI [where bss = "\<lambda>m. [ser_str (intf_name m), le_bytes 8 (guard_interval m)]"])
    (simp_all add: codec ok_guard_def ok_header_def bytes_guard_def norm_guard_def
      size_msg_ap_guardinterval_def norm_header_def ac_simps encode_char_put length_ser_str)


subsection \<open>DTIM interval\<close>

record msg_ap_dtiminterval = intf_msg +
  dtim_interval :: c_long

definition size_msg_ap_dtiminterval :: "msg_ap_dtiminterval \<Rightarrow> fault + c_int" where
  "size_msg_ap_dtiminterval h = sum_sizes
     [strlen_ethanol (p_version h), sizeof 4, sizeof 4, sizeof 4,
      strlen_ethanol (intf_name h), sizeof 8]"

definition encode_msg_ap_dtiminterval :: "allocator \<Rightarrow> msg_ap_dtiminterval \<Rightarrow> fault + msg_ap_dtiminterval \<times> u8 list" where
  "encode_msg_ap_dtiminterval mal = encode_frame mal size_msg_ap_dtiminterval (\<lambda>h.
     [encode_header (m_type h) (m_id h) (m_size h),
      encode_char (intf_name h),
      encode_long (dtim_interval h)])"

definition decode_msg_ap_dtiminterval :: "u8 list \<Rightarrow> msg_ap_dtiminterval \<Rightarrow> fault + msg_ap_dtiminterval" where
  "decode_msg_ap_dtiminterval = decode_frame
     [decode_header,
      into decode_char intf_name_update,
      into decode_long dtim_interval_update]"

text \<open>The body of the handler is commented out: no message is answered.\<close>

definition process_msg_ap_dtiminterval ::
  "env \<Rightarrow> u8 list \<Rightarrow> msg_ap_dtiminterval \<Rightarrow> fault + effect list \<times> u8 list option" where
  "process_msg_ap_dtiminterval e input hm = and_then (decode_msg_ap_dtiminterval input hm) (\<lambda>h. Inr ([], None))"

definition send_msg_get_ap_dtiminterval ::
  "env \<Rightarrow> cstr \<Rightarrow> c_int \<Rightarrow> c_int \<Rightarrow> cstr \<Rightarrow> msg_ap_dtiminterval \<Rightarrow> msg_ap_dtiminterval
   \<Rightarrow> fault + effect list \<times> c_int \<times> msg_ap_dtiminterval option" where
  "send_msg_get_ap_dtiminterval e hostname portnum idc intf hs hm =
     send_sync e hostname portnum idc
       (\<lambda>i. run_prog
         [assign m_type_update MSG_GET_AP_DTIMINTERVAL,
          assign m_id_update i,
          copy_to e p_version_update ETHANOL_VERSION,
          assign dtim_interval_update 0,
          copy_to e intf_name_update intf,
          set_size size_msg_ap_dtiminterval] hs)
       (encode_msg_ap_dtiminterval (mallocs e))
       (\<lambda>t. t = MSG_GET_AP_DTIMINTERVAL)
       (\<lambda>buf. decode_msg_ap_dtiminterval buf hm)"

definition send_msg_set_ap_dtiminterval ::
  "env \<Rightarrow> cstr \<Rightarrow> c_int \<Rightarrow> c_int \<Rightarrow> cstr \<Rightarrow> c_long \<Rightarrow> msg_ap_dtiminterval
   \<Rightarrow> fault + effect list \<times> c_int" where
  "send_msg_set_ap_dtiminterval e hostname portnum idc intf dtim hs = send_async e hostname portnum idc
       (\<lambda>i. run_prog
         [assign m_type_update MSG_SET_AP_DTIMINTERVAL,
          assign m_id_update i,
          copy_to e p_version_update ETHANOL_VERSION,
          assign dtim_interval_update dtim,
          copy_to e intf_name_update intf,
          set_size size_msg_ap_dtiminterval] hs)
       (encode_msg_ap_dtiminterval (mallocs e))"

definition bytes_dtim :: "msg_ap_dtiminterval \<Rightarrow> nat" where
  "bytes_dtim h = slen (p_version h) + slen (intf_name h) + 30"

definition ok_dtim :: "msg_ap_dtiminterval \<Rightarrow> bool" where
  "ok_dtim h \<longleftrightarrow> ok_header h \<and> ok_str (intf_name h)
     \<and> bytes_dtim h < 2 ^ 31"

definition norm_dtim :: "msg_ap_dtiminterval \<Rightarrow> msg_ap_dtiminterval \<Rightarrow> msg_ap_dtiminterval" where
  "norm_dtim h0 h = (norm_header (bytes_dtim h) h)\<lparr>intf_name := canon (intf_name h)\<rparr>"

interpretation dtim: msg_codec encode_msg_ap_dtiminterval decode_msg_ap_dtiminterval ok_dtim
  norm_dtim bytes_dtim m_type
  unfolding encode_msg_ap_dtiminterval_def [abs_def] decode_msg_ap_dtiminterval_def
  by (rule frame_codecI [where bss = "\<lambda>m. [ser_str (intf_name m), le_bytes 8 (dtim_interval m)]"])
    (simp_all add: codec ok_dtim_def ok_header_def bytes_dtim_def norm_dtim_def
      size_msg_ap_dtiminterval_def norm_header_def ac_simps encode_char_put length_ser_str)


subsection \<open>RTS threshold\<close>

record msg_ap_rtsthreshold = intf_msg +
  rts_threshold :: c_int

definition size_msg_ap_rtsthreshold :: "msg_ap_rtsthreshold \<Rightarrow> fault + c_int" where
  "size_msg_ap_rtsthreshold h = sum_sizes
     [strlen_ethanol (p_version h), sizeof 4, sizeof 4, sizeof 4,
      strlen_ethanol (intf_name h), sizeof 4]"

definition encode_msg_ap_rtsthreshold :: "allocator \<Rightarrow> msg_ap_rtsthreshold \<Rightarrow> fault + msg_ap_rtsthreshold \<times> u8 list" where
  "encode_msg_ap_rtsthreshold mal = encode_frame mal size_msg_ap_rtsthreshold (\<lambda>h.
     [encode_header (m_type h) (m_id h) (m_size h),
      encode_char (intf_name h),
      encode_uint (rts_threshold h)])"

definition decode_msg_ap_rtsthreshold :: "u8 list \<Rightarrow> msg_ap_rtsthreshold \<Rightarrow> fault + msg_ap_rtsthreshold" where
  "decode_msg_ap_rtsthreshold = decode_frame
     [decode_header,
      into decode_char intf_name_update,
      into decode_uint rts_threshold_update]"

definition process_msg_ap_rtsthreshold ::
  "env \<Rightarrow> u8 list \<Rightarrow> msg_ap_rtsthreshold \<Rightarrow> fault + effect list \<times> u8 list option" where
  "process_msg_ap_rtsthreshold e input hm =
     and_then (decode_msg_ap_rtsthreshold input hm) (\<lambda>h.
       if m_type h = MSG_GET_AP_RTSTHRESHOLD then
         and_then (encode_msg_ap_rtsthreshold (mallocs e) (h\<lparr>rts_threshold := 0\<rparr>)) (\<lambda>(_, output). Inr ([], Some output))
       else Inr ([], None))"

definition send_msg_ap_get_rtsthreshold ::
  "env \<Rightarrow> cstr \<Rightarrow> c_int \<Rightarrow> c_int \<Rightarrow> cstr \<Rightarrow> msg_ap_rtsthreshold \<Rightarrow> msg_ap_rtsthreshold
   \<Rightarrow> fault + effect list \<times> c_int \<times> msg_ap_rtsthreshold option" where
  "send_msg_ap_get_rtsthreshold e hostname portnum idc intf hs hm =
     send_sync e hostname portnum idc
       (\<lambda>i. run_prog
         [assign m_type_update MSG_GET_AP_RTSTHRESHOLD,
          assign m_id_update i,
          copy_to e p_version_update ETHANOL_VERSION,
          set_size size_msg_ap_rtsthreshold,
          copy_to e intf_name_update intf,
          assign rts_threshold_update 0] hs)
       (encode_msg_ap_rtsthreshold (mallocs e))
       (\<lambda>t. t = MSG_GET_AP_RTSTHRESHOLD)
       (\<lambda>buf. decode_msg_ap_rtsthreshold buf hm)"

definition send_msg_ap_set_rtsthreshold ::
  "env \<Rightarrow> cstr \<Rightarrow> c_int \<Rightarrow> c_int \<Rightarrow> cstr \<Rightarrow> c_int \<Rightarrow> msg_ap_rtsthreshold
   \<Rightarrow> fault + effect list \<times> c_int" where
  "send_msg_ap_set_rtsthreshold e hostname portnum idc intf new_rts_threshold hs = send_async e hostname portnum idc
       (\<lambda>i. run_prog
         [assign m_type_update MSG_SET_AP_RTSTHRESHOLD,
          assign m_id_update i,
          assign intf_name_update None,
          copy_to e p_version_update ETHANOL_VERSION,
          set_size size_msg_ap_rtsthreshold,
          copy_to e intf_name_update intf,
          assign rts_threshold_update new_rts_threshold] hs)
       (encode_msg_ap_rtsthreshold (mallocs e))"

definition bytes_rts :: "msg_ap_rtsthreshold \<Rightarrow> nat" where
  "bytes_rts h = slen (p_version h) + slen (intf_name h) + 26"

definition ok_rts :: "msg_ap_rtsthreshold \<Rightarrow> bool" where
  "ok_rts h \<longleftrightarrow> ok_header h \<and> ok_str (intf_name h)
     \<and> bytes_rts h < 2 ^ 31"

definition norm_rts :: "msg_ap_rtsthreshold \<Rightarrow> msg_ap_rtsthreshold \<Rightarrow> msg_ap_rtsthreshold" where
  "norm_rts h0 h = (norm_header (bytes_rts h) h)\<lparr>intf_name := canon (intf_name h)\<rparr>"

interpretation rts: msg_codec encode_msg_ap_rtsthreshold decode_msg_ap_rtsthreshold ok_rts
  norm_rts bytes_rts m_type
  unfolding encode_msg_ap_rtsthreshold_def [abs_def] decode_msg_ap_rtsthreshold_def
  by (rule frame_codecI [where bss = "\<lambda>m. [ser_str (intf_name m), le_bytes 4 (rts_threshold m)]"])
    (simp_all add: codec ok_rts_def ok_header_def bytes_rts_def norm_rts_def
      size_msg_ap_rtsthreshold_def norm_header_def ac_simps encode_char_put length_ser_str)


subsection \<open>Beacon interval\<close>

record msg_beacon_interval = intf_msg +
  beacon_interval :: c_long

definition size_msg_beacon_interval :: "msg_beacon_interval \<Rightarrow> fault + c_int" where
  "size_msg_beacon_interval h = sum_sizes
     [strlen_ethanol (p_version h), sizeof 4, sizeof 4, sizeof 4,
      strlen_ethanol (intf_name h), sizeof 8]"

definition encode_msg_beacon_interval :: "allocator \<Rightarrow> msg_beacon_interval \<Rightarrow> fault + msg_beacon_interval \<times> u8 list" where
  "encode_msg_beacon_interval mal = encode_frame mal size_msg_beacon_interval (\<lambda>h.
     [encode_header (m_type h) (m_id h) (m_size h),
      encode_char (intf_name h),
      encode_2long (beacon_interval h)])"

definition decode_msg_beacon_interval :: "u8 list \<Rightarrow> msg_beacon_interval \<Rightarrow> fault + msg_beacon_interval" where
  "decode_msg_beacon_interval = decode_frame
     [decode_header,
      into decode_char intf_name_update,
      into decode_2long beacon_interval_update]"

definition process_msg_beacon_interval ::
  "env \<Rightarrow> u8 list \<Rightarrow> msg_beacon_interval \<Rightarrow> fault + effect list \<times> u8 list option" where
  "process_msg_beacon_interval e input hm =
     and_then (decode_msg_beacon_interval input hm) (\<lambda>h.
       if m_type h = MSG_GET_BEACON_INTERVAL then
         and_then (encode_msg_beacon_interval (mallocs e) (h\<lparr>beacon_interval := 0\<rparr>)) (\<lambda>(_, output). Inr ([], Some output))
       else Inr ([], None))"

definition send_msg_get_beacon_interval ::
  "env \<Rightarrow> cstr \<Rightarrow> c_int \<Rightarrow> c_int \<Rightarrow> cstr \<Rightarrow> msg_beacon_interval \<Rightarrow> msg_beacon_interval
   \<Rightarrow> fault + effect list \<times> c_int \<times> msg_beacon_interval option" where
  "send_msg_get_beacon_interval e hostname portnum idc intf hs hm =
     send_sync e hostname portnum idc
       (\<lambda>i. run_prog
         [assign m_type_update MSG_GET_BEACON_INTERVAL,
          assign m_id_update i,
          copy_to e p_version_update ETHANOL_VERSION,
          copy_to e intf_name_update intf,
          assign beacon_interval_update 0,
          set_size size_msg_beacon_interval] hs)
       (encode_msg_beacon_interval (mallocs e))
       (\<lambda>t. t = MSG_GET_BEACON_INTERVAL)
       (\<lambda>buf. decode_msg_beacon_interval buf hm)"

definition send_msg_set_beacon_interval ::
  "env \<Rightarrow> cstr \<Rightarrow> c_int \<Rightarrow> c_int \<Rightarrow> cstr \<Rightarrow> c_long \<Rightarrow> msg_beacon_interval
   \<Rightarrow> fault + effect list \<times> c_int" where
  "send_msg_set_beacon_interval e hostname portnum idc intf interval hs = send_async e hostname portnum idc
       (\<lambda>i. run_prog
         [assign m_type_update MSG_SET_BEACON_INTERVAL,
          assign m_id_update i,
          copy_to e p_version_update ETHANOL_VERSION,
          set_size size_msg_beacon_interval,
          copy_to e intf_name_update intf,
          assign beacon_interval_update interval] hs)
       (encode_msg_beacon_interval (mallocs e))"

definition bytes_beacon :: "msg_beacon_interval \<Rightarrow> nat" where
  "bytes_beacon h = slen (p_version h) + slen (intf_name h) + 30"

definition ok_beacon :: "msg_beacon_interval \<Rightarrow> bool" where
  "ok_beacon h \<longleftrightarrow> ok_header h \<and> ok_str (intf_name h)
     \<and> bytes_beacon h < 2 ^ 31"

definition norm_beacon :: "msg_beacon_interval \<Rightarrow> msg_beacon_interval \<Rightarrow> msg_beacon_interval" where
  "norm_beacon h0 h = (norm_header (bytes_beacon h) h)\<lparr>intf_name := canon (intf_name h)\<rparr>"

interpretation beacon: msg_codec encode_msg_beacon_interval decode_msg_beacon_interval ok_beacon
  norm_beacon bytes_beacon m_type
  unfolding encode_msg_beacon_interval_def [abs_def] decode_msg_beacon_interval_def
  by (rule frame_codecI [where bss = "\<lambda>m. [ser_str (intf_name m), le_bytes 8 (beacon_interval m)]"])
    (simp_all add: codec ok_beacon_def ok_header_def bytes_beacon_def norm_beacon_def
      size_msg_beacon_interval_def norm_header_def ac_simps encode_char_put length_ser_str)


subsection \<open>Fragmentation threshold\<close>

record msg_fragmentationthreshold = msg_header +
  wiphy :: c_long
  fragmentation_threshold :: c_int

definition message_size_fragmentationthreshold :: "msg_fragmentationthreshold \<Rightarrow> fault + c_int" where
  "message_size_fragmentationthreshold h = sum_sizes
     [sizeof 4, sizeof 4, strlen_ethanol (p_version h), sizeof 4, sizeof 8, sizeof 4]"

definition encode_msg_fragmentationthreshold :: "allocator \<Rightarrow> msg_fragmentationthreshold \<Rightarrow> fault + msg_fragmentationthreshold \<times> u8 list" where
  "encode_msg_fragmentationthreshold mal = encode_frame mal message_size_fragmentationthreshold (\<lambda>h.
     [encode_header (m_type h) (m_id h) (m_size h),
      encode_2long (wiphy h),
      encode_uint (fragmentation_threshold h)])"

definition decode_msg_fragmentationthreshold :: "u8 list \<Rightarrow> msg_fragmentationthreshold \<Rightarrow> fault + msg_fragmentationthreshold" where
  "decode_msg_fragmentationthreshold = decode_frame
     [decode_header,
      into decode_2long wiphy_update,
      into decode_uint fragmentation_threshold_update]"

definition process_msg_fragmentationthreshold ::
  "env \<Rightarrow> u8 list \<Rightarrow> msg_fragmentationthreshold \<Rightarrow> fault + effect list \<times> u8 list option" where
  "process_msg_fragmentationthreshold e input hm =
     and_then (decode_msg_fragmentationthreshold input hm) (\<lambda>h.
     let h = (if m_type h = MSG_GET_FRAGMENTATIONTHRESHOLD
              then h\<lparr>wiphy := 10, fragmentation_threshold := 15\<rparr> else h) in
     and_then (encode_msg_fragmentationthreshold (mallocs e) h) (\<lambda>(_, output). Inr ([], Some output)))"

text \<open>The request leaves \<open>fragmentation_threshold\<close> uninitialised.\<close>

definition send_msg_ap_get_fragmentationthreshold ::
  "env \<Rightarrow> cstr \<Rightarrow> c_int \<Rightarrow> c_int \<Rightarrow> c_long \<Rightarrow> msg_fragmentationthreshold \<Rightarrow> msg_fragmentationthreshold
   \<Rightarrow> fault + effect list \<times> c_int \<times> msg_fragmentationthreshold option" where
  "send_msg_ap_get_fragmentationthreshold e hostname portnum idc phy hs hm =
     send_sync e hostname portnum idc
       (\<lambda>i. run_prog
         [assign m_type_update MSG_GET_FRAGMENTATIONTHRESHOLD,
          assign m_id_update i,
          copy_to e p_version_update ETHANOL_VERSION,
          assign wiphy_update phy,
          set_size message_size_fragmentationthreshold] hs)
       (encode_msg_fragmentationthreshold (mallocs e))
       (\<lambda>t. t = MSG_GET_FRAGMENTATIONTHRESHOLD)
       (\<lambda>buf. decode_msg_fragmentationthreshold buf hm)"

definition send_msg_ap_set_fragmentationthreshold ::
  "env \<Rightarrow> cstr \<Rightarrow> c_int \<Rightarrow> c_int \<Rightarrow> c_long \<Rightarrow> c_int \<Rightarrow> msg_fragmentationthreshold
   \<Rightarrow> fault + effect list \<times> c_int" where
  "send_msg_ap_set_fragmentationthreshold e hostname portnum idc phy thr hs = send_async e hostname portnum idc
       (\<lambda>i. run_prog
         [assign m_type_update MSG_SET_FRAGMENTATIONTHRESHOLD,
          assign m_id_update i,
          copy_to e p_version_update ETHANOL_VERSION,
          assign wiphy_update phy,
          assign fragmentation_threshold_update thr,
          set_size message_size_fragmentationthreshold] hs)
       (encode_msg_fragmentationthreshold (mallocs e))"

definition bytes_frag :: "msg_fragmentationthreshold \<Rightarrow> nat" where
  "bytes_frag h = slen (p_version h) + 29"

definition ok_frag :: "msg_fragmentationthreshold \<Rightarrow> bool" where
  "ok_frag h \<longleftrightarrow> ok_header h
     \<and> bytes_frag h < 2 ^ 31"

definition norm_frag :: "msg_fragmentationthreshold \<Rightarrow> msg_fragmentationthreshold \<Rightarrow> msg_fragmentationthreshold" where
  "norm_frag h0 h = norm_header (bytes_frag h) h"

interpretation frag: msg_codec encode_msg_fragmentationthreshold decode_msg_fragmentationthreshold ok_frag
  norm_frag bytes_frag m_type
  unfolding encode_msg_fragmentationthreshold_def [abs_def] decode_msg_fragmentationthreshold_def
  by (rule frame_codecI [where bss = "\<lambda>m. [le_bytes 8 (wiphy m), le_bytes 4 (fragmentation_threshold m)]"])
    (simp_all add: codec ok_frag_def ok_header_def bytes_frag_def norm_frag_def
      message_size_fragmentationthreshold_def norm_header_def ac_simps)

subsection \<open>Reading a parameter\<close>

text \<open>
  The contract of the modules whose read message names an interface and is answered with a fixed
  value of the parameter.
\<close>

locale config_service = msg_codec enc dec ok norm bytes m_type
  for enc :: "allocator \<Rightarrow> 'a intf_msg_scheme \<Rightarrow> fault + 'a intf_msg_scheme \<times> u8 list"
    and dec ok norm bytes +
  fixes get :: "env \<Rightarrow> cstr \<Rightarrow> c_int \<Rightarrow> c_int \<Rightarrow> cstr \<Rightarrow> 'a intf_msg_scheme \<Rightarrow> 'a intf_msg_scheme
        \<Rightarrow> fault + effect list \<times> c_int \<times> 'a intf_msg_scheme option"
    and process :: "env \<Rightarrow> u8 list \<Rightarrow> 'a intf_msg_scheme \<Rightarrow> fault + effect list \<times> u8 list option"
    and mt :: c_int
    and val :: "'a intf_msg_scheme \<Rightarrow> 'v"
    and ans :: "'a intf_msg_scheme \<Rightarrow> 'a intf_msg_scheme"
    and fixed :: 'v
  assumes norm_fields: "m_type (norm h0 m) = m_type m" "m_id (norm h0 m) = m_id m"
      "intf_name (norm h0 m) = canon (intf_name m)" "val (norm h0 m) = val m"
    and ans_fields: "m_type (ans m) = m_type m" "m_id (ans m) = m_id m"
      "intf_name (ans m) = intf_name m" "val (ans m) = fixed" "ok (ans m) = ok m"
    and ok_norm: "ok m \<Longrightarrow> ok (norm h0 m)"
    and get_eq: "\<lbrakk>copyable (mallocs e) ETHANOL_VERSION; copyable (mallocs e) intf; slen intf < 2 ^ 31 - 100\<rbrakk>
      \<Longrightarrow> \<exists>q. ok q \<and> m_type q = mt \<and> m_id q = i \<and> canon (intf_name q) = canon intf
          \<and> get e host port i intf hs hm
            = send_sync e host port i (\<lambda>_. Inr q) (enc (mallocs e)) (\<lambda>t. t = mt) (\<lambda>b. dec b hm)"
    and process_eq: "process e input hm = and_then (dec input hm) (\<lambda>h.
       if m_type h = mt then and_then (enc (mallocs e) (ans h)) (\<lambda>(_, output). Inr ([], Some output))
       else Inr ([], None))"
begin

lemma process_get:
  assumes "ok q" "allocates mal" "enc mal q = Inr (q', req)" "m_type q = mt" "allocates (mallocs e)"
  shows "\<exists>a' out. process e (req @ r) hm = Inr ([], Some out) \<and>
    enc (mallocs e) (ans (norm hm q)) = Inr (a', out)"
proof -
  have "ok (ans (norm hm q))"
    using assms(1) by (simp add: ans_fields ok_norm)
  then show ?thesis
    using enc_no_fault [OF _ assms(5)] roundtrip [OF assms(1-3), of r hm] assms(4)
    by (fastforce simp: process_eq norm_fields)
qed

lemma process_other:
  "ok q \<Longrightarrow> allocates mal \<Longrightarrow> enc mal q = Inr (q', req) \<Longrightarrow> m_type q \<noteq> mt
   \<Longrightarrow> process e (req @ r) hm = Inr ([], None)"
  using roundtrip [of q mal q' req r hm] by (simp add: process_eq norm_fields)

lemma get_answered:
  assumes "copyable (mallocs e0) ETHANOL_VERSION" "copyable (mallocs e0) intf" "slen intf < 2 ^ 31 - 100"
    and "allocates (mallocs e0)" "reaches e0 host port" "allocates (mallocs e1)"
    and peer: "serves e0 host port mt (\<lambda>req. process e1 (req @ j) hm1)"
  shows "\<exists>req a. get e0 host port i intf hs hm = Inr (session e0 host port req, i + 1, Some a)
     \<and> m_id a = i \<and> intf_name a = canon intf \<and> val a = fixed"
proof -
  obtain q where q: "ok q" "m_type q = mt" "m_id q = i" "canon (intf_name q) = canon intf"
    and g: "get e0 host port i intf hs hm
      = send_sync e0 host port i (\<lambda>_. Inr q) (enc (mallocs e0)) (\<lambda>t. t = mt) (\<lambda>b. dec b hm)"
    using get_eq [OF assms(1-3)] by blast
  obtain q' req where e: "enc (mallocs e0) q = Inr (q', req)"
    using enc_no_fault [OF q(1) assms(4)] by blast
  let ?a = "ans (norm hm1 q)"
  have a: "ok ?a" "m_type ?a = mt"
    using q by (simp_all add: ans_fields ok_norm norm_fields)
  obtain a' out where out: "process e1 (req @ j) hm1 = Inr ([], Some out)" "enc (mallocs e1) ?a = Inr (a', out)"
    using process_get [OF q(1) assms(4) e q(2) assms(6)] by blast
  obtain r where r: "ssl_read e0 host port req = out @ r"
    using servesD [OF peer _ out(1)] wire_type [OF q(1) assms(4) e] q(2) by blast
  have "get e0 host port i intf hs hm = Inr (session e0 host port req, i + 1, Some (norm hm ?a))"
    using close_open_connection [OF assms(5), of req] wire_message_type [OF a(1) assms(6) out(2)] a(2)
      roundtrip [OF a(1) assms(6) out(2)]
    by (simp add: g send_sync_def assms(5) e r Let_def)
  then show ?thesis
    using q by (auto simp: norm_fields ans_fields)
qed

end

definition intf_request ::
  "allocator \<Rightarrow> c_int \<Rightarrow> c_int \<Rightarrow> cstr \<Rightarrow> 'a intf_msg_scheme \<Rightarrow> nat \<Rightarrow> 'a intf_msg_scheme" where
  "intf_request mal mt i intf h n = h\<lparr>m_type := mt, m_id := i, p_version := dup mal ETHANOL_VERSION,
     intf_name := dup mal intf, m_size := word_of_nat n\<rparr>"

interpretation cts_svc: config_service encode_msg_ap_ctsprotection_enabled decode_msg_ap_ctsprotection_enabled ok_cts
  norm_cts bytes_cts send_msg_ap_ctsprotection_enabled process_msg_ap_ctsprotection_enabled MSG_GET_AP_CTSPROTECTION_ENABLED enabled "\<lambda>h. h\<lparr>enabled := False\<rparr>" False
proof (unfold_locales, goal_cases)
  case (11 e intf i host port hs hm)
  let ?q = "intf_request (mallocs e) MSG_GET_AP_CTSPROTECTION_ENABLED i intf (hs\<lparr>enabled := False\<rparr>) (slen intf + 31)"
  have "send_msg_ap_ctsprotection_enabled e host port i intf hs hm = send_sync e host port i (\<lambda>_. Inr ?q)
      (encode_msg_ap_ctsprotection_enabled (mallocs e)) (\<lambda>t. t = MSG_GET_AP_CTSPROTECTION_ENABLED) (\<lambda>b. decode_msg_ap_ctsprotection_enabled b hm)"
    unfolding send_msg_ap_ctsprotection_enabled_def
    by (rule send_sync_built) (use 11 in \<open>simp add: intf_request_def set_size_ok size_msg_ap_ctsprotection_enabled_def ac_simps\<close>)
  then show ?case
    using 11 by (intro exI [of _ ?q])
      (simp add: intf_request_def ok_cts_def ok_header_def bytes_cts_def)
qed (simp_all add: process_msg_ap_ctsprotection_enabled_def ok_cts_def norm_cts_def bytes_cts_def ok_header_def
       norm_header_def cong: if_cong)

interpretation burst_svc: config_service encode_msg_ap_frameburstenabled decode_msg_ap_frameburstenabled ok_burst
  norm_burst bytes_burst send_msg_ap_get_frameburstenabled process_msg_ap_frameburstenabled MSG_GET_AP_FRAMEBURSTENABLED enabled "\<lambda>h. h\<lparr>enabled := False\<rparr>" False
proof (unfold_locales, goal_cases)
  case (11 e intf i host port hs hm)
  let ?q = "intf_request (mallocs e) MSG_GET_AP_FRAMEBURSTENABLED i intf (hs\<lparr>enabled := False\<rparr>) (slen intf + 31)"
  have "send_msg_ap_get_frameburstenabled e host port i intf hs hm = send_sync e host port i (\<lambda>_. Inr ?q)
      (encode_msg_ap_frameburstenabled (mallocs e)) (\<lambda>t. t = MSG_GET_AP_FRAMEBURSTENABLED) (\<lambda>b. decode_msg_ap_frameburstenabled b hm)"
    unfolding send_msg_ap_get_frameburstenabled_def
    by (rule send_sync_built) (use 11 in \<open>simp add: intf_request_def set_size_ok size_msg_ap_frameburstenabled_def ac_simps\<close>)
  then show ?case
    using 11 by (intro exI [of _ ?q])
      (simp add: intf_request_def ok_burst_def ok_header_def bytes_burst_def)
qed (simp_all add: process_msg_ap_frameburstenabled_def ok_burst_def norm_burst_def bytes_burst_def ok_header_def
       norm_header_def cong: if_cong)

interpretation beacon_svc: config_service encode_msg_beacon_interval decode_msg_beacon_interval ok_beacon
  norm_beacon bytes_beacon send_msg_get_beacon_interval process_msg_beacon_interval MSG_GET_BEACON_INTERVAL beacon_interval "\<lambda>h. h\<lparr>beacon_interval := 0\<rparr>" 0
proof (unfold_locales, goal_cases)
  case (11 e intf i host port hs hm)
  let ?q = "intf_request (mallocs e) MSG_GET_BEACON_INTERVAL i intf (hs\<lparr>beacon_interval := 0\<rparr>) (slen intf + 35)"
  have "send_msg_get_beacon_interval e host port i intf hs hm = send_sync e host port i (\<lambda>_. Inr ?q)
      (encode_msg_beacon_interval (mallocs e)) (\<lambda>t. t = MSG_GET_BEACON_INTERVAL) (\<lambda>b. decode_msg_beacon_interval b hm)"
    unfolding send_msg_get_beacon_interval_def
    by (rule send_sync_built) (use 11 in \<open>simp add: intf_request_def set_size_ok size_msg_beacon_interval_def ac_simps\<close>)
  then show ?case
    using 11 by (intro exI [of _ ?q])
      (simp add: intf_request_def ok_beacon_def ok_header_def bytes_beacon_def)
qed (simp_all add: process_msg_beacon_interval_def ok_beacon_def norm_beacon_def bytes_beacon_def ok_header_def
       norm_header_def cong: if_cong)


subsection \<open>Properties\<close>

text \<open>
  A client that asks an access point whether CTS protection is enabled gets exactly one answer,
  with its own message id, for the interface it named; the value is always \<open>false\<close> (the agent does
  not read the radio).  The connection is closed and the id counter advanced.
\<close>

theorem ctsprotection_get:
  assumes "copyable (mallocs e0) ETHANOL_VERSION" "copyable (mallocs e0) intf" "slen intf < 2 ^ 31 - 100"
    and "allocates (mallocs e0)" "reaches e0 host port" "allocates (mallocs e1)"
    and "serves e0 host port MSG_GET_AP_CTSPROTECTION_ENABLED
         (\<lambda>req. process_msg_ap_ctsprotection_enabled e1 (req @ j) hm1)"
  shows "\<exists>req a. send_msg_ap_ctsprotection_enabled e0 host port i intf hs hm
       = Inr (session e0 host port req, i + 1, Some a)
     \<and> m_id a = i \<and> intf_name a = canon intf \<and> enabled a = False"
  by (rule cts_svc.get_answered [OF assms])

definition demo_switch :: switch_msg where
  "demo_switch = \<lparr>m_type = 0, m_id = 0, p_version = None, m_size = 0, intf_name = None, enabled = True\<rparr>"

theorem ctsprotection_get_witness:
  "\<exists>req a. send_msg_ap_ctsprotection_enabled (demo_env\<lparr>ssl_read := demo_peer (\<lambda>req.
         process_msg_ap_ctsprotection_enabled demo_env (req @ [4]) demo_switch)\<rparr>) demo_name 22222 6 demo_name
         demo_switch demo_switch
       = Inr (session demo_env demo_name 22222 req, 7, Some a)
     \<and> m_id a = 6 \<and> intf_name a = demo_name \<and> enabled a = False"
proof -
  let ?e = "demo_env\<lparr>ssl_read := demo_peer (\<lambda>req.
         process_msg_ap_ctsprotection_enabled demo_env (req @ [4]) demo_switch)\<rparr>"
  have c: "copyable (mallocs ?e) ETHANOL_VERSION" "copyable (mallocs ?e) demo_name"
      "slen demo_name < 2 ^ 31 - 100" "allocates (mallocs ?e)" "reaches ?e demo_name 22222"
    using reaches_demo_env [of demo_name 22222]
    by (simp_all add: copyable_demo_env allocates_demo_env reaches_def)
  have "session ?e demo_name 22222 req = session demo_env demo_name 22222 req" for req
    by (simp add: session_def)
  then show ?thesis
    using ctsprotection_get [OF c allocates_demo_env serves_demo_peer, of 6 demo_switch demo_switch] by simp
qed

text \<open>
  Messages that set CTS protection, frame burst or the beacon interval are accepted and
  ignored: whatever well-formed message of that type arrives, the handler has no effect and sends
  no reply.
\<close>

theorem set_messages_ignored:
  assumes "allocates mal"
  shows "(\<forall>q q' req r hm. ok_cts q \<and> m_type q = MSG_SET_AP_CTSPROTECTION_ENABLED \<and>
        encode_msg_ap_ctsprotection_enabled mal q = Inr (q', req)
      \<longrightarrow> process_msg_ap_ctsprotection_enabled e (req @ r) hm = Inr ([], None)) \<and>
    (\<forall>q q' req r hm. ok_burst q \<and> m_type q = MSG_SET_AP_FRAMEBURSTENABLED \<and>
        encode_msg_ap_frameburstenabled mal q = Inr (q', req)
      \<longrightarrow> process_msg_ap_frameburstenabled e (req @ r) hm = Inr ([], None)) \<and>
    (\<forall>q q' req r hm. ok_beacon q \<and> m_type q = MSG_SET_BEACON_INTERVAL \<and>
        encode_msg_beacon_interval mal q = Inr (q', req)
      \<longrightarrow> process_msg_beacon_interval e (req @ r) hm = Inr ([], None))"
  by (intro conjI allI impI; elim conjE)
    (erule cts_svc.process_other [OF _ assms], assumption, simp,
     erule burst_svc.process_other [OF _ assms], assumption, simp,
     erule beacon_svc.process_other [OF _ assms], assumption, simp)

theorem set_messages_ignored_witness:
  "\<exists>q' req. encode_msg_ap_ctsprotection_enabled demo_alloc (demo_switch\<lparr>
       m_type := MSG_SET_AP_CTSPROTECTION_ENABLED, p_version := ETHANOL_VERSION\<rparr>) = Inr (q', req) \<and>
     process_msg_ap_ctsprotection_enabled demo_env (req @ [3]) demo_switch = Inr ([], None)"
proof -
  let ?q = "demo_switch\<lparr>m_type := MSG_SET_AP_CTSPROTECTION_ENABLED, p_version := ETHANOL_VERSION\<rparr>"
  have ok: "ok_cts ?q" "m_type ?q = MSG_SET_AP_CTSPROTECTION_ENABLED"
    by (simp_all add: demo_switch_def ok_cts_def ok_header_def bytes_cts_def)
  then obtain q' req where "encode_msg_ap_ctsprotection_enabled demo_alloc ?q = Inr (q', req)"
    using cts.enc_no_fault allocates_demo_alloc by blast
  then show ?thesis
    using set_messages_ignored [OF allocates_demo_alloc] ok by blast
qed

text \<open>
  Requests for the DTIM interval are never answered: the handler decodes every well-formed
  message, read or set, and leaves the reply at \<open>NULL\<close>.
\<close>

theorem dtim_never_answered:
  assumes "ok_dtim q" "allocates mal" "encode_msg_ap_dtiminterval mal q = Inr (q', req)"
  shows "process_msg_ap_dtiminterval e (req @ r) hm = Inr ([], None)"
  using dtim.roundtrip [OF assms] by (simp add: process_msg_ap_dtiminterval_def)

definition demo_dtim :: msg_ap_dtiminterval where
  "demo_dtim = \<lparr>m_type = MSG_GET_AP_DTIMINTERVAL, m_id = 1, p_version = ETHANOL_VERSION, m_size = 0,
     intf_name = demo_name, dtim_interval = 0\<rparr>"

theorem dtim_never_answered_witness:
  "\<exists>q' req. encode_msg_ap_dtiminterval demo_alloc demo_dtim = Inr (q', req) \<and>
     process_msg_ap_dtiminterval demo_env (req @ []) demo_dtim = Inr ([], None)"
proof -
  have ok: "ok_dtim demo_dtim"
    by (simp add: demo_dtim_def ok_dtim_def ok_header_def ok_str_def bytes_dtim_def)
  then obtain q' req where e: "encode_msg_ap_dtiminterval demo_alloc demo_dtim = Inr (q', req)"
    using dtim.enc_no_fault allocates_demo_alloc by blast
  then show ?thesis
    using dtim_never_answered [OF ok allocates_demo_alloc e] by blast
qed

text \<open>
  \<open>send_msg_set_beacon_interval\<close> computes the size of the message before it sets the interface
  name: it follows the uninitialised pointer of its local structure.  Whenever that pointer is not
  null and no zero byte follows in the memory it points to, the connected client reads out
  of bounds, whatever it was asked to send.
\<close>

theorem beacon_set_uninitialised:
  assumes "reaches e host port" "copyable (mallocs e) ETHANOL_VERSION"
    and "intf_name hs = Some b" "0 \<notin> set b"
  shows "send_msg_set_beacon_interval e host port i intf v hs = Inl Read_Out_Of_Bounds"
proof -
  have "strlen_ethanol (Some b) = Inl Read_Out_Of_Bounds"
    using assms(4) by (simp add: strlen_ethanol_def strlen_def)
  then have "size_msg_beacon_interval h = Inl Read_Out_Of_Bounds"
    if "intf_name h = Some b" "ok_str (p_version h)" for h
    using that by (simp add: size_msg_beacon_interval_def)
  then show ?thesis
    using assms by (simp add: send_msg_set_beacon_interval_def send_async_def set_size_def)
qed

definition demo_beacon :: msg_beacon_interval where
  "demo_beacon = \<lparr>m_type = 0, m_id = 0, p_version = None, m_size = 0, intf_name = Some [1, 2],
     beacon_interval = 0\<rparr>"

theorem beacon_set_uninitialised_witness:
  "send_msg_set_beacon_interval demo_env demo_name 22222 1 demo_name 100 demo_beacon
     = Inl Read_Out_Of_Bounds"
  using beacon_set_uninitialised [OF reaches_demo_env, of demo_beacon "[1, 2]" demo_name 22222 1 demo_name 100]
  by (simp add: demo_beacon_def copyable_demo_env)


end
