(* ===== verification/Commands.thy ===== *)
theory Commands
  imports Sys_Stats
begin

section \<open>Commands of the operating system (\<open>ethanol_functions/connect.c\<close>, \<open>setip.c\<close>)\<close>

text \<open>
  The agent configures the machine with command lines that it composes with \<open>sprintf\<close> in arrays of
  fixed size and passes to \<open>system\<close>.  A format is the list of its literal parts and conversions;
  the effect of a call is \<open>System cmd\<close>, and the exit status comes from the environment.
\<close>


subsection \<open>\<open>sprintf\<close>\<close>

datatype fmt_item = Lit string | Str cstr | Dec c_int

fun digits :: "nat \<Rightarrow> u8 list" where
  "digits n = (if n < 10 then [word_of_nat (48 + n)]
     else digits (n div 10) @ [word_of_nat (48 + n mod 10)])"

declare digits.simps [simp del]

definition dec_chars :: "c_int \<Rightarrow> u8 list" where
  "dec_chars w = (if sint w < 0 then 0x2D # digits (nat (- sint w)) else digits (nat (sint w)))"

primrec fmt_one :: "fmt_item \<Rightarrow> fault + u8 list" where
  "fmt_one (Lit s) = Inr (str_bytes s)"
| "fmt_one (Str s) = fmt_str s"
| "fmt_one (Dec d) = Inr (dec_chars d)"

primrec fmt_all :: "fmt_item list \<Rightarrow> fault + u8 list" where
  "fmt_all [] = Inr []"
| "fmt_all (x # xs) = and_then (fmt_one x) (\<lambda>a. and_then (fmt_all xs) (\<lambda>b. Inr (a @ b)))"

definition sprintf :: "nat \<Rightarrow> fmt_item list \<Rightarrow> fault + u8 list" where
  "sprintf n items = and_then (fmt_all items) (sprintf_into n)"


subsection \<open>\<open>connect.c\<close>\<close>

fun contains :: "u8 list \<Rightarrow> u8 list \<Rightarrow> bool" where
  "contains p [] = (p = [])"
| "contains p (x # xs) = (take (length p) (x # xs) = p \<or> contains p xs)"

text \<open>
  \<open>which_path\<close>: the last line of the output of \<open>which\<close> that has the command in it, without its
  last character.
\<close>

definition which_path :: "env \<Rightarrow> string \<Rightarrow> fault + cstr" where
  "which_path e command = and_then (sprintf 2000 [Lit ''/usr/bin/which '', Lit command]) (\<lambda>cmd.
     Inr (case popen_lines e cmd of
       None \<Rightarrow> None
     | Some ls \<Rightarrow> fold (\<lambda>l path. if contains (str_bytes command) l then Some (butlast l @ [0]) else path) ls None))"

definition system_cmd :: "env \<Rightarrow> u8 list \<Rightarrow> fault + effect list \<times> c_int" where
  "system_cmd e cmd = Inr ([System cmd], system_ret e cmd)"

definition connect_to_ap ::
  "env \<Rightarrow> cstr \<Rightarrow> cstr \<Rightarrow> bool \<Rightarrow> cstr \<Rightarrow> c_int \<Rightarrow> cstr \<Rightarrow> fault + effect list \<times> c_int" where
  "connect_to_ap e path_to_iw intf wt ssid freq mac_ap =
     (if intf = None then Inr ([], - 1)
      else
        and_then (if 0 < sint freq then sprintf 10 [Lit '' '', Dec freq, Lit '' ''] else Inr []) (\<lambda>freq_str.
        and_then (sprintf 150 [Lit ''sudo '', Str path_to_iw, Lit '' dev '', Str intf, Lit '' connect '',
            Lit (if wt then ''-w'' else ''''), Lit '' '', Str ssid, Lit '' '', Str (Some (freq_str @ [0])),
            Lit '' '', Str (if mac_ap = None then Some [0] else mac_ap)])
          (system_cmd e)))"

definition disconnect_from_ap :: "env \<Rightarrow> cstr \<Rightarrow> cstr \<Rightarrow> fault + effect list \<times> c_int" where
  "disconnect_from_ap e path_to_iw intf =
     (if intf = None then Inr ([], - 1)
      else and_then (sprintf 150 [Lit ''sudo '', Str path_to_iw, Lit '' dev '', Str intf, Lit '' disconnect''])
        (system_cmd e))"

text \<open>
  \<open>trigger_scan_intf\<close> with its static variable \<open>last_call_trigger_scan\<close> (initially 0), which is the
  state, and the time \<open>now\<close> in seconds: \<open>difftime\<close> of two times is below 1.0 when it is below 1.
\<close>

definition trigger_scan_intf ::
  "env \<Rightarrow> cstr \<Rightarrow> int \<Rightarrow> cstr \<Rightarrow> int \<Rightarrow> fault + effect list \<times> c_int \<times> int" where
  "trigger_scan_intf e path_to_iw now intf last_call =
     (if intf = None then Inr ([], - 1, last_call)
      else if last_call \<noteq> 0 \<and> now - last_call < 1 then Inr ([], - 2, now)
      else
        (let last_call = (if last_call \<noteq> 0 then now else last_call) in
         and_then (if path_to_iw = None then which_path e ''iwconfig'' else Inr path_to_iw) (\<lambda>iw_path.
         and_then (sprintf 1000 [Lit ''sudo '', Str iw_path, Lit '' dev '', Str intf,
             Lit (if process_station e then '' scan trigger'' else '' scan trigger ap-force''),
             Lit '' 1> /dev/null 2> /dev/null'']) (\<lambda>cmd.
         and_then (system_cmd e cmd) (\<lambda>(ev, err). Inr (ev, err, last_call))))))"

definition fill_string :: "allocator \<Rightarrow> cstr \<Rightarrow> fault + cstr" where
  "fill_string mal orig = and_then (strlen orig) (\<lambda>len.
     if 0 < len then and_then (strcpy (mal (len + 1)) (case orig of None \<Rightarrow> [] | Some b \<Rightarrow> b)) (\<lambda>d. Inr (Some d))
     else Inr None)"


subsection \<open>\<open>setip.c\<close>\<close>

text \<open>
  All functions of \<open>setip.c\<close> that change something look up a tool, compose the command in 1024
  bytes and run it; without the tool they do nothing and return -1.
\<close>

definition with_tool ::
  "env \<Rightarrow> string \<Rightarrow> (cstr \<Rightarrow> fmt_item list) \<Rightarrow> fault + effect list \<times> c_int" where
  "with_tool e tool items = and_then (which_path e tool) (\<lambda>ip.
     if ip \<noteq> None then and_then (sprintf 1024 (items ip)) (system_cmd e) else Inr ([], - 1))"

definition set_ip :: "env \<Rightarrow> cstr \<Rightarrow> cstr \<Rightarrow> fault + effect list \<times> c_int" where
  "set_ip e intf ip_address = with_tool e ''ip'' (\<lambda>ip.
     [Lit ''sudo '', Str ip, Lit '' address add '', Str ip_address, Lit '' dev '', Str intf])"

definition set_broadcast :: "env \<Rightarrow> cstr \<Rightarrow> cstr \<Rightarrow> fault + effect list \<times> c_int" where
  "set_broadcast e intf ip_address = with_tool e ''ip'' (\<lambda>ip.
     [Lit ''sudo '', Str ip, Lit '' address broadcast '', Str ip_address, Lit '' dev '', Str intf])"

definition set_interface :: "env \<Rightarrow> cstr \<Rightarrow> bool \<Rightarrow> fault + effect list \<times> c_int" where
  "set_interface e intf up = with_tool e ''ip'' (\<lambda>ip.
     [Lit ''sudo '', Str ip, Lit '' link set dev '', Str intf, Lit '' '', Lit (if up then ''up'' else ''down'')])"

definition clear_all_ip_address :: "env \<Rightarrow> cstr \<Rightarrow> fault + effect list \<times> c_int" where
  "clear_all_ip_address e intf = with_tool e ''ip'' (\<lambda>ip.
     [Lit ''sudo '', Str ip, Lit '' addr flush dev '', Str intf])"

definition clear_ip_address :: "env \<Rightarrow> cstr \<Rightarrow> cstr \<Rightarrow> fault + effect list \<times> c_int" where
  "clear_ip_address e intf ip_address = with_tool e ''ip'' (\<lambda>ip.
     [Lit ''sudo '', Str ip, Lit '' addr del '', Str ip_address, Lit '' dev '', Str intf])"

definition set_mtu :: "env \<Rightarrow> cstr \<Rightarrow> c_int \<Rightarrow> fault + effect list \<times> c_int" where
  "set_mtu e intf m = with_tool e ''ip'' (\<lambda>ip.
     [Lit ''sudo '', Str ip, Lit '' link set mtu '', Dec m, Lit '' dev '', Str intf])"

definition set_txqueuelen :: "env \<Rightarrow> cstr \<Rightarrow> c_int \<Rightarrow> fault + effect list \<times> c_int" where
  "set_txqueuelen e intf txqueue_len = with_tool e ''ip'' (\<lambda>ip.
     [Lit ''sudo '', Str ip, Lit '' link set txqueuelen '', Dec txqueue_len, Lit '' dev '', Str intf])"

definition add_arp_entry :: "env \<Rightarrow> cstr \<Rightarrow> cstr \<Rightarrow> cstr \<Rightarrow> c_int \<Rightarrow> fault + effect list \<times> c_int" where
  "add_arp_entry e intf ip_address mac_address state = with_tool e ''ip'' (\<lambda>ip.
     [Lit ''sudo '', Str ip, Lit '' neigh add '', Str ip_address, Lit '' lladdr '', Str mac_address,
      Lit '' dev '', Str intf, Lit '' nud '',
      Lit (if state = 1 then ''noarp'' else if state = 2 then ''stale''
           else if state = 3 then ''reachable'' else ''permanent'')])"

definition clear_arp_entry :: "env \<Rightarrow> cstr \<Rightarrow> cstr \<Rightarrow> fault + effect list \<times> c_int" where
  "clear_arp_entry e intf ip_address = with_tool e ''ip'' (\<lambda>ip.
     [Lit ''sudo '', Str ip, Lit '' neigh del '', Str ip_address, Lit '' dev '', Str intf])"

definition start_dhcp :: "env \<Rightarrow> cstr \<Rightarrow> fault + effect list \<times> c_int" where
  "start_dhcp e intf = with_tool e ''dhclient'' (\<lambda>dhclient.
     [Lit ''sudo '', Str dhclient, Lit '' -nw -pf /run/dhclient.'', Str intf,
      Lit ''.pid -lf /var/lib/dhcp/dhclient.'', Str intf, Lit ''.leases '', Str intf])"


subsection \<open>Decimal numbers\<close>

text \<open>Reading a decimal number back: what \<open>%d\<close> prints has the value that was printed.\<close>

fun digits_value :: "u8 list \<Rightarrow> nat \<Rightarrow> nat" where
  "digits_value [] acc = acc"
| "digits_value (c # cs) acc = digits_value cs (10 * acc + (unat c - 48))"

definition dec_value :: "u8 list \<Rightarrow> int" where
  "dec_value cs = (case cs of [] \<Rightarrow> 0
     | c # cs' \<Rightarrow> if c = 0x2D then - int (digits_value cs' 0) else int (digits_value cs 0))"

lemma digits_value_append: "digits_value (xs @ ys) a = digits_value ys (digits_value xs a)"
  by (induction xs arbitrary: a) simp_all

lemma unat_digit: "n < 10 \<Longrightarrow> unat (word_of_nat (48 + n) :: u8) = 48 + n"
  by (simp only: unat_of_nat) (simp add: take_bit_nat_eq_self)

lemma digits_value_digits: "digits_value (digits n) 0 = n"
proof (induction n rule: less_induct)
  case (less n)
  show ?case
  proof (cases "n < 10")
    case True
    then show ?thesis using unat_digit [of n] by (simp add: digits.simps)
  next
    case False
    then have "digits_value (digits (n div 10)) 0 = n div 10"
      using less.IH by simp
    then show ?thesis
      using False unat_digit [of "n mod 10"] by (subst digits.simps) (simp add: digits_value_append)
  qed
qed

lemma hd_digits: "\<exists>d cs. d < 10 \<and> digits n = word_of_nat (48 + d) # cs"
proof (induction n rule: less_induct)
  case (less n)
  show ?case
  proof (cases "n < 10")
    case True
    then show ?thesis by (subst digits.simps) auto
  next
    case False
    then obtain d cs where "d < 10" "digits (n div 10) = word_of_nat (48 + d) # cs"
      using less.IH [of "n div 10"] by auto
    then show ?thesis
      using False by (subst digits.simps) auto
  qed
qed

lemma length_digits: "n < 10 ^ k \<Longrightarrow> 0 < k \<Longrightarrow> length (digits n) \<le> k"
proof (induction k arbitrary: n)
  case 0
  then show ?case by simp
next
  case (Suc k)
  show ?case
  proof (cases "n < 10")
    case True
    then show ?thesis by (subst digits.simps) simp
  next
    case False
    then have "0 < k"
      using Suc.prems by (cases k) simp_all
    moreover have "n div 10 < 10 ^ k"
      using Suc.prems by (simp add: div_less_iff_less_mult)
    ultimately show ?thesis
      using False Suc.IH [of "n div 10"] by (subst digits.simps) simp
  qed
qed

lemma dec_value_dec_chars: "dec_value (dec_chars w) = sint w"
proof (cases "sint w < 0")
  case True
  then show ?thesis by (simp add: dec_chars_def dec_value_def digits_value_digits)
next
  case False
  obtain d cs where d: "d < 10" "digits (nat (sint w)) = word_of_nat (48 + d) # cs"
    using hd_digits by blast
  have "unat (word_of_nat (48 + d) :: u8) \<noteq> unat (0x2D :: u8)"
    unfolding unat_digit [OF d(1)] by simp
  then have "(word_of_nat (48 + d) :: u8) \<noteq> 0x2D"
    by metis
  then show ?thesis
    using False d digits_value_digits [of "nat (sint w)"] by (simp add: dec_chars_def dec_value_def)
qed

lemma length_dec_chars: "length (dec_chars w) \<le> 11"
proof -
  have "- (2 ^ 31) \<le> sint w" "sint w < 2 ^ 31"
    using sint_range_size [of w] by (simp_all add: word_size)
  then show ?thesis
    using length_digits [of "nat (- sint w)" 10] length_digits [of "nat (sint w)" 10]
    by (cases "sint w < 0") (simp_all add: dec_chars_def nat_less_iff)
qed


subsection \<open>Composed commands\<close>

text \<open>What \<open>%s\<close> prints for a well-formed string.\<close>

definition shown :: "cstr \<Rightarrow> u8 list" where
  "shown s = (case s of None \<Rightarrow> str_bytes ''(null)'' | Some _ \<Rightarrow> chars s)"

lemma fmt_str_wf: "wf_str s \<Longrightarrow> fmt_str s = Inr (shown s)"
  by (auto simp: fmt_str_def shown_def chars_def wf_str_def split: option.splits)

lemma shown_simps [simp]:
  "shown (Some b) = chars (Some b)" "shown None = str_bytes ''(null)''"
  by (simp_all add: shown_def)

lemma sprintf_fits: "fmt_all items = Inr cs \<Longrightarrow> length cs < n \<Longrightarrow> sprintf n items = Inr cs"
  by (simp add: sprintf_def sprintf_into_def)

lemma sprintf_overflow: "fmt_all items = Inr cs \<Longrightarrow> n \<le> length cs \<Longrightarrow> sprintf n items = Inl Write_Out_Of_Bounds"
  by (simp add: sprintf_def sprintf_into_def)

text \<open>
  \<open>set_mtu\<close> runs exactly the command \<open>sudo <ip> link set mtu <mtu> dev <intf>\<close> with the decimal
  \<open>mtu\<close>, and returns the exit status of the command, for every \<open>mtu\<close> and every tool path and
  interface name of at most 980 characters together; when \<open>ip\<close> is not installed it does nothing
  and returns -1.
\<close>

theorem set_mtu_command:
  assumes "wf_str intf" and "which_path e ''ip'' = Inr ip" and "wf_str ip"
    and "length (shown ip) + length (shown intf) \<le> 980"
  shows "set_mtu e intf m = (if ip = None then Inr ([], - 1)
    else (let cmd = str_bytes ''sudo '' @ shown ip @ str_bytes '' link set mtu '' @ dec_chars m @
            str_bytes '' dev '' @ shown intf
          in Inr ([System cmd], system_ret e cmd)))"
proof -
  have "sprintf 1024 [Lit ''sudo '', Str ip, Lit '' link set mtu '', Dec m, Lit '' dev '', Str intf]
    = Inr (str_bytes ''sudo '' @ shown ip @ str_bytes '' link set mtu '' @ dec_chars m @
            str_bytes '' dev '' @ shown intf)"
    using assms(1,3,4) length_dec_chars [of m]
    by (intro sprintf_fits) (simp_all add: fmt_str_wf)
  then show ?thesis
    using assms(2) by (simp add: set_mtu_def with_tool_def system_cmd_def Let_def)
qed

theorem set_mtu_command_witness:
  "set_mtu demo_env demo_name 1500 = Inr ([System (str_bytes ''sudo /sbin/ip iptables link set mtu 1500 dev w'')], 0)"
proof -
  let ?ip = "Some (str_bytes ''/sbin/ip iptables'' @ [0])"
  have p: "which_path demo_env ''ip'' = Inr ?ip"
    by code_simp
  have c: "shown ?ip = str_bytes ''/sbin/ip iptables''"
    by code_simp
  have n: "shown demo_name = str_bytes ''w''"
    by code_simp
  have w: "wf_str ?ip" "length (shown ?ip) + length (shown demo_name) \<le> 980"
    unfolding c n by simp_all
  have d: "dec_chars 1500 = str_bytes ''1500''"
    by code_simp
  show ?thesis
    unfolding set_mtu_command [OF demo_name_simps(4) p w] c d n
    by (simp add: Let_def demo_env_def str_bytes_def)
qed

text \<open>A run of calls of \<open>trigger_scan_intf\<close>: the times and interfaces, and the result of each.\<close>

fun scan_calls ::
  "env \<Rightarrow> cstr \<Rightarrow> (int \<times> cstr) list \<Rightarrow> int \<Rightarrow> fault + (effect list \<times> c_int) list \<times> int" where
  "scan_calls e iw [] lc = Inr ([], lc)"
| "scan_calls e iw ((now, intf) # cs) lc =
     and_then (trigger_scan_intf e iw now intf lc) (\<lambda>(ev, r, lc).
     and_then (scan_calls e iw cs lc) (\<lambda>(rs, lc). Inr ((ev, r) # rs, lc)))"

lemma trigger_scan_first:
  "trigger_scan_intf e iw now intf 0 = Inr (ev, r, lc) \<Longrightarrow> lc = 0 \<and>
     (if intf = None then ev = [] \<and> r = - 1 else \<exists>cmd. ev = [System cmd] \<and> r = system_ret e cmd)"
  by (auto simp: trigger_scan_intf_def system_cmd_def and_then_eq_Inr Let_def split: if_splits)

text \<open>
  The rate limit of \<open>trigger_scan_intf\<close> never applies: the time of the last call is stored only
  when a time is stored already, so the static variable stays 0.  However close the calls of a
  run of the program are, each call with an interface starts a scan and none is refused with -2.
\<close>

theorem trigger_scan_unlimited:
  assumes "scan_calls e iw cs 0 = Inr (rs, lc)"
  shows "lc = 0 \<and> list_all2 (\<lambda>(now, intf) (ev, r).
    if intf = None then ev = [] \<and> r = - 1 else \<exists>cmd. ev = [System cmd] \<and> r = system_ret e cmd) cs rs"
  using assms
proof (induction cs arbitrary: rs)
  case Nil
  then show ?case by simp
next
  case (Cons c cs)
  obtain now intf where c: "c = (now, intf)" by (cases c)
  with Cons.prems obtain ev r l1 rs' where
      t: "trigger_scan_intf e iw now intf 0 = Inr (ev, r, l1)"
    and rs: "scan_calls e iw cs l1 = Inr (rs', lc)" "rs = (ev, r) # rs'"
    by (auto simp: and_then_eq_Inr)
  have "l1 = 0"
    using trigger_scan_first [OF t] by simp
  then show ?case
    using Cons.IH rs trigger_scan_first [OF t] c by auto
qed

theorem trigger_scan_unlimited_witness:
  "\<exists>rs. scan_calls demo_env (Some (str_bytes ''./iw'' @ [0])) [(5, demo_name), (5, demo_name)] 0 = Inr (rs, 0)
    \<and> length (concat (map fst rs)) = 2"
proof -
  let ?c = "str_bytes ''sudo ./iw dev w scan trigger ap-force 1> /dev/null 2> /dev/null''"
  have s: "scan_calls demo_env (Some (str_bytes ''./iw'' @ [0])) [(5, demo_name), (5, demo_name)] 0
      = Inr ([([System ?c], 0), ([System ?c], 0)], 0)"
    by code_simp
  show ?thesis
    using trigger_scan_unlimited [OF s] s by simp
qed

end
