(* ===== verification/Msg_Net.thy ===== *)
theory Msg_Net
  imports Relay Commands
begin

section \<open>Network settings: MTU, transmit queue, type of service\<close>

text \<open>
  \<open>messaging/msg_mtu.c\<close>, \<open>msg_txqueuelen.c\<close>, \<open>msg_tos.c\<close>.  The first two set a property of an interface
  of the access point, or of a station to which the access point sends the message on; the last
  composes \<open>iptables\<close> rules.  None of them is answered.
\<close>


subsection \<open>The service of \<open>msg_mtu\<close> and \<open>msg_txqueuelen\<close>\<close>

locale tool_service = relay_sender enc dec ok norm bytes send cnt
  for enc :: "allocator \<Rightarrow> 'a sta_query_scheme \<Rightarrow> fault + 'a sta_query_scheme \<times> u8 list"
    and dec ok norm bytes
    and send :: "env \<Rightarrow> cstr \<Rightarrow> c_int \<Rightarrow> c_int \<Rightarrow> cstr \<Rightarrow> cstr \<Rightarrow> c_int \<Rightarrow> c_int \<Rightarrow> 'a sta_query_scheme
        \<Rightarrow> fault + effect list \<times> c_int"
    and cnt +
  fixes process :: "env \<Rightarrow> u8 list \<Rightarrow> 'a sta_query_scheme \<Rightarrow> 'a sta_query_scheme
        \<Rightarrow> fault + effect list \<times> u8 list option"
    and apply_val :: "env \<Rightarrow> cstr \<Rightarrow> c_int \<Rightarrow> fault + effect list \<times> c_int"
  assumes process_eq: "process e input hm hs = and_then (dec input hm) (\<lambda>h.
     if sta_ip h \<noteq> None then
       and_then (send e (sta_ip h) (sta_port h) (m_id h) (intf_name h) None 0 (cnt h) hs)
         (\<lambda>(ev, _). Inr (ev, None))
     else and_then (apply_val e (intf_name h) (cnt h)) (\<lambda>(ev, _). Inr (ev, None)))"
begin

lemma applied:
  assumes "ok q" "allocates mal" "enc mal q = Inr (q', req)" "slen (sta_ip q) = 0"
  shows "process e (req @ r) hm hs
    = and_then (apply_val e (canon (intf_name q)) (cnt q)) (\<lambda>(ev, _). Inr (ev, None))"
proof -
  have "canon (sta_ip q) = None"
    using assms(4) by (simp add: canon_eq_None)
  then show ?thesis
    using roundtrip [OF assms(1-3), of r hm] by (simp add: process_eq norm_fields)
qed

lemma end_to_end:
  assumes e0: "copyable (mallocs e0) ETHANOL_VERSION" "copyable (mallocs e0) intf"
      "copyable (mallocs e0) staip" "allocates (mallocs e0)" "reaches e0 host port"
    and e1: "allocates (mallocs e1)" "copyable (mallocs e1) ETHANOL_VERSION"
      "copyable (mallocs e1) (canon intf)" "reaches e1 (canon staip) staport"
    and names: "0 < slen intf" "0 < slen staip" "slen intf + slen staip < 2 ^ 31 - 100"
    and "apply_val e2 (canon intf) v = Inr (ev, ret)"
  shows "\<exists>req req'. send e0 host port i intf staip staport v hs
        = Inr (session e0 host port req, i + 1)
      \<and> process e1 (req @ j1) hm1 hs1 = Inr (session e1 (canon staip) staport req', None)
      \<and> process e2 (req' @ j2) hm2 hs2 = Inr (ev, None)"
proof -
  obtain q q' req p p' req' where
    s0: "send e0 host port i intf staip staport v hs = Inr (session e0 host port req, i + 1)"
    and q: "ok q" "enc (mallocs e0) q = Inr (q', req)"
    and n: "\<forall>h. sta_ip (norm h q) = canon staip \<and> sta_port (norm h q) = staport
      \<and> intf_name (norm h q) = canon intf \<and> cnt (norm h q) = v"
    and s1: "send e1 (canon staip) staport (m_id q) (canon intf) None 0 v hs1
       = Inr (session e1 (canon staip) staport req', m_id q + 1)"
    and p: "ok p" "enc (mallocs e1) p = Inr (p', req')" "slen (sta_ip p) = 0"
      "canon (intf_name p) = canon intf" "cnt p = v"
    using sent_twice [OF e0 e1 names] by metis
  have "canon staip \<noteq> None"
    using names(2) by (simp add: canon_eq_None)
  then have "process e1 (req @ j1) hm1 hs1 = Inr (session e1 (canon staip) staport req', None)"
    using roundtrip [OF q(1) e0(4) q(2), of j1 hm1] s1 n by (auto simp: process_eq norm_fields(1))
  moreover have "process e2 (req' @ j2) hm2 hs2 = Inr (ev, None)"
    using applied [OF p(1) e1(1) p(2,3)] p(4,5) assms(13) by simp
  ultimately show ?thesis
    using s0 by blast
qed

end


subsection \<open>\<open>msg_mtu\<close>\<close>

record msg_mtu = sta_query +
  mtu_val :: c_int

definition size_msg_set_mtu :: "msg_mtu \<Rightarrow> fault + c_int" where
  "size_msg_set_mtu h = sum_sizes
     [sizeof 4, sizeof 4, strlen_ethanol (p_version h), sizeof 4,
      strlen_ethanol (sta_ip h), sizeof 4, strlen_ethanol (intf_name h), sizeof 4]"

definition encode_msg_set_mtu :: "allocator \<Rightarrow> msg_mtu \<Rightarrow> fault + msg_mtu \<times> u8 list" where
  "encode_msg_set_mtu mal = encode_frame mal size_msg_set_mtu (\<lambda>h.
     [encode_header (m_type h) (m_id h) (m_size h),
      encode_char (sta_ip h),
      encode_int (sta_port h),
      encode_char (intf_name h),
      encode_int (mtu_val h)])"

definition decode_msg_set_mtu :: "u8 list \<Rightarrow> msg_mtu \<Rightarrow> fault + msg_mtu" where
  "decode_msg_set_mtu = decode_frame
     [decode_header,
      into decode_char sta_ip_update,
      into decode_int sta_port_update,
      into decode_char intf_name_update,
      into decode_int mtu_val_update]"

definition send_msg_set_mtu ::
  "env \<Rightarrow> cstr \<Rightarrow> c_int \<Rightarrow> c_int \<Rightarrow> cstr \<Rightarrow> cstr \<Rightarrow> c_int \<Rightarrow> c_int \<Rightarrow> msg_mtu
   \<Rightarrow> fault + effect list \<times> c_int" where
  "send_msg_set_mtu e hostname portnum idc intf staip staport v hs = send_async e hostname portnum idc
       (\<lambda>i. run_prog
         [assign m_type_update MSG_SET_MTU,
          assign m_id_update i,
          copy_to e p_version_update ETHANOL_VERSION,
          copy_to e sta_ip_update staip,
          assign sta_port_update staport,
          copy_to e intf_name_update intf,
          assign mtu_val_update v,
          set_size size_msg_set_mtu] hs)
       (encode_msg_set_mtu (mallocs e))"

definition process_msg_set_mtu ::
  "env \<Rightarrow> u8 list \<Rightarrow> msg_mtu \<Rightarrow> msg_mtu \<Rightarrow> fault + effect list \<times> u8 list option" where
  "process_msg_set_mtu e input hm hs = and_then (decode_msg_set_mtu input hm) (\<lambda>h.
     if sta_ip h \<noteq> None then
       and_then (send_msg_set_mtu e (sta_ip h) (sta_port h) (m_id h) (intf_name h) None 0 (mtu_val h) hs)
         (\<lambda>(ev, _). Inr (ev, None))
     else and_then (set_mtu e (intf_name h) (mtu_val h)) (\<lambda>(ev, _). Inr (ev, None)))"

definition bytes_mtu :: "msg_mtu \<Rightarrow> nat" where
  "bytes_mtu h = slen (p_version h) + slen (sta_ip h) + slen (intf_name h) + 35"

definition ok_mtu :: "msg_mtu \<Rightarrow> bool" where
  "ok_mtu h \<longleftrightarrow> ok_header h \<and> ok_str (sta_ip h) \<and> ok_str (intf_name h)
     \<and> bytes_mtu h < 2 ^ 31"

definition norm_mtu :: "msg_mtu \<Rightarrow> msg_mtu \<Rightarrow> msg_mtu" where
  "norm_mtu h0 h = (norm_header (bytes_mtu h) h)\<lparr>sta_ip := canon (sta_ip h), intf_name := canon (intf_name h)\<rparr>"

interpretation mtu: msg_codec encode_msg_set_mtu decode_msg_set_mtu ok_mtu
  norm_mtu bytes_mtu m_type
  unfolding encode_msg_set_mtu_def [abs_def] decode_msg_set_mtu_def
  by (rule frame_codecI [where bss = "\<lambda>m. [ser_str (sta_ip m), le_bytes 4 (sta_port m), ser_str (intf_name m),
          le_bytes 4 (mtu_val m)]"])
    (simp_all add: codec ok_mtu_def ok_header_def bytes_mtu_def norm_mtu_def
      size_msg_set_mtu_def norm_header_def ac_simps encode_char_put length_ser_str)

interpretation mtu_svc: tool_service encode_msg_set_mtu decode_msg_set_mtu ok_mtu norm_mtu
  bytes_mtu send_msg_set_mtu mtu_val process_msg_set_mtu set_mtu
proof (unfold_locales, goal_cases)
  case (6 e intf staip staport v host port i hs)
  let ?q = "sta_request (mallocs e) MSG_SET_MTU i intf staip staport (hs\<lparr>mtu_val := v\<rparr>)
    (slen intf + slen staip + 40)"
  have "send_msg_set_mtu e host port i intf staip staport v hs
      = send_async e host port i (\<lambda>_. Inr ?q) (encode_msg_set_mtu (mallocs e))"
    unfolding send_msg_set_mtu_def
    by (rule send_async_built)
      (use 6 in \<open>simp add: sta_request_def set_size_ok size_msg_set_mtu_def ac_simps\<close>)
  then show ?case
    using 6
    by (intro exI [of _ ?q])
      (simp add: sta_request_def ok_mtu_def ok_header_def bytes_mtu_def)
qed (simp_all add: process_msg_set_mtu_def norm_mtu_def norm_header_def cong: if_cong)


subsection \<open>\<open>msg_txqueuelen\<close>\<close>

record msg_txqueuelen = sta_query +
  txqueuelen :: c_int

definition size_msg_set_txqueuelen :: "msg_txqueuelen \<Rightarrow> fault + c_int" where
  "size_msg_set_txqueuelen h = sum_sizes
     [sizeof 4, sizeof 4, strlen_ethanol (p_version h), sizeof 4,
      strlen_ethanol (sta_ip h), sizeof 4, strlen_ethanol (intf_name h), sizeof 4]"

definition encode_msg_set_txqueuelen :: "allocator \<Rightarrow> msg_txqueuelen \<Rightarrow> fault + msg_txqueuelen \<times> u8 list" where
  "encode_msg_set_txqueuelen mal = encode_frame mal size_msg_set_txqueuelen (\<lambda>h.
     [encode_header (m_type h) (m_id h) (m_size h),
      encode_char (sta_ip h),
      encode_int (sta_port h),
      encode_char (intf_name h),
      encode_int (txqueuelen h)])"

definition decode_msg_set_txqueuelen :: "u8 list \<Rightarrow> msg_txqueuelen \<Rightarrow> fault + msg_txqueuelen" where
  "decode_msg_set_txqueuelen = decode_frame
     [decode_header,
      into decode_char sta_ip_update,
      into decode_int sta_port_update,
      into decode_char intf_name_update,
      into decode_int txqueuelen_update]"

definition send_msg_set_txqueuelen ::
  "env \<Rightarrow> cstr \<Rightarrow> c_int \<Rightarrow> c_int \<Rightarrow> cstr \<Rightarrow> cstr \<Rightarrow> c_int \<Rightarrow> c_int \<Rightarrow> msg_txqueuelen
   \<Rightarrow> fault + effect list \<times> c_int" where
  "send_msg_set_txqueuelen e hostname portnum idc intf staip staport v hs = send_async e hostname portnum idc
       (\<lambda>i. run_prog
         [assign m_type_update MSG_SET_TXQUEUELEN,
          assign m_id_update i,
          copy_to e p_version_update ETHANOL_VERSION,
          copy_to e sta_ip_update staip,
          assign sta_port_update staport,
          copy_to e intf_name_update intf,
          assign txqueuelen_update v,
          set_size size_msg_set_txqueuelen] hs)
       (encode_msg_set_txqueuelen (mallocs e))"

definition process_msg_set_txqueuelen ::
  "env \<Rightarrow> u8 list \<Rightarrow> msg_txqueuelen \<Rightarrow> msg_txqueuelen \<Rightarrow> fault + effect list \<times> u8 list option" where
  "process_msg_set_txqueuelen e input hm hs = and_then (decode_msg_set_txqueuelen input hm) (\<lambda>h.
     if sta_ip h \<noteq> None then
       and_then (send_msg_set_txqueuelen e (sta_ip h) (sta_port h) (m_id h) (intf_name h) None 0 (txqueuelen h) hs)
         (\<lambda>(ev, _). Inr (ev, None))
     else and_then (set_txqueuelen e (intf_name h) (txqueuelen h)) (\<lambda>(ev, _). Inr (ev, None)))"

definition bytes_txqueuelen :: "msg_txqueuelen \<Rightarrow> nat" where
  "bytes_txqueuelen h = slen (p_version h) + slen (sta_ip h) + slen (intf_name h) + 35"

definition ok_txqueuelen :: "msg_txqueuelen \<Rightarrow> bool" where
  "ok_txqueuelen h \<longleftrightarrow> ok_header h \<and> ok_str (sta_ip h) \<and> ok_str (intf_name h)
     \<and> bytes_txqueuelen h < 2 ^ 31"

definition norm_txqueuelen :: "msg_txqueuelen \<Rightarrow> msg_txqueuelen \<Rightarrow> msg_txqueuelen" where
  "norm_txqueuelen h0 h = (norm_header (bytes_txqueuelen h) h)\<lparr>sta_ip := canon (sta_ip h), intf_name := canon (intf_name h)\<rparr>"

interpretation txqueuelen: msg_codec encode_msg_set_txqueuelen decode_msg_set_txqueuelen ok_txqueuelen
  norm_txqueuelen bytes_txqueuelen m_type
  unfolding encode_msg_set_txqueuelen_def [abs_def] decode_msg_set_txqueuelen_def
  by (rule frame_codecI [where bss = "\<lambda>m. [ser_str (sta_ip m), le_bytes 4 (sta_port m), ser_str (intf_name m),
          le_bytes 4 (txqueuelen m)]"])
    (simp_all add: codec ok_txqueuelen_def ok_header_def bytes_txqueuelen_def norm_txqueuelen_def
      size_msg_set_txqueuelen_def norm_header_def ac_simps encode_char_put length_ser_str)

interpretation txqueuelen_svc: tool_service encode_msg_set_txqueuelen decode_msg_set_txqueuelen ok_txqueuelen norm_txqueuelen
  bytes_txqueuelen send_msg_set_txqueuelen txqueuelen process_msg_set_txqueuelen set_txqueuelen
proof (unfold_locales, goal_cases)
  case (6 e intf staip staport v host port i hs)
  let ?q = "sta_request (mallocs e) MSG_SET_TXQUEUELEN i intf staip staport (hs\<lparr>txqueuelen := v\<rparr>)
    (slen intf + slen staip + 40)"
  have "send_msg_set_txqueuelen e host port i intf staip staport v hs
      = send_async e host port i (\<lambda>_. Inr ?q) (encode_msg_set_txqueuelen (mallocs e))"
    unfolding send_msg_set_txqueuelen_def
    by (rule send_async_built)
      (use 6 in \<open>simp add: sta_request_def set_size_ok size_msg_set_txqueuelen_def ac_simps\<close>)
  then show ?case
    using 6
    by (intro exI [of _ ?q])
      (simp add: sta_request_def ok_txqueuelen_def ok_header_def bytes_txqueuelen_def)
qed (simp_all add: process_msg_set_txqueuelen_def norm_txqueuelen_def norm_header_def cong: if_cong)


subsection \<open>\<open>msg_tos\<close>\<close>

text \<open>The message that clears all rules is a header only.\<close>

type_synonym msg_tos_cleanall = msg_header

definition size_msg_tos_cleanall :: "msg_header \<Rightarrow> fault + c_int" where
  "size_msg_tos_cleanall h = sum_sizes
     [sizeof 4, sizeof 4, strlen_ethanol (p_version h), sizeof 4]"

definition encode_msg_tos_cleanall :: "allocator \<Rightarrow> msg_header \<Rightarrow> fault + msg_header \<times> u8 list" where
  "encode_msg_tos_cleanall mal = encode_frame mal size_msg_tos_cleanall (\<lambda>h.
     [encode_header (m_type h) (m_id h) (m_size h)])"

definition decode_msg_tos_cleanall :: "u8 list \<Rightarrow> msg_header \<Rightarrow> fault + msg_header" where
  "decode_msg_tos_cleanall = decode_frame
     [decode_header]"

definition process_msg_tos_cleanall ::
  "env \<Rightarrow> u8 list \<Rightarrow> msg_header \<Rightarrow> fault + effect list \<times> u8 list option" where
  "process_msg_tos_cleanall e input hm =
     and_then (decode_msg_tos_cleanall input hm) (\<lambda>h.
     and_then (which_path e ''iptables'') (\<lambda>iptables.
     and_then (sprintf 1024 [Lit ''sudo '', Str iptables, Lit '' -t mangle -F'']) (\<lambda>buffer.
     and_then (system_cmd e buffer) (\<lambda>(ev, _). Inr (ev, None)))))"

definition send_msg_tos_cleanall ::
  "env \<Rightarrow> cstr \<Rightarrow> c_int \<Rightarrow> c_int \<Rightarrow> msg_header \<Rightarrow> fault + effect list \<times> c_int" where
  "send_msg_tos_cleanall e hostname portnum idc hs = send_async e hostname portnum idc
       (\<lambda>i. run_prog
         [assign m_type_update MSG_TOS_CLEANALL,
          assign m_id_update i,
          copy_to e p_version_update ETHANOL_VERSION] hs)
       (encode_msg_tos_cleanall (mallocs e))"

record msg_tos = intf_msg +
  rule_id :: c_int
  proto :: cstr
  sip :: cstr
  sport :: cstr
  dip :: cstr
  dport :: cstr
  wmm_class :: c_int

definition size_msg_send_tos :: "msg_tos \<Rightarrow> fault + c_int" where
  "size_msg_send_tos h = sum_sizes
     [sizeof 4, sizeof 4, strlen_ethanol (p_version h), sizeof 4, sizeof 4,
      strlen_ethanol (intf_name h), strlen_ethanol (proto h), strlen_ethanol (sip h),
      strlen_ethanol (sport h), strlen_ethanol (dip h), strlen_ethanol (dport h),
      sizeof 4]"

definition encode_msg_send_tos :: "allocator \<Rightarrow> msg_tos \<Rightarrow> fault + msg_tos \<times> u8 list" where
  "encode_msg_send_tos mal = encode_frame mal size_msg_send_tos (\<lambda>h.
     [encode_header (m_type h) (m_id h) (m_size h),
      encode_int (rule_id h),
      encode_char (intf_name h),
      encode_char (proto h),
      encode_char (sip h),
      encode_char (sport h),
      encode_char (dip h),
      encode_char (dport h),
      encode_int (wmm_class h)])"

definition decode_msg_send_tos :: "u8 list \<Rightarrow> msg_tos \<Rightarrow> fault + msg_tos" where
  "decode_msg_send_tos = decode_frame
     [decode_header,
      into decode_int rule_id_update,
      into decode_char intf_name_update,
      into decode_char proto_update,
      into decode_char sip_update,
      into decode_char sport_update,
      into decode_char dip_update,
      into decode_char dport_update,
      into decode_int wmm_class_update]"

text \<open>The value of \<open>--set-tos\<close> for a priority.\<close>

definition tos_value :: "c_int \<Rightarrow> c_int" where
  "tos_value c = (if c = 0 \<or> c = 3 then 96 else if c = 1 \<or> c = 2 then 32
     else if c = 4 \<or> c = 5 then 128 else if c = 6 \<or> c = 7 then 224 else 96)"

text \<open>One optional part of the match: \<open>sprintf\<close> into 1024 bytes, \<open>strcat\<close> to an array of 512.\<close>

definition tos_part :: "string \<Rightarrow> cstr \<Rightarrow> u8 list \<Rightarrow> fault + u8 list" where
  "tos_part opt s m = (if s \<noteq> None then
       and_then (sprintf 1024 [Lit opt, Str s]) (\<lambda>buffer.
         if length (m @ buffer) + 1 \<le> 512 then Inr (m @ buffer) else Inl Write_Out_Of_Bounds)
     else Inr m)"

definition issue_command_tos ::
  "env \<Rightarrow> cstr \<Rightarrow> cstr \<Rightarrow> msg_tos \<Rightarrow> fault + effect list \<times> c_int" where
  "issue_command_tos e action iptables h =
     and_then (run_prog [tos_part ''-d '' (dip h), tos_part ''--dport '' (dport h),
       tos_part ''-s '' (sip h), tos_part ''--sport '' (sport h)] []) (\<lambda>mtch.
     and_then (sprintf 1024 [Lit ''sudo '', Str iptables, Lit '' -t mangle '', Str action, Lit '' '',
        Str (intf_name h), Lit '' -p '', Str (proto h), Lit '' '', Str (Some (mtch @ [0])),
        Lit '' -j TOS --set-tos '', Dec (tos_value (wmm_class h))])
       (system_cmd e))"

definition process_msg_tos_add ::
  "env \<Rightarrow> u8 list \<Rightarrow> msg_tos \<Rightarrow> fault + effect list \<times> u8 list option" where
  "process_msg_tos_add e input hm =
     and_then (decode_msg_send_tos input hm) (\<lambda>h.
     and_then (which_path e ''iptables'') (\<lambda>iptables.
       if intf_name h \<noteq> None \<and> proto h \<noteq> None then
         and_then (issue_command_tos e (Some (str_bytes ''-A OUTPUT -o'' @ [0])) iptables h) (\<lambda>(ev1, _).
         and_then (issue_command_tos e (Some (str_bytes ''-A PREROUTING -i'' @ [0])) iptables h) (\<lambda>(ev2, _).
           Inr (ev1 @ ev2, None)))
       else Inr ([], None)))"

text \<open>
  The action of a replacement is composed in 50 bytes, which is enough for every \<open>int\<close>: 22
  characters around a number of at most 11.
\<close>

definition process_msg_tos_replace ::
  "env \<Rightarrow> u8 list \<Rightarrow> msg_tos \<Rightarrow> fault + effect list \<times> u8 list option" where
  "process_msg_tos_replace e input hm =
     and_then (decode_msg_send_tos input hm) (\<lambda>h.
     and_then (which_path e ''iptables'') (\<lambda>iptables.
       if intf_name h \<noteq> None \<and> proto h \<noteq> None then
         and_then (sprintf 50 [Lit ''-R OUTPUT '', Dec (rule_id h), Lit '' -o'']) (\<lambda>rule.
         and_then (issue_command_tos e (Some (rule @ [0])) iptables h) (\<lambda>(ev1, _).
         and_then (sprintf 50 [Lit ''-R PREROUTING '', Dec (rule_id h), Lit '' -i'']) (\<lambda>rule.
         and_then (issue_command_tos e (Some (rule @ [0])) iptables h) (\<lambda>(ev2, _).
           Inr (ev1 @ ev2, None)))))
       else Inr ([], None)))"

definition sent_tos ::
  "env \<Rightarrow> cstr \<Rightarrow> c_int \<Rightarrow> c_int \<Rightarrow> bool \<Rightarrow> c_int \<Rightarrow> cstr \<Rightarrow> cstr \<Rightarrow> cstr \<Rightarrow> cstr \<Rightarrow> cstr \<Rightarrow> cstr \<Rightarrow> c_int
   \<Rightarrow> msg_tos \<Rightarrow> fault + effect list \<times> c_int" where
  "sent_tos e hostname portnum idc adding rule intf prot sip_arg sport_arg dip_arg dport_arg cls hs =
     send_async e hostname portnum idc
       (\<lambda>i. run_prog
         [assign m_type_update (if adding then MSG_TOS_ADD else MSG_TOS_REPLACE),
          assign m_id_update i,
          copy_to e p_version_update ETHANOL_VERSION,
          assign rule_id_update rule,
          copy_to e intf_name_update intf,
          copy_to e proto_update prot,
          copy_to e sip_update sip_arg,
          copy_to e sport_update sport_arg,
          copy_to e dip_update dip_arg,
          copy_to e dport_update dport_arg,
          assign wmm_class_update cls] hs)
       (encode_msg_send_tos (mallocs e))"

definition send_msg_tos_add ::
  "env \<Rightarrow> cstr \<Rightarrow> c_int \<Rightarrow> c_int \<Rightarrow> cstr \<Rightarrow> cstr \<Rightarrow> cstr \<Rightarrow> cstr \<Rightarrow> cstr \<Rightarrow> cstr \<Rightarrow> c_int
   \<Rightarrow> msg_tos \<Rightarrow> fault + effect list \<times> c_int" where
  "send_msg_tos_add e hostname portnum idc intf prot sip_arg sport_arg dip_arg dport_arg cls hs =
     sent_tos e hostname portnum idc True (- 1) intf prot sip_arg sport_arg dip_arg dport_arg cls hs"

definition send_msg_tos_replace ::
  "env \<Rightarrow> cstr \<Rightarrow> c_int \<Rightarrow> c_int \<Rightarrow> c_int \<Rightarrow> cstr \<Rightarrow> cstr \<Rightarrow> cstr \<Rightarrow> cstr \<Rightarrow> cstr \<Rightarrow> cstr \<Rightarrow> c_int
   \<Rightarrow> msg_tos \<Rightarrow> fault + effect list \<times> c_int" where
  "send_msg_tos_replace e hostname portnum idc rule intf prot sip_arg sport_arg dip_arg dport_arg cls hs =
     sent_tos e hostname portnum idc False rule intf prot sip_arg sport_arg dip_arg dport_arg cls hs"

definition bytes_tosclean :: "msg_header \<Rightarrow> nat" where
  "bytes_tosclean h = slen (p_version h) + 17"

definition ok_tosclean :: "msg_header \<Rightarrow> bool" where
  "ok_tosclean h \<longleftrightarrow> ok_header h
     \<and> bytes_tosclean h < 2 ^ 31"

definition norm_tosclean :: "msg_header \<Rightarrow> msg_header \<Rightarrow> msg_header" where
  "norm_tosclean h0 h = norm_header (bytes_tosclean h) h"

interpretation tosclean: msg_codec encode_msg_tos_cleanall decode_msg_tos_cleanall ok_tosclean
  norm_tosclean bytes_tosclean m_type
  unfolding encode_msg_tos_cleanall_def [abs_def] decode_msg_tos_cleanall_def
  by (rule frame_codecI [where bss = "\<lambda>m. []"])
    (simp_all add: codec ok_tosclean_def ok_header_def bytes_tosclean_def norm_tosclean_def
      size_msg_tos_cleanall_def norm_header_def ac_simps)

definition bytes_tos :: "msg_tos \<Rightarrow> nat" where
  "bytes_tos h = slen (p_version h) + slen (intf_name h) + slen (proto h) + slen (sip h) + slen (sport h) + slen (dip h) + slen (dport h) + 55"

definition ok_tos :: "msg_tos \<Rightarrow> bool" where
  "ok_tos h \<longleftrightarrow> ok_header h \<and> ok_str (intf_name h) \<and> ok_str (proto h) \<and> ok_str (sip h) \<and> ok_str (sport h) \<and> ok_str (dip h) \<and> ok_str (dport h)
     \<and> bytes_tos h < 2 ^ 31"

definition norm_tos :: "msg_tos \<Rightarrow> msg_tos \<Rightarrow> msg_tos" where
  "norm_tos h0 h = (norm_header (bytes_tos h) h)\<lparr>intf_name := canon (intf_name h), proto := canon (proto h), sip := canon (sip h), sport := canon (sport h), dip := canon (dip h), dport := canon (dport h)\<rparr>"

interpretation tos: msg_codec encode_msg_send_tos decode_msg_send_tos ok_tos
  norm_tos bytes_tos m_type
  unfolding encode_msg_send_tos_def [abs_def] decode_msg_send_tos_def
  by (rule frame_codecI [where bss = "\<lambda>m. [le_bytes 4 (rule_id m), ser_str (intf_name m), ser_str (proto m),
          ser_str (sip m), ser_str (sport m), ser_str (dip m), ser_str (dport m),
          le_bytes 4 (wmm_class m)]"])
    (simp_all add: codec ok_tos_def ok_header_def bytes_tos_def norm_tos_def
      size_msg_send_tos_def norm_header_def ac_simps encode_char_put length_ser_str)

subsection \<open>Rules\<close>

text \<open>The match and the command of a rule, without the bounds of the arrays.\<close>

definition tos_opt :: "string \<Rightarrow> cstr \<Rightarrow> u8 list" where
  "tos_opt opt s = (if s = None then [] else str_bytes opt @ chars s)"

definition tos_match :: "msg_tos \<Rightarrow> u8 list" where
  "tos_match h = tos_opt ''-d '' (dip h) @ tos_opt ''--dport '' (dport h) @ tos_opt ''-s '' (sip h) @
     tos_opt ''--sport '' (sport h)"

definition tos_rule :: "cstr \<Rightarrow> u8 list \<Rightarrow> msg_tos \<Rightarrow> u8 list" where
  "tos_rule iptables action h = str_bytes ''sudo '' @ shown iptables @ str_bytes '' -t mangle '' @ action @
     str_bytes '' '' @ shown (intf_name h) @ str_bytes '' -p '' @ shown (proto h) @ str_bytes '' '' @
     tos_match h @ str_bytes '' -j TOS --set-tos '' @ dec_chars (tos_value (wmm_class h))"

text \<open>A structure whose strings are terminated, as the decoder leaves it.\<close>

definition wf_tos :: "msg_tos \<Rightarrow> bool" where
  "wf_tos h \<longleftrightarrow> wf_str (intf_name h) \<and> wf_str (proto h) \<and> wf_str (sip h) \<and> wf_str (sport h)
     \<and> wf_str (dip h) \<and> wf_str (dport h)"

lemma tos_part_ok:
  assumes "wf_str s" "length (m @ tos_opt opt s) < 512"
  shows "tos_part opt s m = Inr (m @ tos_opt opt s)"
proof (cases s)
  case None
  then show ?thesis by (simp add: tos_part_def tos_opt_def)
next
  case (Some b)
  then have "sprintf 1024 [Lit opt, Str s] = Inr (str_bytes opt @ chars s)"
    using assms by (intro sprintf_fits) (simp_all add: fmt_str_wf tos_opt_def)
  then show ?thesis
    using assms Some by (simp add: tos_part_def tos_opt_def)
qed

lemma option_names_no_zero:
  "0 \<notin> set (str_bytes ''-d '')" "0 \<notin> set (str_bytes ''--dport '')" "0 \<notin> set (str_bytes ''-s '')"
  "0 \<notin> set (str_bytes ''--sport '')" "0 \<notin> set (str_bytes ''-A OUTPUT -o'')"
  "0 \<notin> set (str_bytes ''-A PREROUTING -i'')"
  by code_simp+

lemma tos_match_no_zero: "0 \<notin> set (tos_match h)"
  using option_names_no_zero chars_no_zero by (auto simp: tos_match_def tos_opt_def)

lemma tos_match_prog:
  assumes "wf_tos h" "length (tos_match h) < 512"
  shows "run_prog [tos_part ''-d '' (dip h), tos_part ''--dport '' (dport h),
       tos_part ''-s '' (sip h), tos_part ''--sport '' (sport h)] [] = Inr (tos_match h)"
  using assms by (simp add: wf_tos_def tos_match_def tos_part_ok)

lemma issue_command_ok:
  assumes "wf_tos h" "wf_str iptables" "0 \<notin> set action"
    and "length (tos_match h) < 512" "length (tos_rule iptables action h) < 1024"
  shows "issue_command_tos e (Some (action @ [0])) iptables h
    = Inr ([System (tos_rule iptables action h)], system_ret e (tos_rule iptables action h))"
proof -
  have "sprintf 1024 [Lit ''sudo '', Str iptables, Lit '' -t mangle '', Str (Some (action @ [0])), Lit '' '',
        Str (intf_name h), Lit '' -p '', Str (proto h), Lit '' '', Str (Some (tos_match h @ [0])),
        Lit '' -j TOS --set-tos '', Dec (tos_value (wmm_class h))] = Inr (tos_rule iptables action h)"
    using assms tos_match_no_zero [of h]
    by (intro sprintf_fits) (simp_all add: fmt_str_wf wf_tos_def tos_rule_def)
  then show ?thesis
    using tos_match_prog [OF assms(1,4)] by (simp add: issue_command_tos_def system_cmd_def)
qed

lemma norm_tos_fields:
  "intf_name (norm_tos h0 q) = canon (intf_name q)" "proto (norm_tos h0 q) = canon (proto q)"
  "sip (norm_tos h0 q) = canon (sip q)" "sport (norm_tos h0 q) = canon (sport q)"
  "dip (norm_tos h0 q) = canon (dip q)" "dport (norm_tos h0 q) = canon (dport q)"
  "wmm_class (norm_tos h0 q) = wmm_class q" "rule_id (norm_tos h0 q) = rule_id q"
  by (simp_all add: norm_tos_def norm_header_def)

lemma wf_norm_tos: "wf_tos (norm_tos h0 q)"
  by (simp add: wf_tos_def norm_tos_fields)


subsection \<open>Properties\<close>

text \<open>
  Setting the MTU of a station from the controller: the access point relays the message, and the
  station runs \<open>ip link set mtu\<close> with the value and the interface that the controller named.  No
  other command is run and nobody answers.
\<close>

theorem mtu_end_to_end:
  assumes "copyable (mallocs e0) ETHANOL_VERSION" "copyable (mallocs e0) intf"
      "copyable (mallocs e0) staip" "allocates (mallocs e0)" "reaches e0 host port"
    and "allocates (mallocs e1)" "copyable (mallocs e1) ETHANOL_VERSION"
      "copyable (mallocs e1) (canon intf)" "reaches e1 (canon staip) staport"
    and "0 < slen intf" "0 < slen staip" "slen intf + slen staip < 2 ^ 31 - 100"
    and ip: "which_path e2 ''ip'' = Inr (Some ip)" "wf_str (Some ip)"
      "slen (Some ip) + slen intf \<le> 980"
  shows "\<exists>req req'. send_msg_set_mtu e0 host port i intf staip staport v hs
        = Inr (session e0 host port req, i + 1)
      \<and> process_msg_set_mtu e1 (req @ j1) hm1 hs1 = Inr (session e1 (canon staip) staport req', None)
      \<and> process_msg_set_mtu e2 (req' @ j2) hm2 hs2
        = Inr ([System (str_bytes ''sudo '' @ chars (Some ip) @ str_bytes '' link set mtu '' @ dec_chars v @
                str_bytes '' dev '' @ chars intf)], None)"
proof -
  obtain c where c: "canon intf = Some c" "chars (Some c) = chars intf" "slen (Some c) = slen intf"
    using canon_nonempty [OF assms(10)] by metis
  let ?cmd = "str_bytes ''sudo '' @ chars (Some ip) @ str_bytes '' link set mtu '' @ dec_chars v @
                str_bytes '' dev '' @ chars intf"
  have "length (shown (Some ip)) + length (shown (canon intf)) \<le> 980"
    using ip(3) by (simp add: c slen_def)
  from set_mtu_command [OF wf_str_canon ip(1,2) this, of v]
  have "set_mtu e2 (canon intf) v = Inr ([System ?cmd], system_ret e2 ?cmd)"
    by (simp add: Let_def c)
  from mtu_svc.end_to_end [OF assms(1-12) this] show ?thesis .
qed

definition demo_mtu :: msg_mtu where
  "demo_mtu = \<lparr>m_type = 0, m_id = 0, p_version = None, m_size = 0, intf_name = None, sta_ip = None,
     sta_port = 0, mtu_val = 0\<rparr>"

theorem mtu_end_to_end_witness:
  "\<exists>req req'. send_msg_set_mtu demo_env demo_name 22222 1 demo_name demo_name 22223 1400 demo_mtu
        = Inr (session demo_env demo_name 22222 req, 2)
      \<and> process_msg_set_mtu demo_env (req @ []) demo_mtu demo_mtu
        = Inr (session demo_env demo_name 22223 req', None)
      \<and> process_msg_set_mtu demo_env (req' @ []) demo_mtu demo_mtu
        = Inr ([System (str_bytes ''sudo /sbin/ip iptables link set mtu 1400 dev w'')], None)"
proof -
  let ?ip = "str_bytes ''/sbin/ip iptables'' @ [0]"
  have p: "which_path demo_env ''ip'' = Inr (Some ?ip)"
    by code_simp
  have c: "chars (Some ?ip) = str_bytes ''/sbin/ip iptables''"
    by code_simp
  have w: "wf_str (Some ?ip)" "slen (Some ?ip) + slen demo_name \<le> 980"
    by (simp_all add: slen_def c)
  have d: "dec_chars 1400 = str_bytes ''1400''" "[0x77] = str_bytes ''w''"
    by code_simp+
  have v: "copyable (mallocs demo_env) ETHANOL_VERSION" "copyable (mallocs demo_env) demo_name"
    by (simp_all add: copyable_demo_env)
  have cmd: "str_bytes ''sudo '' @ chars (Some ?ip) @ str_bytes '' link set mtu '' @ dec_chars 1400 @
      str_bytes '' dev '' @ chars demo_name = str_bytes ''sudo /sbin/ip iptables link set mtu 1400 dev w''"
    unfolding c d demo_name_simps by (simp add: str_bytes_def)
  have "\<exists>req req'. send_msg_set_mtu demo_env demo_name 22222 1 demo_name demo_name 22223 1400 demo_mtu
        = Inr (session demo_env demo_name 22222 req, 1 + 1)
      \<and> process_msg_set_mtu demo_env (req @ []) demo_mtu demo_mtu
        = Inr (session demo_env (canon demo_name) 22223 req', None)
      \<and> process_msg_set_mtu demo_env (req' @ []) demo_mtu demo_mtu
        = Inr ([System (str_bytes ''sudo '' @ chars (Some ?ip) @ str_bytes '' link set mtu '' @ dec_chars 1400 @
            str_bytes '' dev '' @ chars demo_name)], None)"
    by (rule mtu_end_to_end)
      (use v p w in \<open>simp_all add: allocates_demo_env reaches_demo_env\<close>)
  then show ?thesis
    unfolding cmd by simp
qed

text \<open>
  What a TOS message makes the agent run.  The options of the match follow each other without a blank, so that with
  two of them the value of the first and the name of the second are one word.
\<close>

theorem tos_commands:
  assumes "ok_tos q" "allocates mal" "encode_msg_send_tos mal q = Inr (q', req)"
    and "0 < slen (intf_name q)" "0 < slen (proto q)"
    and "which_path e ''iptables'' = Inr ipt" "wf_str ipt"
    and "length (tos_match (norm_tos hm q)) < 512"
    and "length (tos_rule ipt (str_bytes ''-A PREROUTING -i'') (norm_tos hm q)) < 1024"
  shows "process_msg_tos_add e (req @ r) hm
    = Inr ([System (tos_rule ipt (str_bytes ''-A OUTPUT -o'') (norm_tos hm q)),
            System (tos_rule ipt (str_bytes ''-A PREROUTING -i'') (norm_tos hm q))], None)"
proof -
  have nn: "intf_name (norm_tos hm q) \<noteq> None" "proto (norm_tos hm q) \<noteq> None"
    using assms(4,5) canon_eq_None [of "intf_name q"] canon_eq_None [of "proto q"]
    by (simp_all add: norm_tos_fields del: not_None_eq)
  have l: "length (tos_rule ipt (str_bytes ''-A OUTPUT -o'') (norm_tos hm q)) < 1024"
    using assms(9) by (simp add: tos_rule_def)
  show ?thesis
    using tos.roundtrip [OF assms(1-3), of r hm] assms(6) nn
      issue_command_ok [OF wf_norm_tos assms(7) option_names_no_zero(5) assms(8) l]
      issue_command_ok [OF wf_norm_tos assms(7) option_names_no_zero(6) assms(8,9)]
    by (simp add: process_msg_tos_add_def)
qed









definition demo_tos :: msg_tos where
  "demo_tos = \<lparr>m_type = MSG_TOS_ADD, m_id = 1, p_version = ETHANOL_VERSION, m_size = 0, intf_name = demo_name,
     rule_id = - 1, proto = Some (str_bytes ''udp'' @ [0]), sip = None, sport = None,
     dip = Some (str_bytes ''10.0.0.1'' @ [0]), dport = Some (str_bytes ''80'' @ [0]), wmm_class = 5\<rparr>"

lemma demo_tos_strings:
  "slen (intf_name demo_tos) = 1" "slen (proto demo_tos) = 3" "slen (sip demo_tos) = 0"
  "slen (sport demo_tos) = 0" "slen (dip demo_tos) = 8" "slen (dport demo_tos) = 2"
  "wf_str (intf_name demo_tos)" "wf_str (proto demo_tos)" "wf_str (sip demo_tos)"
  "wf_str (sport demo_tos)" "wf_str (dip demo_tos)" "wf_str (dport demo_tos)"
  by code_simp+

lemma ok_demo_tos: "ok_tos demo_tos"
proof -
  have "p_version demo_tos = ETHANOL_VERSION"
    by (simp add: demo_tos_def)
  then show ?thesis
    using demo_tos_strings by (simp add: ok_tos_def ok_header_def ok_str_def bytes_tos_def)
qed

theorem tos_commands_witness:
  "\<exists>q' req. encode_msg_send_tos demo_alloc demo_tos = Inr (q', req) \<and>
     process_msg_tos_add demo_env (req @ []) demo_tos = Inr
      ([System (str_bytes ''sudo /sbin/ip iptables -t mangle -A OUTPUT -o w -p udp -d 10.0.0.1--dport 80 -j TOS --set-tos 128''),
        System (str_bytes ''sudo /sbin/ip iptables -t mangle -A PREROUTING -i w -p udp -d 10.0.0.1--dport 80 -j TOS --set-tos 128'')],
       None)"
proof -
  let ?ip = "Some (str_bytes ''/sbin/ip iptables'' @ [0])"
  have p: "which_path demo_env ''iptables'' = Inr ?ip"
    by code_simp
  have ok: "ok_tos demo_tos" "0 < slen (intf_name demo_tos)" "0 < slen (proto demo_tos)" "wf_str ?ip"
    by (simp_all add: ok_demo_tos demo_tos_strings)
  have r: "tos_rule ?ip (str_bytes ''-A OUTPUT -o'') (norm_tos demo_tos demo_tos)
      = str_bytes ''sudo /sbin/ip iptables -t mangle -A OUTPUT -o w -p udp -d 10.0.0.1--dport 80 -j TOS --set-tos 128''"
     "tos_rule ?ip (str_bytes ''-A PREROUTING -i'') (norm_tos demo_tos demo_tos)
      = str_bytes ''sudo /sbin/ip iptables -t mangle -A PREROUTING -i w -p udp -d 10.0.0.1--dport 80 -j TOS --set-tos 128''"
    by code_simp+
  have l: "length (tos_match (norm_tos demo_tos demo_tos)) < 512"
      "length (tos_rule ?ip (str_bytes ''-A PREROUTING -i'') (norm_tos demo_tos demo_tos)) < 1024"
    by (code_simp, simp add: r)
  obtain q' req where e: "encode_msg_send_tos demo_alloc demo_tos = Inr (q', req)"
    using tos.enc_no_fault [OF ok(1) allocates_demo_alloc] by blast
  show ?thesis
    using tos_commands [OF ok(1) allocates_demo_alloc e ok(2,3) p ok(4) l, of "[]"] e
    unfolding r by blast
qed



text \<open>
  The TOS values that the agent sets agree with the table of \<open>msg_tos.h\<close> (32 times the priority)
  for the priorities 1, 3, 4 and 7 only.
\<close>

theorem tos_value_table:
  "filter (\<lambda>c. tos_value c = 32 * c) [0, 1, 2, 3, 4, 5, 6, 7] = [1, 3, 4, 7]"
  by code_simp

text \<open>
  A rule message whose destination address, with its option, does not fit into the match array
  of 512 bytes makes the access point write out of bounds.
\<close>

theorem tos_match_overflow:
  assumes "ok_tos q" "allocates mal" "encode_msg_send_tos mal q = Inr (q', req)"
    and "0 < slen (intf_name q)" "0 < slen (proto q)" "508 < slen (dip q)"
    and "which_path e ''iptables'' = Inr ipt"
  shows "process_msg_tos_add e (req @ r) hm = Inl Write_Out_Of_Bounds"
proof -
  have nn: "intf_name (norm_tos hm q) \<noteq> None" "proto (norm_tos hm q) \<noteq> None"
    using assms(4,5) canon_eq_None [of "intf_name q"] canon_eq_None [of "proto q"]
    by (simp_all add: norm_tos_fields del: not_None_eq)
  obtain c where c: "canon (dip q) = Some c" "wf_str (Some c)" "slen (Some c) = slen (dip q)"
    using canon_nonempty [of "dip q"] assms(6) by (metis gr_implies_not_zero not_gr_zero)
  have "tos_part ''-d '' (dip (norm_tos hm q)) [] = Inl Write_Out_Of_Bounds"
    using assms(6) c
    by (auto simp: norm_tos_fields tos_part_def sprintf_def sprintf_into_def fmt_str_wf slen_def)
  then show ?thesis
    using tos.roundtrip [OF assms(1-3), of r hm] assms(7) nn
    by (simp add: process_msg_tos_add_def issue_command_tos_def)
qed

definition demo_long_dip :: msg_tos where
  "demo_long_dip = demo_tos\<lparr>dip := Some (replicate 509 0x31 @ [0])\<rparr>"

theorem tos_match_overflow_witness:
  "\<exists>q' req. encode_msg_send_tos demo_alloc demo_long_dip = Inr (q', req) \<and>
     process_msg_tos_add demo_env (req @ []) demo_tos = Inl Write_Out_Of_Bounds"
proof -
  have p: "which_path demo_env ''iptables'' = Inr (Some (str_bytes ''/sbin/ip iptables'' @ [0]))"
    by code_simp
  have d: "slen (dip demo_long_dip) = 509" "wf_str (dip demo_long_dip)"
    by (simp_all add: demo_long_dip_def slen_def)
  have f: "intf_name demo_long_dip = intf_name demo_tos" "proto demo_long_dip = proto demo_tos"
      "sip demo_long_dip = sip demo_tos" "sport demo_long_dip = sport demo_tos"
      "dport demo_long_dip = dport demo_tos" "p_version demo_long_dip = ETHANOL_VERSION"
    by (simp_all add: demo_long_dip_def demo_tos_def)
  then have q: "0 < slen (intf_name demo_long_dip)" "0 < slen (proto demo_long_dip)"
    by (simp_all add: demo_tos_strings)
  have ok: "ok_tos demo_long_dip"
    using d demo_tos_strings by (simp add: f ok_tos_def ok_header_def ok_str_def bytes_tos_def)
  obtain q' req where e: "encode_msg_send_tos demo_alloc demo_long_dip = Inr (q', req)"
    using tos.enc_no_fault [OF ok allocates_demo_alloc] by blast
  show ?thesis
    using tos_match_overflow [OF ok allocates_demo_alloc e q _ p, where r = "[]" and hm = demo_tos] d(1) e by auto
qed

end
