(* ===== verification/Arrays.thy ===== *)
theory Arrays
  imports Frame
begin

section \<open>Arrays in messages\<close>

text \<open>
  Some messages carry arrays, an \<open>int\<close> count followed by the elements.  The loops of the modules go
  over the elements by index; an array is the list of its elements, and an index outside it
  is a fault.  The decoders allocate an array with the count that they read and fill it in order.
\<close>

definition nth_elem :: "'a list \<Rightarrow> nat \<Rightarrow> fault + 'a" where
  "nth_elem xs i = (if i < length xs then Inr (xs ! i) else Inl Read_Out_Of_Bounds)"

text \<open>The indices of \<open>for (i = 0; i < n; i++)\<close> with an \<open>int\<close> \<open>n\<close>.\<close>

definition indices :: "c_int \<Rightarrow> nat list" where
  "indices n = [0..<nat (sint n)]"

definition encode_each :: "('a \<Rightarrow> wcur step) \<Rightarrow> c_int \<Rightarrow> 'a list \<Rightarrow> wcur step" where
  "encode_each enc n xs = run_prog (map (\<lambda>i w. and_then (nth_elem xs i) (\<lambda>x. enc x w)) (indices n))"

definition size_each :: "('a \<Rightarrow> fault + c_int) \<Rightarrow> c_int \<Rightarrow> 'a list \<Rightarrow> fault + c_int" where
  "size_each sz n xs = sum_sizes (map (\<lambda>i. and_then (nth_elem xs i) sz) (indices n))"

primrec decode_times :: "(rcur \<Rightarrow> fault + 'a \<times> rcur) \<Rightarrow> nat \<Rightarrow> rcur \<Rightarrow> fault + 'a list \<times> rcur" where
  "decode_times d 0 r = Inr ([], r)"
| "decode_times d (Suc k) r = and_then (d r) (\<lambda>(x, r). and_then (decode_times d k r) (\<lambda>(xs, r). Inr (x # xs, r)))"

definition decode_each :: "(rcur \<Rightarrow> fault + 'a \<times> rcur) \<Rightarrow> c_int \<Rightarrow> rcur \<Rightarrow> fault + 'a list \<times> rcur" where
  "decode_each d n = decode_times d (nat (sint n))"

text \<open>
  The same with a count of type \<open>unsigned int\<close>: the index, an \<open>int\<close>, is compared as an
  \<open>unsigned int\<close>.
\<close>

definition encode_eachu :: "('a \<Rightarrow> wcur step) \<Rightarrow> c_int \<Rightarrow> 'a list \<Rightarrow> wcur step" where
  "encode_eachu enc n xs = run_prog (map (\<lambda>i w. and_then (nth_elem xs i) (\<lambda>x. enc x w)) [0..<unat n])"

definition size_eachu :: "('a \<Rightarrow> fault + c_int) \<Rightarrow> c_int \<Rightarrow> 'a list \<Rightarrow> fault + c_int" where
  "size_eachu sz n xs = sum_sizes (map (\<lambda>i. and_then (nth_elem xs i) sz) [0..<unat n])"

definition decode_eachu :: "(rcur \<Rightarrow> fault + 'a \<times> rcur) \<Rightarrow> c_int \<Rightarrow> rcur \<Rightarrow> fault + 'a list \<times> rcur" where
  "decode_eachu d n = decode_times d (unat n)"


subsection \<open>Lemmas\<close>

text \<open>The count of an array is the number of its elements.\<close>

definition counted :: "c_int \<Rightarrow> 'a list \<Rightarrow> bool" where
  "counted n xs \<longleftrightarrow> sint n = int (length xs)"

lemma counted_word: "length xs < 2 ^ 31 \<Longrightarrow> counted (word_of_nat (length xs)) xs"
  by (simp add: counted_def sint_word_of_small)

lemma indices_counted: "counted n xs \<Longrightarrow> indices n = [0..<length xs]"
  by (simp add: indices_def counted_def)

lemma map_nth_elem: "map (\<lambda>i. g (nth_elem xs i)) [0..<length xs] = map (\<lambda>x. g (Inr x)) xs"
  by (rule nth_equalityI) (simp_all add: nth_elem_def)

lemma encode_each_map: "counted n xs \<Longrightarrow> encode_each enc n xs = run_prog (map enc xs)"
  using map_nth_elem [of "\<lambda>y w. and_then y (\<lambda>x. enc x w)" xs]
  by (simp add: encode_each_def indices_counted)

lemma run_prog_put_all: "run_prog (map put bss) = put (concat bss)"
  by (rule ext) (auto simp: run_prog_puts put_def split: prod.split)

lemma encode_each_put [codec]:
  "counted n xs \<Longrightarrow> (\<And>x. x \<in> set xs \<Longrightarrow> enc x = put (ser x)) \<Longrightarrow> encode_each enc n xs = put (concat (map ser xs))"
  using run_prog_put_all [of "map ser xs"] by (simp add: encode_each_map cong: map_cong)

lemma size_each_sum:
  assumes "counted n xs" "\<And>x. x \<in> set xs \<Longrightarrow> sz x = sizeof (k x)"
  shows "size_each sz n xs = sizeof (sum_list (map k xs))"
proof -
  have "size_each sz n xs = sum_sizes (map sz xs)"
    using map_nth_elem [of "\<lambda>y. and_then y sz" xs] assms(1)
    by (simp add: size_each_def indices_counted)
  also have "map sz xs = map (\<lambda>x. sizeof (k x)) xs"
    using assms(2) by simp
  also have "sum_sizes \<dots> = sizeof (sum_list (map k xs))"
    by (induction xs) simp_all
  finally show ?thesis .
qed

lemma decode_times_ser:
  assumes "\<And>x r. x \<in> set xs \<Longrightarrow> d (ser x @ r) = Inr (nrm x, r)"
  shows "decode_times d (length xs) (concat (map ser xs) @ r) = Inr (map nrm xs, r)"
  using assms by (induction xs) simp_all

lemma decode_each_ser [codec]:
  assumes "counted n xs" "\<And>x r. x \<in> set xs \<Longrightarrow> d (ser x @ r) = Inr (nrm x, r)"
  shows "decode_each d n (concat (map ser xs) @ r) = Inr (map nrm xs, r)"
  using decode_times_ser [OF assms(2)] assms(1) by (simp add: decode_each_def counted_def)

lemma length_concat_le: "(\<And>x. x \<in> set xs \<Longrightarrow> length (g x) \<le> k x) \<Longrightarrow> length (concat (map g xs)) \<le> sum_list (map k xs)"
  by (induction xs) (force simp: add_mono)+

lemma counted_num: "counted n xs \<Longrightarrow> n = word_of_nat (length xs)"
proof -
  have "of_int (sint n) = n" by simp
  then show "counted n xs \<Longrightarrow> n = word_of_nat (length xs)" by (simp add: counted_def)
qed

text \<open>An array that is not too long for an \<open>int\<close> is treated alike with both types of count.\<close>

lemma eachu_each:
  assumes "counted n xs"
  shows "encode_eachu enc n xs = encode_each enc n xs" "size_eachu sz n xs = size_each sz n xs"
    "decode_eachu d n = decode_each d n"
proof -
  have "unat n = nat (sint n)"
  proof -
    have n: "n = word_of_nat (length xs)"
      using assms by (rule counted_num)
    have "length xs < 2 ^ 31"
      using assms sint_lt [of n] by (simp add: counted_def)
    then have "unat (word_of_nat (length xs) :: c_int) = length xs"
      by (intro unat_word_of_small) simp
    then show ?thesis
      using assms unfolding n counted_def by simp
  qed
  then show "encode_eachu enc n xs = encode_each enc n xs" "size_eachu sz n xs = size_each sz n xs"
    "decode_eachu d n = decode_each d n"
    by (simp_all add: encode_eachu_def encode_each_def size_eachu_def size_each_def decode_eachu_def
        decode_each_def indices_def)
qed

text \<open>A negative count, or 0, decodes to an empty array; so does nothing else.\<close>

lemma decode_each_length: "decode_each d n r = Inr (xs, r') \<Longrightarrow> length xs = nat (sint n)"
proof -
  have "decode_times d k r = Inr (xs, r') \<Longrightarrow> length xs = k" for k xs
    by (induction k arbitrary: r xs) (auto simp: and_then_eq_Inr)
  then show "decode_each d n r = Inr (xs, r') \<Longrightarrow> length xs = nat (sint n)"
    by (simp add: decode_each_def)
qed


subsection \<open>Arrays that are announced but not there\<close>

text \<open>
  A step of a decoder faults only by reading behind the buffer, and otherwise moves the cursor by at
  least \<open>k\<close> bytes.
\<close>

definition eats :: "nat \<Rightarrow> (rcur \<times> 'h) step \<Rightarrow> bool" where
  "eats k p \<longleftrightarrow> (\<forall>r h. p (r, h) = Inl Read_Out_Of_Bounds \<or>
     (\<exists>r' h'. p (r, h) = Inr (r', h') \<and> length r' + k \<le> length r))"

lemma eats_cases:
  assumes "eats k p"
  obtains "p (r, h) = Inl Read_Out_Of_Bounds" | r' h' where "p (r, h) = Inr (r', h')" "length r' + k \<le> length r"
  using assms unfolding eats_def by blast

lemma eats_run_prog:
  assumes "eats k p" "\<forall>q\<in>set ps. eats 0 q"
  shows "eats k (run_prog (p # ps))"
  using assms(2)
proof (induction ps rule: rev_induct)
  case Nil
  show ?case using assms(1) unfolding eats_def run_prog_single .
next
  case (snoc q ps)
  have ih: "eats k (run_prog (p # ps))"
    by (rule snoc.IH) (use snoc.prems in simp)
  have q: "eats 0 q"
    using snoc.prems by simp
  show ?case
    unfolding eats_def
  proof (intro allI)
    fix r h
    have app: "run_prog (p # ps @ [q]) (r, h) = and_then (run_prog (p # ps) (r, h)) (run_prog [q])"
      using run_prog_append [of "p # ps" "[q]" "(r, h)"] by simp
    show "run_prog (p # ps @ [q]) (r, h) = Inl Read_Out_Of_Bounds \<or>
      (\<exists>r' h'. run_prog (p # ps @ [q]) (r, h) = Inr (r', h') \<and> length r' + k \<le> length r)"
      unfolding app
    proof (rule eats_cases [OF ih, of r h])
      fix r' h'
      assume p: "run_prog (p # ps) (r, h) = Inr (r', h')" "length r' + k \<le> length r"
      show "and_then (run_prog (p # ps) (r, h)) (run_prog [q]) = Inl Read_Out_Of_Bounds \<or>
          (\<exists>r' h'. and_then (run_prog (p # ps) (r, h)) (run_prog [q]) = Inr (r', h') \<and> length r' + k \<le> length r)"
        unfolding p(1) and_then_simps run_prog_single
        by (rule eats_cases [OF q, of r' h']) (use p(2) in auto)
    qed (simp only: and_then_simps simp_thms)
  qed
qed

lemma get_bytes_eats:
  assumes "\<And>r. d r = and_then (get_bytes k r) (\<lambda>(bs, r'). Inr (f bs, r'))" "j \<le> k"
  shows "eats j (into d upd)"
  using assms(2) by (auto simp: eats_def into_def assms(1) get_bytes_def)

lemma scalar_eats:
  "j \<le> 8 \<Longrightarrow> eats j (into decode_2long upd1)" "j \<le> 4 \<Longrightarrow> eats j (into decode_uint upd2)"
  "j \<le> 1 \<Longrightarrow> eats j (into decode_bool upd3)"
  by (rule get_bytes_eats; simp add: decode_2long_def decode_uint_def decode_bool_def)+

lemma char_eats: "eats 0 (into decode_char upd)"
  by (auto simp: eats_def into_def decode_char_def decode_uint_def get_bytes_def strncpy_def Let_def)

lemma decode_times_short:
  assumes "\<And>r. d r = Inl Read_Out_Of_Bounds \<or> (\<exists>x r'. d r = Inr (x, r') \<and> length r' < length r)" "length r < k"
  shows "decode_times d k r = Inl Read_Out_Of_Bounds"
  using assms(2)
proof (induction k arbitrary: r)
  case (Suc k)
  consider "d r = Inl Read_Out_Of_Bounds" | x r' where "d r = Inr (x, r')" "length r' < length r"
    using assms(1) by blast
  then show ?case
    using Suc by cases auto
qed simp

end
