(* ===== verification/Net_Stats.thy ===== *)
theory Net_Stats
  imports Sys_Stats Intf_Table
begin

section \<open>Means of the interface counters (\<open>ethanol_functions/net_statistics.c\<close>, collecting)\<close>

text \<open>
  The agent keeps, for each interface that a controller has named, the last counters that it read
  and an exponentially weighted mean of their rates.  The global variables are the list of the
  interfaces, a \<open>table\<close> as in \<open>Intf_Table\<close>, and the weight \<open>ewma_alpha\<close>; the thread that updates
  the means and the variables that control it are in \<open>Collector\<close>.

  The arithmetic on \<open>double\<close> and \<open>long double\<close> is that of the machine: the record \<open>fpu\<close> has the
  operations that the code applies to the object representations of these types.  No property here
  depends on how they round.
\<close>

record fpu =
  d_of_long :: "c_long \<Rightarrow> c_double"
  d_add :: "c_double \<Rightarrow> c_double \<Rightarrow> c_double"
  d_div :: "c_double \<Rightarrow> c_double \<Rightarrow> c_double"
  ld_of_double :: "c_double \<Rightarrow> c_ldouble"
  ld_of_long :: "c_long \<Rightarrow> c_ldouble"
  ld_add :: "c_ldouble \<Rightarrow> c_ldouble \<Rightarrow> c_ldouble"
  ld_sub :: "c_ldouble \<Rightarrow> c_ldouble \<Rightarrow> c_ldouble"
  ld_mul :: "c_ldouble \<Rightarrow> c_ldouble \<Rightarrow> c_ldouble"
  ld_div :: "c_ldouble \<Rightarrow> c_ldouble \<Rightarrow> c_ldouble"
  ld_less :: "c_ldouble \<Rightarrow> c_ldouble \<Rightarrow> bool"
  ld_eq :: "c_ldouble \<Rightarrow> c_ldouble \<Rightarrow> bool"
  long_of_float :: "c_float \<Rightarrow> c_long"

text \<open>Integers as the values of both types, for the witnesses.\<close>

definition demo_fpu :: fpu where
  "demo_fpu = \<lparr>d_of_long = id, d_add = (+), d_div = (\<lambda>a b. a div b), ld_of_double = ucast, ld_of_long = scast,
     ld_add = (+), ld_sub = (-), ld_mul = (*), ld_div = (\<lambda>a b. a div b), ld_less = (\<lambda>a b. sint a < sint b),
     ld_eq = (=), long_of_float = scast\<rparr>"

record timeval =
  tv_sec :: c_long
  tv_usec :: c_long

text \<open>\<open>TO_MICROSECONDS\<close> is 1000000; the sums and quotients are of type \<open>double\<close>.\<close>

definition diff_timeofday :: "fpu \<Rightarrow> timeval \<Rightarrow> timeval \<Rightarrow> c_ldouble" where
  "diff_timeofday f t1 t2 =
     (let t_t1 = ld_of_double f (d_add f (d_of_long f (tv_sec t1))
                   (d_div f (d_of_long f (tv_usec t1)) (d_of_long f 1000000)));
          t_t2 = ld_of_double f (d_add f (d_of_long f (tv_sec t2))
                   (d_div f (d_of_long f (tv_usec t2)) (d_of_long f 1000000)))
      in ld_sub f t_t1 t_t2)"

text \<open>The structure has the field names of \<open>net_statistics\<close>; here they carry a prefix.\<close>

record mean_net_statistics =
  mean_collisions :: c_ldouble
  mean_multicast :: c_ldouble
  mean_rx_bytes :: c_ldouble
  mean_rx_compressed :: c_ldouble
  mean_rx_crc_errors :: c_ldouble
  mean_rx_dropped :: c_ldouble
  mean_rx_errors :: c_ldouble
  mean_rx_fifo_errors :: c_ldouble
  mean_rx_frame_errors :: c_ldouble
  mean_rx_length_errors :: c_ldouble
  mean_rx_missed_errors :: c_ldouble
  mean_rx_over_errors :: c_ldouble
  mean_rx_packets :: c_ldouble
  mean_tx_aborted_errors :: c_ldouble
  mean_tx_bytes :: c_ldouble
  mean_tx_carrier_errors :: c_ldouble
  mean_tx_compressed :: c_ldouble
  mean_tx_dropped :: c_ldouble
  mean_tx_errors :: c_ldouble
  mean_tx_fifo_errors :: c_ldouble
  mean_tx_heartbeat_errors :: c_ldouble
  mean_tx_packets :: c_ldouble
  mean_tx_window_errors :: c_ldouble

definition zero_means :: mean_net_statistics where
  "zero_means = \<lparr>mean_collisions = 0, mean_multicast = 0, mean_rx_bytes = 0, mean_rx_compressed = 0
     , mean_rx_crc_errors = 0, mean_rx_dropped = 0, mean_rx_errors = 0, mean_rx_fifo_errors = 0
     , mean_rx_frame_errors = 0, mean_rx_length_errors = 0, mean_rx_missed_errors = 0, mean_rx_over_errors = 0
     , mean_rx_packets = 0, mean_tx_aborted_errors = 0, mean_tx_bytes = 0, mean_tx_carrier_errors = 0
     , mean_tx_compressed = 0, mean_tx_dropped = 0, mean_tx_errors = 0, mean_tx_fifo_errors = 0
     , mean_tx_heartbeat_errors = 0, mean_tx_packets = 0, mean_tx_window_errors = 0\<rparr>"

record net_entry =
  current_value :: net_statistics
  last_t :: timeval
  means :: mean_net_statistics

record collector =
  list_net_statistics :: "net_entry table"
  ewma_alpha :: c_ldouble

text \<open>The initial weight is the \<open>double\<close> constant 0.1.\<close>

definition init_collector :: "fpu \<Rightarrow> collector" where
  "init_collector f = \<lparr>list_net_statistics = [], ewma_alpha = ld_of_double f 0x3FB999999999999A\<rparr>"


subsection \<open>Operations\<close>

definition calculate_ewma ::
  "fpu \<Rightarrow> c_ldouble \<Rightarrow> c_long \<Rightarrow> c_long \<Rightarrow> c_ldouble \<Rightarrow> c_ldouble \<Rightarrow> c_ldouble" where
  "calculate_ewma f alpha v vl diff_t m =
     (let mn = ld_div f (ld_of_long f (v - vl)) diff_t in
      ld_add f (ld_mul f m alpha) (ld_mul f mn (ld_sub f (ld_of_long f 1) alpha)))"

definition set_ewma_alpha :: "c_ldouble \<Rightarrow> collector \<Rightarrow> collector" where
  "set_ewma_alpha alpha c = c\<lparr>ewma_alpha := alpha\<rparr>"

text \<open>The assignments to the means of one interface, in their order; the packet counters have none.\<close>

definition ewma_means ::
  "fpu \<Rightarrow> c_ldouble \<Rightarrow> net_statistics \<Rightarrow> net_statistics \<Rightarrow> c_ldouble \<Rightarrow> mean_net_statistics
   \<Rightarrow> mean_net_statistics" where
  "ewma_means f a now cur diff_t m = m\<lparr>
     mean_collisions := calculate_ewma f a (collisions now) (collisions cur) diff_t (mean_collisions m),
     mean_multicast := calculate_ewma f a (multicast now) (multicast cur) diff_t (mean_multicast m),
     mean_rx_bytes := calculate_ewma f a (rx_bytes now) (rx_bytes cur) diff_t (mean_rx_bytes m),
     mean_rx_compressed := calculate_ewma f a (rx_compressed now) (rx_compressed cur) diff_t (mean_rx_compressed m),
     mean_rx_crc_errors := calculate_ewma f a (rx_crc_errors now) (rx_crc_errors cur) diff_t (mean_rx_crc_errors m),
     mean_rx_dropped := calculate_ewma f a (rx_dropped now) (rx_dropped cur) diff_t (mean_rx_dropped m),
     mean_rx_errors := calculate_ewma f a (rx_errors now) (rx_errors cur) diff_t (mean_rx_errors m),
     mean_rx_fifo_errors := calculate_ewma f a (rx_fifo_errors now) (rx_fifo_errors cur) diff_t (mean_rx_fifo_errors m),
     mean_rx_frame_errors := calculate_ewma f a (rx_frame_errors now) (rx_frame_errors cur) diff_t (mean_rx_frame_errors m),
     mean_rx_length_errors := calculate_ewma f a (rx_length_errors now) (rx_length_errors cur) diff_t (mean_rx_length_errors m),
     mean_rx_missed_errors := calculate_ewma f a (rx_missed_errors now) (rx_missed_errors cur) diff_t (mean_rx_missed_errors m),
     mean_rx_over_errors := calculate_ewma f a (rx_over_errors now) (rx_over_errors cur) diff_t (mean_rx_over_errors m),
     mean_tx_aborted_errors := calculate_ewma f a (tx_aborted_errors now) (tx_aborted_errors cur) diff_t (mean_tx_aborted_errors m),
     mean_tx_bytes := calculate_ewma f a (tx_bytes now) (tx_bytes cur) diff_t (mean_tx_bytes m),
     mean_tx_carrier_errors := calculate_ewma f a (tx_carrier_errors now) (tx_carrier_errors cur) diff_t (mean_tx_carrier_errors m),
     mean_tx_compressed := calculate_ewma f a (tx_compressed now) (tx_compressed cur) diff_t (mean_tx_compressed m),
     mean_tx_dropped := calculate_ewma f a (tx_dropped now) (tx_dropped cur) diff_t (mean_tx_dropped m),
     mean_tx_errors := calculate_ewma f a (tx_errors now) (tx_errors cur) diff_t (mean_tx_errors m),
     mean_tx_fifo_errors := calculate_ewma f a (tx_fifo_errors now) (tx_fifo_errors cur) diff_t (mean_tx_fifo_errors m),
     mean_tx_heartbeat_errors := calculate_ewma f a (tx_heartbeat_errors now) (tx_heartbeat_errors cur) diff_t (mean_tx_heartbeat_errors m),
     mean_tx_window_errors := calculate_ewma f a (tx_window_errors now) (tx_window_errors cur) diff_t (mean_tx_window_errors m)\<rparr>"

text \<open>
  One round of \<open>update_means\<close>.  Every iteration reads the clock, \<open>now i\<close>, and the counters; \<open>s0\<close> is
  the uninitialised local structure.  Nothing is stored unless time has passed.
\<close>

definition update_entry ::
  "fpu \<Rightarrow> c_ldouble \<Rightarrow> timeval \<Rightarrow> net_statistics \<Rightarrow> net_entry \<Rightarrow> net_entry" where
  "update_entry f a t_now now_stats p =
     (let diff_t = diff_timeofday f t_now (last_t p) in
      if ld_less f (ld_of_long f 0) diff_t then
        p\<lparr>means := ewma_means f a now_stats (current_value p) diff_t (means p),
          current_value := now_stats, last_t := t_now\<rparr>
      else p)"

primrec update_list ::
  "env \<Rightarrow> fpu \<Rightarrow> c_ldouble \<Rightarrow> net_statistics \<Rightarrow> (nat \<Rightarrow> timeval) \<Rightarrow> net_entry table
   \<Rightarrow> nat \<Rightarrow> fault + net_entry table" where
  "update_list e f a s0 now [] i = Inr []"
| "update_list e f a s0 now (p # ps) i =
     and_then (get_statistics_local e (Some (fst p)) s0) (\<lambda>now_stats.
     and_then (update_list e f a s0 now ps (Suc i)) (\<lambda>ps'.
       Inr ((fst p, update_entry f a (now i) now_stats (snd p)) # ps')))"

definition update_means ::
  "env \<Rightarrow> fpu \<Rightarrow> net_statistics \<Rightarrow> (nat \<Rightarrow> timeval) \<Rightarrow> collector \<Rightarrow> fault + collector" where
  "update_means e f s0 now c =
     and_then (update_list e f (ewma_alpha c) s0 now (list_net_statistics c) 0) (\<lambda>l.
       Inr (c\<lparr>list_net_statistics := l\<rparr>))"

definition add_intf_net_statistics ::
  "env \<Rightarrow> net_statistics \<Rightarrow> timeval \<Rightarrow> cstr \<Rightarrow> collector \<Rightarrow> fault + collector" where
  "add_intf_net_statistics e s0 now intf c =
     and_then (search (list_net_statistics c) intf) (\<lambda>p.
       if p = None then
         and_then (new_name (mallocs e) intf) (\<lambda>n.
         and_then (get_statistics_local e intf s0) (\<lambda>s.
           Inr (c\<lparr>list_net_statistics :=
             (n, \<lparr>current_value = s, last_t = now, means = zero_means\<rparr>) # list_net_statistics c\<rparr>)))
       else Inr c)"

text \<open>The entry before the one that is found, or the head, is linked to the one after it.\<close>

definition unlink :: "nat \<Rightarrow> 'a list \<Rightarrow> 'a list" where
  "unlink i xs = take i xs @ drop (Suc i) xs"

definition remove_intf_net_statistics :: "cstr \<Rightarrow> collector \<Rightarrow> fault + collector" where
  "remove_intf_net_statistics intf c =
     and_then (search (list_net_statistics c) intf) (\<lambda>p.
       case p of
         Some i \<Rightarrow> Inr (c\<lparr>list_net_statistics := unlink i (list_net_statistics c)\<rparr>)
       | None \<Rightarrow> Inr c)"

text \<open>When the walk reaches the end of the list, \<open>p->intf_name\<close> is read through a null pointer.\<close>

definition get_mean_net_statistics :: "cstr \<Rightarrow> collector \<Rightarrow> fault + mean_net_statistics option" where
  "get_mean_net_statistics intf c =
     and_then (search (list_net_statistics c) intf) (\<lambda>p.
       case p of
         Some i \<Rightarrow> and_then (strcmp (Some (fst (list_net_statistics c ! i))) intf) (\<lambda>eq.
           Inr (if eq then Some (means (snd (list_net_statistics c ! i))) else None))
       | None \<Rightarrow> Inl Null_Dereference)"

record all_mean_net_statistics =
  num :: c_int
  intfs :: "cstr list"
  ns :: "mean_net_statistics list"

primrec copy_names :: "allocator \<Rightarrow> u8 list list \<Rightarrow> fault + cstr list" where
  "copy_names mal [] = Inr []"
| "copy_names mal (n # names) = and_then (new_name mal (Some n)) (\<lambda>d.
     and_then (copy_names mal names) (\<lambda>ds. Inr (Some d # ds)))"

text \<open>\<open>n\<close> counts the entries in an \<open>int\<close>.\<close>

definition get_all_mean_net_statistics ::
  "allocator \<Rightarrow> collector \<Rightarrow> fault + all_mean_net_statistics option" where
  "get_all_mean_net_statistics mal c =
     (let l = list_net_statistics c; n = (word_of_nat (length l) :: c_int) in
      if 0 < sint n then
        and_then (copy_names mal (map fst l)) (\<lambda>names.
          Inr (Some \<lparr>num = n, intfs = names, ns = map (\<lambda>p. means (snd p)) l\<rparr>))
      else Inr None)"


subsection \<open>The list as a map\<close>

lemma map_of_unlink:
  "distinct (map fst xs) \<Longrightarrow> i < length xs \<Longrightarrow> map_of (unlink i xs) = (map_of xs)(fst (xs ! i) := None)"
proof (induction xs arbitrary: i)
  case Nil
  then show ?case by simp
next
  case (Cons x xs)
  show ?case
  proof (cases i)
    case 0
    have "map_of xs (fst x) = None"
      using Cons.prems(1) by (simp add: map_of_eq_None_iff)
    then show ?thesis
      using 0 by (cases x) (simp add: unlink_def fun_eq_iff)
  next
    case (Suc j)
    then have "fst x \<noteq> fst (xs ! j)"
      using Cons.prems by (metis Suc_less_eq distinct.simps(2) length_Cons length_map list.simps(9) nth_map nth_mem)
    then show ?thesis
      using Cons.IH [of j] Cons.prems Suc by (cases x) (simp add: unlink_def fun_eq_iff)
  qed
qed

lemma unlink_map: "map g (unlink i xs) = unlink i (map g xs)"
  by (simp add: unlink_def take_map drop_map)

lemma set_unlink: "set (unlink i xs) \<subseteq> set xs"
  by (auto simp: unlink_def dest: in_set_takeD in_set_dropD)

lemma distinct_unlink: "distinct xs \<Longrightarrow> distinct (unlink i xs)"
  using set_take_disj_set_drop_if_distinct [of xs i "Suc i"] by (simp add: unlink_def)

lemma wf_table_unlink: "wf_table t \<Longrightarrow> wf_table (unlink i t)"
  using set_unlink [of i t] distinct_unlink [of "map (\<lambda>p. str_chars (fst p)) t" i]
  by (auto simp: wf_table_def unlink_map)

lemma table_map_unlink:
  assumes "wf_table t" "i < length t"
  shows "table_map (unlink i t) = (table_map t)(str_chars (fst (t ! i)) := None)"
  using assms map_of_unlink [of "map (\<lambda>p. (str_chars (fst p), snd p)) t" i]
  by (simp add: table_map_def unlink_map wf_table_def comp_def)

text \<open>The position that \<open>search\<close> gives is that of the name.\<close>

lemma search_name:
  assumes "wf_table t" "named s" "search t s = Inr (Some i)"
  shows "i < length t \<and> str_chars (fst (t ! i)) = chars s"
  using assms(1,3)
proof (induction t arbitrary: i)
  case Nil
  then show ?case by simp
next
  case (Cons p t)
  have "strcmp (Some (fst p)) s = Inr (str_chars (fst p) = chars s)"
    using strcmp_wf [OF _ assms(2)] Cons.prems(1) by simp
  then show ?case
    using Cons by (auto simp: and_then_eq_Inr split: if_splits)
qed

lemma search_bound: "search t s = Inr (Some i) \<Longrightarrow> i < length t"
  by (induction t arbitrary: i) (auto simp: and_then_eq_Inr split: if_splits)

lemma named_new_name: "new_name mal s = Inr n \<Longrightarrow> named s"
  by (auto simp: new_name_def and_then_eq_Inr named_def wf_str_def strlen_def split: option.splits if_splits)

lemma new_name_Inr: "new_name mal s = Inr n \<Longrightarrow> str_chars n = chars s \<and> 0 \<in> set n"
  by (auto simp: new_name_def and_then_eq_Inr strcpy_def strlen_def chars_def str_chars_no_zero
      split: option.splits if_splits)

lemma get_statistics_local_ok:
  assumes "named s" "slen s \<le> 153"
  shows "\<exists>x. get_statistics_local e s s0 = Inr x \<and> rx_bytes x = stat_value e s ''rx_bytes''
    \<and> tx_bytes x = stat_value e s ''tx_bytes''"
proof -
  obtain b where "s = Some b" "wf_str (Some b)"
    using assms(1) by (auto simp: named_def)
  then show ?thesis
    using get_statistics_ok [of b e s0] assms(2) by (simp add: get_statistics_def)
qed


subsection \<open>Reachable states\<close>

text \<open>
  The states of the list in a run of the agent: requests add and remove interfaces and set the
  weight, the thread updates the means.  The environment, the clock and the uninitialised memory
  may be different at each step; a fault ends the run.
\<close>

inductive collector_reach :: "fpu \<Rightarrow> collector \<Rightarrow> bool" for f where
  start: "collector_reach f (init_collector f)"
| add: "collector_reach f c \<Longrightarrow> add_intf_net_statistics e s0 t intf c = Inr c' \<Longrightarrow> collector_reach f c'"
| remove: "collector_reach f c \<Longrightarrow> remove_intf_net_statistics intf c = Inr c' \<Longrightarrow> collector_reach f c'"
| alpha: "collector_reach f c \<Longrightarrow> collector_reach f (set_ewma_alpha a c)"
| update: "collector_reach f c \<Longrightarrow> update_means e f s0 now c = Inr c' \<Longrightarrow> collector_reach f c'"

definition no_packet_means :: "collector \<Rightarrow> bool" where
  "no_packet_means c \<longleftrightarrow> (\<forall>p\<in>set (list_net_statistics c).
     mean_rx_packets (means (snd p)) = 0 \<and> mean_tx_packets (means (snd p)) = 0)"

definition wf_collector :: "collector \<Rightarrow> bool" where
  "wf_collector c \<longleftrightarrow> wf_table (list_net_statistics c)"

lemma update_entry_packets [simp]:
  "mean_rx_packets (means (update_entry f a t x p)) = mean_rx_packets (means p)"
  "mean_tx_packets (means (update_entry f a t x p)) = mean_tx_packets (means p)"
  by (simp_all add: update_entry_def ewma_means_def Let_def)

lemma update_list_shape:
  "update_list e f a s0 now l i = Inr l' \<Longrightarrow>
   list_all2 (\<lambda>p q. fst q = fst p \<and> (\<exists>t x. snd q = update_entry f a t x (snd p))) l l'"
  by (induction l arbitrary: i l') (fastforce simp: and_then_eq_Inr)+

lemma list_all2_names:
  "list_all2 (\<lambda>p q. fst q = fst p \<and> P p q) l l' \<Longrightarrow> map fst l' = map fst l"
  by (induction rule: list_all2_induct) simp_all

lemma wf_table_fst:
  "wf_table l \<longleftrightarrow> (\<forall>n\<in>set (map fst l). 0 \<in> set n) \<and> distinct (map str_chars (map fst l))"
  by (auto simp: wf_table_def comp_def)

lemma wf_table_names: "map fst l' = map fst l \<Longrightarrow> wf_table l' = wf_table l"
  unfolding wf_table_fst by (simp only:)

lemma add_intf_cases:
  assumes "wf_collector c" "add_intf_net_statistics e s0 t intf c = Inr c'"
  obtains "c' = c"
  | n x where "list_net_statistics c' =
        (n, \<lparr>current_value = x, last_t = t, means = zero_means\<rparr>) # list_net_statistics c"
      "wf_collector c'" "str_chars n = chars intf" "ewma_alpha c' = ewma_alpha c"
proof (cases "c' = c")
  case True
  then show ?thesis using that(1) by simp
next
  case False
  then obtain n x where n: "search (list_net_statistics c) intf = Inr None"
      "new_name (mallocs e) intf = Inr n"
    and c': "c' = c\<lparr>list_net_statistics :=
        (n, \<lparr>current_value = x, last_t = t, means = zero_means\<rparr>) # list_net_statistics c\<rparr>"
    using assms(2) by (auto simp: add_intf_net_statistics_def and_then_eq_Inr split: if_splits)
  have nm: "named intf" "str_chars n = chars intf" "0 \<in> set n"
    using named_new_name [OF n(2)] new_name_Inr [OF n(2)] by auto
  have "table_map (list_net_statistics c) (chars intf) = None"
    using search_wf [OF _ nm(1), of "list_net_statistics c"] assms(1) n(1) by (auto simp: wf_collector_def)
  then have "wf_collector c'"
    using assms(1) nm by (simp add: wf_collector_def c' table_map_None)
  then show ?thesis
    using that(2) [of n x] c' nm by simp
qed

lemma collector_invariant:
  "collector_reach f c \<Longrightarrow> wf_collector c \<and> no_packet_means c"
proof (induction rule: collector_reach.induct)
  case start
  then show ?case
    by (simp add: init_collector_def wf_collector_def no_packet_means_def)
next
  case (add c e s0 t intf c')
  then have "wf_collector c" by simp
  from this add.hyps(2) show ?case
    by (rule add_intf_cases) (use add.IH in \<open>auto simp: no_packet_means_def zero_means_def\<close>)
next
  case (remove c intf c')
  then show ?case
    using wf_table_unlink [of "list_net_statistics c"]
    by (fastforce simp: remove_intf_net_statistics_def and_then_eq_Inr wf_collector_def no_packet_means_def
        split: option.splits dest: set_unlink [THEN subsetD])
next
  case (alpha c a)
  then show ?case
    by (simp add: set_ewma_alpha_def wf_collector_def no_packet_means_def)
next
  case (update c e s0 now c')
  then obtain l where l: "c' = c\<lparr>list_net_statistics := l\<rparr>"
      "update_list e f (ewma_alpha c) s0 now (list_net_statistics c) 0 = Inr l"
    by (auto simp: update_means_def and_then_eq_Inr)
  note sh = update_list_shape [OF l(2)]
  have "wf_collector c'"
    using wf_table_names [OF list_all2_names [OF sh]] update.IH l(1) by (simp add: wf_collector_def)
  moreover have "no_packet_means c'"
    using sh update.IH unfolding no_packet_means_def l(1)
    by (fastforce simp: list_all2_conv_all_nth in_set_conv_nth)
  ultimately show ?case by simp
qed

lemma add_intf_ok:
  assumes "wf_collector c" "named s" "slen s \<le> 153" "allocates (mallocs e)"
  shows "\<exists>c' x. add_intf_net_statistics e s0 t s c = Inr c' \<and> wf_collector c' \<and>
    get_statistics_local e s s0 = Inr x \<and>
    table_map (list_net_statistics c') = (table_map (list_net_statistics c))(chars s \<mapsto>
      (case table_map (list_net_statistics c) (chars s) of
         Some p \<Rightarrow> p | None \<Rightarrow> \<lparr>current_value = x, last_t = t, means = zero_means\<rparr>))"
proof -
  obtain n where n: "new_name (mallocs e) s = Inr n" "str_chars n = chars s" "0 \<in> set n"
    using new_name_ok [OF assms(2,4)] .
  obtain x where x: "get_statistics_local e s s0 = Inr x"
    using get_statistics_local_ok [OF assms(2,3)] by blast
  show ?thesis
    using search_wf [OF assms(1) [unfolded wf_collector_def] assms(2)] n x assms(1)
    by (auto simp: add_intf_net_statistics_def wf_collector_def table_map_None [symmetric] fun_upd_idem
        split: option.splits)
qed

lemma remove_intf_ok:
  assumes "wf_collector c" "named s"
  shows "\<exists>c'. remove_intf_net_statistics s c = Inr c' \<and> wf_collector c' \<and>
    table_map (list_net_statistics c') = (table_map (list_net_statistics c))(chars s := None)"
proof -
  note wf = assms(1) [unfolded wf_collector_def]
  from search_wf [OF wf assms(2)] consider
      "table_map (list_net_statistics c) (chars s) = None" "search (list_net_statistics c) s = Inr None"
    | i where "search (list_net_statistics c) s = Inr (Some i)"
    by (elim disjE exE conjE) simp_all
  then show ?thesis
  proof cases
    case 1
    then show ?thesis
      using assms(1) by (simp add: remove_intf_net_statistics_def fun_upd_idem)
  next
    case 2
    then show ?thesis
      using search_name [OF wf assms(2) 2] wf_table_unlink [OF wf] table_map_unlink [OF wf]
      by (auto simp: remove_intf_net_statistics_def wf_collector_def)
  qed
qed


subsection \<open>Properties\<close>

lemma get_mean_known:
  assumes "wf_collector c" "named s" "table_map (list_net_statistics c) (chars s) = Some x"
  shows "get_mean_net_statistics s c = Inr (Some (means x))"
proof -
  obtain i where i: "i < length (list_net_statistics c)" "search (list_net_statistics c) s = Inr (Some i)"
      "x = snd (list_net_statistics c ! i)"
    using search_wf [OF assms(1) [unfolded wf_collector_def] assms(2)] assms(3) by auto
  have "strcmp (Some (fst (list_net_statistics c ! i))) s = Inr True"
    using search_name [OF _ assms(2) i(2)] assms(1) i(1) strcmp_wf [OF _ assms(2)]
    by (simp add: wf_collector_def wf_table_def)
  then show ?thesis
    using i by (simp add: get_mean_net_statistics_def)
qed

lemma get_mean_absent:
  assumes "wf_collector c" "named s" "table_map (list_net_statistics c) (chars s) = None"
  shows "get_mean_net_statistics s c = Inl Null_Dereference"
  using search_wf [OF assms(1) [unfolded wf_collector_def] assms(2)] assms(3)
  by (auto simp: get_mean_net_statistics_def)

text \<open>
  C15 The list of monitored interfaces refines a finite map from names to entries.  Adding a
  name never faults, keeps the entry of a name that is in the list and otherwise stores the counters
  just read, the time and means of zero; removing a name deletes exactly that name.  Both keep
  the names in the list different.  Reading gives the means of a name that is in the list, and dereferences a null
  pointer for any other name.
\<close>

theorem collector_refines_map:
  assumes "wf_collector c" "named s" "slen s \<le> 153" "allocates (mallocs e)"
  shows "(\<exists>c' x. add_intf_net_statistics e s0 t s c = Inr c' \<and> wf_collector c' \<and>
      rx_bytes x = stat_value e s ''rx_bytes'' \<and> tx_bytes x = stat_value e s ''tx_bytes'' \<and>
      table_map (list_net_statistics c') = (table_map (list_net_statistics c))(chars s \<mapsto>
        (case table_map (list_net_statistics c) (chars s) of
           Some p \<Rightarrow> p | None \<Rightarrow> \<lparr>current_value = x, last_t = t, means = zero_means\<rparr>))) \<and>
    (\<exists>c'. remove_intf_net_statistics s c = Inr c' \<and> wf_collector c' \<and>
      table_map (list_net_statistics c') = (table_map (list_net_statistics c))(chars s := None)) \<and>
    get_mean_net_statistics s c = (case table_map (list_net_statistics c) (chars s) of
      Some p \<Rightarrow> Inr (Some (means p)) | None \<Rightarrow> Inl Null_Dereference)"
proof -
  have "get_mean_net_statistics s c = (case table_map (list_net_statistics c) (chars s) of
      Some p \<Rightarrow> Inr (Some (means p)) | None \<Rightarrow> Inl Null_Dereference)"
    using get_mean_absent [OF assms(1,2)] get_mean_known [OF assms(1,2)] by (auto split: option.split)
  then show ?thesis
    using add_intf_ok [OF assms, of s0 t] remove_intf_ok [OF assms(1,2)]
      get_statistics_local_ok [OF assms(2,3), of e s0] by fastforce
qed

definition demo_stats0 :: net_statistics where
  "demo_stats0 = \<lparr>collisions = 0, multicast = 0, rx_bytes = 0, rx_compressed = 0, rx_crc_errors = 0,
     rx_dropped = 0, rx_errors = 0, rx_fifo_errors = 0, rx_frame_errors = 0, rx_length_errors = 0,
     rx_missed_errors = 0, rx_over_errors = 0, rx_packets = 0, tx_aborted_errors = 0, tx_bytes = 0,
     tx_carrier_errors = 0, tx_compressed = 0, tx_dropped = 0, tx_errors = 0, tx_fifo_errors = 0,
     tx_heartbeat_errors = 0, tx_packets = 0, tx_window_errors = 0\<rparr>"

theorem collector_refines_map_witness:
  "\<exists>c'. add_intf_net_statistics demo_env demo_stats0 \<lparr>tv_sec = 5, tv_usec = 0\<rparr> demo_name
      (init_collector demo_fpu) = Inr c' \<and> dom (table_map (list_net_statistics c')) = {[0x77]}"
proof -
  have "wf_collector (init_collector demo_fpu)" "list_net_statistics (init_collector demo_fpu) = []"
    by (simp_all add: wf_collector_def init_collector_def)
  then show ?thesis
    using collector_refines_map [OF _ named_demo _ allocates_demo_env, of "init_collector demo_fpu" demo_stats0
        "\<lparr>tv_sec = 5, tv_usec = 0\<rparr>"] by auto
qed

text \<open>
  The means of the packet counters are never computed: in every state that the collector can
  reach, whatever was added, removed and updated, the mean that it reports for the received and the
  sent packets of an interface is zero.
\<close>

theorem packet_means_never_updated:
  assumes "collector_reach f c" "get_mean_net_statistics s c = Inr (Some m)"
  shows "mean_rx_packets m = 0 \<and> mean_tx_packets m = 0"
proof -
  obtain i where i: "search (list_net_statistics c) s = Inr (Some i)"
      "m = means (snd (list_net_statistics c ! i))"
    using assms(2) by (auto simp: get_mean_net_statistics_def and_then_eq_Inr split: option.splits if_splits)
  have "i < length (list_net_statistics c)"
    using search_bound [OF i(1)] .
  then show ?thesis
    using collector_invariant [OF assms(1)] i(2) by (simp add: no_packet_means_def)
qed

theorem packet_means_never_updated_witness:
  "\<exists>c m. collector_reach demo_fpu c \<and> get_mean_net_statistics demo_name c = Inr (Some m) \<and>
     mean_rx_bytes m \<noteq> 0 \<and> mean_rx_packets m = 0"
proof -
  let ?t = "\<lambda>n. \<lparr>tv_sec = n, tv_usec = 0\<rparr>"
  define r where "r = and_then (add_intf_net_statistics demo_env demo_stats0 (?t 5) demo_name
      (init_collector demo_fpu)) (update_means (demo_env\<lparr>sysfs := \<lambda>_. Some 50\<rparr>) demo_fpu demo_stats0 (\<lambda>_. ?t 6))"
  have ev: "case r of Inl _ \<Rightarrow> False | Inr c \<Rightarrow> (case get_mean_net_statistics demo_name c of
      Inr (Some m) \<Rightarrow> mean_rx_bytes m \<noteq> 0 | _ \<Rightarrow> False)"
    unfolding r_def by code_simp
  then obtain c m where c: "r = Inr c" "get_mean_net_statistics demo_name c = Inr (Some m)" "mean_rx_bytes m \<noteq> 0"
    by (auto split: sum.splits option.splits)
  then have "collector_reach demo_fpu c"
    unfolding r_def and_then_eq_Inr by (blast intro: collector_reach.intros)
  then show ?thesis
    using c packet_means_never_updated by blast
qed

text \<open>
  Asking for the means of an interface that is not in the list is not answered with \<open>NULL\<close>: the
  function reads the name of the entry behind the end of the list through a null pointer.
\<close>

theorem get_mean_unknown:
  assumes "wf_collector c" "named s" "table_map (list_net_statistics c) (chars s) = None"
  shows "get_mean_net_statistics s c = Inl Null_Dereference"
  using get_mean_absent [OF assms] .

theorem get_mean_unknown_witness:
  "get_mean_net_statistics demo_name (init_collector demo_fpu) = Inl Null_Dereference"
  by (rule get_mean_unknown [OF _ named_demo]) (simp_all add: wf_collector_def init_collector_def)

end
