(* ===== verification/Collector.thy ===== *)
theory Collector
  imports Net_Stats
begin

section \<open>The collecting thread (\<open>ethanol_functions/net_statistics.c\<close>)\<close>

text \<open>
  \<open>set_timed_net_statistics\<close> starts and stops the thread \<open>thread_get_net_statistics\<close> with the
  global variables \<open>collect_usec\<close> and \<open>running_thread\<close>; there is no lock.  Every request runs in a
  thread of its own, so several calls and several collecting threads may be active at once.  The
  model is the interleaving of their accesses to the two variables: a call in progress is a
  \<open>setter\<close>, the statement it executes next; a collecting thread is a \<open>worker\<close>.  A step lets one of
  them execute its next statement.  The time that a worker sleeps is not modelled: it may stay at
  any statement for any number of steps of the others.
\<close>

datatype setter =
    Set_Begin c_int    \<comment> \<open>the tests of \<open>usec\<close> and \<open>collect_usec\<close>\<close>
  | Set_Stop           \<comment> \<open>\<open>collect_usec = -1\<close>\<close>
  | Set_Start c_int    \<comment> \<open>\<open>running_thread = true\<close>\<close>
  | Set_Create c_int   \<comment> \<open>\<open>pthread_create\<close>\<close>
  | Set_Assign c_int   \<comment> \<open>\<open>collect_usec = usec\<close>\<close>

datatype worker =
    W_Begin            \<comment> \<open>the test of \<open>collect_usec\<close>\<close>
  | W_Loop             \<comment> \<open>the test of \<open>running_thread\<close>\<close>
  | W_Update           \<comment> \<open>\<open>update_means\<close> and the sleep\<close>

record timer =
  collect_usec :: c_int
  running_thread :: bool
  setters :: "setter list"
  workers :: "worker list"
  means_list :: collector

definition init_timer :: "fpu \<Rightarrow> timer" where
  "init_timer f = \<lparr>collect_usec = - 1, running_thread = True, setters = [], workers = [],
     means_list = init_collector f\<rparr>"

text \<open>
  The next statement of a call of \<open>set_timed_net_statistics\<close>; the call is over when there is no
  next position.  \<open>created\<close> says whether the thread could be created.
\<close>

fun set_timed_net_statistics :: "bool \<Rightarrow> setter \<Rightarrow> timer \<Rightarrow> timer \<times> setter option" where
  "set_timed_net_statistics created (Set_Begin usec) s =
     (if sint usec \<le> 0 then (s\<lparr>running_thread := False\<rparr>, Some Set_Stop)
      else if sint (collect_usec s) \<le> 0 then (s, Some (Set_Start usec))
      else (s, Some (Set_Assign usec)))"
| "set_timed_net_statistics created Set_Stop s = (s\<lparr>collect_usec := - 1\<rparr>, None)"
| "set_timed_net_statistics created (Set_Start usec) s = (s\<lparr>running_thread := True\<rparr>, Some (Set_Create usec))"
| "set_timed_net_statistics created (Set_Create usec) s =
     (if created then s\<lparr>workers := workers s @ [W_Begin]\<rparr> else s, Some (Set_Assign usec))"
| "set_timed_net_statistics created (Set_Assign usec) s = (s\<lparr>collect_usec := usec\<rparr>, None)"

text \<open>The next statement of a collecting thread; a fault of \<open>update_means\<close> ends the program.\<close>

fun thread_get_net_statistics ::
  "env \<Rightarrow> fpu \<Rightarrow> net_statistics \<Rightarrow> (nat \<Rightarrow> timeval) \<Rightarrow> worker \<Rightarrow> timer \<Rightarrow> fault + timer \<times> worker option" where
  "thread_get_net_statistics e f s0 now W_Begin s =
     Inr (s, if sint (collect_usec s) \<le> 0 then None else Some W_Loop)"
| "thread_get_net_statistics e f s0 now W_Loop s = Inr (s, if running_thread s then Some W_Update else None)"
| "thread_get_net_statistics e f s0 now W_Update s =
     and_then (update_means e f s0 now (means_list s)) (\<lambda>c. Inr (s\<lparr>means_list := c\<rparr>, Some W_Loop))"

text \<open>The list with the element at \<open>i\<close> moved on or gone.\<close>

definition move :: "nat \<Rightarrow> 'a option \<Rightarrow> 'a list \<Rightarrow> 'a list" where
  "move i x xs = (case x of None \<Rightarrow> unlink i xs | Some y \<Rightarrow> xs[i := y])"

text \<open>
  The steps of the agent.  \<open>ok\<close> is the set of the values of \<open>usec\<close> with which
  \<open>set_timed_net_statistics\<close> is called.
\<close>

inductive timer_step :: "fpu \<Rightarrow> (c_int \<Rightarrow> bool) \<Rightarrow> timer \<Rightarrow> timer \<Rightarrow> bool" for f ok where
  call: "ok usec \<Longrightarrow> timer_step f ok s (s\<lparr>setters := setters s @ [Set_Begin usec]\<rparr>)"
| setter: "i < length (setters s) \<Longrightarrow> set_timed_net_statistics created (setters s ! i) s = (s', x)
    \<Longrightarrow> timer_step f ok s (s'\<lparr>setters := move i x (setters s')\<rparr>)"
| worker: "i < length (workers s) \<Longrightarrow> thread_get_net_statistics e f s0 now (workers s ! i) s = Inr (s', x)
    \<Longrightarrow> timer_step f ok s (s'\<lparr>workers := move i x (workers s')\<rparr>)"

abbreviation timer_steps :: "fpu \<Rightarrow> (c_int \<Rightarrow> bool) \<Rightarrow> timer \<Rightarrow> timer \<Rightarrow> bool" where
  "timer_steps f ok \<equiv> (timer_step f ok)\<^sup>*\<^sup>*"


subsection \<open>Running a schedule\<close>

text \<open>A schedule names who is next: a new call, the call or the worker at a position.\<close>

datatype turn = Call c_int | Setter nat | Worker nat

fun take_turn :: "env \<Rightarrow> fpu \<Rightarrow> net_statistics \<Rightarrow> (nat \<Rightarrow> timeval) \<Rightarrow> turn \<Rightarrow> timer \<Rightarrow> timer option" where
  "take_turn e f s0 now (Call usec) s = Some (s\<lparr>setters := setters s @ [Set_Begin usec]\<rparr>)"
| "take_turn e f s0 now (Setter i) s = (if i < length (setters s) then
     (let (s', x) = set_timed_net_statistics True (setters s ! i) s in Some (s'\<lparr>setters := move i x (setters s')\<rparr>))
     else None)"
| "take_turn e f s0 now (Worker i) s = (if i < length (workers s) then
     (case thread_get_net_statistics e f s0 now (workers s ! i) s of
        Inl _ \<Rightarrow> None | Inr (s', x) \<Rightarrow> Some (s'\<lparr>workers := move i x (workers s')\<rparr>))
     else None)"

primrec take_turns ::
  "env \<Rightarrow> fpu \<Rightarrow> net_statistics \<Rightarrow> (nat \<Rightarrow> timeval) \<Rightarrow> turn list \<Rightarrow> timer \<Rightarrow> timer option" where
  "take_turns e f s0 now [] s = Some s"
| "take_turns e f s0 now (t # ts) s = Option.bind (take_turn e f s0 now t s) (take_turns e f s0 now ts)"

definition calls_of :: "turn list \<Rightarrow> c_int set" where
  "calls_of ts = {u. Call u \<in> set ts}"

lemma take_turn_step:
  "take_turn e f s0 now t s = Some s' \<Longrightarrow> (\<And>u. t = Call u \<Longrightarrow> ok u) \<Longrightarrow> timer_step f ok s s'"
  by (cases t) (auto intro: timer_step.intros split: if_splits sum.splits prod.splits)

lemma take_turns_steps:
  "take_turns e f s0 now ts s = Some s' \<Longrightarrow> \<forall>u\<in>calls_of ts. ok u \<Longrightarrow> timer_steps f ok s s'"
proof (induction ts arbitrary: s)
  case Nil
  then show ?case by simp
next
  case (Cons t ts)
  then obtain s1 where s1: "take_turn e f s0 now t s = Some s1" "take_turns e f s0 now ts s1 = Some s'"
    by (auto split: bind_splits)
  have "timer_step f ok s s1"
    by (rule take_turn_step [OF s1(1)]) (use Cons.prems(2) in \<open>auto simp: calls_of_def\<close>)
  moreover have "timer_steps f ok s1 s'"
    using Cons.IH [OF s1(2)] Cons.prems(2) by (auto simp: calls_of_def)
  ultimately show ?case by simp
qed

lemma move_simps [simp]:
  "move 0 None (x # xs) = xs" "move 0 (Some y) (x # xs) = y # xs"
  "move (length xs) (Some y) (xs @ [x]) = xs @ [y]" "move (length xs) None (xs @ [x]) = xs"
  by (simp_all add: move_def unlink_def)

lemma set_move: "y \<in> set (move i x xs) \<Longrightarrow> x = Some y \<or> y \<in> set xs"
  by (auto simp: move_def dest: set_unlink [THEN subsetD] set_update_subset_insert [THEN subsetD]
      split: option.splits)

lemma move_nonempty: "i < length xs \<Longrightarrow> move i (Some y) xs \<noteq> []"
  by (auto simp: move_def)


subsection \<open>Properties\<close>

text \<open>Collection is enabled, but there is no thread and no call that would create one.\<close>

definition stuck :: "timer \<Rightarrow> bool" where
  "stuck s \<longleftrightarrow> workers s = [] \<and> 0 < sint (collect_usec s) \<and>
     (\<forall>x\<in>set (setters s). \<exists>u. 0 < sint u \<and> (x = Set_Begin u \<or> x = Set_Assign u))"

lemma stuck_step: "timer_step f (\<lambda>u. 0 < sint u) s s' \<Longrightarrow> stuck s \<Longrightarrow> stuck s'"
proof (induction rule: timer_step.induct)
  case (call usec s)
  then show ?case by (auto simp: stuck_def)
next
  case (setter i s created s' x)
  then obtain u where u: "0 < sint u" "setters s ! i = Set_Begin u \<or> setters s ! i = Set_Assign u"
    using nth_mem [of i "setters s"] unfolding stuck_def by blast
  then show ?case
    using setter by (auto simp: stuck_def dest!: set_move)
next
  case (worker i s e s0 now s' x)
  then show ?case by (simp add: stuck_def)
qed

lemma stuck_steps: "timer_steps f (\<lambda>u. 0 < sint u) s s' \<Longrightarrow> stuck s \<Longrightarrow> stuck s'"
  by (induction rule: rtranclp_induct) (auto intro: stuck_step)

text \<open>
  C21 A lost start.  \<open>set_timed_net_statistics\<close> creates the thread before it assigns \<open>collect_usec\<close>.
  If the new thread runs first it finds collection disabled and ends; the call then enables
  collection.  From that state on no thread is ever created again: as long as the following calls
  enable collection, with whatever interval and in whatever interleaving, there is no collecting
  thread and the means are never updated.
\<close>

theorem collection_lost:
  assumes "0 < sint usec"
  shows "\<exists>s. timer_steps f (\<lambda>u. u = usec) (init_timer f) s \<and> setters s = [] \<and> collect_usec s = usec \<and>
    (\<forall>s'. timer_steps f (\<lambda>u. 0 < sint u) s s' \<longrightarrow> workers s' = [] \<and> 0 < sint (collect_usec s'))"
proof -
  let ?s = "init_timer f\<lparr>collect_usec := usec\<rparr>"
  have "take_turns e f s0 now [Call usec, Setter 0, Setter 0, Setter 0, Worker 0, Setter 0] (init_timer f) = Some ?s"
    for e s0 now
    using assms by (simp add: init_timer_def)
  then have "timer_steps f (\<lambda>u. u = usec) (init_timer f) ?s"
    by (rule take_turns_steps) (simp add: calls_of_def)
  moreover have "stuck ?s"
    using assms by (simp add: stuck_def init_timer_def)
  ultimately show ?thesis
    using stuck_steps unfolding stuck_def by (intro exI [of _ ?s]) (auto simp: init_timer_def)
qed

theorem collection_lost_witness:
  "\<exists>s. timer_steps demo_fpu (\<lambda>u. u = 1000000) (init_timer demo_fpu) s \<and> collect_usec s = 1000000 \<and>
    workers s = []"
  using collection_lost [of 1000000 demo_fpu] by fastforce

text \<open>
  Threads accumulate.  A call that stops collection only asks the thread to end at its next test
  of \<open>running_thread\<close>; if collection is enabled again before that, the old thread goes on beside the
  new one.  For every number \<open>n\<close> there is a run of calls that alternately stop and start collection
  after which \<open>n\<close> threads update the same list.
\<close>

theorem threads_accumulate:
  assumes "0 < sint usec"
  shows "\<exists>s. timer_steps f (\<lambda>u. u = usec \<or> u = 0) (init_timer f) s \<and>
    setters s = [] \<and> workers s = replicate n W_Update"
proof (induction n)
  case 0
  show ?case
    by (intro exI [of _ "init_timer f"]) (simp add: init_timer_def)
next
  case (Suc n)
  then obtain s where s: "timer_steps f (\<lambda>u. u = usec \<or> u = 0) (init_timer f) s"
      "setters s = []" "workers s = replicate n W_Update"
    by blast
  let ?ts = "[Call 0, Setter 0, Setter 0, Call usec, Setter 0, Setter 0, Setter 0, Setter 0, Worker n, Worker n]"
  let ?s = "s\<lparr>collect_usec := usec, running_thread := True, workers := replicate n W_Update @ [W_Update],
      setters := []\<rparr>"
  have m: "move n (Some x) (replicate n W_Update @ [y]) = replicate n W_Update @ [x]" for x y
    using move_simps(3) [of "replicate n W_Update"] by simp
  have "take_turns e f s0 now ?ts s = Some ?s" for e s0 now
    using assms s(2,3) by (simp add: m nth_append)
  then have "timer_steps f (\<lambda>u. u = usec \<or> u = 0) s ?s"
    by (rule take_turns_steps) (simp add: calls_of_def)
  then show ?case
    using s by (intro exI [of _ ?s]) (auto simp: replicate_append_same)
qed

theorem threads_accumulate_witness:
  "\<exists>s. timer_steps demo_fpu (\<lambda>u. u = 5000 \<or> u = 0) (init_timer demo_fpu) s \<and>
    workers s = [W_Update, W_Update]"
  using threads_accumulate [of 5000 demo_fpu 2] by (force simp: numeral_2_eq_2)


subsection \<open>Stopping\<close>

text \<open>The collector whose interfaces can be read: the names are C strings and fit into the array for the path.\<close>

definition monitorable :: "collector \<Rightarrow> bool" where
  "monitorable c \<longleftrightarrow> (\<forall>p\<in>set (list_net_statistics c). named (Some (fst p)) \<and> slen (Some (fst p)) \<le> 153)"

lemma update_list_no_fault:
  "\<forall>p\<in>set l. named (Some (fst p)) \<and> slen (Some (fst p)) \<le> 153 \<Longrightarrow> \<exists>l'. update_list e f a s0 now l i = Inr l'"
proof (induction l arbitrary: i)
  case (Cons p ps)
  then show ?case
    using get_statistics_local_ok [of "Some (fst p)" e s0] Cons.IH [of "Suc i"] by fastforce
qed simp

lemma update_means_no_fault: "monitorable c \<Longrightarrow> \<exists>c'. update_means e f s0 now c = Inr c'"
  using update_list_no_fault [of "list_net_statistics c" e f "ewma_alpha c" s0 now 0]
  by (auto simp: monitorable_def update_means_def)

lemma update_means_monitorable: "update_means e f s0 now c = Inr c' \<Longrightarrow> monitorable c' = monitorable c"
proof -
  assume "update_means e f s0 now c = Inr c'"
  then obtain l where l: "c' = c\<lparr>list_net_statistics := l\<rparr>" "update_list e f (ewma_alpha c) s0 now (list_net_statistics c) 0 = Inr l"
    by (auto simp: update_means_def and_then_eq_Inr)
  have n: "monitorable d \<longleftrightarrow> (\<forall>n\<in>set (map fst (list_net_statistics d)). named (Some n) \<and> slen (Some n) \<le> 153)" for d
    by (auto simp: monitorable_def)
  show ?thesis
    using list_all2_names [OF update_list_shape [OF l(2)]] unfolding n l(1) by simp
qed

text \<open>The steps that a thread still has to make once \<open>running_thread\<close> is off.\<close>

primrec to_do :: "worker \<Rightarrow> nat" where
  "to_do W_Begin = 2"
| "to_do W_Loop = 1"
| "to_do W_Update = 2"

definition work_left :: "timer \<Rightarrow> nat" where
  "work_left s = sum_list (map to_do (workers s)) + length (setters s)"

text \<open>The states after the first statement of the last call, which stops the collection.\<close>

definition stopped :: "timer \<Rightarrow> bool" where
  "stopped s \<longleftrightarrow> \<not> running_thread s \<and> monitorable (means_list s) \<and>
     (setters s = [Set_Stop] \<or> setters s = [] \<and> collect_usec s = - 1)"

lemma sum_list_move:
  assumes "i < length xs"
  shows "sum_list (map (f :: 'a \<Rightarrow> nat) (move i x xs)) + f (xs ! i) = sum_list (map f xs) + (case x of None \<Rightarrow> 0 | Some y \<Rightarrow> f y)"
proof -
  have xs: "sum_list (map f xs) = sum_list (map f (take i xs)) + f (xs ! i) + sum_list (map f (drop (Suc i) xs))"
    using arg_cong [OF id_take_nth_drop [OF assms], of "\<lambda>l. sum_list (map f l)"] by (simp add: add.assoc)
  show ?thesis
    using assms by (cases x) (simp_all add: move_def unlink_def xs upd_conv_take_nth_drop)
qed

lemma stopped_step:
  assumes "timer_step f (\<lambda>_. False) s s'" "stopped s"
  shows "stopped s' \<and> work_left s' < work_left s"
  using assms
proof (induction rule: timer_step.induct)
  case (setter i s created s' x)
  then have "setters s = [Set_Stop]" "i = 0"
    by (auto simp: stopped_def)
  then show ?case
    using setter by (auto simp: stopped_def work_left_def)
next
  case (worker i s e s0 now s' x)
  then have r: "\<not> running_thread s"
    by (simp add: stopped_def)
  have s: "setters s' = setters s" "workers s' = workers s" "collect_usec s' = collect_usec s" "running_thread s' = running_thread s"
      "monitorable (means_list s') = monitorable (means_list s)" "(case x of None \<Rightarrow> 0 | Some y \<Rightarrow> to_do y) < to_do (workers s ! i)"
    using worker.hyps(2) r by (cases "workers s ! i"; auto simp: and_then_eq_Inr update_means_monitorable)+
  then show ?case
    using worker.prems sum_list_move [OF worker.hyps(1), of to_do x] by (simp add: stopped_def work_left_def)
qed simp

lemma stopped_progress:
  assumes "stopped s"
  shows "setters s = [] \<and> workers s = [] \<and> collect_usec s = - 1 \<or> (\<exists>s'. timer_step f (\<lambda>_. False) s s')"
proof (cases "setters s = []")
  case True
  show ?thesis
  proof (cases "workers s")
    case Nil
    then show ?thesis
      using assms True by (simp add: stopped_def)
  next
    case (Cons w ws)
    have "\<exists>s' x. thread_get_net_statistics demo_env f demo_stats0 now w s = Inr (s', x)" for now
      using update_means_no_fault [of "means_list s" demo_env f demo_stats0 now] assms by (cases w) (auto simp: stopped_def)
    then show ?thesis
      using timer_step.worker [of 0 s demo_env f demo_stats0] Cons by fastforce
  qed
next
  case False
  then show ?thesis
    using timer_step.setter [of 0 s] by (cases "set_timed_net_statistics True (setters s ! 0) s") blast
qed

lemma stopped_run:
  "(timer_step f (\<lambda>_. False) ^^ n) s s' \<Longrightarrow> stopped s \<Longrightarrow> stopped s' \<and> n + work_left s' \<le> work_left s"
proof (induction n arbitrary: s')
  case (Suc n)
  then obtain s1 where "(timer_step f (\<lambda>_. False) ^^ n) s s1" "timer_step f (\<lambda>_. False) s1 s'"
    by auto
  then show ?case
    using Suc.IH [of s1] Suc.prems(2) stopped_step [of f s1 s'] by fastforce
qed simp

lemma work_left_bound: "work_left s \<le> 2 * length (workers s) + length (setters s)"
proof -
  have "to_do w \<le> 2" for w
    by (cases w) simp_all
  then have "sum_list (map to_do ws) \<le> 2 * length ws" for ws
    using sum_list_mono [of ws to_do "\<lambda>_. 2"] by (simp add: sum_list_triv)
  then show ?thesis
    by (simp add: work_left_def)
qed

text \<open>
  C22 Collection can be stopped.  A call with \<open>usec\<close> not positive, made when no other call is in progress and
  not followed by another one, ends all collecting threads: whatever the interleaving, at most two steps of
  every thread and one of the call remain, and the steps only come to an end when the call has returned, no thread
  exists and collection is marked as stopped.
\<close>

theorem collection_stops:
  assumes "sint usec \<le> 0" "setters s = []" "monitorable (means_list s)"
    and "take_turns e f s0 now [Call usec, Setter 0] s = Some s1"
    and "(timer_step f (\<lambda>_. False) ^^ n) s1 s2"
  shows "n \<le> 2 * length (workers s) + 1 \<and>
    (setters s2 = [] \<and> workers s2 = [] \<and> collect_usec s2 = - 1 \<or> (\<exists>s3. timer_step f (\<lambda>_. False) s2 s3))"
proof -
  have s1: "s1 = s\<lparr>running_thread := False, setters := [Set_Stop]\<rparr>"
    using assms(1,2,4) by simp
  then have "stopped s1"
    using assms(3) by (simp add: stopped_def)
  from stopped_run [OF assms(5) this] stopped_progress [of s2 f] work_left_bound [of s1] show ?thesis
    by (auto simp: s1)
qed

theorem collection_stops_witness:
  "let s1 = (init_timer demo_fpu)\<lparr>collect_usec := 5000, workers := [W_Loop], running_thread := False, setters := [Set_Stop]\<rparr>;
       s2 = (init_timer demo_fpu)\<lparr>running_thread := False\<rparr>
   in (timer_step demo_fpu (\<lambda>_. False) ^^ 2) s1 s2 \<and> (2 :: nat) \<le> 2 * length (workers s1) + 1 \<and>
     (\<nexists>s3. (timer_step demo_fpu (\<lambda>_. False) ^^ 4) s1 s3)"
proof -
  let ?s = "(init_timer demo_fpu)\<lparr>collect_usec := 5000, workers := [W_Loop]\<rparr>"
  let ?s1 = "(init_timer demo_fpu)\<lparr>collect_usec := 5000, workers := [W_Loop], running_thread := False, setters := [Set_Stop]\<rparr>"
  let ?m = "(init_timer demo_fpu)\<lparr>workers := [W_Loop], running_thread := False\<rparr>"
  let ?s2 = "(init_timer demo_fpu)\<lparr>running_thread := False\<rparr>"
  have pre: "sint (0 :: c_int) \<le> 0" "setters ?s = []" "monitorable (means_list ?s)"
      "take_turns demo_env demo_fpu demo_stats0 (\<lambda>_. \<lparr>tv_sec = 0, tv_usec = 0\<rparr>) [Call 0, Setter 0] ?s = Some ?s1"
    by (simp_all add: init_timer_def init_collector_def monitorable_def)
  have "timer_step demo_fpu (\<lambda>_. False) ?s1 ?m"
    by (rule take_turn_step [of demo_env _ demo_stats0 "\<lambda>_. \<lparr>tv_sec = 0, tv_usec = 0\<rparr>" "Setter 0"]) (simp_all add: init_timer_def)
  moreover have "timer_step demo_fpu (\<lambda>_. False) ?m ?s2"
    by (rule take_turn_step [of demo_env _ demo_stats0 "\<lambda>_. \<lparr>tv_sec = 0, tv_usec = 0\<rparr>" "Worker 0"]) (simp_all add: init_timer_def)
  ultimately have run: "(timer_step demo_fpu (\<lambda>_. False) ^^ 2) ?s1 ?s2"
    by (auto simp: numeral_2_eq_2)
  show ?thesis
    using run collection_stops [OF pre run] collection_stops [OF pre, of 4] by (force simp: Let_def)
qed

end
