(* ===== verification/Msg_Mean.thy ===== *)
theory Msg_Mean
  imports Arrays Collector
begin

section \<open>Messages of the mean statistics (\<open>messaging/msg_mean_sta_stats.c\<close>)\<close>

text \<open>
  Five messages share one handler: get the means of all interfaces, add and remove an interface, set
  the weight of the means and the time between two collections.  The fields \<open>sta_ip\<close> and
  \<open>sta_port\<close> of these structures are called \<open>peer_ip\<close> and \<open>peer_port\<close> here, except in the interface
  messages, which have the shape of \<open>sta_query\<close>.
\<close>

record peer_msg = msg_header +
  peer_ip :: cstr
  peer_port :: c_int

record msg_mean_sta_statistics = peer_msg +
  all_means :: "all_mean_net_statistics option"

type_synonym msg_mean_sta_statistics_interface = sta_query

record msg_mean_sta_statistics_alpha = peer_msg +
  alpha :: c_ldouble

record msg_mean_sta_statistics_time = peer_msg +
  msec :: c_int


subsection \<open>The means of all interfaces\<close>

text \<open>\<open>sizeof (mean_net_statistics)\<close> is \<open>23 * 16 = 368\<close>.\<close>

definition size_msg_mean_sta_statistics :: "msg_mean_sta_statistics \<Rightarrow> fault + c_int" where
  "size_msg_mean_sta_statistics h = sum_sizes
     ([sizeof 4, sizeof 4, strlen_ethanol (p_version h), sizeof 4, strlen_ethanol (peer_ip h), sizeof 4,
       sizeof 4] @ (case all_means h of
         None \<Rightarrow> []
       | Some v \<Rightarrow> [size_each strlen_ethanol (num v) (intfs v), Inr (num v * 368)]))"

definition encode_means :: "mean_net_statistics \<Rightarrow> wcur step" where
  "encode_means m = run_prog
    [encode_longdouble (mean_collisions m),
     encode_longdouble (mean_multicast m),
     encode_longdouble (mean_rx_bytes m),
     encode_longdouble (mean_rx_compressed m),
     encode_longdouble (mean_rx_crc_errors m),
     encode_longdouble (mean_rx_dropped m),
     encode_longdouble (mean_rx_errors m),
     encode_longdouble (mean_rx_fifo_errors m),
     encode_longdouble (mean_rx_frame_errors m),
     encode_longdouble (mean_rx_length_errors m),
     encode_longdouble (mean_rx_missed_errors m),
     encode_longdouble (mean_rx_over_errors m),
     encode_longdouble (mean_rx_packets m),
     encode_longdouble (mean_tx_aborted_errors m),
     encode_longdouble (mean_tx_bytes m),
     encode_longdouble (mean_tx_carrier_errors m),
     encode_longdouble (mean_tx_compressed m),
     encode_longdouble (mean_tx_dropped m),
     encode_longdouble (mean_tx_errors m),
     encode_longdouble (mean_tx_fifo_errors m),
     encode_longdouble (mean_tx_heartbeat_errors m),
     encode_longdouble (mean_tx_packets m),
     encode_longdouble (mean_tx_window_errors m)]"

text \<open>Every field of an element of the new array is assigned.\<close>

definition decode_means :: "rcur \<Rightarrow> fault + mean_net_statistics \<times> rcur" where
  "decode_means r = and_then (run_prog
    [into decode_longdouble mean_collisions_update,
     into decode_longdouble mean_multicast_update,
     into decode_longdouble mean_rx_bytes_update,
     into decode_longdouble mean_rx_compressed_update,
     into decode_longdouble mean_rx_crc_errors_update,
     into decode_longdouble mean_rx_dropped_update,
     into decode_longdouble mean_rx_errors_update,
     into decode_longdouble mean_rx_fifo_errors_update,
     into decode_longdouble mean_rx_frame_errors_update,
     into decode_longdouble mean_rx_length_errors_update,
     into decode_longdouble mean_rx_missed_errors_update,
     into decode_longdouble mean_rx_over_errors_update,
     into decode_longdouble mean_rx_packets_update,
     into decode_longdouble mean_tx_aborted_errors_update,
     into decode_longdouble mean_tx_bytes_update,
     into decode_longdouble mean_tx_carrier_errors_update,
     into decode_longdouble mean_tx_compressed_update,
     into decode_longdouble mean_tx_dropped_update,
     into decode_longdouble mean_tx_errors_update,
     into decode_longdouble mean_tx_fifo_errors_update,
     into decode_longdouble mean_tx_heartbeat_errors_update,
     into decode_longdouble mean_tx_packets_update,
     into decode_longdouble mean_tx_window_errors_update]
     (r, zero_means)) (\<lambda>(r, m). Inr (m, r))"

definition encode_msg_mean_sta_statistics ::
  "allocator \<Rightarrow> msg_mean_sta_statistics \<Rightarrow> fault + msg_mean_sta_statistics \<times> u8 list" where
  "encode_msg_mean_sta_statistics mal = encode_frame mal size_msg_mean_sta_statistics (\<lambda>h.
     [encode_header (m_type h) (m_id h) (m_size h),
      encode_char (peer_ip h),
      encode_int (peer_port h)] @ (case all_means h of
        None \<Rightarrow> [encode_int 0]
      | Some v \<Rightarrow> [encode_int (num v),
          encode_each encode_char (num v) (intfs v),
          encode_each encode_means (num v) (ns v)]))"

definition decode_all_means :: "(rcur \<times> msg_mean_sta_statistics) step" where
  "decode_all_means = (\<lambda>(r, h). and_then (decode_int r) (\<lambda>(n, r).
     if n = 0 then Inr (r, h\<lparr>all_means := None\<rparr>)
     else and_then (decode_each decode_char n r) (\<lambda>(names, r).
       and_then (decode_each decode_means n r) (\<lambda>(ms, r).
         Inr (r, h\<lparr>all_means := Some \<lparr>num = n, intfs = names, ns = ms\<rparr>\<rparr>)))))"

definition decode_msg_mean_sta_statistics ::
  "u8 list \<Rightarrow> msg_mean_sta_statistics \<Rightarrow> fault + msg_mean_sta_statistics" where
  "decode_msg_mean_sta_statistics = decode_frame
     [decode_header,
      into decode_char peer_ip_update,
      into decode_int peer_port_update,
      decode_all_means]"

text \<open>The field with the means is not initialised before the size is computed and the message encoded.\<close>

definition send_msg_mean_sta_statistics ::
  "env \<Rightarrow> cstr \<Rightarrow> c_int \<Rightarrow> c_int \<Rightarrow> cstr \<Rightarrow> c_int \<Rightarrow> msg_mean_sta_statistics \<Rightarrow> msg_mean_sta_statistics
   \<Rightarrow> fault + effect list \<times> c_int \<times> msg_mean_sta_statistics option" where
  "send_msg_mean_sta_statistics e hostname portnum idc staip staport hs hm =
     send_sync e hostname portnum idc
       (\<lambda>i. run_prog
         [assign m_type_update MSG_MEAN_STA_STATISTICS_GET,
          assign m_id_update i,
          assign p_version_update ETHANOL_VERSION,
          copy_to e peer_ip_update staip,
          assign peer_port_update staport,
          set_size size_msg_mean_sta_statistics] hs)
       (encode_msg_mean_sta_statistics (mallocs e))
       (\<lambda>t. t = MSG_MEAN_STA_STATISTICS_GET)
       (\<lambda>buf. decode_msg_mean_sta_statistics buf hm)"


subsection \<open>Adding and removing an interface\<close>

definition size_msg_mean_sta_statistics_interface ::
  "msg_mean_sta_statistics_interface \<Rightarrow> fault + c_int" where
  "size_msg_mean_sta_statistics_interface h = sum_sizes
     [sizeof 4, sizeof 4, strlen_ethanol (p_version h), sizeof 4, strlen_ethanol (sta_ip h), sizeof 4,
      strlen_ethanol (intf_name h)]"

definition encode_msg_mean_sta_statistics_interface ::
  "allocator \<Rightarrow> msg_mean_sta_statistics_interface \<Rightarrow> fault + msg_mean_sta_statistics_interface \<times> u8 list" where
  "encode_msg_mean_sta_statistics_interface mal = encode_frame mal size_msg_mean_sta_statistics_interface (\<lambda>h.
     [encode_header (m_type h) (m_id h) (m_size h),
      encode_char (sta_ip h),
      encode_int (sta_port h),
      encode_char (intf_name h)])"

definition decode_msg_mean_sta_statistics_interface ::
  "u8 list \<Rightarrow> msg_mean_sta_statistics_interface \<Rightarrow> fault + msg_mean_sta_statistics_interface" where
  "decode_msg_mean_sta_statistics_interface = decode_frame
     [decode_header,
      into decode_char sta_ip_update,
      into decode_int sta_port_update,
      into decode_char intf_name_update]"

definition send_msg_mean_sta_statistics_interface ::
  "env \<Rightarrow> cstr \<Rightarrow> c_int \<Rightarrow> c_int \<Rightarrow> cstr \<Rightarrow> c_int \<Rightarrow> cstr \<Rightarrow> bool \<Rightarrow> msg_mean_sta_statistics_interface
   \<Rightarrow> fault + effect list \<times> c_int" where
  "send_msg_mean_sta_statistics_interface e hostname portnum idc staip staport intf add_it hs =
     send_async e hostname portnum idc
       (\<lambda>i. run_prog
         [assign m_type_update (if add_it then MSG_MEAN_STA_STATISTICS_SET_INTERFACE
            else MSG_MEAN_STA_STATISTICS_REMOVE_INTERFACE),
          assign m_id_update i,
          assign p_version_update ETHANOL_VERSION,
          copy_to e sta_ip_update staip,
          assign sta_port_update staport,
          copy_to e intf_name_update intf,
          set_size size_msg_mean_sta_statistics_interface] hs)
       (encode_msg_mean_sta_statistics_interface (mallocs e))"

definition send_msg_mean_sta_statistics_interface_add ::
  "env \<Rightarrow> cstr \<Rightarrow> c_int \<Rightarrow> c_int \<Rightarrow> cstr \<Rightarrow> c_int \<Rightarrow> cstr \<Rightarrow> msg_mean_sta_statistics_interface
   \<Rightarrow> fault + effect list \<times> c_int" where
  "send_msg_mean_sta_statistics_interface_add e hostname portnum idc staip staport intf hs =
     send_msg_mean_sta_statistics_interface e hostname portnum idc staip staport intf True hs"

definition send_msg_mean_sta_statistics_interface_remove ::
  "env \<Rightarrow> cstr \<Rightarrow> c_int \<Rightarrow> c_int \<Rightarrow> cstr \<Rightarrow> c_int \<Rightarrow> cstr \<Rightarrow> msg_mean_sta_statistics_interface
   \<Rightarrow> fault + effect list \<times> c_int" where
  "send_msg_mean_sta_statistics_interface_remove e hostname portnum idc staip staport intf hs =
     send_msg_mean_sta_statistics_interface e hostname portnum idc staip staport intf False hs"


subsection \<open>Setting the weight\<close>

definition size_msg_mean_sta_statistics_alpha :: "msg_mean_sta_statistics_alpha \<Rightarrow> fault + c_int" where
  "size_msg_mean_sta_statistics_alpha h = sum_sizes
     [sizeof 4, sizeof 4, strlen_ethanol (p_version h), sizeof 4, strlen_ethanol (peer_ip h), sizeof 4,
      sizeof 16]"

definition encode_msg_mean_sta_statistics_alpha ::
  "allocator \<Rightarrow> msg_mean_sta_statistics_alpha \<Rightarrow> fault + msg_mean_sta_statistics_alpha \<times> u8 list" where
  "encode_msg_mean_sta_statistics_alpha mal = encode_frame mal size_msg_mean_sta_statistics_alpha (\<lambda>h.
     [encode_header (m_type h) (m_id h) (m_size h),
      encode_char (peer_ip h),
      encode_int (peer_port h),
      encode_longdouble (alpha h)])"

definition decode_msg_mean_sta_statistics_alpha ::
  "u8 list \<Rightarrow> msg_mean_sta_statistics_alpha \<Rightarrow> fault + msg_mean_sta_statistics_alpha" where
  "decode_msg_mean_sta_statistics_alpha = decode_frame
     [decode_header,
      into decode_char peer_ip_update,
      into decode_int peer_port_update,
      into decode_longdouble alpha_update]"

definition send_msg_mean_sta_statistics_alpha ::
  "fpu \<Rightarrow> env \<Rightarrow> cstr \<Rightarrow> c_int \<Rightarrow> c_int \<Rightarrow> cstr \<Rightarrow> c_int \<Rightarrow> c_ldouble \<Rightarrow> msg_mean_sta_statistics_alpha
   \<Rightarrow> fault + effect list \<times> c_int" where
  "send_msg_mean_sta_statistics_alpha f e hostname portnum idc staip staport v hs =
     (if ld_less f v (ld_of_long f 0) \<or> ld_less f (ld_of_long f 1) v then Inr ([], idc)
      else send_async e hostname portnum idc
       (\<lambda>i. run_prog
         [assign m_type_update MSG_MEAN_STA_STATISTICS_SET_ALPHA,
          assign m_id_update i,
          assign p_version_update ETHANOL_VERSION,
          copy_to e peer_ip_update staip,
          assign peer_port_update staport,
          assign alpha_update v,
          set_size size_msg_mean_sta_statistics_alpha] hs)
       (encode_msg_mean_sta_statistics_alpha (mallocs e)))"


subsection \<open>Setting the time between collections\<close>

definition size_msg_mean_sta_statistics_time :: "msg_mean_sta_statistics_time \<Rightarrow> fault + c_int" where
  "size_msg_mean_sta_statistics_time h = sum_sizes
     [sizeof 4, sizeof 4, strlen_ethanol (p_version h), sizeof 4, strlen_ethanol (peer_ip h), sizeof 4,
      sizeof 4]"

definition encode_msg_mean_sta_statistics_time ::
  "allocator \<Rightarrow> msg_mean_sta_statistics_time \<Rightarrow> fault + msg_mean_sta_statistics_time \<times> u8 list" where
  "encode_msg_mean_sta_statistics_time mal = encode_frame mal size_msg_mean_sta_statistics_time (\<lambda>h.
     [encode_header (m_type h) (m_id h) (m_size h),
      encode_char (peer_ip h),
      encode_int (peer_port h),
      encode_int (msec h)])"

definition decode_msg_mean_sta_statistics_time ::
  "u8 list \<Rightarrow> msg_mean_sta_statistics_time \<Rightarrow> fault + msg_mean_sta_statistics_time" where
  "decode_msg_mean_sta_statistics_time = decode_frame
     [decode_header,
      into decode_char peer_ip_update,
      into decode_int peer_port_update,
      into decode_int msec_update]"

definition send_msg_mean_sta_statistics_time ::
  "env \<Rightarrow> cstr \<Rightarrow> c_int \<Rightarrow> c_int \<Rightarrow> cstr \<Rightarrow> c_int \<Rightarrow> c_int \<Rightarrow> msg_mean_sta_statistics_time
   \<Rightarrow> fault + effect list \<times> c_int" where
  "send_msg_mean_sta_statistics_time e hostname portnum idc staip staport v hs =
     send_async e hostname portnum idc
       (\<lambda>i. run_prog
         [assign m_type_update MSG_MEAN_STA_STATISTICS_SET_TIME,
          assign m_id_update i,
          assign p_version_update ETHANOL_VERSION,
          copy_to e peer_ip_update staip,
          assign peer_port_update staport,
          assign msec_update v,
          set_size size_msg_mean_sta_statistics_time] hs)
       (encode_msg_mean_sta_statistics_time (mallocs e))"


subsection \<open>The handler\<close>

text \<open>
  The handler decodes the header, and with the type that it finds the whole message again.  The
  message that sets the time starts a call of \<open>set_timed_net_statistics\<close>, whose statements are
  steps of \<open>Collector\<close>; milliseconds are turned into microseconds in an \<open>int\<close>.  \<open>hd\<close> and the \<open>h\<close>s
  are the uninitialised structures, \<open>s0\<close> the uninitialised counters, \<open>now\<close> the time.
\<close>

record mean_junk =
  j_head :: msg_header
  j_get :: msg_mean_sta_statistics
  j_intf :: msg_mean_sta_statistics_interface
  j_alpha :: msg_mean_sta_statistics_alpha
  j_time :: msg_mean_sta_statistics_time
  j_counters :: net_statistics

definition process_msg_mean_sta_statistics ::
  "env \<Rightarrow> timeval \<Rightarrow> u8 list \<Rightarrow> mean_junk \<Rightarrow> timer \<Rightarrow> fault + timer \<times> effect list \<times> u8 list option" where
  "process_msg_mean_sta_statistics e now input j s =
     and_then (decode_header (input, j_head j)) (\<lambda>(_, hdr).
     if m_type hdr = MSG_MEAN_STA_STATISTICS_GET then
       and_then (decode_msg_mean_sta_statistics input (j_get j)) (\<lambda>h1.
       and_then (get_all_mean_net_statistics (mallocs e) (means_list s)) (\<lambda>v.
       and_then (encode_msg_mean_sta_statistics (mallocs e) (h1\<lparr>all_means := v\<rparr>)) (\<lambda>(_, output).
         Inr (s, [], Some output))))
     else if m_type hdr = MSG_MEAN_STA_STATISTICS_SET_INTERFACE then
       and_then (decode_msg_mean_sta_statistics_interface input (j_intf j)) (\<lambda>h2.
       and_then (add_intf_net_statistics e (j_counters j) now (intf_name h2) (means_list s)) (\<lambda>c.
         Inr (s\<lparr>means_list := c\<rparr>, [], None)))
     else if m_type hdr = MSG_MEAN_STA_STATISTICS_REMOVE_INTERFACE then
       and_then (decode_msg_mean_sta_statistics_interface input (j_intf j)) (\<lambda>h3.
       and_then (remove_intf_net_statistics (intf_name h3) (means_list s)) (\<lambda>c.
         Inr (s\<lparr>means_list := c\<rparr>, [], None)))
     else if m_type hdr = MSG_MEAN_STA_STATISTICS_SET_ALPHA then
       and_then (decode_msg_mean_sta_statistics_alpha input (j_alpha j)) (\<lambda>h4.
         Inr (s\<lparr>means_list := set_ewma_alpha (alpha h4) (means_list s)\<rparr>, [], None))
     else if m_type hdr = MSG_MEAN_STA_STATISTICS_SET_TIME then
       and_then (decode_msg_mean_sta_statistics_time input (j_time j)) (\<lambda>h5.
         Inr (s\<lparr>setters := setters s @ [Set_Begin (msec h5 * 1000)]\<rparr>, [], None))
     else Inr (s, [], None))"


subsection \<open>The codecs\<close>

definition means_fields :: "mean_net_statistics \<Rightarrow> c_ldouble list" where
  "means_fields m = [mean_collisions m, mean_multicast m, mean_rx_bytes m, mean_rx_compressed m,
     mean_rx_crc_errors m, mean_rx_dropped m, mean_rx_errors m, mean_rx_fifo_errors m,
     mean_rx_frame_errors m, mean_rx_length_errors m, mean_rx_missed_errors m, mean_rx_over_errors m,
     mean_rx_packets m, mean_tx_aborted_errors m, mean_tx_bytes m, mean_tx_carrier_errors m,
     mean_tx_compressed m, mean_tx_dropped m, mean_tx_errors m, mean_tx_fifo_errors m,
     mean_tx_heartbeat_errors m, mean_tx_packets m, mean_tx_window_errors m]"

definition ser_means :: "mean_net_statistics \<Rightarrow> u8 list" where
  "ser_means m = concat (map (le_bytes 16) (means_fields m))"

lemma encode_means_put [codec]: "encode_means m = put (ser_means m)"
proof -
  have "encode_means m = run_prog (map put (map (le_bytes 16) (means_fields m)))"
    by (simp add: encode_means_def means_fields_def ldouble_f.enc_put)
  then show ?thesis
    by (simp only: run_prog_put_all ser_means_def)
qed

lemma length_ser_means [simp]: "length (ser_means m) = 368"
  by (simp add: ser_means_def means_fields_def)

lemma decode_means_ser [codec]: "decode_means (ser_means m @ r) = Inr (m, r)"
  by (simp add: decode_means_def ser_means_def means_fields_def ldouble_f.into_ser)

definition ok_all_means :: "all_mean_net_statistics \<Rightarrow> bool" where
  "ok_all_means v \<longleftrightarrow> counted (num v) (intfs v) \<and> counted (num v) (ns v) \<and> intfs v \<noteq> [] \<and>
     (\<forall>s\<in>set (intfs v). ok_str s)"

definition bytes_all_means :: "all_mean_net_statistics option \<Rightarrow> nat" where
  "bytes_all_means x = (case x of None \<Rightarrow> 0
     | Some v \<Rightarrow> sum_list (map (\<lambda>s. slen s + 5) (intfs v)) + 368 * length (ns v))"

definition ser_all_means :: "all_mean_net_statistics option \<Rightarrow> u8 list list" where
  "ser_all_means x = (case x of None \<Rightarrow> [le_bytes 4 (0 :: c_int)]
     | Some v \<Rightarrow> [le_bytes 4 (num v), concat (map ser_str (intfs v)), concat (map ser_means (ns v))])"

definition norm_all_means :: "all_mean_net_statistics option \<Rightarrow> all_mean_net_statistics option" where
  "norm_all_means = map_option (intfs_update (map canon))"

definition bytes_mean :: "msg_mean_sta_statistics \<Rightarrow> nat" where
  "bytes_mean h = slen (p_version h) + slen (peer_ip h) + bytes_all_means (all_means h) + 30"

definition ok_mean :: "msg_mean_sta_statistics \<Rightarrow> bool" where
  "ok_mean h \<longleftrightarrow> ok_header h \<and> ok_str (peer_ip h) \<and> (\<forall>v. all_means h = Some v \<longrightarrow> ok_all_means v)
     \<and> bytes_mean h < 2 ^ 31"

definition norm_mean :: "msg_mean_sta_statistics \<Rightarrow> msg_mean_sta_statistics \<Rightarrow> msg_mean_sta_statistics" where
  "norm_mean h0 h = (norm_header (bytes_mean h) h)\<lparr>peer_ip := canon (peer_ip h),
     all_means := norm_all_means (all_means h)\<rparr>"

lemma size_all_means:
  assumes "ok_all_means v"
  shows "sum_sizes [size_each strlen_ethanol (num v) (intfs v), Inr (num v * 368)]
    = sizeof (bytes_all_means (Some v))"
proof -
  have "size_each strlen_ethanol (num v) (intfs v) = sizeof (sum_list (map (\<lambda>s. slen s + 5) (intfs v)))"
    by (rule size_each_sum) (use assms in \<open>auto simp: ok_all_means_def strlen_ethanol_wf ok_strD\<close>)
  moreover have "Inr (num v * 368) = sizeof (368 * length (ns v))"
    using counted_num [of "num v" "ns v"] assms by (simp add: ok_all_means_def sizeof_def mult.commute)
  ultimately show ?thesis
    by (simp add: bytes_all_means_def)
qed

lemma encode_all_means:
  assumes "ok_all_means v"
  shows "encode_each encode_char (num v) (intfs v) = put (concat (map ser_str (intfs v)))"
    and "encode_each encode_means (num v) (ns v) = put (concat (map ser_means (ns v)))"
  using assms by (auto simp: ok_all_means_def encode_char_put encode_means_put intro!: encode_each_put)

lemma decode_all_means_ser:
  assumes "\<And>v. x = Some v \<Longrightarrow> ok_all_means v"
  shows "decode_all_means (concat (ser_all_means x) @ r, h) = Inr (r, h\<lparr>all_means := norm_all_means x\<rparr>)"
proof (cases x)
  case None
  then show ?thesis
    by (simp add: decode_all_means_def ser_all_means_def norm_all_means_def int_f.dec_ser)
next
  case (Some v)
  have c: "counted (num v) (intfs v)" "counted (num v) (ns v)" "num v \<noteq> 0"
      "\<And>s. s \<in> set (intfs v) \<Longrightarrow> ok_str s"
    using assms Some by (auto simp: ok_all_means_def counted_def)
  show ?thesis
    using decode_each_ser [OF c(1), of decode_char ser_str canon] decode_char_ser [OF c(4)]
      decode_each_ser [OF c(2), of decode_means ser_means "\<lambda>x. x"] decode_means_ser c(3)
    by (simp add: Some decode_all_means_def ser_all_means_def norm_all_means_def int_f.dec_ser)
qed

lemma length_ser_all_means: "(\<And>v. x = Some v \<Longrightarrow> ok_all_means v) \<Longrightarrow>
    length (concat (ser_all_means x)) \<le> bytes_all_means x + 4"
  using length_concat_le [of "case x of Some v \<Rightarrow> intfs v | None \<Rightarrow> []" ser_str "\<lambda>s. slen s + 5"]
  by (auto simp: ser_all_means_def bytes_all_means_def length_ser_str_le length_concat comp_def
      sum_list_triv split: option.splits)

lemma sum_sizes_append:
  "sum_sizes (xs @ ys) = and_then (sum_sizes xs) (\<lambda>a. and_then (sum_sizes ys) (\<lambda>b. Inr (a + b)))"
proof (induction xs)
  case Nil
  then show ?case by (cases "sum_sizes ys") (simp_all add: sizeof_def)
next
  case (Cons x xs)
  then show ?case
    by (cases x; cases "sum_sizes xs"; cases "sum_sizes ys") (simp_all add: sum_sizes.simps(2) add.assoc)
qed

lemma size_mean:
  assumes "ok_mean h"
  shows "size_msg_mean_sta_statistics h = sizeof (bytes_mean h)"
proof -
  let ?xs = "[sizeof 4, sizeof 4, strlen_ethanol (p_version h), sizeof 4, strlen_ethanol (peer_ip h), sizeof 4,
       sizeof 4]"
  have 1: "sum_sizes ?xs = sizeof (slen (p_version h) + slen (peer_ip h) + 30)"
    using assms by (simp add: ok_mean_def ok_header_def ac_simps)
  have "sum_sizes (case all_means h of None \<Rightarrow> []
       | Some v \<Rightarrow> [size_each strlen_ethanol (num v) (intfs v), Inr (num v * 368)])
    = sizeof (bytes_all_means (all_means h))"
    using assms size_all_means by (auto simp: ok_mean_def bytes_all_means_def split: option.split)
  then show ?thesis
    using 1 by (simp only: size_msg_mean_sta_statistics_def sum_sizes_append)
        (simp add: sizeof_def bytes_mean_def ac_simps)
qed

interpretation mean: msg_codec encode_msg_mean_sta_statistics decode_msg_mean_sta_statistics ok_mean
  norm_mean bytes_mean m_type
  unfolding encode_msg_mean_sta_statistics_def [abs_def] decode_msg_mean_sta_statistics_def
proof (rule frame_codecI [where bss = "\<lambda>m. [ser_str (peer_ip m), le_bytes 4 (peer_port m)] @ ser_all_means (all_means m)"],
    goal_cases)
  case (1 m)
  then show ?case by (rule size_mean)
next
  case (2 m)
  then show ?case by (simp add: ok_mean_def)
next
  case (3 m)
  then show ?case
    by (auto simp: codec ok_mean_def encode_char_put ser_all_means_def encode_all_means
        split: option.split)
next
  case (4 m)
  then show ?case
    using length_ser_all_means [of "all_means m"] length_ser_str_le [of "peer_ip m"]
    by (auto simp: ok_mean_def ok_header_def bytes_mean_def)
next
  case (5 m r h0)
  then show ?case
    using decode_all_means_ser [of "all_means m" r]
    by (simp add: ok_mean_def codec norm_mean_def norm_header_def)
qed

definition bytes_mean_intf :: "msg_mean_sta_statistics_interface \<Rightarrow> nat" where
  "bytes_mean_intf h = slen (p_version h) + slen (sta_ip h) + slen (intf_name h) + 31"

definition ok_mean_intf :: "msg_mean_sta_statistics_interface \<Rightarrow> bool" where
  "ok_mean_intf h \<longleftrightarrow> ok_header h \<and> ok_str (sta_ip h) \<and> ok_str (intf_name h) \<and> bytes_mean_intf h < 2 ^ 31"

definition norm_mean_intf ::
  "msg_mean_sta_statistics_interface \<Rightarrow> msg_mean_sta_statistics_interface \<Rightarrow> msg_mean_sta_statistics_interface" where
  "norm_mean_intf h0 h = (norm_header (bytes_mean_intf h) h)\<lparr>sta_ip := canon (sta_ip h), intf_name := canon (intf_name h)\<rparr>"

interpretation mean_intf: msg_codec encode_msg_mean_sta_statistics_interface decode_msg_mean_sta_statistics_interface
  ok_mean_intf norm_mean_intf bytes_mean_intf m_type
  unfolding encode_msg_mean_sta_statistics_interface_def [abs_def] decode_msg_mean_sta_statistics_interface_def
  by (rule frame_codecI [where bss = "\<lambda>m. [ser_str (sta_ip m), le_bytes 4 (sta_port m), ser_str (intf_name m)]"])
    (simp_all add: codec ok_mean_intf_def ok_header_def bytes_mean_intf_def norm_mean_intf_def
      size_msg_mean_sta_statistics_interface_def norm_header_def ac_simps encode_char_put length_ser_str)

definition bytes_mean_alpha :: "msg_mean_sta_statistics_alpha \<Rightarrow> nat" where
  "bytes_mean_alpha h = slen (p_version h) + slen (peer_ip h) + 42"

definition ok_mean_alpha :: "msg_mean_sta_statistics_alpha \<Rightarrow> bool" where
  "ok_mean_alpha h \<longleftrightarrow> ok_header h \<and> ok_str (peer_ip h) \<and> bytes_mean_alpha h < 2 ^ 31"

definition norm_mean_alpha ::
  "msg_mean_sta_statistics_alpha \<Rightarrow> msg_mean_sta_statistics_alpha \<Rightarrow> msg_mean_sta_statistics_alpha" where
  "norm_mean_alpha h0 h = (norm_header (bytes_mean_alpha h) h)\<lparr>peer_ip := canon (peer_ip h)\<rparr>"

interpretation mean_alpha: msg_codec encode_msg_mean_sta_statistics_alpha decode_msg_mean_sta_statistics_alpha
  ok_mean_alpha norm_mean_alpha bytes_mean_alpha m_type
  unfolding encode_msg_mean_sta_statistics_alpha_def [abs_def] decode_msg_mean_sta_statistics_alpha_def
  by (rule frame_codecI [where bss = "\<lambda>m. [ser_str (peer_ip m), le_bytes 4 (peer_port m), le_bytes 16 (alpha m)]"])
    (simp_all add: codec ok_mean_alpha_def ok_header_def bytes_mean_alpha_def norm_mean_alpha_def
      size_msg_mean_sta_statistics_alpha_def norm_header_def ac_simps encode_char_put length_ser_str)

definition bytes_mean_time :: "msg_mean_sta_statistics_time \<Rightarrow> nat" where
  "bytes_mean_time h = slen (p_version h) + slen (peer_ip h) + 30"

definition ok_mean_time :: "msg_mean_sta_statistics_time \<Rightarrow> bool" where
  "ok_mean_time h \<longleftrightarrow> ok_header h \<and> ok_str (peer_ip h) \<and> bytes_mean_time h < 2 ^ 31"

definition norm_mean_time ::
  "msg_mean_sta_statistics_time \<Rightarrow> msg_mean_sta_statistics_time \<Rightarrow> msg_mean_sta_statistics_time" where
  "norm_mean_time h0 h = (norm_header (bytes_mean_time h) h)\<lparr>peer_ip := canon (peer_ip h)\<rparr>"

interpretation mean_time: msg_codec encode_msg_mean_sta_statistics_time decode_msg_mean_sta_statistics_time
  ok_mean_time norm_mean_time bytes_mean_time m_type
  unfolding encode_msg_mean_sta_statistics_time_def [abs_def] decode_msg_mean_sta_statistics_time_def
  by (rule frame_codecI [where bss = "\<lambda>m. [ser_str (peer_ip m), le_bytes 4 (peer_port m), le_bytes 4 (msec m)]"])
    (simp_all add: codec ok_mean_time_def ok_header_def bytes_mean_time_def norm_mean_time_def
      size_msg_mean_sta_statistics_time_def norm_header_def ac_simps encode_char_put length_ser_str)


subsection \<open>Properties\<close>

lemma copy_names_ok:
  assumes "allocates mal" "\<forall>n\<in>set names. 0 \<in> set n"
  shows "\<exists>ds. copy_names mal names = Inr ds \<and> map chars ds = map str_chars names \<and> (\<forall>d\<in>set ds. wf_str d)"
  using assms(2)
proof (induction names)
  case Nil
  then show ?case by simp
next
  case (Cons n names)
  obtain d where "new_name mal (Some n) = Inr d" "str_chars d = chars (Some n)" "0 \<in> set d"
    by (rule new_name_ok [OF _ assms(1), of "Some n"]) (use Cons.prems in \<open>simp_all add: named_def wf_str_def\<close>)
  then show ?case
    using Cons by (auto simp: chars_def wf_str_def)
qed

text \<open>What the entries of a list take in a message.\<close>

definition report_bytes :: "net_entry table \<Rightarrow> nat" where
  "report_bytes l = sum_list (map (\<lambda>p. length (str_chars (fst p)) + 373) l)"

lemma report_bytes_bounds:
  "length l \<le> report_bytes l" "p \<in> set l \<Longrightarrow> length (str_chars (fst p)) \<le> report_bytes l"
  by (induction l) (auto simp: report_bytes_def)

lemma report_bytes_sum:
  "sum_list (map (\<lambda>n. n + 5) (map (\<lambda>p. length (str_chars (fst p))) l)) + 368 * length l = report_bytes l"
  by (induction l) (simp_all add: report_bytes_def)

lemma get_all_ok:
  assumes "allocates mal" "wf_collector c" "report_bytes (list_net_statistics c) < 2 ^ 31 - 100"
    and "list_net_statistics c \<noteq> []"
  obtains v where "get_all_mean_net_statistics mal c = Inr (Some v)" "ok_all_means v"
    "map chars (intfs v) = map (\<lambda>p. str_chars (fst p)) (list_net_statistics c)"
    "ns v = map (\<lambda>p. means (snd p)) (list_net_statistics c)"
    "bytes_all_means (Some v) = report_bytes (list_net_statistics c)"
proof -
  let ?l = "list_net_statistics c"
  have "\<forall>n\<in>set (map fst ?l). 0 \<in> set n"
    using assms(2) by (auto simp: wf_collector_def wf_table_def)
  then obtain ds where d: "copy_names mal (map fst ?l) = Inr ds"
      "map chars ds = map (\<lambda>p. str_chars (fst p)) ?l" "\<forall>d\<in>set ds. wf_str d"
    using copy_names_ok [OF assms(1)] by fastforce
  let ?v = "\<lparr>num = word_of_nat (length ?l), intfs = ds, ns = map (\<lambda>p. means (snd p)) ?l\<rparr>"
  have len: "length ds = length ?l"
    using d(2) by (metis length_map)
  have small: "length ?l < 2 ^ 31"
    using report_bytes_bounds(1) [of ?l] assms(3) by linarith
  have slens: "map slen ds = map (\<lambda>p. length (str_chars (fst p))) ?l"
    using arg_cong [OF d(2), of "map length"] by (simp add: slen_def [abs_def] comp_def)
  have "ok_str s" if s: "s \<in> set ds" for s
  proof -
    obtain p where "p \<in> set ?l" "slen s = length (str_chars (fst p))"
      using s slens by (metis (no_types, lifting) in_set_conv_nth len length_map nth_map)
    then show ?thesis
      using report_bytes_bounds(2) [of p ?l] assms(3) d(3) s by (simp add: ok_str_def)
  qed
  then have ok: "ok_all_means ?v"
    using counted_word [of ds] counted_word [of "map (\<lambda>p. means (snd p)) ?l"] small len assms(4)
    by (auto simp: ok_all_means_def)
  have "sum_list (map (\<lambda>s. slen s + 5) ds) = sum_list (map (\<lambda>n. n + 5) (map slen ds))"
    by (simp add: comp_def)
  also have "\<dots> + 368 * length ?l = report_bytes ?l"
    unfolding slens by (rule report_bytes_sum)
  finally have "bytes_all_means (Some ?v) = report_bytes ?l"
    by (simp add: bytes_all_means_def)
  moreover have "get_all_mean_net_statistics mal c = Inr (Some ?v)"
    using small assms(4) d(1) by (simp add: get_all_mean_net_statistics_def sint_word_of_small Let_def)
  ultimately show ?thesis
    using that [of ?v] ok d(2) by simp
qed

definition reports :: "all_mean_net_statistics option \<Rightarrow> net_entry table \<Rightarrow> bool" where
  "reports x l \<longleftrightarrow> (case norm_all_means x of None \<Rightarrow> l = []
     | Some v \<Rightarrow> map chars (intfs v) = map (\<lambda>p. str_chars (fst p)) l \<and> ns v = map (\<lambda>p. means (snd p)) l)"

lemma get_all_total:
  assumes "allocates mal" "wf_collector c" "report_bytes (list_net_statistics c) < 2 ^ 31 - 100"
  shows "\<exists>v. get_all_mean_net_statistics mal c = Inr v \<and> (\<forall>x. v = Some x \<longrightarrow> ok_all_means x) \<and>
    bytes_all_means v = report_bytes (list_net_statistics c) \<and> reports v (list_net_statistics c)"
proof (cases "list_net_statistics c = []")
  case True
  then show ?thesis
    by (intro exI [of _ None])
      (simp add: get_all_mean_net_statistics_def bytes_all_means_def report_bytes_def reports_def norm_all_means_def)
next
  case False
  obtain v where "get_all_mean_net_statistics mal c = Inr (Some v)" "ok_all_means v"
    "map chars (intfs v) = map (\<lambda>p. str_chars (fst p)) (list_net_statistics c)"
    "ns v = map (\<lambda>p. means (snd p)) (list_net_statistics c)"
    "bytes_all_means (Some v) = report_bytes (list_net_statistics c)"
    by (rule get_all_ok [OF assms False])
  then show ?thesis
    by (intro exI [of _ "Some v"]) (simp add: reports_def norm_all_means_def comp_def)
qed

lemma header_of_type:
  assumes "of_type t req"
  shows "\<exists>r' h'. decode_header (req @ r, h) = Inr (r', h') \<and> m_type h' = t"
  using assms by (auto simp: of_type_def decode_header_ser)

lemma means_answer:
  assumes "ok_mean q" "m_type q = MSG_MEAN_STA_STATISTICS_GET" "allocates mal"
      "encode_msg_mean_sta_statistics mal q = Inr (q', req)" "allocates (mallocs e)"
    and "wf_collector (means_list s)"
    and "report_bytes (list_net_statistics (means_list s)) + slen (peer_ip q) < 2 ^ 31 - 100"
  shows "\<exists>out. process_msg_mean_sta_statistics e now (req @ r) j s = Inr (s, [], Some out) \<and>
    of_type MSG_MEAN_STA_STATISTICS_GET out \<and> (\<forall>r' h0. \<exists>a. decode_msg_mean_sta_statistics (out @ r') h0 = Inr a \<and> m_id a = m_id q \<and>
      (case all_means a of
         None \<Rightarrow> list_net_statistics (means_list s) = []
       | Some v \<Rightarrow> map chars (intfs v) = map (\<lambda>p. str_chars (fst p)) (list_net_statistics (means_list s)) \<and>
           ns v = map (\<lambda>p. means (snd p)) (list_net_statistics (means_list s))))"
proof -
  let ?l = "list_net_statistics (means_list s)"
  obtain v where v: "get_all_mean_net_statistics (mallocs e) (means_list s) = Inr v"
      "\<forall>x. v = Some x \<longrightarrow> ok_all_means x" "bytes_all_means v = report_bytes ?l" "reports v ?l"
    using get_all_total [OF assms(5,6)] assms(7) by fastforce
  let ?a = "(norm_mean (j_get j) q)\<lparr>all_means := v\<rparr>"
  obtain r1 hdr where hdr: "decode_header (req @ r, j_head j) = Inr (r1, hdr)" "m_type hdr = m_type q"
    using header_of_type [OF mean.wire_type [OF assms(1,3,4)]] by blast
  have ok: "ok_mean ?a"
    using assms(1,7) v(2,3) by (auto simp: ok_mean_def norm_mean_def norm_header_def ok_header_def bytes_mean_def)
  obtain a' out where out: "encode_msg_mean_sta_statistics (mallocs e) ?a = Inr (a', out)"
    using mean.enc_no_fault [OF ok assms(5)] by blast
  have "process_msg_mean_sta_statistics e now (req @ r) j s = Inr (s, [], Some out)"
    using hdr assms(2) mean.roundtrip [OF assms(1,3,4)] v(1) out
    by (simp add: process_msg_mean_sta_statistics_def)
  moreover have "decode_msg_mean_sta_statistics (out @ r') h0 = Inr (norm_mean h0 ?a)" for r' h0
    by (rule mean.roundtrip [OF ok assms(5) out])
  moreover have "of_type MSG_MEAN_STA_STATISTICS_GET out"
    using mean.wire_type [OF ok assms(5) out] assms(2) by (simp add: norm_mean_def)
  ultimately show ?thesis
    using v(4) by (intro exI [of _ out]) (simp add: norm_mean_def norm_header_def reports_def)
qed

text \<open>
  C16 A request for the means is answered with the list of the collector: one entry for each
  monitored interface, in the order of the list, with its name and its 23 means bit by bit, under the
  id of the request; nothing else changes.  With no interface the answer has no list.
\<close>

theorem means_reported:
  assumes "ok_mean q" "m_type q = MSG_MEAN_STA_STATISTICS_GET" "allocates mal"
      "encode_msg_mean_sta_statistics mal q = Inr (q', req)" "allocates (mallocs e)"
    and "wf_collector (means_list s)"
    and "report_bytes (list_net_statistics (means_list s)) + slen (peer_ip q) < 2 ^ 31 - 100"
  shows "\<exists>out. process_msg_mean_sta_statistics e now (req @ r) j s = Inr (s, [], Some out) \<and>
    (\<forall>r' h0. \<exists>a. decode_msg_mean_sta_statistics (out @ r') h0 = Inr a \<and> m_id a = m_id q \<and>
      (case all_means a of
         None \<Rightarrow> list_net_statistics (means_list s) = []
       | Some v \<Rightarrow> map chars (intfs v) = map (\<lambda>p. str_chars (fst p)) (list_net_statistics (means_list s)) \<and>
           ns v = map (\<lambda>p. means (snd p)) (list_net_statistics (means_list s))))"
  using means_answer [OF assms, of now r j] by blast

text \<open>The query, when the field that its sender leaves uninitialised holds \<open>NULL\<close>.\<close>

lemma send_mean_eq:
  assumes "copyable (mallocs e) staip" "slen staip < 2 ^ 31 - 100" "all_means hs = None"
  obtains q where "ok_mean q" "m_type q = MSG_MEAN_STA_STATISTICS_GET" "m_id q = i" "canon (peer_ip q) = canon staip"
    "send_msg_mean_sta_statistics e host port i staip staport hs hm
      = send_sync e host port i (\<lambda>_. Inr q) (encode_msg_mean_sta_statistics (mallocs e))
          (\<lambda>t. t = MSG_MEAN_STA_STATISTICS_GET) (\<lambda>b. decode_msg_mean_sta_statistics b hm)"
proof -
  let ?p = "hs\<lparr>m_type := MSG_MEAN_STA_STATISTICS_GET, m_id := i, p_version := ETHANOL_VERSION,
    peer_ip := dup (mallocs e) staip, peer_port := staport\<rparr>"
  let ?q = "?p\<lparr>m_size := word_of_nat (bytes_mean ?p)\<rparr>"
  have ok: "ok_mean ?p"
    using assms by (simp add: ok_mean_def ok_header_def bytes_mean_def bytes_all_means_def)
  have "run_prog [assign m_type_update MSG_MEAN_STA_STATISTICS_GET, assign m_id_update i,
      assign p_version_update ETHANOL_VERSION, copy_to e peer_ip_update staip, assign peer_port_update staport,
      set_size size_msg_mean_sta_statistics] hs = Inr ?q"
    using assms(1) set_size_ok [of size_msg_mean_sta_statistics ?p, OF size_mean [OF ok]] by simp
  then have s: "send_msg_mean_sta_statistics e host port i staip staport hs hm
      = send_sync e host port i (\<lambda>_. Inr ?q) (encode_msg_mean_sta_statistics (mallocs e))
          (\<lambda>t. t = MSG_MEAN_STA_STATISTICS_GET) (\<lambda>b. decode_msg_mean_sta_statistics b hm)"
    unfolding send_msg_mean_sta_statistics_def by (rule send_sync_built)
  have "ok_mean ?q"
    using ok by (simp add: ok_mean_def ok_header_def bytes_mean_def)
  then show ?thesis
    by (rule that [OF _ _ _ _ s]) (use assms(1) in simp_all)
qed

text \<open>
  The request for the means is built in a local variable whose pointer to the means is never set.
  When the pointer is not null the size function walks through what it points to: with a count of
  at least one and an array of names that ends before it, the sender reads out of bounds and nothing is sent.
\<close>

theorem mean_query_uninitialised:
  assumes "copyable (mallocs e) staip" "reaches e host port"
    and "all_means hs = Some v" "intfs v = []" "0 < sint (num v)"
  shows "send_msg_mean_sta_statistics e host port i staip staport hs hm = Inl Read_Out_Of_Bounds"
proof -
  have "indices (num v) = 0 # [1..<nat (sint (num v))]"
    using assms(5) by (simp add: indices_def upt_conv_Cons)
  then have "size_each strlen_ethanol (num v) [] = Inl Read_Out_Of_Bounds"
    by (simp add: size_each_def nth_elem_def sum_sizes_def)
  then have "set_size size_msg_mean_sta_statistics (hs\<lparr>m_type := MSG_MEAN_STA_STATISTICS_GET, m_id := i,
      p_version := ETHANOL_VERSION, peer_ip := dup (mallocs e) staip, peer_port := staport\<rparr>) = Inl Read_Out_Of_Bounds"
    using assms(1,3,4) by (simp add: set_size_def size_msg_mean_sta_statistics_def strlen_wf)
  then show ?thesis
    using assms(1,2) by (simp add: send_msg_mean_sta_statistics_def send_sync_def)
qed

lemma sent_interface:
  assumes "copyable (mallocs e) intf" "copyable (mallocs e) staip" "slen intf + slen staip < 2 ^ 31 - 100"
    and "allocates (mallocs e)" "reaches e host port"
  obtains q q' req where "ok_mean_intf q" "m_type q = (if b then MSG_MEAN_STA_STATISTICS_SET_INTERFACE
      else MSG_MEAN_STA_STATISTICS_REMOVE_INTERFACE)" "m_id q = i" "canon (intf_name q) = canon intf"
    "encode_msg_mean_sta_statistics_interface (mallocs e) q = Inr (q', req)"
    "send_msg_mean_sta_statistics_interface e host port i staip staport intf b hs
      = Inr (session e host port req, i + 1)"
proof -
  let ?q = "hs\<lparr>m_type := (if b then MSG_MEAN_STA_STATISTICS_SET_INTERFACE else MSG_MEAN_STA_STATISTICS_REMOVE_INTERFACE),
    m_id := i, p_version := ETHANOL_VERSION, sta_ip := dup (mallocs e) staip, sta_port := staport,
    intf_name := dup (mallocs e) intf, m_size := word_of_nat (slen staip + slen intf + 36)\<rparr>"
  have ok: "ok_mean_intf ?q"
    using assms(1-3) by (simp add: ok_mean_intf_def ok_header_def bytes_mean_intf_def)
  obtain q' req where e: "encode_msg_mean_sta_statistics_interface (mallocs e) ?q = Inr (q', req)"
    using mean_intf.enc_no_fault [OF ok assms(4)] by blast
  have "send_msg_mean_sta_statistics_interface e host port i staip staport intf b hs
      = send_async e host port i (\<lambda>_. Inr ?q) (encode_msg_mean_sta_statistics_interface (mallocs e))"
    unfolding send_msg_mean_sta_statistics_interface_def
    by (rule send_async_built)
      (use assms(1,2) in \<open>simp add: set_size_ok size_msg_mean_sta_statistics_interface_def ac_simps\<close>)
  then show ?thesis
    using that [OF ok _ _ _ e] assms(1)
      send_async_session [OF assms(5), of "encode_msg_mean_sta_statistics_interface (mallocs e)" ?q] e by simp
qed

text \<open>The messages that set the weight and the time, as they are sent.\<close>

lemma sent_alpha:
  assumes "copyable (mallocs e) staip" "slen staip < 2 ^ 31 - 100" "allocates (mallocs e)" "reaches e host port"
    and "\<not> ld_less f v (ld_of_long f 0)" "\<not> ld_less f (ld_of_long f 1) v"
  shows "\<exists>req. send_msg_mean_sta_statistics_alpha f e host port i staip staport v hs = Inr (session e host port req, i + 1) \<and>
    (\<forall>r h. \<exists>a. decode_msg_mean_sta_statistics_alpha (req @ r) h = Inr a \<and>
       m_type a = MSG_MEAN_STA_STATISTICS_SET_ALPHA \<and> m_id a = i \<and> alpha a = v)"
proof -
  let ?q = "hs\<lparr>m_type := MSG_MEAN_STA_STATISTICS_SET_ALPHA, m_id := i, p_version := ETHANOL_VERSION,
    peer_ip := dup (mallocs e) staip, peer_port := staport, alpha := v, m_size := word_of_nat (slen staip + 47)\<rparr>"
  have ok: "ok_mean_alpha ?q"
    using assms(1,2) by (simp add: ok_mean_alpha_def ok_header_def bytes_mean_alpha_def)
  obtain q' req where e: "encode_msg_mean_sta_statistics_alpha (mallocs e) ?q = Inr (q', req)"
    using mean_alpha.enc_no_fault [OF ok assms(3)] by blast
  have "send_msg_mean_sta_statistics_alpha f e host port i staip staport v hs
      = send_async e host port i (\<lambda>_. Inr ?q) (encode_msg_mean_sta_statistics_alpha (mallocs e))"
    unfolding send_msg_mean_sta_statistics_alpha_def using assms(5,6)
    by (simp only: de_Morgan_disj simp_thms if_False, intro send_async_built)
      (use assms(1) in \<open>simp add: set_size_ok size_msg_mean_sta_statistics_alpha_def ac_simps\<close>)
  then show ?thesis
    using send_async_session [OF assms(4), of "encode_msg_mean_sta_statistics_alpha (mallocs e)" ?q] e
      mean_alpha.roundtrip [OF ok assms(3) e]
    by (intro exI [of _ req]) (simp add: norm_mean_alpha_def norm_header_def)
qed

lemma sent_time:
  assumes "copyable (mallocs e) staip" "slen staip < 2 ^ 31 - 100" "allocates (mallocs e)" "reaches e host port"
  shows "\<exists>req. send_msg_mean_sta_statistics_time e host port i staip staport v hs = Inr (session e host port req, i + 1) \<and>
    (\<forall>r h. \<exists>a. decode_msg_mean_sta_statistics_time (req @ r) h = Inr a \<and>
       m_type a = MSG_MEAN_STA_STATISTICS_SET_TIME \<and> m_id a = i \<and> msec a = v)"
proof -
  let ?q = "hs\<lparr>m_type := MSG_MEAN_STA_STATISTICS_SET_TIME, m_id := i, p_version := ETHANOL_VERSION,
    peer_ip := dup (mallocs e) staip, peer_port := staport, msec := v, m_size := word_of_nat (slen staip + 35)\<rparr>"
  have ok: "ok_mean_time ?q"
    using assms(1,2) by (simp add: ok_mean_time_def ok_header_def bytes_mean_time_def)
  obtain q' req where e: "encode_msg_mean_sta_statistics_time (mallocs e) ?q = Inr (q', req)"
    using mean_time.enc_no_fault [OF ok assms(3)] by blast
  have "send_msg_mean_sta_statistics_time e host port i staip staport v hs
      = send_async e host port i (\<lambda>_. Inr ?q) (encode_msg_mean_sta_statistics_time (mallocs e))"
    unfolding send_msg_mean_sta_statistics_time_def
    by (rule send_async_built)
      (use assms(1) in \<open>simp add: set_size_ok size_msg_mean_sta_statistics_time_def ac_simps\<close>)
  then show ?thesis
    using send_async_session [OF assms(4), of "encode_msg_mean_sta_statistics_time (mallocs e)" ?q] e
      mean_time.roundtrip [OF ok assms(3) e]
    by (intro exI [of _ req]) (simp add: norm_mean_time_def norm_header_def)
qed

lemma sent_interface_add:
  assumes "copyable (mallocs e) intf" "copyable (mallocs e) staip" "slen intf + slen staip < 2 ^ 31 - 100"
    and "allocates (mallocs e)" "reaches e host port"
  shows "\<exists>req. send_msg_mean_sta_statistics_interface_add e host port i staip staport intf hs
      = Inr (session e host port req, i + 1) \<and>
    (\<forall>r h. \<exists>a. decode_msg_mean_sta_statistics_interface (req @ r) h = Inr a \<and>
       m_type a = MSG_MEAN_STA_STATISTICS_SET_INTERFACE \<and> m_id a = i \<and> intf_name a = canon intf)"
proof -
  obtain q q' req where q: "ok_mean_intf q" "m_type q = MSG_MEAN_STA_STATISTICS_SET_INTERFACE" "m_id q = i"
      "canon (intf_name q) = canon intf" "encode_msg_mean_sta_statistics_interface (mallocs e) q = Inr (q', req)"
      "send_msg_mean_sta_statistics_interface e host port i staip staport intf True hs
        = Inr (session e host port req, i + 1)"
    by (rule sent_interface [OF assms, of True i staport hs]) simp
  then show ?thesis
    using mean_intf.roundtrip [OF q(1) assms(4) q(5)]
    by (intro exI [of _ req]) (simp add: send_msg_mean_sta_statistics_interface_add_def norm_mean_intf_def norm_header_def)
qed

text \<open>A message that adds or removes an interface reaches the list of the collector.\<close>

lemma interface_delivered:
  assumes "copyable (mallocs e0) intf" "copyable (mallocs e0) staip" "slen intf + slen staip < 2 ^ 31 - 100"
    and "allocates (mallocs e0)" "reaches e0 host port"
    and c: "(if b then add_intf_net_statistics e1 (j_counters j) now (canon intf) (means_list s)
      else remove_intf_net_statistics (canon intf) (means_list s)) = Inr c"
  shows "\<exists>req. send_msg_mean_sta_statistics_interface e0 host port i staip staport intf b hs
      = Inr (session e0 host port req, i + 1) \<and>
    process_msg_mean_sta_statistics e1 now (req @ r) j s = Inr (s\<lparr>means_list := c\<rparr>, [], None)"
proof -
  obtain q q' req where q: "ok_mean_intf q" "m_type q = (if b then MSG_MEAN_STA_STATISTICS_SET_INTERFACE
        else MSG_MEAN_STA_STATISTICS_REMOVE_INTERFACE)" "m_id q = i" "canon (intf_name q) = canon intf"
      "encode_msg_mean_sta_statistics_interface (mallocs e0) q = Inr (q', req)"
      "send_msg_mean_sta_statistics_interface e0 host port i staip staport intf b hs
        = Inr (session e0 host port req, i + 1)"
    by (rule sent_interface [OF assms(1-5), of b i staport hs])
  obtain r1 hdr where "decode_header (req @ r, j_head j) = Inr (r1, hdr)" "m_type hdr = m_type q"
    using header_of_type [OF mean_intf.wire_type [OF q(1) assms(4) q(5)]] by blast
  moreover have "decode_msg_mean_sta_statistics_interface (req @ r) (j_intf j) = Inr (norm_mean_intf (j_intf j) q)"
    by (rule mean_intf.roundtrip [OF q(1) assms(4) q(5)])
  ultimately have "process_msg_mean_sta_statistics e1 now (req @ r) j s = Inr (s\<lparr>means_list := c\<rparr>, [], None)"
    using q(2,4) c by (simp add: process_msg_mean_sta_statistics_def norm_mean_intf_def norm_header_def split: if_splits)
  then show ?thesis
    using q(6) by blast
qed

text \<open>
  A controller adds an interface to the statistics of an agent, and removes one: no step faults
  and nobody answers; afterwards the agent monitors exactly the interfaces of before and
  the new one, or those of before without the removed one.
\<close>

theorem monitor_end_to_end:
  assumes "copyable (mallocs e0) intf" "copyable (mallocs e0) staip" "allocates (mallocs e0)" "reaches e0 host port"
    and "allocates (mallocs e1)" "wf_collector (means_list s)"
    and "0 < slen intf" "slen intf \<le> 153" "slen staip < 2 ^ 31 - 300"
  shows "(\<exists>req c. send_msg_mean_sta_statistics_interface_add e0 host port i staip staport intf hs
        = Inr (session e0 host port req, i + 1) \<and>
      process_msg_mean_sta_statistics e1 now (req @ r) j s = Inr (s\<lparr>means_list := c\<rparr>, [], None) \<and> wf_collector c \<and>
      dom (table_map (list_net_statistics c))
        = insert (chars intf) (dom (table_map (list_net_statistics (means_list s))))) \<and>
    (\<exists>req c. send_msg_mean_sta_statistics_interface_remove e0 host port i staip staport intf hs
        = Inr (session e0 host port req, i + 1) \<and>
      process_msg_mean_sta_statistics e1 now (req @ r) j s = Inr (s\<lparr>means_list := c\<rparr>, [], None) \<and> wf_collector c \<and>
      dom (table_map (list_net_statistics c))
        = dom (table_map (list_net_statistics (means_list s))) - {chars intf})"
proof -
  have len: "slen intf + slen staip < 2 ^ 31 - 100"
    using assms(8,9) by simp
  have n: "named (canon intf)" "chars (canon intf) = chars intf" "slen (canon intf) \<le> 153"
    using canon_nonempty [OF assms(7)] assms(8) by (auto simp: named_def)
  note send = interface_delivered [OF assms(1,2) len assms(3,4)]
  obtain c1 where c1: "add_intf_net_statistics e1 (j_counters j) now (canon intf) (means_list s) = Inr c1"
      "wf_collector c1" "dom (table_map (list_net_statistics c1))
        = insert (chars intf) (dom (table_map (list_net_statistics (means_list s))))"
    using add_intf_ok [OF assms(6) n(1,3) assms(5), of "j_counters j" now] n(2) by auto
  obtain c2 where c2: "remove_intf_net_statistics (canon intf) (means_list s) = Inr c2" "wf_collector c2"
      "dom (table_map (list_net_statistics c2)) = dom (table_map (list_net_statistics (means_list s))) - {chars intf}"
    using remove_intf_ok [OF assms(6) n(1)] n(2) by auto
  show ?thesis
    using send [of True e1 j now s c1 i staport hs r] send [of False e1 j now s c2 i staport hs r] c1 c2
    unfolding send_msg_mean_sta_statistics_interface_add_def send_msg_mean_sta_statistics_interface_remove_def
    by (intro conjI; simp; blast)
qed

definition demo_mean :: msg_mean_sta_statistics where
  "demo_mean = \<lparr>m_type = MSG_MEAN_STA_STATISTICS_GET, m_id = 9, p_version = ETHANOL_VERSION, m_size = 0,
     peer_ip = None, peer_port = 0, all_means = None\<rparr>"

definition demo_mean_intf :: msg_mean_sta_statistics_interface where
  "demo_mean_intf = \<lparr>m_type = 0, m_id = 0, p_version = None, m_size = 0, intf_name = None, sta_ip = None, sta_port = 0\<rparr>"

definition demo_mean_time :: "c_int \<Rightarrow> msg_mean_sta_statistics_time" where
  "demo_mean_time v = \<lparr>m_type = MSG_MEAN_STA_STATISTICS_SET_TIME, m_id = 3, p_version = ETHANOL_VERSION, m_size = 0,
     peer_ip = None, peer_port = 0, msec = v\<rparr>"

definition demo_mean_junk :: mean_junk where
  "demo_mean_junk = \<lparr>j_head = \<lparr>m_type = 0, m_id = 0, p_version = None, m_size = 0\<rparr>, j_get = demo_mean,
     j_intf = demo_mean_intf, j_alpha = \<lparr>m_type = 0, m_id = 0, p_version = None, m_size = 0, peer_ip = None,
       peer_port = 0, alpha = 5\<rparr>, j_time = demo_mean_time 0, j_counters = demo_stats0\<rparr>"

definition demo_timer :: timer where
  "demo_timer = init_timer demo_fpu\<lparr>means_list := \<lparr>list_net_statistics =
     [([0x77, 0], \<lparr>current_value = demo_stats0, last_t = \<lparr>tv_sec = 0, tv_usec = 0\<rparr>, means = zero_means\<rparr>)],
     ewma_alpha = 0\<rparr>\<rparr>"

lemma wf_demo_timer: "wf_collector (means_list demo_timer)"
  by (simp add: demo_timer_def wf_collector_def)

theorem means_reported_witness:
  "\<exists>q' req out. encode_msg_mean_sta_statistics demo_alloc demo_mean = Inr (q', req) \<and>
     process_msg_mean_sta_statistics demo_env \<lparr>tv_sec = 0, tv_usec = 0\<rparr> (req @ [3]) demo_mean_junk demo_timer
       = Inr (demo_timer, [], Some out) \<and>
     (\<exists>a. decode_msg_mean_sta_statistics (out @ [4]) demo_mean = Inr a \<and> m_id a = 9)"
proof -
  have ok: "ok_mean demo_mean" "m_type demo_mean = MSG_MEAN_STA_STATISTICS_GET" "m_id demo_mean = 9"
      "slen (peer_ip demo_mean) = 0"
    by (simp_all add: demo_mean_def ok_mean_def ok_header_def bytes_mean_def bytes_all_means_def)
  obtain q' req where q: "encode_msg_mean_sta_statistics demo_alloc demo_mean = Inr (q', req)"
    using mean.enc_no_fault [OF ok(1) allocates_demo_alloc] by blast
  have "report_bytes (list_net_statistics (means_list demo_timer)) = 374"
    by (simp add: demo_timer_def report_bytes_def str_chars_def)
  then show ?thesis
    using means_reported [OF ok(1,2) allocates_demo_alloc q allocates_demo_env wf_demo_timer,
        of "\<lparr>tv_sec = 0, tv_usec = 0\<rparr>" "[3]" demo_mean_junk] ok(3,4) q by fastforce
qed

theorem mean_query_uninitialised_witness:
  "send_msg_mean_sta_statistics demo_env demo_name 22223 1 None 0
     (demo_mean\<lparr>all_means := Some \<lparr>num = 2, intfs = [], ns = []\<rparr>\<rparr>) demo_mean = Inl Read_Out_Of_Bounds"
  by (rule mean_query_uninitialised [OF copyable_None reaches_demo_env,
      where v = "\<lparr>num = 2, intfs = [], ns = []\<rparr>"]) simp_all

theorem monitor_end_to_end_witness:
  "\<exists>req c. send_msg_mean_sta_statistics_interface_add demo_env demo_name 22223 4 None 0 (Some [0x78, 0]) demo_mean_intf
      = Inr (session demo_env demo_name 22223 req, 5) \<and>
    process_msg_mean_sta_statistics demo_env \<lparr>tv_sec = 0, tv_usec = 0\<rparr> (req @ [3]) demo_mean_junk demo_timer
      = Inr (demo_timer\<lparr>means_list := c\<rparr>, [], None) \<and>
    dom (table_map (list_net_statistics c)) = {[0x78], [0x77]}"
proof -
  have s: "wf_str (Some [0x78, 0])" "slen (Some [0x78, 0]) = 1" "chars (Some [0x78, 0]) = [0x78]"
    by code_simp+
  have d: "dom (table_map (list_net_statistics (means_list demo_timer))) = {[0x77]}"
    by (simp add: demo_timer_def str_chars_def)
  show ?thesis
    using monitor_end_to_end [OF copyable_demo_env copyable_None allocates_demo_env reaches_demo_env
        allocates_demo_env wf_demo_timer, of "Some [0x78, 0]" demo_name 22223 4 0 demo_mean_intf
        "\<lparr>tv_sec = 0, tv_usec = 0\<rparr>" "[3]" demo_mean_junk] s d by auto
qed

text \<open>
  A time of more than 2147483 milliseconds does not fit: the number of microseconds wraps around
  in an \<open>int\<close>.  The values from 2147484 to 4294967, about 36 to 71 minutes, become negative, so
  that the message stops the collection instead of slowing it down.
\<close>

theorem time_overflow:
  assumes "ok_mean_time q" "m_type q = MSG_MEAN_STA_STATISTICS_SET_TIME" "allocates mal"
      "encode_msg_mean_sta_statistics_time mal q = Inr (q', req)"
    and "2147484 \<le> sint (msec q)" "sint (msec q) \<le> 4294967"
  shows "\<exists>usec. process_msg_mean_sta_statistics e now (req @ r) j s
      = Inr (s\<lparr>setters := setters s @ [Set_Begin usec]\<rparr>, [], None) \<and>
    (\<forall>b t. set_timed_net_statistics b (Set_Begin usec) t = (t\<lparr>running_thread := False\<rparr>, Some Set_Stop))"
proof -
  obtain r1 hdr where hdr: "decode_header (req @ r, j_head j) = Inr (r1, hdr)" "m_type hdr = m_type q"
    using header_of_type [OF mean_time.wire_type [OF assms(1,3,4)]] by blast
  let ?x = "sint (msec q) * 1000"
  have "sint (msec q * 1000) = (?x + 2 ^ 31) mod 2 ^ 32 - 2 ^ 31"
    by (simp add: sint_word_ariths signed_take_bit_eq_take_bit_shift take_bit_eq_mod)
  moreover have "(?x + 2 ^ 31) mod 2 ^ 32 = ?x - 2 ^ 31"
    using assms(5,6) mod_pos_pos_trivial [of "?x - 2 ^ 31" "2 ^ 32"] mod_add_self2 [of "?x - 2 ^ 31" "2 ^ 32"]
    by (simp add: add.commute)
  ultimately have "sint (msec q * 1000) \<le> 0"
    using assms(6) by simp
  then show ?thesis
    using hdr assms(2) mean_time.roundtrip [OF assms(1,3,4)]
    by (intro exI [of _ "msec q * 1000"])
      (simp add: process_msg_mean_sta_statistics_def norm_mean_time_def norm_header_def)
qed

theorem time_overflow_witness:
  "\<exists>q' req usec. encode_msg_mean_sta_statistics_time demo_alloc (demo_mean_time 3600000) = Inr (q', req) \<and>
     process_msg_mean_sta_statistics demo_env \<lparr>tv_sec = 0, tv_usec = 0\<rparr> (req @ [3]) demo_mean_junk demo_timer
       = Inr (demo_timer\<lparr>setters := setters demo_timer @ [Set_Begin usec]\<rparr>, [], None) \<and>
     set_timed_net_statistics True (Set_Begin usec) demo_timer
       = (demo_timer\<lparr>running_thread := False\<rparr>, Some Set_Stop)"
proof -
  let ?q = "demo_mean_time 3600000"
  have ok: "ok_mean_time ?q" "m_type ?q = MSG_MEAN_STA_STATISTICS_SET_TIME"
    by (simp_all add: demo_mean_time_def ok_mean_time_def ok_header_def bytes_mean_time_def)
  have v: "2147484 \<le> sint (msec ?q)" "sint (msec ?q) \<le> 4294967"
    by (simp_all add: demo_mean_time_def)
  obtain q' req where q: "encode_msg_mean_sta_statistics_time demo_alloc ?q = Inr (q', req)"
    using mean_time.enc_no_fault [OF ok(1) allocates_demo_alloc] by blast
  show ?thesis
    using time_overflow [OF ok allocates_demo_alloc q v, of demo_env "\<lparr>tv_sec = 0, tv_usec = 0\<rparr>" "[3]"
        demo_mean_junk demo_timer] q by blast
qed

end
