(* ===== verification/Msg_Assoc.thy ===== *)
theory Msg_Assoc
  imports Commands Intf_Table
begin

section \<open>Association of stations and handover\<close>

text \<open>
  \<open>messaging/msg_association_process.c\<close>, \<open>msg_changed_ap.c\<close>, \<open>msg_request_begin_association.c\<close>,
  \<open>msg_inform_beacon.c\<close>, \<open>msg_deauthenticate_user.c\<close>, \<open>msg_disconnect_user.c\<close>,
  \<open>msg_station_trigger_transition.c\<close> and \<open>ethanol_functions/change_ap.c\<close>.  An access point asks the
  controller whether a station may associate; a controller tells a station to change to another
  access point, which it does with \<open>wpa_cli\<close>.

  A field \<open>mac_sta\<close> or \<open>mac_new_ap\<close> carries a prefix where two structures have the same name.
\<close>

subsection \<open>Associations\<close>

record msg_association_process = msg_header +
  mac_ap :: cstr
  mac_sta :: cstr
  allowed :: bool
  response :: c_int

definition message_size_association_process :: "msg_association_process \<Rightarrow> fault + c_int" where
  "message_size_association_process h = sum_sizes
     [sizeof 4, sizeof 4, strlen_ethanol (p_version h), sizeof 4,
      strlen_ethanol (mac_ap h), strlen_ethanol (mac_sta h), bool_len_ethanol, sizeof 4]"

definition encode_msg_association_process :: "allocator \<Rightarrow> msg_association_process \<Rightarrow> fault + msg_association_process \<times> u8 list" where
  "encode_msg_association_process mal = encode_frame mal message_size_association_process (\<lambda>h.
     [encode_header (m_type h) (m_id h) (m_size h),
      encode_char (mac_ap h),
      encode_char (mac_sta h),
      encode_bool (allowed h),
      encode_int (response h)])"

definition decode_msg_association_process :: "u8 list \<Rightarrow> msg_association_process \<Rightarrow> fault + msg_association_process" where
  "decode_msg_association_process = decode_frame
     [decode_header,
      into decode_char mac_ap_update,
      into decode_char mac_sta_update,
      into decode_bool allowed_update,
      into decode_int response_update]"

definition process_msg_association_process ::
  "env \<Rightarrow> u8 list \<Rightarrow> msg_association_process \<Rightarrow> fault + effect list \<times> u8 list option" where
  "process_msg_association_process e input hm =
     and_then (decode_msg_association_process input hm) (\<lambda>h.
     and_then (encode_msg_association_process (mallocs e) (h\<lparr>allowed := True, response := 0\<rparr>)) (\<lambda>(_, output).
       Inr ([], Some output)))"

definition association_type :: "type_association \<Rightarrow> c_int" where
  "association_type state = (case state of
       ASSOCIATION \<Rightarrow> MSG_ASSOCIATION
     | DISASSOCIATION \<Rightarrow> MSG_DISASSOCIATION
     | REASSOCIATION \<Rightarrow> MSG_REASSOCIATION
     | AUTHORIZATION \<Rightarrow> MSG_AUTHORIZATION
     | USER_DISCONNECTING \<Rightarrow> MSG_USER_DISCONNECTING
     | USER_CONNECTING \<Rightarrow> MSG_USER_CONNECTING)"

text \<open>The field \<open>response\<close> of a request is not initialised.\<close>

definition send_msg_association_process ::
  "env \<Rightarrow> cstr \<Rightarrow> c_int \<Rightarrow> c_int \<Rightarrow> cstr \<Rightarrow> cstr \<Rightarrow> type_association \<Rightarrow> msg_association_process \<Rightarrow> msg_association_process
   \<Rightarrow> fault + effect list \<times> c_int \<times> msg_association_process option" where
  "send_msg_association_process e hostname portnum idc macap macsta state hs hm =
     (if macsta = None \<or> macap = None then Inr ([], idc, None)
      else send_sync e hostname portnum idc
       (\<lambda>i. run_prog
         [assign m_type_update (association_type state),
          assign m_id_update i,
          copy_to e p_version_update ETHANOL_VERSION,
          copy_to e mac_ap_update macap,
          copy_to e mac_sta_update macsta,
          assign allowed_update False,
          set_size message_size_association_process] hs)
       (encode_msg_association_process (mallocs e))
       (\<lambda>t. t \<in> {MSG_ASSOCIATION, MSG_DISASSOCIATION, MSG_REASSOCIATION,
         MSG_AUTHORIZATION, MSG_USER_DISCONNECTING, MSG_USER_CONNECTING})
       (\<lambda>buf. decode_msg_association_process buf hm))"

definition bytes_assoc :: "msg_association_process \<Rightarrow> nat" where
  "bytes_assoc h = slen (p_version h) + slen (mac_ap h) + slen (mac_sta h) + 35"

definition ok_assoc :: "msg_association_process \<Rightarrow> bool" where
  "ok_assoc h \<longleftrightarrow> ok_header h \<and> ok_str (mac_ap h) \<and> ok_str (mac_sta h)
     \<and> bytes_assoc h < 2 ^ 31"

definition norm_assoc :: "msg_association_process \<Rightarrow> msg_association_process \<Rightarrow> msg_association_process" where
  "norm_assoc h0 h = (norm_header (bytes_assoc h) h)\<lparr>mac_ap := canon (mac_ap h), mac_sta := canon (mac_sta h)\<rparr>"

interpretation assoc: msg_codec encode_msg_association_process decode_msg_association_process ok_assoc
  norm_assoc bytes_assoc m_type
  unfolding encode_msg_association_process_def [abs_def] decode_msg_association_process_def
  by (rule frame_codecI [where bss = "\<lambda>m. [ser_str (mac_ap m), ser_str (mac_sta m), ser_bool (allowed m),
          le_bytes 4 (response m)]"])
    (simp_all add: codec ok_assoc_def ok_header_def bytes_assoc_def norm_assoc_def
      message_size_association_process_def norm_header_def ac_simps encode_char_put length_ser_str)


subsection \<open>Change of the access point\<close>

record msg_changed_ap = intf_msg +
  current_ap :: cstr
  status :: c_int

definition size_msg_changed_ap :: "msg_changed_ap \<Rightarrow> fault + c_int" where
  "size_msg_changed_ap h = sum_sizes
     [sizeof 4, sizeof 4, strlen_ethanol (p_version h), sizeof 4, sizeof 4,
      strlen_ethanol (current_ap h), strlen_ethanol (intf_name h)]"

definition encode_msg_changed_ap :: "allocator \<Rightarrow> msg_changed_ap \<Rightarrow> fault + msg_changed_ap \<times> u8 list" where
  "encode_msg_changed_ap mal = encode_frame mal size_msg_changed_ap (\<lambda>h.
     [encode_header (m_type h) (m_id h) (m_size h),
      encode_char (intf_name h),
      encode_char (current_ap h),
      encode_int (status h)])"

definition decode_msg_changed_ap :: "u8 list \<Rightarrow> msg_changed_ap \<Rightarrow> fault + msg_changed_ap" where
  "decode_msg_changed_ap = decode_frame
     [decode_header,
      into decode_char intf_name_update,
      into decode_char current_ap_update,
      into decode_int status_update]"

text \<open>The handler prints the change and sends the message back, although the sender does not wait for it.\<close>

definition process_msg_changed_ap ::
  "env \<Rightarrow> u8 list \<Rightarrow> msg_changed_ap \<Rightarrow> fault + effect list \<times> u8 list option" where
  "process_msg_changed_ap e input hm =
     and_then (decode_msg_changed_ap input hm) (\<lambda>h.
     and_then (fmt_str (current_ap h)) (\<lambda>_.
     and_then (fmt_str (intf_name h)) (\<lambda>_.
     and_then (encode_msg_changed_ap (mallocs e) h) (\<lambda>(_, output). Inr ([], Some output)))))"

definition send_msg_changed_ap ::
  "env \<Rightarrow> cstr \<Rightarrow> c_int \<Rightarrow> c_int \<Rightarrow> c_int \<Rightarrow> cstr \<Rightarrow> cstr \<Rightarrow> msg_changed_ap
   \<Rightarrow> fault + effect list \<times> c_int" where
  "send_msg_changed_ap e hostname portnum idc st cur intf hs = send_async e hostname portnum idc
       (\<lambda>i. run_prog
         [assign m_type_update MSG_CHANGED_AP,
          assign m_id_update i,
          assign p_version_update ETHANOL_VERSION,
          assign status_update st,
          copy_to e current_ap_update cur,
          copy_to e intf_name_update intf,
          set_size size_msg_changed_ap] hs)
       (encode_msg_changed_ap (mallocs e))"

definition bytes_changed :: "msg_changed_ap \<Rightarrow> nat" where
  "bytes_changed h = slen (p_version h) + slen (intf_name h) + slen (current_ap h) + 31"

definition ok_changed :: "msg_changed_ap \<Rightarrow> bool" where
  "ok_changed h \<longleftrightarrow> ok_header h \<and> ok_str (intf_name h) \<and> ok_str (current_ap h)
     \<and> bytes_changed h < 2 ^ 31"

definition norm_changed :: "msg_changed_ap \<Rightarrow> msg_changed_ap \<Rightarrow> msg_changed_ap" where
  "norm_changed h0 h = (norm_header (bytes_changed h) h)\<lparr>intf_name := canon (intf_name h), current_ap := canon (current_ap h)\<rparr>"

interpretation changed: msg_codec encode_msg_changed_ap decode_msg_changed_ap ok_changed
  norm_changed bytes_changed m_type
  unfolding encode_msg_changed_ap_def [abs_def] decode_msg_changed_ap_def
  by (rule frame_codecI [where bss = "\<lambda>m. [ser_str (intf_name m), ser_str (current_ap m), le_bytes 4 (status m)]"])
    (simp_all add: codec ok_changed_def ok_header_def bytes_changed_def norm_changed_def
      size_msg_changed_ap_def norm_header_def ac_simps encode_char_put length_ser_str)


subsection \<open>Begin of an association\<close>

record msg_request_begin_association = msg_header +
  ba_mac_new_ap :: cstr
  ba_mac_sta :: cstr

definition size_request_begin_association :: "msg_request_begin_association \<Rightarrow> fault + c_int" where
  "size_request_begin_association h = sum_sizes
     [sizeof 4, sizeof 4, strlen_ethanol (p_version h), sizeof 4,
      strlen_ethanol (ba_mac_new_ap h), strlen_ethanol (ba_mac_sta h)]"

definition encode_msg_request_begin_association :: "allocator \<Rightarrow> msg_request_begin_association \<Rightarrow> fault + msg_request_begin_association \<times> u8 list" where
  "encode_msg_request_begin_association mal = encode_frame mal size_request_begin_association (\<lambda>h.
     [encode_header (m_type h) (m_id h) (m_size h),
      encode_char (ba_mac_new_ap h),
      encode_char (ba_mac_sta h)])"

definition decode_msg_request_begin_association :: "u8 list \<Rightarrow> msg_request_begin_association \<Rightarrow> fault + msg_request_begin_association" where
  "decode_msg_request_begin_association = decode_frame
     [decode_header,
      into decode_char ba_mac_new_ap_update,
      into decode_char ba_mac_sta_update]"

text \<open>The reply has fixed addresses in blocks of 18 bytes.\<close>

definition process_msg_request_begin_association ::
  "env \<Rightarrow> u8 list \<Rightarrow> msg_request_begin_association \<Rightarrow> fault + effect list \<times> u8 list option" where
  "process_msg_request_begin_association e input hm =
     and_then (decode_msg_request_begin_association input hm) (\<lambda>h.
     and_then
       (if m_type h = MSG_REQUEST_BEGIN_ASSOCIATION then
          and_then (strcpy (mallocs e 18) (str_bytes ''9c:dc:d4:9f:77:7d'' @ [0])) (\<lambda>a.
          and_then (strcpy (mallocs e 18) (str_bytes ''8c:dc:d4:9f:77:7d'' @ [0])) (\<lambda>s.
            Inr (h\<lparr>ba_mac_new_ap := Some a, ba_mac_sta := Some s\<rparr>)))
        else Inr h)
       (\<lambda>h. and_then (encode_msg_request_begin_association (mallocs e) h) (\<lambda>(_, output). Inr ([], Some output))))"

text \<open>\<open>h.field = malloc (strlen (s) + 1); strcpy (h.field, s);\<close>\<close>

definition name_to :: "env \<Rightarrow> ((cstr \<Rightarrow> cstr) \<Rightarrow> 'h \<Rightarrow> 'h) \<Rightarrow> cstr \<Rightarrow> 'h step" where
  "name_to e upd s h = and_then (new_name (mallocs e) s) (\<lambda>n. Inr (upd (\<lambda>_. Some n) h))"

definition send_msg_request_begin_association ::
  "env \<Rightarrow> cstr \<Rightarrow> c_int \<Rightarrow> c_int \<Rightarrow> cstr \<Rightarrow> cstr \<Rightarrow> msg_request_begin_association \<Rightarrow> msg_request_begin_association
   \<Rightarrow> fault + effect list \<times> c_int \<times> msg_request_begin_association option" where
  "send_msg_request_begin_association e hostname portnum idc macap macsta hs hm =
     send_sync e hostname portnum idc
       (\<lambda>i. run_prog
         [assign m_type_update MSG_REQUEST_BEGIN_ASSOCIATION,
          assign m_id_update i,
          copy_to e p_version_update ETHANOL_VERSION,
          name_to e ba_mac_new_ap_update macap,
          name_to e ba_mac_sta_update macsta,
          set_size size_request_begin_association] hs)
       (encode_msg_request_begin_association (mallocs e))
       (\<lambda>t. t = MSG_REQUEST_BEGIN_ASSOCIATION)
       (\<lambda>buf. decode_msg_request_begin_association buf hm)"

definition bytes_begin_assoc :: "msg_request_begin_association \<Rightarrow> nat" where
  "bytes_begin_assoc h = slen (p_version h) + slen (ba_mac_new_ap h) + slen (ba_mac_sta h) + 27"

definition ok_begin_assoc :: "msg_request_begin_association \<Rightarrow> bool" where
  "ok_begin_assoc h \<longleftrightarrow> ok_header h \<and> ok_str (ba_mac_new_ap h) \<and> ok_str (ba_mac_sta h)
     \<and> bytes_begin_assoc h < 2 ^ 31"

definition norm_begin_assoc :: "msg_request_begin_association \<Rightarrow> msg_request_begin_association \<Rightarrow> msg_request_begin_association" where
  "norm_begin_assoc h0 h = (norm_header (bytes_begin_assoc h) h)\<lparr>ba_mac_new_ap := canon (ba_mac_new_ap h), ba_mac_sta := canon (ba_mac_sta h)\<rparr>"

interpretation begin_assoc: msg_codec encode_msg_request_begin_association decode_msg_request_begin_association ok_begin_assoc
  norm_begin_assoc bytes_begin_assoc m_type
  unfolding encode_msg_request_begin_association_def [abs_def] decode_msg_request_begin_association_def
  by (rule frame_codecI [where bss = "\<lambda>m. [ser_str (ba_mac_new_ap m), ser_str (ba_mac_sta m)]"])
    (simp_all add: codec ok_begin_assoc_def ok_header_def bytes_begin_assoc_def norm_begin_assoc_def
      size_request_begin_association_def norm_header_def ac_simps encode_char_put length_ser_str)


subsection \<open>Beacon requests\<close>

record msg_req_beaconinfo = msg_header +
  period :: c_long

definition message_size_msg_request_beacon :: "msg_req_beaconinfo \<Rightarrow> fault + c_int" where
  "message_size_msg_request_beacon h = sum_sizes
     [sizeof 4, sizeof 4, strlen_ethanol (p_version h), sizeof 4, sizeof 8]"

definition encode_msg_request_beacon :: "allocator \<Rightarrow> msg_req_beaconinfo \<Rightarrow> fault + msg_req_beaconinfo \<times> u8 list" where
  "encode_msg_request_beacon mal = encode_frame mal message_size_msg_request_beacon (\<lambda>h.
     [encode_header (m_type h) (m_id h) (m_size h),
      encode_long (period h)])"

definition decode_msg_request_beacon :: "u8 list \<Rightarrow> msg_req_beaconinfo \<Rightarrow> fault + msg_req_beaconinfo" where
  "decode_msg_request_beacon = decode_frame
     [decode_header,
      into decode_long period_update]"

definition process_msg_request_beacon ::
  "env \<Rightarrow> u8 list \<Rightarrow> msg_req_beaconinfo \<Rightarrow> fault + effect list \<times> u8 list option" where
  "process_msg_request_beacon e input hm =
     and_then (decode_msg_request_beacon input hm) (\<lambda>h.
     and_then (encode_msg_request_beacon (mallocs e) (h\<lparr>period := 7\<rparr>)) (\<lambda>(_, output). Inr ([], Some output)))"

definition send_msg_request_beacon ::
  "env \<Rightarrow> cstr \<Rightarrow> c_int \<Rightarrow> c_int \<Rightarrow> c_long \<Rightarrow> msg_req_beaconinfo \<Rightarrow> msg_req_beaconinfo
   \<Rightarrow> fault + effect list \<times> c_int \<times> msg_req_beaconinfo option" where
  "send_msg_request_beacon e hostname portnum idc per hs hm =
     send_sync e hostname portnum idc
       (\<lambda>i. run_prog
         [assign m_type_update MSG_REQUEST_BEACON,
          assign m_id_update i,
          copy_to e p_version_update ETHANOL_VERSION,
          assign period_update per,
          set_size message_size_msg_request_beacon] hs)
       (encode_msg_request_beacon (mallocs e))
       (\<lambda>t. t = MSG_REQUEST_BEACON)
       (\<lambda>buf. decode_msg_request_beacon buf hm)"

definition bytes_req_beacon :: "msg_req_beaconinfo \<Rightarrow> nat" where
  "bytes_req_beacon h = slen (p_version h) + 25"

definition ok_req_beacon :: "msg_req_beaconinfo \<Rightarrow> bool" where
  "ok_req_beacon h \<longleftrightarrow> ok_header h
     \<and> bytes_req_beacon h < 2 ^ 31"

definition norm_req_beacon :: "msg_req_beaconinfo \<Rightarrow> msg_req_beaconinfo \<Rightarrow> msg_req_beaconinfo" where
  "norm_req_beacon h0 h = norm_header (bytes_req_beacon h) h"

interpretation req_beacon: msg_codec encode_msg_request_beacon decode_msg_request_beacon ok_req_beacon
  norm_req_beacon bytes_req_beacon m_type
  unfolding encode_msg_request_beacon_def [abs_def] decode_msg_request_beacon_def
  by (rule frame_codecI [where bss = "\<lambda>m. [le_bytes 8 (period m)]"])
    (simp_all add: codec ok_req_beacon_def ok_header_def bytes_req_beacon_def norm_req_beacon_def
      message_size_msg_request_beacon_def norm_header_def ac_simps)


subsection \<open>Deauthentication and disconnection of a user\<close>

text \<open>The handlers send the message back; nothing is done to the station.\<close>

record user_msg = msg_header +
  user_mac :: cstr

type_synonym msg_deauthenticate_user = user_msg

definition message_size_deauthenticate_user :: "msg_deauthenticate_user \<Rightarrow> fault + c_int" where
  "message_size_deauthenticate_user h = sum_sizes
     [strlen_ethanol (p_version h), sizeof 4, sizeof 4, sizeof 4,
      strlen_ethanol (user_mac h)]"

definition encode_msg_deauthenticate_user :: "allocator \<Rightarrow> msg_deauthenticate_user \<Rightarrow> fault + msg_deauthenticate_user \<times> u8 list" where
  "encode_msg_deauthenticate_user mal = encode_frame mal message_size_deauthenticate_user (\<lambda>h.
     [encode_header (m_type h) (m_id h) (m_size h),
      encode_char (user_mac h)])"

definition decode_msg_deauthenticate_user :: "u8 list \<Rightarrow> msg_deauthenticate_user \<Rightarrow> fault + msg_deauthenticate_user" where
  "decode_msg_deauthenticate_user = decode_frame
     [decode_header,
      into decode_char user_mac_update]"

definition process_msg_deauthenticate_user ::
  "env \<Rightarrow> u8 list \<Rightarrow> msg_deauthenticate_user \<Rightarrow> fault + effect list \<times> u8 list option" where
  "process_msg_deauthenticate_user e input hm =
     and_then (decode_msg_deauthenticate_user input hm) (\<lambda>h.
     and_then (encode_msg_deauthenticate_user (mallocs e) h) (\<lambda>(_, output). Inr ([], Some output)))"

text \<open>The size is computed before the address is assigned.\<close>

definition send_msg_deauthenticate_user ::
  "env \<Rightarrow> cstr \<Rightarrow> c_int \<Rightarrow> c_int \<Rightarrow> cstr \<Rightarrow> msg_deauthenticate_user
   \<Rightarrow> fault + effect list \<times> c_int" where
  "send_msg_deauthenticate_user e hostname portnum idc mac hs = send_async e hostname portnum idc
       (\<lambda>i. run_prog
         [assign m_type_update MSG_DEAUTHENTICATE_USER,
          assign m_id_update i,
          copy_to e p_version_update ETHANOL_VERSION,
          set_size message_size_deauthenticate_user,
          (if mac \<noteq> None then name_to e user_mac_update mac else assign user_mac_update None)] hs)
       (encode_msg_deauthenticate_user (mallocs e))"

definition bytes_deauthenticate :: "msg_deauthenticate_user \<Rightarrow> nat" where
  "bytes_deauthenticate h = slen (p_version h) + slen (user_mac h) + 22"

definition ok_deauthenticate :: "msg_deauthenticate_user \<Rightarrow> bool" where
  "ok_deauthenticate h \<longleftrightarrow> ok_header h \<and> ok_str (user_mac h)
     \<and> bytes_deauthenticate h < 2 ^ 31"

definition norm_deauthenticate :: "msg_deauthenticate_user \<Rightarrow> msg_deauthenticate_user \<Rightarrow> msg_deauthenticate_user" where
  "norm_deauthenticate h0 h = (norm_header (bytes_deauthenticate h) h)\<lparr>user_mac := canon (user_mac h)\<rparr>"

interpretation deauthenticate: msg_codec encode_msg_deauthenticate_user decode_msg_deauthenticate_user ok_deauthenticate
  norm_deauthenticate bytes_deauthenticate m_type
  unfolding encode_msg_deauthenticate_user_def [abs_def] decode_msg_deauthenticate_user_def
  by (rule frame_codecI [where bss = "\<lambda>m. [ser_str (user_mac m)]"])
    (simp_all add: codec ok_deauthenticate_def ok_header_def bytes_deauthenticate_def norm_deauthenticate_def
      message_size_deauthenticate_user_def norm_header_def ac_simps encode_char_put length_ser_str)

type_synonym msg_disconnect_user = user_msg

definition message_size_disconnect_user :: "msg_disconnect_user \<Rightarrow> fault + c_int" where
  "message_size_disconnect_user h = sum_sizes
     [strlen_ethanol (p_version h), sizeof 4, sizeof 4, sizeof 4,
      strlen_ethanol (user_mac h)]"

definition encode_msg_disconnect_user :: "allocator \<Rightarrow> msg_disconnect_user \<Rightarrow> fault + msg_disconnect_user \<times> u8 list" where
  "encode_msg_disconnect_user mal = encode_frame mal message_size_disconnect_user (\<lambda>h.
     [encode_header (m_type h) (m_id h) (m_size h),
      encode_char (user_mac h)])"

definition decode_msg_disconnect_user :: "u8 list \<Rightarrow> msg_disconnect_user \<Rightarrow> fault + msg_disconnect_user" where
  "decode_msg_disconnect_user = decode_frame
     [decode_header,
      into decode_char user_mac_update]"

definition process_msg_disconnect_user ::
  "env \<Rightarrow> u8 list \<Rightarrow> msg_disconnect_user \<Rightarrow> fault + effect list \<times> u8 list option" where
  "process_msg_disconnect_user e input hm =
     and_then (decode_msg_disconnect_user input hm) (\<lambda>h.
     and_then (encode_msg_disconnect_user (mallocs e) h) (\<lambda>(_, output). Inr ([], Some output)))"

definition send_msg_disconnect_user ::
  "env \<Rightarrow> cstr \<Rightarrow> c_int \<Rightarrow> c_int \<Rightarrow> cstr \<Rightarrow> msg_disconnect_user
   \<Rightarrow> fault + effect list \<times> c_int" where
  "send_msg_disconnect_user e hostname portnum idc mac hs = send_async e hostname portnum idc
       (\<lambda>i. run_prog
         [assign m_type_update MSG_DISCONNECT_USER,
          assign m_id_update i,
          copy_to e p_version_update ETHANOL_VERSION,
          copy_to e user_mac_update mac,
          set_size message_size_disconnect_user] hs)
       (encode_msg_disconnect_user (mallocs e))"

definition bytes_disconnect :: "msg_disconnect_user \<Rightarrow> nat" where
  "bytes_disconnect h = slen (p_version h) + slen (user_mac h) + 22"

definition ok_disconnect :: "msg_disconnect_user \<Rightarrow> bool" where
  "ok_disconnect h \<longleftrightarrow> ok_header h \<and> ok_str (user_mac h)
     \<and> bytes_disconnect h < 2 ^ 31"

definition norm_disconnect :: "msg_disconnect_user \<Rightarrow> msg_disconnect_user \<Rightarrow> msg_disconnect_user" where
  "norm_disconnect h0 h = (norm_header (bytes_disconnect h) h)\<lparr>user_mac := canon (user_mac h)\<rparr>"

interpretation disconnect: msg_codec encode_msg_disconnect_user decode_msg_disconnect_user ok_disconnect
  norm_disconnect bytes_disconnect m_type
  unfolding encode_msg_disconnect_user_def [abs_def] decode_msg_disconnect_user_def
  by (rule frame_codecI [where bss = "\<lambda>m. [ser_str (user_mac m)]"])
    (simp_all add: codec ok_disconnect_def ok_header_def bytes_disconnect_def norm_disconnect_def
      message_size_disconnect_user_def norm_header_def ac_simps encode_char_put length_ser_str)


subsection \<open>Handover (\<open>ethanol_functions/change_ap.c\<close>)\<close>

text \<open>
  \<open>sscanf (p, "bssid=%s", buf)\<close> with an array of 20 bytes: after the literal text blanks are
  skipped, and the characters up to the next blank are stored with a terminator.
\<close>

definition is_space :: "u8 \<Rightarrow> bool" where
  "is_space c \<longleftrightarrow> c \<in> {9, 10, 11, 12, 13, 32}"

fun find_text :: "u8 list \<Rightarrow> u8 list \<Rightarrow> u8 list option" where
  "find_text t [] = (if t = [] then Some [] else None)"
| "find_text t (x # xs) = (if take (length t) (x # xs) = t then Some (x # xs) else find_text t xs)"

definition scan_bssid :: "u8 list \<Rightarrow> u8 list step" where
  "scan_bssid p buf =
     (if take 6 p = str_bytes ''bssid='' then
        (let w = takeWhile (\<lambda>c. \<not> is_space c) (dropWhile is_space (drop 6 p)) in
         if w = [] then Inr buf
         else if length w + 1 \<le> 20 then Inr (w @ 0 # drop (length w + 1) buf)
         else Inl Write_Out_Of_Bounds)
      else Inr buf)"

text \<open>The loop over the lines of the output: the first line with \<open>bssid\<close> is read.\<close>

primrec read_bssid :: "u8 list list \<Rightarrow> u8 list step" where
  "read_bssid [] buf = Inr buf"
| "read_bssid (l # ls) buf = (case find_text (str_bytes ''bssid'') l of
       Some p \<Rightarrow> scan_bssid p buf
     | None \<Rightarrow> read_bssid ls buf)"

definition popen_read :: "env \<Rightarrow> u8 list \<Rightarrow> u8 list \<Rightarrow> fault + u8 list" where
  "popen_read e cmd buf = (case popen_lines e cmd of None \<Rightarrow> Inr buf | Some ls \<Rightarrow> read_bssid ls buf)"

text \<open>
  One round of the loop: the status, the change, and after two seconds the status again.  The
  environment may be another one each time a command is run, \<open>e1\<close> before and \<open>e2\<close> after the change.
  The source is compiled without \<open>DEBUG\<close>, so the output of the change is not read.  \<open>actual\<close> and \<open>new\<close>
  are the uninitialised arrays of 20 bytes.  The result says whether the station is now connected to
  the new access point.
\<close>

definition roam_once ::
  "env \<Rightarrow> env \<Rightarrow> cstr \<Rightarrow> cstr \<Rightarrow> cstr \<Rightarrow> u8 list \<Rightarrow> u8 list \<Rightarrow> fault + effect list \<times> u8 list \<times> u8 list \<times> bool" where
  "roam_once e1 e2 wpa_cli intf ap actual new =
     and_then (sprintf 2000 [Lit ''sudo '', Str wpa_cli, Lit '' -i '', Str intf, Lit '' status'']) (\<lambda>status.
     and_then (popen_read e1 status actual) (\<lambda>actual.
     and_then (sprintf 2000 [Lit ''sudo '', Str wpa_cli, Lit '' -i '', Str intf, Lit '' roam '', Str ap]) (\<lambda>roam.
     and_then (popen_read e2 status new) (\<lambda>new.
     and_then (strcmp (Some new) ap) (\<lambda>same.
       Inr ([System status, System roam, System status], actual, new, same))))))"

primrec roam_tries ::
  "(nat \<Rightarrow> env \<times> env) \<Rightarrow> cstr \<Rightarrow> cstr \<Rightarrow> cstr \<Rightarrow> u8 list \<Rightarrow> u8 list \<Rightarrow> nat \<Rightarrow> fault + effect list" where
  "roam_tries es wpa_cli intf ap actual new 0 = Inr []"
| "roam_tries es wpa_cli intf ap actual new (Suc k) =
     and_then (roam_once (fst (es k)) (snd (es k)) wpa_cli intf ap actual new) (\<lambda>(ev, actual, new, same).
       if same then Inr ev
       else and_then (roam_tries es wpa_cli intf ap actual new k) (\<lambda>ev'. Inr (ev @ ev')))"

text \<open>\<open>max_tries\<close> is 1 unless \<open>set_max_tries\<close> was called; the result is -1 without \<open>wpa_cli\<close> and 0 otherwise.\<close>

definition roam_change_ap ::
  "env \<Rightarrow> (nat \<Rightarrow> env \<times> env) \<Rightarrow> c_int \<Rightarrow> cstr \<Rightarrow> cstr \<Rightarrow> u8 list \<Rightarrow> u8 list \<Rightarrow> fault + effect list \<times> c_int" where
  "roam_change_ap e es max_tries intf ap actual new =
     and_then (which_path e ''wpa_cli'') (\<lambda>wpa_cli.
       if wpa_cli = None then Inr ([], - 1)
       else and_then (roam_tries es wpa_cli intf ap actual new (nat (sint max_tries))) (\<lambda>ev. Inr (ev, 0)))"

record msg_station_trigger_transition = sta_query +
  tt_mac_sta :: cstr
  tt_mac_new_ap :: cstr

definition size_msg_station_trigger_transition :: "msg_station_trigger_transition \<Rightarrow> fault + c_int" where
  "size_msg_station_trigger_transition h = sum_sizes
     [strlen_ethanol (p_version h), sizeof 4, sizeof 4, sizeof 4, strlen_ethanol (sta_ip h), sizeof 4,
      strlen_ethanol (tt_mac_sta h), strlen_ethanol (intf_name h), strlen_ethanol (tt_mac_new_ap h)]"

definition encode_msg_station_trigger_transition ::
  "allocator \<Rightarrow> msg_station_trigger_transition \<Rightarrow> fault + msg_station_trigger_transition \<times> u8 list" where
  "encode_msg_station_trigger_transition mal = encode_frame mal size_msg_station_trigger_transition (\<lambda>h.
     [encode_header (m_type h) (m_id h) (m_size h),
      encode_char (sta_ip h),
      encode_int (sta_port h),
      encode_char (tt_mac_sta h),
      encode_char (intf_name h),
      encode_char (tt_mac_new_ap h)])"

definition decode_msg_station_trigger_transition ::
  "u8 list \<Rightarrow> msg_station_trigger_transition \<Rightarrow> fault + msg_station_trigger_transition" where
  "decode_msg_station_trigger_transition = decode_frame
     [decode_header,
      into decode_char sta_ip_update,
      into decode_int sta_port_update,
      into decode_char tt_mac_sta_update,
      into decode_char intf_name_update,
      into decode_char tt_mac_new_ap_update]"

definition process_msg_station_trigger_transition ::
  "env \<Rightarrow> (nat \<Rightarrow> env \<times> env) \<Rightarrow> c_int \<Rightarrow> u8 list \<Rightarrow> msg_station_trigger_transition \<Rightarrow> u8 list \<Rightarrow> u8 list
   \<Rightarrow> fault + effect list \<times> u8 list option" where
  "process_msg_station_trigger_transition e es max_tries input hm actual new =
     and_then (decode_msg_station_trigger_transition input hm) (\<lambda>h.
     and_then (roam_change_ap e es max_tries (intf_name h) (tt_mac_new_ap h) actual new) (\<lambda>(ev, _).
       Inr (ev, None)))"

text \<open>The structure is cleared first, so every pointer is null before it is assigned.\<close>

definition send_msg_station_trigger_transition ::
  "env \<Rightarrow> cstr \<Rightarrow> c_int \<Rightarrow> c_int \<Rightarrow> cstr \<Rightarrow> c_int \<Rightarrow> cstr \<Rightarrow> cstr \<Rightarrow> cstr \<Rightarrow> fault + effect list \<times> c_int" where
  "send_msg_station_trigger_transition e hostname port_num idc staip staport macsta intf macap =
     send_async e hostname port_num idc
       (\<lambda>i. run_prog
         [assign m_type_update MSG_TRIGGER_TRANSITION,
          assign m_id_update i,
          copy_to e p_version_update ETHANOL_VERSION,
          copy_to e sta_ip_update staip,
          assign sta_port_update staport,
          copy_to e tt_mac_sta_update macsta,
          copy_to e intf_name_update intf,
          copy_to e tt_mac_new_ap_update macap,
          set_size size_msg_station_trigger_transition]
         \<lparr>m_type = 0, m_id = 0, p_version = None, m_size = 0, intf_name = None, sta_ip = None, sta_port = 0,
          tt_mac_sta = None, tt_mac_new_ap = None\<rparr>)
       (encode_msg_station_trigger_transition (mallocs e))"

definition bytes_trigger :: "msg_station_trigger_transition \<Rightarrow> nat" where
  "bytes_trigger h = slen (p_version h) + slen (sta_ip h) + slen (tt_mac_sta h) + slen (intf_name h)
     + slen (tt_mac_new_ap h) + 41"

definition ok_trigger :: "msg_station_trigger_transition \<Rightarrow> bool" where
  "ok_trigger h \<longleftrightarrow> ok_header h \<and> ok_str (sta_ip h) \<and> ok_str (tt_mac_sta h) \<and> ok_str (intf_name h)
     \<and> ok_str (tt_mac_new_ap h) \<and> bytes_trigger h < 2 ^ 31"

definition norm_trigger ::
  "msg_station_trigger_transition \<Rightarrow> msg_station_trigger_transition \<Rightarrow> msg_station_trigger_transition" where
  "norm_trigger h0 h = (norm_header (bytes_trigger h) h)\<lparr>sta_ip := canon (sta_ip h),
     tt_mac_sta := canon (tt_mac_sta h), intf_name := canon (intf_name h), tt_mac_new_ap := canon (tt_mac_new_ap h)\<rparr>"

interpretation trigger: msg_codec encode_msg_station_trigger_transition decode_msg_station_trigger_transition
  ok_trigger norm_trigger bytes_trigger m_type
  unfolding encode_msg_station_trigger_transition_def [abs_def] decode_msg_station_trigger_transition_def
  by (rule frame_codecI [where bss = "\<lambda>m. [ser_str (sta_ip m), le_bytes 4 (sta_port m), ser_str (tt_mac_sta m),
          ser_str (intf_name m), ser_str (tt_mac_new_ap m)]"])
    (simp_all add: codec ok_trigger_def ok_header_def bytes_trigger_def norm_trigger_def
      size_msg_station_trigger_transition_def norm_header_def ac_simps encode_char_put length_ser_str)


subsection \<open>Properties\<close>

lemma association_types: "association_type state \<in> {MSG_ASSOCIATION, MSG_DISASSOCIATION, MSG_REASSOCIATION,
    MSG_AUTHORIZATION, MSG_USER_DISCONNECTING, MSG_USER_CONNECTING}"
  by (cases state) (simp_all add: association_type_def)

text \<open>
  Every change of the association of a station is allowed: for each of the six kinds of request, and
  whatever the addresses of station and access point, the client gets exactly one answer from a
  server with the default handler, of the kind it asked for, with its own message id and the two
  addresses, \<open>allowed\<close> set and the response code 0.  Without one of the addresses nothing is sent and
  there is no answer.
\<close>

theorem association_answered:
  assumes "copyable (mallocs e0) ETHANOL_VERSION" "copyable (mallocs e0) macap" "copyable (mallocs e0) macsta"
    and "slen macap + slen macsta < 2 ^ 31 - 100" "allocates (mallocs e0)" "reaches e0 host port"
    and "allocates (mallocs e1)"
    and "serves e0 host port (association_type state) (\<lambda>req. process_msg_association_process e1 (req @ j) hm1)"
  shows "if macap = None \<or> macsta = None then
      send_msg_association_process e0 host port i macap macsta state hs hm = Inr ([], i, None)
    else \<exists>req a. send_msg_association_process e0 host port i macap macsta state hs hm
        = Inr (session e0 host port req, i + 1, Some a) \<and> m_id a = i \<and> m_type a = association_type state \<and>
      mac_ap a = canon macap \<and> mac_sta a = canon macsta \<and> allowed a \<and> response a = 0"
proof (cases "macap = None \<or> macsta = None")
  case True
  then show ?thesis
    by (auto simp: send_msg_association_process_def)
next
  case False
  let ?mal = "mallocs e0"
  let ?q = "hs\<lparr>m_type := association_type state, m_id := i, p_version := dup ?mal ETHANOL_VERSION,
      mac_ap := dup ?mal macap, mac_sta := dup ?mal macsta, allowed := False,
      m_size := word_of_nat (slen macap + slen macsta + 40)\<rparr>"
  let ?build = "\<lambda>i. run_prog [assign m_type_update (association_type state), assign m_id_update i,
          copy_to e0 p_version_update ETHANOL_VERSION, copy_to e0 mac_ap_update macap,
          copy_to e0 mac_sta_update macsta, assign allowed_update False,
          set_size message_size_association_process] hs"
  have s: "ok_str macap" "ok_str macsta"
    using assms(2,3) by (simp_all add: copyable_ok_str)
  have build: "?build i = Inr ?q"
    using assms(1-3) s
    by (simp add: set_size_ok [where n = "slen macap + slen macsta + 40"] message_size_association_process_def ac_simps)
  have ok: "ok_assoc ?q"
    using assms(1-4) s by (simp add: ok_assoc_def ok_header_def bytes_assoc_def)
  let ?a = "(norm_assoc hm1 ?q)\<lparr>allowed := True, response := 0\<rparr>"
  have oka: "ok_assoc ?a"
    using ok assms(4) s by (simp add: ok_assoc_def norm_assoc_def norm_header_def ok_header_def bytes_assoc_def)
  have peer: "\<exists>a' wire r. encode_msg_association_process (mallocs e1) ?a = Inr (a', wire) \<and>
      ssl_read e0 host port req = wire @ r"
    if e: "encode_msg_association_process ?mal ?q = Inr (q', req)" for q' req
  proof -
    obtain a' wire where w: "encode_msg_association_process (mallocs e1) ?a = Inr (a', wire)"
      using assoc.enc_no_fault [OF oka assms(7)] by blast
    have "process_msg_association_process e1 (req @ j) hm1 = Inr ([], Some wire)"
      using assoc.roundtrip [OF ok assms(5) e] w by (simp add: process_msg_association_process_def)
    moreover have "of_type (association_type state) req"
      using assoc.wire_type [OF ok assms(5) e] by simp
    ultimately show ?thesis
      using w servesD [OF assms(8)] by blast
  qed
  let ?expected = "\<lambda>t. t \<in> {MSG_ASSOCIATION, MSG_DISASSOCIATION, MSG_REASSOCIATION,
         MSG_AUTHORIZATION, MSG_USER_DISCONNECTING, MSG_USER_CONNECTING}"
  have ex: "?expected (m_type ?a)"
    using association_types [of state] by (simp add: norm_assoc_def norm_header_def)
  have "\<exists>req. send_sync e0 host port i ?build (encode_msg_association_process ?mal) ?expected
      (\<lambda>b. decode_msg_association_process b hm) = Inr (session e0 host port req, i + 1, Some (norm_assoc hm ?a))"
    by (rule assoc.send_sync_session [where build = ?build and q = ?q and expected = ?expected,
          OF assms(6) build ok assms(5) _ oka assms(7) ex]) (rule peer)
  then obtain req where "send_msg_association_process e0 host port i macap macsta state hs hm
      = Inr (session e0 host port req, i + 1, Some (norm_assoc hm ?a))"
    unfolding send_msg_association_process_def using False by auto
  moreover have "m_id (norm_assoc hm ?a) = i" "m_type (norm_assoc hm ?a) = association_type state"
      "mac_ap (norm_assoc hm ?a) = canon macap" "mac_sta (norm_assoc hm ?a) = canon macsta"
      "allowed (norm_assoc hm ?a)" "response (norm_assoc hm ?a) = 0"
    using assms(2,3) by (simp_all add: norm_assoc_def norm_header_def)
  ultimately show ?thesis
    using False by auto
qed

definition demo_assoc :: msg_association_process where
  "demo_assoc = \<lparr>m_type = 0, m_id = 0, p_version = None, m_size = 0, mac_ap = None, mac_sta = None,
     allowed = False, response = 5\<rparr>"

theorem association_answered_witness:
  "\<exists>req a. send_msg_association_process (demo_env\<lparr>ssl_read := demo_peer (\<lambda>req.
         process_msg_association_process demo_env (req @ [4]) demo_assoc)\<rparr>) demo_name 22222 6 demo_name demo_name
         REASSOCIATION demo_assoc demo_assoc
       = Inr (session demo_env demo_name 22222 req, 7, Some a) \<and> m_id a = 6 \<and> allowed a"
proof -
  let ?e = "demo_env\<lparr>ssl_read := demo_peer (\<lambda>req.
         process_msg_association_process demo_env (req @ [4]) demo_assoc)\<rparr>"
  have c: "copyable (mallocs ?e) ETHANOL_VERSION" "copyable (mallocs ?e) demo_name" "copyable (mallocs ?e) demo_name"
      "slen demo_name + slen demo_name < 2 ^ 31 - 100" "allocates (mallocs ?e)" "reaches ?e demo_name 22222"
    using reaches_demo_env [of demo_name 22222]
    by (simp_all add: copyable_demo_env allocates_demo_env reaches_def)
  have "session ?e demo_name 22222 req = session demo_env demo_name 22222 req" "demo_name \<noteq> None" for req
    by (simp_all add: session_def demo_name_def)
  then show ?thesis
    using association_answered [OF c allocates_demo_env serves_demo_peer, of 6 REASSOCIATION demo_assoc demo_assoc]
    by auto
qed

text \<open>The outputs of \<open>wpa_cli\<close> whose addresses fit into the array of 20 bytes.\<close>

definition bssids_fit :: "env \<Rightarrow> u8 list \<Rightarrow> bool" where
  "bssids_fit e cmd \<longleftrightarrow> (\<forall>ls. popen_lines e cmd = Some ls \<longrightarrow> (\<forall>l\<in>set ls. \<forall>p.
     find_text (str_bytes ''bssid'') l = Some p \<longrightarrow>
       length (takeWhile (\<lambda>c. \<not> is_space c) (dropWhile is_space (drop 6 p))) \<le> 19))"

definition bssid_array :: "u8 list \<Rightarrow> bool" where
  "bssid_array b \<longleftrightarrow> length b = 20 \<and> 0 \<in> set b"

lemma scan_bssid_ok:
  assumes "length (takeWhile (\<lambda>c. \<not> is_space c) (dropWhile is_space (drop 6 p))) \<le> 19" "bssid_array buf"
  shows "\<exists>b. scan_bssid p buf = Inr b \<and> bssid_array b"
  using assms by (auto simp: scan_bssid_def bssid_array_def Let_def)

lemma popen_read_ok:
  assumes "bssids_fit e cmd" "bssid_array buf"
  shows "\<exists>b. popen_read e cmd buf = Inr b \<and> bssid_array b"
proof -
  have "\<exists>b. read_bssid ls buf = Inr b \<and> bssid_array b"
    if "\<forall>l\<in>set ls. \<forall>p. find_text (str_bytes ''bssid'') l = Some p \<longrightarrow>
       length (takeWhile (\<lambda>c. \<not> is_space c) (dropWhile is_space (drop 6 p))) \<le> 19" for ls
    using that assms(2) by (induction ls) (auto split: option.split intro: scan_bssid_ok)
  then show ?thesis
    using assms by (auto simp: popen_read_def bssids_fit_def split: option.split)
qed

definition status_command :: "cstr \<Rightarrow> cstr \<Rightarrow> u8 list" where
  "status_command wpa_cli intf = str_bytes ''sudo '' @ shown wpa_cli @ str_bytes '' -i '' @ shown intf @ str_bytes '' status''"

definition roam_command :: "cstr \<Rightarrow> cstr \<Rightarrow> cstr \<Rightarrow> u8 list" where
  "roam_command wpa_cli intf ap = str_bytes ''sudo '' @ shown wpa_cli @ str_bytes '' -i '' @ shown intf @
     str_bytes '' roam '' @ shown ap"

definition attempt :: "cstr \<Rightarrow> cstr \<Rightarrow> cstr \<Rightarrow> effect list" where
  "attempt wpa_cli intf ap = [System (status_command wpa_cli intf), System (roam_command wpa_cli intf ap),
     System (status_command wpa_cli intf)]"

lemma roam_once_ok:
  assumes "wf_str wpa_cli" "wf_str intf" "named ap"
    and "length (shown wpa_cli) + length (shown intf) + length (shown ap) \<le> 1900"
    and "bssids_fit e1 (status_command wpa_cli intf)" "bssids_fit e2 (status_command wpa_cli intf)"
    and "bssid_array actual" "bssid_array new"
  shows "\<exists>actual' new'. roam_once e1 e2 wpa_cli intf ap actual new
      = Inr (attempt wpa_cli intf ap, actual', new', str_chars new' = chars ap) \<and>
    bssid_array actual' \<and> bssid_array new'"
proof -
  have c: "sprintf 2000 [Lit ''sudo '', Str wpa_cli, Lit '' -i '', Str intf, Lit '' status'']
      = Inr (status_command wpa_cli intf)"
    "sprintf 2000 [Lit ''sudo '', Str wpa_cli, Lit '' -i '', Str intf, Lit '' roam '', Str ap]
      = Inr (roam_command wpa_cli intf ap)"
    using assms(1-4)
    by (auto intro!: sprintf_fits simp: fmt_str_wf status_command_def roam_command_def named_def)
  obtain actual' new' where r: "popen_read e1 (status_command wpa_cli intf) actual = Inr actual'" "bssid_array actual'"
      "popen_read e2 (status_command wpa_cli intf) new = Inr new'" "bssid_array new'"
    using popen_read_ok assms(5-8) by meson
  have "strcmp (Some new') ap = Inr (str_chars new' = chars ap)"
    using strcmp_wf [OF _ assms(3)] r(4) by (simp add: bssid_array_def)
  then show ?thesis
    using c r by (simp add: roam_once_def attempt_def)
qed

lemma roam_tries_ok:
  assumes "wf_str wpa_cli" "wf_str intf" "named ap"
    and "length (shown wpa_cli) + length (shown intf) + length (shown ap) \<le> 1900"
    and "\<forall>k<n. bssids_fit (fst (es k)) (status_command wpa_cli intf) \<and> bssids_fit (snd (es k)) (status_command wpa_cli intf)"
    and "bssid_array actual" "bssid_array new"
  shows "\<exists>m\<le>n. roam_tries es wpa_cli intf ap actual new n = Inr (concat (replicate m (attempt wpa_cli intf ap)))
    \<and> (m = 0 \<longrightarrow> n = 0)"
  using assms(5-7)
proof (induction n arbitrary: actual new)
  case 0
  then show ?case by simp
next
  case (Suc n)
  obtain actual' new' where o: "roam_once (fst (es n)) (snd (es n)) wpa_cli intf ap actual new
      = Inr (attempt wpa_cli intf ap, actual', new', str_chars new' = chars ap)" "bssid_array actual'" "bssid_array new'"
    using roam_once_ok [OF assms(1-4)] Suc.prems by (metis lessI)
  obtain m where m: "m \<le> n" "roam_tries es wpa_cli intf ap actual' new' n = Inr (concat (replicate m (attempt wpa_cli intf ap)))"
    using Suc.IH [OF _ o(2,3)] Suc.prems(1) by auto
  show ?case
  proof (cases "str_chars new' = chars ap")
    case True
    then show ?thesis using o(1) by (intro exI [of _ 1]) simp
  next
    case False
    then show ?thesis using o(1) m by (intro exI [of _ "Suc m"]) simp
  qed
qed

text \<open>
  C20 The handover.  On a station with \<open>wpa_cli\<close>, a message that asks it to change to another access
  point makes it run whole attempts and nothing else: each asks for the status, tells
  \<open>wpa_cli\<close> to roam to the address in the message on the interface in the message, and asks for the status
  again.  There is at least one attempt and at most \<open>max_tries\<close>; exactly one with the default of 1.
  There is no reply.
\<close>

theorem handover_commands:
  assumes "ok_trigger q" "allocates mal" "encode_msg_station_trigger_transition mal q = Inr (q', req)"
    and "0 < slen (tt_mac_new_ap q)"
    and "which_path e ''wpa_cli'' = Inr (Some w)" "wf_str (Some w)"
    and "length (shown (Some w)) + length (shown (canon (intf_name q))) + length (shown (canon (tt_mac_new_ap q))) \<le> 1900"
    and "\<forall>k. bssids_fit (fst (es k)) (status_command (Some w) (canon (intf_name q))) \<and>
           bssids_fit (snd (es k)) (status_command (Some w) (canon (intf_name q)))"
    and "bssid_array actual" "bssid_array new" "0 < sint max_tries"
  shows "\<exists>m. process_msg_station_trigger_transition e es max_tries (req @ r) hm actual new
      = Inr (concat (replicate m (attempt (Some w) (canon (intf_name q)) (canon (tt_mac_new_ap q)))), None) \<and>
    0 < m \<and> int m \<le> sint max_tries"
proof -
  have n: "named (canon (tt_mac_new_ap q))"
    using assms(4) by (simp add: named_def canon_eq_None)
  obtain m where "m \<le> nat (sint max_tries)" "m = 0 \<longrightarrow> nat (sint max_tries) = 0"
      "roam_tries es (Some w) (canon (intf_name q)) (canon (tt_mac_new_ap q)) actual new (nat (sint max_tries))
        = Inr (concat (replicate m (attempt (Some w) (canon (intf_name q)) (canon (tt_mac_new_ap q)))))"
    using roam_tries_ok [OF assms(6) wf_str_canon n assms(7) _ assms(9,10)] assms(8) by blast
  then show ?thesis
    using trigger.roundtrip [OF assms(1-3)] assms(5,11)
    by (intro exI [of _ m]) (auto simp: process_msg_station_trigger_transition_def roam_change_ap_def norm_trigger_def)
qed

definition demo_roaming :: env where
  "demo_roaming = demo_env\<lparr>popen_lines := \<lambda>cmd. Some [if contains (str_bytes ''which'') cmd
     then str_bytes ''/sbin/wpa_cli'' @ [10] else str_bytes ''bssid=w'' @ [10]]\<rparr>"

definition demo_trigger :: msg_station_trigger_transition where
  "demo_trigger = \<lparr>m_type = MSG_TRIGGER_TRANSITION, m_id = 2, p_version = ETHANOL_VERSION, m_size = 0,
     intf_name = demo_name, sta_ip = None, sta_port = 0, tt_mac_sta = demo_name, tt_mac_new_ap = demo_name\<rparr>"

theorem handover_commands_witness:
  "\<exists>q' req. encode_msg_station_trigger_transition demo_alloc demo_trigger = Inr (q', req) \<and>
     process_msg_station_trigger_transition demo_roaming (\<lambda>_. (demo_roaming, demo_roaming)) 1 (req @ [9])
       demo_trigger (replicate 20 0) (replicate 20 0)
     = Inr (attempt (Some (str_bytes ''/sbin/wpa_cli'' @ [0])) demo_name demo_name, None)"
proof -
  let ?w = "str_bytes ''/sbin/wpa_cli'' @ [0]"
  have ok: "ok_trigger demo_trigger" "0 < slen (tt_mac_new_ap demo_trigger)"
    by (simp_all add: demo_trigger_def ok_trigger_def ok_header_def bytes_trigger_def ok_str_def)
  obtain q' req where e: "encode_msg_station_trigger_transition demo_alloc demo_trigger = Inr (q', req)"
    using trigger.enc_no_fault [OF ok(1) allocates_demo_alloc] by blast
  have w: "which_path demo_roaming ''wpa_cli'' = Inr (Some ?w)"
    by code_simp
  have s: "shown (Some ?w) = str_bytes ''/sbin/wpa_cli''" "shown demo_name = str_bytes ''w''"
    by code_simp+
  have st: "status_command (Some ?w) demo_name = str_bytes ''sudo /sbin/wpa_cli -i w status''"
    unfolding status_command_def s by code_simp
  have p: "popen_lines demo_roaming (str_bytes ''sudo /sbin/wpa_cli -i w status'') = Some [str_bytes ''bssid=w'' @ [10]]"
    by code_simp
  have f: "find_text (str_bytes ''bssid'') (str_bytes ''bssid=w'' @ [10]) = Some (str_bytes ''bssid=w'' @ [10])"
    "length (takeWhile (\<lambda>c. \<not> is_space c) (dropWhile is_space (drop 6 (str_bytes ''bssid=w'' @ [10])))) \<le> 19"
    by code_simp+
  have fit: "bssids_fit demo_roaming (status_command (Some ?w) demo_name)"
    unfolding st bssids_fit_def p using f by simp
  have wf: "wf_str (Some ?w)"
    by (simp add: wf_str_def)
  have len: "length (shown (Some ?w)) + length (shown demo_name) + length (shown demo_name) \<le> 1900"
    unfolding s by simp
  have a: "bssid_array (replicate 20 0)"
    by (simp add: bssid_array_def)
  have n: "canon (intf_name demo_trigger) = demo_name" "canon (tt_mac_new_ap demo_trigger) = demo_name"
    by (simp_all add: demo_trigger_def)
  have "\<exists>m. process_msg_station_trigger_transition demo_roaming (\<lambda>_. (demo_roaming, demo_roaming)) 1 (req @ [9])
       demo_trigger (replicate 20 0) (replicate 20 0)
      = Inr (concat (replicate m (attempt (Some ?w) (canon (intf_name demo_trigger)) (canon (tt_mac_new_ap demo_trigger)))), None)
      \<and> 0 < m \<and> int m \<le> sint (1 :: c_int)"
    by (rule handover_commands [OF ok(1) allocates_demo_alloc e ok(2) w wf])
      (use len fit a in \<open>simp_all only: n fst_conv snd_conv, simp_all\<close>)
  then obtain m where m: "0 < m" "int m \<le> 1" "process_msg_station_trigger_transition demo_roaming
       (\<lambda>_. (demo_roaming, demo_roaming)) 1 (req @ [9]) demo_trigger (replicate 20 0) (replicate 20 0)
      = Inr (concat (replicate m (attempt (Some ?w) demo_name demo_name)), None)"
    by (auto simp: n)
  then have "m = 1" by simp
  then show ?thesis using e m(3) by auto
qed

end
