(* ===== verification/Station_Query.thy ===== *)
theory Station_Query
  imports Frame
begin

section \<open>Queries that are answered here or by a station\<close>

text \<open>
  The modules \<open>messaging/msg_snr.c\<close>, \<open>msg_txpower.c\<close>, \<open>msg_powersavemode.c\<close>,
  \<open>msg_fastbsstransition_compatible.c\<close>, \<open>msg_memory.c\<close> and \<open>msg_cpu.c\<close> answer a query either themselves
  or, when it names a station, with what the station answers to the same query.  They differ in the
  value, in how it is found, in whether the query names an interface, and in one more respect: some
  of them pass a copy of the message id to the sender, others the id of the message itself, which the
  sender increments.

  The locale \<open>station_query\<close> states the protocol over these differences: \<open>here\<close> answers a query with
  the means \<open>'p\<close> of the machine, \<open>after\<close> is what remains in the message of the id that the sender
  leaves behind, and \<open>shift\<close> is the id that the reply then carries.
\<close>

text \<open>What a reply must carry to answer the query \<open>q\<close> with the value \<open>v\<close> under the id \<open>i\<close>.\<close>

definition replies_with ::
  "(u8 list \<Rightarrow> 'm \<Rightarrow> fault + 'm) \<Rightarrow> ('m \<Rightarrow> c_int) \<Rightarrow> ('m \<Rightarrow> c_int) \<Rightarrow> ('m \<Rightarrow> cstr) \<Rightarrow> ('m \<Rightarrow> 'v)
   \<Rightarrow> 'm \<Rightarrow> c_int \<Rightarrow> 'v \<Rightarrow> u8 list \<Rightarrow> bool" where
  "replies_with dec mtyp ident nam val q i v out \<longleftrightarrow> (\<forall>r. return_message_type (out @ r) = Inr (mtyp q)) \<and>
     (\<forall>r h0. \<exists>a. dec (out @ r) h0 = Inr a \<and> ident a = i \<and> nam a = canon (nam q) \<and> val a = v)"

locale station_query = msg_codec enc dec ok norm bytes mtyp
  for enc :: "allocator \<Rightarrow> 'm \<Rightarrow> fault + 'm \<times> u8 list" and dec ok norm bytes mtyp +
  fixes ident :: "'m \<Rightarrow> c_int" and nam :: "'m \<Rightarrow> cstr" and ip :: "'m \<Rightarrow> cstr" and prt :: "'m \<Rightarrow> c_int"
    and send :: "env \<Rightarrow> cstr \<Rightarrow> c_int \<Rightarrow> c_int \<Rightarrow> cstr \<Rightarrow> cstr \<Rightarrow> c_int \<Rightarrow> 'm \<Rightarrow> 'm
        \<Rightarrow> fault + effect list \<times> c_int \<times> 'm option"
    and process :: "'p \<Rightarrow> env \<Rightarrow> u8 list \<Rightarrow> 'm \<Rightarrow> 'm \<Rightarrow> 'm \<Rightarrow> fault + effect list \<times> u8 list option"
    and here :: "'p \<Rightarrow> env \<Rightarrow> 'm \<Rightarrow> fault + 'm"
    and mt :: c_int and named :: "cstr \<Rightarrow> bool"
    and val :: "'m \<Rightarrow> 'v" and set_val :: "'v \<Rightarrow> 'm \<Rightarrow> 'm"
    and after :: "c_int \<Rightarrow> 'm \<Rightarrow> 'm" and shift :: "c_int \<Rightarrow> c_int \<Rightarrow> c_int"
  assumes val_set: "val (set_val v m) = v"
    and set_fields: "mtyp (set_val v m) = mtyp m" "ident (set_val v m) = ident m" "nam (set_val v m) = nam m"
      "ok (set_val v m) = ok m"
    and after_fields: "mtyp (after i m) = mtyp m" "ident (after i m) = shift i (ident m)"
      "nam (after i m) = nam m" "ok (after i m) = ok m"
    and ok_norm: "ok m \<Longrightarrow> ok (norm h0 m)"
    and norm_fields: "mtyp (norm h0 m) = mtyp m" "ident (norm h0 m) = ident m" "nam (norm h0 m) = canon (nam m)"
      "ip (norm h0 m) = canon (ip m)" "prt (norm h0 m) = prt m" "val (norm h0 m) = val m"
    and named_canon: "named s \<Longrightarrow> named (canon s)"
    and send_eq: "\<lbrakk>copyable (mallocs e) ETHANOL_VERSION; copyable (mallocs e) intf; copyable (mallocs e) staip;
        named intf; slen intf + slen staip < 2 ^ 31 - 100\<rbrakk>
      \<Longrightarrow> \<exists>q. ok q \<and> mtyp q = mt \<and> ident q = i \<and> canon (nam q) = canon intf
          \<and> canon (ip q) = canon staip \<and> prt q = staport
          \<and> send e host port i intf staip staport hs hm
            = send_sync e host port i (\<lambda>_. Inr q) (enc (mallocs e)) (\<lambda>t. t = mt) (\<lambda>b. dec b hm)"
    and process_eq: "dec input hm = Inr h \<Longrightarrow> mtyp h = mt \<Longrightarrow> process p e input hm hs hm' =
     and_then
       (if ip h \<noteq> None then
          and_then (send e (ip h) (prt h) (ident h) (nam h) None 0 hs hm')
            (\<lambda>(ev, i, h1). Inr (ev, case h1 of None \<Rightarrow> after i h | Some a \<Rightarrow> set_val (val a) (after i h)))
        else and_then (here p e h) (\<lambda>h. Inr ([], h)))
       (\<lambda>(ev, h). and_then (enc (mallocs e) h) (\<lambda>(_, output). Inr (ev, Some output)))"
begin

lemma reply:
  assumes "ok m" "allocates mal" "mtyp m = mtyp q" "nam m = canon (nam q)"
  shows "\<exists>m' out. enc mal (set_val v m) = Inr (m', out) \<and> replies_with dec mtyp ident nam val q (ident m) v out"
proof -
  let ?a = "set_val v m"
  have ok: "ok ?a"
    using assms by (simp add: set_fields)
  obtain m' out where e: "enc mal ?a = Inr (m', out)"
    using enc_no_fault [OF ok assms(2)] by blast
  have "replies_with dec mtyp ident nam val q (ident m) v out"
    unfolding replies_with_def
    using wire_message_type [OF ok assms(2) e] roundtrip [OF ok assms(2) e] assms(3,4)
    by (simp add: norm_fields set_fields val_set)
  with e show ?thesis by blast
qed

text \<open>A machine that is asked itself answers with its own value under the id of the query.\<close>

lemma own_answer:
  assumes "ok q" "allocates mal" "enc mal q = Inr (q', wire)" "mtyp q = mt"
    and "allocates (mallocs e)" "slen (ip q) = 0" "here p e (norm hm q) = Inr (set_val v (norm hm q))"
  shows "\<exists>out. process p e (wire @ r) hm hs hm' = Inr ([], Some out)
    \<and> replies_with dec mtyp ident nam val q (ident q) v out"
proof -
  have "\<exists>m' out. enc (mallocs e) (set_val v (norm hm q)) = Inr (m', out) \<and>
      replies_with dec mtyp ident nam val q (ident (norm hm q)) v out"
    by (rule reply) (use assms(1,5) in \<open>simp_all add: ok_norm norm_fields\<close>)
  moreover have "canon (ip q) = None"
    using assms(6) by (simp add: canon_eq_None)
  ultimately show ?thesis
    using process_eq [OF roundtrip [OF assms(1-3)], of hm p e r hs hm'] assms(4,7)
    by (auto simp: norm_fields)
qed

text \<open>The client that is answered gets the value, with the id of the reply.\<close>

lemma send_answered:
  assumes "copyable (mallocs e) ETHANOL_VERSION" "copyable (mallocs e) intf" "copyable (mallocs e) staip"
    and "named intf" "slen intf + slen staip < 2 ^ 31 - 100" "allocates (mallocs e)" "reaches e host port"
    and peer: "\<And>q q' req. \<lbrakk>ok q; mtyp q = mt; ident q = i; canon (nam q) = canon intf;
        canon (ip q) = canon staip; prt q = staport; enc (mallocs e) q = Inr (q', req)\<rbrakk>
      \<Longrightarrow> \<exists>out r. ssl_read e host port req = out @ r \<and> replies_with dec mtyp ident nam val q k v out"
  shows "\<exists>req a. send e host port i intf staip staport hs hm
      = Inr (session e host port req, i + 1, Some a) \<and> ident a = k \<and> nam a = canon intf \<and> val a = v"
proof -
  obtain q where q: "ok q" "mtyp q = mt" "ident q = i" "canon (nam q) = canon intf"
      "canon (ip q) = canon staip" "prt q = staport"
    and s: "send e host port i intf staip staport hs hm
            = send_sync e host port i (\<lambda>_. Inr q) (enc (mallocs e)) (\<lambda>t. t = mt) (\<lambda>b. dec b hm)"
    using send_eq [OF assms(1-5)] by blast
  obtain q' req where e: "enc (mallocs e) q = Inr (q', req)"
    using enc_no_fault [OF q(1) assms(6)] by blast
  obtain out r where out: "ssl_read e host port req = out @ r" "replies_with dec mtyp ident nam val q k v out"
    using peer [OF q e] by blast
  obtain a where a: "dec (out @ r) hm = Inr a" "ident a = k" "nam a = canon intf" "val a = v"
    using out(2) q unfolding replies_with_def by metis
  have "return_message_type (out @ r) = Inr mt"
    using out(2) q(2) by (simp add: replies_with_def)
  then show ?thesis
    using a q(2) close_open_connection [OF assms(7), of req]
    by (auto simp add: s send_sync_def assms(7) e out(1) Let_def)
qed

text \<open>
  An access point asked about a station asks the station, and passes on what the station answers
  under the id that the sender left behind.
\<close>

lemma relayed_answer:
  assumes q: "ok q" "allocates mal" "enc mal q = Inr (q', wire)" "mtyp q = mt"
    and e: "allocates (mallocs e)" "copyable (mallocs e) ETHANOL_VERSION" "copyable (mallocs e) (canon (nam q))"
      "named (canon (nam q))"
    and sta: "0 < slen (ip q)" "slen (nam q) < 2 ^ 31 - 100" "reaches e (canon (ip q)) (prt q)"
    and station: "allocates (mallocs e2)" "\<And>h. nam h = canon (nam q) \<Longrightarrow> ip h = None \<Longrightarrow> prt h = 0 \<Longrightarrow> here p2 e2 h = Inr (set_val v h)"
      "serves e (canon (ip q)) (prt q) mt (\<lambda>req. process p2 e2 (req @ j) hm2 hs2 hm2')"
  shows "\<exists>req out. process p e (wire @ r) hm hs hm' = Inr (session e (canon (ip q)) (prt q) req, Some out)
     \<and> replies_with dec mtyp ident nam val q (shift (ident q + 1) (ident q)) v out"
proof -
  let ?ip = "canon (ip q)" and ?in = "canon (nam q)"
  have nn: "?ip \<noteq> None"
    using sta by (simp add: canon_eq_None)
  have p: "\<exists>out r. ssl_read e ?ip (prt q) req = out @ r \<and> replies_with dec mtyp ident nam val q1 (ident q) v out"
    if "ok q1" "canon (nam q1) = canon ?in" "canon (ip q1) = canon None" "prt q1 = 0" "ident q1 = ident q"
      "enc (mallocs e) q1 = Inr (q1', req)" "mtyp q1 = mt" for q1 q1' req
  proof -
    have "slen (ip q1) = 0"
      using that(3) canon_eq_None [of "ip q1"] by simp
    moreover have "here p2 e2 (norm hm2 q1) = Inr (set_val v (norm hm2 q1))"
      using station(2) that(2-4) by (simp add: norm_fields)
    ultimately show ?thesis
      using own_answer [OF that(1) e(1) that(6,7) station(1), of p2 hm2 v j hs2 hm2']
        servesD [OF station(3)] wire_type [OF that(1) e(1) that(6)] that(5,7) by metis
  qed
  have "\<exists>req a. send e ?ip (prt q) (ident q) ?in None 0 hs hm'
      = Inr (session e ?ip (prt q) req, ident q + 1, Some a) \<and> ident a = ident q \<and> nam a = canon ?in \<and> val a = v"
    by (rule send_answered [OF e(2,3) copyable_None e(4) _ e(1) sta(3)]) (use sta p in auto)
  then obtain req a where a: "send e ?ip (prt q) (ident q) ?in None 0 hs hm'
      = Inr (session e ?ip (prt q) req, ident q + 1, Some a)" "val a = v"
    by blast
  have "\<exists>m' out. enc (mallocs e) (set_val v (after (ident q + 1) (norm hm q))) = Inr (m', out) \<and>
      replies_with dec mtyp ident nam val q (ident (after (ident q + 1) (norm hm q))) v out"
    by (rule reply) (use q(1) e(1) in \<open>simp_all add: ok_norm norm_fields after_fields\<close>)
  then show ?thesis
    using a nn process_eq [OF roundtrip [OF q(1-3)], of hm p e r hs hm'] q(4)
    by (auto simp: norm_fields after_fields)
qed

text \<open>
  The whole path: a controller \<open>e0\<close> asks the access point \<open>e1\<close> about the station \<open>e2\<close>, and gets the
  value of the station.
\<close>

lemma end_to_end:
  assumes e0: "copyable (mallocs e0) ETHANOL_VERSION" "copyable (mallocs e0) intf"
      "copyable (mallocs e0) staip" "allocates (mallocs e0)" "reaches e0 host port"
      "serves e0 host port mt (\<lambda>req. process p1 e1 (req @ j1) hm1 hs1 hm1')"
    and e1: "allocates (mallocs e1)" "copyable (mallocs e1) ETHANOL_VERSION"
      "copyable (mallocs e1) (canon intf)" "reaches e1 (canon staip) staport"
      "serves e1 (canon staip) staport mt (\<lambda>req. process p2 e2 (req @ j2) hm2 hs2 hm2')"
    and e2: "allocates (mallocs e2)" "\<And>h. nam h = canon intf \<Longrightarrow> ip h = None \<Longrightarrow> prt h = 0 \<Longrightarrow> here p2 e2 h = Inr (set_val v h)"
    and names: "named intf" "0 < slen staip" "slen intf + slen staip < 2 ^ 31 - 100"
  shows "\<exists>req a. send e0 host port i intf staip staport hs hm
      = Inr (session e0 host port req, i + 1, Some a) \<and> ident a = shift (i + 1) i \<and> nam a = canon intf \<and> val a = v"
proof (rule send_answered [OF e0(1-3) names(1,3) e0(4,5)])
  fix q q' req
  assume q: "ok q" "mtyp q = mt" "ident q = i" "canon (nam q) = canon intf"
    "canon (ip q) = canon staip" "prt q = staport" "enc (mallocs e0) q = Inr (q', req)"
  have len: "slen (ip q) = slen staip" "slen (nam q) = slen intf"
    using q(4,5) by (metis slen_canon)+
  have "\<exists>req' out. process p1 e1 (req @ j1) hm1 hs1 hm1'
       = Inr (session e1 (canon (ip q)) (prt q) req', Some out)
     \<and> replies_with dec mtyp ident nam val q (shift (ident q + 1) (ident q)) v out"
    by (rule relayed_answer [OF q(1) e0(4) q(7,2) e1(1,2)]) (use q len names e1 e2 named_canon in auto)
  then show "\<exists>out r. ssl_read e0 host port req = out @ r \<and>
      replies_with dec mtyp ident nam val q (shift (i + 1) i) v out"
    using servesD [OF e0(6), of req] wire_type [OF q(1) e0(4) q(7)] q(2,3) by metis
qed

end

end
