(* ===== verification/Conf_File.thy ===== *)
theory Conf_File
  imports Commands
begin

section \<open>The configuration file of \<open>hostapd\<close> (\<open>ethanol_functions/config_hostapd.c\<close>)\<close>

text \<open>
  The agent changes an option of the access point daemon by rewriting its configuration file:
  it reads the lines as pairs of a variable and a value, changes one of them, writes all of them
  back and sends the daemon a signal.

  A string is the list of its characters, without terminator: every block in this module is
  allocated with the length of the string that is copied into it, so none of the writes can leave
  its block.  The file is its contents, if it exists.
\<close>

subsection \<open>Lines\<close>

text \<open>
  The lines that repeated calls of \<open>fgets\<close> with an array of \<open>n + 1\<close> bytes return: each ends after a
  newline, or when the array is full.
\<close>

primrec fgets_lines :: "nat \<Rightarrow> u8 list \<Rightarrow> u8 list \<Rightarrow> u8 list list" where
  "fgets_lines n cur [] = (if cur = [] then [] else [cur])"
| "fgets_lines n cur (c # cs) =
     (if c = 10 \<or> length cur + 1 = n then (cur @ [c]) # fgets_lines n [] cs else fgets_lines n (cur @ [c]) cs)"


subsection \<open>Pairs\<close>

record type_pair =
  cf_var :: "u8 list option"
  cf_val :: "u8 list option"

text \<open>
  \<open>limpa_string\<close> replaces newlines by blanks and should remove the blanks at both ends.  \<open>j\<close> is the
  position of the first character that is no blank, \<open>k\<close> that of the last.  The copying loop
  stops one character before the last.  In \<open>i < strlen (s)\<close> the \<open>int\<close> is converted to an unsigned
  type, so a negative \<open>i\<close> ends the last loop at once; otherwise the first zero it writes does.
\<close>

definition limpa_string :: "u8 list \<Rightarrow> u8 list" where
  "limpa_string s =
     (let s = map (\<lambda>c. if c = 10 then 32 else c) s;
          j = length (takeWhile (\<lambda>c. c = 32) s);
          k = (if s = [] then - 1 else int (length (dropWhile (\<lambda>c. c = 32) (rev (drop 1 s)))));
          m = nat (k - int j);
          s = map (\<lambda>i. s ! (j + i)) [0..<m] @ drop m s
      in if 0 \<le> k - int j + 1 then take (nat (k - int j + 1)) s else s)"

definition strtok :: "u8 list \<Rightarrow> (u8 list \<times> u8 list) option" where
  "strtok s = (let t = dropWhile (\<lambda>c. c = 61) s in
     if t = [] then None
     else Some (takeWhile (\<lambda>c. c \<noteq> 61) t, drop 1 (dropWhile (\<lambda>c. c \<noteq> 61) t)))"

definition hostapd_split_conf :: "u8 list \<Rightarrow> type_pair" where
  "hostapd_split_conf entry = (case strtok entry of
       None \<Rightarrow> \<lparr>cf_var = None, cf_val = None\<rparr>
     | Some (a, r) \<Rightarrow> \<lparr>cf_var = Some (limpa_string a),
         cf_val = (case strtok r of None \<Rightarrow> None | Some (b, _) \<Rightarrow> Some (limpa_string b))\<rparr>)"


subsection \<open>The file\<close>

definition hostapd_read_conf :: "u8 list option \<Rightarrow> type_pair list" where
  "hostapd_read_conf conffile = (case conffile of
       None \<Rightarrow> []
     | Some cs \<Rightarrow> map (\<lambda>l. hostapd_split_conf (takeWhile (\<lambda>c. c \<noteq> 0) l)) (fgets_lines 2047 [] cs))"

text \<open>The first pair with the variable gets the value; it is no error if there is none.\<close>

primrec change_entry :: "type_pair list \<Rightarrow> u8 list \<Rightarrow> u8 list \<Rightarrow> fault + type_pair list" where
  "change_entry [] v w = Inr []"
| "change_entry (p # ps) v w = (case cf_var p of
       None \<Rightarrow> Inl Null_Dereference
     | Some x \<Rightarrow> if x = v then Inr (p\<lparr>cf_val := Some w\<rparr> # ps)
         else and_then (change_entry ps v w) (\<lambda>ps. Inr (p # ps)))"

definition conf_line :: "type_pair \<Rightarrow> u8 list" where
  "conf_line p = (case cf_var p of None \<Rightarrow> str_bytes ''(null)'' | Some v \<Rightarrow> v)
     @ (case cf_val p of None \<Rightarrow> [] | Some w \<Rightarrow> 61 # w) @ [10]"

definition hostapd_write_conf :: "type_pair list \<Rightarrow> u8 list" where
  "hostapd_write_conf conf = concat (map conf_line conf)"


subsection \<open>The daemon\<close>

text \<open>\<open>sscanf (line, "%d", &pid)\<close>: blanks, a sign, digits.\<close>

definition is_digit :: "u8 \<Rightarrow> bool" where
  "is_digit c \<longleftrightarrow> 48 \<le> c \<and> c \<le> 57"

definition scan_dec :: "u8 list \<Rightarrow> int option" where
  "scan_dec l = (let s = dropWhile (\<lambda>c. c \<in> {9, 10, 11, 12, 13, 32}) l;
       neg = (s \<noteq> [] \<and> hd s = 0x2D);
       ds = takeWhile is_digit (if s \<noteq> [] \<and> hd s \<in> {0x2D, 0x2B} then tl s else s) in
     if ds = [] then None
     else Some (if neg then - int (digits_value ds 0) else int (digits_value ds 0)))"

definition ps_command :: "u8 list" where
  "ps_command = str_bytes ''ps axf | grep -w '' @ [0x22] @ str_bytes ''hostapd '' @ [0x22] @
     str_bytes '' | grep -v grep | awk '' @ [0x27] @ str_bytes ''{print $1}'' @ [0x27]"

text \<open>
  The smallest process number, as a string in a block of as many bytes as it has digits and one
  more.  (For the number 0, which no process has, the logarithm is minus infinity.)  \<open>pid0\<close> is
  what the uninitialised variable of the loop contains.
\<close>

definition smallest_pid :: "c_int \<Rightarrow> u8 list list \<Rightarrow> c_int" where
  "smallest_pid pid0 ls = fold (\<lambda>l best.
     let pid = (case scan_dec l of None \<Rightarrow> pid0 | Some p \<Rightarrow> word_of_int p)
     in if best = - 1 \<or> pid <s best then pid else best) ls (- 1)"

definition decimal :: "c_int \<Rightarrow> fault + u8 list" where
  "decimal n = (if 0 < sint n then Inr (dec_chars n) else Inl Null_Dereference)"

definition get_pid :: "env \<Rightarrow> c_int \<Rightarrow> fault + u8 list option" where
  "get_pid e pid0 = (case popen_lines e ps_command of
       None \<Rightarrow> Inr None
     | Some ls \<Rightarrow> (let pid = smallest_pid pid0 ls in
         if 0 \<le> sint pid then and_then (decimal pid) (\<lambda>d. Inr (Some d)) else Inr None))"

definition hostapd_reload :: "u8 list \<Rightarrow> fault + effect list" where
  "hostapd_reload pidfile = and_then (sprintf 20 [Lit ''kill -1 '', Str (Some (pidfile @ [0]))])
     (\<lambda>cmd. Inr [System cmd])"

text \<open>The result is the file, the effects and the value returned.\<close>

definition change_hostapd_entry ::
  "env \<Rightarrow> c_int \<Rightarrow> bool \<Rightarrow> u8 list option \<Rightarrow> u8 list \<Rightarrow> u8 list \<Rightarrow> fault + u8 list option \<times> effect list \<times> c_int" where
  "change_hostapd_entry e pid0 writable conffile v new_val =
     and_then (get_pid e pid0) (\<lambda>pidfile. case pidfile of
       None \<Rightarrow> Inr (conffile, [], - 1)
     | Some pid \<Rightarrow>
         and_then (change_entry (hostapd_read_conf conffile) v new_val) (\<lambda>conf.
         and_then (hostapd_reload pid) (\<lambda>ev.
           Inr (if writable then Some (hostapd_write_conf conf) else conffile, ev, 0))))"

definition change_ap_channel ::
  "env \<Rightarrow> c_int \<Rightarrow> bool \<Rightarrow> u8 list option \<Rightarrow> c_int \<Rightarrow> fault + u8 list option \<times> effect list \<times> c_int" where
  "change_ap_channel e pid0 writable conffile new_val =
     and_then (decimal new_val) (\<lambda>w. change_hostapd_entry e pid0 writable conffile (str_bytes ''channel'') w)"


subsection \<open>Reading what was written\<close>

text \<open>A text that a line can hold as a variable or a value: not empty, no blanks at its ends.\<close>

definition plain :: "u8 list \<Rightarrow> bool" where
  "plain w \<longleftrightarrow> w \<noteq> [] \<and> hd w \<noteq> 32 \<and> last w \<noteq> 32 \<and> set w \<inter> {0, 10, 61} = {}"

definition plain_pair :: "type_pair \<Rightarrow> bool" where
  "plain_pair p \<longleftrightarrow> (\<exists>v. cf_var p = Some v \<and> plain v) \<and> (\<forall>w. cf_val p = Some w \<longrightarrow> plain w) \<and>
     length (conf_line p) \<le> 2047"

lemma map_newline:
  "10 \<notin> set w \<Longrightarrow> map (\<lambda>c. if c = 10 then 32 else c) w = (w :: u8 list)"
  by (induction w) auto

lemma last_position:
  assumes "u \<noteq> []" "last u \<noteq> 32" "\<forall>c\<in>set b. c = (32 :: u8)"
  shows "length (dropWhile (\<lambda>c. c = 32) (rev (drop 1 (u @ b)))) = length u - 1"
proof -
  have "dropWhile (\<lambda>c. c = 32) (rev b @ xs) = dropWhile (\<lambda>c. c = 32) xs" for xs
    using assms(3) dropWhile_append2 [of "rev b" "\<lambda>c. c = 32" xs] by fastforce
  moreover have "dropWhile (\<lambda>c. c = 32) (rev (tl u)) = rev (tl u)"
    using assms(1,2) by (cases u; cases "tl u" rule: rev_cases) auto
  moreover have "drop 1 (u @ b) = tl u @ b"
    using assms(1) by (cases u) auto
  ultimately show ?thesis
    by simp
qed

text \<open>
  What \<open>limpa_string\<close> does with a text \<open>w\<close> between blanks and newlines: the last character of the result
  is the one that stands at its place in the original string.
\<close>

lemma limpa_eq:
  assumes w: "w \<noteq> []" "hd w \<noteq> 32" "last w \<noteq> 32"
    and s: "map (\<lambda>c. if c = 10 then 32 else c) s = replicate j 32 @ w @ b" "\<forall>c\<in>set b. c = 32"
  shows "limpa_string s = butlast w @ [(replicate j 32 @ w) ! (length w - 1)]"
proof -
  let ?s = "replicate j 32 @ w @ b"
  let ?k = "if ?s = [] then - 1 else int (length (dropWhile (\<lambda>c. c = 32) (rev (drop 1 ?s))))"
  have "length (takeWhile (\<lambda>c. c = 32) (w @ b)) = 0"
    using w(1,2) by (cases w) auto
  then have j: "length (takeWhile (\<lambda>c. c = 32) ?s) = j"
    by (simp add: takeWhile_append)
  have k: "?k - int j = int (length w - 1)"
    using last_position [of "replicate j 32 @ w" b] w(1,3) s(2) by (cases w) (auto simp: last_append)
  have c: "map (\<lambda>i. ?s ! (j + i)) [0..<length w - 1] = butlast w"
    by (rule nth_equalityI) (auto simp: nth_append nth_butlast)
  have "length w - 1 < length ?s"
    using w(1) by (cases w) auto
  then have d: "drop (length w - 1) ?s = ?s ! (length w - 1) # drop (length w) ?s"
    using Cons_nth_drop_Suc [of "length w - 1" ?s] w(1) by simp
  have n: "?s ! (length w - 1) = (replicate j 32 @ w) ! (length w - 1)"
    using w(1) by (auto simp: nth_append)
  have "nat (int (length w - 1) + 1) = Suc (length (butlast w))"
    by simp
  then have "take (nat (int (length w - 1) + 1)) (butlast w @ drop (length w - 1) ?s)
      = butlast w @ [(replicate j 32 @ w) ! (length w - 1)]"
    unfolding d n by (simp only: take_append) simp
  then show ?thesis
    unfolding limpa_string_def Let_def s(1) j k nat_int c by simp
qed

lemma limpa_plain:
  assumes "w \<noteq> []" "hd w \<noteq> 32" "last w \<noteq> 32" "10 \<notin> set w" "\<forall>c\<in>set b. c = 10 \<or> c = 32"
  shows "limpa_string (w @ b) = w"
proof -
  have "limpa_string (w @ b) = butlast w @ [(replicate 0 32 @ w) ! (length w - 1)]"
    by (rule limpa_eq [OF assms(1-3), where b = "map (\<lambda>c. if c = 10 then 32 else c) b"])
      (use assms(5) map_newline [OF assms(4)] in auto)
  then show ?thesis
    using append_butlast_last_id [OF assms(1)] by (simp add: last_conv_nth [OF assms(1)])
qed

lemma takeWhile_no: "x \<notin> set l \<Longrightarrow> takeWhile (\<lambda>c. c \<noteq> x) (l @ x # r) = l"
  "x \<notin> set l \<Longrightarrow> dropWhile (\<lambda>c. c \<noteq> x) (l @ x # r) = x # r"
  "x \<notin> set l \<Longrightarrow> takeWhile (\<lambda>c. c \<noteq> x) l = l" "x \<notin> set l \<Longrightarrow> dropWhile (\<lambda>c. c \<noteq> x) l = []"
  by (induction l) auto

lemma strtok_simps:
  "v \<noteq> [] \<Longrightarrow> 61 \<notin> set v \<Longrightarrow> strtok (v @ 61 # r) = Some (v, r)"
  "v \<noteq> [] \<Longrightarrow> 61 \<notin> set v \<Longrightarrow> strtok v = Some (v, [])" "strtok [] = None"
  by (cases v; auto simp: strtok_def takeWhile_no Let_def)+

lemma plain_simps:
  assumes "plain w"
  shows "w \<noteq> []" "61 \<notin> set w" "10 \<notin> set w" "0 \<notin> set w" "limpa_string w = w" "limpa_string (w @ [10]) = w"
    "limpa_string (w @ [32]) = w"
  using assms limpa_plain [of w "[]"] limpa_plain [of w "[10]"] limpa_plain [of w "[32]"] by (auto simp: plain_def)

lemma split_conf_line:
  assumes "plain_pair p"
  shows "hostapd_split_conf (conf_line p) = p"
proof -
  obtain v where v: "cf_var p = Some v" "plain v"
    using assms by (auto simp: plain_pair_def)
  show ?thesis
  proof (cases "cf_val p")
    case None
    then have "strtok (conf_line p) = Some (v @ [10], [])"
      using strtok_simps(2) [of "v @ [10]"] plain_simps(2) [OF v(2)] by (simp add: conf_line_def v)
    then show ?thesis
      using v None plain_simps(6) [OF v(2)] by (simp add: hostapd_split_conf_def strtok_simps)
  next
    case (Some w)
    then have w: "plain w"
      using assms by (simp add: plain_pair_def)
    have "conf_line p = v @ 61 # w @ [10]"
      using v Some by (simp add: conf_line_def)
    then have "strtok (conf_line p) = Some (v, w @ [10])" "strtok (w @ [10]) = Some (w @ [10], [])"
      using strtok_simps(1) [of v "w @ [10]"] strtok_simps(2) [of "w @ [10]"] plain_simps [OF v(2)] plain_simps [OF w]
      by simp_all
    then show ?thesis
      using v Some plain_simps(5) [OF v(2)] plain_simps(6) [OF w] by (simp add: hostapd_split_conf_def)
  qed
qed

lemma fgets_line:
  "10 \<notin> set l \<Longrightarrow> length (cur @ l) < n \<Longrightarrow>
   fgets_lines n cur (l @ 10 # r) = (cur @ l @ [10]) # fgets_lines n [] r"
  by (induction l arbitrary: cur) auto

lemma conf_line_shape:
  assumes "plain_pair p"
  obtains l where "conf_line p = l @ [10]" "10 \<notin> set l" "0 \<notin> set l" "length l < 2047"
proof -
  let ?l = "butlast (conf_line p)"
  have "conf_line p = ?l @ [10]" "10 \<notin> set ?l" "0 \<notin> set ?l"
    using assms plain_simps(3,4) by (auto simp: conf_line_def plain_pair_def butlast_append split: option.splits)
  moreover have "length ?l < 2047"
    using assms by (auto simp: plain_pair_def conf_line_def)
  ultimately show thesis
    using that by blast
qed

text \<open>A file that consists of lines is read line by line.\<close>

lemma fgets_concat:
  "\<forall>l\<in>set ls. \<exists>b. l = b @ [10] \<and> 10 \<notin> set b \<and> length b < n \<Longrightarrow> fgets_lines n [] (concat ls) = ls"
proof (induction ls)
  case Nil
  then show ?case by simp
next
  case (Cons l ls)
  then obtain b where "l = b @ [10]" "10 \<notin> set b" "length b < n"
    by auto
  then show ?case
    using Cons fgets_line [of b "[]" n] by simp
qed

lemma lines_of_conf:
  assumes "\<forall>p\<in>set ps. plain_pair p"
  shows "fgets_lines 2047 [] (hostapd_write_conf ps) = map conf_line ps"
  unfolding hostapd_write_conf_def
proof (rule fgets_concat, clarsimp)
  fix p
  assume "p \<in> set ps"
  then have "plain_pair p"
    using assms by simp
  then obtain l where "conf_line p = l @ [10]" "10 \<notin> set l" "0 \<notin> set l" "length l < 2047"
    by (rule conf_line_shape)
  then show "\<exists>b. conf_line p = b @ [10] \<and> 10 \<notin> set b \<and> length b < 2047"
    by blast
qed

lemma read_write:
  assumes "\<forall>p\<in>set ps. plain_pair p"
  shows "hostapd_read_conf (Some (hostapd_write_conf ps)) = ps"
proof -
  have "hostapd_split_conf (takeWhile (\<lambda>c. c \<noteq> 0) (conf_line p)) = p" if p: "plain_pair p" for p
  proof -
    obtain l where "conf_line p = l @ [10]" "10 \<notin> set l" "0 \<notin> set l" "length l < 2047"
      using p by (rule conf_line_shape)
    then show ?thesis
      using takeWhile_no(3) [of 0 "conf_line p"] split_conf_line [OF p] by simp
  qed
  then show ?thesis
    using assms by (simp add: hostapd_read_conf_def lines_of_conf map_idI)
qed

text \<open>The first line with the variable has the new value, and all other lines are the same.\<close>

definition first_changed :: "u8 list \<Rightarrow> u8 list \<Rightarrow> type_pair list \<Rightarrow> type_pair list \<Rightarrow> bool" where
  "first_changed v w ps ps' \<longleftrightarrow> (if Some v \<notin> set (map cf_var ps) then ps' = ps
     else \<exists>pre p post. ps = pre @ p # post \<and> cf_var p = Some v \<and> Some v \<notin> set (map cf_var pre) \<and>
       ps' = pre @ p\<lparr>cf_val := Some w\<rparr> # post)"

lemma first_changed_simps:
  "cf_var p = Some v \<Longrightarrow> first_changed v w (p # ps) (p\<lparr>cf_val := Some w\<rparr> # ps)"
  "cf_var p \<noteq> Some v \<Longrightarrow> first_changed v w ps ps' \<Longrightarrow> first_changed v w (p # ps) (p # ps')"
proof -
  show "cf_var p = Some v \<Longrightarrow> first_changed v w (p # ps) (p\<lparr>cf_val := Some w\<rparr> # ps)"
    unfolding first_changed_def by (auto intro: exI [of _ "[]"])
  assume n: "cf_var p \<noteq> Some v" and c: "first_changed v w ps ps'"
  show "first_changed v w (p # ps) (p # ps')"
  proof (cases "Some v \<in> set (map cf_var ps)")
    case True
    then obtain pre q post where "ps = pre @ q # post" "cf_var q = Some v" "Some v \<notin> set (map cf_var pre)"
        "ps' = pre @ q\<lparr>cf_val := Some w\<rparr> # post"
      using c unfolding first_changed_def by auto
    then show ?thesis
      using n unfolding first_changed_def by (auto intro!: exI [of _ "p # pre"])
  next
    case False
    then show ?thesis
      using n c by (auto simp: first_changed_def)
  qed
qed

lemma change_entry_ok:
  assumes "\<forall>p\<in>set ps. plain_pair p" "plain w" "length v + length w + 2 \<le> 2047"
  shows "\<exists>ps'. change_entry ps v w = Inr ps' \<and> (\<forall>p\<in>set ps'. plain_pair p) \<and> first_changed v w ps ps'"
  using assms(1)
proof (induction ps)
  case Nil
  then show ?case by (simp add: first_changed_def)
next
  case (Cons p ps)
  then obtain x where x: "cf_var p = Some x"
    by (auto simp: plain_pair_def)
  obtain ps' where ps': "change_entry ps v w = Inr ps'" "\<forall>p\<in>set ps'. plain_pair p" "first_changed v w ps ps'"
    using Cons by auto
  show ?case
  proof (cases "x = v")
    case True
    then have "plain_pair (p\<lparr>cf_val := Some w\<rparr>)"
      using Cons.prems assms(2,3) x by (auto simp: plain_pair_def conf_line_def)
    then show ?thesis
      using True x Cons.prems first_changed_simps(1) [of p v w ps] by simp
  next
    case False
    then show ?thesis
      using x ps' Cons.prems first_changed_simps(2) [of p v w ps ps'] by simp
  qed
qed

lemma digits_no_zero: "0 \<notin> set (digits n)"
proof (induction n rule: digits.induct)
  case (1 n)
  have "(word_of_nat (48 + d) :: u8) \<noteq> 0" if "d < 10" for d
    using unat_digit [OF that] by (metis add_is_0 unat_0 zero_neq_numeral)
  then show ?case
    using 1 by (subst digits.simps) auto
qed

lemma dec_chars_no_zero: "0 \<notin> set (dec_chars n)"
  using digits_no_zero by (simp add: dec_chars_def)

lemma get_pid_decimal:
  assumes "get_pid e pid0 = Inr (Some d)"
  shows "0 \<notin> set d \<and> length d \<le> 11"
proof -
  obtain n :: c_int where "d = dec_chars n"
    using assms by (auto simp: get_pid_def decimal_def and_then_eq_Inr Let_def split: option.splits if_splits)
  then show ?thesis
    using length_dec_chars [of n] dec_chars_no_zero [of n] by simp
qed


subsection \<open>Properties\<close>

text \<open>
  C31 Changing an option of the access point.  On a configuration file whose lines are variables with or
  without values, written without blanks around them, \<open>change_hostapd_entry\<close> replaces the value
  of the first line with the variable, keeps all other lines as they are and in their order, later lines with the
  same variable included, and tells the daemon to reload; the file it leaves is again such a file, which reads back as the
  changed options.  If no daemon runs, the file is left alone and the result is -1.
\<close>

theorem conf_option_changed:
  assumes "\<forall>p\<in>set ps. plain_pair p" "plain w" "length v + length w + 2 \<le> 2047" "get_pid e pid0 = Inr pid"
  shows "case pid of
      None \<Rightarrow> change_hostapd_entry e pid0 True (Some (hostapd_write_conf ps)) v w
        = Inr (Some (hostapd_write_conf ps), [], - 1)
    | Some d \<Rightarrow> \<exists>ps'. change_hostapd_entry e pid0 True (Some (hostapd_write_conf ps)) v w
        = Inr (Some (hostapd_write_conf ps'), [System (str_bytes ''kill -1 '' @ d)], 0) \<and>
        hostapd_read_conf (Some (hostapd_write_conf ps')) = ps' \<and>
        (if Some v \<notin> set (map cf_var ps) then ps' = ps
         else \<exists>pre p post. ps = pre @ p # post \<and> cf_var p = Some v \<and> Some v \<notin> set (map cf_var pre) \<and>
           ps' = pre @ p\<lparr>cf_val := Some w\<rparr> # post)"
proof (cases pid)
  case None
  then show ?thesis
    using assms(4) by (simp add: change_hostapd_entry_def)
next
  case (Some d)
  then have d: "0 \<notin> set d" "length d \<le> 11"
    using get_pid_decimal [of e pid0 d] assms(4) by simp_all
  obtain ps' where ps': "change_entry ps v w = Inr ps'" "\<forall>p\<in>set ps'. plain_pair p"
      "first_changed v w ps ps'"
    using change_entry_ok [OF assms(1-3)] by blast
  have "fmt_str (Some (d @ [0])) = Inr d"
    using d(1) fmt_str_wf [of "Some (d @ [0])"] by (simp add: wf_str_def shown_def chars_def str_chars_def takeWhile_no)
  then have "hostapd_reload d = Inr [System (str_bytes ''kill -1 '' @ d)]"
    using d(2) sprintf_fits [of "[Lit ''kill -1 '', Str (Some (d @ [0]))]" "str_bytes ''kill -1 '' @ d" 20]
    by (simp add: hostapd_reload_def)
  then show ?thesis
    using Some assms(4) ps' read_write [OF assms(1)] read_write [OF ps'(2)]
    by (simp only: option.case first_changed_def [symmetric], intro exI [of _ ps']) (simp add: change_hostapd_entry_def)
qed

definition demo_conf :: "type_pair list" where
  "demo_conf = [\<lparr>cf_var = Some (str_bytes ''#radio''), cf_val = None\<rparr>,
     \<lparr>cf_var = Some (str_bytes ''channel''), cf_val = Some (str_bytes ''6'')\<rparr>,
     \<lparr>cf_var = Some (str_bytes ''channel''), cf_val = Some (str_bytes ''1'')\<rparr>]"

definition demo_daemon :: env where
  "demo_daemon = demo_env\<lparr>popen_lines := \<lambda>_. Some [str_bytes ''417'' @ [10], str_bytes ''52'' @ [10]]\<rparr>"

theorem conf_option_changed_witness:
  "\<exists>pre p. change_hostapd_entry demo_daemon 0 True (Some (hostapd_write_conf demo_conf)) (str_bytes ''channel'') (str_bytes ''11'')
     = Inr (Some (hostapd_write_conf (pre @ [p, demo_conf ! 2])), [System (str_bytes ''kill -1 52'')], 0) \<and>
     pre = [demo_conf ! 0] \<and> cf_val p = Some (str_bytes ''11'')"
proof -
  have p: "\<forall>p\<in>set demo_conf. plain_pair p" "plain (str_bytes ''11'')"
    by (simp_all add: demo_conf_def plain_pair_def plain_def conf_line_def str_bytes_def)
  have v: "map cf_var demo_conf = [Some (str_bytes ''#radio''), Some (str_bytes ''channel''), Some (str_bytes ''channel'')]"
    by (simp add: demo_conf_def)
  have d: "get_pid demo_daemon 0 = Inr (Some (str_bytes ''52''))"
    by code_simp
  have l: "length (str_bytes ''channel'') + length (str_bytes ''11'') + 2 \<le> 2047"
    by simp
  have n: "str_bytes ''#radio'' \<noteq> str_bytes ''channel''"
    by (simp add: str_bytes_def)
  from conf_option_changed [OF p l d] obtain pre p post where
      r: "change_hostapd_entry demo_daemon 0 True (Some (hostapd_write_conf demo_conf)) (str_bytes ''channel'') (str_bytes ''11'')
        = Inr (Some (hostapd_write_conf (pre @ p\<lparr>cf_val := Some (str_bytes ''11'')\<rparr> # post)), [System (str_bytes ''kill -1 '' @ str_bytes ''52'')], 0)"
      "demo_conf = pre @ p # post" "cf_var p = Some (str_bytes ''channel'')" "Some (str_bytes ''channel'') \<notin> set (map cf_var pre)"
    unfolding v by auto
  have "pre = [demo_conf ! 0] \<and> post = [demo_conf ! 2]"
    using r(2-4) n by (cases pre) (auto simp: demo_conf_def Cons_eq_append_conv)
  then show ?thesis
    using r(1) by (auto simp: str_bytes_def)
qed

text \<open>
  A line with blanks around the equality sign is not read as the file means it.  The blank in front
  of the value is removed but the last character of the value is lost: the one before it, or the
  blank, takes its place.  Every change of any option writes the value back in this form.
\<close>

theorem conf_spaced_value:
  assumes "plain v" "plain w"
  shows "hostapd_split_conf (v @ [32, 61, 32] @ w @ [10])
    = \<lparr>cf_var = Some v, cf_val = Some (butlast w @ [if length w = 1 then 32 else w ! (length w - 2)])\<rparr>"
proof -
  have v: "strtok ((v @ [32]) @ 61 # (32 # w @ [10])) = Some (v @ [32], 32 # w @ [10])"
    using plain_simps(2) [OF assms(1)] by (intro strtok_simps) auto
  have w: "strtok (32 # w @ [10]) = Some (32 # w @ [10], [])"
    using plain_simps(2) [OF assms(2)] by (intro strtok_simps) auto
  have "limpa_string (32 # w @ [10]) = butlast w @ [(replicate 1 32 @ w) ! (length w - 1)]"
    by (rule limpa_eq [where b = "[32]"]) (use assms(2) map_newline [OF plain_simps(3) [OF assms(2)]] in \<open>auto simp: plain_def\<close>)
  moreover have "(replicate 1 32 @ w) ! (length w - 1) = (if length w = 1 then 32 else w ! (length w - 2))"
    using plain_simps(1) [OF assms(2)] by (cases w; cases "tl w") (auto simp: nth_Cons split: nat.split)
  ultimately show ?thesis
    using v w plain_simps(7) [OF assms(1)] by (simp add: hostapd_split_conf_def)
qed

theorem conf_spaced_value_witness:
  "hostapd_split_conf (str_bytes ''channel = 48'' @ [10])
     = \<lparr>cf_var = Some (str_bytes ''channel''), cf_val = Some (str_bytes ''44'')\<rparr>"
proof -
  have "plain (str_bytes ''channel'')" "plain (str_bytes ''48'')"
    by (simp_all add: plain_def str_bytes_def)
  from conf_spaced_value [OF this] show ?thesis
    by (simp add: str_bytes_def)
qed

end
