(* ===== verification/Ini.thy ===== *)
theory Ini
  imports Conf_File
begin

section \<open>The configuration of the agent (\<open>ini/ini.c\<close>, \<open>ini/ethanol_config_file.c\<close>)\<close>

text \<open>
  The agent reads \<open>/etc/ethanol.ini\<close> with a small parser, which calls a handler for every pair of a
  name and a value.  Strings are lists of characters as in \<open>Conf_File\<close>; a pointer into a line is the
  rest of the line from there, and writing a terminator at a pointer cuts the text before it.
\<close>

subsection \<open>The parser\<close>

definition isspace :: "u8 \<Rightarrow> bool" where
  "isspace c \<longleftrightarrow> c \<in> {9, 10, 11, 12, 13, 32}"

definition rstrip :: "u8 list \<Rightarrow> u8 list" where
  "rstrip s = rev (dropWhile isspace (rev s))"

definition lskip :: "u8 list \<Rightarrow> u8 list" where
  "lskip s = dropWhile isspace s"

text \<open>
  The text up to the first \<open>c\<close>, or up to a semicolon after white space, and the rest from there.  (The
  string has no zero, so a search for the zero character stops at a comment or at the end.)
\<close>

fun find_char_or_comment :: "bool \<Rightarrow> u8 \<Rightarrow> u8 list \<Rightarrow> u8 list \<times> u8 list" where
  "find_char_or_comment was_whitespace c [] = ([], [])"
| "find_char_or_comment was_whitespace c (x # s) =
     (if x = c \<or> was_whitespace \<and> x = 0x3B then ([], x # s)
      else (let (a, r) = find_char_or_comment (isspace x) c s in (x # a, r)))"

definition strncpy0 :: "nat \<Rightarrow> u8 list \<Rightarrow> u8 list" where
  "strncpy0 n src = take (n - 1) src"

record 'u ini =
  ini_section :: "u8 list"
  prev_name :: "u8 list"
  error :: nat
  user :: 'u

type_synonym 'u ini_handler = "'u \<Rightarrow> u8 list \<Rightarrow> u8 list \<Rightarrow> u8 list \<Rightarrow> 'u \<times> bool"

text \<open>\<open>if (!handler (...) && !error) error = lineno;\<close> and \<open>if (!error) error = lineno;\<close>\<close>

definition ini_fail :: "nat \<Rightarrow> 'u ini \<Rightarrow> 'u ini" where
  "ini_fail lineno st = (if error st = 0 then st\<lparr>error := lineno\<rparr> else st)"

definition call_handler :: "'u ini_handler \<Rightarrow> nat \<Rightarrow> u8 list \<Rightarrow> u8 list \<Rightarrow> 'u ini \<Rightarrow> 'u ini" where
  "call_handler handler lineno name v st =
     (let (u, ok) = handler (user st) (ini_section st) name v
      in if ok then st\<lparr>user := u\<rparr> else ini_fail lineno (st\<lparr>user := u\<rparr>))"

text \<open>One line; the \<open>if\<close>s are those of the source.\<close>

definition ini_line :: "'u ini_handler \<Rightarrow> nat \<Rightarrow> u8 list \<Rightarrow> 'u ini \<Rightarrow> 'u ini" where
  "ini_line handler lineno line st =
     (let bom = (lineno = 1 \<and> take 3 line = [0xEF, 0xBB, 0xBF]);
          l = rstrip (if bom then drop 3 line else line);
          start = lskip l;
          moved = (bom \<or> length start < length l)
      in if start = [] then st
         else if hd start \<in> {0x3B, 0x23} then st
         else if prev_name st \<noteq> [] \<and> moved then call_handler handler lineno (prev_name st) start st
         else if hd start = 0x5B then
           (let (a, r) = find_char_or_comment False 0x5D (tl start)
            in if r \<noteq> [] \<and> hd r = 0x5D then st\<lparr>ini_section := strncpy0 50 a, prev_name := []\<rparr>
               else ini_fail lineno st)
         else
           (let (a, r) = find_char_or_comment False 0x3D start;
                (a, r) = (if r \<noteq> [] \<and> hd r = 0x3D then (a, r) else find_char_or_comment False 0x3A start)
            in if r \<noteq> [] \<and> hd r \<in> {0x3D, 0x3A} then
                 (let name = rstrip a;
                      v = rstrip (fst (find_char_or_comment False 0 (lskip (tl r))))
                  in call_handler handler lineno name v (st\<lparr>prev_name := strncpy0 50 name\<rparr>))
               else ini_fail lineno st))"

primrec ini_lines :: "'u ini_handler \<Rightarrow> nat \<Rightarrow> u8 list list \<Rightarrow> 'u ini \<Rightarrow> 'u ini" where
  "ini_lines handler lineno [] st = st"
| "ini_lines handler lineno (l # ls) st =
     ini_lines handler (lineno + 1) ls (ini_line handler lineno (takeWhile (\<lambda>c. c \<noteq> 0) l) st)"

definition ini_parse_file :: "u8 list \<Rightarrow> 'u ini_handler \<Rightarrow> 'u \<Rightarrow> 'u \<times> int" where
  "ini_parse_file content handler u =
     (let st = ini_lines handler 1 (fgets_lines 199 [] content)
            \<lparr>ini_section = [], prev_name = [], error = 0, user = u\<rparr>
      in (user st, int (error st)))"

definition ini_parse :: "u8 list option \<Rightarrow> 'u ini_handler \<Rightarrow> 'u \<Rightarrow> 'u \<times> int" where
  "ini_parse file handler u = (case file of None \<Rightarrow> (u, - 1) | Some content \<Rightarrow> ini_parse_file content handler u)"


subsection \<open>The configuration\<close>

record ethanol_configuration =
  ethanol_enable :: c_int
  server_addr :: "u8 list option"
  remote_server_port :: c_int
  local_server_port :: c_int
  log_filename :: "u8 list option"
  forward_beacon :: c_int
  hello_frequency :: "32 word"
  enabled_msg_association :: bool
  enabled_msg_disassociation :: bool
  enabled_msg_reassociation :: bool
  enabled_msg_authorization :: bool
  enabled_msg_user_disconnecting :: bool
  enabled_msg_user_connecting :: bool

text \<open>\<open>server_addr\<close> is not set.\<close>

definition HELLO_FREQUENCY :: "32 word" where
  "HELLO_FREQUENCY = 20"

definition set_defaults :: "ethanol_configuration \<Rightarrow> ethanol_configuration" where
  "set_defaults c = c\<lparr>ethanol_enable := 0, remote_server_port := 22222, local_server_port := 22224,
     log_filename := None, forward_beacon := - 1, hello_frequency := HELLO_FREQUENCY,
     enabled_msg_association := False, enabled_msg_disassociation := False,
     enabled_msg_reassociation := False, enabled_msg_authorization := False,
     enabled_msg_user_disconnecting := False, enabled_msg_user_connecting := False\<rparr>"

text \<open>\<open>(int) strtol (s, NULL, 10)\<close>\<close>

definition atoi :: "u8 list \<Rightarrow> c_int" where
  "atoi s = (case scan_dec s of None \<Rightarrow> 0 | Some n \<Rightarrow> word_of_int (max (- (2 ^ 63)) (min (2 ^ 63 - 1) n)))"

text \<open>\<open>hello_frequency\<close> is unsigned, so the test \<open>hello_frequency <= 0\<close> is a test for 0.\<close>

definition config_handler :: "ethanol_configuration ini_handler" where
  "config_handler c sec name v =
     (let match = (\<lambda>s n. sec = str_bytes s \<and> name = str_bytes n) in
      if match ''protocol'' ''enable'' then (c\<lparr>ethanol_enable := atoi v\<rparr>, True)
      else if match ''protocol'' ''address'' then (c\<lparr>server_addr := Some v\<rparr>, True)
      else if match ''protocol'' ''port_local'' then (c\<lparr>local_server_port := atoi v\<rparr>, True)
      else if match ''protocol'' ''port_remote'' then (c\<lparr>remote_server_port := atoi v\<rparr>, True)
      else if match ''protocol'' ''forward_beacon'' then (c\<lparr>forward_beacon := atoi v\<rparr>, True)
      else if match ''protocol'' ''hello_frequency'' then
        (c\<lparr>hello_frequency := (if atoi v = 0 then 60 else atoi v)\<rparr>, True)
      else if match ''log'' ''logfile'' then (c\<lparr>log_filename := Some v\<rparr>, True)
      else if match ''association'' ''msg_association'' then (c\<lparr>enabled_msg_association := (atoi v = 1)\<rparr>, True)
      else if match ''association'' ''msg_disassociation'' then (c\<lparr>enabled_msg_disassociation := (atoi v = 1)\<rparr>, True)
      else if match ''association'' ''msg_reassociation'' then (c\<lparr>enabled_msg_reassociation := (atoi v = 1)\<rparr>, True)
      else if match ''association'' ''msg_authorization'' then (c\<lparr>enabled_msg_authorization := (atoi v = 1)\<rparr>, True)
      else if match ''association'' ''msg_user_disconnecting'' then
        (c\<lparr>enabled_msg_user_disconnecting := (atoi v = 1)\<rparr>, True)
      else if match ''association'' ''msg_user_connecting'' then
        (c\<lparr>enabled_msg_user_connecting := (atoi v = 1)\<rparr>, True)
      else (c, False))"

definition read_configfile :: "u8 list option \<Rightarrow> ethanol_configuration \<Rightarrow> ethanol_configuration \<times> bool" where
  "read_configfile file c =
     (let (c, err) = ini_parse file config_handler (set_defaults c)
      in if err < 0 then (c\<lparr>ethanol_enable := 0, forward_beacon := - 1\<rparr>, False) else (c, True))"

text \<open>\<open>check_if_file_exits\<close> returns a \<open>bool\<close>, which is never negative; the block has no room for the terminator.\<close>

definition set_ethanol_config_file :: "allocator \<Rightarrow> cstr \<Rightarrow> fault + cstr \<times> bool" where
  "set_ethanol_config_file mal filename =
     and_then (strlen filename) (\<lambda>n.
     and_then (strcpy (mal n) (case filename of None \<Rightarrow> [] | Some b \<Rightarrow> b)) (\<lambda>b. Inr (Some b, True)))"


subsection \<open>Lines of a clean file\<close>

text \<open>A word: no white space and no zero.\<close>

definition word_text :: "u8 list \<Rightarrow> bool" where
  "word_text s \<longleftrightarrow> (\<forall>c\<in>set s. \<not> isspace c \<and> c \<noteq> 0)"

definition name_text :: "u8 list \<Rightarrow> bool" where
  "name_text s \<longleftrightarrow> word_text s \<and> s \<noteq> [] \<and> 0x3D \<notin> set s \<and> hd s \<notin> {0x3B, 0x23, 0x5B, 0xEF}"

lemma rstrip_newline: "s \<noteq> [] \<Longrightarrow> \<not> isspace (last s) \<Longrightarrow> rstrip (s @ [10]) = s"
  by (cases s rule: rev_cases) (simp_all add: rstrip_def isspace_def)

lemma rstrip_word: "word_text s \<Longrightarrow> rstrip s = s"
  by (cases s rule: rev_cases) (auto simp: rstrip_def word_text_def)

lemma lskip_word: "word_text s \<Longrightarrow> lskip (s @ r) = (if s = [] then lskip r else s @ r)"
  by (cases s) (auto simp: lskip_def word_text_def)

lemma find_word:
  "word_text a \<Longrightarrow> c \<notin> set a \<Longrightarrow> find_char_or_comment False c (a @ c # r) = (a, c # r)"
  "word_text a \<Longrightarrow> find_char_or_comment False 0 a = (a, [])"
  by (induction a) (auto simp: word_text_def)

lemma ini_line_pair:
  assumes "name_text name" "word_text v"
  shows "ini_line handler n (name @ 0x3D # v @ [10]) st
    = call_handler handler n name v (st\<lparr>prev_name := strncpy0 50 name\<rparr>)"
proof -
  let ?l = "name @ 0x3D # v"
  have n: "word_text name" "name \<noteq> []" "0x3D \<notin> set name" "hd name \<notin> {0x3B, 0x23, 0x5B, 0xEF}"
    using assms(1) by (simp_all add: name_text_def)
  have "take 3 (?l @ [10]) \<noteq> [0xEF, 0xBB, 0xBF]"
    using n(2,4) by (cases name) auto
  moreover have "rstrip (?l @ [10]) = ?l"
    using assms(2) by (intro rstrip_newline) (auto simp: word_text_def isspace_def)
  moreover have "lskip ?l = ?l" "lskip v = v"
    using n(1,2) lskip_word [OF n(1)] lskip_word [OF assms(2), of "[]"] by (simp_all add: lskip_def)
  moreover have "hd ?l = hd name" "?l \<noteq> []"
    using n(2) by simp_all
  ultimately show ?thesis
    using find_word(1) [OF n(1,3), of v] find_word(2) [OF assms(2)] rstrip_word [OF n(1)] rstrip_word [OF assms(2)] n(4)
    by (simp add: ini_line_def Let_def)
qed

lemma ini_line_section:
  assumes "word_text sec" "0x5D \<notin> set sec"
  shows "ini_line handler n (0x5B # sec @ [0x5D, 10]) st = st\<lparr>ini_section := strncpy0 50 sec, prev_name := []\<rparr>"
proof -
  let ?l = "0x5B # sec @ [0x5D]"
  have "rstrip (?l @ [10]) = ?l" "lskip ?l = ?l"
    by (rule rstrip_newline) (simp_all add: isspace_def lskip_def)
  then show ?thesis
    using find_word(1) [OF assms, of "[]"] by (simp add: ini_line_def Let_def)
qed


subsection \<open>Numbers\<close>

lemma digits_are_digits: "\<forall>c\<in>set (digits n). is_digit c"
proof (induction n rule: digits.induct)
  case (1 n)
  have "is_digit (word_of_nat (48 + d))" if "d < 10" for d
    using unat_digit [OF that] that by (simp add: is_digit_def word_le_nat_alt)
  then show ?case
    using 1 by (subst digits.simps) auto
qed

lemma digit_facts: "is_digit c \<Longrightarrow> \<not> isspace c \<and> c \<noteq> 0 \<and> c \<noteq> 0x2D \<and> c \<noteq> 0x2B"
  by (auto simp: is_digit_def isspace_def)

lemma dec_chars_word: "word_text (dec_chars n)"
  using digits_are_digits digit_facts by (auto simp: word_text_def dec_chars_def isspace_def)

lemma scan_dec_digits: "scan_dec (digits n) = Some (int n)" "scan_dec (0x2D # digits n) = Some (- int n)"
proof -
  obtain d cs where d: "digits n = d # cs" "is_digit d"
    using hd_digits [of n] digits_are_digits [of n] by fastforce
  then have "takeWhile is_digit (digits n) = digits n"
    using digits_are_digits [of n] takeWhile_eq_all_conv by blast
  moreover have "dropWhile (\<lambda>c. c \<in> {9, 10, 11, 12, 13, 32}) (digits n) = digits n"
    using digit_facts [OF d(2)] d(1) by (simp add: isspace_def)
  ultimately show "scan_dec (digits n) = Some (int n)" "scan_dec (0x2D # digits n) = Some (- int n)"
    using digit_facts [OF d(2)] d(1) digits_value_digits [of n] by (simp_all add: scan_dec_def Let_def)
qed

lemma atoi_dec_chars: "atoi (dec_chars w) = w"
proof -
  have "scan_dec (dec_chars w) = Some (sint w)"
    by (simp add: dec_chars_def scan_dec_digits)
  moreover have "- (2 ^ 63) \<le> sint w" "sint w < 2 ^ 63"
    using sint_range_size [of w] by (simp_all add: word_size)
  ultimately show ?thesis
    by (simp add: atoi_def)
qed


subsection \<open>Properties\<close>

text \<open>The file that says what a configuration is, section by section.\<close>

definition ini_pair :: "string \<Rightarrow> u8 list \<Rightarrow> u8 list" where
  "ini_pair name v = str_bytes name @ 0x3D # v @ [10]"

definition ini_flag :: "bool \<Rightarrow> u8 list" where
  "ini_flag b = dec_chars (if b then 1 else 0)"

definition config_lines :: "ethanol_configuration \<Rightarrow> u8 list list" where
  "config_lines c =
     [str_bytes ''[protocol]'' @ [10],
      ini_pair ''enable'' (dec_chars (ethanol_enable c)),
      ini_pair ''address'' (the (server_addr c)),
      ini_pair ''port_local'' (dec_chars (local_server_port c)),
      ini_pair ''port_remote'' (dec_chars (remote_server_port c)),
      ini_pair ''forward_beacon'' (dec_chars (forward_beacon c)),
      ini_pair ''hello_frequency'' (dec_chars (hello_frequency c)),
      str_bytes ''[log]'' @ [10],
      ini_pair ''logfile'' (the (log_filename c)),
      str_bytes ''[association]'' @ [10],
      ini_pair ''msg_association'' (ini_flag (enabled_msg_association c)),
      ini_pair ''msg_disassociation'' (ini_flag (enabled_msg_disassociation c)),
      ini_pair ''msg_reassociation'' (ini_flag (enabled_msg_reassociation c)),
      ini_pair ''msg_authorization'' (ini_flag (enabled_msg_authorization c)),
      ini_pair ''msg_user_disconnecting'' (ini_flag (enabled_msg_user_disconnecting c)),
      ini_pair ''msg_user_connecting'' (ini_flag (enabled_msg_user_connecting c))]"

definition name_ok :: "string \<Rightarrow> bool" where
  "name_ok s \<longleftrightarrow> name_text (str_bytes s) \<and> length s \<le> 49"

lemma config_names:
  "list_all name_ok [''enable'', ''address'', ''port_local'', ''port_remote'', ''forward_beacon'',
     ''hello_frequency'', ''logfile'', ''msg_association'', ''msg_disassociation'', ''msg_reassociation'',
     ''msg_authorization'', ''msg_user_disconnecting'', ''msg_user_connecting'']"
  by code_simp

lemma ini_line_name:
  "name_ok name \<Longrightarrow> word_text v \<Longrightarrow> ini_line handler n (ini_pair name v) st
     = call_handler handler n (str_bytes name) v (st\<lparr>prev_name := str_bytes name\<rparr>)"
  by (simp add: ini_line_pair ini_pair_def name_ok_def strncpy0_def)

lemma ini_line_sections:
  "ini_line handler n (str_bytes ''[protocol]'' @ [10]) st = st\<lparr>ini_section := str_bytes ''protocol'', prev_name := []\<rparr>"
  "ini_line handler n (str_bytes ''[log]'' @ [10]) st = st\<lparr>ini_section := str_bytes ''log'', prev_name := []\<rparr>"
  "ini_line handler n (str_bytes ''[association]'' @ [10]) st
     = st\<lparr>ini_section := str_bytes ''association'', prev_name := []\<rparr>"
  using ini_line_section [of "str_bytes ''protocol''" handler n st] ini_line_section [of "str_bytes ''log''" handler n st]
    ini_line_section [of "str_bytes ''association''" handler n st]
  by (simp_all add: str_bytes_def word_text_def isspace_def strncpy0_def)

lemma flag_word: "word_text (ini_flag b)" "atoi (ini_flag b) = 1 \<longleftrightarrow> b"
  by (simp_all add: ini_flag_def dec_chars_word atoi_dec_chars)

lemma config_handlers:
  "config_handler c (str_bytes ''protocol'') (str_bytes ''enable'') v = (c\<lparr>ethanol_enable := (atoi v)\<rparr>, True)"
  "config_handler c (str_bytes ''protocol'') (str_bytes ''address'') v = (c\<lparr>server_addr := (Some v)\<rparr>, True)"
  "config_handler c (str_bytes ''protocol'') (str_bytes ''port_local'') v = (c\<lparr>local_server_port := (atoi v)\<rparr>, True)"
  "config_handler c (str_bytes ''protocol'') (str_bytes ''port_remote'') v = (c\<lparr>remote_server_port := (atoi v)\<rparr>, True)"
  "config_handler c (str_bytes ''protocol'') (str_bytes ''forward_beacon'') v = (c\<lparr>forward_beacon := (atoi v)\<rparr>, True)"
  "config_handler c (str_bytes ''protocol'') (str_bytes ''hello_frequency'') v = (c\<lparr>hello_frequency := (if atoi v = 0 then 60 else atoi v)\<rparr>, True)"
  "config_handler c (str_bytes ''log'') (str_bytes ''logfile'') v = (c\<lparr>log_filename := (Some v)\<rparr>, True)"
  "config_handler c (str_bytes ''association'') (str_bytes ''msg_association'') v = (c\<lparr>enabled_msg_association := (atoi v = 1)\<rparr>, True)"
  "config_handler c (str_bytes ''association'') (str_bytes ''msg_disassociation'') v = (c\<lparr>enabled_msg_disassociation := (atoi v = 1)\<rparr>, True)"
  "config_handler c (str_bytes ''association'') (str_bytes ''msg_reassociation'') v = (c\<lparr>enabled_msg_reassociation := (atoi v = 1)\<rparr>, True)"
  "config_handler c (str_bytes ''association'') (str_bytes ''msg_authorization'') v = (c\<lparr>enabled_msg_authorization := (atoi v = 1)\<rparr>, True)"
  "config_handler c (str_bytes ''association'') (str_bytes ''msg_user_disconnecting'') v = (c\<lparr>enabled_msg_user_disconnecting := (atoi v = 1)\<rparr>, True)"
  "config_handler c (str_bytes ''association'') (str_bytes ''msg_user_connecting'') v = (c\<lparr>enabled_msg_user_connecting := (atoi v = 1)\<rparr>, True)"
  unfolding config_handler_def Let_def by (simp_all add: str_bytes_def)

text \<open>A configuration that a file can express.\<close>

definition writable_config :: "ethanol_configuration \<Rightarrow> bool" where
  "writable_config c \<longleftrightarrow> (\<exists>a. server_addr c = Some a \<and> word_text a \<and> length a \<le> 140) \<and>
     (\<exists>f. log_filename c = Some f \<and> word_text f \<and> length f \<le> 140) \<and> hello_frequency c \<noteq> 0"

definition clean_line :: "u8 list \<Rightarrow> bool" where
  "clean_line l \<longleftrightarrow> (\<exists>b. l = b @ [10] \<and> 10 \<notin> set b \<and> 0 \<notin> set b \<and> length b < 199)"

lemma ini_pair_line:
  assumes "name_ok name" "word_text v" "length v \<le> 140"
  shows "clean_line (ini_pair name v)"
  unfolding clean_line_def using assms
  by (intro exI [of _ "str_bytes name @ 0x3D # v"])
    (auto simp: ini_pair_def name_ok_def name_text_def word_text_def isspace_def)

lemma section_lines:
  "clean_line (str_bytes ''[protocol]'' @ [10])" "clean_line (str_bytes ''[log]'' @ [10])"
  "clean_line (str_bytes ''[association]'' @ [10])"
  by (simp_all add: clean_line_def str_bytes_def)

lemma config_lines_clean:
  assumes "writable_config c"
  shows "\<forall>l\<in>set (config_lines c). clean_line l"
proof -
  have "clean_line (ini_pair name (dec_chars n))" "clean_line (ini_pair name (ini_flag b))" if "name_ok name" for name n b
    using that dec_chars_word le_trans [OF length_dec_chars]
    by (auto intro!: ini_pair_line simp: ini_flag_def)
  moreover have "clean_line (ini_pair name (the (server_addr c)))" "clean_line (ini_pair name (the (log_filename c)))"
    if "name_ok name" for name
    using that assms by (auto intro!: ini_pair_line simp: writable_config_def)
  ultimately show ?thesis
    using config_names section_lines by (simp add: config_lines_def)
qed

lemma clean_lines: "\<forall>l\<in>set ls. clean_line l \<Longrightarrow> fgets_lines 199 [] (concat ls) = ls"
  by (intro fgets_concat) (auto simp: clean_line_def)

lemma ini_lines_clean:
  "clean_line l \<Longrightarrow> ini_lines handler n (l # ls) st = ini_lines handler (n + 1) ls (ini_line handler n l st)"
  by (auto simp: clean_line_def takeWhile_no)

text \<open>
  C32 Reading back a configuration.  The file that lists the settings of a configuration, section by
  section and without blanks, is read without error and gives exactly these settings, whatever the
  structure contained before: every name is matched by the handler, numbers of every sign and size
  come back, and the two texts are copied.
\<close>

theorem config_roundtrip:
  assumes "writable_config c"
  shows "read_configfile (Some (concat (config_lines c))) c0 = (c, True)"
proof -
  note clean = config_lines_clean [OF assms]
  have f: "fgets_lines 199 [] (concat (config_lines c)) = config_lines c"
    by (rule clean_lines [OF clean])
  obtain a b where t: "server_addr c = Some a" "word_text a" "log_filename c = Some b" "word_text b"
      "hello_frequency c \<noteq> 0"
    using assms by (auto simp: writable_config_def)
  have "ini_lines config_handler 1 (config_lines c) \<lparr>ini_section = [], prev_name = [], error = 0, user = set_defaults c0\<rparr>
      = \<lparr>ini_section = str_bytes ''association'', prev_name = str_bytes ''msg_user_connecting'', error = 0, user = c\<rparr>"
    using clean config_names t
    unfolding config_lines_def
    by (simp add: ini_lines_clean ini_line_name ini_line_sections call_handler_def config_handlers
        dec_chars_word atoi_dec_chars flag_word set_defaults_def del: ini_lines.simps(2))
  then show ?thesis
    by (simp add: read_configfile_def ini_parse_def ini_parse_file_def f)
qed

definition demo_config :: ethanol_configuration where
  "demo_config = \<lparr>ethanol_enable = 1, server_addr = Some (str_bytes ''10.0.0.1''), remote_server_port = 22222,
     local_server_port = 22223, log_filename = Some (str_bytes ''/tmp/log''), forward_beacon = - 1,
     hello_frequency = 30, enabled_msg_association = True, enabled_msg_disassociation = False,
     enabled_msg_reassociation = True, enabled_msg_authorization = False,
     enabled_msg_user_disconnecting = False, enabled_msg_user_connecting = True\<rparr>"

theorem config_roundtrip_witness:
  "\<forall>c0. read_configfile (Some (concat (config_lines demo_config))) c0 = (demo_config, True)"
proof
  fix c0
  have "writable_config demo_config"
    by (simp add: writable_config_def demo_config_def word_text_def isspace_def str_bytes_def)
  then show "read_configfile (Some (concat (config_lines demo_config))) c0 = (demo_config, True)"
    by (rule config_roundtrip)
qed

text \<open>
  The limit on the time between hellos is not effective.  The field is unsigned, so only the value 0 is
  replaced by 60 seconds; a negative number in the file becomes a pause of more than 68 years, with
  which the agent announces itself once and then never again.
\<close>

theorem hello_frequency_negative:
  assumes "sint n \<le> 0"
  shows "\<exists>c'. config_handler c (str_bytes ''protocol'') (str_bytes ''hello_frequency'') (dec_chars n) = (c', True) \<and>
    (if n = 0 then hello_frequency c' = 60 else 2 ^ 31 \<le> unat (hello_frequency c'))"
proof -
  have "2 ^ 31 \<le> unat n" if "n \<noteq> 0"
  proof -
    have "sint n < 0"
      using assms that by (metis order_le_less sint_0 signed_word_eqI)
    moreover have "- (2 ^ 31) \<le> sint n"
      using sint_range_size [of n] by (simp add: word_size)
    moreover have "uint n = sint n mod 2 ^ 32"
      by (simp add: uint_sint take_bit_eq_mod)
    moreover have "(sint n + 2 ^ 32) mod 2 ^ 32 = sint n mod 2 ^ 32"
      by simp
    ultimately have "2 ^ 31 \<le> uint n"
      using mod_pos_pos_trivial [of "sint n + 2 ^ 32" "2 ^ 32"] by simp
    then have "int (2 ^ 31) \<le> int (unat n)"
      unfolding uint_nat by simp
    then show ?thesis
      by linarith
  qed
  then show ?thesis
    by (simp add: config_handlers atoi_dec_chars)
qed

theorem hello_frequency_negative_witness:
  "\<exists>c'. config_handler demo_config (str_bytes ''protocol'') (str_bytes ''hello_frequency'') (dec_chars (- 5)) = (c', True) \<and>
     2 ^ 31 \<le> unat (hello_frequency c')"
  using hello_frequency_negative [of "- 5" demo_config] by simp

end
