(* ===== verification/Radio.thy ===== *)
theory Radio
  imports Ini
begin

section \<open>The radio of an access point and of a station\<close>

text \<open>
  The operations behind the messages about the radio: \<open>ethanol_functions/iw_powersave.c\<close>,
  \<open>ap_txpower.c\<close>, \<open>system_set_txpower\<close> of \<open>wapi_txpower.c\<close>, which run a command and read its output,
  \<open>get_mem_info\<close> of \<open>get_meminfo.c\<close>, and the hooks of \<open>hostapd_hooks.c\<close>, through which
  the message handlers call the access point daemon they are linked with.

  What these operations ask of the kernel or of the daemon is the record \<open>device\<close>: the
  registered hooks (a function that changes something is given by its effects), the
  answers of \<open>netlink\<close> and of the wireless extensions, the contents of the files under
  \<open>/proc\<close>, and the floating point conversions of the source.
\<close>

record hooks =
  f_get_wiphy :: "(cstr \<Rightarrow> c_int) option"
  f_get_current_frequency :: "(c_int \<Rightarrow> c_int) option"
  f_set_current_frequency :: "(c_int \<Rightarrow> c_int \<Rightarrow> effect list) option"
  f_get_current_channel :: "(c_int \<Rightarrow> c_int) option"
  f_set_current_channel :: "(c_int \<Rightarrow> c_int \<Rightarrow> effect list) option"

text \<open>
  \<open>tx_power_iwconfig\<close> is \<open>(int) trunc (get_tx_power_iwconfig (intf))\<close>, \<open>centi\<close> is
  \<open>(int) trunc ((float) x * 100)\<close>, \<open>wapi_freq\<close> is the frequency in Hz that \<open>wapi_get_freq\<close> gives.
  \<open>mem_scaled total free\<close> and \<open>cpu_scaled\<close> are the usage in per cent, scaled to an integer.
\<close>

record device =
  path_to_iw :: cstr
  hostapd_hooks :: hooks
  tx_power_iwconfig :: "cstr \<Rightarrow> c_int"
  wapi_txpower :: "cstr \<Rightarrow> c_int option"
  centi :: "c_long \<Rightarrow> c_int"
  snr_ap :: "cstr \<Rightarrow> c_long"
  noise_signal :: "cstr \<Rightarrow> (c_int \<times> c_int) option"
  wlan_frequency :: "cstr \<Rightarrow> (c_int \<times> c_int \<times> bool) option"
  wapi_freq :: "cstr \<Rightarrow> nat option"
  chan2freq :: "cstr \<Rightarrow> c_int \<Rightarrow> c_double option"
  double_of_uint :: "c_int \<Rightarrow> c_double"
  wapi_set_freq :: "cstr \<Rightarrow> c_double \<Rightarrow> bool \<Rightarrow> effect list"
  proc_uptime :: "(c_ldouble \<times> c_ldouble) option"
  proc_meminfo :: "u8 list option"
  mem_scaled :: "c_long \<Rightarrow> c_long \<Rightarrow> c_long"
  cpu_scaled :: c_long


subsection \<open>Hooks\<close>

text \<open>Calling a hook that is not registered calls a null pointer.\<close>

definition call_hook :: "'f option \<Rightarrow> fault + 'f" where
  "call_hook f = (case f of None \<Rightarrow> Inl Null_Dereference | Some f \<Rightarrow> Inr f)"

definition assign_func_get_wiphy :: "(cstr \<Rightarrow> c_int) option \<Rightarrow> hooks \<Rightarrow> hooks" where
  "assign_func_get_wiphy f h = h\<lparr>f_get_wiphy := f\<rparr>"

definition assign_func_get_current_frequency :: "(c_int \<Rightarrow> c_int) option \<Rightarrow> hooks \<Rightarrow> hooks" where
  "assign_func_get_current_frequency f h = h\<lparr>f_get_current_frequency := f\<rparr>"

definition assign_func_set_current_frequency ::
  "(c_int \<Rightarrow> c_int \<Rightarrow> effect list) option \<Rightarrow> hooks \<Rightarrow> hooks" where
  "assign_func_set_current_frequency f h = h\<lparr>f_set_current_frequency := f\<rparr>"

definition assign_func_get_current_channel :: "(c_int \<Rightarrow> c_int) option \<Rightarrow> hooks \<Rightarrow> hooks" where
  "assign_func_get_current_channel f h = h\<lparr>f_get_current_channel := f\<rparr>"

definition assign_func_set_current_channel ::
  "(c_int \<Rightarrow> c_int \<Rightarrow> effect list) option \<Rightarrow> hooks \<Rightarrow> hooks" where
  "assign_func_set_current_channel f h = h\<lparr>f_set_current_channel := f\<rparr>"

text \<open>The state before the daemon registers anything.\<close>

definition no_hooks :: hooks where
  "no_hooks = \<lparr>f_get_wiphy = None, f_get_current_frequency = None, f_set_current_frequency = None,
     f_get_current_channel = None, f_set_current_channel = None\<rparr>"

text \<open>A concrete device for the witnesses.\<close>

definition demo_device :: device where
  "demo_device = \<lparr>path_to_iw = Some (str_bytes ''iw'' @ [0]), hostapd_hooks = no_hooks, tx_power_iwconfig = (\<lambda>_. 20),
     wapi_txpower = (\<lambda>_. Some 17), centi = (\<lambda>x. ucast (x * 100)), snr_ap = (\<lambda>_. 35),
     noise_signal = (\<lambda>_. Some (- 90, - 40)), wlan_frequency = (\<lambda>_. Some (2437, 6, False)),
     wapi_freq = (\<lambda>_. Some 2412000000), chan2freq = (\<lambda>_ _. None), double_of_uint = ucast,
     wapi_set_freq = (\<lambda>_ _ _. []), proc_uptime = None, proc_meminfo = None, mem_scaled = (\<lambda>a b. a - b),
     cpu_scaled = 7\<rparr>"


subsection \<open>Power save mode (\<open>iw_powersave.c\<close>)\<close>

definition set_powersave_mode :: "env \<Rightarrow> cstr \<Rightarrow> cstr \<Rightarrow> bool \<Rightarrow> fault + effect list \<times> c_int" where
  "set_powersave_mode e iw_path intf enable =
     and_then (sprintf 2000 [Lit ''sudo '', Str iw_path, Lit '' dev '', Str intf,
        Lit '' set power_save '', Lit (if enable then ''on'' else ''off'')]) (system_cmd e)"

text \<open>The first line with \<open>Power save:\<close> decides; without such a line the mode counts as off.\<close>

primrec power_lines :: "u8 list list \<Rightarrow> bool" where
  "power_lines [] = False"
| "power_lines (l # ls) = (if contains (str_bytes ''Power save:'') l
     then \<not> contains (str_bytes ''off'') l else power_lines ls)"

definition get_powersave_mode :: "env \<Rightarrow> cstr \<Rightarrow> cstr \<Rightarrow> fault + bool" where
  "get_powersave_mode e iw_path intf =
     and_then (sprintf 2000 [Lit ''sudo '', Str iw_path, Lit '' dev '', Str intf, Lit '' get power_save'']) (\<lambda>cmd.
       Inr (case popen_lines e cmd of None \<Rightarrow> False | Some ls \<Rightarrow> power_lines ls))"


subsection \<open>Transmission power\<close>

definition ap_set_txpower :: "env \<Rightarrow> device \<Rightarrow> cstr \<Rightarrow> c_long \<Rightarrow> c_int \<Rightarrow> fault + effect list \<times> c_int" where
  "ap_set_txpower e d intf txp ty =
     (if path_to_iw d = None then Inr ([], - 1)
      else and_then (sprintf 2000 (if ty = 1 \<or> ty = 2
          then [Lit ''sudo '', Str (path_to_iw d), Lit '' dev '', Str intf, Lit '' set txpower '',
            Lit (if ty = 1 then ''fixed'' else ''limit''), Lit '' '', Dec (centi d txp)]
          else [Lit ''sudo '', Str (path_to_iw d), Lit '' dev '', Str intf, Lit '' set txpower auto'']))
        (system_cmd e))"

definition system_set_txpower :: "env \<Rightarrow> cstr \<Rightarrow> c_int \<Rightarrow> fault + effect list \<times> c_int" where
  "system_set_txpower e intf new_txpower =
     and_then (sprintf 128 [Lit ''iwconfig '', Str intf, Lit '' txpower '', Dec new_txpower]) (\<lambda>cmd.
     and_then (system_cmd e cmd) (\<lambda>(ev, r). Inr (ev, if 0 \<le> sint r then 0 else - 1)))"


subsection \<open>Memory (\<open>get_meminfo.c\<close>)\<close>

text \<open>
  Each line is read with an array of 50 bytes; its second word goes to the next of the 50 elements of
  \<open>values\<close>.  \<open>col\<close> is the contents of \<open>column2\<close>, which a line without a second word leaves as it
  was; \<open>values\<close> is not initialised.
\<close>

definition second_word :: "u8 list \<Rightarrow> u8 list option" where
  "second_word l =
     (let sp = (\<lambda>c. c \<in> {9, 10, 11, 12, 13, 32});
          r = dropWhile sp (dropWhile (\<lambda>c. \<not> sp c) (dropWhile sp l));
          w = takeWhile (\<lambda>c. \<not> sp c) r
      in if w = [] then None else Some w)"

primrec mem_lines :: "nat \<Rightarrow> u8 list \<Rightarrow> c_long list \<Rightarrow> u8 list list \<Rightarrow> fault + c_long list" where
  "mem_lines i col vals [] = Inr vals"
| "mem_lines i col vals (l # ls) =
     (let col = (case second_word (takeWhile (\<lambda>c. c \<noteq> 0) l) of None \<Rightarrow> col | Some w \<Rightarrow> w)
      in if i < 50 then mem_lines (i + 1) col (vals[i := scast (atoi col)]) ls else Inl Write_Out_Of_Bounds)"

definition get_mem_info :: "u8 list option \<Rightarrow> u8 list \<Rightarrow> c_long list \<Rightarrow> fault + c_long \<times> c_long" where
  "get_mem_info file col vals =
     and_then (case file of None \<Rightarrow> Inr vals | Some cs \<Rightarrow> mem_lines 0 col vals (fgets_lines 49 [] cs)) (\<lambda>vals.
       Inr (vals ! 0, vals ! 1))"

definition get_mem_porcentage :: "device \<Rightarrow> u8 list \<Rightarrow> c_long list \<Rightarrow> fault + c_long" where
  "get_mem_porcentage d col vals =
     and_then (get_mem_info (proc_meminfo d) col vals) (\<lambda>(total, free). Inr (mem_scaled d total free))"


subsection \<open>Reading the memory file\<close>

text \<open>The number in a line of the file.\<close>

definition mem_value :: "u8 list \<Rightarrow> c_long" where
  "mem_value l = (case second_word (takeWhile (\<lambda>c. c \<noteq> 0) l) of None \<Rightarrow> 0 | Some w \<Rightarrow> scast (atoi w))"

lemma mem_lines_eq:
  assumes "\<forall>l\<in>set ls. second_word (takeWhile (\<lambda>c. c \<noteq> 0) l) \<noteq> None" "length vals = 50" "i \<le> 50"
  shows "mem_lines i col vals ls = (if i + length ls \<le> 50
    then Inr (take i vals @ map mem_value ls @ drop (i + length ls) vals) else Inl Write_Out_Of_Bounds)"
  using assms
proof (induction ls arbitrary: i col vals)
  case Nil
  then show ?case by simp
next
  case (Cons l ls)
  obtain w where w: "second_word (takeWhile (\<lambda>c. c \<noteq> 0) l) = Some w"
    using Cons.prems(1) by auto
  show ?case
  proof (cases "i < 50")
    case True
    let ?vals = "vals[i := mem_value l]"
    have "take (Suc i) ?vals @ map mem_value ls @ drop (Suc i + length ls) ?vals
        = take i vals @ map mem_value (l # ls) @ drop (i + length (l # ls)) vals"
      using True Cons.prems(2) by (simp add: take_Suc_conv_app_nth)
    then show ?thesis
      using Cons.IH [of ?vals "Suc i" w] True w Cons.prems by (simp add: mem_value_def)
  next
    case False
    then show ?thesis
      by (simp add: Let_def)
  qed
qed

text \<open>
  C30 The usage of the memory.  The reader of \<open>/proc/meminfo\<close> keeps the numbers of all lines in an array
  of 50 elements, although only the first two are used.  On a file with more lines it writes behind
  the array; on a shorter one it returns the numbers of the first two lines.
\<close>

theorem meminfo_bounded:
  assumes "fgets_lines 49 [] cs = l1 # l2 # ls" "length vals = 50"
    and "\<forall>l\<in>set (l1 # l2 # ls). second_word (takeWhile (\<lambda>c. c \<noteq> 0) l) \<noteq> None"
  shows "get_mem_info (Some cs) col vals = (if length ls \<le> 48
    then Inr (mem_value l1, mem_value l2) else Inl Write_Out_Of_Bounds)"
  using mem_lines_eq [OF assms(3,2), of 0 col] by (simp add: get_mem_info_def assms(1))

definition demo_meminfo :: "nat \<Rightarrow> u8 list" where
  "demo_meminfo n = str_bytes ''MemTotal: 8000 kB'' @ [10] @ str_bytes ''MemFree: 500 kB'' @ [10] @
     concat (replicate n (str_bytes ''X: 1'' @ [10]))"

theorem meminfo_bounded_witness:
  "get_mem_info (Some (demo_meminfo 0)) [] (replicate 50 7) = Inr (8000, 500) \<and>
   get_mem_info (Some (demo_meminfo 49)) [] (replicate 50 7) = Inl Write_Out_Of_Bounds"
proof -
  let ?a = "str_bytes ''MemTotal: 8000 kB'' @ [10]" and ?b = "str_bytes ''MemFree: 500 kB'' @ [10]"
    and ?x = "str_bytes ''X: 1'' @ [10]"
  have v: "mem_value ?a = 8000" "mem_value ?b = 500"
    and s: "\<forall>l\<in>set [?a, ?b, ?x]. second_word (takeWhile (\<lambda>c. c \<noteq> 0) l) \<noteq> None"
    by code_simp+
  have f: "fgets_lines 49 [] (demo_meminfo 0) = [?a, ?b]"
    "fgets_lines 49 [] (demo_meminfo 49) = ?a # ?b # replicate 49 ?x"
    by code_simp+
  have "get_mem_info (Some (demo_meminfo 0)) [] (replicate 50 7) = Inr (8000, 500)"
    using meminfo_bounded [OF f(1), of "replicate 50 7" "[]"] s v by simp
  moreover have "get_mem_info (Some (demo_meminfo 49)) [] (replicate 50 7) = Inl Write_Out_Of_Bounds"
    using meminfo_bounded [OF f(2), of "replicate 50 7" "[]"] s by simp
  ultimately show ?thesis ..
qed

end
