(* ===== verification/Msg_Radio.thy ===== *)
theory Msg_Radio
  imports Station_Query Radio Relay
begin

section \<open>Messages about the radio and the load of a machine\<close>

text \<open>
  \<open>messaging/msg_powersavemode.c\<close>, \<open>msg_fastbsstransition_compatible.c\<close>, \<open>msg_snr.c\<close>,
  \<open>msg_txpower.c\<close>, \<open>msg_memory.c\<close> and \<open>msg_cpu.c\<close>: a value of the access point, or of a station to
  which the access point passes the query on.  The arguments \<open>hs\<close>, \<open>hm\<close> and \<open>hm'\<close> are
  uninitialised structures.
\<close>


subsection \<open>\<open>msg_fastbsstransition_compatible\<close>\<close>

record msg_fastbsstransition_compatible = sta_query +
  compatible :: bool

definition message_size_fastbsstransition_compatible :: "msg_fastbsstransition_compatible \<Rightarrow> fault + c_int" where
  "message_size_fastbsstransition_compatible h = sum_sizes
     [strlen_ethanol (p_version h), sizeof 4, sizeof 4, sizeof 4,
      strlen_ethanol (intf_name h), strlen_ethanol (sta_ip h), sizeof 4,
      bool_len_ethanol]"

definition encode_msg_fastbsstransition_compatible :: "allocator \<Rightarrow> msg_fastbsstransition_compatible \<Rightarrow> fault + msg_fastbsstransition_compatible \<times> u8 list" where
  "encode_msg_fastbsstransition_compatible mal = encode_frame mal message_size_fastbsstransition_compatible (\<lambda>h.
     [encode_header (m_type h) (m_id h) (m_size h),
      encode_char (intf_name h),
      encode_char (sta_ip h),
      encode_int (sta_port h),
      encode_bool (compatible h)])"

definition decode_msg_fastbsstransition_compatible :: "u8 list \<Rightarrow> msg_fastbsstransition_compatible \<Rightarrow> fault + msg_fastbsstransition_compatible" where
  "decode_msg_fastbsstransition_compatible = decode_frame
     [decode_header,
      into decode_char intf_name_update,
      into decode_char sta_ip_update,
      into decode_int sta_port_update,
      into decode_bool compatible_update]"

definition send_msg_fastbsstransition_compatible ::
  "env \<Rightarrow> cstr \<Rightarrow> c_int \<Rightarrow> c_int \<Rightarrow> cstr \<Rightarrow> cstr \<Rightarrow> c_int \<Rightarrow> msg_fastbsstransition_compatible \<Rightarrow> msg_fastbsstransition_compatible
   \<Rightarrow> fault + effect list \<times> c_int \<times> msg_fastbsstransition_compatible option" where
  "send_msg_fastbsstransition_compatible e hostname portnum idc intf staip staport hs hm =
     send_sync e hostname portnum idc
       (\<lambda>i. run_prog
         [assign m_type_update MSG_GET_FASTBSSTRANSITION_COMPATIBLE,
          assign m_id_update i,
          copy_to e p_version_update ETHANOL_VERSION,
          copy_to e intf_name_update intf,
          copy_to e sta_ip_update staip,
          assign sta_port_update staport,
          assign compatible_update False,
          set_size message_size_fastbsstransition_compatible] hs)
       (encode_msg_fastbsstransition_compatible (mallocs e))
       (\<lambda>t. t = MSG_GET_FASTBSSTRANSITION_COMPATIBLE)
       (\<lambda>buf. decode_msg_fastbsstransition_compatible buf hm)"

text \<open>The sender increments the id of the message that is answered.\<close>

definition process_msg_fastbsstransition_compatible ::
  "env \<Rightarrow> u8 list \<Rightarrow> msg_fastbsstransition_compatible \<Rightarrow> msg_fastbsstransition_compatible
   \<Rightarrow> msg_fastbsstransition_compatible \<Rightarrow> fault + effect list \<times> u8 list option" where
  "process_msg_fastbsstransition_compatible e input hm hs hm' =
     and_then (decode_msg_fastbsstransition_compatible input hm) (\<lambda>h.
     and_then
       (if sta_ip h \<noteq> None then
          and_then (send_msg_fastbsstransition_compatible e (sta_ip h) (sta_port h) (m_id h) (intf_name h) None 0 hs hm')
            (\<lambda>(ev, i, h1). Inr (ev, case h1 of
               None \<Rightarrow> h\<lparr>m_id := i\<rparr>
             | Some a \<Rightarrow> h\<lparr>m_id := i, compatible := compatible a\<rparr>))
        else Inr ([], h\<lparr>compatible := False\<rparr>))
       (\<lambda>(ev, h). and_then (encode_msg_fastbsstransition_compatible (mallocs e) h) (\<lambda>(_, output). Inr (ev, Some output))))"

definition bytes_fastbss :: "msg_fastbsstransition_compatible \<Rightarrow> nat" where
  "bytes_fastbss h = slen (p_version h) + slen (intf_name h) + slen (sta_ip h) + 35"

definition ok_fastbss :: "msg_fastbsstransition_compatible \<Rightarrow> bool" where
  "ok_fastbss h \<longleftrightarrow> ok_header h \<and> ok_str (intf_name h) \<and> ok_str (sta_ip h)
     \<and> bytes_fastbss h < 2 ^ 31"

definition norm_fastbss :: "msg_fastbsstransition_compatible \<Rightarrow> msg_fastbsstransition_compatible \<Rightarrow> msg_fastbsstransition_compatible" where
  "norm_fastbss h0 h = (norm_header (bytes_fastbss h) h)\<lparr>intf_name := canon (intf_name h), sta_ip := canon (sta_ip h)\<rparr>"

interpretation fastbss: msg_codec encode_msg_fastbsstransition_compatible decode_msg_fastbsstransition_compatible ok_fastbss
  norm_fastbss bytes_fastbss m_type
  unfolding encode_msg_fastbsstransition_compatible_def [abs_def] decode_msg_fastbsstransition_compatible_def
  by (rule frame_codecI [where bss = "\<lambda>m. [ser_str (intf_name m), ser_str (sta_ip m), le_bytes 4 (sta_port m),
          ser_bool (compatible m)]"])
    (simp_all add: codec ok_fastbss_def ok_header_def bytes_fastbss_def norm_fastbss_def
      message_size_fastbsstransition_compatible_def norm_header_def ac_simps encode_char_put length_ser_str)

interpretation fastbss_svc: station_query encode_msg_fastbsstransition_compatible decode_msg_fastbsstransition_compatible ok_fastbss
  norm_fastbss bytes_fastbss m_type m_id intf_name sta_ip sta_port send_msg_fastbsstransition_compatible
  "\<lambda>_ :: unit. process_msg_fastbsstransition_compatible"
  "\<lambda>_ _ h. Inr (h\<lparr>compatible := False\<rparr>)"
  MSG_GET_FASTBSSTRANSITION_COMPATIBLE "\<lambda>_. True" compatible "\<lambda>v h. h\<lparr>compatible := v\<rparr>" "\<lambda>i h. h\<lparr>m_id := i\<rparr>" "\<lambda>i _. i"
proof (unfold_locales, goal_cases)
  case (18 e intf staip i staport host port hs hm)
  let ?q = "sta_request (mallocs e) MSG_GET_FASTBSSTRANSITION_COMPATIBLE i intf staip staport (hs\<lparr>compatible := False\<rparr>)
    (slen intf + slen staip + 40)"
  have "send_msg_fastbsstransition_compatible e host port i intf staip staport hs hm
      = send_sync e host port i (\<lambda>_. Inr ?q) (encode_msg_fastbsstransition_compatible (mallocs e)) (\<lambda>t. t = MSG_GET_FASTBSSTRANSITION_COMPATIBLE)
          (\<lambda>b. decode_msg_fastbsstransition_compatible b hm)"
    unfolding send_msg_fastbsstransition_compatible_def
    by (rule send_sync_built)
      (use 18 in \<open>simp add: sta_request_def set_size_ok message_size_fastbsstransition_compatible_def ac_simps\<close>)
  then show ?case
    using 18
    by (intro exI [of _ ?q])
      (simp add: sta_request_def ok_fastbss_def ok_header_def bytes_fastbss_def)
qed (auto simp add: process_msg_fastbsstransition_compatible_def ok_fastbss_def norm_fastbss_def bytes_fastbss_def ok_header_def norm_header_def
       and_then_assoc cong: if_cong split: option.splits)



subsection \<open>\<open>msg_powersavemode\<close>\<close>

record msg_powersavemode = sta_query +
  ps_enabled :: bool

definition message_size_powersavemode :: "msg_powersavemode \<Rightarrow> fault + c_int" where
  "message_size_powersavemode h = sum_sizes
     [strlen_ethanol (p_version h), sizeof 4, sizeof 4, sizeof 4,
      strlen_ethanol (intf_name h), strlen_ethanol (sta_ip h), sizeof 4,
      bool_len_ethanol]"

definition encode_msg_powersavemode :: "allocator \<Rightarrow> msg_powersavemode \<Rightarrow> fault + msg_powersavemode \<times> u8 list" where
  "encode_msg_powersavemode mal = encode_frame mal message_size_powersavemode (\<lambda>h.
     [encode_header (m_type h) (m_id h) (m_size h),
      encode_char (intf_name h),
      encode_char (sta_ip h),
      encode_int (sta_port h),
      encode_bool (ps_enabled h)])"

definition decode_msg_powersavemode :: "u8 list \<Rightarrow> msg_powersavemode \<Rightarrow> fault + msg_powersavemode" where
  "decode_msg_powersavemode = decode_frame
     [decode_header,
      into decode_char intf_name_update,
      into decode_char sta_ip_update,
      into decode_int sta_port_update,
      into decode_bool ps_enabled_update]"

definition send_msg_get_powersavemode ::
  "env \<Rightarrow> cstr \<Rightarrow> c_int \<Rightarrow> c_int \<Rightarrow> cstr \<Rightarrow> cstr \<Rightarrow> c_int \<Rightarrow> msg_powersavemode \<Rightarrow> msg_powersavemode
   \<Rightarrow> fault + effect list \<times> c_int \<times> msg_powersavemode option" where
  "send_msg_get_powersavemode e hostname portnum idc intf staip staport hs hm =
     send_sync e hostname portnum idc
       (\<lambda>i. run_prog
         [assign m_type_update MSG_GET_POWERSAVEMODE,
          assign m_id_update i,
          copy_to e p_version_update ETHANOL_VERSION,
          copy_to e intf_name_update intf,
          copy_to e sta_ip_update staip,
          assign sta_port_update staport,
          assign ps_enabled_update False,
          set_size message_size_powersavemode] hs)
       (encode_msg_powersavemode (mallocs e))
       (\<lambda>t. t = MSG_GET_POWERSAVEMODE)
       (\<lambda>buf. decode_msg_powersavemode buf hm)"

definition send_msg_set_powersavemode ::
  "env \<Rightarrow> cstr \<Rightarrow> c_int \<Rightarrow> c_int \<Rightarrow> bool \<Rightarrow> cstr \<Rightarrow> cstr \<Rightarrow> c_int \<Rightarrow> msg_powersavemode
   \<Rightarrow> fault + effect list \<times> c_int" where
  "send_msg_set_powersavemode e hostname portnum idc enable intf staip staport hs = send_async e hostname portnum idc
       (\<lambda>i. run_prog
         [assign m_type_update MSG_SET_POWERSAVEMODE,
          assign m_id_update i,
          copy_to e p_version_update ETHANOL_VERSION,
          copy_to e intf_name_update intf,
          copy_to e sta_ip_update staip,
          assign sta_port_update staport,
          assign ps_enabled_update enable,
          set_size message_size_powersavemode] hs)
       (encode_msg_powersavemode (mallocs e))"

definition process_msg_powersavemode ::
  "device \<Rightarrow> env \<Rightarrow> u8 list \<Rightarrow> msg_powersavemode \<Rightarrow> msg_powersavemode \<Rightarrow> msg_powersavemode
   \<Rightarrow> fault + effect list \<times> u8 list option" where
  "process_msg_powersavemode d e input hm hs hm' =
     and_then (decode_msg_powersavemode input hm) (\<lambda>h.
     if m_type h = MSG_GET_POWERSAVEMODE then
       and_then
       (if sta_ip h \<noteq> None then
          and_then (send_msg_get_powersavemode e (sta_ip h) (sta_port h) (m_id h) (intf_name h) None 0 hs hm')
            (\<lambda>(ev, i, h1). Inr (ev, case h1 of
               None \<Rightarrow> h\<lparr>m_id := i\<rparr>
             | Some a \<Rightarrow> h\<lparr>m_id := i, ps_enabled := ps_enabled a\<rparr>))
        else and_then (get_powersave_mode e (path_to_iw d) (intf_name h)) (\<lambda>b. Inr ([], h\<lparr>ps_enabled := b\<rparr>)))
       (\<lambda>(ev, h). and_then (encode_msg_powersavemode (mallocs e) h) (\<lambda>(_, output). Inr (ev, Some output)))
     else if sta_ip h \<noteq> None then
       and_then (send_msg_set_powersavemode e (sta_ip h) (sta_port h) (m_id h) (ps_enabled h) (intf_name h) None 0 hs)
         (\<lambda>(ev, _). Inr (ev, None))
     else and_then (set_powersave_mode e (path_to_iw d) (intf_name h) (ps_enabled h)) (\<lambda>(ev, _). Inr (ev, None)))"

definition bytes_powersave :: "msg_powersavemode \<Rightarrow> nat" where
  "bytes_powersave h = slen (p_version h) + slen (intf_name h) + slen (sta_ip h) + 35"

definition ok_powersave :: "msg_powersavemode \<Rightarrow> bool" where
  "ok_powersave h \<longleftrightarrow> ok_header h \<and> ok_str (intf_name h) \<and> ok_str (sta_ip h)
     \<and> bytes_powersave h < 2 ^ 31"

definition norm_powersave :: "msg_powersavemode \<Rightarrow> msg_powersavemode \<Rightarrow> msg_powersavemode" where
  "norm_powersave h0 h = (norm_header (bytes_powersave h) h)\<lparr>intf_name := canon (intf_name h), sta_ip := canon (sta_ip h)\<rparr>"

interpretation powersave: msg_codec encode_msg_powersavemode decode_msg_powersavemode ok_powersave
  norm_powersave bytes_powersave m_type
  unfolding encode_msg_powersavemode_def [abs_def] decode_msg_powersavemode_def
  by (rule frame_codecI [where bss = "\<lambda>m. [ser_str (intf_name m), ser_str (sta_ip m), le_bytes 4 (sta_port m),
          ser_bool (ps_enabled m)]"])
    (simp_all add: codec ok_powersave_def ok_header_def bytes_powersave_def norm_powersave_def
      message_size_powersavemode_def norm_header_def ac_simps encode_char_put length_ser_str)

interpretation powersave_svc: station_query encode_msg_powersavemode decode_msg_powersavemode ok_powersave
  norm_powersave bytes_powersave m_type m_id intf_name sta_ip sta_port send_msg_get_powersavemode
  process_msg_powersavemode
  "\<lambda>d e h. and_then (get_powersave_mode e (path_to_iw d) (intf_name h)) (\<lambda>b. Inr (h\<lparr>ps_enabled := b\<rparr>))"
  MSG_GET_POWERSAVEMODE "\<lambda>_. True" ps_enabled "\<lambda>v h. h\<lparr>ps_enabled := v\<rparr>" "\<lambda>i h. h\<lparr>m_id := i\<rparr>" "\<lambda>i _. i"
proof (unfold_locales, goal_cases)
  case (18 e intf staip i staport host port hs hm)
  let ?q = "sta_request (mallocs e) MSG_GET_POWERSAVEMODE i intf staip staport (hs\<lparr>ps_enabled := False\<rparr>)
    (slen intf + slen staip + 40)"
  have "send_msg_get_powersavemode e host port i intf staip staport hs hm
      = send_sync e host port i (\<lambda>_. Inr ?q) (encode_msg_powersavemode (mallocs e)) (\<lambda>t. t = MSG_GET_POWERSAVEMODE)
          (\<lambda>b. decode_msg_powersavemode b hm)"
    unfolding send_msg_get_powersavemode_def
    by (rule send_sync_built)
      (use 18 in \<open>simp add: sta_request_def set_size_ok message_size_powersavemode_def ac_simps\<close>)
  then show ?case
    using 18
    by (intro exI [of _ ?q])
      (simp add: sta_request_def ok_powersave_def ok_header_def bytes_powersave_def)
qed (auto simp add: process_msg_powersavemode_def ok_powersave_def norm_powersave_def bytes_powersave_def ok_header_def norm_header_def
       and_then_assoc cong: if_cong split: option.splits)



subsection \<open>\<open>msg_snr\<close>\<close>

record msg_snr = sta_query +
  snr :: c_long

definition message_size_snr :: "msg_snr \<Rightarrow> fault + c_int" where
  "message_size_snr h = sum_sizes
     [strlen_ethanol (p_version h), sizeof 4, sizeof 4, sizeof 4,
      strlen_ethanol (intf_name h), strlen_ethanol (sta_ip h), sizeof 4, sizeof 8]"

definition encode_msg_snr :: "allocator \<Rightarrow> msg_snr \<Rightarrow> fault + msg_snr \<times> u8 list" where
  "encode_msg_snr mal = encode_frame mal message_size_snr (\<lambda>h.
     [encode_header (m_type h) (m_id h) (m_size h),
      encode_char (intf_name h),
      encode_char (sta_ip h),
      encode_int (sta_port h),
      encode_2long (snr h)])"

definition decode_msg_snr :: "u8 list \<Rightarrow> msg_snr \<Rightarrow> fault + msg_snr" where
  "decode_msg_snr = decode_frame
     [decode_header,
      into decode_char intf_name_update,
      into decode_char sta_ip_update,
      into decode_int sta_port_update,
      into decode_2long snr_update]"

definition send_msg_snr ::
  "env \<Rightarrow> cstr \<Rightarrow> c_int \<Rightarrow> c_int \<Rightarrow> cstr \<Rightarrow> cstr \<Rightarrow> c_int \<Rightarrow> msg_snr \<Rightarrow> msg_snr
   \<Rightarrow> fault + effect list \<times> c_int \<times> msg_snr option" where
  "send_msg_snr e hostname portnum idc intf staip staport hs hm =
     send_sync e hostname portnum idc
       (\<lambda>i. run_prog
         [assign m_type_update MSG_GET_SNR,
          assign m_id_update i,
          copy_to e p_version_update ETHANOL_VERSION,
          copy_to e intf_name_update intf,
          copy_to e sta_ip_update staip,
          assign sta_port_update staport,
          set_size message_size_snr] hs)
       (encode_msg_snr (mallocs e))
       (\<lambda>t. t = MSG_GET_SNR)
       (\<lambda>buf. decode_msg_snr buf hm)"

text \<open>A station subtracts the signal from the noise; both are \<open>int\<close>.\<close>

definition local_snr :: "device \<Rightarrow> env \<Rightarrow> cstr \<Rightarrow> c_long" where
  "local_snr d e intf = (if process_station e then
       (case noise_signal d intf of Some (noise, signal) \<Rightarrow> scast (noise - signal) | None \<Rightarrow> - 1)
     else snr_ap d intf)"

definition process_msg_snr ::
  "device \<Rightarrow> env \<Rightarrow> u8 list \<Rightarrow> msg_snr \<Rightarrow> msg_snr \<Rightarrow> msg_snr \<Rightarrow> fault + effect list \<times> u8 list option" where
  "process_msg_snr d e input hm hs hm' =
     and_then (decode_msg_snr input hm) (\<lambda>h.
     and_then
       (if sta_ip h \<noteq> None then
          and_then (send_msg_snr e (sta_ip h) (sta_port h) (m_id h) (intf_name h) None 0 hs hm')
            (\<lambda>(ev, _, h1). Inr (ev, case h1 of
               None \<Rightarrow> h
             | Some a \<Rightarrow> h\<lparr>snr := snr a\<rparr>))
        else Inr ([], h\<lparr>snr := local_snr d e (intf_name h)\<rparr>))
       (\<lambda>(ev, h). and_then (encode_msg_snr (mallocs e) h) (\<lambda>(_, output). Inr (ev, Some output))))"

definition bytes_snr :: "msg_snr \<Rightarrow> nat" where
  "bytes_snr h = slen (p_version h) + slen (intf_name h) + slen (sta_ip h) + 39"

definition ok_snr :: "msg_snr \<Rightarrow> bool" where
  "ok_snr h \<longleftrightarrow> ok_header h \<and> ok_str (intf_name h) \<and> ok_str (sta_ip h)
     \<and> bytes_snr h < 2 ^ 31"

definition norm_snr :: "msg_snr \<Rightarrow> msg_snr \<Rightarrow> msg_snr" where
  "norm_snr h0 h = (norm_header (bytes_snr h) h)\<lparr>intf_name := canon (intf_name h), sta_ip := canon (sta_ip h)\<rparr>"

interpretation snr: msg_codec encode_msg_snr decode_msg_snr ok_snr
  norm_snr bytes_snr m_type
  unfolding encode_msg_snr_def [abs_def] decode_msg_snr_def
  by (rule frame_codecI [where bss = "\<lambda>m. [ser_str (intf_name m), ser_str (sta_ip m), le_bytes 4 (sta_port m),
          le_bytes 8 (snr m)]"])
    (simp_all add: codec ok_snr_def ok_header_def bytes_snr_def norm_snr_def
      message_size_snr_def norm_header_def ac_simps encode_char_put length_ser_str)

interpretation snr_svc: station_query encode_msg_snr decode_msg_snr ok_snr
  norm_snr bytes_snr m_type m_id intf_name sta_ip sta_port send_msg_snr
  process_msg_snr
  "\<lambda>d e h. Inr (h\<lparr>snr := local_snr d e (intf_name h)\<rparr>)"
  MSG_GET_SNR "\<lambda>_. True" snr "\<lambda>v h. h\<lparr>snr := v\<rparr>" "\<lambda>_ h. h" "\<lambda>_ i. i"
proof (unfold_locales, goal_cases)
  case (18 e intf staip i staport host port hs hm)
  let ?q = "sta_request (mallocs e) MSG_GET_SNR i intf staip staport hs
    (slen intf + slen staip + 44)"
  have "send_msg_snr e host port i intf staip staport hs hm
      = send_sync e host port i (\<lambda>_. Inr ?q) (encode_msg_snr (mallocs e)) (\<lambda>t. t = MSG_GET_SNR)
          (\<lambda>b. decode_msg_snr b hm)"
    unfolding send_msg_snr_def
    by (rule send_sync_built)
      (use 18 in \<open>simp add: sta_request_def set_size_ok message_size_snr_def ac_simps\<close>)
  then show ?case
    using 18
    by (intro exI [of _ ?q])
      (simp add: sta_request_def ok_snr_def ok_header_def bytes_snr_def)
qed (auto simp add: process_msg_snr_def ok_snr_def norm_snr_def bytes_snr_def ok_header_def norm_header_def
       and_then_assoc cong: if_cong split: option.splits)



subsection \<open>\<open>msg_txpower\<close>\<close>

record msg_txpower = sta_query +
  txpower :: c_long
  auto_power :: bool

definition size_msg_txpower :: "msg_txpower \<Rightarrow> fault + c_int" where
  "size_msg_txpower h = sum_sizes
     [sizeof 4, sizeof 4, strlen_ethanol (p_version h), sizeof 4,
      strlen_ethanol (intf_name h), strlen_ethanol (sta_ip h), sizeof 4, sizeof 8,
      bool_len_ethanol]"

definition encode_msg_txpower :: "allocator \<Rightarrow> msg_txpower \<Rightarrow> fault + msg_txpower \<times> u8 list" where
  "encode_msg_txpower mal = encode_frame mal size_msg_txpower (\<lambda>h.
     [encode_header (m_type h) (m_id h) (m_size h),
      encode_char (intf_name h),
      encode_char (sta_ip h),
      encode_int (sta_port h),
      encode_2long (txpower h),
      encode_bool (auto_power h)])"

definition decode_msg_txpower :: "u8 list \<Rightarrow> msg_txpower \<Rightarrow> fault + msg_txpower" where
  "decode_msg_txpower = decode_frame
     [decode_header,
      into decode_char intf_name_update,
      into decode_char sta_ip_update,
      into decode_int sta_port_update,
      into decode_2long txpower_update,
      into decode_bool auto_power_update]"

definition send_msg_get_txpower ::
  "env \<Rightarrow> cstr \<Rightarrow> c_int \<Rightarrow> c_int \<Rightarrow> cstr \<Rightarrow> cstr \<Rightarrow> c_int \<Rightarrow> msg_txpower \<Rightarrow> msg_txpower
   \<Rightarrow> fault + effect list \<times> c_int \<times> msg_txpower option" where
  "send_msg_get_txpower e hostname portnum idc intf staip staport hs hm =
     send_sync e hostname portnum idc
       (\<lambda>i. run_prog
         [assign m_type_update MSG_GET_TXPOWER,
          assign m_id_update i,
          copy_to e p_version_update ETHANOL_VERSION,
          copy_to e intf_name_update intf,
          copy_to e sta_ip_update staip,
          assign sta_port_update staport,
          set_size size_msg_txpower] hs)
       (encode_msg_txpower (mallocs e))
       (\<lambda>t. t = MSG_GET_TXPOWER)
       (\<lambda>buf. decode_msg_txpower buf hm)"

definition send_msg_set_txpower ::
  "env \<Rightarrow> cstr \<Rightarrow> c_int \<Rightarrow> c_int \<Rightarrow> cstr \<Rightarrow> cstr \<Rightarrow> c_int \<Rightarrow> c_long \<Rightarrow> bool \<Rightarrow> msg_txpower
   \<Rightarrow> fault + effect list \<times> c_int" where
  "send_msg_set_txpower e hostname portnum idc intf staip staport txp autop hs = send_async e hostname portnum idc
       (\<lambda>i. run_prog
         [assign m_type_update MSG_SET_TXPOWER,
          assign m_id_update i,
          copy_to e p_version_update ETHANOL_VERSION,
          copy_to e intf_name_update intf,
          copy_to e sta_ip_update staip,
          assign sta_port_update staport,
          assign txpower_update txp,
          assign auto_power_update autop,
          set_size size_msg_txpower] hs)
       (encode_msg_txpower (mallocs e))"

definition local_txpower :: "device \<Rightarrow> env \<Rightarrow> msg_txpower \<Rightarrow> msg_txpower" where
  "local_txpower d e h = (if process_station e then
       (case wapi_txpower d (intf_name h) of Some p \<Rightarrow> h\<lparr>txpower := scast p\<rparr> | None \<Rightarrow> h)
     else h\<lparr>txpower := scast (tx_power_iwconfig d (intf_name h))\<rparr>)"

text \<open>A reply is encoded for a message that sets the power, too.\<close>

definition process_msg_txpower ::
  "device \<Rightarrow> env \<Rightarrow> u8 list \<Rightarrow> msg_txpower \<Rightarrow> msg_txpower \<Rightarrow> msg_txpower \<Rightarrow> fault + effect list \<times> u8 list option" where
  "process_msg_txpower d e input hm hs hm' =
     and_then (decode_msg_txpower input hm) (\<lambda>h.
     and_then
       (if m_type h = MSG_SET_TXPOWER then
          if sta_ip h = None then
            and_then (if process_station e then system_set_txpower e (intf_name h) (ucast (txpower h))
                else ap_set_txpower e d (intf_name h) (txpower h) (if auto_power h then 0 else 1))
              (\<lambda>(ev, _). Inr (ev, h))
          else
            and_then (send_msg_set_txpower e (sta_ip h) (sta_port h) (m_id h) (intf_name h) None 0
                (txpower h) (auto_power h) hs)
              (\<lambda>(ev, i). Inr (ev, h\<lparr>m_id := i\<rparr>))
        else if sta_ip h = None then Inr ([], local_txpower d e h)
        else
          and_then (send_msg_get_txpower e (sta_ip h) (sta_port h) (m_id h) (intf_name h) None 0 hs hm')
            (\<lambda>(ev, i, h1). Inr (ev, case h1 of
               None \<Rightarrow> h\<lparr>m_id := i\<rparr>
             | Some a \<Rightarrow> h\<lparr>m_id := i, txpower := txpower a\<rparr>)))
       (\<lambda>(ev, h). and_then (encode_msg_txpower (mallocs e) h) (\<lambda>(_, output). Inr (ev, Some output))))"

definition bytes_txpower :: "msg_txpower \<Rightarrow> nat" where
  "bytes_txpower h = slen (p_version h) + slen (intf_name h) + slen (sta_ip h) + 43"

definition ok_txpower :: "msg_txpower \<Rightarrow> bool" where
  "ok_txpower h \<longleftrightarrow> ok_header h \<and> ok_str (intf_name h) \<and> ok_str (sta_ip h)
     \<and> bytes_txpower h < 2 ^ 31"

definition norm_txpower :: "msg_txpower \<Rightarrow> msg_txpower \<Rightarrow> msg_txpower" where
  "norm_txpower h0 h = (norm_header (bytes_txpower h) h)\<lparr>intf_name := canon (intf_name h), sta_ip := canon (sta_ip h)\<rparr>"

interpretation txpower: msg_codec encode_msg_txpower decode_msg_txpower ok_txpower
  norm_txpower bytes_txpower m_type
  unfolding encode_msg_txpower_def [abs_def] decode_msg_txpower_def
  by (rule frame_codecI [where bss = "\<lambda>m. [ser_str (intf_name m), ser_str (sta_ip m), le_bytes 4 (sta_port m),
          le_bytes 8 (txpower m), ser_bool (auto_power m)]"])
    (simp_all add: codec ok_txpower_def ok_header_def bytes_txpower_def norm_txpower_def
      size_msg_txpower_def norm_header_def ac_simps encode_char_put length_ser_str)

interpretation txpower_svc: station_query encode_msg_txpower decode_msg_txpower ok_txpower
  norm_txpower bytes_txpower m_type m_id intf_name sta_ip sta_port send_msg_get_txpower
  process_msg_txpower
  "\<lambda>d e h. Inr (local_txpower d e h)"
  MSG_GET_TXPOWER "\<lambda>_. True" txpower "\<lambda>v h. h\<lparr>txpower := v\<rparr>" "\<lambda>i h. h\<lparr>m_id := i\<rparr>" "\<lambda>i _. i"
proof (unfold_locales, goal_cases)
  case (18 e intf staip i staport host port hs hm)
  let ?q = "sta_request (mallocs e) MSG_GET_TXPOWER i intf staip staport hs
    (slen intf + slen staip + 48)"
  have "send_msg_get_txpower e host port i intf staip staport hs hm
      = send_sync e host port i (\<lambda>_. Inr ?q) (encode_msg_txpower (mallocs e)) (\<lambda>t. t = MSG_GET_TXPOWER)
          (\<lambda>b. decode_msg_txpower b hm)"
    unfolding send_msg_get_txpower_def
    by (rule send_sync_built)
      (use 18 in \<open>simp add: sta_request_def set_size_ok size_msg_txpower_def ac_simps\<close>)
  then show ?case
    using 18
    by (intro exI [of _ ?q])
      (simp add: sta_request_def ok_txpower_def ok_header_def bytes_txpower_def)
qed (auto simp add: process_msg_txpower_def ok_txpower_def norm_txpower_def bytes_txpower_def ok_header_def norm_header_def
       and_then_assoc cong: if_cong split: option.splits)



subsection \<open>\<open>msg_memory\<close> and \<open>msg_cpu\<close>\<close>

text \<open>These queries name a machine and no interface.\<close>

record host_query = msg_header +
  hq_ip :: cstr
  hq_port :: c_int

record msg_memory = host_query +
  memory_usage :: c_long

definition message_size_memory :: "msg_memory \<Rightarrow> fault + c_int" where
  "message_size_memory h = sum_sizes
     [sizeof 4, sizeof 4, strlen_ethanol (p_version h), sizeof 4,
      strlen_ethanol (hq_ip h), sizeof 4, sizeof 8]"

definition encode_msg_memory :: "allocator \<Rightarrow> msg_memory \<Rightarrow> fault + msg_memory \<times> u8 list" where
  "encode_msg_memory mal = encode_frame mal message_size_memory (\<lambda>h.
     [encode_header (m_type h) (m_id h) (m_size h),
      encode_char (hq_ip h),
      encode_int (hq_port h),
      encode_2long (memory_usage h)])"

definition decode_msg_memory :: "u8 list \<Rightarrow> msg_memory \<Rightarrow> fault + msg_memory" where
  "decode_msg_memory = decode_frame
     [decode_header,
      into decode_char hq_ip_update,
      into decode_int hq_port_update,
      into decode_2long memory_usage_update]"

definition send_msg_get_memory ::
  "env \<Rightarrow> cstr \<Rightarrow> c_int \<Rightarrow> c_int \<Rightarrow> cstr \<Rightarrow> c_int \<Rightarrow> msg_memory \<Rightarrow> msg_memory
   \<Rightarrow> fault + effect list \<times> c_int \<times> msg_memory option" where
  "send_msg_get_memory e hostname portnum idc staip staport hs hm =
     send_sync e hostname portnum idc
       (\<lambda>i. run_prog
         [assign m_type_update MSG_GET_MEMORY,
          assign m_id_update i,
          copy_to e p_version_update ETHANOL_VERSION,
          copy_to e hq_ip_update staip,
          assign hq_port_update staport,
          assign memory_usage_update 0,
          set_size message_size_memory] hs)
       (encode_msg_memory (mallocs e))
       (\<lambda>t. t = MSG_GET_MEMORY)
       (\<lambda>buf. decode_msg_memory buf hm)"

text \<open>\<open>col\<close> and \<open>vals\<close> are the uninitialised blocks of \<open>get_mem_info\<close>.\<close>

definition process_msg_memory ::
  "device \<Rightarrow> u8 list \<Rightarrow> c_long list \<Rightarrow> env \<Rightarrow> u8 list \<Rightarrow> msg_memory \<Rightarrow> msg_memory \<Rightarrow> msg_memory
   \<Rightarrow> fault + effect list \<times> u8 list option" where
  "process_msg_memory d col vals e input hm hs hm' =
     and_then (decode_msg_memory input hm) (\<lambda>h.
     and_then
       (if hq_ip h \<noteq> None then
          and_then (send_msg_get_memory e (hq_ip h) (hq_port h) (m_id h) None 0 hs hm')
            (\<lambda>(ev, _, h1). Inr (ev, case h1 of
               None \<Rightarrow> h
             | Some a \<Rightarrow> h\<lparr>memory_usage := memory_usage a\<rparr>))
        else and_then (get_mem_porcentage d col vals) (\<lambda>v. Inr ([], h\<lparr>hq_ip := None, hq_port := 0, memory_usage := v\<rparr>)))
       (\<lambda>(ev, h). and_then (encode_msg_memory (mallocs e) h) (\<lambda>(_, output). Inr (ev, Some output))))"

definition bytes_memory :: "msg_memory \<Rightarrow> nat" where
  "bytes_memory h = slen (p_version h) + slen (hq_ip h) + 34"

definition ok_memory :: "msg_memory \<Rightarrow> bool" where
  "ok_memory h \<longleftrightarrow> ok_header h \<and> ok_str (hq_ip h)
     \<and> bytes_memory h < 2 ^ 31"

definition norm_memory :: "msg_memory \<Rightarrow> msg_memory \<Rightarrow> msg_memory" where
  "norm_memory h0 h = (norm_header (bytes_memory h) h)\<lparr>hq_ip := canon (hq_ip h)\<rparr>"

interpretation memory: msg_codec encode_msg_memory decode_msg_memory ok_memory
  norm_memory bytes_memory m_type
  unfolding encode_msg_memory_def [abs_def] decode_msg_memory_def
  by (rule frame_codecI [where bss = "\<lambda>m. [ser_str (hq_ip m), le_bytes 4 (hq_port m), le_bytes 8 (memory_usage m)]"])
    (simp_all add: codec ok_memory_def ok_header_def bytes_memory_def norm_memory_def
      message_size_memory_def norm_header_def ac_simps encode_char_put length_ser_str)

interpretation memory_svc: station_query encode_msg_memory decode_msg_memory ok_memory
  norm_memory bytes_memory m_type m_id "\<lambda>_. None" hq_ip hq_port "\<lambda>e host port i _. send_msg_get_memory e host port i"
  "\<lambda>(d, col, vals). process_msg_memory d col vals"
  "\<lambda>(d, col, vals) _ h. and_then (get_mem_porcentage d col vals) (\<lambda>v. Inr (h\<lparr>hq_ip := None, hq_port := 0, memory_usage := v\<rparr>))"
  MSG_GET_MEMORY "\<lambda>s. s = None" memory_usage "\<lambda>v h. h\<lparr>memory_usage := v\<rparr>" "\<lambda>_ h. h" "\<lambda>_ i. i"
proof (unfold_locales, goal_cases)
  case (18 e intf staip i staport host port hs hm)
  let ?q = "(hs\<lparr>memory_usage := 0\<rparr>)\<lparr>m_type := MSG_GET_MEMORY, m_id := i, p_version := dup (mallocs e) ETHANOL_VERSION,
    hq_ip := dup (mallocs e) staip, hq_port := staport, m_size := word_of_nat (slen staip + 39)\<rparr>"
  have "send_msg_get_memory e host port i staip staport hs hm
      = send_sync e host port i (\<lambda>_. Inr ?q) (encode_msg_memory (mallocs e)) (\<lambda>t. t = MSG_GET_MEMORY)
          (\<lambda>b. decode_msg_memory b hm)"
    unfolding send_msg_get_memory_def
    by (rule send_sync_built)
      (use 18 in \<open>simp add: set_size_ok message_size_memory_def ac_simps\<close>)
  then show ?case
    using 18
    by (intro exI [of _ ?q])
      (simp add: ok_memory_def ok_header_def bytes_memory_def)
qed (auto simp add: process_msg_memory_def ok_memory_def norm_memory_def bytes_memory_def ok_header_def norm_header_def
       and_then_assoc cong: if_cong split: option.splits)


record msg_cpu = host_query +
  cpu_usage :: c_long

definition message_size_cpu :: "msg_cpu \<Rightarrow> fault + c_int" where
  "message_size_cpu h = sum_sizes
     [sizeof 4, sizeof 4, strlen_ethanol (p_version h), sizeof 4,
      strlen_ethanol (hq_ip h), sizeof 4, sizeof 8]"

definition encode_msg_cpu :: "allocator \<Rightarrow> msg_cpu \<Rightarrow> fault + msg_cpu \<times> u8 list" where
  "encode_msg_cpu mal = encode_frame mal message_size_cpu (\<lambda>h.
     [encode_header (m_type h) (m_id h) (m_size h),
      encode_char (hq_ip h),
      encode_int (hq_port h),
      encode_2long (cpu_usage h)])"

definition decode_msg_cpu :: "u8 list \<Rightarrow> msg_cpu \<Rightarrow> fault + msg_cpu" where
  "decode_msg_cpu = decode_frame
     [decode_header,
      into decode_char hq_ip_update,
      into decode_int hq_port_update,
      into decode_2long cpu_usage_update]"

definition send_msg_get_cpu ::
  "env \<Rightarrow> cstr \<Rightarrow> c_int \<Rightarrow> c_int \<Rightarrow> cstr \<Rightarrow> c_int \<Rightarrow> msg_cpu \<Rightarrow> msg_cpu
   \<Rightarrow> fault + effect list \<times> c_int \<times> msg_cpu option" where
  "send_msg_get_cpu e hostname portnum idc staip staport hs hm =
     send_sync e hostname portnum idc
       (\<lambda>i. run_prog
         [assign m_type_update MSG_GET_CPU,
          assign m_id_update i,
          copy_to e p_version_update ETHANOL_VERSION,
          copy_to e hq_ip_update staip,
          assign hq_port_update staport,
          assign cpu_usage_update 0,
          set_size message_size_cpu] hs)
       (encode_msg_cpu (mallocs e))
       (\<lambda>t. t = MSG_GET_CPU)
       (\<lambda>buf. decode_msg_cpu buf hm)"

definition process_msg_cpu ::
  "device \<Rightarrow> env \<Rightarrow> u8 list \<Rightarrow> msg_cpu \<Rightarrow> msg_cpu \<Rightarrow> msg_cpu
   \<Rightarrow> fault + effect list \<times> u8 list option" where
  "process_msg_cpu d e input hm hs hm' =
     and_then (decode_msg_cpu input hm) (\<lambda>h.
     and_then
       (if hq_ip h \<noteq> None then
          and_then (send_msg_get_cpu e (hq_ip h) (hq_port h) (m_id h) None 0 hs hm')
            (\<lambda>(ev, _, h1). Inr (ev, case h1 of
               None \<Rightarrow> h
             | Some a \<Rightarrow> h\<lparr>cpu_usage := cpu_usage a\<rparr>))
        else Inr ([], h\<lparr>hq_ip := None, hq_port := 0, cpu_usage := cpu_scaled d\<rparr>))
       (\<lambda>(ev, h). and_then (encode_msg_cpu (mallocs e) h) (\<lambda>(_, output). Inr (ev, Some output))))"

definition bytes_cpu :: "msg_cpu \<Rightarrow> nat" where
  "bytes_cpu h = slen (p_version h) + slen (hq_ip h) + 34"

definition ok_cpu :: "msg_cpu \<Rightarrow> bool" where
  "ok_cpu h \<longleftrightarrow> ok_header h \<and> ok_str (hq_ip h)
     \<and> bytes_cpu h < 2 ^ 31"

definition norm_cpu :: "msg_cpu \<Rightarrow> msg_cpu \<Rightarrow> msg_cpu" where
  "norm_cpu h0 h = (norm_header (bytes_cpu h) h)\<lparr>hq_ip := canon (hq_ip h)\<rparr>"

interpretation cpu: msg_codec encode_msg_cpu decode_msg_cpu ok_cpu
  norm_cpu bytes_cpu m_type
  unfolding encode_msg_cpu_def [abs_def] decode_msg_cpu_def
  by (rule frame_codecI [where bss = "\<lambda>m. [ser_str (hq_ip m), le_bytes 4 (hq_port m), le_bytes 8 (cpu_usage m)]"])
    (simp_all add: codec ok_cpu_def ok_header_def bytes_cpu_def norm_cpu_def
      message_size_cpu_def norm_header_def ac_simps encode_char_put length_ser_str)

interpretation cpu_svc: station_query encode_msg_cpu decode_msg_cpu ok_cpu
  norm_cpu bytes_cpu m_type m_id "\<lambda>_. None" hq_ip hq_port "\<lambda>e host port i _. send_msg_get_cpu e host port i"
  process_msg_cpu
  "\<lambda>d _ h. Inr (h\<lparr>hq_ip := None, hq_port := 0, cpu_usage := cpu_scaled d\<rparr>)"
  MSG_GET_CPU "\<lambda>s. s = None" cpu_usage "\<lambda>v h. h\<lparr>cpu_usage := v\<rparr>" "\<lambda>_ h. h" "\<lambda>_ i. i"
proof (unfold_locales, goal_cases)
  case (18 e intf staip i staport host port hs hm)
  let ?q = "(hs\<lparr>cpu_usage := 0\<rparr>)\<lparr>m_type := MSG_GET_CPU, m_id := i, p_version := dup (mallocs e) ETHANOL_VERSION,
    hq_ip := dup (mallocs e) staip, hq_port := staport, m_size := word_of_nat (slen staip + 39)\<rparr>"
  have "send_msg_get_cpu e host port i staip staport hs hm
      = send_sync e host port i (\<lambda>_. Inr ?q) (encode_msg_cpu (mallocs e)) (\<lambda>t. t = MSG_GET_CPU)
          (\<lambda>b. decode_msg_cpu b hm)"
    unfolding send_msg_get_cpu_def
    by (rule send_sync_built)
      (use 18 in \<open>simp add: set_size_ok message_size_cpu_def ac_simps\<close>)
  then show ?case
    using 18
    by (intro exI [of _ ?q])
      (simp add: ok_cpu_def ok_header_def bytes_cpu_def)
qed (auto simp add: process_msg_cpu_def ok_cpu_def norm_cpu_def bytes_cpu_def ok_header_def norm_header_def
       and_then_assoc cong: if_cong split: option.splits)


subsection \<open>Setting the power save mode\<close>

interpretation powersave_set: relay_sender encode_msg_powersavemode decode_msg_powersavemode
  "\<lambda>m. ok_powersave m \<and> m_type m = MSG_SET_POWERSAVEMODE" norm_powersave bytes_powersave
  "\<lambda>e host port i intf staip staport v. send_msg_set_powersavemode e host port i v intf staip staport" ps_enabled
proof (unfold_locales, goal_cases)
  case (1 m mal)
  then show ?case
    using powersave.enc_ok by blast
next
  case (7 e intf staip staport v host port i hs)
  let ?q = "sta_request (mallocs e) MSG_SET_POWERSAVEMODE i intf staip staport (hs\<lparr>ps_enabled := v\<rparr>)
    (slen intf + slen staip + 40)"
  have "send_msg_set_powersavemode e host port i v intf staip staport hs
      = send_async e host port i (\<lambda>_. Inr ?q) (encode_msg_powersavemode (mallocs e))"
    unfolding send_msg_set_powersavemode_def
    by (rule send_async_built)
      (use 7 in \<open>simp add: sta_request_def set_size_ok message_size_powersavemode_def ac_simps\<close>)
  then show ?case
    using 7
    by (intro exI [of _ ?q])
      (simp add: sta_request_def ok_powersave_def ok_header_def bytes_powersave_def)
qed (simp_all add: norm_powersave_def norm_header_def)

text \<open>The commands of \<open>iw_powersave.c\<close>.\<close>

definition iw_command :: "cstr \<Rightarrow> cstr \<Rightarrow> string \<Rightarrow> u8 list" where
  "iw_command iw intf what = str_bytes ''sudo '' @ shown iw @ str_bytes '' dev '' @ shown intf @ str_bytes what"

lemma set_powersave_command:
  assumes "wf_str iw" "wf_str intf" "length (shown iw) + length (shown intf) \<le> 1900"
  shows "set_powersave_mode e iw intf b
    = (let cmd = iw_command iw intf ('' set power_save '' @ (if b then ''on'' else ''off''))
       in Inr ([System cmd], system_ret e cmd))"
  using assms
  by (simp add: set_powersave_mode_def sprintf_def fmt_str_wf sprintf_into_def iw_command_def system_cmd_def
      str_bytes_def Let_def)

lemma get_powersave_command:
  assumes "wf_str iw" "wf_str intf" "length (shown iw) + length (shown intf) \<le> 1900"
  shows "get_powersave_mode e iw intf
    = Inr (case popen_lines e (iw_command iw intf '' get power_save'') of None \<Rightarrow> False | Some ls \<Rightarrow> power_lines ls)"
  using assms
  by (simp add: get_powersave_mode_def sprintf_def fmt_str_wf sprintf_into_def iw_command_def str_bytes_def)

lemma shown_canon_length: "0 < slen s \<Longrightarrow> length (shown (canon s)) = slen s"
proof -
  assume "0 < slen s"
  then obtain c where "canon s = Some c" "slen (Some c) = slen s"
    using canon_nonempty [of s] by metis
  then show ?thesis by (simp add: slen_def)
qed

lemma power_lines_find:
  "power_lines ls = (case find (contains (str_bytes ''Power save:'')) ls of
     None \<Rightarrow> False | Some l \<Rightarrow> \<not> contains (str_bytes ''off'') l)"
  by (induction ls) simp_all


subsection \<open>Properties\<close>

text \<open>
  C27 Reading the power save mode of a station.  The access point asks the station, which runs \<open>iw\<close>, and the
  controller gets, for the interface it asked about, whether the first line that \<open>iw\<close> printed about
  power save says anything else than off.  The reply carries another message id than the request:
  the access point has incremented it when it asked the station.
\<close>

theorem powersave_of_station:
  assumes "copyable (mallocs e0) ETHANOL_VERSION" "copyable (mallocs e0) intf"
      "copyable (mallocs e0) staip" "allocates (mallocs e0)" "reaches e0 host port"
      "serves e0 host port MSG_GET_POWERSAVEMODE (\<lambda>req. process_msg_powersavemode d1 e1 (req @ j1) hm1 hs1 hm1')"
    and "allocates (mallocs e1)" "copyable (mallocs e1) ETHANOL_VERSION"
      "copyable (mallocs e1) (canon intf)" "reaches e1 (canon staip) staport"
      "serves e1 (canon staip) staport MSG_GET_POWERSAVEMODE
         (\<lambda>req. process_msg_powersavemode d2 e2 (req @ j2) hm2 hs2 hm2')"
    and "allocates (mallocs e2)" "wf_str (path_to_iw d2)" "length (shown (path_to_iw d2)) + slen intf \<le> 1900"
      "popen_lines e2 (iw_command (path_to_iw d2) (canon intf) '' get power_save'') = Some ls"
    and "0 < slen intf" "0 < slen staip" "slen intf + slen staip < 2 ^ 31 - 100"
  shows "\<exists>req a. send_msg_get_powersavemode e0 host port i intf staip staport hs hm
      = Inr (session e0 host port req, i + 1, Some a)
      \<and> intf_name a = canon intf \<and> m_id a = i + 1
      \<and> ps_enabled a = (case find (contains (str_bytes ''Power save:'')) ls of
           None \<Rightarrow> False | Some l \<Rightarrow> \<not> contains (str_bytes ''off'') l)"
proof -
  have g: "get_powersave_mode e2 (path_to_iw d2) (canon intf) = Inr (power_lines ls)"
    using get_powersave_command [OF assms(13) wf_str_canon, of intf e2] assms(14-16)
    by (simp add: shown_canon_length)
  have "\<exists>req a. send_msg_get_powersavemode e0 host port i intf staip staport hs hm
      = Inr (session e0 host port req, i + 1, Some a)
      \<and> m_id a = i + 1 \<and> intf_name a = canon intf \<and> ps_enabled a = power_lines ls"
    by (rule powersave_svc.end_to_end [OF assms(1-12) _ _ assms(17,18)]) (simp_all add: g)
  then show ?thesis
    unfolding power_lines_find [symmetric] by blast
qed

text \<open>
  Setting the power save mode of a station.  The message of the controller makes the access point
  send the same setting to the station, and the station run exactly the command of \<open>iw\<close> that sets
  it for the interface named in the message.
\<close>

theorem powersave_set_on_station:
  assumes "copyable (mallocs e0) ETHANOL_VERSION" "copyable (mallocs e0) intf"
      "copyable (mallocs e0) staip" "allocates (mallocs e0)" "reaches e0 host port"
    and "allocates (mallocs e1)" "copyable (mallocs e1) ETHANOL_VERSION"
      "copyable (mallocs e1) (canon intf)" "reaches e1 (canon staip) staport"
    and "0 < slen intf" "0 < slen staip" "slen intf + slen staip < 2 ^ 31 - 100"
    and iw: "wf_str (path_to_iw d2)" "length (shown (path_to_iw d2)) + slen intf \<le> 1900"
  shows "\<exists>req req'. send_msg_set_powersavemode e0 host port i b intf staip staport hs
        = Inr (session e0 host port req, i + 1)
      \<and> process_msg_powersavemode d1 e1 (req @ j1) hm1 hs1 hm1' = Inr (session e1 (canon staip) staport req', None)
      \<and> process_msg_powersavemode d2 e2 (req' @ j2) hm2 hs2 hm2'
        = Inr ([System (iw_command (path_to_iw d2) (canon intf)
             ('' set power_save '' @ (if b then ''on'' else ''off'')))], None)"
proof -
  obtain q q' req p p' req' where
    s0: "send_msg_set_powersavemode e0 host port i b intf staip staport hs = Inr (session e0 host port req, i + 1)"
    and q: "ok_powersave q \<and> m_type q = MSG_SET_POWERSAVEMODE" "encode_msg_powersavemode (mallocs e0) q = Inr (q', req)"
    and n: "\<forall>h. sta_ip (norm_powersave h q) = canon staip \<and> sta_port (norm_powersave h q) = staport
      \<and> intf_name (norm_powersave h q) = canon intf \<and> ps_enabled (norm_powersave h q) = b"
    and s1: "send_msg_set_powersavemode e1 (canon staip) staport (m_id q) b (canon intf) None 0 hs1
       = Inr (session e1 (canon staip) staport req', m_id q + 1)"
    and p: "ok_powersave p \<and> m_type p = MSG_SET_POWERSAVEMODE" "encode_msg_powersavemode (mallocs e1) p = Inr (p', req')"
      "slen (sta_ip p) = 0" "canon (intf_name p) = canon intf" "ps_enabled p = b"
    by (rule powersave_set.sent_twice [OF assms(1-12)])
  have "canon staip \<noteq> None" "canon (sta_ip p) = None"
    using assms(11) p(3) by (simp_all add: canon_eq_None)
  moreover have "set_powersave_mode e2 (path_to_iw d2) (canon intf) b
    = (let cmd = iw_command (path_to_iw d2) (canon intf) ('' set power_save '' @ (if b then ''on'' else ''off''))
       in Inr ([System cmd], system_ret e2 cmd))"
    by (rule set_powersave_command) (use iw assms(10) in \<open>simp_all add: shown_canon_length wf_str_canon\<close>)
  ultimately show ?thesis
    using s0 s1 n q(1) p powersave.roundtrip [OF conjunct1 [OF q(1)] assms(4) q(2), of j1 hm1]
      powersave.roundtrip [OF conjunct1 [OF p(1)] assms(6) p(2), of j2 hm2]
    by (intro exI [of _ req] exI [of _ req'])
      (simp add: process_msg_powersavemode_def norm_powersave_def norm_header_def Let_def)
qed

text \<open>
  The signal to noise ratio of a station.  A controller that asks an access point for it gets, under
  its own message id, the noise of the station minus its signal: for a signal above the noise a
  negative number.
\<close>

theorem snr_of_station:
  assumes "copyable (mallocs e0) ETHANOL_VERSION" "copyable (mallocs e0) intf"
      "copyable (mallocs e0) staip" "allocates (mallocs e0)" "reaches e0 host port"
      "serves e0 host port MSG_GET_SNR (\<lambda>req. process_msg_snr d1 e1 (req @ j1) hm1 hs1 hm1')"
    and "allocates (mallocs e1)" "copyable (mallocs e1) ETHANOL_VERSION"
      "copyable (mallocs e1) (canon intf)" "reaches e1 (canon staip) staport"
      "serves e1 (canon staip) staport MSG_GET_SNR (\<lambda>req. process_msg_snr d2 e2 (req @ j2) hm2 hs2 hm2')"
    and "allocates (mallocs e2)" "process_station e2" "noise_signal d2 (canon intf) = Some (noise, signal)"
    and "0 < slen staip" "slen intf + slen staip < 2 ^ 31 - 100"
    and dbm: "- 200 \<le> sint noise" "sint noise < sint signal" "sint signal \<le> 0"
  shows "\<exists>req a. send_msg_snr e0 host port i intf staip staport hs hm
      = Inr (session e0 host port req, i + 1, Some a)
      \<and> intf_name a = canon intf \<and> m_id a = i \<and> sint (snr a) = sint noise - sint signal \<and> sint (snr a) < 0"
proof -
  have l: "local_snr d2 e2 (canon intf) = scast (noise - signal)"
    by (simp add: local_snr_def assms(13,14))
  have "sint (noise - signal) = sint noise - sint signal"
    using dbm by (simp add: sint_word_ariths signed_take_bit_int_eq_self)
  then have v: "sint (scast (noise - signal) :: c_long) = sint noise - sint signal"
    using dbm by (simp add: signed_scast_eq signed_take_bit_int_eq_self)
  have "\<exists>req a. send_msg_snr e0 host port i intf staip staport hs hm
      = Inr (session e0 host port req, i + 1, Some a)
      \<and> m_id a = i \<and> intf_name a = canon intf \<and> snr a = scast (noise - signal)"
    by (rule snr_svc.end_to_end [OF assms(1-12) _ _ assms(15,16)]) (simp_all add: l)
  then show ?thesis
    using v dbm(2) by fastforce
qed

definition demo_ps :: msg_powersavemode where
  "demo_ps = \<lparr>m_type = 0, m_id = 0, p_version = None, m_size = 0, intf_name = None, sta_ip = None,
     sta_port = 0, ps_enabled = False\<rparr>"

definition demo_iw :: env where
  "demo_iw = demo_env\<lparr>popen_lines := \<lambda>_. Some [str_bytes ''w'' @ [10], str_bytes ''Power save: on'' @ [10]]\<rparr>"

lemma demo_device_iw:
  "wf_str (path_to_iw demo_device)" "length (shown (path_to_iw demo_device)) + slen demo_name \<le> 1900"
proof -
  have "path_to_iw demo_device = Some (str_bytes ''iw'' @ [0])"
    by (simp add: demo_device_def)
  moreover have "wf_str (Some (str_bytes ''iw'' @ [0]))" "length (shown (Some (str_bytes ''iw'' @ [0]))) + slen demo_name \<le> 1900"
    by code_simp+
  ultimately show "wf_str (path_to_iw demo_device)" "length (shown (path_to_iw demo_device)) + slen demo_name \<le> 1900"
    by simp_all
qed

theorem powersave_of_station_witness:
  "\<exists>e0 req a. send_msg_get_powersavemode e0 demo_name 22222 5 demo_name demo_name 22223 demo_ps demo_ps
      = Inr (session e0 demo_name 22222 req, 6, Some a)
      \<and> intf_name a = demo_name \<and> ps_enabled a \<and> m_id a = 6"
proof -
  define s2 where "s2 = (\<lambda>req. process_msg_powersavemode demo_device demo_iw (req @ []) demo_ps demo_ps demo_ps)"
  define e1 where "e1 = demo_env\<lparr>ssl_read := demo_peer s2\<rparr>"
  define s1 where "s1 = (\<lambda>req. process_msg_powersavemode demo_device e1 (req @ []) demo_ps demo_ps demo_ps)"
  define e0 where "e0 = demo_env\<lparr>ssl_read := demo_peer s1\<rparr>"
  have s: "serves e0 h p t s1" "serves e1 h p t s2" for h p t
    unfolding e0_def e1_def by (rule serves_demo_peer)+
  have m: "mallocs e0 = mallocs demo_env" "mallocs e1 = mallocs demo_env" "mallocs demo_iw = mallocs demo_env"
    "reaches e0 h p" "reaches e1 h p" for h p
    by (simp_all add: e0_def e1_def demo_iw_def reaches_def demo_env_def)
  have v: "copyable (mallocs demo_env) ETHANOL_VERSION" "copyable (mallocs demo_env) demo_name"
    by (simp_all add: copyable_demo_env)
  let ?ls = "[str_bytes ''w'' @ [10], str_bytes ''Power save: on'' @ [10]]"
  have l: "power_lines ?ls"
    by code_simp
  have "\<exists>req a. send_msg_get_powersavemode e0 demo_name 22222 5 demo_name demo_name 22223 demo_ps demo_ps
      = Inr (session e0 demo_name 22222 req, 5 + 1, Some a) \<and> intf_name a = canon demo_name
      \<and> m_id a = 5 + 1 \<and> ps_enabled a = (case find (contains (str_bytes ''Power save:'')) ?ls of
           None \<Rightarrow> False | Some l \<Rightarrow> \<not> contains (str_bytes ''off'') l)"
    by (rule powersave_of_station [where ?e1.0 = e1 and ?e2.0 = demo_iw and ?d1.0 = demo_device and ?d2.0 = demo_device
        and ?j1.0 = "[]" and ?j2.0 = "[]" and ?hm1.0 = demo_ps and ?hs1.0 = demo_ps and hm1' = demo_ps
        and ?hm2.0 = demo_ps and ?hs2.0 = demo_ps and hm2' = demo_ps])
      (use v s [unfolded s1_def s2_def] m demo_device_iw in \<open>simp_all add: allocates_demo_env demo_iw_def\<close>)
  then show ?thesis
    unfolding power_lines_find [symmetric] using l by auto
qed

theorem powersave_set_on_station_witness:
  "\<exists>req req'. send_msg_set_powersavemode demo_env demo_name 22222 5 True demo_name demo_name 22223 demo_ps
        = Inr (session demo_env demo_name 22222 req, 6)
      \<and> process_msg_powersavemode demo_device demo_env (req @ []) demo_ps demo_ps demo_ps
        = Inr (session demo_env demo_name 22223 req', None)
      \<and> process_msg_powersavemode demo_device demo_env (req' @ []) demo_ps demo_ps demo_ps
        = Inr ([System (str_bytes ''sudo iw dev w set power_save on'')], None)"
proof -
  have d: "path_to_iw demo_device = Some (str_bytes ''iw'' @ [0])"
    by (simp add: demo_device_def)
  have c: "iw_command (Some (str_bytes ''iw'' @ [0])) demo_name ('' set power_save '' @ ''on'')
      = str_bytes ''sudo iw dev w set power_save on''"
    by code_simp
  have v: "copyable (mallocs demo_env) ETHANOL_VERSION" "copyable (mallocs demo_env) demo_name"
    by (simp_all add: copyable_demo_env)
  have "\<exists>req req'. send_msg_set_powersavemode demo_env demo_name 22222 5 True demo_name demo_name 22223 demo_ps
        = Inr (session demo_env demo_name 22222 req, 5 + 1)
      \<and> process_msg_powersavemode demo_device demo_env (req @ []) demo_ps demo_ps demo_ps
        = Inr (session demo_env (canon demo_name) 22223 req', None)
      \<and> process_msg_powersavemode demo_device demo_env (req' @ []) demo_ps demo_ps demo_ps
        = Inr ([System (iw_command (path_to_iw demo_device) (canon demo_name)
             ('' set power_save '' @ (if True then ''on'' else ''off'')))], None)"
    by (rule powersave_set_on_station)
      (use v demo_device_iw in \<open>simp_all add: allocates_demo_env reaches_demo_env\<close>)
  then show ?thesis
    unfolding d if_True demo_name_simps c by simp
qed

definition demo_snr :: msg_snr where
  "demo_snr = \<lparr>m_type = 0, m_id = 0, p_version = None, m_size = 0, intf_name = None, sta_ip = None,
     sta_port = 0, snr = 0\<rparr>"

theorem snr_of_station_witness:
  "\<exists>e0 req a. send_msg_snr e0 demo_name 22222 5 demo_name demo_name 22223 demo_snr demo_snr
      = Inr (session e0 demo_name 22222 req, 6, Some a)
      \<and> intf_name a = demo_name \<and> m_id a = 5 \<and> sint (snr a) = - 50 \<and> sint (snr a) < 0"
proof -
  let ?e2 = "demo_env\<lparr>process_station := True\<rparr>"
  define s2 where "s2 = (\<lambda>req. process_msg_snr demo_device ?e2 (req @ []) demo_snr demo_snr demo_snr)"
  define e1 where "e1 = demo_env\<lparr>ssl_read := demo_peer s2\<rparr>"
  define s1 where "s1 = (\<lambda>req. process_msg_snr demo_device e1 (req @ []) demo_snr demo_snr demo_snr)"
  define e0 where "e0 = demo_env\<lparr>ssl_read := demo_peer s1\<rparr>"
  have s: "serves e0 h p t s1" "serves e1 h p t s2" for h p t
    unfolding e0_def e1_def by (rule serves_demo_peer)+
  have m: "mallocs e0 = mallocs demo_env" "mallocs e1 = mallocs demo_env" "reaches e0 h p" "reaches e1 h p" for h p
    by (simp_all add: e0_def e1_def reaches_def demo_env_def)
  have v: "copyable (mallocs demo_env) ETHANOL_VERSION" "copyable (mallocs demo_env) demo_name"
    by (simp_all add: copyable_demo_env)
  have "\<exists>req a. send_msg_snr e0 demo_name 22222 5 demo_name demo_name 22223 demo_snr demo_snr
      = Inr (session e0 demo_name 22222 req, 5 + 1, Some a) \<and> intf_name a = canon demo_name \<and> m_id a = 5
      \<and> sint (snr a) = sint (- 90 :: c_int) - sint (- 40 :: c_int) \<and> sint (snr a) < 0"
    by (rule snr_of_station [where ?e1.0 = e1 and ?e2.0 = ?e2 and ?d1.0 = demo_device and ?d2.0 = demo_device
        and ?j1.0 = "[]" and ?j2.0 = "[]" and ?hm1.0 = demo_snr and ?hs1.0 = demo_snr and hm1' = demo_snr
        and ?hm2.0 = demo_snr and ?hs2.0 = demo_snr and hm2' = demo_snr])
      (use v s [unfolded s1_def s2_def] m in \<open>simp_all add: allocates_demo_env demo_device_def\<close>)
  then show ?thesis
    by auto
qed

end
