(* ===== verification/Msg_Channel.thy ===== *)
theory Msg_Channel
  imports Radio Relay
begin

section \<open>Channel and frequency\<close>

text \<open>
  \<open>messaging/msg_currentchannel.c\<close> and \<open>msg_frequency.c\<close>.  An access point reads and sets the channel
  through the hooks that the daemon registers, a station through the wireless extensions.  The
  arguments \<open>hs\<close>, \<open>hm\<close>, \<open>hm'\<close> and \<open>freq0\<close> are uninitialised memory.
\<close>


subsection \<open>\<open>msg_currentchannel\<close>\<close>

record msg_currentchannel = sta_query +
  channel :: c_int
  cc_frequency :: c_int
  autochannel :: bool

definition message_size_currentchannel :: "msg_currentchannel \<Rightarrow> fault + c_int" where
  "message_size_currentchannel h = sum_sizes
     [sizeof 4, sizeof 4, strlen_ethanol (p_version h), sizeof 4,
      strlen_ethanol (intf_name h), strlen_ethanol (sta_ip h), sizeof 4, sizeof 4,
      sizeof 4, bool_len_ethanol]"

definition encode_msg_currentchannel :: "allocator \<Rightarrow> msg_currentchannel \<Rightarrow> fault + msg_currentchannel \<times> u8 list" where
  "encode_msg_currentchannel mal = encode_frame mal message_size_currentchannel (\<lambda>h.
     [encode_header (m_type h) (m_id h) (m_size h),
      encode_char (intf_name h),
      encode_char (sta_ip h),
      encode_int (sta_port h),
      encode_int (channel h),
      encode_int (cc_frequency h),
      encode_bool (autochannel h)])"

definition decode_msg_currentchannel :: "u8 list \<Rightarrow> msg_currentchannel \<Rightarrow> fault + msg_currentchannel" where
  "decode_msg_currentchannel = decode_frame
     [decode_header,
      into decode_char intf_name_update,
      into decode_char sta_ip_update,
      into decode_int sta_port_update,
      into decode_int channel_update,
      into decode_int cc_frequency_update,
      into decode_bool autochannel_update]"

definition send_msg_get_currentchannel ::
  "env \<Rightarrow> cstr \<Rightarrow> c_int \<Rightarrow> c_int \<Rightarrow> cstr \<Rightarrow> cstr \<Rightarrow> c_int \<Rightarrow> msg_currentchannel \<Rightarrow> msg_currentchannel
   \<Rightarrow> fault + effect list \<times> c_int \<times> msg_currentchannel option" where
  "send_msg_get_currentchannel e hostname portnum idc intf staip staport hs hm =
     send_sync e hostname portnum idc
       (\<lambda>i. run_prog
         [assign m_type_update MSG_GET_CURRENTCHANNEL,
          assign m_id_update i,
          copy_to e p_version_update ETHANOL_VERSION,
          copy_to e intf_name_update intf,
          copy_to e sta_ip_update staip,
          assign sta_port_update staport,
          set_size message_size_currentchannel] hs)
       (encode_msg_currentchannel (mallocs e))
       (\<lambda>t. t = MSG_GET_CURRENTCHANNEL)
       (\<lambda>buf. decode_msg_currentchannel buf hm)"

definition send_msg_set_currentchannel ::
  "env \<Rightarrow> cstr \<Rightarrow> c_int \<Rightarrow> c_int \<Rightarrow> cstr \<Rightarrow> c_int \<Rightarrow> cstr \<Rightarrow> c_int \<Rightarrow> msg_currentchannel
   \<Rightarrow> fault + effect list \<times> c_int" where
  "send_msg_set_currentchannel e hostname portnum idc intf chan staip staport hs = send_async e hostname portnum idc
       (\<lambda>i. run_prog
         [assign m_type_update MSG_SET_CURRENTCHANNEL,
          assign m_id_update i,
          copy_to e p_version_update ETHANOL_VERSION,
          copy_to e intf_name_update intf,
          copy_to e sta_ip_update staip,
          assign sta_port_update staport,
          assign channel_update chan,
          assign autochannel_update (chan <s 0),
          set_size message_size_currentchannel] hs)
       (encode_msg_currentchannel (mallocs e))"

text \<open>
  The answer of the machine itself.  A station without the netlink socket leaves the structure as it
  is, and without an interface name leaves the channel.
\<close>

definition own_channel :: "device \<Rightarrow> env \<Rightarrow> msg_currentchannel \<Rightarrow> fault + msg_currentchannel" where
  "own_channel d e h = (if process_station e then
       Inr (case wlan_frequency d (intf_name h) of
           None \<Rightarrow> h
         | Some (f, c, a) \<Rightarrow> h\<lparr>cc_frequency := f, channel := (if intf_name h \<noteq> None then c else channel h),
             autochannel := a\<rparr>)
     else
       (let hk = hostapd_hooks d in
        and_then (call_hook (f_get_wiphy hk)) (\<lambda>w.
          let wiphy = w (intf_name h) in
          Inr (h\<lparr>channel := (case f_get_current_channel hk of None \<Rightarrow> 0 | Some f \<Rightarrow> f wiphy),
            cc_frequency := (case f_get_current_frequency hk of None \<Rightarrow> 0 | Some f \<Rightarrow> f wiphy)\<rparr>))))"

definition set_own_channel :: "device \<Rightarrow> env \<Rightarrow> c_double \<Rightarrow> msg_currentchannel \<Rightarrow> fault + effect list" where
  "set_own_channel d e freq0 h = (if process_station e then
       Inr (wapi_set_freq d (intf_name h)
         (case chan2freq d (intf_name h) (channel h) of None \<Rightarrow> freq0 | Some f \<Rightarrow> f) (autochannel h))
     else
       and_then (call_hook (f_get_wiphy (hostapd_hooks d))) (\<lambda>w.
         Inr (case f_set_current_channel (hostapd_hooks d) of
             None \<Rightarrow> []
           | Some f \<Rightarrow> f (w (intf_name h)) (channel h))))"

definition process_msg_currentchannel ::
  "device \<Rightarrow> env \<Rightarrow> c_double \<Rightarrow> u8 list \<Rightarrow> msg_currentchannel \<Rightarrow> msg_currentchannel \<Rightarrow> msg_currentchannel
   \<Rightarrow> fault + effect list \<times> u8 list option" where
  "process_msg_currentchannel d e freq0 input hm hs hm' =
     and_then (decode_msg_currentchannel input hm) (\<lambda>h.
     and_then
       (if sta_ip h = None then
          if m_type h = MSG_GET_CURRENTCHANNEL then and_then (own_channel d e h) (\<lambda>h. Inr ([], h))
          else and_then (set_own_channel d e freq0 h) (\<lambda>ev. Inr (ev, h))
        else if m_type h = MSG_GET_CURRENTCHANNEL then
          and_then (send_msg_get_currentchannel e (sta_ip h) (sta_port h) (m_id h) (intf_name h) None 0 hs hm')
            (\<lambda>(ev, i, h1). Inr (ev, case h1 of
               None \<Rightarrow> h\<lparr>m_id := i, channel := 0\<rparr>
             | Some a \<Rightarrow> h\<lparr>m_id := i, channel := channel a\<rparr>))
        else
          and_then (send_msg_set_currentchannel e (sta_ip h) (sta_port h) (m_id h) (intf_name h) (channel h) None 0 hs)
            (\<lambda>(ev, i). Inr (ev, h\<lparr>m_id := i\<rparr>)))
       (\<lambda>(ev, h). and_then (encode_msg_currentchannel (mallocs e) h) (\<lambda>(_, output). Inr (ev, Some output))))"

definition bytes_channel :: "msg_currentchannel \<Rightarrow> nat" where
  "bytes_channel h = slen (p_version h) + slen (intf_name h) + slen (sta_ip h) + 43"

definition ok_channel :: "msg_currentchannel \<Rightarrow> bool" where
  "ok_channel h \<longleftrightarrow> ok_header h \<and> ok_str (intf_name h) \<and> ok_str (sta_ip h)
     \<and> bytes_channel h < 2 ^ 31"

definition norm_channel :: "msg_currentchannel \<Rightarrow> msg_currentchannel \<Rightarrow> msg_currentchannel" where
  "norm_channel h0 h = (norm_header (bytes_channel h) h)\<lparr>intf_name := canon (intf_name h), sta_ip := canon (sta_ip h)\<rparr>"

interpretation channel: msg_codec encode_msg_currentchannel decode_msg_currentchannel ok_channel
  norm_channel bytes_channel m_type
  unfolding encode_msg_currentchannel_def [abs_def] decode_msg_currentchannel_def
  by (rule frame_codecI [where bss = "\<lambda>m. [ser_str (intf_name m), ser_str (sta_ip m), le_bytes 4 (sta_port m),
          le_bytes 4 (channel m), le_bytes 4 (cc_frequency m), ser_bool (autochannel m)]"])
    (simp_all add: codec ok_channel_def ok_header_def bytes_channel_def norm_channel_def
      message_size_currentchannel_def norm_header_def ac_simps encode_char_put length_ser_str)


subsection \<open>\<open>msg_frequency\<close>\<close>

record msg_frequency = sta_query +
  fr_ssid :: cstr
  frequency :: c_int

definition message_size_frequency :: "msg_frequency \<Rightarrow> fault + c_int" where
  "message_size_frequency h = sum_sizes
     [strlen_ethanol (p_version h), sizeof 4, sizeof 4, sizeof 4,
      strlen_ethanol (fr_ssid h), strlen_ethanol (intf_name h), sizeof 4,
      strlen_ethanol (sta_ip h), sizeof 4]"

definition encode_msg_frequency :: "allocator \<Rightarrow> msg_frequency \<Rightarrow> fault + msg_frequency \<times> u8 list" where
  "encode_msg_frequency mal = encode_frame mal message_size_frequency (\<lambda>h.
     [encode_header (m_type h) (m_id h) (m_size h),
      encode_char (fr_ssid h),
      encode_char (intf_name h),
      encode_char (sta_ip h),
      encode_int (sta_port h),
      encode_uint (frequency h)])"

definition decode_msg_frequency :: "u8 list \<Rightarrow> msg_frequency \<Rightarrow> fault + msg_frequency" where
  "decode_msg_frequency = decode_frame
     [decode_header,
      into decode_char fr_ssid_update,
      into decode_char intf_name_update,
      into decode_char sta_ip_update,
      into decode_int sta_port_update,
      into decode_uint frequency_update]"

text \<open>The port of the station is an argument of the sender that it does not use.\<close>

definition send_msg_get_frequency ::
  "env \<Rightarrow> cstr \<Rightarrow> c_int \<Rightarrow> c_int \<Rightarrow> cstr \<Rightarrow> cstr \<Rightarrow> c_int \<Rightarrow> msg_frequency \<Rightarrow> msg_frequency
   \<Rightarrow> fault + effect list \<times> c_int \<times> msg_frequency option" where
  "send_msg_get_frequency e hostname portnum idc intf staip staport hs hm =
     send_sync e hostname portnum idc
       (\<lambda>i. run_prog
         [assign m_type_update MSG_GET_FREQUENCY,
          assign m_id_update i,
          copy_to e p_version_update ETHANOL_VERSION,
          assign fr_ssid_update None,
          copy_to e intf_name_update intf,
          copy_to e sta_ip_update staip,
          set_size message_size_frequency] hs)
       (encode_msg_frequency (mallocs e))
       (\<lambda>t. t = MSG_GET_FREQUENCY)
       (\<lambda>buf. decode_msg_frequency buf hm)"

text \<open>
  The pointer \<open>intf_name\<close> is not initialised when \<open>copy_string\<close> frees what it points to.  The function
  waits for the reply and drops it.
\<close>

definition copy_over :: "env \<Rightarrow> ('h \<Rightarrow> cstr) \<Rightarrow> ((cstr \<Rightarrow> cstr) \<Rightarrow> 'h \<Rightarrow> 'h) \<Rightarrow> cstr \<Rightarrow> 'h step" where
  "copy_over e sel upd s h = (if sel h \<noteq> None then Inl Invalid_Free else copy_to e upd s h)"

definition send_msg_set_frequency ::
  "env \<Rightarrow> cstr \<Rightarrow> c_int \<Rightarrow> c_int \<Rightarrow> cstr \<Rightarrow> c_int \<Rightarrow> cstr \<Rightarrow> c_int \<Rightarrow> msg_frequency \<Rightarrow> msg_frequency
   \<Rightarrow> fault + effect list \<times> c_int" where
  "send_msg_set_frequency e hostname portnum idc intf freq staip staport hs hm =
     and_then (send_sync e hostname portnum idc
       (\<lambda>i. run_prog
         [assign m_type_update MSG_SET_FREQUENCY,
          assign m_id_update i,
          copy_to e p_version_update ETHANOL_VERSION,
          assign fr_ssid_update None,
          copy_over e intf_name intf_name_update intf,
          copy_to e sta_ip_update staip,
          assign sta_port_update staport,
          assign frequency_update freq,
          set_size message_size_frequency] hs)
       (encode_msg_frequency (mallocs e))
       (\<lambda>t. t = MSG_SET_FREQUENCY)
       (\<lambda>buf. decode_msg_frequency buf hm)) (\<lambda>(ev, i, _). Inr (ev, i))"

text \<open>
  \<open>(unsigned int) trunc (freq / (1024 * 1024))\<close>: the frequency in Hz is a whole number below \<open>2 ^ 53\<close>
  and the divisor a power of two, so the quotient is exact.
\<close>

definition own_frequency :: "device \<Rightarrow> env \<Rightarrow> msg_frequency \<Rightarrow> fault + msg_frequency" where
  "own_frequency d e h = (if process_station e then
       Inr (h\<lparr>frequency := (case if intf_name h \<noteq> None then wapi_freq d (intf_name h) else None of
           Some hz \<Rightarrow> word_of_nat (hz div (1024 * 1024))
         | None \<Rightarrow> 0)\<rparr>)
     else
       and_then (call_hook (f_get_wiphy (hostapd_hooks d))) (\<lambda>w.
         Inr (h\<lparr>frequency := (case f_get_current_frequency (hostapd_hooks d) of
             None \<Rightarrow> 0
           | Some f \<Rightarrow> f (w (intf_name h)))\<rparr>)))"

definition set_own_frequency :: "device \<Rightarrow> env \<Rightarrow> msg_frequency \<Rightarrow> fault + effect list" where
  "set_own_frequency d e h = (if process_station e then
       Inr (if intf_name h \<noteq> None then wapi_set_freq d (intf_name h) (double_of_uint d (frequency h)) True else [])
     else
       and_then (call_hook (f_get_wiphy (hostapd_hooks d))) (\<lambda>w.
         Inr (case f_set_current_frequency (hostapd_hooks d) of
             None \<Rightarrow> []
           | Some f \<Rightarrow> f (w (intf_name h)) (frequency h))))"

definition process_msg_frequency ::
  "device \<Rightarrow> env \<Rightarrow> u8 list \<Rightarrow> msg_frequency \<Rightarrow> msg_frequency \<Rightarrow> msg_frequency
   \<Rightarrow> fault + effect list \<times> u8 list option" where
  "process_msg_frequency d e input hm hs hm' =
     and_then (decode_msg_frequency input hm) (\<lambda>h.
     let h = h\<lparr>fr_ssid := None\<rparr> in
     and_then
       (if sta_ip h = None then
          if m_type h = MSG_GET_FREQUENCY then and_then (own_frequency d e h) (\<lambda>h. Inr ([], h))
          else and_then (set_own_frequency d e h) (\<lambda>ev. Inr (ev, h))
        else if m_type h = MSG_GET_FREQUENCY then
          if intf_name h \<noteq> None then
            and_then (send_msg_get_frequency e (sta_ip h) (sta_port h) (m_id h) (intf_name h) None 0 hs hm')
              (\<lambda>(ev, _, h1). Inr (ev, case h1 of
                 None \<Rightarrow> h
               | Some a \<Rightarrow> h\<lparr>frequency := frequency a\<rparr>))
          else Inr ([], h\<lparr>frequency := 0\<rparr>)
        else Inr ([], h))
       (\<lambda>(ev, h). and_then (encode_msg_frequency (mallocs e) h) (\<lambda>(_, output). Inr (ev, Some output))))"

definition bytes_frequency :: "msg_frequency \<Rightarrow> nat" where
  "bytes_frequency h = slen (p_version h) + slen (fr_ssid h) + slen (intf_name h) + slen (sta_ip h) + 40"

definition ok_frequency :: "msg_frequency \<Rightarrow> bool" where
  "ok_frequency h \<longleftrightarrow> ok_header h \<and> ok_str (fr_ssid h) \<and> ok_str (intf_name h) \<and> ok_str (sta_ip h)
     \<and> bytes_frequency h < 2 ^ 31"

definition norm_frequency :: "msg_frequency \<Rightarrow> msg_frequency \<Rightarrow> msg_frequency" where
  "norm_frequency h0 h = (norm_header (bytes_frequency h) h)\<lparr>fr_ssid := canon (fr_ssid h), intf_name := canon (intf_name h), sta_ip := canon (sta_ip h)\<rparr>"

interpretation frequency: msg_codec encode_msg_frequency decode_msg_frequency ok_frequency
  norm_frequency bytes_frequency m_type
  unfolding encode_msg_frequency_def [abs_def] decode_msg_frequency_def
  by (rule frame_codecI [where bss = "\<lambda>m. [ser_str (fr_ssid m), ser_str (intf_name m), ser_str (sta_ip m),
          le_bytes 4 (sta_port m), le_bytes 4 (frequency m)]"])
    (simp_all add: codec ok_frequency_def ok_header_def bytes_frequency_def norm_frequency_def
      message_size_frequency_def norm_header_def ac_simps encode_char_put length_ser_str)


lemma norm_channel_fields:
  "m_type (norm_channel h0 h) = m_type h" "m_id (norm_channel h0 h) = m_id h"
  "intf_name (norm_channel h0 h) = canon (intf_name h)" "sta_ip (norm_channel h0 h) = canon (sta_ip h)"
  "channel (norm_channel h0 h) = channel h"
  by (simp_all add: norm_channel_def norm_header_def)

lemma ok_channel_norm [simp]:
  "ok_channel m \<Longrightarrow> ok_channel ((norm_channel h0 m)\<lparr>channel := c, cc_frequency := f\<rparr>)"
  "ok_channel m \<Longrightarrow> ok_channel (norm_channel h0 m)"
  by (simp_all add: ok_channel_def norm_channel_def bytes_channel_def ok_header_def norm_header_def)

lemma norm_frequency_fields:
  "m_type (norm_frequency h0 h) = m_type h" "m_id (norm_frequency h0 h) = m_id h"
  "intf_name (norm_frequency h0 h) = canon (intf_name h)" "sta_ip (norm_frequency h0 h) = canon (sta_ip h)"
  "sta_port (norm_frequency h0 h) = sta_port h" "frequency (norm_frequency h0 h) = frequency h"
  by (simp_all add: norm_frequency_def norm_header_def)

lemma ok_frequency_norm [simp]:
  "ok_frequency m \<Longrightarrow> ok_frequency ((norm_frequency h0 m)\<lparr>fr_ssid := None\<rparr>)"
  "ok_frequency m \<Longrightarrow> ok_frequency ((norm_frequency h0 m)\<lparr>fr_ssid := None, frequency := f\<rparr>)"
  by (simp_all add: ok_frequency_def norm_frequency_def bytes_frequency_def ok_header_def norm_header_def)


subsection \<open>Properties\<close>

text \<open>
  The channel of an access point goes through the hooks of the daemon.  When the daemon has
  registered the function that finds the radio of an interface, a request to set the channel calls
  the registered setter exactly once, for that radio and with the channel of the message, and a
  request to read it is answered with what the getters return, under the id of the request.  When
  it has not, every such request calls a null pointer.
\<close>

theorem channel_through_hooks:
  assumes q: "ok_channel q" "allocates mal" "encode_msg_currentchannel mal q = Inr (q', wire)" "slen (sta_ip q) = 0"
    and e: "allocates (mallocs e)" "\<not> process_station e"
  shows "(f_get_wiphy (hostapd_hooks d) = None \<longrightarrow>
      process_msg_currentchannel d e freq0 (wire @ r) hm hs hm' = Inl Null_Dereference)
    \<and> (\<forall>w f. f_get_wiphy (hostapd_hooks d) = Some w \<longrightarrow> m_type q = MSG_SET_CURRENTCHANNEL \<longrightarrow>
        f_set_current_channel (hostapd_hooks d) = Some f \<longrightarrow>
      (\<exists>out. process_msg_currentchannel d e freq0 (wire @ r) hm hs hm'
        = Inr (f (w (canon (intf_name q))) (channel q), Some out)))
    \<and> (\<forall>w f g. f_get_wiphy (hostapd_hooks d) = Some w \<longrightarrow> m_type q = MSG_GET_CURRENTCHANNEL \<longrightarrow>
        f_get_current_channel (hostapd_hooks d) = Some f \<longrightarrow> f_get_current_frequency (hostapd_hooks d) = Some g \<longrightarrow>
      (\<exists>out. process_msg_currentchannel d e freq0 (wire @ r) hm hs hm' = Inr ([], Some out)
        \<and> (\<forall>s h0. \<exists>a. decode_msg_currentchannel (out @ s) h0 = Inr a \<and> m_id a = m_id q
            \<and> channel a = f (w (canon (intf_name q))) \<and> cc_frequency a = g (w (canon (intf_name q))))))"
proof -
  have dec: "decode_msg_currentchannel (wire @ r) hm = Inr (norm_channel hm q)"
    by (rule channel.roundtrip [OF q(1-3)])
  have ip: "canon (sta_ip q) = None"
    using q(4) by (simp add: canon_eq_None)
  let ?h = "norm_channel hm q"
  obtain m1 out1 where o1: "encode_msg_currentchannel (mallocs e) ?h = Inr (m1, out1)"
    using channel.enc_no_fault [OF ok_channel_norm(2) [OF q(1)] e(1)] by blast
  have answer: "\<exists>m out. encode_msg_currentchannel (mallocs e) (?h\<lparr>channel := c, cc_frequency := f\<rparr>) = Inr (m, out)
      \<and> (\<forall>s h0. \<exists>a. decode_msg_currentchannel (out @ s) h0 = Inr a \<and> m_id a = m_id q \<and> channel a = c
          \<and> cc_frequency a = f)" for c f
  proof -
    let ?a = "?h\<lparr>channel := c, cc_frequency := f\<rparr>"
    have ok: "ok_channel ?a"
      using q(1) by simp
    obtain m out where o: "encode_msg_currentchannel (mallocs e) ?a = Inr (m, out)"
      using channel.enc_no_fault [OF ok e(1)] by blast
    show ?thesis
      using o channel.roundtrip [OF ok e(1) o] by (simp add: norm_channel_def norm_header_def)
  qed
  note body = process_msg_currentchannel_def dec and_then_simps norm_channel_fields ip own_channel_def
    set_own_channel_def call_hook_def Let_def e(2)
  have "process_msg_currentchannel d e freq0 (wire @ r) hm hs hm' = Inl Null_Dereference"
    if "f_get_wiphy (hostapd_hooks d) = None"
    using that by (simp add: body)
  moreover have "process_msg_currentchannel d e freq0 (wire @ r) hm hs hm'
      = Inr (f (w (canon (intf_name q))) (channel q), Some out1)"
    if "f_get_wiphy (hostapd_hooks d) = Some w" "m_type q = MSG_SET_CURRENTCHANNEL"
      "f_set_current_channel (hostapd_hooks d) = Some f" for w f
    using that o1 by (simp add: body)
  moreover have "\<exists>out. process_msg_currentchannel d e freq0 (wire @ r) hm hs hm' = Inr ([], Some out)
        \<and> (\<forall>s h0. \<exists>a. decode_msg_currentchannel (out @ s) h0 = Inr a \<and> m_id a = m_id q
            \<and> channel a = f (w (canon (intf_name q))) \<and> cc_frequency a = g (w (canon (intf_name q))))"
    if "f_get_wiphy (hostapd_hooks d) = Some w" "m_type q = MSG_GET_CURRENTCHANNEL"
      "f_get_current_channel (hostapd_hooks d) = Some f" "f_get_current_frequency (hostapd_hooks d) = Some g" for w f g
  proof -
    obtain m out where "encode_msg_currentchannel (mallocs e)
        (?h\<lparr>channel := f (w (canon (intf_name q))), cc_frequency := g (w (canon (intf_name q)))\<rparr>) = Inr (m, out)"
      and "\<forall>s h0. \<exists>a. decode_msg_currentchannel (out @ s) h0 = Inr a \<and> m_id a = m_id q
        \<and> channel a = f (w (canon (intf_name q))) \<and> cc_frequency a = g (w (canon (intf_name q)))"
      using answer by blast
    then show ?thesis
      using that by (simp add: body)
  qed
  ultimately show ?thesis by blast
qed

definition demo_channel :: msg_currentchannel where
  "demo_channel = \<lparr>m_type = MSG_SET_CURRENTCHANNEL, m_id = 4, p_version = ETHANOL_VERSION, m_size = 0,
     intf_name = demo_name, sta_ip = None, sta_port = 0, channel = 11, cc_frequency = 0, autochannel = False\<rparr>"

theorem channel_through_hooks_witness:
  "\<exists>q' wire out. encode_msg_currentchannel demo_alloc demo_channel = Inr (q', wire)
    \<and> process_msg_currentchannel demo_device demo_env 0 (wire @ []) demo_channel demo_channel demo_channel
      = Inl Null_Dereference
    \<and> process_msg_currentchannel (demo_device\<lparr>hostapd_hooks := assign_func_get_wiphy (Some (\<lambda>_. 2))
          (assign_func_set_current_channel (Some (\<lambda>w c. [Socket_Close (w + c)])) no_hooks)\<rparr>)
        demo_env 0 (wire @ []) demo_channel demo_channel demo_channel
      = Inr ([Socket_Close 13], Some out)"
proof -
  let ?d = "demo_device\<lparr>hostapd_hooks := assign_func_get_wiphy (Some (\<lambda>_. 2))
    (assign_func_set_current_channel (Some (\<lambda>w c. [Socket_Close (w + c)])) no_hooks)\<rparr>"
  have ok: "ok_channel demo_channel" "slen (sta_ip demo_channel) = 0"
    by (simp_all add: demo_channel_def ok_channel_def ok_header_def ok_str_def bytes_channel_def)
  obtain q' wire where w: "encode_msg_currentchannel demo_alloc demo_channel = Inr (q', wire)"
    using channel.enc_no_fault [OF ok(1) allocates_demo_alloc] by blast
  have s: "\<not> process_station demo_env"
    by (simp add: demo_env_def)
  have "f_get_wiphy (hostapd_hooks demo_device) = None" "f_get_wiphy (hostapd_hooks ?d) = Some (\<lambda>_. 2)"
    "f_set_current_channel (hostapd_hooks ?d) = Some (\<lambda>w c. [Socket_Close (w + c)])"
    "m_type demo_channel = MSG_SET_CURRENTCHANNEL" "channel demo_channel = 11"
    by (simp_all add: demo_device_def no_hooks_def assign_func_get_wiphy_def assign_func_set_current_channel_def
        demo_channel_def)
  note d = this
  note P = channel_through_hooks [OF ok(1) allocates_demo_alloc w ok(2) allocates_demo_env s]
  have "process_msg_currentchannel demo_device demo_env 0 (wire @ []) demo_channel demo_channel demo_channel
      = Inl Null_Dereference"
    using conjunct1 [OF P] d(1) by blast
  moreover obtain out where "process_msg_currentchannel ?d demo_env 0 (wire @ []) demo_channel demo_channel demo_channel
      = Inr ([Socket_Close (2 + channel demo_channel)], Some out)"
    using conjunct1 [OF conjunct2 [OF P]] d(2-4) by blast
  ultimately show ?thesis
    using w d(5) by auto
qed

text \<open>
  The frequency that a station reports.  The kernel gives it in Hz; the station divides by
  \<open>1024 * 1024\<close>, not by a million.  For every frequency of the 2.4 and 5 GHz bands the number in
  the reply, which should be in MHz, is more than 110 too small.
\<close>

theorem frequency_of_station:
  assumes q: "ok_frequency q" "allocates mal" "encode_msg_frequency mal q = Inr (q', wire)" "m_type q = MSG_GET_FREQUENCY"
      "slen (sta_ip q) = 0" "0 < slen (intf_name q)"
    and e: "allocates (mallocs e)" "process_station e" "wapi_freq d (canon (intf_name q)) = Some (mhz * 1000000)"
    and mhz: "2400 \<le> mhz" "mhz \<le> 6000"
  shows "\<exists>out. process_msg_frequency d e (wire @ r) hm hs hm' = Inr ([], Some out) \<and>
    (\<forall>s h0. \<exists>a. decode_msg_frequency (out @ s) h0 = Inr a \<and> m_id a = m_id q
       \<and> unat (frequency a) = mhz * 1000000 div 1048576 \<and> unat (frequency a) + 110 < mhz)"
proof -
  let ?f = "mhz * 1000000 div 1048576" and ?h = "(norm_frequency hm q)\<lparr>fr_ssid := None\<rparr>"
  let ?a = "(norm_frequency hm q)\<lparr>fr_ssid := None, frequency := word_of_nat ?f\<rparr>"
  have b: "?f < 2 ^ 32" "?f + 110 < mhz"
    using mhz by auto
  have u: "unat (word_of_nat ?f :: c_int) = ?f"
    using b(1) by (simp only: unat_of_nat) (simp add: take_bit_nat_eq_self)
  have dec: "decode_msg_frequency (wire @ r) hm = Inr (norm_frequency hm q)"
    by (rule frequency.roundtrip [OF q(1-3)])
  have ip: "canon (sta_ip q) = None" "canon (intf_name q) \<noteq> None"
    using q(5,6) by (simp_all add: canon_eq_None)
  have own: "own_frequency d e ?h = Inr ?a"
    using e(2,3) ip(2) by (simp add: own_frequency_def norm_frequency_fields)
  have ok: "ok_frequency ?a"
    using q(1) by simp
  obtain m out where o: "encode_msg_frequency (mallocs e) ?a = Inr (m, out)"
    using frequency.enc_no_fault [OF ok e(1)] by blast
  have "process_msg_frequency d e (wire @ r) hm hs hm' = Inr ([], Some out)"
    using dec ip q(4) own o by (simp add: process_msg_frequency_def norm_frequency_fields Let_def)
  moreover have "decode_msg_frequency (out @ s) h0 = Inr (norm_frequency h0 ?a)" for s h0
    by (rule frequency.roundtrip [OF ok e(1) o])
  ultimately show ?thesis
    using u b(2) by (simp add: norm_frequency_fields)
qed

text \<open>
  A request to set the frequency of a station has no effect.  The access point neither sends it
  on nor changes anything itself, and answers it with the frequency of the request.
\<close>

theorem frequency_set_not_relayed:
  assumes q: "ok_frequency q" "allocates mal" "encode_msg_frequency mal q = Inr (q', wire)" "m_type q = MSG_SET_FREQUENCY"
      "0 < slen (sta_ip q)"
    and "allocates (mallocs e)"
  shows "\<exists>out. process_msg_frequency d e (wire @ r) hm hs hm' = Inr ([], Some out) \<and>
    (\<forall>s h0. \<exists>a. decode_msg_frequency (out @ s) h0 = Inr a \<and> m_id a = m_id q \<and> frequency a = frequency q)"
proof -
  let ?h = "(norm_frequency hm q)\<lparr>fr_ssid := None\<rparr>"
  have ok: "ok_frequency ?h"
    using q(1) by simp
  obtain m out where o: "encode_msg_frequency (mallocs e) ?h = Inr (m, out)"
    using frequency.enc_no_fault [OF ok assms(6)] by blast
  have "canon (sta_ip q) \<noteq> None" "MSG_SET_FREQUENCY \<noteq> MSG_GET_FREQUENCY"
    using q(5) by (simp_all add: canon_eq_None)
  then have "process_msg_frequency d e (wire @ r) hm hs hm' = Inr ([], Some out)"
    using frequency.roundtrip [OF q(1-3), of r hm] q(4) o
    by (simp add: process_msg_frequency_def norm_frequency_fields Let_def del: not_None_eq)
  moreover have "decode_msg_frequency (out @ s) h0 = Inr (norm_frequency h0 ?h)" for s h0
    by (rule frequency.roundtrip [OF ok assms(6) o])
  ultimately show ?thesis
    by (simp add: norm_frequency_fields)
qed

definition demo_freq :: msg_frequency where
  "demo_freq = \<lparr>m_type = MSG_GET_FREQUENCY, m_id = 4, p_version = ETHANOL_VERSION, m_size = 0,
     intf_name = demo_name, sta_ip = None, sta_port = 0, fr_ssid = None, frequency = 2437\<rparr>"

lemma ok_demo_freq: "ok_frequency demo_freq" "ok_frequency (demo_freq\<lparr>m_type := t, sta_ip := demo_name\<rparr>)"
  by (simp_all add: demo_freq_def ok_frequency_def ok_header_def ok_str_def bytes_frequency_def)

theorem frequency_of_station_witness:
  "\<exists>q' wire out. encode_msg_frequency demo_alloc demo_freq = Inr (q', wire)
    \<and> process_msg_frequency demo_device (demo_env\<lparr>process_station := True\<rparr>) (wire @ []) demo_freq demo_freq demo_freq
      = Inr ([], Some out)
    \<and> (\<exists>a. decode_msg_frequency (out @ []) demo_freq = Inr a \<and> unat (frequency a) = 2300)"
proof -
  obtain q' wire where w: "encode_msg_frequency demo_alloc demo_freq = Inr (q', wire)"
    using frequency.enc_no_fault [OF ok_demo_freq(1) allocates_demo_alloc] by blast
  have h: "m_type demo_freq = MSG_GET_FREQUENCY" "slen (sta_ip demo_freq) = 0" "0 < slen (intf_name demo_freq)"
    "allocates (mallocs (demo_env\<lparr>process_station := True\<rparr>))" "process_station (demo_env\<lparr>process_station := True\<rparr>)"
    "wapi_freq demo_device (canon (intf_name demo_freq)) = Some (2412 * 1000000)" "2400 \<le> (2412 :: nat)" "2412 \<le> (6000 :: nat)"
    by (simp_all add: demo_freq_def demo_device_def allocates_demo_env)
  show ?thesis
    using w frequency_of_station [OF ok_demo_freq(1) allocates_demo_alloc w h, of "[]" demo_freq demo_freq demo_freq]
    by (auto dest!: spec [of _ "[]"] spec [of _ demo_freq])
qed

theorem frequency_set_not_relayed_witness:
  "\<exists>q' wire out. encode_msg_frequency demo_alloc (demo_freq\<lparr>m_type := MSG_SET_FREQUENCY, sta_ip := demo_name\<rparr>) = Inr (q', wire)
    \<and> process_msg_frequency demo_device demo_env (wire @ []) demo_freq demo_freq demo_freq = Inr ([], Some out)"
proof -
  let ?q = "demo_freq\<lparr>m_type := MSG_SET_FREQUENCY, sta_ip := demo_name\<rparr>"
  obtain q' wire where w: "encode_msg_frequency demo_alloc ?q = Inr (q', wire)"
    using frequency.enc_no_fault [OF ok_demo_freq(2) allocates_demo_alloc] by blast
  have "m_type ?q = MSG_SET_FREQUENCY" "0 < slen (sta_ip ?q)"
    by (simp_all add: demo_freq_def)
  from frequency_set_not_relayed [OF ok_demo_freq(2) allocates_demo_alloc w this allocates_demo_env] w
  show ?thesis by blast
qed

end
