(* ===== verification/Msg_Device.thy ===== *)
theory Msg_Device
  imports Radio
begin

section \<open>Requests with a fixed or a local answer\<close>

text \<open>
  \<open>messaging/msg_failed.c\<close>, \<open>msg_jitter.c\<close>, \<open>msg_retries.c\<close>, \<open>msg_channelbandwitdh.c\<close>,
  \<open>msg_supportedinterface.c\<close>, \<open>msg_uptime.c\<close> and \<open>msg_delay.c\<close>.  The handlers answer a request on the spot:
  most of them are placeholders that fill in constants, the uptime is read from \<open>/proc/uptime\<close>.  The
  locale \<open>local_service\<close> states what they share, up to the answer that a client gets; the
  modules are its instances, except the last, whose handler releases a string twice.
\<close>

locale local_service = msg_codec enc dec ok norm bytes mtyp
  for enc :: "allocator \<Rightarrow> 'm \<Rightarrow> fault + 'm \<times> u8 list" and dec ok norm bytes mtyp +
  fixes send :: "env \<Rightarrow> cstr \<Rightarrow> c_int \<Rightarrow> c_int \<Rightarrow> 'x \<Rightarrow> 'm \<Rightarrow> 'm \<Rightarrow> fault + effect list \<times> c_int \<times> 'm option"
    and process :: "'p \<Rightarrow> env \<Rightarrow> u8 list \<Rightarrow> 'm \<Rightarrow> fault + effect list \<times> u8 list option"
    and mt :: c_int
    and can :: "env \<Rightarrow> 'x \<Rightarrow> bool"
    and request :: "env \<Rightarrow> c_int \<Rightarrow> 'x \<Rightarrow> 'm \<Rightarrow> 'm"
    and fill :: "'p \<Rightarrow> 'm \<Rightarrow> 'm"
  assumes request_ok: "can e x \<Longrightarrow> ok (request e i x hs)" "mtyp (request e i x hs) = mt"
    and send_eq: "can e x \<Longrightarrow> send e host port i x hs hm
      = send_sync e host port i (\<lambda>_. Inr (request e i x hs)) (enc (mallocs e)) (\<lambda>t. t = mt) (\<lambda>b. dec b hm)"
    and fill_ok: "ok m \<Longrightarrow> ok (fill p (norm h0 m))" "mtyp (fill p (norm h0 m)) = mtyp m"
    and process_eq: "dec input hm = Inr h \<Longrightarrow> mtyp h = mt \<Longrightarrow> process p e input hm
      = and_then (enc (mallocs e) (fill p h)) (\<lambda>(_, output). Inr ([], Some output))"
    and mtyp_norm: "mtyp (norm h0 m) = mtyp m"
begin

text \<open>A client that asks a server that runs the handler gets the filled structure.\<close>

lemma asked:
  assumes "can e0 x" "allocates (mallocs e0)" "reaches e0 host port"
    and "serves e0 host port mt (\<lambda>req. process p e1 (req @ j) hm1)" "allocates (mallocs e1)"
  shows "\<exists>req. send e0 host port i x hs hm
    = Inr (session e0 host port req, i + 1, Some (norm hm (fill p (norm hm1 (request e0 i x hs)))))"
proof -
  let ?q = "request e0 i x hs"
  let ?a = "fill p (norm hm1 ?q)"
  note q = request_ok(1) [OF assms(1), of i hs] request_ok(2) [of e0 i x hs]
  have a: "ok ?a" "mtyp ?a = mt"
    using q fill_ok by simp_all
  obtain a' out where out: "enc (mallocs e1) ?a = Inr (a', out)"
    using enc_no_fault [OF a(1) assms(5)] by blast
  have peer: "\<exists>a' wire r. enc (mallocs e1) ?a = Inr (a', wire) \<and> ssl_read e0 host port req = wire @ r"
    if "enc (mallocs e0) ?q = Inr (q', req)" for q' req
  proof -
    have "process p e1 (req @ j) hm1 = Inr ([], Some out)"
      using process_eq [OF roundtrip [OF q(1) assms(2) that], of hm1 p e1 j] out q(2) by (simp add: mtyp_norm)
    moreover have "of_type mt req"
      using wire_type [OF q(1) assms(2) that] q(2) by simp
    ultimately show ?thesis
      using servesD [OF assms(4)] out by blast
  qed
  show ?thesis
    unfolding send_eq [OF assms(1)]
    by (rule send_sync_session [OF assms(3) _ q(1) assms(2) peer a(1) assms(5)]) (use a(2) in simp_all)
qed

end


subsection \<open>\<open>msg_failed\<close>\<close>

record msg_failed = msg_header +
  fl_mac_sta :: cstr
  num_failed :: c_long

definition message_size_failed :: "msg_failed \<Rightarrow> fault + c_int" where
  "message_size_failed h = sum_sizes
     [strlen_ethanol (p_version h), sizeof 4, sizeof 4, sizeof 4,
      strlen_ethanol (fl_mac_sta h), sizeof 8]"

definition encode_msg_failed :: "allocator \<Rightarrow> msg_failed \<Rightarrow> fault + msg_failed \<times> u8 list" where
  "encode_msg_failed mal = encode_frame mal message_size_failed (\<lambda>h.
     [encode_header (m_type h) (m_id h) (m_size h),
      encode_char (fl_mac_sta h),
      encode_2long (num_failed h)])"

definition decode_msg_failed :: "u8 list \<Rightarrow> msg_failed \<Rightarrow> fault + msg_failed" where
  "decode_msg_failed = decode_frame
     [decode_header,
      into decode_char fl_mac_sta_update,
      into decode_2long num_failed_update]"

definition send_msg_failed ::
  "env \<Rightarrow> cstr \<Rightarrow> c_int \<Rightarrow> c_int \<Rightarrow> cstr \<Rightarrow> msg_failed \<Rightarrow> msg_failed
   \<Rightarrow> fault + effect list \<times> c_int \<times> msg_failed option" where
  "send_msg_failed e hostname portnum idc mac hs hm =
     send_sync e hostname portnum idc
       (\<lambda>i. run_prog
         [assign m_type_update MSG_GET_FAILED,
          assign m_id_update i,
          copy_to e p_version_update ETHANOL_VERSION,
          copy_to e fl_mac_sta_update mac,
          assign num_failed_update 0,
          set_size message_size_failed] hs)
       (encode_msg_failed (mallocs e))
       (\<lambda>t. t = MSG_GET_FAILED)
       (\<lambda>buf. decode_msg_failed buf hm)"

definition process_msg_failed ::
  "env \<Rightarrow> u8 list \<Rightarrow> msg_failed \<Rightarrow> fault + effect list \<times> u8 list option" where
  "process_msg_failed e input hm =
     and_then (decode_msg_failed input hm) (\<lambda>h.
     and_then (encode_msg_failed (mallocs e) (h\<lparr>num_failed := 0\<rparr>))
       (\<lambda>(_, output). Inr ([], Some output)))"

definition bytes_failed :: "msg_failed \<Rightarrow> nat" where
  "bytes_failed h = slen (p_version h) + slen (fl_mac_sta h) + 30"

definition ok_failed :: "msg_failed \<Rightarrow> bool" where
  "ok_failed h \<longleftrightarrow> ok_header h \<and> ok_str (fl_mac_sta h)
     \<and> bytes_failed h < 2 ^ 31"

definition norm_failed :: "msg_failed \<Rightarrow> msg_failed \<Rightarrow> msg_failed" where
  "norm_failed h0 h = (norm_header (bytes_failed h) h)\<lparr>fl_mac_sta := canon (fl_mac_sta h)\<rparr>"

interpretation failed: msg_codec encode_msg_failed decode_msg_failed ok_failed
  norm_failed bytes_failed m_type
  unfolding encode_msg_failed_def [abs_def] decode_msg_failed_def
  by (rule frame_codecI [where bss = "\<lambda>m. [ser_str (fl_mac_sta m), le_bytes 8 (num_failed m)]"])
    (simp_all add: codec ok_failed_def ok_header_def bytes_failed_def norm_failed_def
      message_size_failed_def norm_header_def ac_simps encode_char_put length_ser_str)

interpretation failed_svc: local_service encode_msg_failed decode_msg_failed ok_failed
  norm_failed bytes_failed m_type send_msg_failed "\<lambda>_ :: unit. process_msg_failed" MSG_GET_FAILED
  "\<lambda>e x. copyable (mallocs e) ETHANOL_VERSION \<and> copyable (mallocs e) x \<and> slen x < 2 ^ 31 - 100" "\<lambda>e i x hs. hs\<lparr>m_type := MSG_GET_FAILED, m_id := i, p_version := dup (mallocs e) ETHANOL_VERSION, fl_mac_sta := dup (mallocs e) x, num_failed := 0, m_size := word_of_nat (slen x + 35)\<rparr>"
  "\<lambda>_ h. h\<lparr>num_failed := 0\<rparr>"
proof (unfold_locales, goal_cases)
  case (3 e x host port i hs hm)
  then show ?case
    unfolding send_msg_failed_def
    by (intro send_sync_built) (simp add: set_size_ok message_size_failed_def ac_simps)
qed (auto simp: process_msg_failed_def ok_failed_def norm_failed_def bytes_failed_def ok_header_def norm_header_def
    split: option.splits)


subsection \<open>\<open>msg_jitter\<close>\<close>

record msg_jitter = msg_header +
  jt_mac_sta :: cstr
  jitter :: c_float
  var_jitter :: c_float

definition message_size_jitter :: "msg_jitter \<Rightarrow> fault + c_int" where
  "message_size_jitter h = sum_sizes
     [strlen_ethanol (p_version h), sizeof 4, sizeof 4, sizeof 4,
      strlen_ethanol (jt_mac_sta h), sizeof 4, sizeof 4]"

definition encode_msg_jitter :: "allocator \<Rightarrow> msg_jitter \<Rightarrow> fault + msg_jitter \<times> u8 list" where
  "encode_msg_jitter mal = encode_frame mal message_size_jitter (\<lambda>h.
     [encode_header (m_type h) (m_id h) (m_size h),
      encode_char (jt_mac_sta h),
      encode_float (jitter h),
      encode_float (var_jitter h)])"

definition decode_msg_jitter :: "u8 list \<Rightarrow> msg_jitter \<Rightarrow> fault + msg_jitter" where
  "decode_msg_jitter = decode_frame
     [decode_header,
      into decode_char jt_mac_sta_update,
      into decode_float jitter_update,
      into decode_float var_jitter_update]"

definition send_msg_jitter ::
  "env \<Rightarrow> cstr \<Rightarrow> c_int \<Rightarrow> c_int \<Rightarrow> cstr \<Rightarrow> msg_jitter \<Rightarrow> msg_jitter
   \<Rightarrow> fault + effect list \<times> c_int \<times> msg_jitter option" where
  "send_msg_jitter e hostname portnum idc mac hs hm =
     send_sync e hostname portnum idc
       (\<lambda>i. run_prog
         [assign m_type_update MSG_GET_JITTER,
          assign m_id_update i,
          copy_to e p_version_update ETHANOL_VERSION,
          copy_to e jt_mac_sta_update mac,
          assign jitter_update 0,
          assign var_jitter_update 0,
          set_size message_size_jitter] hs)
       (encode_msg_jitter (mallocs e))
       (\<lambda>t. t = MSG_GET_JITTER)
       (\<lambda>buf. decode_msg_jitter buf hm)"

definition process_msg_jitter ::
  "env \<Rightarrow> u8 list \<Rightarrow> msg_jitter \<Rightarrow> fault + effect list \<times> u8 list option" where
  "process_msg_jitter e input hm =
     and_then (decode_msg_jitter input hm) (\<lambda>h.
     and_then (encode_msg_jitter (mallocs e) (h\<lparr>jitter := 0, var_jitter := 0\<rparr>))
       (\<lambda>(_, output). Inr ([], Some output)))"

definition bytes_jitter :: "msg_jitter \<Rightarrow> nat" where
  "bytes_jitter h = slen (p_version h) + slen (jt_mac_sta h) + 30"

definition ok_jitter :: "msg_jitter \<Rightarrow> bool" where
  "ok_jitter h \<longleftrightarrow> ok_header h \<and> ok_str (jt_mac_sta h)
     \<and> bytes_jitter h < 2 ^ 31"

definition norm_jitter :: "msg_jitter \<Rightarrow> msg_jitter \<Rightarrow> msg_jitter" where
  "norm_jitter h0 h = (norm_header (bytes_jitter h) h)\<lparr>jt_mac_sta := canon (jt_mac_sta h)\<rparr>"

interpretation jitter: msg_codec encode_msg_jitter decode_msg_jitter ok_jitter
  norm_jitter bytes_jitter m_type
  unfolding encode_msg_jitter_def [abs_def] decode_msg_jitter_def
  by (rule frame_codecI [where bss = "\<lambda>m. [ser_str (jt_mac_sta m), le_bytes 4 (jitter m), le_bytes 4 (var_jitter m)]"])
    (simp_all add: codec ok_jitter_def ok_header_def bytes_jitter_def norm_jitter_def
      message_size_jitter_def norm_header_def ac_simps encode_char_put length_ser_str)

interpretation jitter_svc: local_service encode_msg_jitter decode_msg_jitter ok_jitter
  norm_jitter bytes_jitter m_type send_msg_jitter "\<lambda>_ :: unit. process_msg_jitter" MSG_GET_JITTER
  "\<lambda>e x. copyable (mallocs e) ETHANOL_VERSION \<and> copyable (mallocs e) x \<and> slen x < 2 ^ 31 - 100" "\<lambda>e i x hs. hs\<lparr>m_type := MSG_GET_JITTER, m_id := i, p_version := dup (mallocs e) ETHANOL_VERSION, jt_mac_sta := dup (mallocs e) x, jitter := 0, var_jitter := 0, m_size := word_of_nat (slen x + 35)\<rparr>"
  "\<lambda>_ h. h\<lparr>jitter := 0, var_jitter := 0\<rparr>"
proof (unfold_locales, goal_cases)
  case (3 e x host port i hs hm)
  then show ?case
    unfolding send_msg_jitter_def
    by (intro send_sync_built) (simp add: set_size_ok message_size_jitter_def ac_simps)
qed (auto simp: process_msg_jitter_def ok_jitter_def norm_jitter_def bytes_jitter_def ok_header_def norm_header_def
    split: option.splits)


subsection \<open>\<open>msg_retries\<close>\<close>

record msg_retries = msg_header +
  rt_wiphy :: c_long
  retries :: c_long

definition message_size_retries :: "msg_retries \<Rightarrow> fault + c_int" where
  "message_size_retries h = sum_sizes
     [sizeof 4, sizeof 4, strlen_ethanol (p_version h), sizeof 4, sizeof 8, sizeof 8]"

definition encode_msg_retries :: "allocator \<Rightarrow> msg_retries \<Rightarrow> fault + msg_retries \<times> u8 list" where
  "encode_msg_retries mal = encode_frame mal message_size_retries (\<lambda>h.
     [encode_header (m_type h) (m_id h) (m_size h),
      encode_2long (rt_wiphy h),
      encode_2long (retries h)])"

definition decode_msg_retries :: "u8 list \<Rightarrow> msg_retries \<Rightarrow> fault + msg_retries" where
  "decode_msg_retries = decode_frame
     [decode_header,
      into decode_2long rt_wiphy_update,
      into decode_2long retries_update]"

definition send_msg_retries ::
  "env \<Rightarrow> cstr \<Rightarrow> c_int \<Rightarrow> c_int \<Rightarrow> c_long \<Rightarrow> msg_retries \<Rightarrow> msg_retries
   \<Rightarrow> fault + effect list \<times> c_int \<times> msg_retries option" where
  "send_msg_retries e hostname portnum idc wiphy hs hm =
     send_sync e hostname portnum idc
       (\<lambda>i. run_prog
         [assign m_type_update MSG_GET_RETRIES,
          assign m_id_update i,
          assign p_version_update ETHANOL_VERSION,
          assign rt_wiphy_update wiphy,
          set_size message_size_retries] hs)
       (encode_msg_retries (mallocs e))
       (\<lambda>t. t = MSG_GET_RETRIES)
       (\<lambda>buf. decode_msg_retries buf hm)"

definition process_msg_retries ::
  "env \<Rightarrow> u8 list \<Rightarrow> msg_retries \<Rightarrow> fault + effect list \<times> u8 list option" where
  "process_msg_retries e input hm =
     and_then (decode_msg_retries input hm) (\<lambda>h.
     and_then (encode_msg_retries (mallocs e) (h\<lparr>rt_wiphy := 10, retries := 2555\<rparr>))
       (\<lambda>(_, output). Inr ([], Some output)))"

definition bytes_retries :: "msg_retries \<Rightarrow> nat" where
  "bytes_retries h = slen (p_version h) + 33"

definition ok_retries :: "msg_retries \<Rightarrow> bool" where
  "ok_retries h \<longleftrightarrow> ok_header h
     \<and> bytes_retries h < 2 ^ 31"

definition norm_retries :: "msg_retries \<Rightarrow> msg_retries \<Rightarrow> msg_retries" where
  "norm_retries h0 h = norm_header (bytes_retries h) h"

interpretation retries: msg_codec encode_msg_retries decode_msg_retries ok_retries
  norm_retries bytes_retries m_type
  unfolding encode_msg_retries_def [abs_def] decode_msg_retries_def
  by (rule frame_codecI [where bss = "\<lambda>m. [le_bytes 8 (rt_wiphy m), le_bytes 8 (retries m)]"])
    (simp_all add: codec ok_retries_def ok_header_def bytes_retries_def norm_retries_def
      message_size_retries_def norm_header_def ac_simps)

interpretation retries_svc: local_service encode_msg_retries decode_msg_retries ok_retries
  norm_retries bytes_retries m_type send_msg_retries "\<lambda>_ :: unit. process_msg_retries" MSG_GET_RETRIES
  "\<lambda>e x. True" "\<lambda>e i x hs. hs\<lparr>m_type := MSG_GET_RETRIES, m_id := i, p_version := ETHANOL_VERSION, rt_wiphy := x, m_size := word_of_nat 38\<rparr>"
  "\<lambda>_ h. h\<lparr>rt_wiphy := 10, retries := 2555\<rparr>"
proof (unfold_locales, goal_cases)
  case (3 e x host port i hs hm)
  then show ?case
    unfolding send_msg_retries_def
    by (intro send_sync_built) (simp add: set_size_ok message_size_retries_def ac_simps)
qed (auto simp: process_msg_retries_def ok_retries_def norm_retries_def bytes_retries_def ok_header_def norm_header_def
    split: option.splits)


subsection \<open>\<open>msg_channelbandwitdh\<close>\<close>

record msg_channelbandwitdh = msg_header +
  bw_wiphy :: c_long
  channel_bandwitdh :: c_int
  ht :: c_int

definition message_size_channelbandwitdh :: "msg_channelbandwitdh \<Rightarrow> fault + c_int" where
  "message_size_channelbandwitdh h = sum_sizes
     [sizeof 4, sizeof 4, strlen_ethanol (p_version h), sizeof 4, sizeof 8, sizeof 4,
      sizeof 4]"

definition encode_msg_channelbandwitdh :: "allocator \<Rightarrow> msg_channelbandwitdh \<Rightarrow> fault + msg_channelbandwitdh \<times> u8 list" where
  "encode_msg_channelbandwitdh mal = encode_frame mal message_size_channelbandwitdh (\<lambda>h.
     [encode_header (m_type h) (m_id h) (m_size h),
      encode_2long (bw_wiphy h),
      encode_uint (channel_bandwitdh h),
      encode_uint (ht h)])"

definition decode_msg_channelbandwitdh :: "u8 list \<Rightarrow> msg_channelbandwitdh \<Rightarrow> fault + msg_channelbandwitdh" where
  "decode_msg_channelbandwitdh = decode_frame
     [decode_header,
      into decode_2long bw_wiphy_update,
      into decode_uint channel_bandwitdh_update,
      into decode_uint ht_update]"

definition send_msg_get_channelbandwitdh ::
  "env \<Rightarrow> cstr \<Rightarrow> c_int \<Rightarrow> c_int \<Rightarrow> c_long \<Rightarrow> msg_channelbandwitdh \<Rightarrow> msg_channelbandwitdh
   \<Rightarrow> fault + effect list \<times> c_int \<times> msg_channelbandwitdh option" where
  "send_msg_get_channelbandwitdh e hostname portnum idc wiphy hs hm =
     send_sync e hostname portnum idc
       (\<lambda>i. run_prog
         [assign m_type_update MSG_GET_CHANNELBANDWITDH,
          assign m_id_update i,
          copy_to e p_version_update ETHANOL_VERSION,
          assign bw_wiphy_update wiphy,
          set_size message_size_channelbandwitdh] hs)
       (encode_msg_channelbandwitdh (mallocs e))
       (\<lambda>t. t = MSG_GET_CHANNELBANDWITDH)
       (\<lambda>buf. decode_msg_channelbandwitdh buf hm)"

definition send_msg_set_channelbandwitdh ::
  "env \<Rightarrow> cstr \<Rightarrow> c_int \<Rightarrow> c_int \<Rightarrow> c_long \<Rightarrow> c_int \<Rightarrow> c_int \<Rightarrow> msg_channelbandwitdh
   \<Rightarrow> fault + effect list \<times> c_int" where
  "send_msg_set_channelbandwitdh e hostname portnum idc wiphy bandwitdh ht_arg hs = send_async e hostname portnum idc
       (\<lambda>i. run_prog
         [assign m_type_update MSG_SET_CHANNELBANDWITDH,
          assign m_id_update i,
          copy_to e p_version_update ETHANOL_VERSION,
          assign bw_wiphy_update wiphy,
          assign channel_bandwitdh_update bandwitdh,
          assign ht_update ht_arg,
          set_size message_size_channelbandwitdh] hs)
       (encode_msg_channelbandwitdh (mallocs e))"

text \<open>A message that sets the bandwidth is echoed, without effect.\<close>

definition process_msg_channelbandwitdh ::
  "env \<Rightarrow> u8 list \<Rightarrow> msg_channelbandwitdh \<Rightarrow> fault + effect list \<times> u8 list option" where
  "process_msg_channelbandwitdh e input hm =
     and_then (decode_msg_channelbandwitdh input hm) (\<lambda>h.
     and_then (encode_msg_channelbandwitdh (mallocs e) ((if m_type h = MSG_GET_CHANNELBANDWITDH then h\<lparr>bw_wiphy := 10, channel_bandwitdh := 15, ht := 40\<rparr> else h)))
       (\<lambda>(_, output). Inr ([], Some output)))"

definition bytes_bandwitdh :: "msg_channelbandwitdh \<Rightarrow> nat" where
  "bytes_bandwitdh h = slen (p_version h) + 33"

definition ok_bandwitdh :: "msg_channelbandwitdh \<Rightarrow> bool" where
  "ok_bandwitdh h \<longleftrightarrow> ok_header h
     \<and> bytes_bandwitdh h < 2 ^ 31"

definition norm_bandwitdh :: "msg_channelbandwitdh \<Rightarrow> msg_channelbandwitdh \<Rightarrow> msg_channelbandwitdh" where
  "norm_bandwitdh h0 h = norm_header (bytes_bandwitdh h) h"

interpretation bandwitdh: msg_codec encode_msg_channelbandwitdh decode_msg_channelbandwitdh ok_bandwitdh
  norm_bandwitdh bytes_bandwitdh m_type
  unfolding encode_msg_channelbandwitdh_def [abs_def] decode_msg_channelbandwitdh_def
  by (rule frame_codecI [where bss = "\<lambda>m. [le_bytes 8 (bw_wiphy m), le_bytes 4 (channel_bandwitdh m), le_bytes 4 (ht m)]"])
    (simp_all add: codec ok_bandwitdh_def ok_header_def bytes_bandwitdh_def norm_bandwitdh_def
      message_size_channelbandwitdh_def norm_header_def ac_simps)

interpretation bandwitdh_svc: local_service encode_msg_channelbandwitdh decode_msg_channelbandwitdh ok_bandwitdh
  norm_bandwitdh bytes_bandwitdh m_type send_msg_get_channelbandwitdh "\<lambda>_ :: unit. process_msg_channelbandwitdh" MSG_GET_CHANNELBANDWITDH
  "\<lambda>e x. copyable (mallocs e) ETHANOL_VERSION" "\<lambda>e i x hs. hs\<lparr>m_type := MSG_GET_CHANNELBANDWITDH, m_id := i, p_version := dup (mallocs e) ETHANOL_VERSION, bw_wiphy := x, m_size := word_of_nat 38\<rparr>"
  "\<lambda>_ h. h\<lparr>bw_wiphy := 10, channel_bandwitdh := 15, ht := 40\<rparr>"
proof (unfold_locales, goal_cases)
  case (3 e x host port i hs hm)
  then show ?case
    unfolding send_msg_get_channelbandwitdh_def
    by (intro send_sync_built) (simp add: set_size_ok message_size_channelbandwitdh_def ac_simps)
qed (auto simp: process_msg_channelbandwitdh_def ok_bandwitdh_def norm_bandwitdh_def bytes_bandwitdh_def ok_header_def norm_header_def
    split: option.splits)


subsection \<open>\<open>msg_supportedinterface\<close>\<close>

record msg_supportedinterface = msg_header +
  si_wiphy :: c_long
  si_mode :: c_int

definition message_size_supportedinterface :: "msg_supportedinterface \<Rightarrow> fault + c_int" where
  "message_size_supportedinterface h = sum_sizes
     [sizeof 4, sizeof 4, strlen_ethanol (p_version h), sizeof 4, sizeof 8, sizeof 4]"

definition encode_msg_supportedinterface :: "allocator \<Rightarrow> msg_supportedinterface \<Rightarrow> fault + msg_supportedinterface \<times> u8 list" where
  "encode_msg_supportedinterface mal = encode_frame mal message_size_supportedinterface (\<lambda>h.
     [encode_header (m_type h) (m_id h) (m_size h),
      encode_2long (si_wiphy h),
      encode_int (si_mode h)])"

definition decode_msg_supportedinterface :: "u8 list \<Rightarrow> msg_supportedinterface \<Rightarrow> fault + msg_supportedinterface" where
  "decode_msg_supportedinterface = decode_frame
     [decode_header,
      into decode_2long si_wiphy_update,
      into decode_int si_mode_update]"

definition send_msg_supportedinterface ::
  "env \<Rightarrow> cstr \<Rightarrow> c_int \<Rightarrow> c_int \<Rightarrow> c_long \<Rightarrow> msg_supportedinterface \<Rightarrow> msg_supportedinterface
   \<Rightarrow> fault + effect list \<times> c_int \<times> msg_supportedinterface option" where
  "send_msg_supportedinterface e hostname portnum idc wiphy hs hm =
     send_sync e hostname portnum idc
       (\<lambda>i. run_prog
         [assign m_type_update MSG_GET_SUPPORTEDINTERFACE,
          assign m_id_update i,
          copy_to e p_version_update ETHANOL_VERSION,
          assign si_wiphy_update wiphy,
          set_size message_size_supportedinterface] hs)
       (encode_msg_supportedinterface (mallocs e))
       (\<lambda>t. t = MSG_GET_SUPPORTEDINTERFACE)
       (\<lambda>buf. decode_msg_supportedinterface buf hm)"

definition process_msg_supportedinterface ::
  "env \<Rightarrow> u8 list \<Rightarrow> msg_supportedinterface \<Rightarrow> fault + effect list \<times> u8 list option" where
  "process_msg_supportedinterface e input hm =
     and_then (decode_msg_supportedinterface input hm) (\<lambda>h.
     and_then (encode_msg_supportedinterface (mallocs e) ((if m_type h = MSG_GET_SUPPORTEDINTERFACE then h\<lparr>si_wiphy := 10, si_mode := 15\<rparr> else h)))
       (\<lambda>(_, output). Inr ([], Some output)))"

definition bytes_suppif :: "msg_supportedinterface \<Rightarrow> nat" where
  "bytes_suppif h = slen (p_version h) + 29"

definition ok_suppif :: "msg_supportedinterface \<Rightarrow> bool" where
  "ok_suppif h \<longleftrightarrow> ok_header h
     \<and> bytes_suppif h < 2 ^ 31"

definition norm_suppif :: "msg_supportedinterface \<Rightarrow> msg_supportedinterface \<Rightarrow> msg_supportedinterface" where
  "norm_suppif h0 h = norm_header (bytes_suppif h) h"

interpretation suppif: msg_codec encode_msg_supportedinterface decode_msg_supportedinterface ok_suppif
  norm_suppif bytes_suppif m_type
  unfolding encode_msg_supportedinterface_def [abs_def] decode_msg_supportedinterface_def
  by (rule frame_codecI [where bss = "\<lambda>m. [le_bytes 8 (si_wiphy m), le_bytes 4 (si_mode m)]"])
    (simp_all add: codec ok_suppif_def ok_header_def bytes_suppif_def norm_suppif_def
      message_size_supportedinterface_def norm_header_def ac_simps)

interpretation suppif_svc: local_service encode_msg_supportedinterface decode_msg_supportedinterface ok_suppif
  norm_suppif bytes_suppif m_type send_msg_supportedinterface "\<lambda>_ :: unit. process_msg_supportedinterface" MSG_GET_SUPPORTEDINTERFACE
  "\<lambda>e x. copyable (mallocs e) ETHANOL_VERSION" "\<lambda>e i x hs. hs\<lparr>m_type := MSG_GET_SUPPORTEDINTERFACE, m_id := i, p_version := dup (mallocs e) ETHANOL_VERSION, si_wiphy := x, m_size := word_of_nat 34\<rparr>"
  "\<lambda>_ h. h\<lparr>si_wiphy := 10, si_mode := 15\<rparr>"
proof (unfold_locales, goal_cases)
  case (3 e x host port i hs hm)
  then show ?case
    unfolding send_msg_supportedinterface_def
    by (intro send_sync_built) (simp add: set_size_ok message_size_supportedinterface_def ac_simps)
qed (auto simp: process_msg_supportedinterface_def ok_suppif_def norm_suppif_def bytes_suppif_def ok_header_def norm_header_def
    split: option.splits)


subsection \<open>\<open>msg_uptime\<close>\<close>

record msg_uptime = msg_header +
  uptime :: c_ldouble
  idle :: c_ldouble

definition message_size_uptime :: "msg_uptime \<Rightarrow> fault + c_int" where
  "message_size_uptime h = sum_sizes
     [sizeof 4, sizeof 4, strlen_ethanol (p_version h), sizeof 4, sizeof 16, sizeof 16]"

definition encode_msg_uptime :: "allocator \<Rightarrow> msg_uptime \<Rightarrow> fault + msg_uptime \<times> u8 list" where
  "encode_msg_uptime mal = encode_frame mal message_size_uptime (\<lambda>h.
     [encode_header (m_type h) (m_id h) (m_size h),
      encode_longdouble (uptime h),
      encode_longdouble (idle h)])"

definition decode_msg_uptime :: "u8 list \<Rightarrow> msg_uptime \<Rightarrow> fault + msg_uptime" where
  "decode_msg_uptime = decode_frame
     [decode_header,
      into decode_longdouble uptime_update,
      into decode_longdouble idle_update]"

definition send_msg_uptime ::
  "env \<Rightarrow> cstr \<Rightarrow> c_int \<Rightarrow> c_int \<Rightarrow> msg_uptime \<Rightarrow> msg_uptime
   \<Rightarrow> fault + effect list \<times> c_int \<times> msg_uptime option" where
  "send_msg_uptime e hostname portnum idc hs hm =
     send_sync e hostname portnum idc
       (\<lambda>i. run_prog
         [assign m_type_update MSG_GET_UPTIME,
          assign m_id_update i,
          copy_to e p_version_update ETHANOL_VERSION,
          assign uptime_update 0,
          assign idle_update 0,
          set_size message_size_uptime] hs)
       (encode_msg_uptime (mallocs e))
       (\<lambda>t. t = MSG_GET_UPTIME)
       (\<lambda>buf. decode_msg_uptime buf hm)"

definition process_msg_uptime ::
  "device \<Rightarrow> env \<Rightarrow> u8 list \<Rightarrow> msg_uptime \<Rightarrow> fault + effect list \<times> u8 list option" where
  "process_msg_uptime d e input hm =
     and_then (decode_msg_uptime input hm) (\<lambda>h.
     and_then (encode_msg_uptime (mallocs e) (case proc_uptime d of None \<Rightarrow> h | Some (u, i) \<Rightarrow> h\<lparr>uptime := u, idle := i\<rparr>))
       (\<lambda>(_, output). Inr ([], Some output)))"

definition bytes_uptime :: "msg_uptime \<Rightarrow> nat" where
  "bytes_uptime h = slen (p_version h) + 49"

definition ok_uptime :: "msg_uptime \<Rightarrow> bool" where
  "ok_uptime h \<longleftrightarrow> ok_header h
     \<and> bytes_uptime h < 2 ^ 31"

definition norm_uptime :: "msg_uptime \<Rightarrow> msg_uptime \<Rightarrow> msg_uptime" where
  "norm_uptime h0 h = norm_header (bytes_uptime h) h"

interpretation uptime: msg_codec encode_msg_uptime decode_msg_uptime ok_uptime
  norm_uptime bytes_uptime m_type
  unfolding encode_msg_uptime_def [abs_def] decode_msg_uptime_def
  by (rule frame_codecI [where bss = "\<lambda>m. [le_bytes 16 (uptime m), le_bytes 16 (idle m)]"])
    (simp_all add: codec ok_uptime_def ok_header_def bytes_uptime_def norm_uptime_def
      message_size_uptime_def norm_header_def ac_simps)

interpretation uptime_svc: local_service encode_msg_uptime decode_msg_uptime ok_uptime
  norm_uptime bytes_uptime m_type "\<lambda>e host port i (_ :: unit). send_msg_uptime e host port i" process_msg_uptime MSG_GET_UPTIME
  "\<lambda>e _. copyable (mallocs e) ETHANOL_VERSION" "\<lambda>e i _ hs. hs\<lparr>m_type := MSG_GET_UPTIME, m_id := i, p_version := dup (mallocs e) ETHANOL_VERSION, uptime := 0, idle := 0, m_size := word_of_nat 54\<rparr>"
  "\<lambda>d h. case proc_uptime d of None \<Rightarrow> h | Some (u, i) \<Rightarrow> h\<lparr>uptime := u, idle := i\<rparr>"
proof (unfold_locales, goal_cases)
  case (3 e x host port i hs hm)
  then show ?case
    unfolding send_msg_uptime_def
    by (intro send_sync_built) (simp add: set_size_ok message_size_uptime_def ac_simps)
qed (auto simp: process_msg_uptime_def ok_uptime_def norm_uptime_def bytes_uptime_def ok_header_def norm_header_def
    split: option.splits)


subsection \<open>\<open>msg_delay\<close>\<close>

record msg_delay = sta_query +
  delay :: c_float
  var_delay :: c_float

definition message_size_delay :: "msg_delay \<Rightarrow> fault + c_int" where
  "message_size_delay h = sum_sizes
     [strlen_ethanol (p_version h), sizeof 4, sizeof 4, sizeof 4,
      strlen_ethanol (intf_name h), strlen_ethanol (sta_ip h), sizeof 4, sizeof 4,
      sizeof 4]"

definition encode_msg_delay :: "allocator \<Rightarrow> msg_delay \<Rightarrow> fault + msg_delay \<times> u8 list" where
  "encode_msg_delay mal = encode_frame mal message_size_delay (\<lambda>h.
     [encode_header (m_type h) (m_id h) (m_size h),
      encode_char (intf_name h),
      encode_char (sta_ip h),
      encode_int (sta_port h),
      encode_float (delay h),
      encode_float (var_delay h)])"

definition decode_msg_delay :: "u8 list \<Rightarrow> msg_delay \<Rightarrow> fault + msg_delay" where
  "decode_msg_delay = decode_frame
     [decode_header,
      into decode_char intf_name_update,
      into decode_char sta_ip_update,
      into decode_int sta_port_update,
      into decode_float delay_update,
      into decode_float var_delay_update]"

definition send_msg_delay ::
  "env \<Rightarrow> cstr \<Rightarrow> c_int \<Rightarrow> c_int \<Rightarrow> cstr \<Rightarrow> cstr \<Rightarrow> c_int \<Rightarrow> msg_delay \<Rightarrow> msg_delay
   \<Rightarrow> fault + effect list \<times> c_int \<times> msg_delay option" where
  "send_msg_delay e hostname portnum idc intf staip staport hs hm =
     send_sync e hostname portnum idc
       (\<lambda>i. run_prog
         [assign m_type_update MSG_GET_DELAY,
          assign m_id_update i,
          copy_to e p_version_update ETHANOL_VERSION,
          copy_to e intf_name_update intf,
          copy_to e sta_ip_update staip,
          set_size message_size_delay] hs)
       (encode_msg_delay (mallocs e))
       (\<lambda>t. t = MSG_GET_DELAY)
       (\<lambda>buf. decode_msg_delay buf hm)"

text \<open>
  After the reply is encoded, the handler frees \<open>intf_name\<close> and \<open>sta_ip\<close>, and \<open>free_msg_delay\<close> frees them
  again.
\<close>

definition process_msg_delay :: "env \<Rightarrow> u8 list \<Rightarrow> msg_delay \<Rightarrow> fault + effect list \<times> u8 list option" where
  "process_msg_delay e input hm =
     and_then (decode_msg_delay input hm) (\<lambda>h.
     and_then (run_prog
       [copy_to e intf_name_update (Some (str_bytes ''wlan0'' @ [0])),
        copy_to e sta_ip_update (Some (str_bytes ''192.168.10.15'' @ [0])),
        assign delay_update 0,
        assign var_delay_update 0] h) (\<lambda>h.
     and_then (encode_msg_delay (mallocs e) h) (\<lambda>(h, output).
       if intf_name h \<noteq> None \<or> sta_ip h \<noteq> None then Inl Invalid_Free else Inr ([], Some output))))"

definition bytes_delay :: "msg_delay \<Rightarrow> nat" where
  "bytes_delay h = slen (p_version h) + slen (intf_name h) + slen (sta_ip h) + 39"

definition ok_delay :: "msg_delay \<Rightarrow> bool" where
  "ok_delay h \<longleftrightarrow> ok_header h \<and> ok_str (intf_name h) \<and> ok_str (sta_ip h)
     \<and> bytes_delay h < 2 ^ 31"

definition norm_delay :: "msg_delay \<Rightarrow> msg_delay \<Rightarrow> msg_delay" where
  "norm_delay h0 h = (norm_header (bytes_delay h) h)\<lparr>intf_name := canon (intf_name h), sta_ip := canon (sta_ip h)\<rparr>"

interpretation delay: msg_codec encode_msg_delay decode_msg_delay ok_delay
  norm_delay bytes_delay m_type
  unfolding encode_msg_delay_def [abs_def] decode_msg_delay_def
  by (rule frame_codecI [where bss = "\<lambda>m. [ser_str (intf_name m), ser_str (sta_ip m), le_bytes 4 (sta_port m),
          le_bytes 4 (delay m), le_bytes 4 (var_delay m)]"])
    (simp_all add: codec ok_delay_def ok_header_def bytes_delay_def norm_delay_def
      message_size_delay_def norm_header_def ac_simps encode_char_put length_ser_str)


subsection \<open>Properties\<close>

text \<open>
  What a client of the placeholders gets: the same numbers whatever it asks about.  The reply about
  retries and bandwidth names another radio than the request.
\<close>

lemma retries_answer:
  assumes "allocates (mallocs e0)" "reaches e0 host port" "allocates (mallocs e1)"
    and "serves e0 host port MSG_GET_RETRIES (\<lambda>req. process_msg_retries e1 (req @ j) hm1)"
  shows "\<exists>req a. send_msg_retries e0 host port i wiphy hs hm = Inr (session e0 host port req, i + 1, Some a)
    \<and> m_id a = i \<and> rt_wiphy a = 10 \<and> retries a = 2555"
  using retries_svc.asked [OF TrueI assms(1,2,4,3), of i wiphy hs hm] by (auto simp: norm_retries_def norm_header_def)

lemma failed_answer:
  assumes "copyable (mallocs e0) ETHANOL_VERSION" "copyable (mallocs e0) mac" "slen mac < 2 ^ 31 - 100"
    and "allocates (mallocs e0)" "reaches e0 host port" "allocates (mallocs e1)"
    and "serves e0 host port MSG_GET_FAILED (\<lambda>req. process_msg_failed e1 (req @ j) hm1)"
  shows "\<exists>req a. send_msg_failed e0 host port i mac hs hm = Inr (session e0 host port req, i + 1, Some a)
    \<and> m_id a = i \<and> fl_mac_sta a = canon mac \<and> num_failed a = 0"
  using failed_svc.asked [OF _ assms(4,5,7,6), of mac i hs hm] assms(1-3)
  by (auto simp: norm_failed_def norm_header_def)

lemma uptime_answer:
  assumes "copyable (mallocs e0) ETHANOL_VERSION" "allocates (mallocs e0)" "reaches e0 host port" "allocates (mallocs e1)"
    and "serves e0 host port MSG_GET_UPTIME (\<lambda>req. process_msg_uptime d e1 (req @ j) hm1)"
    and "proc_uptime d = Some (u, v)"
  shows "\<exists>req a. send_msg_uptime e0 host port i hs hm = Inr (session e0 host port req, i + 1, Some a)
    \<and> m_id a = i \<and> uptime a = u \<and> idle a = v"
  using uptime_svc.asked [OF assms(1-3,5,4), of i hs hm] assms(6)
  by (auto simp: norm_uptime_def norm_header_def)

text \<open>
  No request for the delay of a station is ever answered.  Whatever arrives, the handler faults
  before it returns: if nothing goes wrong earlier, the two strings that it stores in the
  structure are freed twice.
\<close>

theorem delay_never_answered: "\<exists>f. process_msg_delay e input hm = Inl f"
proof (rule ccontr)
  assume "\<nexists>f. process_msg_delay e input hm = Inl f"
  then obtain x where x: "process_msg_delay e input hm = Inr x"
    by (meson sum.exhaust)
  let ?s = "Some (str_bytes ''wlan0'' @ [0])"
  have c: "v \<noteq> None" if "copy_string (mallocs e) ?s = Inr v" for v
    using that by (auto simp: copy_string_def and_then_eq_Inr)
  have i: "intf_name h' = intf_name h" if "encode_msg_delay (mallocs e) h = Inr (h', out)" for h h' out
    using that by (auto simp: encode_msg_delay_def encode_frame_def and_then_eq_Inr Let_def)
  show False
    using x by (auto simp: process_msg_delay_def and_then_eq_Inr copy_to_def dest!: c dest: i split: if_splits)
qed

end
