(* ===== verification/Text_Utils.thy ===== *)
theory Text_Utils
  imports Commands "HOL-Library.Signed_Division"
begin

section \<open>Small tools (\<open>ethanol_functions/utils.c\<close>, \<open>strlib.c\<close>)\<close>

text \<open>
  Conversions of the numbers that the kernel gives for radios and interfaces, addresses as text, and
  a function that copies a string without the characters of a set.
\<close>

subsection \<open>Channels\<close>

text \<open>Division of \<open>int\<close> truncates towards zero.\<close>

definition ieee80211_frequency_to_channel :: "c_int \<Rightarrow> c_int" where
  "ieee80211_frequency_to_channel freq =
     (let f = sint freq in
      if f = 2484 then 14
      else if f < 2484 then word_of_int ((f - 2407) sdiv 5)
      else if 4910 \<le> f \<and> f \<le> 4980 then word_of_int ((f - 4000) sdiv 5)
      else if f \<le> 45000 then word_of_int ((f - 5000) sdiv 5)
      else if 58320 \<le> f \<and> f \<le> 64800 then word_of_int ((f - 56160) sdiv 2160)
      else 0)"

text \<open>
  The enumerations of \<open>nl80211.h\<close>, in its order.  \<open>NL80211_IFTYPE_MAX\<close> and \<open>NUM_NL80211_IFTYPES\<close> have no
  name.
\<close>

definition wiphy_type :: "c_int \<Rightarrow> string" where
  "wiphy_type iftype = (case map_of [(0, ''unspecified''), (1, ''Ad-hoc''), (2, ''Station''), (3, ''AP''),
       (4, ''AP/VLAN''), (5, ''WDS''), (6, ''Monitor''), (7, ''Mesh''), (8, ''P2P client''), (9, ''P2P Go''),
       (10, ''P2P Device'')] iftype of
     Some s \<Rightarrow> s | None \<Rightarrow> ''unknown'')"

definition channel_type_name :: "c_int \<Rightarrow> string" where
  "channel_type_name t = (case map_of [(0, ''NO HT''), (1, ''HT20''), (2, ''HT40-''), (3, ''HT40+'')] t of
     Some s \<Rightarrow> s | None \<Rightarrow> ''unknown'')"

definition channel_width_name :: "c_int \<Rightarrow> string" where
  "channel_width_name w = (case map_of [(0, ''20 MHz (no HT)''), (1, ''20 MHz''), (2, ''40 MHz''), (3, ''80 MHz''),
       (4, ''80+80 MHz''), (5, ''160 MHz'')] w of
     Some s \<Rightarrow> s | None \<Rightarrow> ''unknown'')"

text \<open>\<open>snprintf\<close> cuts the path to the size of the array; the file holds the index.\<close>

definition phy_lookup :: "env \<Rightarrow> cstr \<Rightarrow> fault + c_int" where
  "phy_lookup e name =
     and_then (fmt_all [Lit ''/sys/class/ieee80211/'', Str name, Lit ''/index'']) (\<lambda>path.
       Inr (case sysfs e (take 199 path) of None \<Rightarrow> - 1 | Some n \<Rightarrow> ucast n))"


subsection \<open>Addresses\<close>

text \<open>\<open>%02x\<close> of a byte.\<close>

definition hex_digit :: "nat \<Rightarrow> u8" where
  "hex_digit n = word_of_nat (if n < 10 then 48 + n else 87 + n)"

definition hex2 :: "u8 \<Rightarrow> u8 list" where
  "hex2 b = [hex_digit (unat b div 16), hex_digit (unat b mod 16)]"

text \<open>\<open>sprintf (p + l, ...)\<close>: the text and its terminator are written at the offset \<open>l\<close> of the block.\<close>

definition sprintf_at :: "u8 list \<Rightarrow> nat \<Rightarrow> u8 list \<Rightarrow> fault + u8 list" where
  "sprintf_at p l cs = (if l + length cs + 1 \<le> length p
     then Inr (take l p @ cs @ [0] @ drop (l + length cs + 1) p) else Inl Write_Out_Of_Bounds)"

fun mac_loop :: "u8 list \<Rightarrow> nat \<Rightarrow> u8 list \<Rightarrow> fault + u8 list" where
  "mac_loop mac_addr l [] = Inr mac_addr"
| "mac_loop mac_addr l (b # bs) =
     (if l = 0 then and_then (sprintf_at mac_addr l (hex2 b)) (\<lambda>m. mac_loop m (l + 2) bs)
      else and_then (sprintf_at mac_addr l (58 # hex2 b)) (\<lambda>m. mac_loop m (l + 3) bs))"

text \<open>Six bytes of \<open>arg\<close>, the address, are read.\<close>

definition mac_addr_n2a :: "u8 list \<Rightarrow> u8 list \<Rightarrow> fault + u8 list" where
  "mac_addr_n2a mac_addr arg = (if length arg < 6 then Inl Read_Out_Of_Bounds else mac_loop mac_addr 0 (take 6 arg))"

definition format_mac :: "allocator \<Rightarrow> u8 list \<Rightarrow> fault + u8 list" where
  "format_mac mal addr = mac_addr_n2a (mal 17) addr"

definition format_ipv4 :: "allocator \<Rightarrow> u8 list \<Rightarrow> fault + u8 list" where
  "format_ipv4 mal addr = (if length addr < 4 then Inl Read_Out_Of_Bounds else sprintf_at (mal 12) 0
     (hex2 (addr ! 0) @ [58] @ hex2 (addr ! 1) @ [58] @ hex2 (addr ! 2) @ [58] @ hex2 (addr ! 3)))"


subsection \<open>Trimming (\<open>strlib.c\<close>)\<close>

datatype strtrim_mode = STRLIB_MODE_ALL | STRLIB_MODE_RIGHT | STRLIB_MODE_LEFT | STRLIB_MODE_BOTH

text \<open>
  \<open>dtab[(int) *delim++] = 1\<close>: a \<open>char\<close> is signed, so that a character of 128 or more is an index before the array.
\<close>

fun mark_delims :: "bool list \<Rightarrow> u8 list \<Rightarrow> fault + bool list" where
  "mark_delims dtab [] = Inl Read_Out_Of_Bounds"
| "mark_delims dtab (c # delim) =
     (if c = 0 then Inr dtab
      else if sint c < 0 \<or> int (length dtab) \<le> sint c then Inl Write_Out_Of_Bounds
      else mark_delims (dtab[nat (sint c) := True]) delim)"

definition default_delim :: "u8 list" where
  "default_delim = [32, 9, 10, 12, 0]"

text \<open>
  The loop.  \<open>dst\<close> is the block of the destination and \<open>k\<close> the offset of the pointer \<open>d\<close> in it; \<open>i\<close> is the offset of
  \<open>s\<close> in the block of the source, which is \<open>None\<close> when it is the destination itself; \<open>e\<close> is the offset
  of the end pointer.
\<close>

function trim_loop :: "strtrim_mode \<Rightarrow> bool list \<Rightarrow> u8 list option \<Rightarrow> u8 list \<Rightarrow> nat \<Rightarrow> nat \<Rightarrow> nat option
    \<Rightarrow> fault + u8 list \<times> nat option" where
  "trim_loop mode dtab src dst i k e =
     (let s = (case src of Some s \<Rightarrow> s | None \<Rightarrow> dst) in
      if length s \<le> i then Inl Read_Out_Of_Bounds
      else if length dst \<le> k then Inl Write_Out_Of_Bounds
      else let c = s ! i; dst = dst[k := c] in
        if c = 0 then Inr (dst, e)
        else if \<not> dtab ! unat c then trim_loop mode dtab src dst (i + 1) (k + 1) None
        else let e = (if e = None then Some k else e) in
          if mode = STRLIB_MODE_ALL \<or> mode \<noteq> STRLIB_MODE_RIGHT \<and> k = 0 then trim_loop mode dtab src dst (i + 1) k e
          else trim_loop mode dtab src dst (i + 1) (k + 1) e)"
  by pat_completeness auto

termination
  by (relation "measure (\<lambda>(mode, dtab, src, dst, i, k, e). length (case src of Some s \<Rightarrow> s | None \<Rightarrow> dst) - i)")
    (auto split: option.splits)

text \<open>
  \<open>strcpytrim\<close>, with the block of the destination after the call.  The source is \<open>None\<close> when it is the same pointer as the
  destination.
\<close>

definition strcpytrim :: "cstr \<Rightarrow> cstr option \<Rightarrow> strtrim_mode \<Rightarrow> cstr \<Rightarrow> fault + cstr" where
  "strcpytrim d s mode delim =
     (case d of
        None \<Rightarrow> Inr None
      | Some dst \<Rightarrow> if s = Some None then Inr None
         else and_then (mark_delims (replicate 256 False) (case delim of Some b \<Rightarrow> b | None \<Rightarrow> default_delim)) (\<lambda>dtab.
           and_then (trim_loop mode dtab (case s of Some (Some b) \<Rightarrow> Some b | _ \<Rightarrow> None) dst 0 0 None) (\<lambda>(dst, e).
             Inr (Some (case e of Some k \<Rightarrow> if mode \<noteq> STRLIB_MODE_LEFT then dst[k := 0] else dst | None \<Rightarrow> dst)))))"

definition strtriml :: "cstr \<Rightarrow> cstr \<Rightarrow> fault + cstr" where
  "strtriml d s = strcpytrim d (Some s) STRLIB_MODE_LEFT None"

definition strtrimr :: "cstr \<Rightarrow> cstr \<Rightarrow> fault + cstr" where
  "strtrimr d s = strcpytrim d (Some s) STRLIB_MODE_RIGHT None"

definition strtrim :: "cstr \<Rightarrow> cstr \<Rightarrow> fault + cstr" where
  "strtrim d s = strcpytrim d (Some s) STRLIB_MODE_BOTH None"

definition strkill :: "cstr \<Rightarrow> cstr \<Rightarrow> fault + cstr" where
  "strkill d s = strcpytrim d (Some s) STRLIB_MODE_ALL None"

definition triml :: "cstr \<Rightarrow> fault + cstr" where
  "triml s = strcpytrim s None STRLIB_MODE_LEFT None"

definition trimr :: "cstr \<Rightarrow> fault + cstr" where
  "trimr s = strcpytrim s None STRLIB_MODE_RIGHT None"

definition trim :: "cstr \<Rightarrow> fault + cstr" where
  "trim s = strcpytrim s None STRLIB_MODE_BOTH None"

definition kill :: "cstr \<Rightarrow> fault + cstr" where
  "kill s = strcpytrim s None STRLIB_MODE_ALL None"


subsection \<open>The loop of \<open>strcpytrim\<close>\<close>

text \<open>The loop without memory: \<open>d\<close> are the characters before the pointer \<open>d\<close>.\<close>

fun trim_chars :: "strtrim_mode \<Rightarrow> (u8 \<Rightarrow> bool) \<Rightarrow> u8 list \<Rightarrow> nat option \<Rightarrow> u8 list \<Rightarrow> u8 list \<times> nat option" where
  "trim_chars mode p d e [] = (d, e)"
| "trim_chars mode p d e (c # s) =
     (if \<not> p c then trim_chars mode p (d @ [c]) None s
      else let e = (if e = None then Some (length d) else e) in
        if mode = STRLIB_MODE_ALL \<or> mode \<noteq> STRLIB_MODE_RIGHT \<and> d = [] then trim_chars mode p d e s
        else trim_chars mode p (d @ [c]) e s)"

declare trim_loop.simps [simp del]

lemma trim_loop_chars:
  assumes "drop i (case src of Some s \<Rightarrow> s | None \<Rightarrow> dst) = cs @ 0 # r" "0 \<notin> set cs" "src = None \<longrightarrow> k \<le> i"
    "k + length cs < length dst" "\<And>c. p c = dtab ! unat c"
  shows "\<exists>dst'. trim_loop mode dtab src dst i k e = Inr (dst', snd (trim_chars mode p (take k dst) e cs)) \<and>
    length dst' = length dst \<and> (\<exists>r. dst' = fst (trim_chars mode p (take k dst) e cs) @ 0 # r)"
  using assms(1-4)
proof (induction cs arbitrary: dst i k e)
  case Nil
  let ?s = "case src of Some s \<Rightarrow> s | None \<Rightarrow> dst"
  have "i < length ?s" "?s ! i = 0"
    using Nil(1) by (metis append_Nil drop_all list.discI not_le) (metis Nil.prems(1) append_Nil drop_all list.discI not_le nth_append_length nth_via_drop)
  then show ?case
    using Nil(4) by (subst trim_loop.simps) (auto simp: Let_def upd_conv_take_nth_drop)
next
  case (Cons c cs)
  let ?s = "case src of Some s \<Rightarrow> s | None \<Rightarrow> dst"
  have q: "drop i ?s = c # cs @ 0 # r"
    using Cons.prems(1) by simp
  have i: "i < length ?s" "?s ! i = c" "drop (Suc i) ?s = cs @ 0 # r"
  proof -
    show "i < length ?s"
      using q drop_all [of ?s i] by (metis list.discI not_le)
    show "?s ! i = c"
      by (rule nth_via_drop [OF q])
    have "drop (Suc i) ?s = tl (drop i ?s)"
      by (simp add: drop_Suc tl_drop)
    then show "drop (Suc i) ?s = cs @ 0 # r"
      unfolding q by simp
  qed
  let ?dst = "dst[k := c]"
  have d: "drop (Suc i) (case src of Some s \<Rightarrow> s | None \<Rightarrow> ?dst) = cs @ 0 # r"
    using i(3) Cons.prems(3) by (cases src) simp_all
  have t: "take (Suc k) ?dst = take k dst @ [c]" "take k ?dst = take k dst"
    using Cons.prems(4) by (simp_all add: take_Suc_conv_app_nth)
  have c: "c \<noteq> 0" "0 \<notin> set cs" "k < length dst" "length (take k dst) = k"
    using Cons.prems by auto
  have g: "\<exists>dst'. trim_loop mode dtab src ?dst (Suc i) k' e' = Inr (dst', snd (trim_chars mode p w e' cs)) \<and>
      length dst' = length dst \<and> (\<exists>r. dst' = fst (trim_chars mode p w e' cs) @ 0 # r)"
    if "k' = Suc k \<and> w = take k dst @ [c] \<or> k' = k \<and> w = take k dst" for k' w e'
    using Cons.IH [of "Suc i" ?dst k' e'] that d t c(2) Cons.prems(3,4) by auto
  show ?case
    using g [of "Suc k" "take k dst @ [c]"] g [of k "take k dst"] i c assms(5) [of c]
    by (subst trim_loop.simps) (auto simp: Let_def)
qed

lemma str_chars_split: "0 \<in> set b \<Longrightarrow> \<exists>r. b = str_chars b @ 0 # r"
  by (induction b) (auto simp: str_chars_def)

lemma unat_byte: "unat (c :: u8) < 256"
  using unsigned_less [of c] by simp

lemma sint_byte:
  fixes c :: u8
  shows "sint c < 0 \<longleftrightarrow> 128 \<le> c" "\<not> 128 \<le> c \<Longrightarrow> nat (sint c) = unat c" "sint c < 256"
proof -
  have "sint c = (uint c + 128) mod 256 - 128"
    by (simp add: sint_uint signed_take_bit_eq_take_bit_shift take_bit_eq_mod)
  moreover have "0 \<le> uint c" "uint c < 256"
    using uint_lt2p [of c] by simp_all
  moreover from this have "(uint c + 128) mod 256 = (if uint c < 128 then uint c + 128 else uint c - 128)"
    using mod_add_self2 [of "uint c - 128" 256] by (cases "uint c < 128") (simp_all add: add.commute)
  ultimately show "sint c < 0 \<longleftrightarrow> 128 \<le> c" "\<not> 128 \<le> c \<Longrightarrow> nat (sint c) = unat c" "sint c < 256"
    by (auto simp: word_le_def nat_eq_iff)
qed

lemma mark_delims_ok:
  assumes "0 \<in> set delim" "length dtab = 256"
  shows "mark_delims dtab delim = (if \<exists>c\<in>set (str_chars delim). 128 \<le> c then Inl Write_Out_Of_Bounds
    else Inr (map (\<lambda>n. dtab ! n \<or> word_of_nat n \<in> set (str_chars delim)) [0..<256]))"
  using assms
proof (induction delim arbitrary: dtab)
  case (Cons c delim)
  note s = sint_byte [of c]
  show ?case
  proof (cases "c = 0 \<or> 128 \<le> c")
    case True
    then show ?thesis
      using s Cons.prems by (auto simp: str_chars_def intro!: nth_equalityI)
  next
    case False
    have "(dtab[unat c := True]) ! n = (dtab ! n \<or> word_of_nat n = c)" if "n < 256" for n
      using that Cons.prems(2) unat_byte [of c] by (auto simp: nth_list_update unat_of_nat word_of_nat_eq_iff)
    then show ?thesis
      using False s Cons by (auto simp: str_chars_def intro!: map_cong)
  qed
qed simp

definition rtrim :: "('a \<Rightarrow> bool) \<Rightarrow> 'a list \<Rightarrow> 'a list" where
  "rtrim p s = rev (dropWhile p (rev s))"

lemma rtrim_snoc [simp]: "rtrim p [] = []" "rtrim p (s @ [c]) = (if p c then rtrim p s else s @ [c])"
  by (simp_all add: rtrim_def)

lemma rtrim_prefix: "take (length (rtrim p s)) s = rtrim p s"
proof -
  have "s = rtrim p s @ rev (takeWhile p (rev s))"
    by (metis rtrim_def rev_append rev_rev_ident takeWhile_dropWhile_id)
  then show ?thesis
    by (metis append_eq_conv_conj)
qed

text \<open>\<open>e\<close> is where the characters of the set at the end begin.\<close>

definition marks :: "('a \<Rightarrow> bool) \<Rightarrow> 'a list \<Rightarrow> nat option \<Rightarrow> bool" where
  "marks p d e \<longleftrightarrow> (case e of None \<Rightarrow> rtrim p d = d | Some k \<Rightarrow> k = length (rtrim p d))"

definition copied :: "strtrim_mode \<Rightarrow> (u8 \<Rightarrow> bool) \<Rightarrow> u8 list \<Rightarrow> u8 list \<Rightarrow> u8 list" where
  "copied mode p d s = (case mode of
       STRLIB_MODE_ALL \<Rightarrow> d @ filter (\<lambda>c. \<not> p c) s
     | STRLIB_MODE_RIGHT \<Rightarrow> d @ s
     | _ \<Rightarrow> if d = [] then dropWhile p s else d @ s)"

lemma trim_chars_invariant:
  "marks p d e \<Longrightarrow> \<exists>e'. trim_chars mode p d e s = (copied mode p d s, e') \<and> marks p (copied mode p d s) e'"
proof (induction mode p d e s rule: trim_chars.induct)
  case (1 mode p d e)
  then show ?case
    by (cases mode) (auto simp: copied_def)
next
  case (2 mode p d e c s)
  let ?e = "if e = None then Some (length d) else e"
  have skip: "marks p d ?e" and push: "p c \<Longrightarrow> marks p (d @ [c]) ?e"
    using "2.prems" by (auto simp: marks_def split: option.splits)
  show ?case
  proof (cases "p c")
    case False
    then have "copied mode p (d @ [c]) s = copied mode p d (c # s)"
      by (cases mode) (simp_all add: copied_def)
    then show ?thesis
      using "2.IH"(1) False by (simp add: marks_def)
  next
    case True
    have "copied mode p d s = copied mode p d (c # s)" if "mode = STRLIB_MODE_ALL \<or> mode \<noteq> STRLIB_MODE_RIGHT \<and> d = []"
      using that True by (cases mode) (simp_all add: copied_def)
    moreover have "copied mode p (d @ [c]) s = copied mode p d (c # s)"
      if "\<not> (mode = STRLIB_MODE_ALL \<or> mode \<noteq> STRLIB_MODE_RIGHT \<and> d = [])"
      using that True by (cases mode) (simp_all add: copied_def)
    ultimately show ?thesis
      using "2.IH"(2,3) True skip push by (auto simp: Let_def)
  qed
qed

text \<open>What the four modes mean.\<close>

definition trim_spec :: "strtrim_mode \<Rightarrow> (u8 \<Rightarrow> bool) \<Rightarrow> u8 list \<Rightarrow> u8 list" where
  "trim_spec mode p s = (case mode of
       STRLIB_MODE_ALL \<Rightarrow> filter (\<lambda>c. \<not> p c) s
     | STRLIB_MODE_RIGHT \<Rightarrow> rtrim p s
     | STRLIB_MODE_LEFT \<Rightarrow> dropWhile p s
     | STRLIB_MODE_BOTH \<Rightarrow> rtrim p (dropWhile p s))"

lemma rtrim_none: "\<forall>c\<in>set s. \<not> p c \<Longrightarrow> rtrim p s = s"
  by (cases s rule: rev_cases) auto


subsection \<open>Properties\<close>

text \<open>Writing the terminator at the end pointer.\<close>

lemma set_rtrimD: "c \<in> set (rtrim p s) \<Longrightarrow> c \<in> set s"
  by (auto simp: rtrim_def dest: set_dropWhileD)

lemma rtrim_cut:
  assumes "marks p w e" "d = w @ 0 # r"
  shows "\<exists>r. (case e of Some k \<Rightarrow> d[k := 0] | None \<Rightarrow> d) = rtrim p w @ 0 # r"
proof (cases e)
  case (Some k)
  then have k: "k = length (rtrim p w)" "k \<le> length w"
    using assms(1) rtrim_prefix [of p w] by (auto simp: marks_def) (metis length_take min.cobounded1 nat_le_linear take_all)
  then have "d[k := 0] = take k d @ 0 # drop (Suc k) d" "take k d = rtrim p w"
    using assms(2) rtrim_prefix [of p w] by (simp_all add: upd_conv_take_nth_drop)
  with Some show ?thesis
    by auto
qed (use assms in \<open>auto simp: marks_def\<close>)

text \<open>The characters of a set; without one, the blanks.\<close>

definition delims :: "cstr \<Rightarrow> u8 list" where
  "delims delim = (case delim of None \<Rightarrow> [32, 9, 10, 12] | Some b \<Rightarrow> str_chars b)"

lemma trim_spec_copied: "trim_spec mode p x
    = (if mode = STRLIB_MODE_LEFT then copied mode p [] x else rtrim p (copied mode p [] x))"
  by (cases mode) (simp_all add: trim_spec_def copied_def rtrim_none)

text \<open>
  C40 \<open>strcpytrim\<close> with a destination that has room for the source, or that is the source itself: the string in the
  destination is the source without the characters of the set (mode \<open>ALL\<close>), without those at its end
  (\<open>RIGHT\<close>), at its beginning (\<open>LEFT\<close>), or at both (\<open>BOTH\<close>).  The set is the given string or blank, tab, newline and form feed.
  A set that has a character of 128 or more makes the function write before its table.
\<close>

theorem strcpytrim_correct:
  assumes "0 \<in> set s" "wf_str delim"
    and "src = None \<and> d = s \<or> src = Some (Some s) \<and> length (str_chars s) < length d"
  shows "if \<exists>c\<in>set (delims delim). 128 \<le> c then strcpytrim (Some d) src mode delim = Inl Write_Out_Of_Bounds
    else \<exists>d'. strcpytrim (Some d) src mode delim = Inr (Some d') \<and> length d' = length d \<and> 0 \<in> set d' \<and>
      str_chars d' = trim_spec mode (\<lambda>c. c \<in> set (delims delim)) (str_chars s)"
proof -
  let ?b = "case delim of Some b \<Rightarrow> b | None \<Rightarrow> default_delim"
  let ?p = "\<lambda>c. c \<in> set (delims delim)"
  have b: "0 \<in> set ?b" "str_chars ?b = delims delim"
    using assms(2) by (auto simp: default_delim_def delims_def wf_str_def str_chars_def split: option.splits)
  note m = mark_delims_ok [OF b(1), of "replicate 256 False", unfolded b(2)]
  show ?thesis
  proof (cases "\<exists>c\<in>set (delims delim). 128 \<le> c")
    case True
    then show ?thesis
      using m assms(3) by (auto simp: strcpytrim_def)
  next
    case False
    let ?dtab = "map (\<lambda>n. replicate 256 False ! n \<or> word_of_nat n \<in> set (delims delim)) [0..<256]"
    have p: "?p c = ?dtab ! unat c" for c
      using unat_byte [of c] by simp
    obtain r where r: "s = str_chars s @ 0 # r" "0 \<notin> set (str_chars s)"
      using assms(1) str_chars_split str_chars_no_zero by blast
    let ?src = "case src of Some (Some b) \<Rightarrow> Some b | _ \<Rightarrow> None"
    let ?w = "trim_chars mode ?p [] None (str_chars s)"
    have "drop 0 (case ?src of Some s \<Rightarrow> s | None \<Rightarrow> d) = str_chars s @ 0 # r" "length (str_chars s) < length d"
      using assms(3) r(1) length_str_chars [OF assms(1)] by auto
    then obtain d1 r1 where d1: "trim_loop mode ?dtab ?src d 0 0 None = Inr (d1, snd ?w)" "length d1 = length d" "d1 = fst ?w @ 0 # r1"
      using trim_loop_chars [where k = 0 and i = 0 and dst = d and src = ?src and p = ?p and dtab = ?dtab, OF _ r(2) _ _ p] by fastforce
    obtain e where e: "?w = (copied mode ?p [] (str_chars s), e)" "marks ?p (copied mode ?p [] (str_chars s)) e"
      using trim_chars_invariant [of ?p "[]" None mode "str_chars s"] by (auto simp: marks_def)
    let ?c = "copied mode ?p [] (str_chars s)"
    have z: "0 \<notin> set ?c"
      using r(2) by (cases mode) (auto simp: copied_def dest: set_dropWhileD)
    let ?d = "if mode = STRLIB_MODE_LEFT then d1 else case e of Some k \<Rightarrow> d1[k := 0] | None \<Rightarrow> d1"
    have t: "\<exists>r. ?d = trim_spec mode ?p (str_chars s) @ 0 # r" "0 \<notin> set (trim_spec mode ?p (str_chars s))"
      using z rtrim_cut [OF e(2), of d1 r1] d1(3) e(1) by (auto simp: trim_spec_copied dest: set_rtrimD)
    have "strcpytrim (Some d) src mode delim = Inr (Some ?d)" "length ?d = length d"
      using d1 m e(1) False assms(3) by (auto simp: strcpytrim_def split: option.splits)
    then show ?thesis
      using False t by auto
  qed
qed

theorem strcpytrim_correct_witness:
  "(\<exists>d'. strcpytrim (Some (str_bytes '' a b '' @ [0])) None STRLIB_MODE_BOTH None = Inr (Some d') \<and> str_chars d' = str_bytes ''a b'') \<and>
   strcpytrim (Some [7, 7, 7, 7]) (Some (Some (str_bytes ''axb'' @ [0]))) STRLIB_MODE_ALL (Some [0xE9, 0]) = Inl Write_Out_Of_Bounds"
proof -
  have d: "\<not> (\<exists>c\<in>set (delims None). 128 \<le> c)" "\<exists>c\<in>set (delims (Some [0xE9, 0])). 128 \<le> c"
    by code_simp+
  have s: "str_chars (str_bytes '' a b '' @ [0]) = str_bytes '' a b ''" "length (str_chars (str_bytes ''axb'' @ [0])) < length [7 :: u8, 7, 7, 7]"
    by code_simp+
  have t: "trim_spec STRLIB_MODE_BOTH (\<lambda>c. c \<in> set (delims None)) (str_bytes '' a b '') = str_bytes ''a b''"
    by code_simp
  show ?thesis
    using strcpytrim_correct [of "str_bytes '' a b '' @ [0]" None None "str_bytes '' a b '' @ [0]" STRLIB_MODE_BOTH]
      strcpytrim_correct [of "str_bytes ''axb'' @ [0]" "Some [0xE9, 0]" "Some (Some (str_bytes ''axb'' @ [0]))" "[7, 7, 7, 7]" STRLIB_MODE_ALL]
    unfolding if_not_P [OF d(1)] if_P [OF d(2)] using s(2) by (auto simp: s(1) t wf_str_def)
qed

lemma sint_small: "- (2 ^ 31) \<le> i \<Longrightarrow> i < 2 ^ 31 \<Longrightarrow> sint (word_of_int i :: c_int) = i"
  by (simp add: sint_sbintrunc' signed_take_bit_int_eq_self)

lemma sdiv_exact: "0 < k \<Longrightarrow> 0 < i \<Longrightarrow> (b + k * i - b :: int) sdiv k = i"
  by (simp add: signed_divide_int_def sgn_mult)

lemma channel_bands:
  "sint f = 2407 + 5 * c \<Longrightarrow> 1 \<le> c \<Longrightarrow> c \<le> 13 \<Longrightarrow> ieee80211_frequency_to_channel f = word_of_int c"
  "sint f = 4000 + 5 * c \<Longrightarrow> 182 \<le> c \<Longrightarrow> c \<le> 196 \<Longrightarrow> ieee80211_frequency_to_channel f = word_of_int c"
  "sint f = 5000 + 5 * c \<Longrightarrow> 7 \<le> c \<Longrightarrow> c \<le> 196 \<Longrightarrow> ieee80211_frequency_to_channel f = word_of_int c"
  "sint f = 56160 + 2160 * c \<Longrightarrow> 1 \<le> c \<Longrightarrow> c \<le> 4 \<Longrightarrow> ieee80211_frequency_to_channel f = word_of_int c"
  using sdiv_exact [of 5 c 2407] sdiv_exact [of 5 c 4000] sdiv_exact [of 5 c 5000] sdiv_exact [of 2160 c 56160]
  by (simp_all add: ieee80211_frequency_to_channel_def Let_def)

text \<open>
  The channel numbers of the standard come back from their centre frequencies: the channels 1 to 14 of
  the 2.4 GHz band, those of the 4.9 GHz band, those of the 5 GHz band and the four channels of the
  60 GHz band.
\<close>

theorem channel_of_frequency:
  "(1 \<le> c \<and> c \<le> 13 \<longrightarrow> ieee80211_frequency_to_channel (word_of_int (2407 + 5 * c)) = word_of_int c) \<and>
   ieee80211_frequency_to_channel 2484 = 14 \<and>
   (182 \<le> c \<and> c \<le> 196 \<longrightarrow> ieee80211_frequency_to_channel (word_of_int (4000 + 5 * c)) = word_of_int c) \<and>
   (7 \<le> c \<and> c \<le> 196 \<longrightarrow> ieee80211_frequency_to_channel (word_of_int (5000 + 5 * c)) = word_of_int c) \<and>
   (1 \<le> c \<and> c \<le> 4 \<longrightarrow> ieee80211_frequency_to_channel (word_of_int (56160 + 2160 * c)) = word_of_int c)"
proof -
  have "1 \<le> c \<Longrightarrow> c \<le> 13 \<Longrightarrow> ieee80211_frequency_to_channel (word_of_int (2407 + 5 * c)) = word_of_int c"
    by (rule channel_bands(1) [OF sint_small]) simp_all
  moreover have "182 \<le> c \<Longrightarrow> c \<le> 196 \<Longrightarrow> ieee80211_frequency_to_channel (word_of_int (4000 + 5 * c)) = word_of_int c"
    by (rule channel_bands(2) [OF sint_small]) simp_all
  moreover have "7 \<le> c \<Longrightarrow> c \<le> 196 \<Longrightarrow> ieee80211_frequency_to_channel (word_of_int (5000 + 5 * c)) = word_of_int c"
    by (rule channel_bands(3) [OF sint_small]) simp_all
  moreover have "1 \<le> c \<Longrightarrow> c \<le> 4 \<Longrightarrow> ieee80211_frequency_to_channel (word_of_int (56160 + 2160 * c)) = word_of_int c"
    by (rule channel_bands(4) [OF sint_small]) simp_all
  moreover have "ieee80211_frequency_to_channel 2484 = 14"
    by (simp add: ieee80211_frequency_to_channel_def)
  ultimately show ?thesis
    by blast
qed

theorem channel_of_frequency_witness:
  "ieee80211_frequency_to_channel (word_of_int (5000 + 5 * 36)) = word_of_int 36"
  using channel_of_frequency [of 36] by simp

text \<open>The text of an address.\<close>

definition colon_text :: "u8 list \<Rightarrow> u8 list" where
  "colon_text bs = concat (map (\<lambda>b. 58 # hex2 b) bs)"

lemma colon_text_simps [simp]:
  "colon_text [] = []" "colon_text (b # bs) = 58 # hex2 b @ colon_text bs" "length (colon_text bs) = 3 * length bs"
  "length (hex2 b) = 2"
  by (induction bs) (simp_all add: colon_text_def hex2_def)

lemma mac_loop_eq:
  "t \<noteq> [] \<Longrightarrow> bs \<noteq> [] \<Longrightarrow> mac_loop (t @ r) (length t) bs =
     (if 3 * length bs + 1 \<le> length r then Inr (t @ colon_text bs @ 0 # drop (3 * length bs + 1) r)
      else Inl Write_Out_Of_Bounds)"
proof (induction bs arbitrary: t r)
  case Nil
  then show ?case by simp
next
  case (Cons b bs)
  let ?t = "t @ 58 # hex2 b"
  let ?r = "0 # drop 4 r"
  have s: "sprintf_at (t @ r) (length t) (58 # hex2 b) = (if 4 \<le> length r then Inr (?t @ ?r) else Inl Write_Out_Of_Bounds)"
    by (simp add: sprintf_at_def)
  have l: "length t + 3 = length ?t"
    by simp
  show ?case
  proof (cases "bs = []")
    case True
    then show ?thesis
      using Cons.prems s by simp
  next
    case False
    have "mac_loop (?t @ ?r) (length ?t) bs = (if 3 * length bs + 1 \<le> length ?r
        then Inr (?t @ colon_text bs @ 0 # drop (3 * length bs + 1) ?r) else Inl Write_Out_Of_Bounds)"
      using Cons.IH [of ?t ?r] False by simp
    then show ?thesis
      using Cons.prems(1) s False unfolding mac_loop.simps l by (auto simp: add.commute)
  qed
qed

text \<open>
  A block of 17 bytes has room for the 17 characters of an address but not for their terminator.
  \<open>format_mac\<close>, which is called for every interface, writes one byte behind its block unless the
  allocator hands out more than it was asked for; then the result is the address in hexadecimal
  digits with colons.
\<close>

theorem format_mac_overflow:
  assumes "allocates mal" "length addr = 6"
  shows "format_mac mal addr = (if length (mal 17) = 17 then Inl Write_Out_Of_Bounds
    else Inr (hex2 (addr ! 0) @ colon_text (tl addr) @ 0 # drop 18 (mal 17)))"
proof -
  obtain b bs where a: "addr = b # bs" "length bs = 5"
    using assms(2) by (cases addr) auto
  have l: "17 \<le> length (mal 17)"
    using assms(1) by (simp add: allocates_def)
  have s: "sprintf_at (mal 17) 0 (hex2 b) = Inr (hex2 b @ 0 # drop 3 (mal 17))"
    using l by (simp add: sprintf_at_def numeral_3_eq_3)
  have h: "length (hex2 b) = 2" "hex2 b \<noteq> []" "bs \<noteq> []"
    using a(2) by (auto simp: hex2_def)
  have "mac_loop (mal 17) 0 addr = mac_loop (hex2 b @ 0 # drop 3 (mal 17)) (length (hex2 b)) bs"
    using s h(1) by (simp add: a(1) numeral_2_eq_2)
  then show ?thesis
    unfolding format_mac_def mac_addr_n2a_def using mac_loop_eq [OF h(2,3), of "0 # drop 3 (mal 17)"] a(2) l
    by (cases "length (mal 17) = 17") (auto simp: a(1))
qed

theorem format_mac_overflow_witness:
  "format_mac (\<lambda>n. replicate n 0) [1, 2, 3, 4, 5, 0xFE] = Inl Write_Out_Of_Bounds \<and>
   format_mac (\<lambda>n. replicate (n + 3) 0) [1, 2, 3, 4, 5, 0xFE]
     = Inr (str_bytes ''01:02:03:04:05:fe'' @ [0, 0, 0])"
proof -
  have "allocates (\<lambda>n. replicate n 0)" "allocates (\<lambda>n. replicate (n + 3) 0)"
    by (simp_all add: allocates_def)
  then have "format_mac (\<lambda>n. replicate n 0) [1, 2, 3, 4, 5, 0xFE] = Inl Write_Out_Of_Bounds"
    using format_mac_overflow [of "\<lambda>n. replicate n 0" "[1, 2, 3, 4, 5, 0xFE]"] by simp
  moreover have "format_mac (\<lambda>n. replicate (n + 3) 0) [1, 2, 3, 4, 5, 0xFE]
     = Inr (str_bytes ''01:02:03:04:05:fe'' @ [0, 0, 0])"
    by code_simp
  ultimately show ?thesis ..
qed

end
