(* ===== verification/Interfaces.thy ===== *)
theory Interfaces
  imports Text_Utils Intf_Table
begin

section \<open>The network interfaces of the machine (\<open>ethanol_functions/get_interfaces.c\<close>, \<open>is_wireless.c\<close>)\<close>

text \<open>
  \<open>getifaddrs\<close> lists the addresses of the machine, several for an interface.  The module collects
  them in a linked list with one cell for an interface, and completes a cell with what \<open>ioctl\<close> tells.
  The system calls are the record \<open>netdevice\<close>; \<open>ioctl req name\<close> is the value that the request stores, if it
  succeeds.  The text of an address is what \<open>getnameinfo\<close> leaves in the array of the caller.
\<close>

datatype sock_addr = AF_INET "u8 list" "u8 list" | AF_INET6 "u8 list" "u8 list" | AF_PACKET "u8 list" | AF_Other

record ifaddrs =
  ifa_name :: "u8 list"
  ifa_addr :: "sock_addr option"

datatype ioctl_request = SIOCGIFINDEX | SIOCGIFFLAGS | SIOCGIFMETRIC | SIOCGIFMTU | SIOCGIWNAME

record netdevice =
  getifaddrs :: "ifaddrs list option"
  sock_ok :: bool
  ioctl :: "ioctl_request \<Rightarrow> u8 list \<Rightarrow> c_int option"

record ip_address =
  a_ip :: cstr
  a_mask :: cstr

record interface_fields =
  if_index :: c_int
  if_name :: cstr
  if_mac :: cstr
  if_ipv4 :: ip_address
  if_ipv6 :: ip_address
  if_type :: c_int
  if_metric :: c_int
  if_mtu :: c_int
  if_wifi :: bool


subsection \<open>Flags\<close>

definition is_loopback :: "c_int \<Rightarrow> bool" where "is_loopback t \<longleftrightarrow> and t 8 \<noteq> 0"
definition is_up :: "c_int \<Rightarrow> bool" where "is_up t \<longleftrightarrow> and t 1 \<noteq> 0"
definition is_promiscuous :: "c_int \<Rightarrow> bool" where "is_promiscuous t \<longleftrightarrow> and t 0x100 \<noteq> 0"
definition is_multicast :: "c_int \<Rightarrow> bool" where "is_multicast t \<longleftrightarrow> and t 0x1000 \<noteq> 0"
definition is_dynamic :: "c_int \<Rightarrow> bool" where "is_dynamic t \<longleftrightarrow> and t 0x8000 \<noteq> 0"
definition is_point_to_point :: "c_int \<Rightarrow> bool" where "is_point_to_point t \<longleftrightarrow> and t 0x10 \<noteq> 0"


subsection \<open>Collecting the addresses\<close>

definition copy_string_interface :: "allocator \<Rightarrow> cstr \<Rightarrow> fault + cstr" where
  "copy_string_interface mal orig = (case orig of
       None \<Rightarrow> Inr None
     | Some b \<Rightarrow> and_then (new_name mal (Some b)) (\<lambda>d. Inr (Some d)))"

text \<open>The block of the name is allocated without room for the terminator.  \<open>l\<close> is the uninitialised structure.\<close>

definition init_fields :: "allocator \<Rightarrow> u8 list \<Rightarrow> interface_fields \<Rightarrow> fault + interface_fields" where
  "init_fields mal name l = and_then (strlen (Some name)) (\<lambda>n.
     and_then (strcpy (mal n) name) (\<lambda>b.
       Inr (l\<lparr>if_name := Some b, if_mac := None, if_ipv4 := \<lparr>a_ip = None, a_mask = None\<rparr>,
              if_ipv6 := \<lparr>a_ip = None, a_mask = None\<rparr>\<rparr>)))"

definition process_ifa :: "allocator \<Rightarrow> ifaddrs \<Rightarrow> interface_fields \<Rightarrow> fault + interface_fields" where
  "process_ifa mal ifa l = (case ifa_addr ifa of
       None \<Rightarrow> Inr l
     | Some (AF_INET addr net) \<Rightarrow>
         and_then (copy_string_interface mal (Some addr)) (\<lambda>a.
         and_then (copy_string_interface mal (Some net)) (\<lambda>m.
           Inr (l\<lparr>if_ipv4 := \<lparr>a_ip = a, a_mask = m\<rparr>\<rparr>)))
     | Some (AF_INET6 addr net) \<Rightarrow>
         and_then (copy_string_interface mal (Some addr)) (\<lambda>a.
         and_then (copy_string_interface mal (Some net)) (\<lambda>m.
           Inr (l\<lparr>if_ipv6 := \<lparr>a_ip = a, a_mask = m\<rparr>\<rparr>)))
     | Some (AF_PACKET sll) \<Rightarrow> and_then (format_mac mal sll) (\<lambda>m. Inr (l\<lparr>if_mac := Some m\<rparr>))
     | Some AF_Other \<Rightarrow> Inr l)"

primrec search_intf :: "interface_fields list \<Rightarrow> u8 list \<Rightarrow> fault + nat option" where
  "search_intf [] name = Inr None"
| "search_intf (f # fs) name = and_then (strcmp (if_name f) (Some name)) (\<lambda>eq.
     if eq then Inr (Some 0) else and_then (search_intf fs name) (\<lambda>i. Inr (map_option Suc i)))"

text \<open>
  One turn of the loop of \<open>get_interfaces\<close>: a known interface gets the address, another one becomes
  the head of the list.  \<open>j\<close> are the uninitialised structures, by the length of the list.
\<close>

definition add_ifa :: "allocator \<Rightarrow> (nat \<Rightarrow> interface_fields) \<Rightarrow> ifaddrs \<Rightarrow> interface_fields list step" where
  "add_ifa mal j ifa l = and_then (search_intf l (ifa_name ifa)) (\<lambda>p. case p of
       Some i \<Rightarrow> and_then (process_ifa mal ifa (l ! i)) (\<lambda>f. Inr (l[i := f]))
     | None \<Rightarrow> and_then (init_fields mal (ifa_name ifa) (j (length l))) (\<lambda>f.
         and_then (process_ifa mal ifa f) (\<lambda>f. Inr (f # l))))"

definition get_interfaces ::
  "netdevice \<Rightarrow> allocator \<Rightarrow> (nat \<Rightarrow> interface_fields) \<Rightarrow> fault + interface_fields list" where
  "get_interfaces nd mal j = (case getifaddrs nd of
       None \<Rightarrow> Inr []
     | Some addrs \<Rightarrow> run_prog (map (add_ifa mal j) addrs) [])"


subsection \<open>Completing an interface\<close>

text \<open>A request about the interface \<open>name\<close>, with the results for a missing socket and for an error.\<close>

definition ask_ioctl :: "netdevice \<Rightarrow> ioctl_request \<Rightarrow> c_int \<Rightarrow> cstr \<Rightarrow> fault + c_int" where
  "ask_ioctl nd req err name = and_then (strncpy (case name of None \<Rightarrow> [] | Some b \<Rightarrow> b) 16) (\<lambda>ifr.
     Inr (if \<not> sock_ok nd then - 1 else case ioctl nd req ifr of None \<Rightarrow> err | Some v \<Rightarrow> v))"

definition get_ifindex :: "netdevice \<Rightarrow> cstr \<Rightarrow> fault + c_int" where
  "get_ifindex nd = ask_ioctl nd SIOCGIFINDEX (- 1)"

definition get_intf_type :: "netdevice \<Rightarrow> cstr \<Rightarrow> fault + c_int" where
  "get_intf_type nd = ask_ioctl nd SIOCGIFFLAGS 0"

definition get_metric :: "netdevice \<Rightarrow> cstr \<Rightarrow> fault + c_int" where
  "get_metric nd = ask_ioctl nd SIOCGIFMETRIC (- 1)"

definition get_mtu :: "netdevice \<Rightarrow> cstr \<Rightarrow> fault + c_int" where
  "get_mtu nd = ask_ioctl nd SIOCGIFMTU (- 1)"

definition is_wireless :: "netdevice \<Rightarrow> cstr \<Rightarrow> fault + bool" where
  "is_wireless nd name = and_then (strncpy (case name of None \<Rightarrow> [] | Some b \<Rightarrow> b) 16) (\<lambda>ifr.
     Inr (sock_ok nd \<and> ioctl nd SIOCGIWNAME ifr \<noteq> None))"

definition copy_and_desallocate_fields :: "netdevice \<Rightarrow> interface_fields \<Rightarrow> fault + interface_fields" where
  "copy_and_desallocate_fields nd s =
     and_then (get_ifindex nd (if_name s)) (\<lambda>i.
     and_then (get_intf_type nd (if_name s)) (\<lambda>t.
     and_then (get_metric nd (if_name s)) (\<lambda>m.
     and_then (get_mtu nd (if_name s)) (\<lambda>u.
     and_then (is_wireless nd (if_name s)) (\<lambda>w.
       Inr \<lparr>if_index = i, if_name = if_name s, if_mac = if_mac s, if_ipv4 = if_ipv4 s, if_ipv6 = if_ipv6 s,
            if_type = t, if_metric = m, if_mtu = u, if_wifi = w\<rparr>)))))"

primrec complete_all :: "netdevice \<Rightarrow> interface_fields list \<Rightarrow> fault + interface_fields list" where
  "complete_all nd [] = Inr []"
| "complete_all nd (f # fs) = and_then (copy_and_desallocate_fields nd f) (\<lambda>d.
     and_then (complete_all nd fs) (\<lambda>ds. Inr (d # ds)))"

text \<open>The structure with the number of interfaces and their array; \<open>NULL\<close> when there is none.\<close>

definition get_all_interfaces ::
  "netdevice \<Rightarrow> allocator \<Rightarrow> (nat \<Rightarrow> interface_fields) \<Rightarrow> fault + (c_int \<times> interface_fields list) option" where
  "get_all_interfaces nd mal j = and_then (get_interfaces nd mal j) (\<lambda>l.
     if l = [] then Inr None
     else and_then (complete_all nd l) (\<lambda>d. Inr (Some (word_of_nat (length l), d))))"


subsection \<open>Looking for an interface\<close>

text \<open>\<open>for (f = l; f != NULL && test; f = f->next);\<close>\<close>

primrec walk :: "(interface_fields \<Rightarrow> fault + bool) \<Rightarrow> interface_fields list \<Rightarrow> fault + interface_fields option" where
  "walk test [] = Inr None"
| "walk test (f # fs) = and_then (test f) (\<lambda>go. if go then walk test fs else Inr (Some f))"

definition get_interface ::
  "netdevice \<Rightarrow> allocator \<Rightarrow> (nat \<Rightarrow> interface_fields) \<Rightarrow> cstr \<Rightarrow> fault + interface_fields option" where
  "get_interface nd mal j name = and_then (get_interfaces nd mal j) (\<lambda>l.
     and_then (walk (\<lambda>f. and_then (strcmp name (if_name f)) (\<lambda>eq. Inr (\<not> eq))) l) (\<lambda>f. case f of
       None \<Rightarrow> Inr None
     | Some f \<Rightarrow> and_then (copy_and_desallocate_fields nd f) (\<lambda>d. Inr (Some d))))"

definition get_interface_name_by_index ::
  "netdevice \<Rightarrow> allocator \<Rightarrow> (nat \<Rightarrow> interface_fields) \<Rightarrow> c_int \<Rightarrow> fault + cstr" where
  "get_interface_name_by_index nd mal j ifindex = and_then (get_interfaces nd mal j) (\<lambda>l.
     and_then (walk (\<lambda>f. Inr (ifindex \<noteq> if_index f)) l) (\<lambda>f.
       Inr (case f of None \<Rightarrow> None | Some f \<Rightarrow> if_name f)))"

definition get_interface_name_by_mac ::
  "netdevice \<Rightarrow> allocator \<Rightarrow> (nat \<Rightarrow> interface_fields) \<Rightarrow> cstr \<Rightarrow> fault + cstr" where
  "get_interface_name_by_mac nd mal j mac = and_then (get_interfaces nd mal j) (\<lambda>l.
     and_then (walk (\<lambda>f. if if_mac f = None then Inr True
         else and_then (strcmp mac (if_mac f)) (\<lambda>eq. Inr (\<not> eq))) l) (\<lambda>f.
       Inr (case f of None \<Rightarrow> None | Some f \<Rightarrow> if_name f)))"


subsection \<open>What the list contains\<close>

text \<open>Addresses that are collected without a fault: the texts have a terminator, and the allocator has the byte more.\<close>

definition usable_ifa :: "allocator \<Rightarrow> ifaddrs \<Rightarrow> bool" where
  "usable_ifa mal a \<longleftrightarrow> 0 \<in> set (ifa_name a) \<and>
     length (str_chars (ifa_name a)) < length (mal (length (str_chars (ifa_name a)))) \<and>
     (case ifa_addr a of
        Some (AF_INET addr net) \<Rightarrow> 0 \<in> set addr \<and> 0 \<in> set net
      | Some (AF_INET6 addr net) \<Rightarrow> 0 \<in> set addr \<and> 0 \<in> set net
      | Some (AF_PACKET sll) \<Rightarrow> length sll = 6 \<and> 17 < length (mal 17)
      | _ \<Rightarrow> True)"

definition ifa_update :: "allocator \<Rightarrow> ifaddrs \<Rightarrow> interface_fields \<Rightarrow> interface_fields" where
  "ifa_update mal a f = (case process_ifa mal a f of Inr g \<Rightarrow> g | Inl _ \<Rightarrow> f)"

lemma copy_string_interface_ok:
  assumes "0 \<in> set b" "allocates mal"
  shows "copy_string_interface mal (Some b)
    = Inr (Some (str_chars b @ 0 # drop (length (str_chars b) + 1) (mal (length (str_chars b) + 1))))"
proof -
  have "length (str_chars b) < length (mal (length (str_chars b) + 1))"
    using assms(2) by (metis Suc_eq_plus1 Suc_le_eq allocates_def)
  then show ?thesis
    using assms(1) by (simp add: copy_string_interface_def new_name_def strlen_def strcpy_def)
qed

lemma process_ifa_ok:
  assumes "usable_ifa mal a" "allocates mal"
  shows "process_ifa mal a f = Inr (ifa_update mal a f)"
proof -
  note c = copy_string_interface_ok [OF _ assms(2)]
  have "\<exists>g. process_ifa mal a f = Inr g"
  proof (cases "ifa_addr a")
    case None
    then show ?thesis by (simp add: process_ifa_def)
  next
    case (Some s)
    then show ?thesis
      using assms
      by (cases s) (auto simp: process_ifa_def usable_ifa_def c format_mac_overflow)
  qed
  then show ?thesis
    by (auto simp: ifa_update_def)
qed

lemma process_ifa_name [simp]: "process_ifa mal a f = Inr g \<Longrightarrow> if_name g = if_name f"
  by (auto simp: process_ifa_def and_then_eq_Inr split: option.splits sock_addr.splits)

lemma ifa_update_name [simp]: "if_name (ifa_update mal a f) = if_name f"
  by (simp add: ifa_update_def split: sum.split)

lemma fold_ifa_update_name [simp]: "if_name (fold (ifa_update mal) as f) = if_name f"
  by (induction as arbitrary: f) simp_all

text \<open>A new cell.\<close>

definition blank_fields :: "u8 list \<Rightarrow> interface_fields \<Rightarrow> interface_fields" where
  "blank_fields b l = l\<lparr>if_name := Some b, if_mac := None, if_ipv4 := \<lparr>a_ip = None, a_mask = None\<rparr>,
     if_ipv6 := \<lparr>a_ip = None, a_mask = None\<rparr>\<rparr>"

lemma blank_fields_index [simp]: "if_index (blank_fields b l) = if_index l"
  by (simp add: blank_fields_def)

lemma init_fields_ok:
  assumes "usable_ifa mal a"
  obtains b where "init_fields mal (ifa_name a) l = Inr (blank_fields b l)" "0 \<in> set b"
    "str_chars b = str_chars (ifa_name a)"
proof -
  let ?n = "ifa_name a" and ?k = "length (str_chars (ifa_name a))"
  have "strcpy (mal ?k) ?n = Inr (str_chars ?n @ [0] @ drop (?k + 1) (mal ?k))"
    using assms by (simp add: usable_ifa_def strcpy_def strlen_def)
  then have "init_fields mal ?n l = Inr (blank_fields (str_chars ?n @ [0] @ drop (?k + 1) (mal ?k)) l)"
    using assms by (simp add: init_fields_def blank_fields_def strlen_def usable_ifa_def)
  then show ?thesis
    by (rule that) (simp_all add: str_chars_no_zero)
qed

abbreviation name_of :: "interface_fields \<Rightarrow> u8 list" where "name_of f \<equiv> chars (if_name f)"

definition entries_of :: "u8 list \<Rightarrow> ifaddrs list \<Rightarrow> ifaddrs list" where
  "entries_of n as = filter (\<lambda>a. str_chars (ifa_name a) = n) as"

lemma entries_of_simps [simp]:
  "entries_of n [] = []"
  "entries_of n (as @ [a]) = entries_of n as @ (if str_chars (ifa_name a) = n then [a] else [])"
  by (simp_all add: entries_of_def)

text \<open>The cell \<open>f\<close> holds what the addresses \<open>as\<close> say about its interface.\<close>

definition gathered :: "allocator \<Rightarrow> (nat \<Rightarrow> interface_fields) \<Rightarrow> ifaddrs list \<Rightarrow> interface_fields \<Rightarrow> bool" where
  "gathered mal j as f \<longleftrightarrow> named (if_name f) \<and>
     (\<exists>k b. f = fold (ifa_update mal) (entries_of (name_of f) as) (blank_fields b (j k)))"

definition names_seen :: "ifaddrs list \<Rightarrow> u8 list list" where
  "names_seen as = remdups (rev (map (\<lambda>a. str_chars (ifa_name a)) as))"

lemma search_intf_map:
  assumes "\<forall>f\<in>set l. named (if_name f)" "0 \<in> set b" "distinct (map name_of l)"
  shows "(str_chars b \<notin> set (map name_of l) \<and> search_intf l b = Inr None) \<or>
    (\<exists>i < length l. search_intf l b = Inr (Some i) \<and> name_of (l ! i) = str_chars b)"
  using assms(1,3)
proof (induction l)
  case Nil
  then show ?case by simp
next
  case (Cons f l)
  have "strcmp (if_name f) (Some b) = Inr (name_of f = str_chars b)"
    using strcmp_named [of "if_name f" "Some b"] Cons.prems(1) assms(2) by (simp add: named_def wf_str_def chars_def)
  then show ?case
    using Cons by (cases "name_of f = str_chars b") fastforce+
qed

lemma add_ifa_gathers:
  assumes l: "map name_of l = names_seen as" "\<forall>f\<in>set l. gathered mal j as f"
    and a: "usable_ifa mal a" "allocates mal"
  shows "\<exists>l'. add_ifa mal j a l = Inr l' \<and> map name_of l' = names_seen (as @ [a]) \<and>
    (\<forall>f\<in>set l'. gathered mal j (as @ [a]) f)"
proof -
  let ?n = "str_chars (ifa_name a)"
  have named: "\<forall>f\<in>set l. named (if_name f)" and d: "distinct (map name_of l)"
    using l by (simp_all add: gathered_def names_seen_def)
  have seen: "names_seen (as @ [a]) = (if ?n \<in> set (names_seen as) then names_seen as else ?n # names_seen as)"
    by (simp add: names_seen_def)
  have keep: "gathered mal j (as @ [a]) f" if "f \<in> set l" "name_of f \<noteq> ?n" for f
    using l(2) that by (auto simp: gathered_def)
  have "0 \<in> set (ifa_name a)"
    using a(1) by (simp add: usable_ifa_def)
  from search_intf_map [OF named this d] show ?thesis
  proof (elim disjE exE conjE)
    assume new: "?n \<notin> set (map name_of l)" "search_intf l (ifa_name a) = Inr None"
    obtain b where b: "init_fields mal (ifa_name a) (j (length l)) = Inr (blank_fields b (j (length l)))" "0 \<in> set b"
        "str_chars b = ?n"
      using init_fields_ok [OF a(1)] .
    let ?f = "ifa_update mal a (blank_fields b (j (length l)))"
    have n: "if_name ?f = Some b" and n_of: "name_of ?f = ?n" "name_of (blank_fields b (j (length l))) = ?n"
      using b(3) by (simp_all add: blank_fields_def chars_def)
    have "entries_of ?n as = []"
      using new(1) unfolding l(1) names_seen_def entries_of_def by (auto simp: filter_empty_conv image_iff)
    then have "?f = fold (ifa_update mal) (entries_of (name_of ?f) (as @ [a])) (blank_fields b (j (length l)))"
      using b(3) by (simp add: n_of)
    then have "gathered mal j (as @ [a]) ?f"
      using n b(2) unfolding gathered_def named_def wf_str_def by auto
    moreover have "add_ifa mal j a l = Inr (?f # l)"
      using new(2) b(1) process_ifa_ok [OF a] by (simp add: add_ifa_def)
    moreover have "?n \<notin> set (names_seen as)"
      using new(1) unfolding l(1) .
    moreover have "\<forall>f\<in>set l. gathered mal j (as @ [a]) f"
      using new(1) keep by (metis imageI list.set_map)
    ultimately show ?thesis
      using l(1) by (simp add: n_of seen)
  next
    fix i
    assume i: "i < length l" "search_intf l (ifa_name a) = Inr (Some i)" "name_of (l ! i) = ?n"
    let ?f = "ifa_update mal a (l ! i)"
    have "gathered mal j (as @ [a]) ?f"
      using l(2) i(1,3) nth_mem [OF i(1)] by (fastforce simp: gathered_def)
    moreover have "f \<in> set l \<and> name_of f \<noteq> ?n \<or> f = ?f" if f: "f \<in> set (l[i := ?f])" for f
    proof -
      obtain k where k: "k < length l" "f = l[i := ?f] ! k"
        using f by (auto simp: in_set_conv_nth)
      have "name_of (l ! k) \<noteq> name_of (l ! i)" if "k \<noteq> i"
        using nth_eq_iff_index_eq [OF d, of k i] that k(1) i(1) by simp
      then show ?thesis
        using k i by (cases "k = i") auto
    qed
    moreover have "add_ifa mal j a l = Inr (l[i := ?f])"
      using i(2) process_ifa_ok [OF a] by (simp add: add_ifa_def)
    moreover have "map name_of (l[i := ?f]) = map name_of l"
      using i(1) by (simp add: map_update list_update_same_conv)
    moreover have "?n \<in> set (names_seen as)"
      using i(1,3) l(1) by (metis length_map nth_map nth_mem)
    ultimately show ?thesis
      using keep l(1) by (auto simp: seen)
  qed
qed

lemma get_interfaces_gathered:
  assumes "\<forall>a\<in>set as. usable_ifa mal a" "allocates mal" "getifaddrs nd = Some as"
  shows "\<exists>l. get_interfaces nd mal j = Inr l \<and> map name_of l = names_seen as \<and> (\<forall>f\<in>set l. gathered mal j as f)"
proof -
  have "\<exists>l. run_prog (map (add_ifa mal j) as) [] = Inr l \<and> map name_of l = names_seen as \<and>
      (\<forall>f\<in>set l. gathered mal j as f)"
    using assms(1)
  proof (induction as rule: rev_induct)
    case Nil
    then show ?case by (simp add: names_seen_def)
  next
    case (snoc a as)
    then obtain l where "run_prog (map (add_ifa mal j) as) [] = Inr l" "map name_of l = names_seen as"
        "\<forall>f\<in>set l. gathered mal j as f"
      by auto
    then show ?case
      using add_ifa_gathers [of l as mal j a] snoc.prems assms(2) by (auto simp: run_prog_append)
  qed
  then show ?thesis
    by (simp add: get_interfaces_def assms(3))
qed


subsection \<open>Looking for an interface\<close>

definition packet_of :: "ifaddrs \<Rightarrow> u8 list option" where
  "packet_of a = (case ifa_addr a of Some (AF_PACKET p) \<Rightarrow> Some p | _ \<Rightarrow> None)"

definition inet_of :: "ifaddrs \<Rightarrow> (u8 list \<times> u8 list) option" where
  "inet_of a = (case ifa_addr a of Some (AF_INET x y) \<Rightarrow> Some (x, y) | _ \<Rightarrow> None)"

definition inet6_of :: "ifaddrs \<Rightarrow> (u8 list \<times> u8 list) option" where
  "inet6_of a = (case ifa_addr a of Some (AF_INET6 x y) \<Rightarrow> Some (x, y) | _ \<Rightarrow> None)"

text \<open>The last value that a partial function has on a list.\<close>

definition last_of :: "('a \<Rightarrow> 'b option) \<Rightarrow> 'a list \<Rightarrow> 'b option" where
  "last_of g as = fold (\<lambda>a m. case g a of None \<Rightarrow> m | Some x \<Rightarrow> Some x) as None"

lemma last_of_simps [simp]:
  "last_of g [] = None" "last_of g (as @ [a]) = (case g a of None \<Rightarrow> last_of g as | Some x \<Rightarrow> Some x)"
  by (simp_all add: last_of_def split: option.split)

definition mac_text :: "u8 list \<Rightarrow> u8 list" where
  "mac_text p = hex2 (p ! 0) @ colon_text (tl p)"

lemma hex_digit_nonzero: "n < 16 \<Longrightarrow> hex_digit n \<noteq> 0"
proof -
  have "\<forall>n\<in>{..<16}. hex_digit n \<noteq> 0"
    by code_simp
  then show "n < 16 \<Longrightarrow> hex_digit n \<noteq> 0" by blast
qed

lemma hex2_nonzero [simp]: "0 \<notin> set (hex2 b)"
proof -
  have "unat b < 2 ^ LENGTH(8)"
    by (rule unsigned_less)
  then show ?thesis
    using hex_digit_nonzero [of "unat b div 16"] hex_digit_nonzero [of "unat b mod 16"]
    by (simp add: hex2_def)
qed

lemma mac_text_nonzero [simp]: "0 \<notin> set (mac_text p)"
proof -
  have "0 \<notin> set (colon_text bs)" for bs
    by (induction bs) simp_all
  then show ?thesis
    by (simp add: mac_text_def)
qed

lemma ifa_update_mac:
  assumes "usable_ifa mal a" "allocates mal"
  shows "chars (if_mac (ifa_update mal a f)) = (case packet_of a of None \<Rightarrow> chars (if_mac f) | Some p \<Rightarrow> mac_text p)"
    and "(if_mac (ifa_update mal a f) = None) = (packet_of a = None \<and> if_mac f = None)"
  using assms mac_text_nonzero unfolding mac_text_def
  by (auto simp: ifa_update_def process_ifa_def packet_of_def usable_ifa_def copy_string_interface_ok
      format_mac_overflow chars_def str_chars_append [of "_ @ _", simplified] split: option.splits sock_addr.splits)

lemma ifa_update_ipv4:
  assumes "usable_ifa mal a" "allocates mal"
  shows "chars (a_ip (if_ipv4 (ifa_update mal a f))) = (case inet_of a of
      None \<Rightarrow> chars (a_ip (if_ipv4 f)) | Some (x, _) \<Rightarrow> str_chars x)"
    and "chars (a_mask (if_ipv4 (ifa_update mal a f))) = (case inet_of a of
      None \<Rightarrow> chars (a_mask (if_ipv4 f)) | Some (_, y) \<Rightarrow> str_chars y)"
  using assms str_chars_no_zero
  by (auto simp: ifa_update_def process_ifa_def inet_of_def usable_ifa_def copy_string_interface_ok
      format_mac_overflow split: option.splits sock_addr.splits)

lemma ifa_update_ipv6:
  assumes "usable_ifa mal a" "allocates mal"
  shows "chars (a_ip (if_ipv6 (ifa_update mal a f))) = (case inet6_of a of
      None \<Rightarrow> chars (a_ip (if_ipv6 f)) | Some (x, _) \<Rightarrow> str_chars x)"
    and "chars (a_mask (if_ipv6 (ifa_update mal a f))) = (case inet6_of a of
      None \<Rightarrow> chars (a_mask (if_ipv6 f)) | Some (_, y) \<Rightarrow> str_chars y)"
  using assms str_chars_no_zero
  by (auto simp: ifa_update_def process_ifa_def inet6_of_def usable_ifa_def copy_string_interface_ok
      format_mac_overflow split: option.splits sock_addr.splits)

lemma ifa_update_mac_wf:
  assumes "usable_ifa mal a" "allocates mal" "wf_str (if_mac f)"
  shows "wf_str (if_mac (ifa_update mal a f))"
  using assms
  by (auto simp: ifa_update_def process_ifa_def usable_ifa_def copy_string_interface_ok format_mac_overflow wf_str_def
      split: option.splits sock_addr.splits)

lemma fold_ifa_update:
  assumes "\<forall>a\<in>set as. usable_ifa mal a" "allocates mal"
  shows "chars (if_mac (fold (ifa_update mal) as (blank_fields b l)))
      = (case last_of packet_of as of None \<Rightarrow> [] | Some p \<Rightarrow> mac_text p)"
    and "chars (a_ip (if_ipv4 (fold (ifa_update mal) as (blank_fields b l))))
      = (case last_of inet_of as of None \<Rightarrow> [] | Some (x, _) \<Rightarrow> str_chars x)"
    and "chars (a_mask (if_ipv4 (fold (ifa_update mal) as (blank_fields b l))))
      = (case last_of inet_of as of None \<Rightarrow> [] | Some (_, y) \<Rightarrow> str_chars y)"
    and "wf_str (if_mac (fold (ifa_update mal) as (blank_fields b l)))"
    and "chars (a_ip (if_ipv6 (fold (ifa_update mal) as (blank_fields b l))))
      = (case last_of inet6_of as of None \<Rightarrow> [] | Some (x, _) \<Rightarrow> str_chars x)"
    and "chars (a_mask (if_ipv6 (fold (ifa_update mal) as (blank_fields b l))))
      = (case last_of inet6_of as of None \<Rightarrow> [] | Some (_, y) \<Rightarrow> str_chars y)"
  using assms(1)
  by (induction as rule: rev_induct)
    (auto simp: blank_fields_def ifa_update_mac ifa_update_ipv4 ifa_update_ipv6 ifa_update_mac_wf assms(2) split: option.split)

text \<open>The name of an interface in a request: 16 bytes, without a terminator when the name is longer.\<close>

definition ifr_name :: "u8 list \<Rightarrow> u8 list" where
  "ifr_name cs = take 16 cs @ replicate (16 - length cs) 0"

lemma takeWhile_take: "takeWhile p (take n xs) = take n (takeWhile p xs)"
  by (induction xs arbitrary: n) (auto simp: take_Cons split: nat.split)

lemma strncpy_ifr: "0 \<in> set b \<Longrightarrow> strncpy b 16 = Inr (ifr_name (str_chars b))"
proof -
  assume b: "0 \<in> set b"
  have t: "str_chars (take 16 b) = take 16 (str_chars b)"
    unfolding str_chars_def by (rule takeWhile_take)
  show ?thesis
    using length_str_chars [OF b] by (auto simp: strncpy_def t ifr_name_def Let_def)
qed

definition asked :: "netdevice \<Rightarrow> ioctl_request \<Rightarrow> c_int \<Rightarrow> u8 list \<Rightarrow> c_int" where
  "asked nd req err cs = (if \<not> sock_ok nd then - 1 else case ioctl nd req (ifr_name cs) of None \<Rightarrow> err | Some v \<Rightarrow> v)"

lemma complete_ok:
  assumes "named (if_name f)"
  shows "copy_and_desallocate_fields nd f = Inr (f\<lparr>if_index := asked nd SIOCGIFINDEX (- 1) (name_of f),
    if_type := asked nd SIOCGIFFLAGS 0 (name_of f), if_metric := asked nd SIOCGIFMETRIC (- 1) (name_of f),
    if_mtu := asked nd SIOCGIFMTU (- 1) (name_of f),
    if_wifi := (sock_ok nd \<and> ioctl nd SIOCGIWNAME (ifr_name (name_of f)) \<noteq> None)\<rparr>)"
proof -
  obtain b where "if_name f = Some b" "0 \<in> set b"
    using assms by (auto simp: named_def wf_str_def)
  then show ?thesis
    by (simp add: copy_and_desallocate_fields_def get_ifindex_def get_intf_type_def get_metric_def get_mtu_def
        is_wireless_def ask_ioctl_def strncpy_ifr asked_def chars_def)
qed

lemma walk_total:
  "(\<forall>f\<in>set l. test f = Inr (t f)) \<Longrightarrow> walk test l = Inr (find (\<lambda>f. \<not> t f) l)"
  by (induction l) auto

lemma find_name:
  assumes "map name_of l = ns" "distinct ns"
  shows "(n \<notin> set ns \<and> find (\<lambda>f. n = name_of f) l = None) \<or>
    (n \<in> set ns \<and> (\<exists>f\<in>set l. find (\<lambda>f. n = name_of f) l = Some f \<and> name_of f = n))"
proof (cases "find (\<lambda>f. n = name_of f) l")
  case None
  then show ?thesis
    using assms(1) by (auto simp: find_None_iff)
next
  case (Some f)
  then show ?thesis
    using assms(1) by (auto simp: find_Some_iff)
qed

text \<open>The structure that \<open>get_interface\<close> returns for a name that the system lists.\<close>

lemma get_interface_fold:
  assumes "\<forall>a\<in>set as. usable_ifa mal a" "allocates mal" "getifaddrs nd = Some as" "named name"
  shows "if entries_of (chars name) as = [] then get_interface nd mal j name = Inr None
    else (\<exists>b l. let f = fold (ifa_update mal) (entries_of (chars name) as) (blank_fields b l) in name_of f = chars name \<and>
      get_interface nd mal j name = Inr (Some (f\<lparr>if_index := asked nd SIOCGIFINDEX (- 1) (chars name),
        if_type := asked nd SIOCGIFFLAGS 0 (chars name), if_metric := asked nd SIOCGIFMETRIC (- 1) (chars name),
        if_mtu := asked nd SIOCGIFMTU (- 1) (chars name),
        if_wifi := (sock_ok nd \<and> ioctl nd SIOCGIWNAME (ifr_name (chars name)) \<noteq> None)\<rparr>)))"
proof -
  obtain l where l: "get_interfaces nd mal j = Inr l" "map name_of l = names_seen as" "\<forall>f\<in>set l. gathered mal j as f"
    using get_interfaces_gathered [OF assms(1-3)] by blast
  have w: "walk (\<lambda>f. and_then (strcmp name (if_name f)) (\<lambda>eq. Inr (\<not> eq))) l
      = Inr (find (\<lambda>f. chars name = name_of f) l)"
    using walk_total [of l "\<lambda>f. and_then (strcmp name (if_name f)) (\<lambda>eq. Inr (\<not> eq))" "\<lambda>f. chars name \<noteq> name_of f"]
      l(3) strcmp_named [OF assms(4)] by (simp add: gathered_def)
  have e: "entries_of (chars name) as = [] \<longleftrightarrow> chars name \<notin> set (names_seen as)"
    by (auto simp: entries_of_def names_seen_def filter_empty_conv image_iff)
  have "distinct (names_seen as)"
    by (simp add: names_seen_def)
  from find_name [OF l(2) this, of "chars name"] show ?thesis
  proof (elim disjE conjE bexE)
    assume "chars name \<notin> set (names_seen as)" "find (\<lambda>f. chars name = name_of f) l = None"
    then show ?thesis
      by (simp add: e get_interface_def l(1) w)
  next
    fix f
    assume f: "chars name \<in> set (names_seen as)" "f \<in> set l" "find (\<lambda>f. chars name = name_of f) l = Some f"
      "name_of f = chars name"
    obtain k b where g: "named (if_name f)" "f = fold (ifa_update mal) (entries_of (chars name) as) (blank_fields b (j k))"
      using l(3) f(2,4) by (auto simp: gathered_def)
    show ?thesis
      using f(1,4) complete_ok [OF g(1), of nd] e
      by (simp only: if_False simp_thms) (intro exI [of _ b] exI [of _ "j k"], simp add: g(2) [symmetric] get_interface_def l(1) w f(3))
  qed
qed

lemma get_interface_known:
  assumes "\<forall>a\<in>set as. usable_ifa mal a" "allocates mal" "getifaddrs nd = Some as" "named name"
  shows "if entries_of (chars name) as = [] then get_interface nd mal j name = Inr None
    else (\<exists>d. get_interface nd mal j name = Inr (Some d) \<and> name_of d = chars name \<and>
      chars (if_mac d) = (case last_of packet_of (entries_of (chars name) as) of None \<Rightarrow> [] | Some p \<Rightarrow> mac_text p) \<and>
      chars (a_ip (if_ipv4 d)) = (case last_of inet_of (entries_of (chars name) as) of None \<Rightarrow> [] | Some (x, _) \<Rightarrow> str_chars x) \<and>
      chars (a_mask (if_ipv4 d)) = (case last_of inet_of (entries_of (chars name) as) of None \<Rightarrow> [] | Some (_, y) \<Rightarrow> str_chars y) \<and>
      wf_str (if_mac d) \<and> if_index d = asked nd SIOCGIFINDEX (- 1) (chars name) \<and>
      if_wifi d = (sock_ok nd \<and> ioctl nd SIOCGIWNAME (ifr_name (chars name)) \<noteq> None))"
proof -
  have u: "\<forall>a\<in>set (entries_of n as). usable_ifa mal a" for n
    using assms(1) by (simp add: entries_of_def)
  show ?thesis
    using get_interface_fold [OF assms, of j] fold_ifa_update [OF u assms(2)]
    by (cases "entries_of (chars name) as = []") (auto simp: Let_def)
qed

text \<open>
  C24 Looking for an interface by its name.  The addresses that the system lists are merged by
  interface, in whatever order they come: an interface that is not among them is not found; one that
  is there is found with the MAC address and the IPv4 and IPv6 addresses and masks that are listed last for
  it, and with the index, the flags, the metric, the MTU and the kind that the system reports under its name.
\<close>

theorem get_interface_correct:
  assumes "\<forall>a\<in>set as. usable_ifa mal a" "allocates mal" "getifaddrs nd = Some as" "named name"
  shows "if entries_of (chars name) as = [] then get_interface nd mal j name = Inr None
    else (\<exists>d. get_interface nd mal j name = Inr (Some d) \<and> name_of d = chars name \<and>
      chars (if_mac d) = (case last_of packet_of (entries_of (chars name) as) of None \<Rightarrow> [] | Some p \<Rightarrow> mac_text p) \<and>
      chars (a_ip (if_ipv4 d)) = (case last_of inet_of (entries_of (chars name) as) of None \<Rightarrow> [] | Some (x, _) \<Rightarrow> str_chars x) \<and>
      chars (a_mask (if_ipv4 d)) = (case last_of inet_of (entries_of (chars name) as) of None \<Rightarrow> [] | Some (_, y) \<Rightarrow> str_chars y) \<and>
      chars (a_ip (if_ipv6 d)) = (case last_of inet6_of (entries_of (chars name) as) of None \<Rightarrow> [] | Some (x, _) \<Rightarrow> str_chars x) \<and>
      chars (a_mask (if_ipv6 d)) = (case last_of inet6_of (entries_of (chars name) as) of None \<Rightarrow> [] | Some (_, y) \<Rightarrow> str_chars y) \<and>
      if_index d = asked nd SIOCGIFINDEX (- 1) (chars name) \<and> if_type d = asked nd SIOCGIFFLAGS 0 (chars name) \<and>
      if_metric d = asked nd SIOCGIFMETRIC (- 1) (chars name) \<and> if_mtu d = asked nd SIOCGIFMTU (- 1) (chars name) \<and>
      if_wifi d = (sock_ok nd \<and> ioctl nd SIOCGIWNAME (ifr_name (chars name)) \<noteq> None))"
proof -
  have u: "\<forall>a\<in>set (entries_of n as). usable_ifa mal a" for n
    using assms(1) by (simp add: entries_of_def)
  show ?thesis
    using get_interface_fold [OF assms, of j] fold_ifa_update [OF u assms(2)]
    by (cases "entries_of (chars name) as = []") (auto simp: Let_def)
qed

definition demo_addrs :: "ifaddrs list" where
  "demo_addrs = [\<lparr>ifa_name = str_bytes ''eth0'' @ [0], ifa_addr = Some (AF_PACKET [1, 2, 3, 4, 5, 6])\<rparr>,
     \<lparr>ifa_name = str_bytes ''wlan0'' @ [0], ifa_addr = Some (AF_PACKET [0xA, 0xB, 0xC, 0xD, 0xE, 0xF])\<rparr>,
     \<lparr>ifa_name = str_bytes ''wlan0'' @ [0], ifa_addr = Some (AF_INET (str_bytes ''10.0.0.2'' @ [0])
        (str_bytes ''255.0.0.0'' @ [0]))\<rparr>]"

definition demo_netdevice :: netdevice where
  "demo_netdevice = \<lparr>getifaddrs = Some demo_addrs, sock_ok = True, ioctl = (\<lambda>r n. if r = SIOCGIWNAME then None else Some 3)\<rparr>"

lemma usable_demo: "\<forall>a\<in>set demo_addrs. usable_ifa demo_alloc a"
  by code_simp

theorem get_interface_correct_witness:
  "\<forall>j. (\<exists>d. get_interface demo_netdevice demo_alloc j (Some (str_bytes ''wlan0'' @ [0])) = Inr (Some d) \<and>
      chars (if_mac d) = str_bytes ''0a:0b:0c:0d:0e:0f'' \<and> chars (a_ip (if_ipv4 d)) = str_bytes ''10.0.0.2'' \<and>
      if_index d = 3 \<and> \<not> if_wifi d) \<and>
    get_interface demo_netdevice demo_alloc j (Some (str_bytes ''lo'' @ [0])) = Inr None"
proof -
  have n: "named (Some (str_bytes ''wlan0'' @ [0]))" "named (Some (str_bytes ''lo'' @ [0]))"
    by (simp_all add: named_def)
  have g: "getifaddrs demo_netdevice = Some demo_addrs" "sock_ok demo_netdevice"
    "ioctl demo_netdevice = (\<lambda>r n. if r = SIOCGIWNAME then None else Some 3)"
    by (simp_all add: demo_netdevice_def)
  have e: "entries_of (chars (Some (str_bytes ''lo'' @ [0]))) demo_addrs = []"
    "entries_of (chars (Some (str_bytes ''wlan0'' @ [0]))) demo_addrs = tl demo_addrs"
    "tl demo_addrs \<noteq> []"
    "(case last_of packet_of (tl demo_addrs) of None \<Rightarrow> [] | Some p \<Rightarrow> mac_text p) = str_bytes ''0a:0b:0c:0d:0e:0f''"
    "(case last_of inet_of (tl demo_addrs) of None \<Rightarrow> [] | Some (x, _) \<Rightarrow> str_chars x) = str_bytes ''10.0.0.2''"
    by code_simp+
  show ?thesis
    using get_interface_correct [OF usable_demo allocates_demo_alloc g(1) n(1)]
      get_interface_correct [OF usable_demo allocates_demo_alloc g(1) n(2)]
    by (auto simp: e asked_def g(2,3))
qed

text \<open>
  Looking for an interface by its index uses a field that is never filled in: the walk compares the
  index with whatever the new structures contain.  On a machine with any address at all, and for
  any index, there are contents for which the interface listed last is found, and contents for
  which none is found.
\<close>

theorem interface_by_index_arbitrary:
  assumes "\<forall>a\<in>set as. usable_ifa mal a" "allocates mal" "getifaddrs nd = Some as" "as \<noteq> []"
  shows "(\<exists>j name. get_interface_name_by_index nd mal j i = Inr name \<and> chars name = hd (names_seen as)) \<and>
    (\<exists>j. get_interface_name_by_index nd mal j i = Inr None)"
proof -
  have idx: "if_index (fold (ifa_update mal) es f) = if_index f" for es f
  proof (induction es arbitrary: f)
    case (Cons a es)
    have "if_index (ifa_update mal a f) = if_index f"
      by (auto simp: ifa_update_def process_ifa_def and_then_def split: sum.splits option.splits sock_addr.splits)
    with Cons show ?case by simp
  qed simp
  have all: "\<exists>l. get_interfaces nd mal (\<lambda>_. f) = Inr l \<and> map name_of l = names_seen as \<and>
      (\<forall>g\<in>set l. if_index g = if_index f)" for f
  proof -
    have "if_index g = if_index f" if "gathered mal (\<lambda>_. f) as g" for g
      using that idx unfolding gathered_def by (metis blank_fields_index)
    then show ?thesis
      using get_interfaces_gathered [OF assms(1-3), of "\<lambda>_. f"] by blast
  qed
  have n: "names_seen as \<noteq> []"
    using assms(4) by (simp add: names_seen_def)
  fix f :: interface_fields
  obtain l where l: "get_interfaces nd mal (\<lambda>_. f\<lparr>if_index := i\<rparr>) = Inr l" "map name_of l = names_seen as"
      "\<forall>g\<in>set l. if_index g = i"
    using all [of "f\<lparr>if_index := i\<rparr>"] by auto
  obtain l' where l': "get_interfaces nd mal (\<lambda>_. f\<lparr>if_index := i + 1\<rparr>) = Inr l'" "\<forall>g\<in>set l'. if_index g = i + 1"
    using all [of "f\<lparr>if_index := i + 1\<rparr>"] by auto
  obtain g r where g: "l = g # r" "name_of g = hd (names_seen as)"
    using l(2) n by (metis list.exhaust list.sel(1) list.simps(8,9))
  have "get_interface_name_by_index nd mal (\<lambda>_. f\<lparr>if_index := i\<rparr>) i = Inr (if_name g)"
    using l(3) by (simp add: get_interface_name_by_index_def l(1) g(1))
  moreover have "walk (\<lambda>g. Inr (i \<noteq> if_index g)) l' = Inr None"
    using walk_total [of l' "\<lambda>g. Inr (i \<noteq> if_index g)" "\<lambda>g. i \<noteq> if_index g"] l'(2) by (auto simp: find_None_iff)
  then have "get_interface_name_by_index nd mal (\<lambda>_. f\<lparr>if_index := i + 1\<rparr>) i = Inr None"
    by (simp add: get_interface_name_by_index_def l'(1))
  ultimately show ?thesis
    using g(2) by blast
qed

theorem interface_by_index_arbitrary_witness:
  "(\<exists>j name. get_interface_name_by_index demo_netdevice demo_alloc j 3 = Inr name \<and> chars name = str_bytes ''wlan0'') \<and>
   (\<exists>j. get_interface_name_by_index demo_netdevice demo_alloc j 3 = Inr None)"
proof -
  have "getifaddrs demo_netdevice = Some demo_addrs" "demo_addrs \<noteq> []" "hd (names_seen demo_addrs) = str_bytes ''wlan0''"
    by (simp add: demo_netdevice_def) code_simp+
  then show ?thesis
    using interface_by_index_arbitrary [OF usable_demo allocates_demo_alloc, of demo_netdevice 3] by simp
qed

end
