(* ===== verification/Msg_Intf.thy ===== *)
theory Msg_Intf
  imports Arrays Interfaces
begin

section \<open>The interfaces of a machine (\<open>messaging/msg_intf.c\<close>)\<close>

text \<open>
  Two messages, one for all interfaces and one for the interfaces that the query names, answered
  from \<open>Interfaces\<close> or by the station that the query names.  The fields \<open>sta_ip\<close> and \<open>sta_port\<close> are
  called \<open>ask_ip\<close> and \<open>ask_port\<close> here, those of the elements have the prefix \<open>i_\<close>.
\<close>

record interface =
  i_ifindex :: c_long
  i_name :: cstr
  i_type :: c_int
  i_mac :: cstr
  i_wifi :: bool

record ask_msg = msg_header +
  ask_ip :: cstr
  ask_port :: c_int

record msg_intf = ask_msg +
  num_intf :: c_int
  intf_array :: "interface list"


subsection \<open>Codec\<close>

text \<open>The size counts \<open>sizeof (h->sta_ip)\<close>, a pointer, where the port is meant.\<close>

definition size_interface :: "interface \<Rightarrow> fault + c_int" where
  "size_interface x = sum_sizes [sizeof 8, strlen_ethanol (i_name x), sizeof 4, strlen_ethanol (i_mac x),
     bool_len_ethanol]"

definition size_msg_intf :: "msg_intf \<Rightarrow> fault + c_int" where
  "size_msg_intf h = sum_sizes
     [sizeof 4, sizeof 4, strlen_ethanol (p_version h), sizeof 4, strlen_ethanol (ask_ip h), sizeof 8, sizeof 4,
      size_eachu size_interface (num_intf h) (intf_array h)]"

definition encode_interface :: "interface \<Rightarrow> wcur step" where
  "encode_interface x = run_prog
     [encode_2long (i_ifindex x),
      encode_char (i_name x),
      encode_uint (i_type x),
      encode_char (i_mac x),
      encode_bool (i_wifi x)]"

definition encode_msg_intf :: "allocator \<Rightarrow> msg_intf \<Rightarrow> fault + msg_intf \<times> u8 list" where
  "encode_msg_intf mal = encode_frame mal size_msg_intf (\<lambda>h.
     [encode_header (m_type h) (m_id h) (m_size h),
      encode_char (ask_ip h),
      encode_int (ask_port h),
      encode_uint (num_intf h),
      encode_eachu encode_interface (num_intf h) (intf_array h)])"

text \<open>Every field of an element of the new array is assigned.\<close>

definition decode_interface :: "rcur \<Rightarrow> fault + interface \<times> rcur" where
  "decode_interface r = and_then (run_prog
     [into decode_2long i_ifindex_update,
      into decode_char i_name_update,
      into decode_uint i_type_update,
      into decode_char i_mac_update,
      into decode_bool i_wifi_update]
     (r, \<lparr>i_ifindex = 0, i_name = None, i_type = 0, i_mac = None, i_wifi = False\<rparr>)) (\<lambda>(r, x). Inr (x, r))"

text \<open>A count of 0 leaves the array at \<open>NULL\<close>, which is the empty array here.\<close>

definition decode_interfaces :: "(rcur \<times> msg_intf) step" where
  "decode_interfaces = (\<lambda>(r, h). and_then (decode_uint r) (\<lambda>(n, r).
     and_then (decode_eachu decode_interface n r) (\<lambda>(xs, r). Inr (r, h\<lparr>num_intf := n, intf_array := xs\<rparr>))))"

definition decode_msg_intf :: "u8 list \<Rightarrow> msg_intf \<Rightarrow> fault + msg_intf" where
  "decode_msg_intf = decode_frame
     [decode_header,
      into decode_char ask_ip_update,
      into decode_int ask_port_update,
      decode_interfaces]"


subsection \<open>Senders\<close>

text \<open>
  The element for a named interface is allocated with \<open>malloc\<close>, and its fields \<open>intf_type\<close> and \<open>is_wifi\<close>
  keep the contents \<open>x0\<close> of the block.  The test of the type of the answer contains an assignment,
  \<open>(returned_type == MSG_GET_ALL_INTF) || (returned_type = MSG_GET_ONE_INTF)\<close>, and is always true.
\<close>

definition ask_interface :: "env \<Rightarrow> cstr \<Rightarrow> interface \<Rightarrow> msg_intf step" where
  "ask_interface e intf x0 h =
     (if intf = None then Inr (h\<lparr>num_intf := 0, intf_array := []\<rparr>)
      else and_then (copy_string (mallocs e) intf) (\<lambda>n.
        Inr (h\<lparr>num_intf := 1, intf_array := [x0\<lparr>i_ifindex := 0, i_name := n, i_mac := None\<rparr>]\<rparr>)))"

definition generic_get_intf_msg ::
  "c_int \<Rightarrow> env \<Rightarrow> cstr \<Rightarrow> c_int \<Rightarrow> c_int \<Rightarrow> cstr \<Rightarrow> cstr \<Rightarrow> c_int \<Rightarrow> interface \<Rightarrow> msg_intf \<Rightarrow> msg_intf
   \<Rightarrow> fault + effect list \<times> c_int \<times> msg_intf option" where
  "generic_get_intf_msg mt e hostname portnum idc intf staip staport x0 hs hm =
     (if \<not> (mt = MSG_GET_ALL_INTF \<or> mt = MSG_GET_ONE_INTF) then Inr ([], idc, None)
      else send_sync e hostname portnum idc
       (\<lambda>i. run_prog
         [assign m_type_update mt,
          assign m_id_update i,
          copy_to e p_version_update ETHANOL_VERSION,
          copy_to e ask_ip_update staip,
          assign ask_port_update staport,
          ask_interface e intf x0,
          set_size size_msg_intf] hs)
       (encode_msg_intf (mallocs e))
       (\<lambda>t. True)
       (\<lambda>buf. decode_msg_intf buf hm))"

definition send_msg_get_interfaces ::
  "env \<Rightarrow> cstr \<Rightarrow> c_int \<Rightarrow> c_int \<Rightarrow> cstr \<Rightarrow> c_int \<Rightarrow> interface \<Rightarrow> msg_intf \<Rightarrow> msg_intf
   \<Rightarrow> fault + effect list \<times> c_int \<times> msg_intf option" where
  "send_msg_get_interfaces e hostname portnum idc staip staport =
     generic_get_intf_msg MSG_GET_ALL_INTF e hostname portnum idc None staip staport"

definition send_msg_get_one_intf ::
  "env \<Rightarrow> cstr \<Rightarrow> c_int \<Rightarrow> c_int \<Rightarrow> cstr \<Rightarrow> cstr \<Rightarrow> c_int \<Rightarrow> interface \<Rightarrow> msg_intf \<Rightarrow> msg_intf
   \<Rightarrow> fault + effect list \<times> c_int \<times> msg_intf option" where
  "send_msg_get_one_intf = generic_get_intf_msg MSG_GET_ONE_INTF"


subsection \<open>The handler\<close>

definition of_fields :: "interface_fields \<Rightarrow> interface" where
  "of_fields d = \<lparr>i_ifindex = scast (if_index d), i_name = if_name d, i_type = if_type d, i_mac = if_mac d,
     i_wifi = if_wifi d\<rparr>"

text \<open>What the handler knows of an interface that the query names; the name is that of the query.\<close>

definition fill_interface ::
  "netdevice \<Rightarrow> env \<Rightarrow> (nat \<Rightarrow> interface_fields) \<Rightarrow> interface \<Rightarrow> fault + interface" where
  "fill_interface nd e j x = and_then (get_interface nd (mallocs e) j (i_name x)) (\<lambda>f. Inr (case f of
       None \<Rightarrow> x
     | Some f \<Rightarrow> x\<lparr>i_ifindex := scast (if_index f), i_type := if_type f, i_mac := if_mac f, i_wifi := if_wifi f\<rparr>))"

primrec fill_interfaces ::
  "netdevice \<Rightarrow> env \<Rightarrow> (nat \<Rightarrow> interface_fields) \<Rightarrow> interface list \<Rightarrow> fault + interface list" where
  "fill_interfaces nd e j [] = Inr []"
| "fill_interfaces nd e j (x # xs) = and_then (fill_interface nd e j x) (\<lambda>y.
     and_then (fill_interfaces nd e j xs) (\<lambda>ys. Inr (y # ys)))"

text \<open>
  The station is asked with the address of the id of the message, which the sender increments.
\<close>

definition process_msg_intf ::
  "netdevice \<Rightarrow> (nat \<Rightarrow> interface_fields) \<Rightarrow> interface \<Rightarrow> env \<Rightarrow> u8 list \<Rightarrow> msg_intf \<Rightarrow> msg_intf \<Rightarrow> msg_intf
   \<Rightarrow> fault + effect list \<times> u8 list option" where
  "process_msg_intf nd j x0 e input hm hs hm' = and_then (decode_msg_intf input hm) (\<lambda>h.
     and_then
       (if ask_ip h = None then
          (if m_type h = MSG_GET_ALL_INTF then
             and_then (get_all_interfaces nd (mallocs e) j) (\<lambda>p. Inr ([], case p of
               Some (n, d) \<Rightarrow> h\<lparr>num_intf := n, intf_array := map of_fields d\<rparr>
             | None \<Rightarrow> h\<lparr>num_intf := 0, intf_array := []\<rparr>))
           else and_then (fill_interfaces nd e j (intf_array h)) (\<lambda>xs. Inr ([], h\<lparr>intf_array := xs\<rparr>)))
        else
          and_then
            (if m_type h = MSG_GET_ALL_INTF then
               send_msg_get_interfaces e (ask_ip h) (ask_port h) (m_id h) None 0 x0 hs hm'
             else
               send_msg_get_one_intf e (ask_ip h) (ask_port h) (m_id h)
                 (if num_intf h \<noteq> 0 then i_name (intf_array h ! 0) else None) None 0 x0 hs hm')
            (\<lambda>(ev, i, h1). Inr (ev, case h1 of
               None \<Rightarrow> h\<lparr>m_id := i\<rparr>
             | Some h1 \<Rightarrow> h\<lparr>m_id := i, num_intf := num_intf h1, intf_array := intf_array h1\<rparr>)))
       (\<lambda>(ev, h). and_then (encode_msg_intf (mallocs e) h) (\<lambda>(_, output). Inr (ev, Some output))))"


subsection \<open>The codec\<close>

definition ser_interface :: "interface \<Rightarrow> u8 list" where
  "ser_interface x = le_bytes 8 (i_ifindex x) @ ser_str (i_name x) @ le_bytes 4 (i_type x) @ ser_str (i_mac x)
     @ ser_bool (i_wifi x)"

definition ok_interface :: "interface \<Rightarrow> bool" where
  "ok_interface x \<longleftrightarrow> ok_str (i_name x) \<and> ok_str (i_mac x)"

definition norm_interface :: "interface \<Rightarrow> interface" where
  "norm_interface x = x\<lparr>i_name := canon (i_name x), i_mac := canon (i_mac x)\<rparr>"

definition bytes_interface :: "interface \<Rightarrow> nat" where
  "bytes_interface x = slen (i_name x) + slen (i_mac x) + 26"

definition bytes_intf :: "msg_intf \<Rightarrow> nat" where
  "bytes_intf h = slen (p_version h) + slen (ask_ip h) + sum_list (map bytes_interface (intf_array h)) + 34"

definition ok_intf :: "msg_intf \<Rightarrow> bool" where
  "ok_intf h \<longleftrightarrow> ok_header h \<and> ok_str (ask_ip h) \<and> counted (num_intf h) (intf_array h) \<and>
     (\<forall>x\<in>set (intf_array h). ok_interface x) \<and> bytes_intf h < 2 ^ 31"

definition norm_intf :: "msg_intf \<Rightarrow> msg_intf \<Rightarrow> msg_intf" where
  "norm_intf h0 h = (norm_header (bytes_intf h) h)\<lparr>ask_ip := canon (ask_ip h),
     intf_array := map norm_interface (intf_array h)\<rparr>"

lemma norm_intf_simps [simp]:
  "m_type (norm_intf h0 h) = m_type h" "m_id (norm_intf h0 h) = m_id h" "ask_ip (norm_intf h0 h) = canon (ask_ip h)"
  "ask_port (norm_intf h0 h) = ask_port h" "num_intf (norm_intf h0 h) = num_intf h"
  "intf_array (norm_intf h0 h) = map norm_interface (intf_array h)"
  by (simp_all add: norm_intf_def norm_header_def)

lemma encode_interface_put: "ok_interface x \<Longrightarrow> encode_interface x = put (ser_interface x)"
  using run_prog_put_all [of "[le_bytes 8 (i_ifindex x), ser_str (i_name x), le_bytes 4 (i_type x), ser_str (i_mac x),
    ser_bool (i_wifi x)]"]
  by (simp add: encode_interface_def ok_interface_def encode_char_put codec ser_interface_def)

lemma decode_interface_ser: "ok_interface x \<Longrightarrow> decode_interface (ser_interface x @ r) = Inr (norm_interface x, r)"
  by (simp add: decode_interface_def ser_interface_def ok_interface_def codec norm_interface_def)

lemma decode_interface_eats:
  "decode_interface r = Inl Read_Out_Of_Bounds \<or> (\<exists>x r'. decode_interface r = Inr (x, r') \<and> length r' < length r)"
proof -
  have e: "eats 8 (run_prog
     [into decode_2long i_ifindex_update,
      into decode_char i_name_update,
      into decode_uint i_type_update,
      into decode_char i_mac_update,
      into decode_bool i_wifi_update])"
    by (rule eats_run_prog) (auto simp: scalar_eats char_eats)
  show ?thesis
    unfolding decode_interface_def
    by (rule eats_cases [OF e, of r "\<lparr>i_ifindex = 0, i_name = None, i_type = 0, i_mac = None, i_wifi = False\<rparr>"]) auto
qed

lemma size_interface_ok: "ok_interface x \<Longrightarrow> size_interface x = sizeof (bytes_interface x)"
  by (simp add: size_interface_def ok_interface_def bytes_interface_def ac_simps)

lemma length_ser_interface: "length (ser_interface x) \<le> bytes_interface x"
  using length_ser_str_le [of "i_name x"] length_ser_str_le [of "i_mac x"]
  by (simp add: ser_interface_def bytes_interface_def)

lemma decode_interfaces_ser:
  assumes "counted n xs" "\<And>x. x \<in> set xs \<Longrightarrow> ok_interface x"
  shows "decode_interfaces (le_bytes 4 n @ concat (map ser_interface xs) @ r, h)
    = Inr (r, h\<lparr>num_intf := n, intf_array := map norm_interface xs\<rparr>)"
  using decode_each_ser [OF assms(1), of decode_interface ser_interface norm_interface]
    decode_interface_ser [OF assms(2)] eachu_each(3) [OF assms(1), of decode_interface]
  by (simp add: decode_interfaces_def uint_f.dec_ser)

interpretation intf_m: msg_codec encode_msg_intf decode_msg_intf ok_intf norm_intf bytes_intf m_type
  unfolding encode_msg_intf_def [abs_def] decode_msg_intf_def
proof (rule frame_codecI [where bss = "\<lambda>m. [ser_str (ask_ip m), le_bytes 4 (ask_port m), le_bytes 4 (num_intf m),
    concat (map ser_interface (intf_array m))]"], goal_cases)
  case (1 m)
  have "size_eachu size_interface (num_intf m) (intf_array m) = sizeof (sum_list (map bytes_interface (intf_array m)))"
    using 1 size_interface_ok by (subst eachu_each) (auto simp: ok_intf_def intro!: size_each_sum)
  with 1 show ?case
    by (simp add: ok_intf_def ok_header_def size_msg_intf_def bytes_intf_def ac_simps)
next
  case (3 m)
  then have "encode_eachu encode_interface (num_intf m) (intf_array m) = put (concat (map ser_interface (intf_array m)))"
    by (subst eachu_each) (auto simp: ok_intf_def encode_interface_put intro!: encode_each_put)
  with 3 show ?case
    by (simp add: ok_intf_def codec encode_char_put)
next
  case (4 m)
  then show ?case
    using length_concat_le [of "intf_array m" ser_interface bytes_interface] length_ser_interface
      length_ser_str_le [of "ask_ip m"]
    by (simp add: ok_intf_def ok_header_def bytes_intf_def)
next
  case (5 m r h0)
  then show ?case
    using decode_interfaces_ser [of "num_intf m" "intf_array m" r]
    by (simp add: ok_intf_def codec norm_intf_def norm_header_def)
qed (simp_all add: ok_intf_def)


subsection \<open>Asking for an interface\<close>

text \<open>The MAC address of an interface as it is sent: \<open>NULL\<close> when the system lists none.\<close>

definition known_mac :: "ifaddrs list \<Rightarrow> u8 list \<Rightarrow> cstr" where
  "known_mac as n = (case last_of packet_of (entries_of n as) of None \<Rightarrow> None | Some p \<Rightarrow> Some (mac_text p @ [0]))"

lemma mac_text_length: "length p = 6 \<Longrightarrow> length (mac_text p) = 17"
  by (simp add: mac_text_def)

lemma last_of_in: "last_of g as = Some x \<Longrightarrow> \<exists>a\<in>set as. g a = Some x"
  by (induction as rule: rev_induct) (auto split: option.splits)

lemma known_packet:
  assumes "\<forall>a\<in>set as. usable_ifa mal a" "last_of packet_of (entries_of n as) = Some p"
  shows "length p = 6"
proof -
  obtain a where "a \<in> set as" "packet_of a = Some p"
    using last_of_in [OF assms(2)] by (auto simp: entries_of_def)
  then show ?thesis
    using assms(1) by (force simp: packet_of_def usable_ifa_def split: option.splits sock_addr.splits)
qed

lemma canon_chars: "canon s = (if chars s = [] then None else Some (chars s @ [0]))"
  by (simp add: canon_def)

text \<open>What a machine fills in for an interface of which only the name is known.\<close>

lemma fill_interface_known:
  assumes "\<forall>a\<in>set as. usable_ifa (mallocs e) a" "allocates (mallocs e)" "getifaddrs nd = Some as"
    and "named (i_name x)" "i_mac x = None"
  obtains y where "fill_interface nd e j x = Inr y" "i_name y = i_name x" "canon (i_mac y) = known_mac as (chars (i_name x))"
    "slen (i_mac y) \<le> 17" "wf_str (i_mac y)"
    "entries_of (chars (i_name x)) as \<noteq> [] \<Longrightarrow>
       i_wifi y = (sock_ok nd \<and> ioctl nd SIOCGIWNAME (ifr_name (chars (i_name x))) \<noteq> None)"
proof (cases "entries_of (chars (i_name x)) as = []")
  case True
  then have "fill_interface nd e j x = Inr x"
    using get_interface_known [OF assms(1-4), of j] by (simp add: fill_interface_def)
  then show ?thesis
    by (rule that) (use assms(5) True in \<open>simp_all add: known_mac_def\<close>)
next
  case False
  then obtain d where d: "get_interface nd (mallocs e) j (i_name x) = Inr (Some d)"
      "chars (if_mac d) = (case last_of packet_of (entries_of (chars (i_name x)) as) of None \<Rightarrow> [] | Some p \<Rightarrow> mac_text p)"
      "if_wifi d = (sock_ok nd \<and> ioctl nd SIOCGIWNAME (ifr_name (chars (i_name x))) \<noteq> None)" "wf_str (if_mac d)"
    using get_interface_known [OF assms(1-4), of j] by auto
  let ?y = "x\<lparr>i_ifindex := scast (if_index d), i_type := if_type d, i_mac := if_mac d, i_wifi := if_wifi d\<rparr>"
  have "fill_interface nd e j x = Inr ?y"
    by (simp add: fill_interface_def d(1))
  moreover have "canon (if_mac d) = known_mac as (chars (i_name x))" "slen (if_mac d) \<le> 17"
    using known_packet [OF assms(1), of "chars (i_name x)"] mac_text_length
    by (auto simp: canon_chars known_mac_def d(2) slen_def mac_text_def hex2_def split: option.splits)
  ultimately show ?thesis
    using that [of ?y] d(3,4) by simp
qed

lemma send_one_eq:
  assumes "copyable (mallocs e) ETHANOL_VERSION" "copyable (mallocs e) intf" "intf \<noteq> None" "copyable (mallocs e) staip"
    and "slen intf + slen staip < 2 ^ 31 - 200"
  obtains q where "ok_intf q" "m_type q = MSG_GET_ONE_INTF" "m_id q = i" "canon (ask_ip q) = canon staip"
    "ask_port q = staport" "num_intf q = 1" "intf_array q = [x0\<lparr>i_ifindex := 0, i_name := dup (mallocs e) intf, i_mac := None\<rparr>]"
    "bytes_intf q = slen intf + slen staip + 65"
    "send_msg_get_one_intf e host port i intf staip staport x0 hs hm
       = send_sync e host port i (\<lambda>_. Inr q) (encode_msg_intf (mallocs e)) (\<lambda>t. True) (\<lambda>b. decode_msg_intf b hm)"
proof -
  let ?mal = "mallocs e"
  let ?p = "hs\<lparr>m_type := MSG_GET_ONE_INTF, m_id := i, p_version := dup ?mal ETHANOL_VERSION,
      ask_ip := dup ?mal staip, ask_port := staport, num_intf := 1,
      intf_array := [x0\<lparr>i_ifindex := 0, i_name := dup ?mal intf, i_mac := None\<rparr>]\<rparr>"
  have ok: "ok_intf ?p" and b: "bytes_intf ?p = slen intf + slen staip + 65"
    using assms dup_simps(3,5) [of ?mal]
    by (simp_all add: ok_intf_def ok_header_def counted_def ok_interface_def bytes_intf_def bytes_interface_def)
  have s: "size_msg_intf ?p = sizeof (bytes_intf ?p)"
    using ok eachu_each(2) [of 1 "intf_array ?p" size_interface]
      size_each_sum [of 1 "intf_array ?p" size_interface bytes_interface] size_interface_ok
    by (simp add: size_msg_intf_def ok_intf_def ok_header_def bytes_intf_def ac_simps)
  let ?q = "?p\<lparr>m_size := word_of_nat (bytes_intf ?p)\<rparr>"
  have "run_prog [assign m_type_update MSG_GET_ONE_INTF, assign m_id_update i, copy_to e p_version_update ETHANOL_VERSION,
      copy_to e ask_ip_update staip, assign ask_port_update staport, ask_interface e intf x0, set_size size_msg_intf] hs
      = Inr ?q"
    using assms set_size_ok [of size_msg_intf ?p, OF s] by (simp add: ask_interface_def del: not_None_eq)
  then have "send_msg_get_one_intf e host port i intf staip staport x0 hs hm
       = send_sync e host port i (\<lambda>_. Inr ?q) (encode_msg_intf ?mal) (\<lambda>t. True) (\<lambda>b. decode_msg_intf b hm)"
    unfolding send_msg_get_one_intf_def generic_get_intf_msg_def by (subst send_sync_built) simp_all
  then show ?thesis
    by (rule that [rotated -1])
      (use ok b assms in \<open>simp_all add: ok_intf_def ok_header_def bytes_intf_def\<close>)
qed

lemma one_intf_answer:
  assumes q: "ok_intf q" "allocates mal" "encode_msg_intf mal q = Inr (q', wire)" "m_type q = MSG_GET_ONE_INTF"
      "slen (ask_ip q) = 0" "num_intf q = 1" "intf_array q = [x]" "0 < slen (i_name x)" "i_mac x = None"
      "bytes_intf q < 2 ^ 31 - 100"
    and e: "\<forall>a\<in>set as. usable_ifa (mallocs e) a" "allocates (mallocs e)" "getifaddrs nd = Some as"
  shows "\<exists>out y. process_msg_intf nd j x0 e (wire @ r) hm hs hm' = Inr ([], Some out) \<and>
    of_type MSG_GET_ONE_INTF out \<and>
    (\<forall>r h0. \<exists>a. decode_msg_intf (out @ r) h0 = Inr a \<and> m_id a = m_id q \<and> num_intf a = 1 \<and> intf_array a = [y]) \<and>
    i_name y = canon (i_name x) \<and> i_mac y = known_mac as (chars (i_name x)) \<and>
    (entries_of (chars (i_name x)) as \<noteq> [] \<longrightarrow>
       i_wifi y = (sock_ok nd \<and> ioctl nd SIOCGIWNAME (ifr_name (chars (i_name x))) \<noteq> None))"
proof -
  let ?x = "norm_interface x" and ?h = "norm_intf hm q"
  have "named (i_name ?x)"
    using q(8) canon_eq_None [of "i_name x"] by (simp add: norm_interface_def named_def del: not_None_eq)
  moreover have xs: "i_mac ?x = None" "chars (i_name ?x) = chars (i_name x)" "i_name ?x = canon (i_name x)"
    by (simp_all add: norm_interface_def q(9))
  ultimately obtain y where y: "fill_interface nd e j ?x = Inr y" "i_name y = canon (i_name x)"
      "canon (i_mac y) = known_mac as (chars (i_name x))" "slen (i_mac y) \<le> 17" "wf_str (i_mac y)"
      "entries_of (chars (i_name x)) as \<noteq> [] \<Longrightarrow>
         i_wifi y = (sock_ok nd \<and> ioctl nd SIOCGIWNAME (ifr_name (chars (i_name x))) \<noteq> None)"
    using fill_interface_known [OF e, of ?x j] by (metis (no_types, lifting))
  let ?a = "?h\<lparr>intf_array := [y]\<rparr>"
  have f: "m_type ?h = MSG_GET_ONE_INTF" "ask_ip ?h = None" "intf_array ?h = [?x]" "num_intf ?h = 1" "m_id ?h = m_id q"
    using q(4-7) canon_eq_None [of "ask_ip q"] by (simp_all add: norm_intf_def norm_header_def)
  have n: "slen (i_name x) < 2 ^ 31 - 100"
    using q(1,7,10) by (simp add: ok_intf_def ok_header_def bytes_intf_def bytes_interface_def)
  have ok: "ok_intf ?a"
    using n y(2,4,5) f by (simp add: ok_intf_def norm_intf_def counted_def ok_interface_def ok_str_def
        bytes_intf_def bytes_interface_def ok_header_def norm_header_def)
  obtain a' out where o: "encode_msg_intf (mallocs e) ?a = Inr (a', out)"
    using intf_m.enc_no_fault [OF ok e(2)] by blast
  have "process_msg_intf nd j x0 e (wire @ r) hm hs hm' = Inr ([], Some out)"
    using intf_m.roundtrip [OF q(1-3), of r hm] f y(1) o by (simp add: process_msg_intf_def)
  moreover have "of_type MSG_GET_ONE_INTF out"
    using intf_m.wire_type [OF ok e(2) o] f(1) by simp
  moreover have "\<exists>a. decode_msg_intf (out @ r) h0 = Inr a \<and> m_id a = m_id q \<and> num_intf a = 1 \<and> intf_array a = [norm_interface y]"
    for r h0
    using intf_m.roundtrip [OF ok e(2) o, of r h0] f by simp
  moreover have "i_name (norm_interface y) = canon (i_name x)" "i_mac (norm_interface y) = known_mac as (chars (i_name x))"
    "i_wifi (norm_interface y) = i_wifi y"
    using y(2,3) by (simp_all add: norm_interface_def)
  ultimately show ?thesis
    using y(6) by metis
qed

lemma one_intf_query:
  assumes "copyable (mallocs e) ETHANOL_VERSION" "copyable (mallocs e) intf" "intf \<noteq> None"
      "slen intf < 2 ^ 31 - 200" "allocates (mallocs e)" "reaches e host port"
    and "\<forall>a\<in>set as. usable_ifa (mallocs e2) a" "allocates (mallocs e2)" "getifaddrs nd = Some as"
    and "serves e host port MSG_GET_ONE_INTF (\<lambda>req. process_msg_intf nd j x2 e2 (req @ stack) hm2 hs2 hm2')"
  shows "\<exists>req a y. send_msg_get_one_intf e host port i intf None 0 x0 hs hm = Inr (session e host port req, i + 1, Some a) \<and>
    m_id a = i \<and> num_intf a = 1 \<and> intf_array a = [y] \<and> i_name y = canon intf \<and> i_mac y = known_mac as (chars intf)"
proof -
  have "slen intf + slen None < 2 ^ 31 - 200"
    using assms(4) by simp
  from send_one_eq [OF assms(1-3) copyable_None this, of i 0 x0 host port hs hm]
  obtain q where q: "ok_intf q" "m_type q = MSG_GET_ONE_INTF" "m_id q = i" "canon (ask_ip q) = canon None"
      "num_intf q = 1" "intf_array q = [x0\<lparr>i_ifindex := 0, i_name := dup (mallocs e) intf, i_mac := None\<rparr>]"
      "bytes_intf q = slen intf + slen None + 65"
    and s: "send_msg_get_one_intf e host port i intf None 0 x0 hs hm
       = send_sync e host port i (\<lambda>_. Inr q) (encode_msg_intf (mallocs e)) (\<lambda>t. True) (\<lambda>b. decode_msg_intf b hm)"
    by blast
  obtain q' req where w: "encode_msg_intf (mallocs e) q = Inr (q', req)"
    using intf_m.enc_no_fault [OF q(1) assms(5)] by blast
  have len: "slen (ask_ip q) = 0" "0 < slen (dup (mallocs e) intf)" "bytes_intf q < 2 ^ 31 - 100"
    using q(4,7) canon_eq_None [of "ask_ip q"] assms(2-4) by (auto simp: copyable_def)
  let ?x = "x0\<lparr>i_ifindex := 0, i_name := dup (mallocs e) intf, i_mac := None\<rparr>"
  obtain out y where out: "process_msg_intf nd j x2 e2 (req @ stack) hm2 hs2 hm2' = Inr ([], Some out)"
      "of_type MSG_GET_ONE_INTF out"
      "\<And>r h0. \<exists>a. decode_msg_intf (out @ r) h0 = Inr a \<and> m_id a = m_id q \<and> num_intf a = 1 \<and> intf_array a = [y]"
      "i_name y = canon (i_name ?x)" "i_mac y = known_mac as (chars (i_name ?x))"
    using one_intf_answer [OF q(1) assms(5) w q(2) len(1) q(5,6) _ _ len(3) assms(7-9), of j x2 stack hm2 hs2 hm2'] len(2)
    by auto
  obtain r where r: "ssl_read e host port req = out @ r"
    using servesD [OF assms(10) _ out(1)] intf_m.wire_type [OF q(1) assms(5) w] q(2) by auto
  obtain a where a: "decode_msg_intf (out @ r) hm = Inr a" "m_id a = m_id q" "num_intf a = 1" "intf_array a = [y]"
    using out(3) by blast
  have "send_msg_get_one_intf e host port i intf None 0 x0 hs hm = Inr (session e host port req, i + 1, Some a)"
    using a(1) of_type_message [OF out(2), of r] close_open_connection [OF assms(6), of req]
    by (simp add: s send_sync_def assms(6) w r Let_def)
  then show ?thesis
    using a q(3) out(4,5) assms(2) by auto
qed

text \<open>
  C25 Asking a machine for one of its interfaces.  When the machine at the address runs the handler, the
  client gets one interface back, with the name that it asked for and with the MAC address
  that the machine has for it.  An interface that the machine does not have is not reported as an
  error: the answer has the same form, with an empty MAC address.
\<close>

theorem one_intf_end_to_end:
  assumes "copyable (mallocs e) ETHANOL_VERSION" "copyable (mallocs e) intf" "intf \<noteq> None"
      "slen intf < 2 ^ 31 - 200" "allocates (mallocs e)" "reaches e host port"
    and "\<forall>a\<in>set as. usable_ifa (mallocs e2) a" "allocates (mallocs e2)" "getifaddrs nd = Some as"
    and "serves e host port MSG_GET_ONE_INTF (\<lambda>req. process_msg_intf nd j x2 e2 (req @ stack) hm2 hs2 hm2')"
  shows "\<exists>req a y. send_msg_get_one_intf e host port i intf None 0 x0 hs hm = Inr (session e host port req, i + 1, Some a) \<and>
    m_id a = i \<and> num_intf a = 1 \<and> intf_array a = [y] \<and> i_name y = canon intf \<and> i_mac y = known_mac as (chars intf)"
  by (rule one_intf_query [OF assms])

definition demo_msg_intf :: msg_intf where
  "demo_msg_intf = \<lparr>m_type = 0, m_id = 0, p_version = None, m_size = 0, ask_ip = None, ask_port = 0, num_intf = 0,
     intf_array = []\<rparr>"

definition demo_interface :: interface where
  "demo_interface = \<lparr>i_ifindex = 9, i_name = None, i_type = 9, i_mac = None, i_wifi = True\<rparr>"

theorem one_intf_end_to_end_witness:
  "\<forall>j. \<exists>req a y. send_msg_get_one_intf (demo_env\<lparr>ssl_read := demo_peer (\<lambda>req. process_msg_intf demo_netdevice j
       demo_interface demo_env (req @ [5]) demo_msg_intf demo_msg_intf demo_msg_intf)\<rparr>)
     demo_name 22223 4 (Some (str_bytes ''wlan0'' @ [0])) None 0 demo_interface demo_msg_intf demo_msg_intf
     = Inr (session demo_env demo_name 22223 req, 5, Some a) \<and> intf_array a = [y] \<and>
       i_mac y = Some (str_bytes ''0a:0b:0c:0d:0e:0f'' @ [0])"
proof
  fix j
  let ?srv = "\<lambda>req. process_msg_intf demo_netdevice j
       demo_interface demo_env (req @ [5]) demo_msg_intf demo_msg_intf demo_msg_intf"
  let ?e = "demo_env\<lparr>ssl_read := demo_peer ?srv\<rparr>" and ?w = "Some (str_bytes ''wlan0'' @ [0])"
  have m: "mallocs ?e = demo_alloc" "mallocs demo_env = demo_alloc" "getifaddrs demo_netdevice = Some demo_addrs"
    by (simp_all add: demo_env_def demo_netdevice_def)
  have k: "chars ?w = str_bytes ''wlan0''" "slen ?w = 5" "wf_str ?w"
    "known_mac demo_addrs (str_bytes ''wlan0'') = Some (str_bytes ''0a:0b:0c:0d:0e:0f'' @ [0])"
    by code_simp+
  have c: "copyable (mallocs ?e) ETHANOL_VERSION" "copyable (mallocs ?e) ?w"
    unfolding m by (rule copyable_demo_alloc; use k in simp)+
  have "reaches ?e demo_name 22223"
    by (simp add: reaches_def demo_env_def)
  moreover have "session ?e demo_name 22223 req = session demo_env demo_name 22223 req" for req
    by (simp add: session_def)
  moreover have "\<forall>a\<in>set demo_addrs. usable_ifa (mallocs demo_env) a" "allocates (mallocs ?e)" "allocates (mallocs demo_env)"
    using usable_demo allocates_demo_alloc unfolding m by blast+
  moreover have "slen ?w < 2 ^ 31 - 200" "?w \<noteq> None"
    using k(2) by simp_all
  moreover have "serves ?e demo_name 22223 MSG_GET_ONE_INTF ?srv"
    by (rule serves_demo_peer)
  ultimately show "\<exists>req a y. send_msg_get_one_intf ?e demo_name 22223 4 ?w None 0 demo_interface demo_msg_intf demo_msg_intf
     = Inr (session demo_env demo_name 22223 req, 5, Some a) \<and> intf_array a = [y] \<and>
       i_mac y = Some (str_bytes ''0a:0b:0c:0d:0e:0f'' @ [0])"
    using one_intf_end_to_end [OF c, of demo_name 22223 demo_addrs demo_env demo_netdevice j demo_interface "[5]"
        demo_msg_intf demo_msg_intf demo_msg_intf 4 demo_interface demo_msg_intf demo_msg_intf] m(3) k(1,4) by fastforce
qed

text \<open>
  C26 The sender takes any answer for a list of interfaces, because the test of its type assigns instead
  of comparing.  When the server refuses the request with an error message, what follows that
  message in the buffer is decoded: the count of interfaces is then four stale bytes of the
  stack.  If they are 0 the refusal looks like an empty answer; if they announce more interfaces
  than the rest of the buffer holds, the sender reads behind its buffer.
\<close>

theorem intf_error_taken_for_answer:
  fixes n p :: c_int
  assumes "copyable (mallocs e) ETHANOL_VERSION" "copyable (mallocs e) intf" "intf \<noteq> None"
      "slen intf < 2 ^ 31 - 200" "allocates (mallocs e)" "reaches e host port"
    and refused: "\<And>req. ssl_read e host port req
      = ser_header MSG_ERR_TYPE i 26 @ le_bytes 4 (0 :: c_int) @ le_bytes 4 p @ le_bytes 4 n @ rest"
  shows "(n = 0 \<longrightarrow> (\<exists>ev a. send_msg_get_one_intf e host port i intf None 0 x0 hs hm = Inr (ev, i + 1, Some a) \<and>
      m_type a = MSG_ERR_TYPE \<and> intf_array a = [])) \<and>
    (length rest < unat n \<longrightarrow> send_msg_get_one_intf e host port i intf None 0 x0 hs hm = Inl Read_Out_Of_Bounds)"
proof -
  have "slen intf + slen None < 2 ^ 31 - 200"
    using assms(4) by simp
  from send_one_eq [OF assms(1-3) copyable_None this, of i 0 x0 host port hs hm]
  obtain q where q: "ok_intf q"
    and s: "send_msg_get_one_intf e host port i intf None 0 x0 hs hm
       = send_sync e host port i (\<lambda>_. Inr q) (encode_msg_intf (mallocs e)) (\<lambda>t. True) (\<lambda>b. decode_msg_intf b hm)"
    by blast
  obtain q' req where w: "encode_msg_intf (mallocs e) q = Inr (q', req)"
    using intf_m.enc_no_fault [OF q assms(5)] by blast
  let ?buf = "ser_header MSG_ERR_TYPE i 26 @ le_bytes 4 (0 :: c_int) @ le_bytes 4 p @ le_bytes 4 n @ rest"
  have c: "into decode_char ask_ip_update (le_bytes 4 (0 :: c_int) @ r, h) = Inr (r, h\<lparr>ask_ip := None\<rparr>)"
    for r and h :: msg_intf
    by (simp add: into_def decode_char_def uint_f.dec_ser)
  have d: "decode_msg_intf ?buf hm = and_then (decode_eachu decode_interface n rest) (\<lambda>(xs, r).
      Inr (hm\<lparr>m_type := MSG_ERR_TYPE, m_id := i, p_version := ETHANOL_VERSION, m_size := 26, ask_ip := None,
        ask_port := p, num_intf := n, intf_array := xs\<rparr>))"
    by (simp add: decode_msg_intf_def decode_frame_def decode_header_ser c int_f.into_ser
        decode_interfaces_def uint_f.dec_ser)
      (simp add: and_then_def split: sum.split)
  have s': "send_msg_get_one_intf e host port i intf None 0 x0 hs hm = and_then (decode_msg_intf ?buf hm)
      (\<lambda>a. Inr (session e host port req, i + 1, Some a))"
    using close_open_connection [OF assms(6), of req] return_message_type_ser [of MSG_ERR_TYPE i 26]
    by (simp add: s send_sync_def assms(6) w refused Let_def and_then_assoc)
  show ?thesis
  proof (intro conjI impI)
    assume "n = 0"
    then show "\<exists>ev a. send_msg_get_one_intf e host port i intf None 0 x0 hs hm = Inr (ev, i + 1, Some a) \<and>
      m_type a = MSG_ERR_TYPE \<and> intf_array a = []"
      unfolding s' d by (simp add: decode_eachu_def)
  next
    assume "length rest < unat n"
    then have "decode_eachu decode_interface n rest = Inl Read_Out_Of_Bounds"
      unfolding decode_eachu_def by (rule decode_times_short [OF decode_interface_eats])
    then show "send_msg_get_one_intf e host port i intf None 0 x0 hs hm = Inl Read_Out_Of_Bounds"
      unfolding s' d by simp
  qed
qed

theorem intf_error_taken_for_answer_witness:
  "send_msg_get_one_intf (demo_env\<lparr>ssl_read := \<lambda>_ _ _. ser_header MSG_ERR_TYPE 4 26 @ le_bytes 4 (0 :: c_int) @
       le_bytes 4 (7 :: c_int) @ le_bytes 4 (9 :: c_int) @ [1, 2]\<rparr>)
     demo_name 22223 4 demo_name None 0 demo_interface demo_msg_intf demo_msg_intf = Inl Read_Out_Of_Bounds"
proof -
  let ?e = "demo_env\<lparr>ssl_read := \<lambda>_ _ _. ser_header MSG_ERR_TYPE 4 26 @ le_bytes 4 (0 :: c_int) @
       le_bytes 4 (7 :: c_int) @ le_bytes 4 (9 :: c_int) @ [1, 2]\<rparr>"
  have "mallocs ?e = demo_alloc"
    by (simp add: demo_env_def)
  then have c: "copyable (mallocs ?e) ETHANOL_VERSION" "copyable (mallocs ?e) demo_name" "allocates (mallocs ?e)"
    using copyable_demo_alloc allocates_demo_alloc by simp_all
  moreover have "reaches ?e demo_name 22223"
    by (simp add: reaches_def demo_env_def)
  ultimately show ?thesis
    using intf_error_taken_for_answer [where e = ?e and n = 9 and p = 7 and rest = "[1, 2]" and i = 4
        and host = demo_name and port = 22223 and intf = demo_name] by simp
qed

end
