(* ===== verification/Devices.thy ===== *)
theory Devices
  imports Intf_Table
begin

section \<open>The devices that a controller knows (\<open>messaging/list_devices.c\<close>)\<close>

text \<open>
  The controller of the handover experiment keeps two linked lists, one of access points
  (\<open>messaging/list_aps.c\<close>) and one of stations (\<open>messaging/list_stations.c\<close>), with the address at which
  each device can be called.  The state is the list, head first; the fields of a cell are
  \<open>mac_address\<close>, \<open>hostname\<close> and \<open>port_num\<close> of the source.

  The locale \<open>device_store\<close> is what the controller relies on: the list is a map from the MAC address to
  the device, in which the first entry for an address is kept.
\<close>

record list_devices_t =
  dev_mac :: cstr
  dev_host :: cstr
  dev_port :: c_int


subsection \<open>Operations\<close>

primrec find_device :: "cstr \<Rightarrow> list_devices_t list \<Rightarrow> fault + list_devices_t option" where
  "find_device mac [] = Inr None"
| "find_device mac (p # ps) = and_then (strcmp (dev_mac p) mac) (\<lambda>eq.
     if \<not> eq then find_device mac ps else Inr (Some p))"

text \<open>The result is the element, found or new, and the list.\<close>

definition insert_device ::
  "allocator \<Rightarrow> cstr \<Rightarrow> cstr \<Rightarrow> c_int \<Rightarrow> list_devices_t list \<Rightarrow> fault + list_devices_t \<times> list_devices_t list" where
  "insert_device mal mac host port l = and_then (find_device mac l) (\<lambda>p.
     case p of
       Some d \<Rightarrow> Inr (d, l)
     | None \<Rightarrow> and_then (copy_string mal mac) (\<lambda>m.
         and_then (copy_string mal host) (\<lambda>h.
           let d = \<lparr>dev_mac = m, dev_host = h, dev_port = port\<rparr> in Inr (d, d # l))))"

text \<open>The removed element is handed to the caller.\<close>

primrec remove_device ::
  "cstr \<Rightarrow> list_devices_t list \<Rightarrow> fault + list_devices_t option \<times> list_devices_t list" where
  "remove_device mac [] = Inr (None, [])"
| "remove_device mac (p # ps) = and_then (strcmp (dev_mac p) mac) (\<lambda>eq.
     if \<not> eq then and_then (remove_device mac ps) (\<lambda>(r, ps). Inr (r, p # ps))
     else Inr (Some p, ps))"


subsection \<open>The two lists of the controller\<close>

record known_devices =
  list_of_aps :: "list_devices_t list"
  list_of_stations :: "list_devices_t list"

definition find_ap :: "cstr \<Rightarrow> 'a known_devices_scheme \<Rightarrow> fault + list_devices_t option" where
  "find_ap mac k = find_device mac (list_of_aps k)"

definition insert_ap :: "allocator \<Rightarrow> cstr \<Rightarrow> cstr \<Rightarrow> c_int \<Rightarrow> 'a known_devices_scheme step" where
  "insert_ap mal mac host port k = and_then (insert_device mal mac host port (list_of_aps k)) (\<lambda>(_, l).
     Inr (k\<lparr>list_of_aps := l\<rparr>))"

definition remove_ap ::
  "cstr \<Rightarrow> 'a known_devices_scheme \<Rightarrow> fault + list_devices_t option \<times> 'a known_devices_scheme" where
  "remove_ap mac k = and_then (remove_device mac (list_of_aps k)) (\<lambda>(d, l). Inr (d, k\<lparr>list_of_aps := l\<rparr>))"

definition find_station :: "cstr \<Rightarrow> 'a known_devices_scheme \<Rightarrow> fault + list_devices_t option" where
  "find_station mac k = find_device mac (list_of_stations k)"

definition insert_station :: "allocator \<Rightarrow> cstr \<Rightarrow> cstr \<Rightarrow> c_int \<Rightarrow> 'a known_devices_scheme step" where
  "insert_station mal mac host port k = and_then (insert_device mal mac host port (list_of_stations k)) (\<lambda>(_, l).
     Inr (k\<lparr>list_of_stations := l\<rparr>))"

definition remove_station ::
  "cstr \<Rightarrow> 'a known_devices_scheme \<Rightarrow> fault + list_devices_t option \<times> 'a known_devices_scheme" where
  "remove_station mac k = and_then (remove_device mac (list_of_stations k)) (\<lambda>(d, l).
     Inr (d, k\<lparr>list_of_stations := l\<rparr>))"


subsection \<open>The abstract map\<close>

definition wf_devices :: "list_devices_t list \<Rightarrow> bool" where
  "wf_devices l \<longleftrightarrow> (\<forall>d\<in>set l. named (dev_mac d)) \<and> distinct (map (\<lambda>d. chars (dev_mac d)) l)"

definition device_map :: "list_devices_t list \<Rightarrow> u8 list \<rightharpoonup> list_devices_t" where
  "device_map l = map_of (map (\<lambda>d. (chars (dev_mac d), d)) l)"

lemma wf_devices_simps [simp]:
  "wf_devices []"
  "wf_devices (d # l) \<longleftrightarrow> named (dev_mac d) \<and> device_map l (chars (dev_mac d)) = None \<and> wf_devices l"
  by (auto simp: wf_devices_def device_map_def map_of_eq_None_iff image_image)

lemma device_map_simps [simp]:
  "device_map [] = Map.empty" "device_map (d # l) = (device_map l)(chars (dev_mac d) \<mapsto> d)"
  by (simp_all add: device_map_def)

lemma device_map_Some: "device_map l m = Some d \<Longrightarrow> d \<in> set l \<and> chars (dev_mac d) = m"
  by (induction l) (auto split: if_split_asm)

locale device_store =
  fixes find :: "cstr \<Rightarrow> 's \<Rightarrow> fault + 'd option"
    and ins :: "allocator \<Rightarrow> cstr \<Rightarrow> cstr \<Rightarrow> c_int \<Rightarrow> 's \<Rightarrow> fault + 'd \<times> 's"
    and rem :: "cstr \<Rightarrow> 's \<Rightarrow> fault + 'd option \<times> 's"
    and wf :: "'s \<Rightarrow> bool" and abs :: "'s \<Rightarrow> u8 list \<rightharpoonup> 'd"
    and host_of :: "'d \<Rightarrow> cstr" and port_of :: "'d \<Rightarrow> c_int"
  assumes find_abs: "wf s \<Longrightarrow> named mac \<Longrightarrow> find mac s = Inr (abs s (chars mac))"
    and ins_known: "wf s \<Longrightarrow> named mac \<Longrightarrow> abs s (chars mac) = Some d \<Longrightarrow> ins mal mac host port s = Inr (d, s)"
    and ins_new: "wf s \<Longrightarrow> copyable mal mac \<Longrightarrow> mac \<noteq> None \<Longrightarrow> copyable mal host \<Longrightarrow> abs s (chars mac) = None \<Longrightarrow>
      \<exists>d s'. ins mal mac host port s = Inr (d, s') \<and> wf s' \<and> abs s' = (abs s)(chars mac \<mapsto> d) \<and>
        canon (host_of d) = canon host \<and> port_of d = port"
    and rem_abs: "wf s \<Longrightarrow> named mac \<Longrightarrow> \<exists>s'. rem mac s = Inr (abs s (chars mac), s') \<and> wf s' \<and>
        abs s' = (abs s)(chars mac := None)"
begin

lemma copyable_named: "copyable mal mac \<Longrightarrow> mac \<noteq> None \<Longrightarrow> named mac"
  using copyable_ok_str [of mal mac] ok_strD(1) [of mac] by (simp add: named_def)

text \<open>After an insertion the device is known, the others as before, and an entry is never changed.\<close>

lemma insert_find:
  assumes "wf s" "copyable mal mac" "mac \<noteq> None" "copyable mal host"
  obtains d s' where "ins mal mac host port s = Inr (d, s')" "wf s'" "find mac s' = Inr (Some d)"
    "abs s' = (abs s)(chars mac \<mapsto> d)"
    "abs s (chars mac) = None \<Longrightarrow> canon (host_of d) = canon host \<and> port_of d = port"
    "abs s (chars mac) \<noteq> None \<Longrightarrow> abs s' = abs s"
proof (cases "abs s (chars mac)")
  case None
  obtain d s' where "ins mal mac host port s = Inr (d, s')" "wf s'" "abs s' = (abs s)(chars mac \<mapsto> d)"
      "canon (host_of d) = canon host" "port_of d = port"
    using ins_new [OF assms None] by blast
  moreover from this have "find mac s' = Inr (Some d)"
    using find_abs copyable_named [OF assms(2,3)] by simp
  ultimately show ?thesis
    using that None by simp
next
  case (Some d)
  moreover have "ins mal mac host port s = Inr (d, s)" "find mac s = Inr (Some d)"
    using ins_known [OF assms(1) copyable_named [OF assms(2,3)] Some] find_abs [OF assms(1)]
      copyable_named [OF assms(2,3)] Some by simp_all
  moreover have "abs s = (abs s)(chars mac \<mapsto> d)"
    using Some by (simp add: fun_upd_idem)
  ultimately show ?thesis
    using that assms(1) by simp
qed

lemma remove_find:
  assumes "wf s" "named mac"
  obtains s' where "rem mac s = Inr (abs s (chars mac), s')" "wf s'" "find mac s' = Inr None"
    "abs s' = (abs s)(chars mac := None)"
  using rem_abs [OF assms] find_abs [OF _ assms(2)] by (metis fun_upd_same)

end

lemma find_device_map: "wf_devices l \<Longrightarrow> named mac \<Longrightarrow> find_device mac l = Inr (device_map l (chars mac))"
  by (induction l) (auto simp: strcmp_named)

lemma remove_device_map:
  assumes "wf_devices l" "named mac"
  shows "\<exists>l'. remove_device mac l = Inr (device_map l (chars mac), l') \<and> wf_devices l' \<and>
    device_map l' = (device_map l)(chars mac := None)"
  using assms(1)
proof (induction l)
  case Nil
  then show ?case by simp
next
  case (Cons d l)
  then obtain l' where l': "remove_device mac l = Inr (device_map l (chars mac), l')" "wf_devices l'"
      "device_map l' = (device_map l)(chars mac := None)"
    by (metis wf_devices_simps(2))
  show ?case
  proof (cases "chars (dev_mac d) = chars mac")
    case True
    then show ?thesis
      using Cons.prems assms(2) by (auto simp: strcmp_named fun_upd_idem)
  next
    case False
    then show ?thesis
      using Cons.prems assms(2) l' by (auto simp: strcmp_named fun_upd_twist)
  qed
qed

interpretation devices: device_store find_device insert_device remove_device wf_devices device_map dev_host dev_port
proof (unfold_locales, goal_cases)
  case (3 s mal mac host port)
  then have n: "named mac"
    using copyable_ok_str [of mal mac] ok_strD(1) [of mac] by (simp add: named_def)
  let ?d = "\<lparr>dev_mac = dup mal mac, dev_host = dup mal host, dev_port = port\<rparr>"
  have "insert_device mal mac host port s = Inr (?d, ?d # s)"
    using 3 find_device_map [OF 3(1) n] by (simp add: insert_device_def Let_def)
  then show ?case
    using 3 n ok_strD(1) [OF dup_simps(3)] by (auto simp: named_def)
qed (simp_all add: find_device_map insert_device_def remove_device_map)

text \<open>The walk compares with every element in turn: an element without an address ends it with a crash.\<close>

lemma find_device_NULL:
  assumes "\<forall>d\<in>set l. named (dev_mac d)" "named mac" "chars mac \<notin> (\<lambda>d. chars (dev_mac d)) ` set l" "dev_mac p = None"
  shows "find_device mac (l @ p # l') = Inl Null_Dereference"
proof -
  have "strcmp (dev_mac p) mac = Inl Null_Dereference"
    by (simp add: strcmp_def assms(4))
  then show ?thesis
    using assms(1,3) by (induction l) (auto simp: strcmp_named [OF _ assms(2)])
qed

text \<open>
  C23 A list of devices behaves as a map from addresses to devices.  A search finds what the map has.
  An insertion keeps a device that is known as it is, even if it is announced with another host, and
  otherwise adds it; a removal hands out what the map has and takes it away.  All three keep the
  addresses different, and touch no other device.
\<close>

theorem devices_refine_map:
  assumes "wf_devices l" "copyable mal mac" "mac \<noteq> None" "copyable mal host"
  shows "find_device mac l = Inr (device_map l (chars mac)) \<and>
    (\<exists>d l'. insert_device mal mac host port l = Inr (d, l') \<and> wf_devices l' \<and>
       (case device_map l (chars mac) of
          Some d' \<Rightarrow> d = d' \<and> l' = l
        | None \<Rightarrow> canon (dev_host d) = canon host \<and> dev_port d = port \<and>
            device_map l' = (device_map l)(chars mac \<mapsto> d))) \<and>
    (\<exists>l'. remove_device mac l = Inr (device_map l (chars mac), l') \<and> wf_devices l' \<and>
       device_map l' = (device_map l)(chars mac := None))"
proof -
  have n: "named mac"
    using devices.copyable_named assms(2,3) .
  show ?thesis
    using devices.find_abs [OF assms(1) n] devices.rem_abs [OF assms(1) n]
      devices.ins_known [OF assms(1) n, of _ mal host port] devices.ins_new [OF assms, of port] assms(1)
    by (cases "device_map l (chars mac)") auto
qed

definition demo_device_list :: "list_devices_t list" where
  "demo_device_list = [\<lparr>dev_mac = demo_name, dev_host = demo_name, dev_port = 1\<rparr>]"

theorem devices_refine_map_witness:
  "(\<exists>d. insert_device demo_alloc demo_name None 7 demo_device_list = Inr (d, demo_device_list)) \<and>
   remove_device demo_name demo_device_list = Inr (Some (demo_device_list ! 0), [])"
proof -
  have wf: "wf_devices demo_device_list" "device_map demo_device_list (chars demo_name) = Some (demo_device_list ! 0)"
    by (simp_all add: demo_device_list_def named_def)
  have "copyable demo_alloc demo_name"
    by (simp add: copyable_demo_alloc)
  from devices_refine_map [OF wf(1) this demo_name_simps(5) copyable_None, of 7]
  show ?thesis
    using wf(2) by (auto simp: demo_device_list_def strcmp_named named_def)
qed

end
