(* ===== verification/Msg_In_Range.thy ===== *)
theory Msg_In_Range
  imports Arrays Interfaces
begin

section \<open>The access points in range (\<open>messaging/msg_ap_in_range.c\<close>)\<close>

text \<open>
  A query for the access points that the radio of a machine, or of a station that the query names,
  detects; on one interface, or on all wireless ones.  The scan itself is the record \<open>scanner\<close>: what
  starting it does, and the list that it leaves (\<open>trigger_scann\<close> and \<open>get_scanning_info\<close> in the
  program of the station, \<open>trigger_scan_intf\<close> and \<open>return_ap_in_range\<close> in that of the access point).
  The fields of \<open>struct scan_info_t\<close> that the module reads have the prefix \<open>s_\<close>, those of
  \<open>struct ap_in_range\<close> the prefix \<open>r_\<close>.
\<close>

record scan_info_t =
  s_intf :: cstr
  s_mac :: cstr
  s_SSID :: cstr
  s_status :: c_int
  s_frequency :: c_long
  s_channel :: c_int
  s_dBm :: bool
  s_signal :: c_float
  s_powerconstraint :: c_int
  s_tx_power :: c_int
  s_link_margin :: c_int
  s_age :: c_long

record scanner =
  sc_trigger :: "cstr \<Rightarrow> effect list"
  sc_results :: "cstr \<Rightarrow> scan_info_t list"

record ap_in_range =
  r_intf :: cstr
  r_mac :: cstr
  r_SSID :: cstr
  r_status :: c_int
  r_frequency :: c_long
  r_channel :: c_int
  r_dBm :: bool
  r_signal :: c_float
  r_powerconstraint :: c_int
  r_tx_power :: c_int
  r_link_margin :: c_int
  r_age :: c_int

record msg_ap_in_range = sta_query +
  num_aps :: c_int
  aps :: "ap_in_range list"


subsection \<open>Codec\<close>

definition size_ap_in_range :: "ap_in_range \<Rightarrow> fault + c_int" where
  "size_ap_in_range a = sum_sizes [strlen_ethanol (r_mac a), strlen_ethanol (r_SSID a), strlen_ethanol (r_intf a),
     sizeof 4, sizeof 8, sizeof 4, bool_len_ethanol, sizeof 4, sizeof 4, sizeof 4, sizeof 4, sizeof 4]"

definition message_size_ap_in_range :: "msg_ap_in_range \<Rightarrow> fault + c_int" where
  "message_size_ap_in_range h = sum_sizes
     [sizeof 4, sizeof 4, strlen_ethanol (p_version h), sizeof 4, strlen_ethanol (intf_name h),
      strlen_ethanol (sta_ip h), sizeof 4, sizeof 4, size_eachu size_ap_in_range (num_aps h) (aps h)]"

definition encode_ap_in_range :: "ap_in_range \<Rightarrow> wcur step" where
  "encode_ap_in_range a = run_prog
     [encode_char (r_intf a),
      encode_char (r_mac a),
      encode_char (r_SSID a),
      encode_int (r_status a),
      encode_long (r_frequency a),
      encode_int (r_channel a),
      encode_float (r_signal a),
      encode_int (r_powerconstraint a),
      encode_int (r_tx_power a),
      encode_int (r_link_margin a),
      encode_int (r_age a),
      encode_bool (r_dBm a)]"

definition encode_msg_ap_in_range :: "allocator \<Rightarrow> msg_ap_in_range \<Rightarrow> fault + msg_ap_in_range \<times> u8 list" where
  "encode_msg_ap_in_range mal = encode_frame mal message_size_ap_in_range (\<lambda>h.
     [encode_header (m_type h) (m_id h) (m_size h),
      encode_char (intf_name h),
      encode_char (sta_ip h),
      encode_int (sta_port h),
      encode_uint (num_aps h),
      encode_eachu encode_ap_in_range (num_aps h) (aps h)])"

text \<open>Every field of an element of the new array is assigned.\<close>

definition decode_ap_in_range :: "rcur \<Rightarrow> fault + ap_in_range \<times> rcur" where
  "decode_ap_in_range r = and_then (run_prog
     [into decode_char r_intf_update,
      into decode_char r_mac_update,
      into decode_char r_SSID_update,
      into decode_int r_status_update,
      into decode_long r_frequency_update,
      into decode_int r_channel_update,
      into decode_float r_signal_update,
      into decode_int r_powerconstraint_update,
      into decode_int r_tx_power_update,
      into decode_int r_link_margin_update,
      into decode_int r_age_update,
      into decode_bool r_dBm_update]
     (r, \<lparr>r_intf = None, r_mac = None, r_SSID = None, r_status = 0, r_frequency = 0, r_channel = 0, r_dBm = False,
          r_signal = 0, r_powerconstraint = 0, r_tx_power = 0, r_link_margin = 0, r_age = 0\<rparr>)) (\<lambda>(r, a). Inr (a, r))"

text \<open>A count of 0 leaves the array at \<open>NULL\<close>, which is the empty array here.\<close>

definition decode_aps :: "(rcur \<times> msg_ap_in_range) step" where
  "decode_aps = (\<lambda>(r, h). and_then (decode_uint r) (\<lambda>(n, r).
     and_then (decode_eachu decode_ap_in_range n r) (\<lambda>(xs, r). Inr (r, h\<lparr>num_aps := n, aps := xs\<rparr>))))"

definition decode_msg_ap_in_range :: "u8 list \<Rightarrow> msg_ap_in_range \<Rightarrow> fault + msg_ap_in_range" where
  "decode_msg_ap_in_range = decode_frame
     [decode_header,
      into decode_char intf_name_update,
      into decode_char sta_ip_update,
      into decode_int sta_port_update,
      decode_aps]"


subsection \<open>Sender\<close>

text \<open>\<open>got\<close> says that \<open>SSL_read\<close> returned more than 0; otherwise the answer is not looked at.\<close>

definition send_msg_get_ap_in_range ::
  "bool \<Rightarrow> env \<Rightarrow> cstr \<Rightarrow> c_int \<Rightarrow> c_int \<Rightarrow> cstr \<Rightarrow> cstr \<Rightarrow> c_int \<Rightarrow> msg_ap_in_range \<Rightarrow> msg_ap_in_range
   \<Rightarrow> fault + effect list \<times> c_int \<times> msg_ap_in_range option" where
  "send_msg_get_ap_in_range got e hostname portnum idc intf staip staport hs hm =
     send_sync e hostname portnum idc
       (\<lambda>i. run_prog
         [assign m_type_update MSG_GET_AP_IN_RANGE_TYPE,
          assign m_id_update i,
          copy_to e p_version_update ETHANOL_VERSION,
          copy_to e intf_name_update intf,
          copy_to e sta_ip_update staip,
          assign sta_port_update staport,
          assign num_aps_update 0,
          assign aps_update [],
          set_size message_size_ap_in_range] hs)
       (encode_msg_ap_in_range (mallocs e))
       (\<lambda>t. got \<and> t = MSG_GET_AP_IN_RANGE_TYPE)
       (\<lambda>buf. decode_msg_ap_in_range buf hm)"


subsection \<open>The handler\<close>

definition of_scan :: "scan_info_t \<Rightarrow> ap_in_range" where
  "of_scan s = \<lparr>r_intf = s_intf s, r_mac = s_mac s, r_SSID = s_SSID s, r_status = s_status s,
     r_frequency = s_frequency s, r_channel = s_channel s, r_dBm = s_dBm s, r_signal = s_signal s,
     r_powerconstraint = s_powerconstraint s, r_tx_power = s_tx_power s, r_link_margin = s_link_margin s,
     r_age = ucast (s_age s)\<rparr>"

text \<open>
  The loop over the interfaces puts the result of a scan, with a copy of the name of the interface,
  in front of a list, whose elements are then copied in order.
\<close>

definition scan_wifi :: "env \<Rightarrow> scanner \<Rightarrow> interface_fields \<Rightarrow> (effect list \<times> scan_info_t list list) step" where
  "scan_wifi e sc d = (\<lambda>(ev, all).
     if \<not> if_wifi d then Inr (ev, all)
     else and_then (copy_string (mallocs e) (if_name d)) (\<lambda>_.
       Inr (ev @ sc_trigger sc (if_name d), sc_results sc (if_name d) # all)))"

definition put_scans :: "scan_info_t list \<Rightarrow> msg_ap_in_range \<Rightarrow> msg_ap_in_range" where
  "put_scans ss h = h\<lparr>num_aps := word_of_nat (length ss), aps := map of_scan ss\<rparr>"

text \<open>
  The station is asked with the address of the id of the message, which the sender increments.
\<close>

definition process_msg_ap_in_range ::
  "scanner \<Rightarrow> netdevice \<Rightarrow> (nat \<Rightarrow> interface_fields) \<Rightarrow> bool \<Rightarrow> env \<Rightarrow> u8 list \<Rightarrow> msg_ap_in_range \<Rightarrow> msg_ap_in_range
   \<Rightarrow> msg_ap_in_range \<Rightarrow> fault + effect list \<times> u8 list option" where
  "process_msg_ap_in_range sc nd j got e input hm hs hm' = and_then (decode_msg_ap_in_range input hm) (\<lambda>h.
     and_then
       (if sta_ip h = None then
          (if intf_name h = None then
             and_then (get_all_interfaces nd (mallocs e) j) (\<lambda>intfs. case intfs of
               None \<Rightarrow> Inr ([], h\<lparr>num_aps := 0, aps := []\<rparr>)
             | Some (_, d) \<Rightarrow> and_then (run_prog (map (scan_wifi e sc) d) ([], [])) (\<lambda>(ev, all).
                 Inr (ev, put_scans (concat all) h)))
           else Inr (sc_trigger sc (intf_name h), put_scans (sc_results sc (intf_name h)) h))
        else
          and_then (send_msg_get_ap_in_range got e (sta_ip h) (sta_port h) (m_id h) (intf_name h) None 0 hs hm')
            (\<lambda>(ev, i, h1). Inr (ev, case h1 of
               None \<Rightarrow> h\<lparr>m_id := i, num_aps := 0, aps := []\<rparr>
             | Some h1 \<Rightarrow> h\<lparr>m_id := i, num_aps := num_aps h1, aps := aps h1\<rparr>)))
       (\<lambda>(ev, h). and_then (encode_msg_ap_in_range (mallocs e) h) (\<lambda>(_, output). Inr (ev, Some output))))"


subsection \<open>The codec\<close>

definition ser_ap :: "ap_in_range \<Rightarrow> u8 list" where
  "ser_ap a = ser_str (r_intf a) @ ser_str (r_mac a) @ ser_str (r_SSID a) @ le_bytes 4 (r_status a)
     @ le_bytes 8 (r_frequency a) @ le_bytes 4 (r_channel a) @ le_bytes 4 (r_signal a) @ le_bytes 4 (r_powerconstraint a)
     @ le_bytes 4 (r_tx_power a) @ le_bytes 4 (r_link_margin a) @ le_bytes 4 (r_age a) @ ser_bool (r_dBm a)"

definition ok_ap :: "ap_in_range \<Rightarrow> bool" where
  "ok_ap a \<longleftrightarrow> ok_str (r_intf a) \<and> ok_str (r_mac a) \<and> ok_str (r_SSID a)"

definition norm_ap :: "ap_in_range \<Rightarrow> ap_in_range" where
  "norm_ap a = a\<lparr>r_intf := canon (r_intf a), r_mac := canon (r_mac a), r_SSID := canon (r_SSID a)\<rparr>"

definition bytes_ap :: "ap_in_range \<Rightarrow> nat" where
  "bytes_ap a = slen (r_mac a) + slen (r_SSID a) + slen (r_intf a) + 55"

definition bytes_in_range :: "msg_ap_in_range \<Rightarrow> nat" where
  "bytes_in_range h = slen (p_version h) + slen (intf_name h) + slen (sta_ip h) + sum_list (map bytes_ap (aps h)) + 35"

definition ok_in_range :: "msg_ap_in_range \<Rightarrow> bool" where
  "ok_in_range h \<longleftrightarrow> ok_header h \<and> ok_str (intf_name h) \<and> ok_str (sta_ip h) \<and> counted (num_aps h) (aps h) \<and>
     (\<forall>a\<in>set (aps h). ok_ap a) \<and> bytes_in_range h < 2 ^ 31"

definition norm_in_range :: "msg_ap_in_range \<Rightarrow> msg_ap_in_range \<Rightarrow> msg_ap_in_range" where
  "norm_in_range h0 h = (norm_header (bytes_in_range h) h)\<lparr>intf_name := canon (intf_name h), sta_ip := canon (sta_ip h),
     aps := map norm_ap (aps h)\<rparr>"

lemma norm_in_range_simps [simp]:
  "m_type (norm_in_range h0 h) = m_type h" "m_id (norm_in_range h0 h) = m_id h"
  "intf_name (norm_in_range h0 h) = canon (intf_name h)" "sta_ip (norm_in_range h0 h) = canon (sta_ip h)"
  "sta_port (norm_in_range h0 h) = sta_port h" "num_aps (norm_in_range h0 h) = num_aps h"
  "aps (norm_in_range h0 h) = map norm_ap (aps h)" "p_version (norm_in_range h0 h) = ETHANOL_VERSION"
  by (simp_all add: norm_in_range_def norm_header_def)

lemma norm_ap_simps [simp]:
  "r_mac (norm_ap a) = canon (r_mac a)" "r_signal (norm_ap a) = r_signal a" "norm_ap (norm_ap a) = norm_ap a"
  by (simp_all add: norm_ap_def)

lemma encode_ap_put: "ok_ap a \<Longrightarrow> encode_ap_in_range a = put (ser_ap a)"
  using run_prog_put_all [of "[ser_str (r_intf a), ser_str (r_mac a), ser_str (r_SSID a), le_bytes 4 (r_status a),
     le_bytes 8 (r_frequency a), le_bytes 4 (r_channel a), le_bytes 4 (r_signal a), le_bytes 4 (r_powerconstraint a),
     le_bytes 4 (r_tx_power a), le_bytes 4 (r_link_margin a), le_bytes 4 (r_age a), ser_bool (r_dBm a)]"]
  by (simp add: encode_ap_in_range_def ok_ap_def encode_char_put codec ser_ap_def)

lemma decode_ap_ser: "ok_ap a \<Longrightarrow> decode_ap_in_range (ser_ap a @ r) = Inr (norm_ap a, r)"
  by (simp add: decode_ap_in_range_def ser_ap_def ok_ap_def codec norm_ap_def)

lemma size_ap_ok: "ok_ap a \<Longrightarrow> size_ap_in_range a = sizeof (bytes_ap a)"
  by (simp add: size_ap_in_range_def ok_ap_def bytes_ap_def ac_simps)

lemma length_ser_ap: "length (ser_ap a) \<le> bytes_ap a"
  using length_ser_str_le [of "r_mac a"] length_ser_str_le [of "r_SSID a"] length_ser_str_le [of "r_intf a"]
  by (simp add: ser_ap_def bytes_ap_def)

lemma decode_aps_ser:
  assumes "counted n xs" "\<And>x. x \<in> set xs \<Longrightarrow> ok_ap x"
  shows "decode_aps (le_bytes 4 n @ concat (map ser_ap xs) @ r, h) = Inr (r, h\<lparr>num_aps := n, aps := map norm_ap xs\<rparr>)"
  using decode_each_ser [OF assms(1), of decode_ap_in_range ser_ap norm_ap] decode_ap_ser [OF assms(2)]
    eachu_each(3) [OF assms(1), of decode_ap_in_range]
  by (simp add: decode_aps_def uint_f.dec_ser)

lemma size_in_range: "ok_in_range m \<Longrightarrow> message_size_ap_in_range m = sizeof (bytes_in_range m)"
proof -
  assume m: "ok_in_range m"
  then have "size_eachu size_ap_in_range (num_aps m) (aps m) = sizeof (sum_list (map bytes_ap (aps m)))"
    using size_ap_ok by (subst eachu_each) (auto simp: ok_in_range_def intro!: size_each_sum)
  with m show ?thesis
    by (simp add: ok_in_range_def ok_header_def message_size_ap_in_range_def bytes_in_range_def ac_simps)
qed

interpretation in_range: msg_codec encode_msg_ap_in_range decode_msg_ap_in_range ok_in_range norm_in_range
  bytes_in_range m_type
  unfolding encode_msg_ap_in_range_def [abs_def] decode_msg_ap_in_range_def
proof (rule frame_codecI [where bss = "\<lambda>m. [ser_str (intf_name m), ser_str (sta_ip m), le_bytes 4 (sta_port m),
    le_bytes 4 (num_aps m), concat (map ser_ap (aps m))]"], goal_cases)
  case (3 m)
  then have "encode_eachu encode_ap_in_range (num_aps m) (aps m) = put (concat (map ser_ap (aps m)))"
    by (subst eachu_each) (auto simp: ok_in_range_def encode_ap_put intro!: encode_each_put)
  with 3 show ?case
    by (simp add: ok_in_range_def codec encode_char_put)
next
  case (4 m)
  then show ?case
    using length_concat_le [of "aps m" ser_ap bytes_ap] length_ser_ap
      length_ser_str_le [of "intf_name m"] length_ser_str_le [of "sta_ip m"]
    by (simp add: ok_in_range_def ok_header_def bytes_in_range_def)
next
  case (5 m r h0)
  then show ?case
    using decode_aps_ser [of "num_aps m" "aps m" r]
    by (simp add: ok_in_range_def codec norm_in_range_def norm_header_def)
qed (simp_all add: ok_in_range_def size_in_range)


subsection \<open>Asking a machine for what it detects\<close>

text \<open>A scan whose result fits into a message.\<close>

definition sendable_scan :: "scan_info_t list \<Rightarrow> bool" where
  "sendable_scan ss \<longleftrightarrow> (\<forall>s\<in>set ss. ok_ap (of_scan s)) \<and>
     sum_list (map (\<lambda>s. bytes_ap (of_scan s)) ss) < 2 ^ 30"

lemma sendable_short: "sendable_scan ss \<Longrightarrow> length ss < 2 ^ 31"
proof -
  have "length ss \<le> sum_list (map (\<lambda>s. bytes_ap (of_scan s)) ss)"
    by (induction ss) (simp_all add: bytes_ap_def)
  then show "sendable_scan ss \<Longrightarrow> length ss < 2 ^ 31"
    by (simp add: sendable_scan_def)
qed

lemma send_in_range_eq:
  assumes "copyable (mallocs e) ETHANOL_VERSION" "copyable (mallocs e) intf" "copyable (mallocs e) staip"
    and "slen intf + slen staip < 2 ^ 31 - 200"
  obtains q where "ok_in_range q" "m_type q = MSG_GET_AP_IN_RANGE_TYPE" "m_id q = i" "canon (intf_name q) = canon intf"
    "canon (sta_ip q) = canon staip" "sta_port q = staport"
    "send_msg_get_ap_in_range got e host port i intf staip staport hs hm
       = send_sync e host port i (\<lambda>_. Inr q) (encode_msg_ap_in_range (mallocs e))
           (\<lambda>t. got \<and> t = MSG_GET_AP_IN_RANGE_TYPE) (\<lambda>b. decode_msg_ap_in_range b hm)"
proof -
  let ?mal = "mallocs e"
  let ?p = "hs\<lparr>m_type := MSG_GET_AP_IN_RANGE_TYPE, m_id := i, p_version := dup ?mal ETHANOL_VERSION,
      intf_name := dup ?mal intf, sta_ip := dup ?mal staip, sta_port := staport, num_aps := 0, aps := []\<rparr>"
  have ok: "ok_in_range ?p"
    using assms dup_simps(3,5) [of ?mal]
    by (simp add: ok_in_range_def ok_header_def counted_def bytes_in_range_def)
  let ?q = "?p\<lparr>m_size := word_of_nat (bytes_in_range ?p)\<rparr>"
  have "run_prog [assign m_type_update MSG_GET_AP_IN_RANGE_TYPE, assign m_id_update i, copy_to e p_version_update ETHANOL_VERSION,
      copy_to e intf_name_update intf, copy_to e sta_ip_update staip, assign sta_port_update staport,
      assign num_aps_update 0, assign aps_update [], set_size message_size_ap_in_range] hs = Inr ?q"
    using assms set_size_ok [of message_size_ap_in_range ?p, OF size_in_range [OF ok]] by simp
  then have "send_msg_get_ap_in_range got e host port i intf staip staport hs hm
       = send_sync e host port i (\<lambda>_. Inr ?q) (encode_msg_ap_in_range ?mal)
           (\<lambda>t. got \<and> t = MSG_GET_AP_IN_RANGE_TYPE) (\<lambda>b. decode_msg_ap_in_range b hm)"
    unfolding send_msg_get_ap_in_range_def by (rule send_sync_built)
  then show ?thesis
    by (rule that [rotated -1])
      (use ok assms in \<open>simp_all add: ok_in_range_def ok_header_def bytes_in_range_def\<close>)
qed

lemma in_range_answer:
  assumes q: "ok_in_range q" "allocates mal" "encode_msg_ap_in_range mal q = Inr (q', wire)"
      "slen (sta_ip q) = 0" "0 < slen (intf_name q)" "slen (intf_name q) < 2 ^ 30 - 100"
    and e: "allocates (mallocs e)" "sendable_scan (sc_results sc (canon (intf_name q)))"
  shows "\<exists>out. process_msg_ap_in_range sc nd j got e (wire @ r) hm hs hm'
      = Inr (sc_trigger sc (canon (intf_name q)), Some out) \<and> of_type (m_type q) out \<and>
    (\<forall>r h0. \<exists>a. decode_msg_ap_in_range (out @ r) h0 = Inr a \<and> m_id a = m_id q \<and>
       num_aps a = word_of_nat (length (sc_results sc (canon (intf_name q)))) \<and>
       aps a = map (\<lambda>s. norm_ap (of_scan s)) (sc_results sc (canon (intf_name q))))"
proof -
  let ?ss = "sc_results sc (canon (intf_name q))" and ?h = "norm_in_range hm q"
  let ?a = "put_scans ?ss ?h"
  have f: "sta_ip ?h = None" "intf_name ?h \<noteq> None" "intf_name ?h = canon (intf_name q)"
    using q(4,5) canon_eq_None by (simp_all del: not_None_eq)
  have "counted (word_of_nat (length ?ss)) (map of_scan ?ss)"
    using counted_word [of "map of_scan ?ss"] sendable_short [OF e(2)] by simp
  then have ok: "ok_in_range ?a"
    using q(1,4,6) e(2) f(1) by (simp add: ok_in_range_def put_scans_def sendable_scan_def bytes_in_range_def
        ok_header_def comp_def)
  obtain a' out where o: "encode_msg_ap_in_range (mallocs e) ?a = Inr (a', out)"
    using in_range.enc_no_fault [OF ok e(1)] by blast
  have "process_msg_ap_in_range sc nd j got e (wire @ r) hm hs hm' = Inr (sc_trigger sc (canon (intf_name q)), Some out)"
    using in_range.roundtrip [OF q(1-3), of r hm] f o by (simp add: process_msg_ap_in_range_def del: not_None_eq)
  moreover have "of_type (m_type q) out"
    using in_range.wire_type [OF ok e(1) o] by (simp add: put_scans_def)
  moreover have "\<exists>a. decode_msg_ap_in_range (out @ r) h0 = Inr a \<and> m_id a = m_id q \<and>
       num_aps a = word_of_nat (length ?ss) \<and> aps a = map (\<lambda>s. norm_ap (of_scan s)) ?ss" for r h0
    using in_range.roundtrip [OF ok e(1) o, of r h0] by (simp add: put_scans_def comp_def)
  ultimately show ?thesis
    by blast
qed

text \<open>What the client of a machine that runs the handler gets.\<close>

lemma in_range_end_to_end:
  assumes "copyable (mallocs e) ETHANOL_VERSION" "copyable (mallocs e) intf" "intf \<noteq> None" "slen intf < 2 ^ 30 - 100"
      "allocates (mallocs e)" "reaches e host port"
    and "allocates (mallocs e2)" "sendable_scan (sc_results sc (canon intf))"
    and "serves e host port MSG_GET_AP_IN_RANGE_TYPE
      (\<lambda>req. process_msg_ap_in_range sc nd j got2 e2 (req @ stack) hm2 hs2 hm2')"
  shows "\<exists>req a. send_msg_get_ap_in_range True e host port i intf None 0 hs hm
      = Inr (session e host port req, i + 1, Some a) \<and> m_id a = i \<and>
    num_aps a = word_of_nat (length (sc_results sc (canon intf))) \<and>
    aps a = map (\<lambda>s. norm_ap (of_scan s)) (sc_results sc (canon intf))"
proof -
  have "slen intf + slen None < 2 ^ 31 - 200"
    using assms(4) by simp
  from send_in_range_eq [OF assms(1,2) copyable_None this, of i 0 True host port hs hm]
  obtain q where q: "ok_in_range q" "m_type q = MSG_GET_AP_IN_RANGE_TYPE" "m_id q = i" "canon (intf_name q) = canon intf"
      "canon (sta_ip q) = canon None"
    and s: "send_msg_get_ap_in_range True e host port i intf None 0 hs hm
       = send_sync e host port i (\<lambda>_. Inr q) (encode_msg_ap_in_range (mallocs e))
           (\<lambda>t. True \<and> t = MSG_GET_AP_IN_RANGE_TYPE) (\<lambda>b. decode_msg_ap_in_range b hm)"
    by blast
  obtain q' req where w: "encode_msg_ap_in_range (mallocs e) q = Inr (q', req)"
    using in_range.enc_no_fault [OF q(1) assms(5)] by blast
  have len: "slen (sta_ip q) = 0" "slen (intf_name q) = slen intf" "0 < slen intf"
    using q(4,5) canon_eq_None [of "sta_ip q"] slen_canon assms(2,3) by (simp, metis, simp add: copyable_def)
  obtain ev out where out: "process_msg_ap_in_range sc nd j got2 e2 (req @ stack) hm2 hs2 hm2' = Inr (ev, Some out)"
      "of_type MSG_GET_AP_IN_RANGE_TYPE out"
      "\<And>r h0. \<exists>a. decode_msg_ap_in_range (out @ r) h0 = Inr a \<and> m_id a = i \<and>
         num_aps a = word_of_nat (length (sc_results sc (canon intf))) \<and>
         aps a = map (\<lambda>s. norm_ap (of_scan s)) (sc_results sc (canon intf))"
    using in_range_answer [OF q(1) assms(5) w len(1) _ _ assms(7), of sc nd j got2 stack hm2 hs2 hm2'] len assms(4,8) q(2-4)
    by auto
  obtain r where r: "ssl_read e host port req = out @ r"
    using servesD [OF assms(9) _ out(1)] in_range.wire_type [OF q(1) assms(5) w] q(2) by auto
  obtain a where a: "decode_msg_ap_in_range (out @ r) hm = Inr a" "m_id a = i"
      "num_aps a = word_of_nat (length (sc_results sc (canon intf)))"
      "aps a = map (\<lambda>s. norm_ap (of_scan s)) (sc_results sc (canon intf))"
    using out(3) by blast
  have "send_msg_get_ap_in_range True e host port i intf None 0 hs hm = Inr (session e host port req, i + 1, Some a)"
    using a(1) of_type_message [OF out(2), of r] close_open_connection [OF assms(6), of req]
    by (simp add: s send_sync_def assms(6) w r Let_def)
  then show ?thesis
    using a by blast
qed

end
