(* ===== verification/Handover.thy ===== *)
theory Handover
  imports Devices Msg_In_Range Msg_Intf Msg_Mean Msg_Settings
begin

section \<open>The controller of the handover experiment\<close>

text \<open>
  \<open>messaging/msg_snr_threshold_reached.c\<close> and \<open>run-server.c\<close>, compiled with \<open>HANDOVER\<close>.  Each device
  that says hello is entered in a list and configured (\<open>configure_experiment\<close>).  A station whose
  signal has become too weak sends \<open>MSG_SET_SNR_THRESHOLD_REACHED\<close> with its access point; the controller
  asks it which access points it sees, keeps those that it knows and whose signal is strong
  enough, asks each of them for its traffic, and answers with the one that has the least.

  The state of the controller are the two lists of devices, the thresholds that can be set on the
  command line and the two static counters of message ids.
\<close>

record controller = known_devices +
  signal_threshold :: c_long
  exp_snr_interval :: c_long
  exp_snr_threshold :: c_long
  handover_id :: c_int
  experiment_id :: c_int

definition init_controller :: controller where
  "init_controller = \<lparr>list_of_aps = [], list_of_stations = [], signal_threshold = - 90, exp_snr_interval = 1000,
     exp_snr_threshold = - 50, handover_id = 0, experiment_id = 0\<rparr>"

definition set_signal_threshold :: "c_long \<Rightarrow> controller \<Rightarrow> controller" where
  "set_signal_threshold t c = c\<lparr>signal_threshold := t\<rparr>"


subsection \<open>The message\<close>

text \<open>The fields \<open>sta_mac\<close>, \<open>mac_ap\<close> and \<open>snr\<close> are called \<open>th_sta\<close>, \<open>th_ap\<close> and \<open>th_snr\<close>.\<close>

record msg_snr_threshold_reached = sta_query +
  th_sta :: cstr
  th_ap :: cstr
  th_snr :: c_long

definition size_msg_snr_threshold_reached :: "msg_snr_threshold_reached \<Rightarrow> fault + c_int" where
  "size_msg_snr_threshold_reached h = sum_sizes
     [strlen_ethanol (p_version h), sizeof 4, sizeof 4, sizeof 4, strlen_ethanol (sta_ip h), sizeof 4,
      strlen_ethanol (th_sta h), strlen_ethanol (intf_name h), strlen_ethanol (th_ap h), sizeof 8]"

definition encode_msg_snr_threshold_reached ::
  "allocator \<Rightarrow> msg_snr_threshold_reached \<Rightarrow> fault + msg_snr_threshold_reached \<times> u8 list" where
  "encode_msg_snr_threshold_reached mal = encode_frame mal size_msg_snr_threshold_reached (\<lambda>h.
     [encode_header (m_type h) (m_id h) (m_size h),
      encode_char (sta_ip h),
      encode_int (sta_port h),
      encode_char (th_sta h),
      encode_char (intf_name h),
      encode_char (th_ap h),
      encode_2long (th_snr h)])"

definition decode_msg_snr_threshold_reached ::
  "u8 list \<Rightarrow> msg_snr_threshold_reached \<Rightarrow> fault + msg_snr_threshold_reached" where
  "decode_msg_snr_threshold_reached = decode_frame
     [decode_header,
      into decode_char sta_ip_update,
      into decode_int sta_port_update,
      into decode_char th_sta_update,
      into decode_char intf_name_update,
      into decode_char th_ap_update,
      into decode_2long th_snr_update]"

definition send_msg_snr_threshold_reached ::
  "env \<Rightarrow> cstr \<Rightarrow> c_int \<Rightarrow> c_int \<Rightarrow> cstr \<Rightarrow> c_int \<Rightarrow> cstr \<Rightarrow> cstr \<Rightarrow> cstr \<Rightarrow> c_long
   \<Rightarrow> msg_snr_threshold_reached \<Rightarrow> msg_snr_threshold_reached
   \<Rightarrow> fault + effect list \<times> c_int \<times> msg_snr_threshold_reached option" where
  "send_msg_snr_threshold_reached e hostname portnum idc staip staport stamac intf cur_ap v hs hm =
     send_sync e hostname portnum idc
       (\<lambda>i. run_prog
         [assign m_type_update MSG_SET_SNR_THRESHOLD_REACHED,
          assign m_id_update i,
          copy_to e p_version_update ETHANOL_VERSION,
          copy_to e intf_name_update intf,
          copy_to e th_ap_update cur_ap,
          copy_to e sta_ip_update staip,
          assign sta_port_update staport,
          copy_to e th_sta_update stamac,
          assign th_snr_update v,
          set_size size_msg_snr_threshold_reached] hs)
       (encode_msg_snr_threshold_reached (mallocs e))
       (\<lambda>t. t = MSG_SET_SNR_THRESHOLD_REACHED)
       (\<lambda>buf. decode_msg_snr_threshold_reached buf hm)"

text \<open>Printing reads every string of the message up to its terminator.\<close>

definition printf_msg_snr_threshold_reached :: "msg_snr_threshold_reached \<Rightarrow> fault + unit" where
  "printf_msg_snr_threshold_reached h =
     and_then (fmt_str (p_version h)) (\<lambda>_. and_then (fmt_str (sta_ip h)) (\<lambda>_. and_then (fmt_str (th_sta h)) (\<lambda>_.
     and_then (fmt_str (intf_name h)) (\<lambda>_. and_then (fmt_str (th_ap h)) (\<lambda>_. Inr ())))))"


subsection \<open>Choosing an access point\<close>

record list_aps_range_t =
  ar_index :: nat
  ar_tx :: c_ldouble
  ar_rx :: c_ldouble
  ar_ap :: list_devices_t

definition insert_ap_range :: "fpu \<Rightarrow> nat \<Rightarrow> list_devices_t \<Rightarrow> list_aps_range_t list \<Rightarrow> list_aps_range_t list" where
  "insert_ap_range f index ap aps_range =
     \<lparr>ar_index = index, ar_tx = ld_of_long f 0, ar_rx = ld_of_long f 0, ar_ap = ap\<rparr> # aps_range"

text \<open>
  One turn of the loop over the answer \<open>l\<close> of the station: the access point \<open>i\<close> of the answer is kept if it is
  known, is not the current one and its signal, cut to an integer, is above the threshold.
\<close>

definition keep_ap ::
  "fpu \<Rightarrow> controller \<Rightarrow> cstr \<Rightarrow> ap_in_range list \<Rightarrow> nat \<Rightarrow> list_aps_range_t list step" where
  "keep_ap f c cur l i aps_range = and_then (nth_elem l i) (\<lambda>a.
     and_then (find_ap (r_mac a) c) (\<lambda>ap.
       if ap = None then Inr aps_range
       else and_then (strcmp (r_mac a) cur) (\<lambda>same.
         if same then Inr aps_range
         else and_then (find_ap (r_mac a) c) (\<lambda>ap. case ap of
           None \<Rightarrow> Inr aps_range
         | Some ap \<Rightarrow> if signal_threshold c <s long_of_float f (r_signal a)
             then Inr (insert_ap_range f i ap aps_range) else Inr aps_range))))"

text \<open>The traffic of the first interface that an access point monitors; -1 when it does not answer.\<close>

definition traffic_of ::
  "fpu \<Rightarrow> msg_mean_sta_statistics option \<Rightarrow> list_aps_range_t \<Rightarrow> fault + list_aps_range_t" where
  "traffic_of f m p = (case m of
       None \<Rightarrow> Inr (p\<lparr>ar_tx := ld_of_long f (- 1)\<rparr>)
     | Some m \<Rightarrow> (case all_means m of
           None \<Rightarrow> Inl Null_Dereference
         | Some v \<Rightarrow> and_then (nth_elem (ns v) 0) (\<lambda>s. Inr (p\<lparr>ar_tx := mean_tx_bytes s, ar_rx := mean_rx_bytes s\<rparr>))))"

primrec ask_traffic ::
  "fpu \<Rightarrow> env \<Rightarrow> msg_mean_sta_statistics \<Rightarrow> msg_mean_sta_statistics \<Rightarrow> list_aps_range_t list \<Rightarrow> c_int
   \<Rightarrow> fault + effect list \<times> c_int \<times> list_aps_range_t list" where
  "ask_traffic f e hs hm [] idc = Inr ([], idc, [])"
| "ask_traffic f e hs hm (p # ps) idc =
     and_then (send_msg_mean_sta_statistics e (dev_host (ar_ap p)) (dev_port (ar_ap p)) idc None 0 hs hm) (\<lambda>(ev, idc, m).
     and_then (traffic_of f m p) (\<lambda>p.
     and_then (ask_traffic f e hs hm ps idc) (\<lambda>(evs, idc, ps). Inr (ev @ evs, idc, p # ps))))"

text \<open>The search for the least traffic; the index -1 is \<open>None\<close>.\<close>

definition less_traffic :: "fpu \<Rightarrow> list_aps_range_t \<Rightarrow> c_ldouble \<times> nat option \<Rightarrow> c_ldouble \<times> nat option" where
  "less_traffic f p = (\<lambda>(traffic, i).
     if \<not> ld_eq f (ar_tx p) (ld_of_long f (- 1)) \<and>
        (ld_less f (ld_add f (ar_tx p) (ar_rx p)) traffic \<or> ld_eq f traffic (ld_of_long f (- 1)))
     then (ld_add f (ar_tx p) (ar_rx p), Some (ar_index p)) else (traffic, i))"

definition least_traffic :: "fpu \<Rightarrow> list_aps_range_t list \<Rightarrow> nat option" where
  "least_traffic f ps = snd (fold (less_traffic f) ps (ld_of_long f (- 1), None))"

text \<open>
  The code in the \<open>#ifdef HANDOVER\<close> block.  A station that does not answer leaves \<open>l_aps\<close> at \<open>NULL\<close>, and the
  loop reads its count.  When access points were kept, the current one is released before
  it is known whether there is a new one; without a new one, the message is encoded with the
  released string.
\<close>

record handover_junk =
  j_range :: "nat \<Rightarrow> msg_ap_in_range"
  j_traffic :: "nat \<Rightarrow> msg_mean_sta_statistics"

definition decide ::
  "fpu \<Rightarrow> env \<Rightarrow> bool \<Rightarrow> handover_junk \<Rightarrow> controller \<Rightarrow> msg_snr_threshold_reached
   \<Rightarrow> fault + controller \<times> effect list \<times> msg_snr_threshold_reached" where
  "decide f e got j c h = and_then (find_station (th_sta h) c) (\<lambda>sta. case sta of
       None \<Rightarrow> Inr (c, [], h)
     | Some sta \<Rightarrow>
         and_then (send_msg_get_ap_in_range got e (dev_host sta) (dev_port sta) (handover_id c) (intf_name h) None 0
           (j_range j 0) (j_range j 1)) (\<lambda>(ev, m_id, l_aps). case l_aps of
           None \<Rightarrow> Inl Null_Dereference
         | Some l \<Rightarrow>
             and_then (run_prog (map (keep_ap f c (th_ap h) (aps l)) [0..<unat (num_aps l)]) []) (\<lambda>aps_range.
             if aps_range = [] then Inr (c\<lparr>handover_id := m_id\<rparr>, ev, h)
             else and_then (ask_traffic f e (j_traffic j 0) (j_traffic j 1) aps_range m_id) (\<lambda>(evs, m_id, aps_range).
               case least_traffic f aps_range of
                 None \<Rightarrow> Inl Use_After_Free
               | Some i \<Rightarrow> and_then (nth_elem (aps l) i) (\<lambda>a.
                   Inr (c\<lparr>handover_id := m_id\<rparr>, ev @ evs, h\<lparr>th_ap := r_mac a\<rparr>))))))"


subsection \<open>The handler\<close>

text \<open>
  \<open>here\<close> is what the program does with the message when it is not for a station: with \<open>HANDOVER\<close> it
  decides, without it does nothing.  A station is asked with the address of the id of the message.
\<close>

definition process_reached ::
  "('s \<Rightarrow> msg_snr_threshold_reached \<Rightarrow> fault + 's \<times> effect list \<times> msg_snr_threshold_reached) \<Rightarrow> env \<Rightarrow> u8 list
   \<Rightarrow> msg_snr_threshold_reached \<Rightarrow> msg_snr_threshold_reached \<Rightarrow> msg_snr_threshold_reached \<Rightarrow> 's
   \<Rightarrow> fault + 's \<times> effect list \<times> u8 list option" where
  "process_reached here e input hm hs hm' s = and_then (decode_msg_snr_threshold_reached input hm) (\<lambda>h.
     and_then
       (if sta_ip h = None then and_then (printf_msg_snr_threshold_reached h) (\<lambda>_. here s h)
        else
          and_then (send_msg_snr_threshold_reached e (sta_ip h) (sta_port h) (m_id h) None 0 (th_sta h) (intf_name h)
              (th_ap h) (th_snr h) hs hm')
            (\<lambda>(ev, i, h1). Inr (s, ev, case h1 of
               None \<Rightarrow> h\<lparr>m_id := i\<rparr>
             | Some h1 \<Rightarrow> h\<lparr>m_id := i, th_ap := th_ap h1\<rparr>)))
       (\<lambda>(s, ev, h). and_then (encode_msg_snr_threshold_reached (mallocs e) h) (\<lambda>(_, output).
          Inr (s, ev, Some output))))"

definition process_msg_snr_threshold_reached ::
  "env \<Rightarrow> u8 list \<Rightarrow> msg_snr_threshold_reached \<Rightarrow> msg_snr_threshold_reached \<Rightarrow> msg_snr_threshold_reached
   \<Rightarrow> fault + effect list \<times> u8 list option" where
  "process_msg_snr_threshold_reached e input hm hs hm' =
     and_then (process_reached (\<lambda>s h. Inr (s, [], h)) e input hm hs hm' ()) (\<lambda>(_, ev, reply). Inr (ev, reply))"

definition process_msg_snr_threshold_reached_handover ::
  "fpu \<Rightarrow> bool \<Rightarrow> handover_junk \<Rightarrow> env \<Rightarrow> u8 list \<Rightarrow> msg_snr_threshold_reached \<Rightarrow> msg_snr_threshold_reached
   \<Rightarrow> msg_snr_threshold_reached \<Rightarrow> controller \<Rightarrow> fault + controller \<times> effect list \<times> u8 list option" where
  "process_msg_snr_threshold_reached_handover f got j e = process_reached (decide f e got j) e"


subsection \<open>Configuring a device that says hello (\<open>run-server.c\<close>)\<close>

text \<open>\<open>WIRELESS_INTERFACE\<close> and \<open>ETHERNET_INTERFACE\<close>.\<close>

definition WIRELESS_INTERFACE :: cstr where
  "WIRELESS_INTERFACE = Some (str_bytes ''wlan0'' @ [0])"

definition ETHERNET_INTERFACE :: cstr where
  "ETHERNET_INTERFACE = Some (str_bytes ''eth1'' @ [0])"

record experiment_junk =
  j_elem :: interface
  j_intf_msg :: "nat \<Rightarrow> msg_intf"
  j_set_interval :: msg_snr_interval
  j_set_threshold :: msg_snr_threshold
  j_add_intf :: msg_mean_sta_statistics_interface
  j_set_alpha :: msg_mean_sta_statistics_alpha
  j_set_time :: msg_mean_sta_statistics_time

text \<open>One turn of the loop over the interfaces of a station.\<close>

definition configure_wlan ::
  "env \<Rightarrow> experiment_junk \<Rightarrow> controller \<Rightarrow> cstr \<Rightarrow> c_int \<Rightarrow> interface list \<Rightarrow> nat \<Rightarrow> (effect list \<times> c_int) step" where
  "configure_wlan e j c hostname portnum xs i = (\<lambda>(ev, idc). and_then (nth_elem xs i) (\<lambda>x.
     if i_wifi x then
       and_then (send_msg_set_snr_interval e hostname portnum idc (i_name x) None 0 (exp_snr_interval c) (j_set_interval j))
         (\<lambda>(ev1, idc).
       and_then (send_msg_set_snr_threshold e hostname portnum idc (i_name x) None 0 (exp_snr_threshold c) (j_set_threshold j))
         (\<lambda>(ev2, idc). Inr (ev @ ev1 @ ev2, idc)))
     else Inr (ev, idc)))"

text \<open>The device is entered in its list under the address of its wireless interface.\<close>

definition enter_device :: "env \<Rightarrow> c_int \<Rightarrow> cstr \<Rightarrow> c_int \<Rightarrow> msg_intf option \<Rightarrow> controller step" where
  "enter_device e device_ty hostname portnum m c = (case m of
       None \<Rightarrow> Inr c
     | Some m \<Rightarrow> if num_intf m = 0 then Inr c
         else and_then (nth_elem (intf_array m) 0) (\<lambda>x.
           if device_ty = 1 then insert_ap (mallocs e) (i_mac x) hostname portnum c
           else insert_station (mallocs e) (i_mac x) hostname portnum c))"

definition configure_station ::
  "env \<Rightarrow> experiment_junk \<Rightarrow> controller \<Rightarrow> cstr \<Rightarrow> c_int \<Rightarrow> c_int \<Rightarrow> fault + effect list \<times> c_int" where
  "configure_station e j c hostname portnum idc =
     and_then (send_msg_get_interfaces e hostname portnum idc None 0 (j_elem j) (j_intf_msg j 2) (j_intf_msg j 3)) (\<lambda>(ev, idc, r).
       case r of
         None \<Rightarrow> Inl Null_Dereference
       | Some r \<Rightarrow> run_prog (map (configure_wlan e j c hostname portnum (intf_array r)) [0..<unat (num_intf r)]) (ev, idc))"

text \<open>The weight of the means is the \<open>double\<close> constant 0.1, the time between collections 100 ms.\<close>

definition configure_ap ::
  "fpu \<Rightarrow> env \<Rightarrow> experiment_junk \<Rightarrow> cstr \<Rightarrow> c_int \<Rightarrow> c_int \<Rightarrow> fault + effect list \<times> c_int" where
  "configure_ap f e j hostname portnum idc =
     and_then (send_msg_mean_sta_statistics_interface_add e hostname portnum idc None 0 ETHERNET_INTERFACE (j_add_intf j))
       (\<lambda>(ev1, idc).
     and_then (send_msg_mean_sta_statistics_alpha f e hostname portnum idc None 0 (ld_of_double f 0x3FB999999999999A) (j_set_alpha j))
       (\<lambda>(ev2, idc).
     and_then (send_msg_mean_sta_statistics_time e hostname portnum idc None 0 100 (j_set_time j))
       (\<lambda>(ev3, idc). Inr (ev1 @ ev2 @ ev3, idc))))"

text \<open>The event function of the hello message; the result is what it did, its return value and the controller.\<close>

definition configure_experiment ::
  "fpu \<Rightarrow> env \<Rightarrow> experiment_junk \<Rightarrow> c_int \<Rightarrow> cstr \<Rightarrow> c_int \<Rightarrow> controller
   \<Rightarrow> fault + effect list \<times> c_int \<times> controller" where
  "configure_experiment f e j device_ty hostname portnum c =
     (if device_ty \<noteq> 1 \<and> device_ty \<noteq> 2 then Inr ([], - 1, c)
      else
        and_then (send_msg_get_one_intf e hostname portnum (experiment_id c) WIRELESS_INTERFACE None 0 (j_elem j)
          (j_intf_msg j 0) (j_intf_msg j 1)) (\<lambda>(ev1, idc, m).
        and_then (enter_device e device_ty hostname portnum m c) (\<lambda>c.
        and_then (if device_ty = 2 then configure_station e j c hostname portnum idc else Inr ([], idc)) (\<lambda>(ev2, idc).
        and_then (if device_ty = 1 then configure_ap f e j hostname portnum idc else Inr ([], idc)) (\<lambda>(ev3, idc).
          Inr (ev1 @ ev2 @ ev3, 0, c\<lparr>experiment_id := idc\<rparr>))))))"


subsection \<open>The codec\<close>

definition bytes_reached :: "msg_snr_threshold_reached \<Rightarrow> nat" where
  "bytes_reached h = slen (p_version h) + slen (sta_ip h) + slen (th_sta h) + slen (intf_name h) + slen (th_ap h) + 49"

definition ok_reached :: "msg_snr_threshold_reached \<Rightarrow> bool" where
  "ok_reached h \<longleftrightarrow> ok_header h \<and> ok_str (sta_ip h) \<and> ok_str (th_sta h) \<and> ok_str (intf_name h) \<and> ok_str (th_ap h)
     \<and> bytes_reached h < 2 ^ 31"

definition norm_reached :: "msg_snr_threshold_reached \<Rightarrow> msg_snr_threshold_reached \<Rightarrow> msg_snr_threshold_reached" where
  "norm_reached h0 h = (norm_header (bytes_reached h) h)\<lparr>sta_ip := canon (sta_ip h), th_sta := canon (th_sta h), intf_name := canon (intf_name h), th_ap := canon (th_ap h)\<rparr>"

interpretation reached: msg_codec encode_msg_snr_threshold_reached decode_msg_snr_threshold_reached ok_reached
  norm_reached bytes_reached m_type
  unfolding encode_msg_snr_threshold_reached_def [abs_def] decode_msg_snr_threshold_reached_def
  by (rule frame_codecI [where bss = "\<lambda>m. [ser_str (sta_ip m), le_bytes 4 (sta_port m), ser_str (th_sta m),
          ser_str (intf_name m), ser_str (th_ap m), le_bytes 8 (th_snr m)]"])
    (simp_all add: codec ok_reached_def ok_header_def bytes_reached_def norm_reached_def
      size_msg_snr_threshold_reached_def norm_header_def ac_simps encode_char_put length_ser_str)


subsection \<open>The choice\<close>

text \<open>What the traffic means: how the machine compares the numbers involved.\<close>

definition compares :: "fpu \<Rightarrow> (c_ldouble \<Rightarrow> 'v::linorder) \<Rightarrow> c_ldouble set \<Rightarrow> bool" where
  "compares f val xs \<longleftrightarrow> (\<forall>x\<in>xs. \<forall>y\<in>xs. ld_less f x y = (val x < val y) \<and> ld_eq f x y = (val x = val y))"

lemma compares_mono: "compares f val B \<Longrightarrow> A \<subseteq> B \<Longrightarrow> compares f val A"
  unfolding compares_def by (meson subsetD)

abbreviation load :: "fpu \<Rightarrow> list_aps_range_t \<Rightarrow> c_ldouble" where
  "load f p \<equiv> ld_add f (ar_tx p) (ar_rx p)"

definition answered :: "fpu \<Rightarrow> list_aps_range_t \<Rightarrow> bool" where
  "answered f p \<longleftrightarrow> \<not> ld_eq f (ar_tx p) (ld_of_long f (- 1))"

lemma less_traffic_fold:
  assumes "compares f val (insert (ld_of_long f (- 1)) (insert t (load f ` set (filter (answered f) ps))))"
    and "\<And>p. p \<in> set ps \<Longrightarrow> answered f p \<Longrightarrow> val (ld_of_long f (- 1)) < val (load f p)"
    and "val (ld_of_long f (- 1)) < val t"
  shows "\<exists>t' i'. fold (less_traffic f) ps (t, Some i) = (t', Some i') \<and> val t' \<le> val t \<and>
    (\<forall>p\<in>set ps. answered f p \<longrightarrow> val t' \<le> val (load f p)) \<and>
    ((t' = t \<and> i' = i) \<or> (\<exists>p\<in>set ps. answered f p \<and> t' = load f p \<and> i' = ar_index p))"
  using assms
proof (induction ps arbitrary: t i)
  case Nil
  then show ?case by simp
next
  case (Cons p ps)
  let ?m = "ld_of_long f (- 1)"
  have c: "compares f val (insert ?m (insert t (load f ` set (filter (answered f) ps))))"
    using Cons.prems(1) by (auto simp: compares_def)
  have m: "\<not> ld_eq f t ?m"
    using Cons.prems(1,3) by (auto simp: compares_def)
  show ?case
  proof (cases "answered f p \<and> val (load f p) < val t")
    case True
    then have s: "less_traffic f p (t, Some i) = (load f p, Some (ar_index p))"
      using Cons.prems(1) by (auto simp: less_traffic_def answered_def compares_def)
    have c': "compares f val (insert ?m (insert (load f p) (load f ` set (filter (answered f) ps))))"
      using Cons.prems(1) True by (auto simp: compares_def)
    obtain t' i' where ih: "fold (less_traffic f) ps (load f p, Some (ar_index p)) = (t', Some i')" "val t' \<le> val (load f p)"
        "\<forall>p\<in>set ps. answered f p \<longrightarrow> val t' \<le> val (load f p)"
        "(t' = load f p \<and> i' = ar_index p) \<or> (\<exists>p\<in>set ps. answered f p \<and> t' = load f p \<and> i' = ar_index p)"
      using Cons.IH [OF c' Cons.prems(2), of "ar_index p"] Cons.prems(2) [of p] True by auto
    show ?thesis
      by (rule exI [of _ t'], rule exI [of _ i']) (use ih True s in auto)
  next
    case False
    then have s: "less_traffic f p (t, Some i) = (t, Some i)"
      using Cons.prems(1) m by (auto simp: less_traffic_def answered_def compares_def)
    obtain t' i' where ih: "fold (less_traffic f) ps (t, Some i) = (t', Some i')" "val t' \<le> val t"
        "\<forall>p\<in>set ps. answered f p \<longrightarrow> val t' \<le> val (load f p)"
        "(t' = t \<and> i' = i) \<or> (\<exists>p\<in>set ps. answered f p \<and> t' = load f p \<and> i' = ar_index p)"
      using Cons.IH [OF c Cons.prems(2) Cons.prems(3), of i] by auto
    show ?thesis
      by (rule exI [of _ t'], rule exI [of _ i']) (use ih False s in auto)
  qed
qed

lemma least_traffic_min:
  assumes "compares f val (insert (ld_of_long f (- 1)) (load f ` set (filter (answered f) ps)))"
    and "\<And>p. p \<in> set ps \<Longrightarrow> answered f p \<Longrightarrow> val (ld_of_long f (- 1)) < val (load f p)"
  shows "case least_traffic f ps of
      None \<Rightarrow> filter (answered f) ps = []
    | Some i \<Rightarrow> \<exists>p\<in>set ps. answered f p \<and> i = ar_index p \<and> (\<forall>p'\<in>set ps. answered f p' \<longrightarrow> val (load f p) \<le> val (load f p'))"
  using assms
proof (induction ps)
  case Nil
  then show ?case by (simp add: least_traffic_def)
next
  case (Cons p ps)
  let ?m = "ld_of_long f (- 1)"
  have eq: "ld_eq f ?m ?m"
    using Cons.prems(1) by (auto simp: compares_def)
  show ?case
  proof (cases "answered f p")
    case True
    then have s: "fold (less_traffic f) (p # ps) (?m, None) = fold (less_traffic f) ps (load f p, Some (ar_index p))"
      using eq by (simp add: less_traffic_def answered_def)
    have c: "compares f val (insert ?m (insert (load f p) (load f ` set (filter (answered f) ps))))"
      using Cons.prems(1) True by (simp add: compares_def)
    from less_traffic_fold [OF c, of "ar_index p"] Cons.prems(2) True
    obtain t' i' where "fold (less_traffic f) ps (load f p, Some (ar_index p)) = (t', Some i')" "val t' \<le> val (load f p)"
        "\<forall>p\<in>set ps. answered f p \<longrightarrow> val t' \<le> val (load f p)"
        "(t' = load f p \<and> i' = ar_index p) \<or> (\<exists>p\<in>set ps. answered f p \<and> t' = load f p \<and> i' = ar_index p)"
      by auto
    then show ?thesis
      unfolding least_traffic_def s using True by auto
  next
    case False
    then have "least_traffic f (p # ps) = least_traffic f ps"
      by (simp add: least_traffic_def less_traffic_def answered_def)
    moreover have "case least_traffic f ps of
      None \<Rightarrow> filter (answered f) ps = []
    | Some i \<Rightarrow> \<exists>p\<in>set ps. answered f p \<and> i = ar_index p \<and> (\<forall>p'\<in>set ps. answered f p' \<longrightarrow> val (load f p) \<le> val (load f p'))"
      by (rule Cons.IH) (use Cons.prems False in \<open>auto simp: compares_def\<close>)
    ultimately show ?thesis
      using False by (auto split: option.splits)
  qed
qed

text \<open>The access points that the controller considers, and the cells that it makes for them.\<close>

definition candidate :: "fpu \<Rightarrow> controller \<Rightarrow> u8 list \<Rightarrow> ap_in_range \<Rightarrow> bool" where
  "candidate f c cur a \<longleftrightarrow> device_map (list_of_aps c) (chars (r_mac a)) \<noteq> None \<and> chars (r_mac a) \<noteq> cur \<and>
     signal_threshold c <s long_of_float f (r_signal a)"

definition device_of :: "controller \<Rightarrow> ap_in_range \<Rightarrow> list_devices_t" where
  "device_of c a = the (device_map (list_of_aps c) (chars (r_mac a)))"

definition range_cell :: "fpu \<Rightarrow> controller \<Rightarrow> ap_in_range list \<Rightarrow> nat \<Rightarrow> list_aps_range_t" where
  "range_cell f c l i = \<lparr>ar_index = i, ar_tx = ld_of_long f 0, ar_rx = ld_of_long f 0, ar_ap = device_of c (l ! i)\<rparr>"

lemma keep_ap_all:
  assumes "wf_devices (list_of_aps c)" "\<forall>a\<in>set l. named (r_mac a)" "named cur" "k \<le> length l"
  shows "run_prog (map (keep_ap f c cur l) [0..<k]) []
    = Inr (map (range_cell f c l) (rev (filter (\<lambda>i. candidate f c (chars cur) (l ! i)) [0..<k])))"
  using assms(4)
proof (induction k)
  case 0
  then show ?case by simp
next
  case (Suc k)
  let ?a = "l ! k"
  have n: "named (r_mac ?a)"
    using Suc.prems assms(2) by simp
  have "keep_ap f c cur l k ps = Inr (if candidate f c (chars cur) ?a then range_cell f c l k # ps else ps)" for ps
    using Suc.prems devices.find_abs [OF assms(1) n] strcmp_named [OF n assms(3)]
    by (auto simp: keep_ap_def nth_elem_def find_ap_def candidate_def range_cell_def device_of_def insert_ap_range_def
        split: option.splits)
  then show ?case
    using Suc by (simp add: run_prog_append)
qed

text \<open>
  How the access points answer when they are asked for their traffic: \<open>ld ap\<close> are the two means of the
  first interface that \<open>ap\<close> reports, or \<open>None\<close> if \<open>ap\<close> does not answer.
\<close>

definition reports_load ::
  "env \<Rightarrow> handover_junk \<Rightarrow> (list_devices_t \<Rightarrow> (c_ldouble \<times> c_ldouble) option) \<Rightarrow> list_devices_t \<Rightarrow> bool" where
  "reports_load e j ld ap \<longleftrightarrow> (\<forall>i. \<exists>ev i' m.
     send_msg_mean_sta_statistics e (dev_host ap) (dev_port ap) i None 0 (j_traffic j 0) (j_traffic j 1) = Inr (ev, i', m) \<and>
     (case ld ap of
        None \<Rightarrow> m = None
      | Some (tx, rx) \<Rightarrow> \<exists>a v s r. m = Some a \<and> all_means a = Some v \<and> ns v = s # r \<and>
          mean_tx_bytes s = tx \<and> mean_rx_bytes s = rx))"

definition measured ::
  "fpu \<Rightarrow> (list_devices_t \<Rightarrow> (c_ldouble \<times> c_ldouble) option) \<Rightarrow> list_aps_range_t \<Rightarrow> list_aps_range_t" where
  "measured f ld p = (case ld (ar_ap p) of
       None \<Rightarrow> p\<lparr>ar_tx := ld_of_long f (- 1)\<rparr>
     | Some (tx, rx) \<Rightarrow> p\<lparr>ar_tx := tx, ar_rx := rx\<rparr>)"

lemma ask_traffic_measured:
  assumes "\<forall>p\<in>set ps. reports_load e j ld (ar_ap p)"
  shows "\<exists>ev i'. ask_traffic f e (j_traffic j 0) (j_traffic j 1) ps i = Inr (ev, i', map (measured f ld) ps)"
  using assms
proof (induction ps arbitrary: i)
  case Nil
  then show ?case by simp
next
  case (Cons p ps)
  have "reports_load e j ld (ar_ap p)"
    using Cons.prems by simp
  then obtain ev i' m where m: "send_msg_mean_sta_statistics e (dev_host (ar_ap p)) (dev_port (ar_ap p)) i None 0
        (j_traffic j 0) (j_traffic j 1) = Inr (ev, i', m)"
      "case ld (ar_ap p) of None \<Rightarrow> m = None
        | Some (tx, rx) \<Rightarrow> \<exists>a v s r. m = Some a \<and> all_means a = Some v \<and> ns v = s # r \<and>
            mean_tx_bytes s = tx \<and> mean_rx_bytes s = rx"
    unfolding reports_load_def by blast
  have "traffic_of f m p = Inr (measured f ld p)"
    using m(2) by (auto simp: traffic_of_def measured_def nth_elem_def split: option.splits)
  then show ?case
    using Cons.IH [of i'] Cons.prems m(1) by auto
qed

text \<open>The traffic of a candidate that answers, and the assumptions on its comparison.\<close>

definition traffic_sum :: "fpu \<Rightarrow> (list_devices_t \<Rightarrow> (c_ldouble \<times> c_ldouble) option) \<Rightarrow> list_devices_t \<Rightarrow> c_ldouble" where
  "traffic_sum f ld ap = (case ld ap of None \<Rightarrow> ld_of_long f (- 1) | Some (tx, rx) \<Rightarrow> ld_add f tx rx)"

definition comparable ::
  "fpu \<Rightarrow> (c_ldouble \<Rightarrow> 'v::linorder) \<Rightarrow> (list_devices_t \<Rightarrow> (c_ldouble \<times> c_ldouble) option) \<Rightarrow> list_devices_t set \<Rightarrow> bool" where
  "comparable f val ld A \<longleftrightarrow> compares f val (insert (ld_of_long f (- 1)) (traffic_sum f ld ` A)) \<and>
     (\<forall>ap\<in>A. \<forall>tx rx. ld ap = Some (tx, rx) \<longrightarrow> \<not> ld_eq f tx (ld_of_long f (- 1)) \<and>
        val (ld_of_long f (- 1)) < val (ld_add f tx rx))"

lemma measured_simps:
  assumes "ld_eq f (ld_of_long f (- 1)) (ld_of_long f (- 1))"
    and "\<And>tx rx. ld (ar_ap p) = Some (tx, rx) \<Longrightarrow> \<not> ld_eq f tx (ld_of_long f (- 1))"
  shows "answered f (measured f ld p) \<longleftrightarrow> ld (ar_ap p) \<noteq> None" "ar_index (measured f ld p) = ar_index p"
    "ld (ar_ap p) \<noteq> None \<Longrightarrow> load f (measured f ld p) = traffic_sum f ld (ar_ap p)"
  using assms by (auto simp: answered_def measured_def traffic_sum_def split: option.splits)

text \<open>The decision on the list of access points in range.\<close>

lemma decide_index:
  assumes "comparable f val ld (device_of c ` set (filter (candidate f c cur) l))"
    and ps: "ps = map (measured f ld) (map (range_cell f c l) (rev (filter (\<lambda>i. candidate f c cur (l ! i)) [0..<length l])))"
  shows "case least_traffic f ps of
      None \<Rightarrow> \<forall>a\<in>set l. candidate f c cur a \<longrightarrow> ld (device_of c a) = None
    | Some i \<Rightarrow> i < length l \<and> candidate f c cur (l ! i) \<and> ld (device_of c (l ! i)) \<noteq> None \<and>
        (\<forall>a\<in>set l. candidate f c cur a \<longrightarrow> ld (device_of c a) \<noteq> None \<longrightarrow>
           val (traffic_sum f ld (device_of c (l ! i))) \<le> val (traffic_sum f ld (device_of c a)))"
proof -
  let ?m = "ld_of_long f (- 1)"
  have eq: "ld_eq f ?m ?m"
    using assms(1) by (auto simp: comparable_def compares_def)
  have mem: "p \<in> set ps \<longleftrightarrow> (\<exists>i<length l. candidate f c cur (l ! i) \<and> p = measured f ld (range_cell f c l i))" for p
    by (auto simp: ps)
  have cell: "answered f (measured f ld (range_cell f c l i)) \<longleftrightarrow> ld (device_of c (l ! i)) \<noteq> None"
      "ar_index (measured f ld (range_cell f c l i)) = i"
      "ld (device_of c (l ! i)) \<noteq> None \<Longrightarrow> load f (measured f ld (range_cell f c l i)) = traffic_sum f ld (device_of c (l ! i))"
    if i: "i < length l" "candidate f c cur (l ! i)" for i
  proof -
    have "l ! i \<in> set (filter (candidate f c cur) l)"
      using i by simp
    then have "\<not> ld_eq f tx ?m" if "ld (ar_ap (range_cell f c l i)) = Some (tx, rx)" for tx rx
      using assms(1) that unfolding comparable_def by (force simp: range_cell_def)
    from measured_simps [where ld = ld and p = "range_cell f c l i", OF eq this] show
      "answered f (measured f ld (range_cell f c l i)) \<longleftrightarrow> ld (device_of c (l ! i)) \<noteq> None"
      "ar_index (measured f ld (range_cell f c l i)) = i"
      "ld (device_of c (l ! i)) \<noteq> None \<Longrightarrow> load f (measured f ld (range_cell f c l i)) = traffic_sum f ld (device_of c (l ! i))"
      by (simp_all add: range_cell_def)
  qed
  have low: "val ?m < val (load f p)" if p: "p \<in> set ps" "answered f p" for p
  proof -
    obtain i where i: "i < length l" "candidate f c cur (l ! i)" "p = measured f ld (range_cell f c l i)"
      using p(1) mem by blast
    then obtain tx rx where "ld (device_of c (l ! i)) = Some (tx, rx)"
      using p(2) cell(1) [OF i(1,2)] by auto
    moreover have "l ! i \<in> set (filter (candidate f c cur) l)"
      using i by simp
    ultimately show ?thesis
      using assms(1) i(3) cell(3) [OF i(1,2)] unfolding comparable_def by (force simp: traffic_sum_def)
  qed
  have "load f p \<in> traffic_sum f ld ` device_of c ` set (filter (candidate f c cur) l)" if p: "p \<in> set ps" "answered f p" for p
  proof -
    obtain i where i: "i < length l" "candidate f c cur (l ! i)" "p = measured f ld (range_cell f c l i)"
      using p(1) mem by blast
    then have "load f p = traffic_sum f ld (device_of c (l ! i))"
      using p(2) cell [OF i(1,2)] by simp
    then show ?thesis
      using i(1,2) by simp
  qed
  then have sub: "load f ` set (filter (answered f) ps) \<subseteq> traffic_sum f ld ` device_of c ` set (filter (candidate f c cur) l)"
    by auto
  have "compares f val (insert ?m (traffic_sum f ld ` device_of c ` set (filter (candidate f c cur) l)))"
    using assms(1) unfolding comparable_def by (rule conjunct1)
  then have "compares f val (insert ?m (load f ` set (filter (answered f) ps)))"
    by (rule compares_mono) (rule insert_mono [OF sub])
  note least = least_traffic_min [OF this low]
  show ?thesis
  proof (cases "least_traffic f ps")
    case None
    then have "filter (answered f) ps = []"
      using least by simp
    then have "ld (device_of c (l ! i)) = None" if "i < length l" "candidate f c cur (l ! i)" for i
      using that cell(1) [OF that] mem by (metis (no_types, lifting) filter_empty_conv)
    then show ?thesis
      unfolding None by (auto simp: in_set_conv_nth)
  next
    case (Some k)
    then obtain p where p: "p \<in> set ps" "answered f p" "k = ar_index p"
        "\<forall>p'\<in>set ps. answered f p' \<longrightarrow> val (load f p) \<le> val (load f p')"
      using least by auto
    obtain i where i: "i < length l" "candidate f c cur (l ! i)" "p = measured f ld (range_cell f c l i)"
      using p(1) mem by blast
    have "k = i"
      using p(3) i cell(2) [OF i(1,2)] by simp
    moreover have "val (traffic_sum f ld (device_of c (l ! i))) \<le> val (traffic_sum f ld (device_of c (l ! m)))"
      if "m < length l" "candidate f c cur (l ! m)" "ld (device_of c (l ! m)) \<noteq> None" for m
      using p(2,4) i cell [OF i(1,2)] cell [OF that(1,2)] that mem by metis
    ultimately show ?thesis
      unfolding Some using i p(2) cell(1) [OF i(1,2)] by (auto simp: in_set_conv_nth)
  qed
qed

text \<open>What the answer to the station says: the message that came, with another access point.\<close>

definition tells_ap :: "msg_snr_threshold_reached \<Rightarrow> cstr \<Rightarrow> u8 list \<Rightarrow> bool" where
  "tells_ap q mac out \<longleftrightarrow> of_type (m_type q) out \<and> (\<forall>r h0. \<exists>m. decode_msg_snr_threshold_reached (out @ r) h0 = Inr m \<and>
     m_id m = m_id q \<and> th_sta m = canon (th_sta q) \<and> intf_name m = canon (intf_name q) \<and> th_ap m = canon mac)"

lemma norm_reached_simps [simp]:
  "m_type (norm_reached h0 h) = m_type h" "m_id (norm_reached h0 h) = m_id h" "p_version (norm_reached h0 h) = ETHANOL_VERSION"
  "intf_name (norm_reached h0 h) = canon (intf_name h)" "sta_ip (norm_reached h0 h) = canon (sta_ip h)"
  "sta_port (norm_reached h0 h) = sta_port h" "th_sta (norm_reached h0 h) = canon (th_sta h)"
  "th_ap (norm_reached h0 h) = canon (th_ap h)"
  by (simp_all add: norm_reached_def norm_header_def)

lemma printf_reached_ok: "printf_msg_snr_threshold_reached (norm_reached h0 q) = Inr ()"
proof -
  have "fmt_str (canon s) = Inr (shown (canon s))" for s
    by (rule fmt_str_wf) simp
  moreover have "fmt_str ETHANOL_VERSION = Inr (shown ETHANOL_VERSION)"
    by (rule fmt_str_wf) simp
  ultimately show ?thesis
    by (simp add: printf_msg_snr_threshold_reached_def)
qed

lemma process_reached_here:
  assumes "ok_reached q" "allocates mal" "encode_msg_snr_threshold_reached mal q = Inr (q', wire)" "slen (sta_ip q) = 0"
  shows "process_reached here e (wire @ r) hm hs hm' s = and_then (here s (norm_reached hm q)) (\<lambda>(s, ev, h).
    and_then (encode_msg_snr_threshold_reached (mallocs e) h) (\<lambda>(_, output). Inr (s, ev, Some output)))"
  using reached.roundtrip [OF assms(1-3), of r hm] assms(4) canon_eq_None [of "sta_ip q"]
  by (simp add: process_reached_def printf_reached_ok)

lemma reply_tells:
  assumes "ok_reached q" "allocates mal" "ok_str mac" "bytes_reached q + slen mac < 2 ^ 31"
  shows "\<exists>m' out. encode_msg_snr_threshold_reached mal ((norm_reached h0 q)\<lparr>th_ap := mac\<rparr>) = Inr (m', out) \<and> tells_ap q mac out"
proof -
  let ?a = "(norm_reached h0 q)\<lparr>th_ap := mac\<rparr>"
  have ok: "ok_reached ?a"
    using assms(1,3,4) by (simp add: ok_reached_def ok_header_def bytes_reached_def ok_strD)
  obtain m' out where o: "encode_msg_snr_threshold_reached mal ?a = Inr (m', out)"
    using reached.enc_no_fault [OF ok assms(2)] by blast
  have "tells_ap q mac out"
    using reached.wire_type [OF ok assms(2) o] reached.roundtrip [OF ok assms(2) o] by (simp add: tells_ap_def)
  with o show ?thesis by blast
qed

lemma decide_eq:
  assumes "find_station (th_sta h) c = Inr (Some sta)"
    and "send_msg_get_ap_in_range got e (dev_host sta) (dev_port sta) (handover_id c) (intf_name h) None 0
      (j_range j 0) (j_range j 1) = Inr (ev, i, Some l)"
    and "run_prog (map (keep_ap f c (th_ap h) (aps l)) [0..<unat (num_aps l)]) [] = Inr cells"
  shows "decide f e got j c h = (if cells = [] then Inr (c\<lparr>handover_id := i\<rparr>, ev, h)
    else and_then (ask_traffic f e (j_traffic j 0) (j_traffic j 1) cells i) (\<lambda>(evs, i, cells).
      case least_traffic f cells of
        None \<Rightarrow> Inl Use_After_Free
      | Some k \<Rightarrow> and_then (nth_elem (aps l) k) (\<lambda>a.
          Inr (c\<lparr>handover_id := i\<rparr>, ev @ evs, h\<lparr>th_ap := r_mac a\<rparr>))))"
  unfolding decide_def assms(1) by (simp only: and_then_simps option.case assms(2,3) prod.case)

lemma th_ap_self: "h\<lparr>th_ap := th_ap h\<rparr> = h"
  by simp

lemma decide_outcome:
  fixes h :: msg_snr_threshold_reached
  assumes h: "named (th_sta h)" "named (th_ap h)"
    and c: "wf_devices (list_of_aps c)" "wf_devices (list_of_stations c)"
      "device_map (list_of_stations c) (chars (th_sta h)) = Some sta"
    and range: "send_msg_get_ap_in_range got e (dev_host sta) (dev_port sta) (handover_id c) (intf_name h) None 0
        (j_range j 0) (j_range j 1) = Inr (ev, i, Some l)"
      "unat (num_aps l) = length (aps l)" "\<forall>a\<in>set (aps l). named (r_mac a)"
    and loads: "\<forall>a\<in>set (aps l). candidate f c (chars (th_ap h)) a \<longrightarrow> reports_load e j ld (device_of c a)"
      "comparable f val ld (device_of c ` set (filter (candidate f c (chars (th_ap h))) (aps l)))"
  defines "cands \<equiv> filter (candidate f c (chars (th_ap h))) (aps l)"
  shows "if cands = [] then \<exists>c'. decide f e got j c h = Inr (c', ev, h)
    else if \<forall>a\<in>set cands. ld (device_of c a) = None then decide f e got j c h = Inl Use_After_Free
    else \<exists>a\<in>set cands. (\<exists>c' ev'. decide f e got j c h = Inr (c', ev @ ev', h\<lparr>th_ap := r_mac a\<rparr>)) \<and>
      ld (device_of c a) \<noteq> None \<and>
      (\<forall>b\<in>set cands. ld (device_of c b) \<noteq> None \<longrightarrow>
         val (traffic_sum f ld (device_of c a)) \<le> val (traffic_sum f ld (device_of c b)))"
proof -
  have sta: "find_station (th_sta h) c = Inr (Some sta)"
    using devices.find_abs [OF c(2) h(1)] c(3) by (simp add: find_station_def)
  define cells where "cells = map (range_cell f c (aps l)) (rev (filter (\<lambda>i. candidate f c (chars (th_ap h)) (aps l ! i)) [0..<length (aps l)]))"
  have kept: "run_prog (map (keep_ap f c (th_ap h) (aps l)) [0..<unat (num_aps l)]) [] = Inr cells"
    unfolding cells_def range(2) using keep_ap_all [OF c(1) range(3) h(2), of "length (aps l)" f] by simp
  note dec = decide_eq [OF sta range(1) kept]
  have none: "cells = [] \<longleftrightarrow> cands = []"
    by (auto simp: cells_def cands_def filter_empty_conv all_set_conv_all_nth)
  have "\<forall>p\<in>set cells. reports_load e j ld (ar_ap p)"
    using loads(1) by (auto simp: cells_def range_cell_def)
  then obtain evs i' where asked: "ask_traffic f e (j_traffic j 0) (j_traffic j 1) cells i = Inr (evs, i', map (measured f ld) cells)"
    using ask_traffic_measured by blast
  note d = decide_index [OF loads(2) refl, folded cells_def]
  show ?thesis
  proof (cases "cands = []")
    case True
    then show ?thesis
      using none by (simp add: dec)
  next
    case False
    show ?thesis
    proof (cases "least_traffic f (map (measured f ld) cells)")
      case None
      then have "\<forall>a\<in>set cands. ld (device_of c a) = None"
        using d by (auto simp: cands_def)
      moreover have "decide f e got j c h = Inl Use_After_Free"
        using False none None by (simp add: dec asked [simplified])
      ultimately show ?thesis
        using False by simp
    next
      case (Some k)
      let ?a = "aps l ! k"
      have k: "k < length (aps l)" "?a \<in> set cands" "ld (device_of c ?a) \<noteq> None"
          "\<forall>b\<in>set cands. ld (device_of c b) \<noteq> None \<longrightarrow>
             val (traffic_sum f ld (device_of c ?a)) \<le> val (traffic_sum f ld (device_of c b))"
        using d unfolding Some by (auto simp: cands_def)
      have "decide f e got j c h = Inr (c\<lparr>handover_id := i'\<rparr>, ev @ evs, h\<lparr>th_ap := r_mac ?a\<rparr>)"
        using False none Some k(1) by (simp add: dec asked [simplified] nth_elem_def)
      then have "\<exists>a\<in>set cands. (\<exists>c' ev'. decide f e got j c h = Inr (c', ev @ ev', h\<lparr>th_ap := r_mac a\<rparr>)) \<and>
          ld (device_of c a) \<noteq> None \<and> (\<forall>b\<in>set cands. ld (device_of c b) \<noteq> None \<longrightarrow>
            val (traffic_sum f ld (device_of c a)) \<le> val (traffic_sum f ld (device_of c b)))"
        using k(3,4) by (intro bexI [OF _ k(2)] conjI exI)
      moreover have "\<not> (\<forall>b\<in>set cands. ld (device_of c b) = None)"
        using k(3) bspec [OF _ k(2), of "\<lambda>b. ld (device_of c b) = None"] by (rule contrapos_nn)
      ultimately show ?thesis
        using False by (simp only: if_False)
    qed
  qed
qed

text \<open>The whole handler, on what the station and the access points answer.\<close>

lemma handover_decision:
  fixes r :: "u8 list" and hm hs hm' :: msg_snr_threshold_reached
  assumes q: "ok_reached q" "allocates mal" "encode_msg_snr_threshold_reached mal q = Inr (q', wire)"
      "slen (sta_ip q) = 0" "0 < slen (th_sta q)" "0 < slen (th_ap q)" "bytes_reached q < 2 ^ 30"
    and c: "wf_devices (list_of_aps c)" "wf_devices (list_of_stations c)"
      "device_map (list_of_stations c) (chars (th_sta q)) = Some sta"
    and range: "send_msg_get_ap_in_range got e (dev_host sta) (dev_port sta) (handover_id c) (canon (intf_name q)) None 0
        (j_range j 0) (j_range j 1) = Inr (ev, i, Some l)"
      "unat (num_aps l) = length (aps l)" "\<forall>a\<in>set (aps l). named (r_mac a) \<and> slen (r_mac a) < 2 ^ 30"
    and loads: "\<forall>a\<in>set (aps l). candidate f c (chars (th_ap q)) a \<longrightarrow> reports_load e j ld (device_of c a)"
      "comparable f val ld (device_of c ` set (filter (candidate f c (chars (th_ap q))) (aps l)))"
    and e: "allocates (mallocs e)"
  defines "cands \<equiv> filter (candidate f c (chars (th_ap q))) (aps l)"
    and "run \<equiv> process_msg_snr_threshold_reached_handover f got j e (wire @ r) hm hs hm' c"
  shows "if cands = [] then \<exists>c' out. run = Inr (c', ev, Some out) \<and> tells_ap q (th_ap q) out
    else if \<forall>a\<in>set cands. ld (device_of c a) = None then run = Inl Use_After_Free
    else \<exists>a\<in>set cands. \<exists>c' ev' out. run = Inr (c', ev @ ev', Some out) \<and> tells_ap q (r_mac a) out \<and>
      ld (device_of c a) \<noteq> None \<and>
      (\<forall>b\<in>set cands. ld (device_of c b) \<noteq> None \<longrightarrow>
         val (traffic_sum f ld (device_of c a)) \<le> val (traffic_sum f ld (device_of c b)))"
proof -
  let ?h = "norm_reached hm q"
  have h: "named (th_sta ?h)" "named (th_ap ?h)" "chars (th_sta ?h) = chars (th_sta q)" "chars (th_ap ?h) = chars (th_ap q)"
      "intf_name ?h = canon (intf_name q)"
    using q(5,6) canon_eq_None by (simp_all add: named_def del: not_None_eq)
  have run: "run = and_then (decide f e got j c ?h) (\<lambda>(s, ev, h).
      and_then (encode_msg_snr_threshold_reached (mallocs e) h) (\<lambda>(_, output). Inr (s, ev, Some output)))"
    unfolding run_def process_msg_snr_threshold_reached_handover_def by (rule process_reached_here [OF q(1-4)])
  have mac: "\<exists>m' out. encode_msg_snr_threshold_reached (mallocs e) (?h\<lparr>th_ap := r_mac a\<rparr>) = Inr (m', out) \<and>
      tells_ap q (r_mac a) out" if "a \<in> set cands" for a
    by (rule reply_tells [OF q(1) e]) (use range(3) that q(7) in \<open>auto simp: cands_def named_def ok_str_def\<close>)
  have "\<exists>m' out. encode_msg_snr_threshold_reached (mallocs e) (?h\<lparr>th_ap := th_ap ?h\<rparr>) = Inr (m', out) \<and>
      tells_ap q (th_ap ?h) out"
    by (rule reply_tells [OF q(1) e]) (use q(1,7) in \<open>simp_all add: bytes_reached_def ok_reached_def ok_str_def\<close>)
  then have own: "\<exists>m' out. encode_msg_snr_threshold_reached (mallocs e) ?h = Inr (m', out) \<and> tells_ap q (th_ap q) out"
    unfolding th_ap_self by (simp add: tells_ap_def)
  have named: "\<forall>a\<in>set (aps l). named (r_mac a)"
    using range(3) by simp
  note o = decide_outcome [where h = ?h and c = c and l = l and sta = sta and e = e and j = j and got = got and i = i and ev = ev
      and f = f and ld = ld and val = val, unfolded h(3-5), OF h(1,2) c range(1,2) named loads, folded cands_def]
  show ?thesis
  proof (cases "cands = []")
    case True
    then show ?thesis
      using o own by (auto simp: run)
  next
    case False
    show ?thesis
    proof (cases "\<forall>a\<in>set cands. ld (device_of c a) = None")
      case True
      then show ?thesis
        using o False by (simp add: run)
    next
      case heard: False
      then obtain a c' ev' where a: "a \<in> set cands" "decide f e got j c ?h = Inr (c', ev @ ev', ?h\<lparr>th_ap := r_mac a\<rparr>)"
          "ld (device_of c a) \<noteq> None" "\<forall>b\<in>set cands. ld (device_of c b) \<noteq> None \<longrightarrow>
             val (traffic_sum f ld (device_of c a)) \<le> val (traffic_sum f ld (device_of c b))"
        using o \<open>cands \<noteq> []\<close> by (simp only: if_False) blast
      obtain m' out where "encode_msg_snr_threshold_reached (mallocs e) (?h\<lparr>th_ap := r_mac a\<rparr>) = Inr (m', out)"
          "tells_ap q (r_mac a) out"
        using mac [OF a(1)] by blast
      then have "run = Inr (c', ev @ ev', Some out)" "tells_ap q (r_mac a) out"
        by (simp_all add: run a(2))
      then have "\<exists>a\<in>set cands. \<exists>c' ev' out. run = Inr (c', ev @ ev', Some out) \<and> tells_ap q (r_mac a) out \<and>
          ld (device_of c a) \<noteq> None \<and> (\<forall>b\<in>set cands. ld (device_of c b) \<noteq> None \<longrightarrow>
            val (traffic_sum f ld (device_of c a)) \<le> val (traffic_sum f ld (device_of c b)))"
        using a(3,4) by (intro bexI [OF _ a(1)] conjI exI)
      then show ?thesis
        using heard \<open>cands \<noteq> []\<close> by (simp only: if_False)
    qed
  qed
qed


subsection \<open>The decision across the machines\<close>

text \<open>The traffic that an access point with the collector \<open>s\<close> reports first.\<close>

definition first_load :: "timer \<Rightarrow> (c_ldouble \<times> c_ldouble) option" where
  "first_load s = (case list_net_statistics (means_list s) of
       [] \<Rightarrow> None
     | p # _ \<Rightarrow> Some (mean_tx_bytes (means (snd p)), mean_rx_bytes (means (snd p))))"

text \<open>The machine at the address of a device answers for its means with the collector \<open>s\<close>.\<close>

definition serves_means :: "env \<Rightarrow> list_devices_t \<Rightarrow> timer \<Rightarrow> bool" where
  "serves_means e ap s \<longleftrightarrow> wf_collector (means_list s) \<and> report_bytes (list_net_statistics (means_list s)) < 2 ^ 31 - 200 \<and>
     (\<exists>e2 now j stack. allocates (mallocs e2) \<and>
        serves e (dev_host ap) (dev_port ap) MSG_MEAN_STA_STATISTICS_GET (\<lambda>req.
          and_then (process_msg_mean_sta_statistics e2 now (req @ stack) j s) (\<lambda>(_, ev, reply). Inr (ev, reply))))"

lemma reports_load_served:
  assumes "serves_means e ap s" "list_net_statistics (means_list s) \<noteq> []" "reaches e (dev_host ap) (dev_port ap)"
    and "allocates (mallocs e)" "all_means (j_traffic j 0) = None" "ld ap = first_load s"
  shows "reports_load e j ld ap"
  unfolding reports_load_def
proof
  fix i
  let ?host = "dev_host ap" and ?port = "dev_port ap" and ?l = "list_net_statistics (means_list s)"
  obtain e2 now j2 stack where srv: "allocates (mallocs e2)" "serves e ?host ?port MSG_MEAN_STA_STATISTICS_GET (\<lambda>req.
      and_then (process_msg_mean_sta_statistics e2 now (req @ stack) j2 s) (\<lambda>(_, ev, reply). Inr (ev, reply)))"
    and wf: "wf_collector (means_list s)" "report_bytes ?l < 2 ^ 31 - 200"
    using assms(1) by (auto simp: serves_means_def)
  have "slen None < 2 ^ 31 - 100" by simp
  from send_mean_eq [where e = e and i = i and host = ?host and port = ?port and staport = 0 and hm = "j_traffic j 1",
      OF copyable_None this assms(5)]
  obtain q where q: "ok_mean q" "m_type q = MSG_MEAN_STA_STATISTICS_GET" "canon (peer_ip q) = canon None"
    and s: "send_msg_mean_sta_statistics e ?host ?port i None 0 (j_traffic j 0) (j_traffic j 1)
      = send_sync e ?host ?port i (\<lambda>_. Inr q) (encode_msg_mean_sta_statistics (mallocs e))
          (\<lambda>t. t = MSG_MEAN_STA_STATISTICS_GET) (\<lambda>b. decode_msg_mean_sta_statistics b (j_traffic j 1))"
    by blast
  obtain q' req where w: "encode_msg_mean_sta_statistics (mallocs e) q = Inr (q', req)"
    using mean.enc_no_fault [OF q(1) assms(4)] by blast
  have "slen (peer_ip q) = 0"
    using q(3) canon_eq_None [of "peer_ip q"] by simp
  then obtain out where out: "process_msg_mean_sta_statistics e2 now (req @ stack) j2 s = Inr (s, [], Some out)"
      "of_type MSG_MEAN_STA_STATISTICS_GET out"
      "\<And>r h0. \<exists>a. decode_msg_mean_sta_statistics (out @ r) h0 = Inr a \<and> (case all_means a of
         None \<Rightarrow> ?l = [] | Some v \<Rightarrow> ns v = map (\<lambda>p. means (snd p)) ?l)"
    using means_answer [OF q(1,2) assms(4) w srv(1) wf(1), of now stack j2] wf(2) by (fastforce split: option.splits)
  obtain r where r: "ssl_read e ?host ?port req = out @ r"
    using servesD [OF srv(2), of req "[]" out] mean.wire_type [OF q(1) assms(4) w] q(2) out(1) by auto
  obtain a where a: "decode_msg_mean_sta_statistics (out @ r) (j_traffic j 1) = Inr a"
      "case all_means a of None \<Rightarrow> ?l = [] | Some v \<Rightarrow> ns v = map (\<lambda>p. means (snd p)) ?l"
    using out(3) by blast
  have "send_msg_mean_sta_statistics e ?host ?port i None 0 (j_traffic j 0) (j_traffic j 1)
      = Inr (session e ?host ?port req, i + 1, Some a)"
    unfolding s using a(1) of_type_message [OF out(2), of r] close_open_connection [OF assms(3), of req]
    by (simp add: send_sync_def assms(3) w r Let_def)
  moreover obtain v where "all_means a = Some v" "ns v = map (\<lambda>p. means (snd p)) ?l"
    using a(2) assms(2) by (cases "all_means a") auto
  ultimately show "\<exists>ev i' m. send_msg_mean_sta_statistics e ?host ?port i None 0 (j_traffic j 0) (j_traffic j 1) = Inr (ev, i', m) \<and>
     (case ld ap of
        None \<Rightarrow> m = None
      | Some (tx, rx) \<Rightarrow> \<exists>a v s r. m = Some a \<and> all_means a = Some v \<and> ns v = s # r \<and>
          mean_tx_bytes s = tx \<and> mean_rx_bytes s = rx)"
    using assms(2,6) by (cases ?l) (auto simp: first_load_def)
qed

lemma reports_load_unreached:
  assumes "\<not> reaches e (dev_host ap) (dev_port ap)" "ld ap = None"
  shows "reports_load e j ld ap"
  unfolding reports_load_def
proof
  fix i
  obtain ev where "send_msg_mean_sta_statistics e (dev_host ap) (dev_port ap) i None 0 (j_traffic j 0) (j_traffic j 1)
      = Inr (ev, i, None)"
    using send_sync_unreached [OF assms(1)] unfolding send_msg_mean_sta_statistics_def by blast
  then show "\<exists>ev i' m. send_msg_mean_sta_statistics e (dev_host ap) (dev_port ap) i None 0 (j_traffic j 0) (j_traffic j 1)
      = Inr (ev, i', m) \<and> (case ld ap of
        None \<Rightarrow> m = None
      | Some (tx, rx) \<Rightarrow> \<exists>a v s r. m = Some a \<and> all_means a = Some v \<and> ns v = s # r \<and>
          mean_tx_bytes s = tx \<and> mean_rx_bytes s = rx)"
    using assms(2) by simp
qed

lemma tells_ap_canon [simp]: "tells_ap q (canon m) out = tells_ap q m out"
  by (simp add: tells_ap_def)

lemma r_mac_of_scan [simp]: "r_mac (of_scan s) = s_mac s"
  by (simp add: of_scan_def)

lemma candidate_norm [simp]: "candidate f c cur (norm_ap a) = candidate f c cur a" "device_of c (norm_ap a) = device_of c a"
  by (simp_all add: candidate_def device_of_def)

lemma handover_choice:
  fixes r :: "u8 list" and hm hs hm' :: msg_snr_threshold_reached and f :: fpu
  assumes q: "ok_reached q" "allocates mal" "encode_msg_snr_threshold_reached mal q = Inr (q', wire)"
      "slen (sta_ip q) = 0" "0 < slen (th_sta q)" "0 < slen (th_ap q)" "0 < slen (intf_name q)" "bytes_reached q < 2 ^ 30 - 200"
    and c: "wf_devices (list_of_aps c)" "wf_devices (list_of_stations c)"
      "device_map (list_of_stations c) (chars (th_sta q)) = Some sta"
    and e: "allocates (mallocs e)" "copyable (mallocs e) ETHANOL_VERSION" "copyable (mallocs e) (canon (intf_name q))"
      "all_means (j_traffic j 0) = None"
    and station: "reaches e (dev_host sta) (dev_port sta)" "allocates (mallocs e2)" "sendable_scan (sc_results sc (canon (intf_name q)))"
      "\<forall>s\<in>set (sc_results sc (canon (intf_name q))). 0 < slen (s_mac s)"
      "serves e (dev_host sta) (dev_port sta) MSG_GET_AP_IN_RANGE_TYPE
        (\<lambda>req. process_msg_ap_in_range sc nd j2 got2 e2 (req @ stack) hm2 hs2 hm2')"
    and aps: "\<forall>ap\<in>ran (device_map (list_of_aps c)). reaches e (dev_host ap) (dev_port ap) \<longrightarrow>
        serves_means e ap (collector_of ap) \<and> list_net_statistics (means_list (collector_of ap)) \<noteq> []"
  defines "ld \<equiv> \<lambda>ap. if reaches e (dev_host ap) (dev_port ap) then first_load (collector_of ap) else None"
    and "cands \<equiv> filter (\<lambda>s. candidate f c (chars (th_ap q)) (of_scan s)) (sc_results sc (canon (intf_name q)))"
    and "run \<equiv> process_msg_snr_threshold_reached_handover f True j e (wire @ r) hm hs hm' c"
  assumes loads: "comparable f val ld ((\<lambda>s. device_of c (of_scan s)) ` set cands)"
  shows "if cands = [] then \<exists>c' ev out. run = Inr (c', ev, Some out) \<and> tells_ap q (th_ap q) out
    else if \<forall>s\<in>set cands. ld (device_of c (of_scan s)) = None then run = Inl Use_After_Free
    else \<exists>s\<in>set cands. \<exists>c' ev out. run = Inr (c', ev, Some out) \<and> tells_ap q (s_mac s) out \<and>
      ld (device_of c (of_scan s)) \<noteq> None \<and>
      (\<forall>s'\<in>set cands. ld (device_of c (of_scan s')) \<noteq> None \<longrightarrow>
         val (traffic_sum f ld (device_of c (of_scan s))) \<le> val (traffic_sum f ld (device_of c (of_scan s'))))"
proof -
  let ?n = "canon (intf_name q)" and ?cur = "chars (th_ap q)"
  have n: "?n \<noteq> None" "slen ?n < 2 ^ 30 - 100"
    using q(7,8) canon_eq_None [of "intf_name q"] by (auto simp: bytes_reached_def)
  obtain req l where l: "send_msg_get_ap_in_range True e (dev_host sta) (dev_port sta) (handover_id c) ?n None 0
        (j_range j 0) (j_range j 1) = Inr (session e (dev_host sta) (dev_port sta) req, handover_id c + 1, Some l)"
      "num_aps l = word_of_nat (length (sc_results sc ?n))" "aps l = map (\<lambda>s. norm_ap (of_scan s)) (sc_results sc ?n)"
    using in_range_end_to_end [OF e(2,3) n e(1) station(1,2) _ station(5), of "handover_id c" "j_range j 0" "j_range j 1"] station(3)
    by auto
  have num: "unat (num_aps l) = length (aps l)"
    using sendable_short [OF station(3)] by (simp add: l(2,3) unat_word_of_small)
  have macs: "\<forall>a\<in>set (aps l). named (r_mac a) \<and> slen (r_mac a) < 2 ^ 30"
  proof
    fix a
    assume "a \<in> set (aps l)"
    then obtain s where s: "s \<in> set (sc_results sc ?n)" "a = norm_ap (of_scan s)"
      by (auto simp: l(3))
    have "slen (s_mac s) \<le> bytes_ap (of_scan s)" "0 < slen (s_mac s)"
      using s(1) station(4) by (simp_all add: bytes_ap_def of_scan_def)
    moreover have "bytes_ap (of_scan s) \<le> sum_list (map (\<lambda>s. bytes_ap (of_scan s)) (sc_results sc ?n))"
      using s(1) by (intro member_le_sum_list) auto
    ultimately show "named (r_mac a) \<and> slen (r_mac a) < 2 ^ 30"
      using station(3) canon_eq_None [of "s_mac s"] by (simp add: s(2) of_scan_def sendable_scan_def named_def del: not_None_eq)
  qed
  have known: "device_of c a \<in> ran (device_map (list_of_aps c))" if "candidate f c ?cur a" for a
    using that by (auto simp: candidate_def device_of_def ran_def)
  have rep: "reports_load e j ld ap" if "ap \<in> ran (device_map (list_of_aps c))" for ap
    using reports_load_served [of e ap "collector_of ap" j ld] reports_load_unreached [of e ap ld j] aps that e(1,4)
    by (cases "reaches e (dev_host ap) (dev_port ap)") (auto simp: ld_def)
  have cands: "filter (candidate f c ?cur) (aps l) = map (\<lambda>s. norm_ap (of_scan s)) cands"
    by (simp add: l(3) cands_def filter_map comp_def)
  have "comparable f val ld (device_of c ` set (filter (candidate f c ?cur) (aps l)))"
    using loads unfolding cands by (simp add: image_image)
  moreover have "\<forall>a\<in>set (aps l). candidate f c ?cur a \<longrightarrow> reports_load e j ld (device_of c a)"
    using known rep by blast
  moreover have "bytes_reached q < 2 ^ 30"
    using q(8) by simp
  ultimately have d: "let cs = map (\<lambda>s. norm_ap (of_scan s)) cands in
    if cs = [] then \<exists>c' out. run = Inr (c', session e (dev_host sta) (dev_port sta) req, Some out) \<and> tells_ap q (th_ap q) out
    else if \<forall>a\<in>set cs. ld (device_of c a) = None then run = Inl Use_After_Free
    else \<exists>a\<in>set cs. \<exists>c' ev' out. run = Inr (c', session e (dev_host sta) (dev_port sta) req @ ev', Some out) \<and>
      tells_ap q (r_mac a) out \<and> ld (device_of c a) \<noteq> None \<and>
      (\<forall>b\<in>set cs. ld (device_of c b) \<noteq> None \<longrightarrow>
         val (traffic_sum f ld (device_of c a)) \<le> val (traffic_sum f ld (device_of c b)))"
    unfolding run_def cands [symmetric] Let_def by (intro handover_decision [OF q(1-6) _ c l(1) num macs _ _ e(1)])
  show ?thesis
  proof (cases "cands = []")
    case True
    then show ?thesis
      using d by auto
  next
    case False
    show ?thesis
    proof (cases "\<forall>s\<in>set cands. ld (device_of c (of_scan s)) = None")
      case True
      then show ?thesis
        using False d by simp
    next
      case heard: False
      then have "\<not> (\<forall>a\<in>set (map (\<lambda>s. norm_ap (of_scan s)) cands). ld (device_of c a) = None)"
        by simp
      then have "\<exists>a\<in>set (map (\<lambda>s. norm_ap (of_scan s)) cands). \<exists>c' ev' out.
          run = Inr (c', session e (dev_host sta) (dev_port sta) req @ ev', Some out) \<and>
          tells_ap q (r_mac a) out \<and> ld (device_of c a) \<noteq> None \<and>
          (\<forall>b\<in>set (map (\<lambda>s. norm_ap (of_scan s)) cands). ld (device_of c b) \<noteq> None \<longrightarrow>
            val (traffic_sum f ld (device_of c a)) \<le> val (traffic_sum f ld (device_of c b)))"
        using d False by (simp only: Let_def if_False map_is_Nil_conv)
      then obtain s c' ev' out where s: "s \<in> set cands" "run = Inr (c', session e (dev_host sta) (dev_port sta) req @ ev', Some out)"
          "tells_ap q (s_mac s) out" "ld (device_of c (of_scan s)) \<noteq> None"
          "\<forall>s'\<in>set cands. ld (device_of c (of_scan s')) \<noteq> None \<longrightarrow>
             val (traffic_sum f ld (device_of c (of_scan s))) \<le> val (traffic_sum f ld (device_of c (of_scan s')))"
        by (auto simp del: not_None_eq)
      then have "\<exists>s\<in>set cands. \<exists>c' ev out. run = Inr (c', ev, Some out) \<and> tells_ap q (s_mac s) out \<and>
          ld (device_of c (of_scan s)) \<noteq> None \<and> (\<forall>s'\<in>set cands. ld (device_of c (of_scan s')) \<noteq> None \<longrightarrow>
            val (traffic_sum f ld (device_of c (of_scan s))) \<le> val (traffic_sum f ld (device_of c (of_scan s'))))"
        by (intro bexI [OF _ s(1)] exI conjI)
      then show ?thesis
        using heard False by (simp only: if_False)
    qed
  qed
qed

text \<open>
  C7 The decision of the controller when a station asks for another access point.  The candidates are the
  access points that the station detects, that the controller knows, that are not the current
  one and whose signal is above the threshold.  Without a candidate the answer is the current
  access point.  If candidates can be reached, the answer is one of them, and no other that can be
  reached reports less traffic on its first monitored interface.  If there are candidates but none
  can be reached, the controller encodes a string that it has released.

  The request for the traffic is built in a variable whose pointer to the means is never initialised; the
  theorem is about the runs in which that pointer happens to be null
  (\<open>all_means (j_traffic j 0) = None\<close>).  With another value the request itself is built from whatever the
  pointer leads to (\<open>mean_query_uninitialised\<close> in \<open>Msg_Mean\<close>).
\<close>

theorem handover_least_loaded:
  fixes r :: "u8 list" and hm hs hm' :: msg_snr_threshold_reached and f :: fpu
  assumes q: "ok_reached q" "allocates mal" "encode_msg_snr_threshold_reached mal q = Inr (q', wire)"
      "slen (sta_ip q) = 0" "0 < slen (th_sta q)" "0 < slen (th_ap q)" "0 < slen (intf_name q)" "bytes_reached q < 2 ^ 30 - 200"
    and c: "wf_devices (list_of_aps c)" "wf_devices (list_of_stations c)"
      "device_map (list_of_stations c) (chars (th_sta q)) = Some sta"
    and e: "allocates (mallocs e)" "copyable (mallocs e) ETHANOL_VERSION" "copyable (mallocs e) (canon (intf_name q))"
      "all_means (j_traffic j 0) = None"
    and station: "reaches e (dev_host sta) (dev_port sta)" "allocates (mallocs e2)" "sendable_scan (sc_results sc (canon (intf_name q)))"
      "\<forall>s\<in>set (sc_results sc (canon (intf_name q))). 0 < slen (s_mac s)"
      "serves e (dev_host sta) (dev_port sta) MSG_GET_AP_IN_RANGE_TYPE
        (\<lambda>req. process_msg_ap_in_range sc nd j2 got2 e2 (req @ stack) hm2 hs2 hm2')"
    and aps: "\<forall>ap\<in>ran (device_map (list_of_aps c)). reaches e (dev_host ap) (dev_port ap) \<longrightarrow>
        serves_means e ap (collector_of ap) \<and> list_net_statistics (means_list (collector_of ap)) \<noteq> []"
  defines "ld \<equiv> \<lambda>ap. if reaches e (dev_host ap) (dev_port ap) then first_load (collector_of ap) else None"
    and "cands \<equiv> filter (\<lambda>s. candidate f c (chars (th_ap q)) (of_scan s)) (sc_results sc (canon (intf_name q)))"
    and "run \<equiv> process_msg_snr_threshold_reached_handover f True j e (wire @ r) hm hs hm' c"
  assumes loads: "comparable f val ld ((\<lambda>s. device_of c (of_scan s)) ` set cands)"
  shows "if cands = [] then \<exists>c' ev out. run = Inr (c', ev, Some out) \<and> tells_ap q (th_ap q) out
    else if \<forall>s\<in>set cands. ld (device_of c (of_scan s)) = None then run = Inl Use_After_Free
    else \<exists>s\<in>set cands. \<exists>c' ev out. run = Inr (c', ev, Some out) \<and> tells_ap q (s_mac s) out \<and>
      ld (device_of c (of_scan s)) \<noteq> None \<and>
      (\<forall>s'\<in>set cands. ld (device_of c (of_scan s')) \<noteq> None \<longrightarrow>
         val (traffic_sum f ld (device_of c (of_scan s))) \<le> val (traffic_sum f ld (device_of c (of_scan s'))))"
  unfolding ld_def cands_def run_def by (rule handover_choice [OF q c e station aps loads [unfolded ld_def cands_def]])

text \<open>A concrete experiment: a station at port 1 that detects three access points, two of them known.\<close>

definition demo_scan :: "u8 \<Rightarrow> scan_info_t" where
  "demo_scan m = \<lparr>s_intf = None, s_mac = Some [m, 0], s_SSID = None, s_status = 0, s_frequency = 2437, s_channel = 6,
     s_dBm = True, s_signal = - 60, s_powerconstraint = 0, s_tx_power = 0, s_link_margin = 0, s_age = 0\<rparr>"

definition demo_scanner :: scanner where
  "demo_scanner = \<lparr>sc_trigger = (\<lambda>_. []), sc_results = (\<lambda>_. [demo_scan 0x61, demo_scan 0x62, demo_scan 0x63])\<rparr>"

definition demo_dev :: "u8 \<Rightarrow> c_int \<Rightarrow> list_devices_t" where
  "demo_dev m p = \<lparr>dev_mac = Some [m, 0], dev_host = demo_name, dev_port = p\<rparr>"

definition demo_controller :: controller where
  "demo_controller = init_controller\<lparr>list_of_aps := [demo_dev 0x62 2, demo_dev 0x63 3],
     list_of_stations := [demo_dev 0x73 1]\<rparr>"

definition demo_load :: "c_ldouble \<Rightarrow> timer" where
  "demo_load n = (init_timer demo_fpu)\<lparr>means_list := \<lparr>list_net_statistics = [([0x65, 0], \<lparr>current_value = demo_stats0,
     last_t = \<lparr>tv_sec = 0, tv_usec = 0\<rparr>, means = zero_means\<lparr>mean_tx_bytes := n\<rparr>\<rparr>)], ewma_alpha = 0\<rparr>\<rparr>"

definition demo_reached :: msg_snr_threshold_reached where
  "demo_reached = \<lparr>m_type = MSG_SET_SNR_THRESHOLD_REACHED, m_id = 7, p_version = ETHANOL_VERSION, m_size = 0,
     intf_name = demo_name, sta_ip = None, sta_port = 0, th_sta = Some [0x73, 0], th_ap = Some [0x61, 0], th_snr = 3\<rparr>"

definition demo_in_range :: msg_ap_in_range where
  "demo_in_range = \<lparr>m_type = 0, m_id = 0, p_version = None, m_size = 0, intf_name = None, sta_ip = None, sta_port = 0,
     num_aps = 0, aps = []\<rparr>"

definition demo_handover_junk :: handover_junk where
  "demo_handover_junk = \<lparr>j_range = (\<lambda>_. demo_in_range), j_traffic = (\<lambda>_. demo_mean)\<rparr>"

definition demo_fields :: interface_fields where
  "demo_fields = \<lparr>if_index = 0, if_name = None, if_mac = None, if_ipv4 = \<lparr>a_ip = None, a_mask = None\<rparr>,
     if_ipv6 = \<lparr>a_ip = None, a_mask = None\<rparr>, if_type = 0, if_metric = 0, if_mtu = 0, if_wifi = False\<rparr>"

definition demo_station_srv :: "u8 list \<Rightarrow> fault + effect list \<times> u8 list option" where
  "demo_station_srv req = process_msg_ap_in_range demo_scanner demo_netdevice (\<lambda>_. demo_fields) True demo_env (req @ [5])
     demo_in_range demo_in_range demo_in_range"

definition demo_ap_srv :: "mean_junk \<Rightarrow> c_ldouble \<Rightarrow> u8 list \<Rightarrow> fault + effect list \<times> u8 list option" where
  "demo_ap_srv j n req = and_then (process_msg_mean_sta_statistics demo_env \<lparr>tv_sec = 0, tv_usec = 0\<rparr> (req @ [5]) j (demo_load n))
     (\<lambda>(_, ev, reply). Inr (ev, reply))"

definition demo_world :: "mean_junk \<Rightarrow> env" where
  "demo_world j = demo_env\<lparr>ssl_read := \<lambda>host port.
     if port = 1 then demo_peer demo_station_srv host port
     else if port = 2 then demo_peer (demo_ap_srv j 10) host port
     else demo_peer (demo_ap_srv j 5) host port\<rparr>"

lemma demo_world_simps [simp]: "mallocs (demo_world j) = demo_alloc" "reaches (demo_world j) host port"
  by (simp_all add: demo_world_def demo_env_def reaches_def)

lemma demo_world_serves:
  "serves (demo_world j) host 1 t demo_station_srv"
  "serves (demo_world j) host 2 t (demo_ap_srv j 10)"
  "serves (demo_world j) host 3 t (demo_ap_srv j 5)"
  by (simp_all add: serves_def demo_world_def demo_peer_def)

lemma demo_load_ok:
  "wf_collector (means_list (demo_load n))" "report_bytes (list_net_statistics (means_list (demo_load n))) < 2 ^ 31 - 200"
  "first_load (demo_load n) = Some (n, 0)" "list_net_statistics (means_list (demo_load n)) \<noteq> []"
  by (simp_all add: demo_load_def wf_collector_def report_bytes_def first_load_def zero_means_def str_chars_def)

lemma demo_devices:
  "wf_devices (list_of_aps demo_controller)" "wf_devices (list_of_stations demo_controller)"
  "device_map (list_of_stations demo_controller) [0x73] = Some (demo_dev 0x73 1)"
  "device_map (list_of_aps demo_controller) = [[0x62] \<mapsto> demo_dev 0x62 2, [0x63] \<mapsto> demo_dev 0x63 3]"
  by (auto simp: demo_controller_def init_controller_def demo_dev_def named_def wf_str_def chars_def str_chars_def fun_eq_iff)

lemma compares_demo: "compares demo_fpu sint xs"
  by (auto simp: compares_def demo_fpu_def word_sless_alt dest: signed_word_eqI)

lemma demo_candidates:
  "candidate demo_fpu demo_controller cur (of_scan (demo_scan m)) \<longleftrightarrow> (m = 0x62 \<or> m = 0x63) \<and> cur \<noteq> [m]"
  "device_of demo_controller (of_scan (demo_scan 0x62)) = demo_dev 0x62 2"
  "device_of demo_controller (of_scan (demo_scan 0x63)) = demo_dev 0x63 3"
proof -
  have "chars (Some [m, 0]) = (if m = 0 then [] else [m])" for m
    by (simp add: chars_def str_chars_def)
  moreover have "signal_threshold demo_controller <s long_of_float demo_fpu (r_signal (of_scan (demo_scan m)))"
    by (simp add: demo_controller_def init_controller_def demo_fpu_def of_scan_def demo_scan_def)
  ultimately show "candidate demo_fpu demo_controller cur (of_scan (demo_scan m)) \<longleftrightarrow> (m = 0x62 \<or> m = 0x63) \<and> cur \<noteq> [m]"
    "device_of demo_controller (of_scan (demo_scan 0x62)) = demo_dev 0x62 2"
    "device_of demo_controller (of_scan (demo_scan 0x63)) = demo_dev 0x63 3"
    by (auto simp: candidate_def device_of_def demo_devices demo_scan_def)
qed

lemma demo_reached_ok:
  "ok_reached demo_reached" "bytes_reached demo_reached < 2 ^ 30 - 200" "chars (th_sta demo_reached) = [0x73]"
  "chars (th_ap demo_reached) = [0x61]" "slen (th_sta demo_reached) = 1" "slen (th_ap demo_reached) = 1"
  "intf_name demo_reached = demo_name" "sta_ip demo_reached = None"
proof -
  have c: "chars (Some [0x73, 0]) = [0x73]" "chars (Some [0x61, 0]) = [0x61]"
    by code_simp+
  then have s: "slen (Some [0x73, 0]) = 1" "slen (Some [0x61, 0]) = 1" "wf_str (Some [0x73, 0])" "wf_str (Some [0x61, 0])"
    by (simp_all add: slen_def wf_str_def)
  from c s show "chars (th_sta demo_reached) = [0x73]" "chars (th_ap demo_reached) = [0x61]"
    "slen (th_sta demo_reached) = 1" "slen (th_ap demo_reached) = 1"
    "intf_name demo_reached = demo_name" "sta_ip demo_reached = None"
    by (simp_all add: demo_reached_def)
  from s show "ok_reached demo_reached" "bytes_reached demo_reached < 2 ^ 30 - 200"
    by (simp_all add: ok_reached_def bytes_reached_def demo_reached_def ok_header_def ok_str_def)
qed

lemma demo_scan_ok:
  "sendable_scan (sc_results demo_scanner n)" "\<forall>s\<in>set (sc_results demo_scanner n). 0 < slen (s_mac s)"
  "filter (\<lambda>s. candidate demo_fpu demo_controller [0x61] (of_scan s)) (sc_results demo_scanner n)
     = [demo_scan 0x62, demo_scan 0x63]"
proof -
  have "slen (Some [0x61, 0]) = 1" "slen (Some [0x62, 0]) = 1" "slen (Some [0x63, 0]) = 1"
    by code_simp+
  then show "sendable_scan (sc_results demo_scanner n)" "\<forall>s\<in>set (sc_results demo_scanner n). 0 < slen (s_mac s)"
    by (simp_all add: demo_scanner_def sendable_scan_def demo_scan_def of_scan_def ok_ap_def bytes_ap_def ok_str_def wf_str_def)
  show "filter (\<lambda>s. candidate demo_fpu demo_controller [0x61] (of_scan s)) (sc_results demo_scanner n)
     = [demo_scan 0x62, demo_scan 0x63]"
    by (simp add: demo_scanner_def demo_candidates)
qed

lemma demo_serves_means:
  "serves_means (demo_world j) (demo_dev 0x62 2) (demo_load 10)"
  "serves_means (demo_world j) (demo_dev 0x63 3) (demo_load 5)"
proof -
  have "serves_means (demo_world j) ap (demo_load n)"
    if "serves (demo_world j) (dev_host ap) (dev_port ap) MSG_MEAN_STA_STATISTICS_GET (demo_ap_srv j n)" for ap n
    unfolding serves_means_def using that demo_load_ok [of n] allocates_demo_alloc
    by (intro conjI exI [of _ demo_env] exI [of _ "\<lparr>tv_sec = 0, tv_usec = 0\<rparr>"] exI [of _ j] exI [of _ "[5]"])
      (simp_all add: demo_ap_srv_def [abs_def] demo_env_def [THEN arg_cong, of mallocs])
  then show "serves_means (demo_world j) (demo_dev 0x62 2) (demo_load 10)"
      "serves_means (demo_world j) (demo_dev 0x63 3) (demo_load 5)"
    using demo_world_serves(2,3) by (simp_all add: demo_dev_def)
qed

definition demo_collector :: "list_devices_t \<Rightarrow> timer" where
  "demo_collector ap = (if dev_port ap = 2 then demo_load 10 else demo_load 5)"

lemma demo_aps_serve:
  "\<forall>ap\<in>ran (device_map (list_of_aps demo_controller)). reaches (demo_world demo_mean_junk) (dev_host ap) (dev_port ap) \<longrightarrow>
      serves_means (demo_world demo_mean_junk) ap (demo_collector ap) \<and> list_net_statistics (means_list (demo_collector ap)) \<noteq> []"
  using demo_serves_means [of demo_mean_junk] demo_load_ok(4)
  by (auto simp: demo_devices ran_def demo_collector_def demo_dev_def split: if_splits)

lemma demo_first_load: "first_load (demo_collector (demo_dev 0x62 2)) = Some (10, 0)" "first_load (demo_collector (demo_dev 0x63 3)) = Some (5, 0)"
  by (simp_all add: demo_collector_def demo_dev_def demo_load_ok)

theorem handover_least_loaded_witness:
  "\<exists>q' wire c' ev out. encode_msg_snr_threshold_reached demo_alloc demo_reached = Inr (q', wire) \<and>
     process_msg_snr_threshold_reached_handover demo_fpu True demo_handover_junk (demo_world demo_mean_junk) (wire @ [])
       demo_reached demo_reached demo_reached demo_controller = Inr (c', ev, Some out) \<and>
     tells_ap demo_reached (Some [0x63, 0]) out"
proof -
  let ?e = "demo_world demo_mean_junk" and ?q = demo_reached and ?c = demo_controller
  obtain q' wire where w: "encode_msg_snr_threshold_reached demo_alloc ?q = Inr (q', wire)"
    using reached.enc_no_fault [OF demo_reached_ok(1) allocates_demo_alloc] by blast
  note ap = demo_aps_serve
  let ?ld = "\<lambda>ap. if reaches ?e (dev_host ap) (dev_port ap) then first_load (demo_collector ap) else None"
  have ld: "?ld (demo_dev 0x62 2) = Some (10, 0)" "?ld (demo_dev 0x63 3) = Some (5, 0)"
    by (simp_all add: demo_first_load)
  note cs = demo_scan_ok(3) [of demo_name]
  have loads: "comparable demo_fpu sint ?ld {demo_dev 0x62 2, demo_dev 0x63 3}"
    unfolding comparable_def using compares_demo ld by (auto simp: demo_fpu_def)
  have pre: "slen (sta_ip ?q) = 0" "0 < slen (th_sta ?q)" "0 < slen (th_ap ?q)" "0 < slen (intf_name ?q)"
      "device_map (list_of_stations ?c) (chars (th_sta ?q)) = Some (demo_dev 0x73 1)" "allocates (mallocs ?e)"
      "copyable (mallocs ?e) ETHANOL_VERSION" "copyable (mallocs ?e) (canon (intf_name ?q))"
      "all_means (j_traffic demo_handover_junk 0) = None" "reaches ?e (dev_host (demo_dev 0x73 1)) (dev_port (demo_dev 0x73 1))"
      "allocates (mallocs demo_env)"
    by (simp_all add: demo_reached_ok demo_devices allocates_demo_alloc copyable_demo_alloc demo_handover_junk_def demo_env_def demo_mean_def)
  have srv: "serves ?e (dev_host (demo_dev 0x73 1)) (dev_port (demo_dev 0x73 1)) MSG_GET_AP_IN_RANGE_TYPE
      (\<lambda>req. process_msg_ap_in_range demo_scanner demo_netdevice (\<lambda>_. demo_fields) True demo_env (req @ [5])
         demo_in_range demo_in_range demo_in_range)"
    using demo_world_serves(1) by (simp add: demo_dev_def demo_station_srv_def [abs_def])
  have loads': "comparable demo_fpu sint ?ld ((\<lambda>s. device_of ?c (of_scan s)) ` set (filter (\<lambda>s. candidate demo_fpu ?c
      (chars (th_ap ?q)) (of_scan s)) (sc_results demo_scanner (canon (intf_name ?q)))))"
    using loads cs by (simp add: demo_reached_ok demo_candidates)
  let ?run = "process_msg_snr_threshold_reached_handover demo_fpu True demo_handover_junk ?e (wire @ []) ?q ?q ?q ?c"
  have "\<exists>s\<in>{demo_scan 0x62, demo_scan 0x63}. \<exists>c' ev out. ?run = Inr (c', ev, Some out) \<and> tells_ap ?q (s_mac s) out \<and>
      (\<forall>s'\<in>{demo_scan 0x62, demo_scan 0x63}. sint (traffic_sum demo_fpu ?ld (device_of ?c (of_scan s)))
         \<le> sint (traffic_sum demo_fpu ?ld (device_of ?c (of_scan s'))))"
    using handover_least_loaded [OF demo_reached_ok(1) allocates_demo_alloc w pre(1-4) demo_reached_ok(2) demo_devices(1,2)
        pre(5-11) demo_scan_ok(1,2) srv ap loads', of "[]" ?q ?q ?q] cs ld
    by (simp add: demo_reached_ok demo_candidates)
  moreover have "\<not> sint (traffic_sum demo_fpu ?ld (device_of ?c (of_scan (demo_scan 0x62))))
      \<le> sint (traffic_sum demo_fpu ?ld (device_of ?c (of_scan (demo_scan 0x63))))"
    unfolding demo_candidates traffic_sum_def ld by (simp add: demo_fpu_def)
  moreover have "s_mac (demo_scan 0x63) = Some [0x63, 0]"
    by (simp add: demo_scan_def)
  ultimately show ?thesis
    using w by fastforce
qed


subsection \<open>Entering a device\<close>

lemma interface_names:
  "chars WIRELESS_INTERFACE = str_bytes ''wlan0''" "slen WIRELESS_INTERFACE = 5" "wf_str WIRELESS_INTERFACE"
  "WIRELESS_INTERFACE \<noteq> None"
  unfolding WIRELESS_INTERFACE_def by code_simp+

lemma insert_NULL:
  "insert_device mal None host port (d # l) = Inl Null_Dereference"
  "copyable mal host \<Longrightarrow> insert_device mal None host port []
     = Inr (\<lparr>dev_mac = None, dev_host = dup mal host, dev_port = port\<rparr>, [\<lparr>dev_mac = None, dev_host = dup mal host, dev_port = port\<rparr>])"
  by (simp_all add: insert_device_def strcmp_def Let_def split: option.split)

text \<open>An access point is asked for the address of its wireless interface, entered and configured.\<close>

lemma experiment_run:
  fixes f :: fpu and j :: experiment_junk
  assumes e: "copyable (mallocs e) ETHANOL_VERSION" "copyable (mallocs e) WIRELESS_INTERFACE" "allocates (mallocs e)" "reaches e host port"
    and ap: "\<forall>a\<in>set as. usable_ifa (mallocs e2) a" "allocates (mallocs e2)" "getifaddrs nd = Some as"
      "serves e host port MSG_GET_ONE_INTF (\<lambda>req. process_msg_intf nd j2 x2 e2 (req @ stack) hm2 hs2 hm2')"
  shows "\<exists>req. configure_experiment f e j 1 host port c = and_then (insert_ap (mallocs e) (known_mac as (str_bytes ''wlan0'')) host port c) (\<lambda>c'.
      and_then (configure_ap f e j host port (experiment_id c + 1)) (\<lambda>(ev, idc).
        Inr (session e host port req @ ev, 0, c'\<lparr>experiment_id := idc\<rparr>)))"
proof -
  have "slen WIRELESS_INTERFACE < 2 ^ 31 - 200"
    by (simp add: interface_names)
  from one_intf_query [OF e(1,2) interface_names(4) this e(3,4) ap, of "experiment_id c" "j_elem j" "j_intf_msg j 0"
      "j_intf_msg j 1"]
  obtain req a y where q: "send_msg_get_one_intf e host port (experiment_id c) WIRELESS_INTERFACE None 0 (j_elem j)
        (j_intf_msg j 0) (j_intf_msg j 1) = Inr (session e host port req, experiment_id c + 1, Some a)"
      "num_intf a = 1" "intf_array a = [y]" "i_mac y = known_mac as (str_bytes ''wlan0'')"
    by (auto simp: interface_names)
  have "configure_experiment f e j 1 host port c = and_then (insert_ap (mallocs e) (known_mac as (str_bytes ''wlan0'')) host port c) (\<lambda>c'.
      and_then (configure_ap f e j host port (experiment_id c + 1)) (\<lambda>(ev, idc).
        Inr (session e host port req @ ev, 0, c'\<lparr>experiment_id := idc\<rparr>)))"
    using q by (simp add: configure_experiment_def enter_device_def nth_elem_def)
  then show ?thesis
    by blast
qed

text \<open>
  The three messages \<open>m1\<close>, \<open>m2\<close>, \<open>m3\<close> that tell an access point what to monitor, numbered from \<open>i\<close>: its
  interface \<open>eth1\<close>, means with the weight 0.1, a collection every 100 milliseconds.
\<close>

definition told_to_monitor :: "fpu \<Rightarrow> c_int \<Rightarrow> u8 list \<Rightarrow> u8 list \<Rightarrow> u8 list \<Rightarrow> bool" where
  "told_to_monitor f i m1 m2 m3 \<longleftrightarrow>
     (\<forall>r h. \<exists>a. decode_msg_mean_sta_statistics_interface (m1 @ r) h = Inr a \<and>
        m_type a = MSG_MEAN_STA_STATISTICS_SET_INTERFACE \<and> m_id a = i \<and> intf_name a = Some (str_bytes ''eth1'' @ [0])) \<and>
     (\<forall>r h. \<exists>a. decode_msg_mean_sta_statistics_alpha (m2 @ r) h = Inr a \<and>
        m_type a = MSG_MEAN_STA_STATISTICS_SET_ALPHA \<and> m_id a = i + 1 \<and> alpha a = ld_of_double f 0x3FB999999999999A) \<and>
     (\<forall>r h. \<exists>a. decode_msg_mean_sta_statistics_time (m3 @ r) h = Inr a \<and>
        m_type a = MSG_MEAN_STA_STATISTICS_SET_TIME \<and> m_id a = i + 2 \<and> msec a = 100)"

lemma configure_ap_sends:
  assumes "copyable (mallocs e) ETHERNET_INTERFACE" "allocates (mallocs e)" "reaches e host port"
    and "\<not> ld_less f (ld_of_double f 0x3FB999999999999A) (ld_of_long f 0)"
      "\<not> ld_less f (ld_of_long f 1) (ld_of_double f 0x3FB999999999999A)"
  shows "\<exists>m1 m2 m3. configure_ap f e j host port i
      = Inr (session e host port m1 @ session e host port m2 @ session e host port m3, i + 3) \<and> told_to_monitor f i m1 m2 m3"
proof -
  have eth: "slen ETHERNET_INTERFACE = 4" "canon ETHERNET_INTERFACE = Some (str_bytes ''eth1'' @ [0])"
    unfolding ETHERNET_INTERFACE_def by code_simp+
  then have n: "slen ETHERNET_INTERFACE + slen None < 2 ^ 31 - 100" "slen None < 2 ^ 31 - 100"
    by simp_all
  obtain m1 where m1: "send_msg_mean_sta_statistics_interface_add e host port i None 0 ETHERNET_INTERFACE (j_add_intf j)
      = Inr (session e host port m1, i + 1)"
      "\<forall>r h. \<exists>a. decode_msg_mean_sta_statistics_interface (m1 @ r) h = Inr a \<and>
        m_type a = MSG_MEAN_STA_STATISTICS_SET_INTERFACE \<and> m_id a = i \<and> intf_name a = canon ETHERNET_INTERFACE"
    using sent_interface_add [OF assms(1) copyable_None n(1) assms(2,3)] by blast
  obtain m2 where m2: "send_msg_mean_sta_statistics_alpha f e host port (i + 1) None 0 (ld_of_double f 0x3FB999999999999A) (j_set_alpha j)
      = Inr (session e host port m2, i + 1 + 1)"
      "\<forall>r h. \<exists>a. decode_msg_mean_sta_statistics_alpha (m2 @ r) h = Inr a \<and>
        m_type a = MSG_MEAN_STA_STATISTICS_SET_ALPHA \<and> m_id a = i + 1 \<and> alpha a = ld_of_double f 0x3FB999999999999A"
    using sent_alpha [OF copyable_None n(2) assms(2-5)] by blast
  obtain m3 where m3: "send_msg_mean_sta_statistics_time e host port (i + 1 + 1) None 0 100 (j_set_time j)
      = Inr (session e host port m3, i + 1 + 1 + 1)"
      "\<forall>r h. \<exists>a. decode_msg_mean_sta_statistics_time (m3 @ r) h = Inr a \<and>
        m_type a = MSG_MEAN_STA_STATISTICS_SET_TIME \<and> m_id a = i + 1 + 1 \<and> msec a = 100"
    using sent_time [OF copyable_None n(2) assms(2,3)] by blast
  have "i + 1 + 1 = i + 2" "i + 1 + 1 + 1 = i + 3"
    by simp_all
  then have "configure_ap f e j host port i
      = Inr (session e host port m1 @ session e host port m2 @ session e host port m3, i + 3)"
    "told_to_monitor f i m1 m2 m3"
    using m1 m2 m3 eth(2) by (simp_all only: configure_ap_def told_to_monitor_def and_then_simps prod.case simp_thms)
  then show ?thesis
    by blast
qed

text \<open>
  C8 What the controller does when an access point says hello.  It asks the access point for the
  address of \<open>wlan0\<close> and enters it under this address, with its host and port; if the address is
  already known the list stays as it is.  Then it sends the access point three messages: to monitor
  its interface \<open>eth1\<close>, to weight new values with 0.1, to collect every 100 milliseconds; the
  counter of the messages advances by four.  An access point that has no \<open>wlan0\<close> is not left out: it
  is entered without an address, and configured, if it is the first one, and from then on every search
  with a valid address crashes; if the list has an entry the controller crashes at once.  (The
  hypotheses on \<open>f\<close> say that 0.1 is neither less than 0 nor greater than 1.)
\<close>

theorem experiment_enters_ap:
  fixes f :: fpu and j :: experiment_junk
  assumes e: "copyable (mallocs e) ETHANOL_VERSION" "copyable (mallocs e) WIRELESS_INTERFACE" "copyable (mallocs e) host"
      "allocates (mallocs e)" "reaches e host port" "copyable (mallocs e) ETHERNET_INTERFACE"
    and f: "\<not> ld_less f (ld_of_double f 0x3FB999999999999A) (ld_of_long f 0)"
      "\<not> ld_less f (ld_of_long f 1) (ld_of_double f 0x3FB999999999999A)"
    and ap: "\<forall>a\<in>set as. usable_ifa (mallocs e2) a" "allocates (mallocs e2)" "getifaddrs nd = Some as"
      "serves e host port MSG_GET_ONE_INTF (\<lambda>req. process_msg_intf nd j2 x2 e2 (req @ stack) hm2 hs2 hm2')"
    and c: "wf_devices (list_of_aps c)" "copyable (mallocs e) (known_mac as (str_bytes ''wlan0''))"
  defines "mac \<equiv> known_mac as (str_bytes ''wlan0'')"
    and "configured \<equiv> \<lambda>c'. \<exists>req m1 m2 m3. configure_experiment f e j 1 host port c =
        Inr (session e host port req @ session e host port m1 @ session e host port m2 @ session e host port m3, 0,
          c'\<lparr>experiment_id := experiment_id c + 4\<rparr>) \<and>
      told_to_monitor f (experiment_id c + 1) m1 m2 m3"
  shows "if mac \<noteq> None then \<exists>l d. configured (c\<lparr>list_of_aps := l\<rparr>) \<and> wf_devices l \<and>
        find_device mac l = Inr (Some d) \<and>
        (case device_map (list_of_aps c) (chars mac) of
           Some _ \<Rightarrow> device_map l = device_map (list_of_aps c)
         | None \<Rightarrow> device_map l = (device_map (list_of_aps c))(chars mac \<mapsto> d) \<and>
             canon (dev_host d) = canon host \<and> dev_port d = port)
    else if list_of_aps c \<noteq> [] then configure_experiment f e j 1 host port c = Inl Null_Dereference
    else \<exists>c'. configured c' \<and> (\<forall>m. named m \<longrightarrow> find_ap m c' = Inl Null_Dereference)"
proof -
  obtain req where run0: "configure_experiment f e j 1 host port c = and_then (insert_ap (mallocs e) mac host port c) (\<lambda>c'.
      and_then (configure_ap f e j host port (experiment_id c + 1)) (\<lambda>(ev, idc).
        Inr (session e host port req @ ev, 0, c'\<lparr>experiment_id := idc\<rparr>)))"
    using experiment_run [OF e(1,2,4,5) ap] unfolding mac_def by blast
  obtain m1 m2 m3 where m: "configure_ap f e j host port (experiment_id c + 1)
      = Inr (session e host port m1 @ session e host port m2 @ session e host port m3, experiment_id c + 1 + 3)"
      "told_to_monitor f (experiment_id c + 1) m1 m2 m3"
    using configure_ap_sends [OF e(6,4,5) f] by blast
  have id: "experiment_id c + 1 + 3 = experiment_id c + 4"
    by simp
  note run = run0 [unfolded m(1) and_then_simps prod.case id]
  have conf: "configured c'" if "insert_ap (mallocs e) mac host port c = Inr c'" for c'
    using m(2) unfolding configured_def run that and_then_simps by blast
  show ?thesis
  proof (cases "mac = None")
    case True
    show ?thesis
    proof (cases "list_of_aps c")
      case Nil
      let ?c = "c\<lparr>list_of_aps := [\<lparr>dev_mac = None, dev_host = dup (mallocs e) host, dev_port = port\<rparr>]\<rparr>"
      have "configured ?c"
        by (rule conf) (use True Nil insert_NULL(2) [OF e(3)] in \<open>simp add: insert_ap_def\<close>)
      moreover have "find_ap m ?c = Inl Null_Dereference" for m
        by (simp add: find_ap_def strcmp_def)
      ultimately show ?thesis
        using True Nil by auto
    next
      case (Cons d l)
      then show ?thesis
        using True run insert_NULL(1) by (simp add: insert_ap_def)
    qed
  next
    case False
    obtain d l where l: "insert_device (mallocs e) mac host port (list_of_aps c) = Inr (d, l)" "wf_devices l"
        "find_device mac l = Inr (Some d)" "device_map l = (device_map (list_of_aps c))(chars mac \<mapsto> d)"
        "device_map (list_of_aps c) (chars mac) = None \<Longrightarrow> canon (dev_host d) = canon host \<and> dev_port d = port"
        "device_map (list_of_aps c) (chars mac) \<noteq> None \<Longrightarrow> device_map l = device_map (list_of_aps c)"
      using devices.insert_find [OF c(1) c(2) [folded mac_def] False e(3)] by metis
    have "configured (c\<lparr>list_of_aps := l\<rparr>)"
      by (rule conf) (simp add: insert_ap_def l(1))
    moreover have "case device_map (list_of_aps c) (chars mac) of
        Some _ \<Rightarrow> device_map l = device_map (list_of_aps c)
      | None \<Rightarrow> device_map l = (device_map (list_of_aps c))(chars mac \<mapsto> d) \<and> canon (dev_host d) = canon host \<and> dev_port d = port"
      using l(4-6) by (simp split: option.split)
    ultimately show ?thesis
      using False l(2,3) by (simp only: if_True not_False_eq_True) blast
  qed
qed


text \<open>The access point of the demonstration has a \<open>wlan0\<close>; 0.1 is rounded to 0.\<close>

definition demo_fpu0 :: fpu where
  "demo_fpu0 = demo_fpu\<lparr>ld_of_double := \<lambda>_. 0\<rparr>"

theorem experiment_enters_ap_witness:
  "\<forall>j j2. \<exists>l d req m1 m2 m3. configure_experiment demo_fpu0 (demo_env\<lparr>ssl_read := demo_peer (\<lambda>req. process_msg_intf demo_netdevice j2
       demo_interface demo_env (req @ [5]) demo_msg_intf demo_msg_intf demo_msg_intf)\<rparr>) j 1 demo_name 22223 init_controller =
     Inr (session demo_env demo_name 22223 req @ session demo_env demo_name 22223 m1 @ session demo_env demo_name 22223 m2 @
       session demo_env demo_name 22223 m3, 0, init_controller\<lparr>list_of_aps := l, experiment_id := 4\<rparr>) \<and>
     told_to_monitor demo_fpu0 1 m1 m2 m3 \<and>
     device_map l = [str_bytes ''0a:0b:0c:0d:0e:0f'' \<mapsto> d] \<and> canon (dev_host d) = demo_name \<and> dev_port d = 22223"
proof (intro allI)
  fix j j2
  let ?srv = "\<lambda>req. process_msg_intf demo_netdevice j2
       demo_interface demo_env (req @ [5]) demo_msg_intf demo_msg_intf demo_msg_intf"
  let ?e = "demo_env\<lparr>ssl_read := demo_peer ?srv\<rparr>" and ?c = init_controller
  have m: "mallocs ?e = demo_alloc" "mallocs demo_env = demo_alloc" "getifaddrs demo_netdevice = Some demo_addrs"
    by (simp_all add: demo_env_def demo_netdevice_def)
  let ?mac = "Some (str_bytes ''0a:0b:0c:0d:0e:0f'' @ [0])"
  have k: "known_mac demo_addrs (str_bytes ''wlan0'') = ?mac" "chars ?mac = str_bytes ''0a:0b:0c:0d:0e:0f''" "slen ?mac = 17" "wf_str ?mac"
    by code_simp+
  have eth: "wf_str ETHERNET_INTERFACE" "slen ETHERNET_INTERFACE = 4"
    unfolding ETHERNET_INTERFACE_def by code_simp+
  have c: "copyable (mallocs ?e) ETHANOL_VERSION" "copyable (mallocs ?e) WIRELESS_INTERFACE" "copyable (mallocs ?e) demo_name"
    "copyable (mallocs ?e) (known_mac demo_addrs (str_bytes ''wlan0''))" "copyable (mallocs ?e) ETHERNET_INTERFACE"
    unfolding m k(1) by (rule copyable_demo_alloc; use k(3,4) interface_names eth in simp)+
  have r: "reaches ?e demo_name 22223"
    by (simp add: reaches_def demo_env_def)
  have s: "session ?e demo_name 22223 req = session demo_env demo_name 22223 req" for req
    by (simp add: session_def)
  have a: "\<forall>a\<in>set demo_addrs. usable_ifa (mallocs demo_env) a" "allocates (mallocs ?e)" "allocates (mallocs demo_env)"
    using usable_demo allocates_demo_alloc unfolding m by blast+
  have v: "serves ?e demo_name 22223 MSG_GET_ONE_INTF ?srv"
    by (rule serves_demo_peer)
  have i: "wf_devices (list_of_aps ?c)" "device_map (list_of_aps ?c) = Map.empty" "experiment_id ?c = 0"
    by (simp_all add: init_controller_def fun_eq_iff)
  have f: "\<not> ld_less demo_fpu0 (ld_of_double demo_fpu0 0x3FB999999999999A) (ld_of_long demo_fpu0 0)"
      "\<not> ld_less demo_fpu0 (ld_of_long demo_fpu0 1) (ld_of_double demo_fpu0 0x3FB999999999999A)"
    by (simp_all add: demo_fpu0_def demo_fpu_def)
  show "\<exists>l d req m1 m2 m3. configure_experiment demo_fpu0 ?e j 1 demo_name 22223 ?c =
     Inr (session demo_env demo_name 22223 req @ session demo_env demo_name 22223 m1 @ session demo_env demo_name 22223 m2 @
       session demo_env demo_name 22223 m3, 0, ?c\<lparr>list_of_aps := l, experiment_id := 4\<rparr>) \<and>
     told_to_monitor demo_fpu0 1 m1 m2 m3 \<and>
     device_map l = [str_bytes ''0a:0b:0c:0d:0e:0f'' \<mapsto> d] \<and> canon (dev_host d) = demo_name \<and> dev_port d = 22223"
    using experiment_enters_ap [OF c(1-3) a(2) r c(5) f a(1,3) m(3) v i(1) c(4), of j] k(1,2) i(2,3)
    unfolding s by fastforce
qed

end
