(* ===== verification/Station_Report.thy ===== *)
theory Station_Report
  imports Station_Query
begin

section \<open>Reports with text, given here or by a station\<close>

text \<open>
  The modules \<open>messaging/msg_sta_link_information.c\<close> and \<open>msg_statistics.c\<close> follow the protocol of theory
  \<open>Station_Query\<close>, but what they report contains strings: the report changes the size of the message, and an
  empty string comes back as a null pointer.  The locale \<open>station_report\<close> states the protocol for such reports:
  \<open>fits v\<close> are the reports that can be sent at all, \<open>vlen v\<close> is the length of their strings, and \<open>nval v\<close> what
  arrives of them; \<open>relays\<close> says which machines pass a query on, and \<open>named\<close> which queries need the name of
  an interface.  The machine that reports may also run commands, \<open>here\<close> returns them.
\<close>

locale station_report = msg_codec enc dec ok norm bytes mtyp
  for enc :: "allocator \<Rightarrow> 'm \<Rightarrow> fault + 'm \<times> u8 list" and dec ok norm bytes mtyp +
  fixes ident :: "'m \<Rightarrow> c_int" and nam :: "'m \<Rightarrow> cstr" and ip :: "'m \<Rightarrow> cstr" and prt :: "'m \<Rightarrow> c_int"
    and send :: "env \<Rightarrow> cstr \<Rightarrow> c_int \<Rightarrow> c_int \<Rightarrow> cstr \<Rightarrow> cstr \<Rightarrow> c_int \<Rightarrow> 'm \<Rightarrow> 'm
        \<Rightarrow> fault + effect list \<times> c_int \<times> 'm option"
    and process :: "'p \<Rightarrow> env \<Rightarrow> u8 list \<Rightarrow> 'm \<Rightarrow> 'm \<Rightarrow> 'm \<Rightarrow> fault + effect list \<times> u8 list option"
    and here :: "'p \<Rightarrow> env \<Rightarrow> 'm \<Rightarrow> fault + effect list \<times> 'm"
    and mt :: c_int and named :: "cstr \<Rightarrow> bool" and relays :: "env \<Rightarrow> bool"
    and val :: "'m \<Rightarrow> 'v" and set_val :: "'v \<Rightarrow> 'm \<Rightarrow> 'm"
    and fits :: "'v \<Rightarrow> bool" and vlen :: "'v \<Rightarrow> nat" and nval :: "'v \<Rightarrow> 'v"
    and after :: "c_int \<Rightarrow> 'm \<Rightarrow> 'm" and shift :: "c_int \<Rightarrow> c_int \<Rightarrow> c_int"
  assumes val_set: "val (set_val v m) = v"
    and set_fields: "mtyp (set_val v m) = mtyp m" "ident (set_val v m) = ident m" "nam (set_val v m) = nam m"
    and after_fields: "mtyp (after i m) = mtyp m" "ident (after i m) = shift i (ident m)" "nam (after i m) = nam m"
    and norm_fields: "mtyp (norm h0 m) = mtyp m" "ident (norm h0 m) = ident m" "nam (norm h0 m) = canon (nam m)"
      "ip (norm h0 m) = canon (ip m)" "prt (norm h0 m) = prt m" "val (norm h0 m) = nval (val m)"
    and named_canon: "named s \<Longrightarrow> named (canon s)"
    and nval: "nval (nval v) = nval v" "fits v \<Longrightarrow> fits (nval v)" "vlen (nval v) = vlen v"
    and ok_report: "ok m \<Longrightarrow> fits v \<Longrightarrow> slen (nam m) + slen (ip m) + vlen v < 2 ^ 31 - 200
      \<Longrightarrow> ok (set_val v (norm h0 m)) \<and> ok (set_val v (after i (norm h0 m)))"
    and send_eq: "\<lbrakk>copyable (mallocs e) ETHANOL_VERSION; copyable (mallocs e) intf; copyable (mallocs e) staip;
        named intf; slen intf + slen staip < 2 ^ 31 - 200\<rbrakk>
      \<Longrightarrow> \<exists>q. ok q \<and> mtyp q = mt \<and> ident q = i \<and> canon (nam q) = canon intf
          \<and> canon (ip q) = canon staip \<and> prt q = staport
          \<and> send e host port i intf staip staport hs hm
            = send_sync e host port i (\<lambda>_. Inr q) (enc (mallocs e)) (\<lambda>t. t = mt) (\<lambda>b. dec b hm)"
    and process_eq: "dec input hm = Inr h \<Longrightarrow> process p e input hm hs hm' =
     and_then
       (if ip h \<noteq> None \<and> relays e then
          and_then (send e (ip h) (prt h) (ident h) (nam h) None 0 hs hm')
            (\<lambda>(ev, i, h1). Inr (ev, case h1 of None \<Rightarrow> after i h | Some a \<Rightarrow> set_val (val a) (after i h)))
        else here p e h)
       (\<lambda>(ev, h). and_then (enc (mallocs e) h) (\<lambda>(_, output). Inr (ev, Some output)))"
begin

lemma reply:
  assumes "ok q" "fits v" "slen (nam q) + slen (ip q) + vlen v < 2 ^ 31 - 200" "allocates mal"
    and "m = norm h0 q \<or> m = after i (norm h0 q)"
  shows "\<exists>m' out. enc mal (set_val v m) = Inr (m', out) \<and> replies_with dec mtyp ident nam val q (ident m) (nval v) out"
proof -
  have ok: "ok (set_val v m)"
    using ok_report [OF assms(1-3)] assms(5) by blast
  obtain m' out where e: "enc mal (set_val v m) = Inr (m', out)"
    using enc_no_fault [OF ok assms(4)] by blast
  have "mtyp m = mtyp q" "nam m = canon (nam q)"
    using assms(5) by (auto simp: norm_fields after_fields)
  then have "replies_with dec mtyp ident nam val q (ident m) (nval v) out"
    unfolding replies_with_def using wire_message_type [OF ok assms(4) e] roundtrip [OF ok assms(4) e]
    by (simp add: norm_fields set_fields val_set)
  with e show ?thesis by blast
qed

text \<open>A machine that is asked itself reports under the id of the query.\<close>

lemma own_report:
  assumes "ok q" "allocates mal" "enc mal q = Inr (q', wire)" "allocates (mallocs e)"
    and "slen (ip q) = 0 \<or> \<not> relays e" "here p e (norm hm q) = Inr (ev, set_val v (norm hm q))"
    and "fits v" "slen (nam q) + slen (ip q) + vlen v < 2 ^ 31 - 200"
  shows "\<exists>out. process p e (wire @ r) hm hs hm' = Inr (ev, Some out)
    \<and> replies_with dec mtyp ident nam val q (ident q) (nval v) out"
proof -
  have "\<exists>m' out. enc (mallocs e) (set_val v (norm hm q)) = Inr (m', out) \<and>
      replies_with dec mtyp ident nam val q (ident (norm hm q)) (nval v) out"
    by (rule reply [OF assms(1,7,8,4) disjI1 [OF refl]])
  moreover have "canon (ip q) = None \<or> \<not> relays e"
    using assms(5) by (simp add: canon_eq_None)
  ultimately show ?thesis
    using process_eq [OF roundtrip [OF assms(1-3)], of p e r hm hs hm'] assms(6) by (auto simp: norm_fields)
qed

text \<open>The client that is answered gets the report, with the id of the reply.\<close>

lemma send_answered:
  assumes "copyable (mallocs e) ETHANOL_VERSION" "copyable (mallocs e) intf" "copyable (mallocs e) staip"
    and "named intf" "slen intf + slen staip < 2 ^ 31 - 200" "allocates (mallocs e)" "reaches e host port"
    and peer: "\<And>q q' req. \<lbrakk>ok q; mtyp q = mt; ident q = i; canon (nam q) = canon intf;
        canon (ip q) = canon staip; prt q = staport; enc (mallocs e) q = Inr (q', req)\<rbrakk>
      \<Longrightarrow> \<exists>out r. ssl_read e host port req = out @ r \<and> replies_with dec mtyp ident nam val q k v out"
  shows "\<exists>req a. send e host port i intf staip staport hs hm
      = Inr (session e host port req, i + 1, Some a) \<and> ident a = k \<and> nam a = canon intf \<and> val a = v"
proof -
  obtain q where q: "ok q" "mtyp q = mt" "ident q = i" "canon (nam q) = canon intf"
      "canon (ip q) = canon staip" "prt q = staport"
    and s: "send e host port i intf staip staport hs hm
            = send_sync e host port i (\<lambda>_. Inr q) (enc (mallocs e)) (\<lambda>t. t = mt) (\<lambda>b. dec b hm)"
    using send_eq [OF assms(1-5)] by blast
  obtain q' req where e: "enc (mallocs e) q = Inr (q', req)"
    using enc_no_fault [OF q(1) assms(6)] by blast
  obtain out r where out: "ssl_read e host port req = out @ r" "replies_with dec mtyp ident nam val q k v out"
    using peer [OF q e] by blast
  obtain a where a: "dec (out @ r) hm = Inr a" "ident a = k" "nam a = canon intf" "val a = v"
    using out(2) q unfolding replies_with_def by metis
  have "return_message_type (out @ r) = Inr mt"
    using out(2) q(2) by (simp add: replies_with_def)
  then show ?thesis
    using a q(2) close_open_connection [OF assms(7), of req]
    by (auto simp add: s send_sync_def assms(7) e out(1) Let_def)
qed

text \<open>An access point asked about a station passes on the report of the station.\<close>

lemma relayed_report:
  assumes q: "ok q" "allocates mal" "enc mal q = Inr (q', wire)"
    and e: "allocates (mallocs e)" "copyable (mallocs e) ETHANOL_VERSION" "copyable (mallocs e) (canon (nam q))" "relays e" "named (canon (nam q))"
    and sta: "0 < slen (ip q)" "slen (nam q) + slen (ip q) + vlen v < 2 ^ 31 - 200"
      "reaches e (canon (ip q)) (prt q)"
    and station: "allocates (mallocs e2)" "\<And>h. nam h = canon (nam q) \<Longrightarrow> here p2 e2 h = Inr (ev2, set_val v h)" "fits v"
      "serves e (canon (ip q)) (prt q) mt (\<lambda>req. process p2 e2 (req @ j) hm2 hs2 hm2')"
  shows "\<exists>req out. process p e (wire @ r) hm hs hm' = Inr (session e (canon (ip q)) (prt q) req, Some out)
     \<and> replies_with dec mtyp ident nam val q (shift (ident q + 1) (ident q)) (nval v) out"
proof -
  let ?ip = "canon (ip q)" and ?in = "canon (nam q)"
  have nn: "?ip \<noteq> None"
    using sta by (simp add: canon_eq_None)
  have p: "\<exists>out r. ssl_read e ?ip (prt q) req = out @ r \<and> replies_with dec mtyp ident nam val q1 (ident q) (nval v) out"
    if "ok q1" "canon (nam q1) = canon ?in" "canon (ip q1) = canon None" "ident q1 = ident q"
      "enc (mallocs e) q1 = Inr (q1', req)" "mtyp q1 = mt" for q1 q1' req
  proof -
    have l: "slen (ip q1) = 0" "slen (nam q1) = slen (nam q)"
      using that(2,3) by (metis slen_canon slen_None canon_canon)+
    moreover have "here p2 e2 (norm hm2 q1) = Inr (ev2, set_val v (norm hm2 q1))"
      using station(2) that(2) by (simp add: norm_fields)
    moreover have "slen (nam q1) + slen (ip q1) + vlen v < 2 ^ 31 - 200"
      using l sta(2) by simp
    ultimately show ?thesis
      using own_report [OF that(1) e(1) that(5) station(1), of p2 hm2 ev2 v j hs2 hm2'] station(3)
        servesD [OF station(4)] wire_type [OF that(1) e(1) that(5)] that(4,6) by metis
  qed
  have "\<exists>req a. send e ?ip (prt q) (ident q) ?in None 0 hs hm'
      = Inr (session e ?ip (prt q) req, ident q + 1, Some a) \<and> ident a = ident q \<and> nam a = canon ?in \<and> val a = nval v"
    by (rule send_answered [OF e(2,3) copyable_None e(5) _ e(1) sta(3)]) (use sta p in auto)
  then obtain req a where a: "send e ?ip (prt q) (ident q) ?in None 0 hs hm'
      = Inr (session e ?ip (prt q) req, ident q + 1, Some a)" "val a = nval v"
    by blast
  have "\<exists>m' out. enc (mallocs e) (set_val (nval v) (after (ident q + 1) (norm hm q))) = Inr (m', out) \<and>
      replies_with dec mtyp ident nam val q (ident (after (ident q + 1) (norm hm q))) (nval (nval v)) out"
    by (rule reply [OF q(1) nval(2) [OF station(3)] _ e(1) disjI2 [OF refl]]) (use sta(2) in \<open>simp add: nval\<close>)
  then show ?thesis
    using a nn process_eq [OF roundtrip [OF q(1-3)], of p e r hm hs hm'] e(4)
    by (auto simp: norm_fields after_fields nval)
qed

text \<open>
  The whole path: a controller \<open>e0\<close> asks the access point \<open>e1\<close> about the station \<open>e2\<close>, and gets the
  report of the station.
\<close>

lemma end_to_end:
  assumes e0: "copyable (mallocs e0) ETHANOL_VERSION" "copyable (mallocs e0) intf"
      "copyable (mallocs e0) staip" "allocates (mallocs e0)" "reaches e0 host port"
      "serves e0 host port mt (\<lambda>req. process p1 e1 (req @ j1) hm1 hs1 hm1')"
    and e1: "allocates (mallocs e1)" "copyable (mallocs e1) ETHANOL_VERSION"
      "copyable (mallocs e1) (canon intf)" "relays e1" "reaches e1 (canon staip) staport"
      "serves e1 (canon staip) staport mt (\<lambda>req. process p2 e2 (req @ j2) hm2 hs2 hm2')"
    and e2: "allocates (mallocs e2)" "\<And>h. nam h = canon intf \<Longrightarrow> here p2 e2 h = Inr (ev2, set_val v h)" "fits v"
    and names: "named intf" "0 < slen staip" "slen intf + slen staip + vlen v < 2 ^ 31 - 200"
  shows "\<exists>req a. send e0 host port i intf staip staport hs hm
      = Inr (session e0 host port req, i + 1, Some a) \<and> ident a = shift (i + 1) i \<and> nam a = canon intf \<and> val a = nval v"
proof (rule send_answered [OF e0(1-3) names(1) _ e0(4,5)])
  show "slen intf + slen staip < 2 ^ 31 - 200"
    using names by simp
  fix q q' req
  assume q: "ok q" "mtyp q = mt" "ident q = i" "canon (nam q) = canon intf"
    "canon (ip q) = canon staip" "prt q = staport" "enc (mallocs e0) q = Inr (q', req)"
  have len: "slen (ip q) = slen staip" "slen (nam q) = slen intf"
    using q(4,5) by (metis slen_canon)+
  have "\<exists>req' out. process p1 e1 (req @ j1) hm1 hs1 hm1'
       = Inr (session e1 (canon (ip q)) (prt q) req', Some out)
     \<and> replies_with dec mtyp ident nam val q (shift (ident q + 1) (ident q)) (nval v) out"
    by (rule relayed_report [OF q(1) e0(4) q(7) e1(1,2)]) (use q len names named_canon e1 e2 in auto)
  then show "\<exists>out r. ssl_read e0 host port req = out @ r \<and>
      replies_with dec mtyp ident nam val q (shift (i + 1) i) (nval v) out"
    using servesD [OF e0(6), of req] wire_type [OF q(1) e0(4) q(7)] q(2,3) by metis
qed

end

end
