(* ===== verification/Link.thy ===== *)
theory Link
  imports Ini Msg_Assoc Net_Stats
begin

section \<open>The link of a station (\<open>ethanol_functions/iw_link.c\<close>, \<open>ethanol_functions/getmac.c\<close>)\<close>

text \<open>
  \<open>get_iw_link\<close> runs \<open>iw dev ... link\<close> and reads what it prints, line by line, with \<open>strstr\<close> and
  \<open>sscanf\<close>.  The \<open>iw\<close> of this repository is compiled with \<open>ETHANOL\<close> and prints the link in the format
  that \<open>get_iw_link\<close> expects; what it prints (\<open>iw-4.9/link.c\<close>) is modelled from the attributes of the
  kernel's answer on.  \<open>getmacaddress\<close> reads the address of an interface from \<open>/sys\<close>.

  The theorems: reading gives back what was printed; a network chooses its name, and can choose one
  that is read as the address of the access point.
\<close>


subsection \<open>\<open>sscanf\<close>\<close>

text \<open>
  A format is a list of literals and conversions; a blank in a literal stands for any number of blanks.  The
  result are the texts of the conversions that were made.  \<open>SReal\<close> (\<open>%Lf\<close>) is only used at the end of
  a format: its text is the rest of the line.
\<close>

datatype scan_item = SLit string | SWord | SNum | SReal

primrec scan_lit :: "u8 list \<Rightarrow> u8 list \<Rightarrow> u8 list option" where
  "scan_lit [] s = Some s"
| "scan_lit (c # cs) s = (if is_space c then scan_lit cs (dropWhile is_space s)
     else case s of [] \<Rightarrow> None | x # s' \<Rightarrow> if x = c then scan_lit cs s' else None)"

definition number_prefix :: "u8 list \<Rightarrow> u8 list" where
  "number_prefix t = (case t of
       [] \<Rightarrow> []
     | x # xs \<Rightarrow> if x \<in> {0x2D, 0x2B} then (if takeWhile is_digit xs = [] then [] else x # takeWhile is_digit xs)
         else takeWhile is_digit t)"

primrec sscanf :: "scan_item list \<Rightarrow> u8 list \<Rightarrow> u8 list list" where
  "sscanf [] s = []"
| "sscanf (f # fs) s = (case f of
       SLit l \<Rightarrow> (case scan_lit (str_bytes l) s of None \<Rightarrow> [] | Some r \<Rightarrow> sscanf fs r)
     | SWord \<Rightarrow> (let t = dropWhile is_space s; w = takeWhile (\<lambda>c. \<not> is_space c) t in
         if w = [] then [] else w # sscanf fs (drop (length w) t))
     | SNum \<Rightarrow> (let t = dropWhile is_space s; w = number_prefix t in
         if w = [] then [] else w # sscanf fs (drop (length w) t))
     | SReal \<Rightarrow> [dropWhile is_space s])"

text \<open>\<open>%lld\<close> saturates, \<open>%d\<close> keeps the low bits of that; without a conversion the variable is left as it is.\<close>

definition scan_long :: "u8 list list \<Rightarrow> nat \<Rightarrow> c_long \<Rightarrow> c_long" where
  "scan_long v i x = (if i < length v then
     (case scan_dec (v ! i) of None \<Rightarrow> x | Some n \<Rightarrow> word_of_int (max (- (2 ^ 63)) (min (2 ^ 63 - 1) n))) else x)"

definition scan_int :: "u8 list list \<Rightarrow> nat \<Rightarrow> c_int \<Rightarrow> c_int" where
  "scan_int v i x = (if i < length v then ucast (scan_long v i 0) else x)"

text \<open>\<open>%s\<close> into an array: the word and a terminator.\<close>

definition scan_array :: "u8 list list \<Rightarrow> nat \<Rightarrow> u8 list step" where
  "scan_array v i buf = (if i < length v then
     (if length (v ! i) + 1 \<le> length buf then Inr (v ! i @ 0 # drop (length (v ! i) + 1) buf) else Inl Write_Out_Of_Bounds)
     else Inr buf)"


subsection \<open>\<open>get_iw_link\<close>\<close>

record iw_link_info_t =
  lk_connected :: bool
  lk_intf :: cstr
  lk_SSID :: cstr
  lk_mac :: cstr
  lk_freq :: c_int
  lk_rx_bytes :: c_long
  lk_rx_packets :: c_long
  lk_tx_bytes :: c_long
  lk_tx_packets :: c_long
  lk_signal :: c_long
  lk_tx_bitrate :: c_ldouble
  lk_dtim :: c_int
  lk_beacon :: c_int

definition no_link :: iw_link_info_t where
  "no_link = \<lparr>lk_connected = False, lk_intf = None, lk_SSID = None, lk_mac = None, lk_freq = 0, lk_rx_bytes = 0,
     lk_rx_packets = 0, lk_tx_bytes = 0, lk_tx_packets = 0, lk_signal = 0, lk_tx_bitrate = 0, lk_dtim = 0, lk_beacon = 0\<rparr>"

text \<open>\<open>if ((p = strstr (line, text)) != NULL) ...\<close>\<close>

definition on_text :: "string \<Rightarrow> u8 list \<Rightarrow> (u8 list \<Rightarrow> 'k step) \<Rightarrow> 'k step" where
  "on_text t l act k = (case find_text (str_bytes t) l of None \<Rightarrow> Inr k | Some p \<Rightarrow> act p k)"

text \<open>\<open>j 0\<close>, \<open>j 1\<close>, \<open>j 2\<close> is what the arrays of 50 bytes contain when the line is read.\<close>

definition read_connected :: "allocator \<Rightarrow> (nat \<Rightarrow> u8 list) \<Rightarrow> u8 list \<Rightarrow> iw_link_info_t step" where
  "read_connected mal j p k = (let v = sscanf [SLit ''Connected '', SWord, SLit '' '', SWord] p in
     and_then (scan_array v 0 (j 0)) (\<lambda>mac_address.
     and_then (scan_array v 1 (j 1)) (\<lambda>intf_name.
     and_then (copy_string mal (Some intf_name)) (\<lambda>n.
     and_then (copy_string mal (Some mac_address)) (\<lambda>m.
       Inr (k\<lparr>lk_connected := True, lk_intf := n, lk_mac := m\<rparr>))))))"

definition read_ssid :: "allocator \<Rightarrow> (nat \<Rightarrow> u8 list) \<Rightarrow> u8 list \<Rightarrow> iw_link_info_t step" where
  "read_ssid mal j p k = (let v = sscanf [SLit ''SSID: '', SWord] p in
     and_then (scan_array v 0 (j 2)) (\<lambda>ssid.
     and_then (copy_string mal (Some ssid)) (\<lambda>s. Inr (k\<lparr>lk_SSID := s\<rparr>))))"

definition link_line ::
  "allocator \<Rightarrow> (u8 list \<Rightarrow> c_ldouble option) \<Rightarrow> (nat \<Rightarrow> u8 list) \<Rightarrow> u8 list \<Rightarrow> iw_link_info_t step" where
  "link_line mal to_ld j l = run_prog
     [on_text ''Connected'' l (read_connected mal j),
      on_text ''SSID:'' l (read_ssid mal j),
      on_text ''Freq:'' l (\<lambda>p k. let v = sscanf [SLit ''Freq: '', SNum] p in
        Inr (k\<lparr>lk_freq := scan_int v 0 (lk_freq k)\<rparr>)),
      on_text ''RX:'' l (\<lambda>p k. let v = sscanf [SLit ''RX: '', SNum, SLit '' bytes '', SNum, SLit '' packets''] p in
        Inr (k\<lparr>lk_rx_bytes := scan_long v 0 (lk_rx_bytes k), lk_rx_packets := scan_long v 1 (lk_rx_packets k)\<rparr>)),
      on_text ''TX:'' l (\<lambda>p k. let v = sscanf [SLit ''TX: '', SNum, SLit '' bytes '', SNum, SLit '' packets''] p in
        Inr (k\<lparr>lk_tx_bytes := scan_long v 0 (lk_tx_bytes k), lk_tx_packets := scan_long v 1 (lk_tx_packets k)\<rparr>)),
      on_text ''Signal:'' l (\<lambda>p k. let v = sscanf [SLit ''Signal: '', SNum] p in
        Inr (k\<lparr>lk_signal := scan_long v 0 (lk_signal k)\<rparr>)),
      on_text ''Tx bitrate:'' l (\<lambda>p k. let v = sscanf [SLit ''Tx bitrate: '', SReal] p in
        Inr (case v of [] \<Rightarrow> k | t # _ \<Rightarrow> (case to_ld t of None \<Rightarrow> k | Some x \<Rightarrow> k\<lparr>lk_tx_bitrate := x\<rparr>))),
      on_text ''dtim period:'' l (\<lambda>p k. let v = sscanf [SLit ''dtim period: '', SNum, SLit '' beacon int: '', SNum] p in
        Inr (k\<lparr>lk_dtim := scan_int v 0 (lk_dtim k), lk_beacon := scan_int v 1 (lk_beacon k)\<rparr>))]"

text \<open>The loop over the lines; \<open>j n\<close> are the arrays at line \<open>n\<close>.\<close>

primrec link_lines ::
  "allocator \<Rightarrow> (u8 list \<Rightarrow> c_ldouble option) \<Rightarrow> (nat \<Rightarrow> nat \<Rightarrow> u8 list) \<Rightarrow> nat \<Rightarrow> u8 list list \<Rightarrow> iw_link_info_t step" where
  "link_lines mal to_ld j n [] k = Inr k"
| "link_lines mal to_ld j n (l # ls) k = and_then (link_line mal to_ld (j n) l k) (link_lines mal to_ld j (Suc n) ls)"

definition get_iw_link ::
  "env \<Rightarrow> cstr \<Rightarrow> (u8 list \<Rightarrow> c_ldouble option) \<Rightarrow> (nat \<Rightarrow> nat \<Rightarrow> u8 list) \<Rightarrow> cstr
   \<Rightarrow> fault + effect list \<times> iw_link_info_t option" where
  "get_iw_link e iw_path to_ld j intf =
     (if intf = None then Inr ([], None)
      else and_then (sprintf 2000 [Lit ''sudo '', Str iw_path, Lit '' dev '', Str intf, Lit '' link'']) (\<lambda>cmd.
        case popen_lines e cmd of
          None \<Rightarrow> Inr ([System cmd], None)
        | Some ls \<Rightarrow> and_then (link_lines (mallocs e) to_ld j 0 ls no_link) (\<lambda>k. Inr ([System cmd], Some k))))"


subsection \<open>\<open>getmacaddress\<close>\<close>

record addr_list =
  al_intf :: cstr
  al_mac :: cstr

text \<open>\<open>files path\<close> is the first line of a file, with its newline, as a C string.\<close>

definition getmacaddress :: "(u8 list \<Rightarrow> u8 list option) \<Rightarrow> allocator \<Rightarrow> cstr \<Rightarrow> fault + addr_list option" where
  "getmacaddress files mal intf = (if intf = None then Inr None
     else and_then (sprintf 1024 [Lit ''/sys/class/net/'', Str intf, Lit ''/address'']) (\<lambda>path.
       case files path of
         None \<Rightarrow> Inr None
       | Some line \<Rightarrow> and_then (trim_string (Some (line @ [0]))) (\<lambda>s.
           if s = None then Inr None
           else and_then (copy_string mal intf) (\<lambda>n.
             and_then (copy_string mal s) (\<lambda>m. Inr (Some \<lparr>al_intf = n, al_mac = m\<rparr>))))))"


subsection \<open>What \<open>iw\<close> prints (\<open>iw-4.9/link.c\<close>, \<open>iw-4.9/util.c\<close>)\<close>

text \<open>The printable characters of a name are printed as they are, blanks only inside.\<close>

definition hex_byte :: "u8 \<Rightarrow> u8 list" where
  "hex_byte c = (let h = (\<lambda>n. if n < 10 then 48 + n else 87 + n) in [h (c div 16), h (c mod 16)])"

definition print_ssid_escaped :: "u8 list \<Rightarrow> u8 list" where
  "print_ssid_escaped s = concat (map (\<lambda>i. let c = s ! i in
     if 0x20 < c \<and> c < 0x7F \<and> c \<noteq> 0x5C then [c]
     else if c = 0x20 \<and> i \<noteq> 0 \<and> i \<noteq> length s - 1 then [c]
     else [0x5C, 0x78] @ hex_byte c) [0..<length s])"

text \<open>The attributes of the kernel's answers for an associated station; \<open>bss\<close> are the three flags, the DTIM period
  and the beacon interval.\<close>

record link_attrs =
  la_bssid :: "u8 list"
  la_dev :: "u8 list"
  la_ssid :: "u8 list"
  la_freq :: "c_int option"
  la_rx :: "(32 word \<times> 32 word) option"
  la_tx :: "(32 word \<times> 32 word) option"
  la_signal :: "u8 option"
  la_bitrate :: "u8 list option"
  la_bss :: "(bool \<times> bool \<times> bool \<times> u8 \<times> 16 word) option"

definition newline :: "u8 list" where
  "newline = [10]"

definition connected_line :: "u8 list \<Rightarrow> u8 list \<Rightarrow> u8 list" where
  "connected_line mac dev = str_bytes ''Connected '' @ mac @ str_bytes '' '' @ dev @ newline"

definition ssid_line :: "u8 list \<Rightarrow> u8 list" where
  "ssid_line s = 9 # str_bytes ''SSID: '' @ print_ssid_escaped s @ newline"

definition freq_line :: "c_int \<Rightarrow> u8 list" where
  "freq_line f = 9 # str_bytes ''Freq: '' @ dec_chars f @ newline"

text \<open>\<open>link_bss_handler\<close> for \<open>NL80211_BSS_STATUS_ASSOCIATED\<close>.\<close>

definition link_bss_handler :: "link_attrs \<Rightarrow> u8 list list" where
  "link_bss_handler a = [connected_line (la_bssid a) (la_dev a), ssid_line (la_ssid a)] @
     (case la_freq a of None \<Rightarrow> [] | Some f \<Rightarrow> [freq_line f])"

definition counter_line :: "string \<Rightarrow> 32 word \<times> 32 word \<Rightarrow> u8 list" where
  "counter_line t c = str_bytes t @ digits (unat (fst c)) @ str_bytes '' bytes '' @ digits (unat (snd c)) @
     str_bytes '' packets'' @ newline"

definition signal_line :: "u8 \<Rightarrow> u8 list" where
  "signal_line s = str_bytes ''Signal: '' @ dec_chars (scast s) @ str_bytes '' dBm'' @ newline"

definition bitrate_line :: "u8 list \<Rightarrow> u8 list" where
  "bitrate_line b = str_bytes ''Tx bitrate: '' @ b @ newline"

definition flags_line :: "bool \<Rightarrow> bool \<Rightarrow> bool \<Rightarrow> u8 list" where
  "flags_line cts pre slot = str_bytes ''bss flags: '' @
     (if cts then str_bytes ''CTS-protection'' else []) @
     (if pre then (if cts then str_bytes '' '' else []) @ str_bytes ''short-preamble'' else []) @
     (if slot then (if cts \<or> pre then str_bytes '' '' else []) @ str_bytes ''short-slot-time'' else []) @ newline"

definition dtim_line :: "u8 \<Rightarrow> 16 word \<Rightarrow> u8 list" where
  "dtim_line d b = str_bytes ''dtim period: '' @ digits (unat d) @ str_bytes '' beacon int:'' @ digits (unat b) @
     str_bytes '' '' @ newline"

definition print_link_sta :: "link_attrs \<Rightarrow> u8 list list" where
  "print_link_sta a =
     (case la_rx a of None \<Rightarrow> [] | Some c \<Rightarrow> [counter_line ''RX: '' c]) @
     (case la_tx a of None \<Rightarrow> [] | Some c \<Rightarrow> [counter_line ''TX: '' c]) @
     (case la_signal a of None \<Rightarrow> [] | Some s \<Rightarrow> [signal_line s]) @
     (case la_bitrate a of None \<Rightarrow> [] | Some b \<Rightarrow> [bitrate_line b]) @
     (case la_bss a of None \<Rightarrow> [] | Some (cts, pre, slot, d, b) \<Rightarrow> [flags_line cts pre slot, dtim_line d b])"

definition iw_link_output :: "link_attrs \<Rightarrow> u8 list list" where
  "iw_link_output a = link_bss_handler a @ print_link_sta a"



subsection \<open>Finding and reading text\<close>

lemma take_append_Cons_eq:
  assumes "d \<notin> set k"
  shows "take (length k) (xs @ d # ys) = k \<longleftrightarrow> take (length k) xs = k"
proof (cases "length k \<le> length xs")
  case False
  then have "d \<in> set (take (length k) (xs @ d # ys))"
    by (simp add: take_Cons')
  then show ?thesis
    using assms False by (metis length_take min.absorb1 nle_le)
qed simp

text \<open>A text cannot reach across a character that it does not have.\<close>

lemma find_text_Cons_skip:
  assumes "d \<notin> set k" "k \<noteq> []"
  shows "find_text k (xs @ d # ys) = (case find_text k xs of Some p \<Rightarrow> Some (p @ d # ys) | None \<Rightarrow> find_text k ys)"
proof (induction xs)
  case Nil
  have "take (length k) (d # ys) \<noteq> k"
    using take_append_Cons_eq [OF assms(1), of "[]" ys] assms(2) by simp
  then show ?case
    using assms(2) by simp
next
  case (Cons x xs)
  then show ?case
    using take_append_Cons_eq [OF assms(1), of "x # xs" ys] by (simp split: option.split)
qed

lemma find_text_skip:
  assumes "set ds \<inter> set k = {}" "k \<noteq> []" "ds \<noteq> []"
  shows "find_text k (xs @ ds @ ys) = (case find_text k xs of Some p \<Rightarrow> Some (p @ ds @ ys) | None \<Rightarrow> find_text k ys)"
  using assms(1,3)
proof (induction ds arbitrary: xs)
  case (Cons d ds)
  show ?case
  proof (cases "ds = []")
    case True
    then show ?thesis
      using find_text_Cons_skip [OF _ assms(2), of d xs ys] Cons.prems True by (simp split: option.split)
  next
    case False
    have "find_text k (ds @ ys) = find_text k ys"
      using Cons.IH [of "[]"] Cons.prems False assms(2) by (simp split: option.split)
    then show ?thesis
      using find_text_Cons_skip [OF _ assms(2), of d xs "ds @ ys"] Cons.prems by (simp split: option.split)
  qed
qed simp

definition link_texts :: "string list" where
  "link_texts = [''Connected'', ''SSID:'', ''Freq:'', ''RX:'', ''TX:'', ''Signal:'', ''Tx bitrate:'', ''dtim period:'']"

text \<open>No text of \<open>get_iw_link\<close> has a digit or a sign.\<close>

lemma link_texts_digits: "\<forall>t\<in>set link_texts. \<forall>c\<in>set (str_bytes t). \<not> is_digit c \<and> c \<noteq> 0x2D"
  by code_simp

lemma find_digits:
  assumes "t \<in> set link_texts"
  shows "find_text (str_bytes t) (xs @ digits n @ ys) = (case find_text (str_bytes t) xs of
       Some p \<Rightarrow> Some (p @ digits n @ ys) | None \<Rightarrow> find_text (str_bytes t) ys)"
    and "find_text (str_bytes t) (xs @ dec_chars w @ ys) = (case find_text (str_bytes t) xs of
       Some p \<Rightarrow> Some (p @ dec_chars w @ ys) | None \<Rightarrow> find_text (str_bytes t) ys)"
proof -
  have d: "set (digits m) \<inter> set (str_bytes t) = {}" for m
    using link_texts_digits assms digits_are_digits [of m] by auto
  have "set (dec_chars w) \<inter> set (str_bytes t) = {}"
    using link_texts_digits assms d [of "nat (- sint w)"] d [of "nat (sint w)"] by (auto simp: dec_chars_def)
  moreover have n: "digits m \<noteq> []" for m
    by (subst digits.simps) simp
  moreover have "dec_chars w \<noteq> []"
    using n by (simp add: dec_chars_def)
  moreover have "str_bytes t \<noteq> []"
    using assms by (auto simp: link_texts_def str_bytes_def)
  ultimately show "find_text (str_bytes t) (xs @ digits n @ ys) = (case find_text (str_bytes t) xs of
       Some p \<Rightarrow> Some (p @ digits n @ ys) | None \<Rightarrow> find_text (str_bytes t) ys)"
    "find_text (str_bytes t) (xs @ dec_chars w @ ys) = (case find_text (str_bytes t) xs of
       Some p \<Rightarrow> Some (p @ dec_chars w @ ys) | None \<Rightarrow> find_text (str_bytes t) ys)"
    using d by (blast intro: find_text_skip)+
qed

text \<open>A word: something without blanks.\<close>

definition solid :: "u8 list \<Rightarrow> bool" where
  "solid w \<longleftrightarrow> w \<noteq> [] \<and> (\<forall>c\<in>set w. \<not> is_space c \<and> c \<noteq> 0)"

lemma solid_scan:
  assumes "solid w"
  shows "dropWhile is_space (w @ ys) = w @ ys"
    and "is_space c \<Longrightarrow> takeWhile (\<lambda>c. \<not> is_space c) (w @ c # ys) = w"
    and "w \<noteq> []"
  using assms by (cases w; simp add: solid_def)+

lemma digit_not_space: "is_digit c \<Longrightarrow> \<not> is_space c \<and> c \<noteq> 0 \<and> c \<noteq> 0x2D \<and> c \<noteq> 0x2B"
  by (auto simp: is_digit_def is_space_def)

lemma solid_digits: "solid (digits n)" "solid (dec_chars w)"
proof -
  show d: "solid (digits n)" for n
    using digits_are_digits [of n] digit_not_space unfolding solid_def by (metis digits.simps append_is_Nil_conv list.distinct(1))
  then show "solid (dec_chars w)"
    by (simp add: dec_chars_def solid_def is_space_def)
qed

lemma number_prefix_digits:
  assumes "\<not> is_digit c"
  shows "number_prefix (digits n @ c # ys) = digits n" "number_prefix (dec_chars w @ c # ys) = dec_chars w"
proof -
  have t: "takeWhile is_digit (digits n @ c # ys) = digits n" for n
    using digits_are_digits [of n] assms by (simp add: takeWhile_append2)
  have h: "\<exists>d cs. digits n = d # cs \<and> d \<notin> {0x2D, 0x2B}" for n
    using solid_digits(1) [of n] digits_are_digits [of n] digit_not_space by (cases "digits n") (auto simp: solid_def)
  show d: "number_prefix (digits n @ c # ys) = digits n" for n
    using t [of n] h [of n] by (auto simp: number_prefix_def)
  have "number_prefix (0x2D # digits n @ c # ys) = 0x2D # digits n" for n
    using t [of n] h [of n] by (auto simp: number_prefix_def)
  then show "number_prefix (dec_chars w @ c # ys) = dec_chars w"
    using d by (simp add: dec_chars_def)
qed

lemma scan_dec_chars: "scan_dec (dec_chars w) = Some (sint w)"
  by (simp add: dec_chars_def scan_dec_digits)

lemma scan_numbers:
  "n < 2 ^ 32 \<Longrightarrow> i < length v \<Longrightarrow> v ! i = digits n \<Longrightarrow> scan_long v i x = word_of_nat n"
  "i < length v \<Longrightarrow> v ! i = dec_chars w \<Longrightarrow> scan_long v i x = scast w"
  "n < 2 ^ 16 \<Longrightarrow> i < length v \<Longrightarrow> v ! i = digits n \<Longrightarrow> scan_int v i x' = word_of_nat n"
  "i < length v \<Longrightarrow> v ! i = dec_chars w \<Longrightarrow> scan_int v i x' = w"
proof -
  have r: "- (2 ^ 63) \<le> sint w" "sint w \<le> 2 ^ 63 - 1" for w :: c_int
    using sint_range_size [of w] by (simp_all add: word_size)
  show a: "n < 2 ^ 32 \<Longrightarrow> i < length v \<Longrightarrow> v ! i = digits n \<Longrightarrow> scan_long v i x = word_of_nat n" for n x
    by (simp add: scan_long_def scan_dec_digits)
  show b: "i < length v \<Longrightarrow> v ! i = dec_chars w \<Longrightarrow> scan_long v i x = scast w" for x
    using r [of w] by (simp add: scan_long_def scan_dec_chars)
  show "n < 2 ^ 16 \<Longrightarrow> i < length v \<Longrightarrow> v ! i = digits n \<Longrightarrow> scan_int v i x' = word_of_nat n"
    using a [of n 0] by (simp add: scan_int_def unsigned_of_nat take_bit_nat_eq_self)
  have "ucast (scast w :: c_long) = w"
    by (rule bit_word_eqI) (simp add: bit_simps)
  then show "i < length v \<Longrightarrow> v ! i = dec_chars w \<Longrightarrow> scan_int v i x' = w"
    using b [of 0] by (simp add: scan_int_def)
qed



subsection \<open>Reading back the lines\<close>

text \<open>The blocks that \<open>malloc\<close> hands out for short strings have the two bytes more that \<open>copy_string\<close> needs.\<close>

definition roomy :: "allocator \<Rightarrow> bool" where
  "roomy mal \<longleftrightarrow> (\<forall>n<50. Suc n < length (mal n))"

lemma copy_word:
  assumes "roomy mal" "solid w" "length w < 50"
  obtains d where "copy_string mal (Some (w @ 0 # r)) = Inr d" "canon d = Some (w @ [0])" "ok_str d"
proof -
  have s: "str_chars (w @ 0 # r) = w"
    using assms(2) by (induction w) (auto simp: str_chars_def solid_def)
  then have "copyable mal (Some (w @ 0 # r))"
    using assms(2,3) assms(1) [unfolded roomy_def, rule_format, of "length w - 1"]
    by (auto simp: copyable_def wf_str_def slen_def chars_def solid_def)
  moreover have "canon (Some (w @ 0 # r)) = Some (w @ [0])"
    using s assms(2) by (simp add: canon_def chars_def slen_def solid_def)
  ultimately show ?thesis
    using that dup_simps [of mal "Some (w @ 0 # r)"] by simp
qed

definition foreign :: "u8 list \<Rightarrow> bool" where
  "foreign l \<longleftrightarrow> (\<forall>t\<in>set link_texts. find_text (str_bytes t) l = None)"

lemma link_line_foreign:
  assumes "foreign l"
  shows "link_line mal to_ld j l k = Inr k"
  using assms by (simp add: foreign_def link_line_def on_text_def link_texts_def)

text \<open>A line with only one of the texts.\<close>

definition only_text :: "string \<Rightarrow> u8 list \<Rightarrow> u8 list \<Rightarrow> bool" where
  "only_text t l p \<longleftrightarrow> (\<forall>t'\<in>set link_texts. find_text (str_bytes t') l = (if t' = t then Some p else None))"

lemma scan_array_word:
  "i < length v \<Longrightarrow> v ! i = w \<Longrightarrow> length w < 50 \<Longrightarrow> length b = 50 \<Longrightarrow>
    scan_array v i b = Inr (w @ 0 # drop (length w + 1) b)"
  by (simp add: scan_array_def)

lemma only_text_line:
  assumes "only_text t l p"
  shows "t' \<in> set link_texts \<Longrightarrow> on_text t' l act k = (if t' = t then act p k else Inr k)"
  using assms by (simp add: only_text_def on_text_def)

lemma in_link_texts:
  "''Connected'' \<in> set link_texts" "''SSID:'' \<in> set link_texts" "''Freq:'' \<in> set link_texts" "''RX:'' \<in> set link_texts"
  "''TX:'' \<in> set link_texts" "''Signal:'' \<in> set link_texts" "''Tx bitrate:'' \<in> set link_texts" "''dtim period:'' \<in> set link_texts"
  by (simp_all add: link_texts_def)

lemma read_connected_text:
  assumes "roomy mal" "solid mac" "solid dev" "length mac < 50" "length dev < 50" "\<forall>i. length (j i) = 50"
  obtains n m where "read_connected mal j (str_bytes ''Connected '' @ mac @ str_bytes '' '' @ dev @ newline) k
      = Inr (k\<lparr>lk_connected := True, lk_intf := n, lk_mac := m\<rparr>)"
    "canon n = Some (dev @ [0])" "canon m = Some (mac @ [0])" "ok_str m"
proof -
  have sp: "is_space 32" "is_space 10"
    by (simp_all add: is_space_def)
  have a: "scan_lit (str_bytes ''Connected '') (str_bytes ''Connected '' @ mac @ str_bytes '' '' @ dev @ newline) = Some (mac @ 32 # dev @ [10])"
    using solid_scan(1) [OF assms(2)] by (simp add: str_bytes_def is_space_def newline_def)
  have b: "scan_lit (str_bytes '' '') (32 # dev @ [10]) = Some (dev @ [10])"
    using solid_scan(1) [OF assms(3)] by (simp add: str_bytes_def is_space_def)
  have v: "sscanf [SLit ''Connected '', SWord, SLit '' '', SWord] (str_bytes ''Connected '' @ mac @ str_bytes '' '' @ dev @ newline) = [mac, dev]"
    using solid_scan [OF assms(2)] solid_scan [OF assms(3)] sp by (simp add: a b Let_def)
  obtain n where n: "copy_string mal (Some (dev @ 0 # drop (length dev + 1) (j 1))) = Inr n" "canon n = Some (dev @ [0])"
    using copy_word [OF assms(1,3,5)] .
  obtain m where m: "copy_string mal (Some (mac @ 0 # drop (length mac + 1) (j 0))) = Inr m" "canon m = Some (mac @ [0])" "ok_str m"
    using copy_word [OF assms(1,2,4)] .
  show ?thesis
    using that n m assms(4-6) v by (simp add: read_connected_def scan_array_word)
qed

lemma read_ssid_text:
  assumes "roomy mal" "solid s" "length s < 50" "\<forall>i. length (j i) = 50" "is_space c"
  obtains d where "read_ssid mal j (str_bytes ''SSID: '' @ s @ c # r) k = Inr (k\<lparr>lk_SSID := d\<rparr>)" "canon d = Some (s @ [0])" "ok_str d"
proof -
  have "scan_lit (str_bytes ''SSID: '') (str_bytes ''SSID: '' @ s @ c # r) = Some (s @ c # r)"
    using solid_scan(1) [OF assms(2)] by (simp add: str_bytes_def is_space_def)
  then have v: "sscanf [SLit ''SSID: '', SWord] (str_bytes ''SSID: '' @ s @ c # r) = [s]"
    using solid_scan [OF assms(2)] assms(5) by (simp add: Let_def)
  obtain d where d: "copy_string mal (Some (s @ 0 # drop (length s + 1) (j 2))) = Inr d" "canon d = Some (s @ [0])" "ok_str d"
    using copy_word [OF assms(1-3)] .
  show ?thesis
    using that d assms(3,4) v by (simp add: read_ssid_def scan_array_word)
qed

lemma only_number:
  assumes "only_text t xs p" "foreign ys"
  shows "only_text t (xs @ digits n @ ys) (p @ digits n @ ys)" "only_text t (xs @ dec_chars w @ ys) (p @ dec_chars w @ ys)"
  using assms by (auto simp: only_text_def foreign_def find_digits)

lemma foreign_number: "foreign xs \<Longrightarrow> foreign ys \<Longrightarrow> foreign (xs @ digits n @ ys)"
  by (simp add: foreign_def find_digits)

lemma foreign_pieces:
  "foreign newline" "foreign (str_bytes '' packets'' @ newline)" "foreign (str_bytes '' bytes '')" "foreign (str_bytes '' dBm'' @ newline)"
  "foreign (str_bytes '' beacon int:'')" "foreign (str_bytes '' '' @ newline)"
  by code_simp+

lemma only_pieces:
  "only_text ''Freq:'' (9 # str_bytes ''Freq: '') (str_bytes ''Freq: '')"
  "only_text ''RX:'' (str_bytes ''RX: '') (str_bytes ''RX: '')"
  "only_text ''TX:'' (str_bytes ''TX: '') (str_bytes ''TX: '')"
  "only_text ''Signal:'' (str_bytes ''Signal: '') (str_bytes ''Signal: '')"
  "only_text ''dtim period:'' (str_bytes ''dtim period: '') (str_bytes ''dtim period: '')"
  by code_simp+

lemma only_lines:
  "only_text ''Freq:'' (freq_line f) (str_bytes ''Freq: '' @ dec_chars f @ newline)"
  "only_text ''RX:'' (counter_line ''RX: '' c) (counter_line ''RX: '' c)"
  "only_text ''TX:'' (counter_line ''TX: '' c) (counter_line ''TX: '' c)"
  "only_text ''Signal:'' (signal_line s) (signal_line s)"
  "only_text ''dtim period:'' (dtim_line d b) (dtim_line d b)"
  unfolding freq_line_def counter_line_def signal_line_def dtim_line_def
  using only_number(2) [OF only_pieces(1) foreign_pieces(1), of f]
    only_number(1) [OF only_pieces(2) foreign_number [OF foreign_pieces(3,2)]]
    only_number(1) [OF only_pieces(3) foreign_number [OF foreign_pieces(3,2)]]
    only_number(2) [OF only_pieces(4) foreign_pieces(4)]
    only_number(1) [OF only_pieces(5) foreign_number [OF foreign_pieces(5,6)]]
  by simp_all

lemma foreign_flags: "foreign (flags_line cts pre slot)"
  by (cases cts; cases pre; cases slot; simp only:; code_simp)


text \<open>The conversions of a number that is followed by something else.\<close>

lemma sscanf_number:
  assumes "ys \<noteq> []" "\<not> is_digit (hd ys)"
  shows "sscanf (SNum # fs) (digits n @ ys) = digits n # sscanf fs ys"
    and "sscanf (SNum # fs) (dec_chars w @ ys) = dec_chars w # sscanf fs ys"
  using solid_scan [OF solid_digits(1)] solid_scan [OF solid_digits(2)] number_prefix_digits [OF assms(2)] assms(1)
  by (cases ys; simp add: Let_def)+

lemma sscanf_literal:
  "sscanf (SLit l # fs) s = (case scan_lit (str_bytes l) s of None \<Rightarrow> [] | Some r \<Rightarrow> sscanf fs r)"
  "sscanf [SLit l] s = []"
  by (simp_all split: option.split)

lemma scan_lit_number:
  "scan_lit (str_bytes ''Freq: '') (str_bytes ''Freq: '' @ dec_chars w @ ys) = Some (dec_chars w @ ys)"
  "scan_lit (str_bytes ''RX: '') (str_bytes ''RX: '' @ digits n @ ys) = Some (digits n @ ys)"
  "scan_lit (str_bytes ''TX: '') (str_bytes ''TX: '' @ digits n @ ys) = Some (digits n @ ys)"
  "scan_lit (str_bytes '' bytes '') (str_bytes '' bytes '' @ digits n @ ys) = Some (digits n @ ys)"
  "scan_lit (str_bytes ''Signal: '') (str_bytes ''Signal: '' @ dec_chars w @ ys) = Some (dec_chars w @ ys)"
  "scan_lit (str_bytes ''dtim period: '') (str_bytes ''dtim period: '' @ digits n @ ys) = Some (digits n @ ys)"
  "scan_lit (str_bytes '' beacon int: '') (str_bytes '' beacon int:'' @ digits n @ ys) = Some (digits n @ ys)"
  using solid_scan(1) [OF solid_digits(1)] solid_scan(1) [OF solid_digits(2)]
  by (simp_all add: str_bytes_def is_space_def)

lemma first_chars:
  "hd (str_bytes '' bytes '' @ xs) = 32" "hd (str_bytes '' packets'' @ xs) = 32" "hd (str_bytes '' dBm'' @ xs) = 32"
  "hd (str_bytes '' beacon int:'' @ xs) = 32" "hd (str_bytes '' '' @ xs) = 32" "hd newline = 10" "\<not> is_digit 32" "\<not> is_digit 10"
  "newline \<noteq> []"
  by (simp_all add: str_bytes_def newline_def is_digit_def)

lemma scanned_numbers:
  "sscanf [SLit ''Freq: '', SNum] (str_bytes ''Freq: '' @ dec_chars f @ newline) = [dec_chars f]"
  "sscanf [SLit ''RX: '', SNum, SLit '' bytes '', SNum, SLit '' packets''] (counter_line ''RX: '' c)
     = [digits (unat (fst c)), digits (unat (snd c))]"
  "sscanf [SLit ''TX: '', SNum, SLit '' bytes '', SNum, SLit '' packets''] (counter_line ''TX: '' c)
     = [digits (unat (fst c)), digits (unat (snd c))]"
  "sscanf [SLit ''Signal: '', SNum] (signal_line s) = [dec_chars (scast s)]"
  "sscanf [SLit ''dtim period: '', SNum, SLit '' beacon int: '', SNum] (dtim_line d b) = [digits (unat d), digits (unat b)]"
  unfolding counter_line_def signal_line_def dtim_line_def
  by (simp_all add: sscanf_literal sscanf_number scan_lit_number first_chars del: sscanf.simps(2) split: option.split)

lemma unat_word_bound: "unat (a :: 32 word) < 2 ^ 32" "unat (b :: 16 word) < 2 ^ 16" "unat (d :: u8) < 2 ^ 16"
proof -
  have "unat d < 2 ^ LENGTH(8)"
    by (rule unsigned_less)
  then show "unat d < 2 ^ 16"
    by simp
  show "unat a < 2 ^ 32" "unat b < 2 ^ 16"
    using unsigned_less [where w = a and ?'a = nat] unsigned_less [where w = b and ?'a = nat] by simp_all
qed

text \<open>What each line of numbers does; a \<open>char\<close> and the 16 bits of an interval fit into an \<open>int\<close>.\<close>

lemma number_lines:
  "link_line mal to_ld j (freq_line f) k = Inr (k\<lparr>lk_freq := f\<rparr>)"
  "link_line mal to_ld j (counter_line ''RX: '' c) k = Inr (k\<lparr>lk_rx_bytes := ucast (fst c), lk_rx_packets := ucast (snd c)\<rparr>)"
  "link_line mal to_ld j (counter_line ''TX: '' c) k = Inr (k\<lparr>lk_tx_bytes := ucast (fst c), lk_tx_packets := ucast (snd c)\<rparr>)"
  "link_line mal to_ld j (signal_line s) k = Inr (k\<lparr>lk_signal := scast s\<rparr>)"
  "link_line mal to_ld j (dtim_line d b) k = Inr (k\<lparr>lk_dtim := ucast d, lk_beacon := ucast b\<rparr>)"
proof -
  have "scan_int [digits (unat d), digits (unat b)] 0 x = ucast d" "scan_int [digits (unat d), digits (unat b)] 1 y = ucast b" for x y
    using scan_numbers(3) [OF unat_word_bound(3), of 0 "[digits (unat d), digits (unat b)]" d x]
      scan_numbers(3) [OF unat_word_bound(2), of 1 "[digits (unat d), digits (unat b)]" b y] by simp_all
  moreover have "scan_long [digits (unat (fst c)), digits (unat (snd c))] 0 x = ucast (fst c)"
      "scan_long [digits (unat (fst c)), digits (unat (snd c))] 1 x = ucast (snd c)" for x
    using scan_numbers(1) [OF unat_word_bound(1), of 0 "[digits (unat (fst c)), digits (unat (snd c))]" "fst c" x]
      scan_numbers(1) [OF unat_word_bound(1), of 1 "[digits (unat (fst c)), digits (unat (snd c))]" "snd c" x] by simp_all
  moreover have "scast (scast s :: c_int) = (scast s :: c_long)"
    by (rule bit_word_eqI) (auto simp: bit_simps simp flip: min.assoc)
  then have "scan_long [dec_chars (scast s)] 0 x = scast s" for x
    by (simp add: scan_numbers(2))
  ultimately show "link_line mal to_ld j (freq_line f) k = Inr (k\<lparr>lk_freq := f\<rparr>)"
    "link_line mal to_ld j (counter_line ''RX: '' c) k = Inr (k\<lparr>lk_rx_bytes := ucast (fst c), lk_rx_packets := ucast (snd c)\<rparr>)"
    "link_line mal to_ld j (counter_line ''TX: '' c) k = Inr (k\<lparr>lk_tx_bytes := ucast (fst c), lk_tx_packets := ucast (snd c)\<rparr>)"
    "link_line mal to_ld j (signal_line s) k = Inr (k\<lparr>lk_signal := scast s\<rparr>)"
    "link_line mal to_ld j (dtim_line d b) k = Inr (k\<lparr>lk_dtim := ucast d, lk_beacon := ucast b\<rparr>)"
    unfolding link_line_def
    by (simp_all add: only_text_line [OF only_lines(1)] only_text_line [OF only_lines(2)] only_text_line [OF only_lines(3)]
        only_text_line [OF only_lines(4)] only_text_line [OF only_lines(5)] in_link_texts scanned_numbers scan_numbers(4)
        del: sscanf.simps(2))
qed


lemma bitrate_lines:
  assumes "only_text ''Tx bitrate:'' (bitrate_line b) (bitrate_line b)" "b \<noteq> []" "\<not> is_space (hd b)"
    "to_ld (b @ newline) = Some x"
  shows "link_line mal to_ld j (bitrate_line b) k = Inr (k\<lparr>lk_tx_bitrate := x\<rparr>)"
proof -
  have "dropWhile is_space (b @ newline) = b @ newline"
    using assms(2,3) by (cases b) simp_all
  then have "scan_lit (str_bytes ''Tx bitrate: '') (bitrate_line b) = Some (b @ newline)"
    by (simp add: bitrate_line_def str_bytes_def is_space_def)
  then have "sscanf [SLit ''Tx bitrate: '', SReal] (bitrate_line b) = [b @ newline]"
    using \<open>dropWhile is_space (b @ newline) = b @ newline\<close> by simp
  then show ?thesis
    using assms(4) by (simp add: link_line_def only_text_line [OF assms(1)] in_link_texts del: sscanf.simps(2))
qed


lemma link_lines_append:
  "link_lines mal to_ld j n (xs @ ys) k = and_then (link_lines mal to_ld j n xs k) (link_lines mal to_ld j (n + length xs) ys)"
  by (induction xs arbitrary: n k) (auto simp: and_then_def split: sum.split)

text \<open>
  The links whose lines cannot be mistaken: the words have no blanks and fit, and no line has
  the text of another one in it.
\<close>

definition bssid_ok :: "link_attrs \<Rightarrow> bool" where
  "bssid_ok a \<longleftrightarrow> solid (la_bssid a) \<and> length (la_bssid a) < 50 \<and> solid (la_dev a) \<and> length (la_dev a) < 50 \<and>
     only_text ''Connected'' (connected_line (la_bssid a) (la_dev a)) (connected_line (la_bssid a) (la_dev a))"

definition ssid_ok :: "link_attrs \<Rightarrow> bool" where
  "ssid_ok a \<longleftrightarrow> solid (print_ssid_escaped (la_ssid a)) \<and> length (print_ssid_escaped (la_ssid a)) < 50 \<and>
     only_text ''SSID:'' (ssid_line (la_ssid a)) (tl (ssid_line (la_ssid a)))"

definition bitrate_ok :: "(u8 list \<Rightarrow> c_ldouble option) \<Rightarrow> link_attrs \<Rightarrow> bool" where
  "bitrate_ok to_ld a \<longleftrightarrow> (case la_bitrate a of None \<Rightarrow> True | Some b \<Rightarrow> b \<noteq> [] \<and> \<not> is_space (hd b) \<and>
     to_ld (b @ newline) \<noteq> None \<and> only_text ''Tx bitrate:'' (bitrate_line b) (bitrate_line b))"

text \<open>What the attributes say, with the zeros of \<open>memset\<close> for those that are missing.\<close>

definition link_numbers :: "(u8 list \<Rightarrow> c_ldouble option) \<Rightarrow> link_attrs \<Rightarrow> iw_link_info_t \<Rightarrow> iw_link_info_t" where
  "link_numbers to_ld a k = k\<lparr>
     lk_freq := (case la_freq a of None \<Rightarrow> lk_freq k | Some f \<Rightarrow> f),
     lk_rx_bytes := (case la_rx a of None \<Rightarrow> lk_rx_bytes k | Some c \<Rightarrow> ucast (fst c)),
     lk_rx_packets := (case la_rx a of None \<Rightarrow> lk_rx_packets k | Some c \<Rightarrow> ucast (snd c)),
     lk_tx_bytes := (case la_tx a of None \<Rightarrow> lk_tx_bytes k | Some c \<Rightarrow> ucast (fst c)),
     lk_tx_packets := (case la_tx a of None \<Rightarrow> lk_tx_packets k | Some c \<Rightarrow> ucast (snd c)),
     lk_signal := (case la_signal a of None \<Rightarrow> lk_signal k | Some s \<Rightarrow> scast s),
     lk_tx_bitrate := (case la_bitrate a of None \<Rightarrow> lk_tx_bitrate k | Some b \<Rightarrow> the (to_ld (b @ newline))),
     lk_dtim := (case la_bss a of None \<Rightarrow> lk_dtim k | Some (_, _, _, d, _) \<Rightarrow> ucast d),
     lk_beacon := (case la_bss a of None \<Rightarrow> lk_beacon k | Some (_, _, _, _, b) \<Rightarrow> ucast b)\<rparr>"

lemma number_part:
  assumes "bitrate_ok to_ld a"
  shows "link_lines mal to_ld j n ((case la_freq a of None \<Rightarrow> [] | Some f \<Rightarrow> [freq_line f]) @ print_link_sta a) k
    = Inr (link_numbers to_ld a k)"
proof -
  have b: "link_line mal to_ld j (bitrate_line b) k = Inr (k\<lparr>lk_tx_bitrate := the (to_ld (b @ newline))\<rparr>)"
    if "la_bitrate a = Some b" for b j k
    using assms that bitrate_lines [of b to_ld _ mal j k] by (auto simp: bitrate_ok_def)
  have "link_lines mal to_ld j n ((case la_freq a of None \<Rightarrow> [] | Some f \<Rightarrow> [freq_line f])) k
      = Inr (k\<lparr>lk_freq := (case la_freq a of None \<Rightarrow> lk_freq k | Some f \<Rightarrow> f)\<rparr>)" for n k
    by (simp add: number_lines split: option.split)
  moreover have "link_lines mal to_ld j n (case la_rx a of None \<Rightarrow> [] | Some c \<Rightarrow> [counter_line ''RX: '' c]) k
      = Inr (k\<lparr>lk_rx_bytes := (case la_rx a of None \<Rightarrow> lk_rx_bytes k | Some c \<Rightarrow> ucast (fst c)),
          lk_rx_packets := (case la_rx a of None \<Rightarrow> lk_rx_packets k | Some c \<Rightarrow> ucast (snd c))\<rparr>)" for n k
    by (simp add: number_lines split: option.split)
  moreover have "link_lines mal to_ld j n (case la_tx a of None \<Rightarrow> [] | Some c \<Rightarrow> [counter_line ''TX: '' c]) k
      = Inr (k\<lparr>lk_tx_bytes := (case la_tx a of None \<Rightarrow> lk_tx_bytes k | Some c \<Rightarrow> ucast (fst c)),
          lk_tx_packets := (case la_tx a of None \<Rightarrow> lk_tx_packets k | Some c \<Rightarrow> ucast (snd c))\<rparr>)" for n k
    by (simp add: number_lines split: option.split)
  moreover have "link_lines mal to_ld j n (case la_signal a of None \<Rightarrow> [] | Some s \<Rightarrow> [signal_line s]) k
      = Inr (k\<lparr>lk_signal := (case la_signal a of None \<Rightarrow> lk_signal k | Some s \<Rightarrow> scast s)\<rparr>)" for n k
    by (simp add: number_lines split: option.split)
  moreover have "link_lines mal to_ld j n (case la_bitrate a of None \<Rightarrow> [] | Some b \<Rightarrow> [bitrate_line b]) k
      = Inr (k\<lparr>lk_tx_bitrate := (case la_bitrate a of None \<Rightarrow> lk_tx_bitrate k | Some b \<Rightarrow> the (to_ld (b @ newline)))\<rparr>)" for n k
    using b by (simp split: option.split)
  moreover have "link_lines mal to_ld j n (case la_bss a of None \<Rightarrow> [] | Some (cts, pre, slot, d, b) \<Rightarrow> [flags_line cts pre slot, dtim_line d b]) k
      = Inr (k\<lparr>lk_dtim := (case la_bss a of None \<Rightarrow> lk_dtim k | Some (_, _, _, d, _) \<Rightarrow> ucast d),
          lk_beacon := (case la_bss a of None \<Rightarrow> lk_beacon k | Some (_, _, _, _, b) \<Rightarrow> ucast b)\<rparr>)" for n k
    by (simp add: number_lines link_line_foreign foreign_flags split: option.split)
  ultimately show ?thesis
    unfolding print_link_sta_def link_lines_append by (simp add: link_numbers_def cong: option.case_cong)
qed

lemma connected_part:
  assumes "roomy mal" "bssid_ok a" "\<forall>n i. length (j n i) = 50"
  obtains n m where "link_line mal to_ld (j i) (connected_line (la_bssid a) (la_dev a)) k
        = Inr (k\<lparr>lk_connected := True, lk_intf := n, lk_mac := m\<rparr>)"
      "canon n = Some (la_dev a @ [0])" "canon m = Some (la_bssid a @ [0])" "ok_str m"
proof -
  have ok: "solid (la_bssid a)" "solid (la_dev a)" "length (la_bssid a) < 50" "length (la_dev a) < 50"
      "only_text ''Connected'' (connected_line (la_bssid a) (la_dev a)) (connected_line (la_bssid a) (la_dev a))"
    using assms(2) by (simp_all add: bssid_ok_def)
  have "\<forall>x. length (j i x) = 50"
    using assms(3) by blast
  from read_connected_text [OF assms(1) ok(1-4) this]
  obtain n m where "read_connected mal (j i) (connected_line (la_bssid a) (la_dev a)) k
      = Inr (k\<lparr>lk_connected := True, lk_intf := n, lk_mac := m\<rparr>)"
      "canon n = Some (la_dev a @ [0])" "canon m = Some (la_bssid a @ [0])" "ok_str m"
    unfolding connected_line_def by blast
  then show ?thesis
    using that by (simp add: link_line_def only_text_line [OF ok(5)] in_link_texts)
qed

lemma ssid_part:
  assumes "roomy mal" "ssid_ok a" "\<forall>n i. length (j n i) = 50"
  obtains s where "link_line mal to_ld (j i) (ssid_line (la_ssid a)) k = Inr (k\<lparr>lk_SSID := s\<rparr>)"
    "canon s = Some (print_ssid_escaped (la_ssid a) @ [0])" "ok_str s"
proof -
  have o: "solid (print_ssid_escaped (la_ssid a))" "length (print_ssid_escaped (la_ssid a)) < 50"
      "only_text ''SSID:'' (ssid_line (la_ssid a)) (str_bytes ''SSID: '' @ print_ssid_escaped (la_ssid a) @ newline)"
    using assms(2) by (simp_all add: ssid_ok_def ssid_line_def)
  have "\<forall>x. length (j i x) = 50" "is_space 10"
    using assms(3) by (simp_all add: is_space_def)
  from read_ssid_text [OF assms(1) o(1,2) this, of "[]" k]
  obtain s where "read_ssid mal (j i) (str_bytes ''SSID: '' @ print_ssid_escaped (la_ssid a) @ newline) k = Inr (k\<lparr>lk_SSID := s\<rparr>)"
      "canon s = Some (print_ssid_escaped (la_ssid a) @ [0])" "ok_str s"
    unfolding newline_def by blast
  then show ?thesis
    using that by (simp add: link_line_def only_text_line [OF o(3)] in_link_texts)
qed

lemma iw_link_read:
  assumes "roomy (mallocs e)" "bssid_ok a" "ssid_ok a" "bitrate_ok to_ld a" "\<forall>n i. length (j n i) = 50"
    and "intf \<noteq> None" "sprintf 2000 [Lit ''sudo '', Str iw_path, Lit '' dev '', Str intf, Lit '' link''] = Inr cmd"
    and "popen_lines e cmd = Some (iw_link_output a)"
  shows "\<exists>n m s. get_iw_link e iw_path to_ld j intf = Inr ([System cmd], Some (link_numbers to_ld a
        (no_link\<lparr>lk_connected := True, lk_intf := n, lk_mac := m, lk_SSID := s\<rparr>))) \<and>
      canon n = Some (la_dev a @ [0]) \<and> canon m = Some (la_bssid a @ [0]) \<and>
      canon s = Some (print_ssid_escaped (la_ssid a) @ [0]) \<and> ok_str m \<and> ok_str s"
proof -
  obtain n m where c: "link_line (mallocs e) to_ld (j 0) (connected_line (la_bssid a) (la_dev a)) no_link
        = Inr (no_link\<lparr>lk_connected := True, lk_intf := n, lk_mac := m\<rparr>)"
      "canon n = Some (la_dev a @ [0])" "canon m = Some (la_bssid a @ [0])" "ok_str m"
    by (rule connected_part [OF assms(1,2,5)])
  obtain s where s: "link_line (mallocs e) to_ld (j 1) (ssid_line (la_ssid a)) (no_link\<lparr>lk_connected := True, lk_intf := n, lk_mac := m\<rparr>)
      = Inr (no_link\<lparr>lk_connected := True, lk_intf := n, lk_mac := m, lk_SSID := s\<rparr>)"
      "canon s = Some (print_ssid_escaped (la_ssid a) @ [0])" "ok_str s"
    by (rule ssid_part [OF assms(1,3,5)])
  have "link_lines (mallocs e) to_ld j 0 (iw_link_output a) no_link
      = Inr (link_numbers to_ld a (no_link\<lparr>lk_connected := True, lk_intf := n, lk_mac := m, lk_SSID := s\<rparr>))"
    using number_part [OF assms(4)] c(1) s(1) by (simp add: iw_link_output_def link_bss_handler_def)
  then show ?thesis
    using assms(6-8) c(2-4) s(2,3) by (intro exI [of _ n] exI [of _ m] exI [of _ s]) (auto simp: get_iw_link_def)
qed

text \<open>
  C33 What \<open>iw\<close> prints about the link of a station is read back by \<open>get_iw_link\<close>: the access point, the
  interface, the name of the network, and every number, with zeros for attributes that the kernel
  did not report.
\<close>

theorem iw_link_roundtrip:
  assumes "roomy (mallocs e)" "bssid_ok a" "ssid_ok a" "bitrate_ok to_ld a" "\<forall>n i. length (j n i) = 50"
    and "intf \<noteq> None" "sprintf 2000 [Lit ''sudo '', Str iw_path, Lit '' dev '', Str intf, Lit '' link''] = Inr cmd"
    and "popen_lines e cmd = Some (iw_link_output a)"
  shows "\<exists>n m s. get_iw_link e iw_path to_ld j intf = Inr ([System cmd], Some (link_numbers to_ld a
        (no_link\<lparr>lk_connected := True, lk_intf := n, lk_mac := m, lk_SSID := s\<rparr>))) \<and>
      canon n = Some (la_dev a @ [0]) \<and> canon m = Some (la_bssid a @ [0]) \<and>
      canon s = Some (print_ssid_escaped (la_ssid a) @ [0])"
  using iw_link_read [OF assms] by blast


subsection \<open>A network that names itself like a connection\<close>

lemma print_ssid_plain:
  assumes "\<forall>c\<in>set s. 0x20 \<le> c \<and> c < 0x7F \<and> c \<noteq> 0x5C" "s \<noteq> []" "hd s \<noteq> 0x20" "last s \<noteq> 0x20"
  shows "print_ssid_escaped s = s"
proof -
  have "(let c = s ! i in if 0x20 < c \<and> c < 0x7F \<and> c \<noteq> 0x5C then [c]
      else if c = 0x20 \<and> i \<noteq> 0 \<and> i \<noteq> length s - 1 then [c] else [0x5C, 0x78] @ hex_byte c) = [s ! i]"
    if "i < length s" for i
  proof -
    have "s ! i \<in> set s" "i = 0 \<Longrightarrow> s ! i \<noteq> 0x20" "i = length s - 1 \<Longrightarrow> s ! i \<noteq> 0x20"
      using that assms(2-4) by (simp_all add: hd_conv_nth last_conv_nth)
    then show ?thesis
      using assms(1) by (auto simp: Let_def order_le_less)
  qed
  then have "print_ssid_escaped s = concat (map (\<lambda>i. [s ! i]) [0..<length s])"
    unfolding print_ssid_escaped_def by (intro arg_cong [where f = concat] map_cong) auto
  also have "\<dots> = s"
    by (simp add: concat_map_singleton map_nth)
  finally show ?thesis .
qed

text \<open>The name \<open>Connected mac d\<close>; with the address of 17 characters it has less than the 32 that a name may have.\<close>

definition spoof :: "u8 list \<Rightarrow> u8 list \<Rightarrow> u8 list" where
  "spoof mac d = str_bytes ''Connected '' @ mac @ str_bytes '' '' @ d"

lemma spoof_line:
  assumes "solid d" "\<forall>c\<in>set mac \<union> set d. 0x20 < c \<and> c < 0x7F \<and> c \<noteq> 0x5C"
  shows "ssid_line (spoof mac d) = 9 # str_bytes ''SSID: '' @ connected_line mac d"
proof -
  have s: "\<forall>c\<in>set (str_bytes ''Connected ''). 0x20 \<le> c \<and> c < 0x7F \<and> c \<noteq> 0x5C" "\<forall>c\<in>set (str_bytes '' ''). 0x20 \<le> c \<and> c < 0x7F \<and> c \<noteq> 0x5C"
    "hd (str_bytes ''Connected '') \<noteq> 0x20" "str_bytes ''Connected '' \<noteq> []"
    by code_simp+
  have "\<forall>c\<in>set mac \<union> set d. 0x20 \<le> c \<and> c < 0x7F \<and> c \<noteq> 0x5C"
    using assms(2) by (simp add: order.strict_implies_order)
  then have "\<forall>c\<in>set (spoof mac d). 0x20 \<le> c \<and> c < 0x7F \<and> c \<noteq> 0x5C"
    using s(1,2) unfolding spoof_def set_append by blast
  moreover have "last d \<in> set d" "d \<noteq> []"
    using assms(1) by (simp_all add: solid_def)
  then have "0x20 < last d" "last (spoof mac d) = last d"
    using assms(2) by (simp_all add: spoof_def)
  then have "last (spoof mac d) \<noteq> 0x20"
    by auto
  moreover have "spoof mac d \<noteq> []" "hd (spoof mac d) \<noteq> 0x20"
    using s(3,4) by (simp_all add: spoof_def)
  ultimately have "print_ssid_escaped (spoof mac d) = spoof mac d"
    by (intro print_ssid_plain)
  then show ?thesis
    by (simp add: ssid_line_def spoof_def connected_line_def)
qed

lemma spoof_read:
  assumes "roomy mal" "\<forall>i. length (j i) = 50" "solid mac" "solid d" "length mac < 50" "length d < 50"
      "\<forall>c\<in>set mac \<union> set d. 0x20 < c \<and> c < 0x7F \<and> c \<noteq> 0x5C"
      "\<forall>t\<in>set (drop 2 link_texts). find_text (str_bytes t) (ssid_line (spoof mac d)) = None"
  obtains k' where "link_line mal to_ld j (ssid_line (spoof mac d)) k = Inr k'" "lk_connected k'"
    "canon (lk_mac k') = Some (mac @ [0])" "canon (lk_SSID k') = Some (str_bytes ''Connected'' @ [0])"
proof -
  let ?con = "connected_line mac d" and ?l = "ssid_line (spoof mac d)"
  note line = spoof_line [OF assms(4,7)]
  have "set (9 # str_bytes ''SSID: '') \<inter> set (str_bytes ''Connected'') = {}" "str_bytes ''Connected'' \<noteq> []"
    "find_text (str_bytes ''Connected'') [] = None"
    by code_simp+
  moreover have "find_text (str_bytes ''Connected'') ?con = Some ?con"
    by (simp add: connected_line_def str_bytes_def)
  ultimately have f1: "find_text (str_bytes ''Connected'') ?l = Some ?con"
    using find_text_skip [of "9 # str_bytes ''SSID: ''" "str_bytes ''Connected''" "[]" ?con] line by simp
  have f2: "find_text (str_bytes ''SSID:'') ?l = Some (str_bytes ''SSID: '' @ ?con)"
    unfolding line by (simp add: str_bytes_def)
  have w: "is_space 32" "solid (str_bytes ''Connected'')" "length (str_bytes ''Connected'') < 50" "str_bytes ''Connected '' = str_bytes ''Connected'' @ [32]"
    by code_simp+
  obtain n m where m: "read_connected mal j ?con k = Inr (k\<lparr>lk_connected := True, lk_intf := n, lk_mac := m\<rparr>)" "canon m = Some (mac @ [0])"
    using read_connected_text [OF assms(1,3-6,2)] unfolding connected_line_def by blast
  let ?k = "k\<lparr>lk_connected := True, lk_intf := n, lk_mac := m\<rparr>"
  obtain s where "read_ssid mal j (str_bytes ''SSID: '' @ str_bytes ''Connected'' @ 32 # mac @ str_bytes '' '' @ d @ newline) ?k
      = Inr (?k\<lparr>lk_SSID := s\<rparr>)" "canon s = Some (str_bytes ''Connected'' @ [0])"
    by (rule read_ssid_text [OF assms(1) w(2,3) assms(2) w(1)])
  then have s: "read_ssid mal j (str_bytes ''SSID: '' @ ?con) ?k = Inr (?k\<lparr>lk_SSID := s\<rparr>)" "canon s = Some (str_bytes ''Connected'' @ [0])"
    by (simp_all add: connected_line_def w(4))
  have "link_line mal to_ld j ?l k = Inr (?k\<lparr>lk_SSID := s\<rparr>)"
    using assms(8) m(1) s(1) unfolding link_line_def by (simp add: on_text_def f1 f2 link_texts_def del: sscanf.simps(2))
  then show ?thesis
    using that m(2) s(2) by simp
qed

text \<open>
  C34 The name of a network is printed unchanged and every line is searched for \<open>Connected\<close>.  A network whose name is
  \<open>Connected\<close>, an address and another word makes \<open>get_iw_link\<close> report that address as the one of the
  access point, whatever access point the station is connected to.
\<close>

theorem iw_link_spoofed:
  assumes "roomy (mallocs e)" "bssid_ok a" "bitrate_ok to_ld a" "\<forall>n i. length (j n i) = 50"
    and "intf \<noteq> None" "sprintf 2000 [Lit ''sudo '', Str iw_path, Lit '' dev '', Str intf, Lit '' link''] = Inr cmd"
    and "popen_lines e cmd = Some (iw_link_output a)"
    and name: "la_ssid a = spoof mac d" "solid mac" "solid d" "length mac < 50" "length d < 50"
      "\<forall>c\<in>set mac \<union> set d. 0x20 < c \<and> c < 0x7F \<and> c \<noteq> 0x5C"
      "\<forall>t\<in>set (drop 2 link_texts). find_text (str_bytes t) (ssid_line (spoof mac d)) = None"
  shows "\<exists>k. get_iw_link e iw_path to_ld j intf = Inr ([System cmd], Some k) \<and> lk_connected k \<and>
      canon (lk_mac k) = Some (mac @ [0]) \<and> canon (lk_SSID k) = Some (str_bytes ''Connected'' @ [0])"
proof -
  obtain n m where c: "link_line (mallocs e) to_ld (j 0) (connected_line (la_bssid a) (la_dev a)) no_link
        = Inr (no_link\<lparr>lk_connected := True, lk_intf := n, lk_mac := m\<rparr>)"
    by (rule connected_part [OF assms(1,2,4)])
  have l: "\<forall>i. length (j 1 i) = 50"
    using assms(4) by blast
  obtain k where k: "link_line (mallocs e) to_ld (j 1) (ssid_line (spoof mac d)) (no_link\<lparr>lk_connected := True, lk_intf := n, lk_mac := m\<rparr>) = Inr k"
      "lk_connected k" "canon (lk_mac k) = Some (mac @ [0])" "canon (lk_SSID k) = Some (str_bytes ''Connected'' @ [0])"
    by (rule spoof_read [OF assms(1) l name(2-7)])
  have "link_lines (mallocs e) to_ld j 0 (iw_link_output a) no_link = Inr (link_numbers to_ld a k)"
    using number_part [OF assms(3)] c k(1) name(1) by (simp add: iw_link_output_def link_bss_handler_def)
  moreover have "lk_connected (link_numbers to_ld a k) = lk_connected k" "lk_mac (link_numbers to_ld a k) = lk_mac k"
    "lk_SSID (link_numbers to_ld a k) = lk_SSID k"
    by (simp_all add: link_numbers_def)
  ultimately show ?thesis
    using assms(5-7) k(2-4) by (auto simp: get_iw_link_def)
qed


text \<open>A station \<open>w\<close> connected to the access point \<open>b8:a3\<close>.\<close>

definition demo_link :: "u8 list \<Rightarrow> link_attrs" where
  "demo_link s = \<lparr>la_bssid = str_bytes ''b8:a3'', la_dev = str_bytes ''wlan0'', la_ssid = s, la_freq = Some 2417,
     la_rx = Some (6290, 53), la_tx = None, la_signal = Some 0xDC, la_bitrate = None, la_bss = Some (False, True, True, 2, 100)\<rparr>"

definition demo_iw_link :: "link_attrs \<Rightarrow> env" where
  "demo_iw_link a = demo_env\<lparr>popen_lines := \<lambda>_. Some (iw_link_output a)\<rparr>"

lemma demo_link_ok:
  "bssid_ok (demo_link s)" "bitrate_ok (\<lambda>_. None) (demo_link s)" "ssid_ok (demo_link (str_bytes ''net''))"
  "roomy (mallocs (demo_iw_link a))" "popen_lines (demo_iw_link a) cmd = Some (iw_link_output a)"
  "sprintf 2000 [Lit ''sudo '', Str (Some (str_bytes ''iw'' @ [0])), Lit '' dev '', Str demo_name, Lit '' link''] = Inr (str_bytes ''sudo iw dev w link'')"
proof -
  have "bssid_ok (demo_link [])" "bitrate_ok (\<lambda>_. None) (demo_link [])"
    by code_simp+
  then show "bssid_ok (demo_link s)" "bitrate_ok (\<lambda>_. None) (demo_link s)"
    by (simp_all add: bssid_ok_def bitrate_ok_def demo_link_def)
  show "ssid_ok (demo_link (str_bytes ''net''))"
    by code_simp
  show "roomy (mallocs (demo_iw_link a))" "popen_lines (demo_iw_link a) cmd = Some (iw_link_output a)"
    by (simp_all add: demo_iw_link_def demo_env_def roomy_def demo_alloc_def)
  show "sprintf 2000 [Lit ''sudo '', Str (Some (str_bytes ''iw'' @ [0])), Lit '' dev '', Str demo_name, Lit '' link''] = Inr (str_bytes ''sudo iw dev w link'')"
    by code_simp
qed

theorem iw_link_roundtrip_witness:
  "\<exists>k. get_iw_link (demo_iw_link (demo_link (str_bytes ''net''))) (Some (str_bytes ''iw'' @ [0])) (\<lambda>_. None) (\<lambda>_ _. replicate 50 1) demo_name
     = Inr ([System (str_bytes ''sudo iw dev w link'')], Some k) \<and> lk_signal k = - 36 \<and> lk_rx_bytes k = 6290 \<and> lk_tx_bytes k = 0 \<and>
       lk_beacon k = 100 \<and> canon (lk_mac k) = Some (str_bytes ''b8:a3'' @ [0])"
proof -
  have "\<forall>n i. length ((\<lambda>_ _. replicate 50 1 :: u8 list) (n :: nat) (i :: nat)) = 50"
    by simp
  from iw_link_roundtrip [OF demo_link_ok(4,1,3,2) this demo_name_simps(5) demo_link_ok(6,5)]
  obtain n m s where "get_iw_link (demo_iw_link (demo_link (str_bytes ''net''))) (Some (str_bytes ''iw'' @ [0])) (\<lambda>_. None) (\<lambda>_ _. replicate 50 1) demo_name
     = Inr ([System (str_bytes ''sudo iw dev w link'')], Some (link_numbers (\<lambda>_. None) (demo_link (str_bytes ''net''))
        (no_link\<lparr>lk_connected := True, lk_intf := n, lk_mac := m, lk_SSID := s\<rparr>)))" "canon m = Some (la_bssid (demo_link (str_bytes ''net'')) @ [0])"
    by blast
  then show ?thesis
    by (simp add: link_numbers_def demo_link_def no_link_def)
qed

theorem iw_link_spoofed_witness:
  "\<exists>k. get_iw_link (demo_iw_link (demo_link (str_bytes ''Connected 02:00:00:00:00:01 x''))) (Some (str_bytes ''iw'' @ [0])) (\<lambda>_. None)
       (\<lambda>_ _. replicate 50 1) demo_name = Inr ([System (str_bytes ''sudo iw dev w link'')], Some k) \<and>
     canon (lk_mac k) = Some (str_bytes ''02:00:00:00:00:01'' @ [0])"
proof -
  let ?mac = "str_bytes ''02:00:00:00:00:01''" and ?d = "str_bytes ''x''"
  have s: "str_bytes ''Connected 02:00:00:00:00:01 x'' = spoof ?mac ?d" "solid ?mac" "solid ?d" "length ?mac < 50" "length ?d < 50"
    "\<forall>c\<in>set ?mac \<union> set ?d. 0x20 < c \<and> c < 0x7F \<and> c \<noteq> 0x5C"
    "\<forall>t\<in>set (drop 2 link_texts). find_text (str_bytes t) (ssid_line (spoof ?mac ?d)) = None"
    by code_simp+
  have a: "la_ssid (demo_link (spoof ?mac ?d)) = spoof ?mac ?d"
    by (simp add: demo_link_def)
  have "\<forall>n i. length ((\<lambda>_ _. replicate 50 1 :: u8 list) (n :: nat) (i :: nat)) = 50"
    by simp
  from iw_link_spoofed [OF demo_link_ok(4,1,2) this demo_name_simps(5) demo_link_ok(6,5) a s(2-7)]
  show ?thesis
    unfolding s(1) by blast
qed

end
