(* ===== verification/Msg_Link.thy ===== *)
theory Msg_Link
  imports Station_Report Relay Radio Link
begin

section \<open>The link of a station, asked for by a message\<close>

text \<open>
  \<open>ethanol_functions/sta_link_information.c\<close> is a second reader of what \<open>iw\<close> prints about a link, for the
  address of the access point, the name of the network and the frequency;
  \<open>messaging/msg_sta_link_information.c\<close> sends them.  The reader is shown to give what \<open>get_iw_link\<close> (theory \<open>Link\<close>)
  gives for these three, and the message to carry what \<open>iw\<close> prints on a station to the controller.
\<close>


subsection \<open>\<open>sta_link_information\<close>\<close>

record sta_link_information =
  sl_mac :: cstr
  sl_ssid :: cstr
  sl_freq :: c_int

text \<open>As in \<open>get_iw_link\<close>, \<open>j 0\<close> and \<open>j 2\<close> are the arrays for the address and for the name.\<close>

definition sta_link_line :: "allocator \<Rightarrow> (nat \<Rightarrow> u8 list) \<Rightarrow> u8 list \<Rightarrow> sta_link_information step" where
  "sta_link_line mal j l = run_prog
     [on_text ''Connected'' l (\<lambda>p k. and_then (scan_array (sscanf [SLit ''Connected '', SWord] p) 0 (j 0)) (\<lambda>mac_address.
        and_then (copy_string mal (Some mac_address)) (\<lambda>m. Inr (k\<lparr>sl_mac := m\<rparr>)))),
      on_text ''SSID:'' l (\<lambda>p k. and_then (scan_array (sscanf [SLit ''SSID: '', SWord] p) 0 (j 2)) (\<lambda>ssid.
        and_then (copy_string mal (Some ssid)) (\<lambda>s. Inr (k\<lparr>sl_ssid := s\<rparr>)))),
      on_text ''Freq:'' l (\<lambda>p k. let v = sscanf [SLit ''Freq: '', SNum] p in Inr (k\<lparr>sl_freq := scan_int v 0 (sl_freq k)\<rparr>))]"

primrec sta_link_lines :: "allocator \<Rightarrow> (nat \<Rightarrow> nat \<Rightarrow> u8 list) \<Rightarrow> nat \<Rightarrow> u8 list list \<Rightarrow> sta_link_information step" where
  "sta_link_lines mal j n [] k = Inr k"
| "sta_link_lines mal j n (l # ls) k = and_then (sta_link_line mal (j n) l k) (sta_link_lines mal j (Suc n) ls)"

definition get_sta_link_information ::
  "env \<Rightarrow> cstr \<Rightarrow> (nat \<Rightarrow> nat \<Rightarrow> u8 list) \<Rightarrow> cstr \<Rightarrow> fault + effect list \<times> sta_link_information option" where
  "get_sta_link_information e iw_path j intf =
     (if intf = None then Inr ([], None)
      else and_then (sprintf 2000 [Lit ''sudo '', Str iw_path, Lit '' dev '', Str intf, Lit '' link'']) (\<lambda>cmd.
        case popen_lines e cmd of
          None \<Rightarrow> Inr ([System cmd], None)
        | Some ls \<Rightarrow> and_then (sta_link_lines (mallocs e) j 0 ls \<lparr>sl_mac = None, sl_ssid = None, sl_freq = 0\<rparr>)
            (\<lambda>k. Inr ([System cmd], Some k))))"


subsection \<open>The message\<close>

record msg_sta_link_information = sta_query +
  li_mac :: cstr
  li_ssid :: cstr
  li_freq :: c_int

definition message_size_sta_link_info :: "msg_sta_link_information \<Rightarrow> fault + c_int" where
  "message_size_sta_link_info h = sum_sizes
     [sizeof 4, sizeof 4, strlen_ethanol (p_version h), sizeof 4,
      strlen_ethanol (intf_name h), strlen_ethanol (sta_ip h), sizeof 4,
      strlen_ethanol (li_mac h), strlen_ethanol (li_ssid h), sizeof 4]"

definition encode_msg_sta_link_information ::
  "allocator \<Rightarrow> msg_sta_link_information \<Rightarrow> fault + msg_sta_link_information \<times> u8 list" where
  "encode_msg_sta_link_information mal = encode_frame mal message_size_sta_link_info (\<lambda>h.
     [encode_header (m_type h) (m_id h) (m_size h),
      encode_char (intf_name h),
      encode_char (sta_ip h),
      encode_int (sta_port h),
      encode_char (li_mac h),
      encode_char (li_ssid h),
      encode_int (li_freq h)])"

definition decode_msg_sta_link_information ::
  "u8 list \<Rightarrow> msg_sta_link_information \<Rightarrow> fault + msg_sta_link_information" where
  "decode_msg_sta_link_information = decode_frame
     [decode_header,
      into decode_char intf_name_update,
      into decode_char sta_ip_update,
      into decode_int sta_port_update,
      into decode_char li_mac_update,
      into decode_char li_ssid_update,
      into decode_int li_freq_update]"

definition get_msg_sta_link_information ::
  "env \<Rightarrow> cstr \<Rightarrow> c_int \<Rightarrow> c_int \<Rightarrow> cstr \<Rightarrow> cstr \<Rightarrow> c_int \<Rightarrow> msg_sta_link_information \<Rightarrow> msg_sta_link_information
   \<Rightarrow> fault + effect list \<times> c_int \<times> msg_sta_link_information option" where
  "get_msg_sta_link_information e hostname portnum idc intf staip staport hs hm =
     (if intf = None then Inr ([], idc, None)
      else send_sync e hostname portnum idc
       (\<lambda>i. run_prog
         [assign m_type_update MSG_GET_LINK_INFO,
          assign m_id_update i,
          copy_to e p_version_update ETHANOL_VERSION,
          copy_to e intf_name_update intf,
          copy_to e sta_ip_update staip,
          assign sta_port_update staport,
          assign li_mac_update None,
          assign li_ssid_update None,
          assign li_freq_update 0,
          set_size message_size_sta_link_info] hs)
       (encode_msg_sta_link_information (mallocs e))
       (\<lambda>t. t = MSG_GET_LINK_INFO)
       (\<lambda>buf. decode_msg_sta_link_information buf hm))"

text \<open>What the machine itself reports; \<open>d\<close> has the path of \<open>iw\<close>, \<open>j\<close> the arrays.\<close>

definition own_link ::
  "device \<times> (nat \<Rightarrow> nat \<Rightarrow> u8 list) \<Rightarrow> env \<Rightarrow> msg_sta_link_information \<Rightarrow> fault + effect list \<times> msg_sta_link_information" where
  "own_link = (\<lambda>(d, j) e h.
     and_then (if intf_name h \<noteq> None then get_sta_link_information e (path_to_iw d) j (intf_name h) else Inr ([], None)) (\<lambda>(ev, ret).
       Inr (ev, case ret of
         Some ret \<Rightarrow> h\<lparr>li_mac := sl_mac ret, li_ssid := sl_ssid ret, li_freq := sl_freq ret\<rparr>
       | None \<Rightarrow> h\<lparr>li_mac := None, li_ssid := None, li_freq := - 1\<rparr>)))"

definition process_msg_sta_link_information ::
  "device \<times> (nat \<Rightarrow> nat \<Rightarrow> u8 list) \<Rightarrow> env \<Rightarrow> u8 list \<Rightarrow> msg_sta_link_information \<Rightarrow> msg_sta_link_information
   \<Rightarrow> msg_sta_link_information \<Rightarrow> fault + effect list \<times> u8 list option" where
  "process_msg_sta_link_information p e input hm hs hm' =
     and_then (decode_msg_sta_link_information input hm) (\<lambda>h.
     and_then
       (if \<not> process_station e \<and> sta_ip h \<noteq> None then
          and_then (get_msg_sta_link_information e (sta_ip h) (sta_port h) (m_id h) (intf_name h) None 0 hs hm')
            (\<lambda>(ev, i, h1). Inr (ev, case h1 of
               None \<Rightarrow> h\<lparr>m_id := i\<rparr>
             | Some h1 \<Rightarrow> h\<lparr>m_id := i, li_mac := li_mac h1, li_ssid := li_ssid h1, li_freq := li_freq h1\<rparr>))
        else own_link p e h)
       (\<lambda>(ev, h). and_then (encode_msg_sta_link_information (mallocs e) h) (\<lambda>(_, output). Inr (ev, Some output))))"


subsection \<open>The contract\<close>

definition bytes_link :: "msg_sta_link_information \<Rightarrow> nat" where
  "bytes_link h = slen (p_version h) + slen (intf_name h) + slen (sta_ip h) + slen (li_mac h) + slen (li_ssid h) + 45"

definition ok_link :: "msg_sta_link_information \<Rightarrow> bool" where
  "ok_link h \<longleftrightarrow> ok_header h \<and> ok_str (intf_name h) \<and> ok_str (sta_ip h) \<and> ok_str (li_mac h) \<and> ok_str (li_ssid h)
     \<and> bytes_link h < 2 ^ 31"

definition norm_link :: "msg_sta_link_information \<Rightarrow> msg_sta_link_information \<Rightarrow> msg_sta_link_information" where
  "norm_link h0 h = (norm_header (bytes_link h) h)\<lparr>intf_name := canon (intf_name h), sta_ip := canon (sta_ip h),
     li_mac := canon (li_mac h), li_ssid := canon (li_ssid h)\<rparr>"

interpretation link_m: msg_codec encode_msg_sta_link_information decode_msg_sta_link_information ok_link norm_link bytes_link m_type
  unfolding encode_msg_sta_link_information_def [abs_def] decode_msg_sta_link_information_def
  by (rule frame_codecI [where bss = "\<lambda>m. [ser_str (intf_name m), ser_str (sta_ip m), le_bytes 4 (sta_port m),
          ser_str (li_mac m), ser_str (li_ssid m), le_bytes 4 (li_freq m)]"])
    (simp_all add: codec ok_link_def ok_header_def bytes_link_def norm_link_def
      message_size_sta_link_info_def norm_header_def ac_simps encode_char_put length_ser_str)

interpretation link_svc: station_report encode_msg_sta_link_information decode_msg_sta_link_information ok_link
  norm_link bytes_link m_type m_id intf_name sta_ip sta_port get_msg_sta_link_information
  process_msg_sta_link_information own_link MSG_GET_LINK_INFO "\<lambda>s. 0 < slen s" "\<lambda>e. \<not> process_station e"
  "\<lambda>h. (li_mac h, li_ssid h, li_freq h)" "\<lambda>(m, s, f) h. h\<lparr>li_mac := m, li_ssid := s, li_freq := f\<rparr>"
  "\<lambda>(m, s, f). ok_str m \<and> ok_str s" "\<lambda>(m, s, f). slen m + slen s" "\<lambda>(m, s, f). (canon m, canon s, f)"
  "\<lambda>i h. h\<lparr>m_id := i\<rparr>" "\<lambda>i _. i"
proof (unfold_locales, goal_cases)
  case (19 e intf staip i staport host port hs hm)
  let ?q = "sta_request (mallocs e) MSG_GET_LINK_INFO i intf staip staport (hs\<lparr>li_mac := None, li_ssid := None, li_freq := 0\<rparr>)
    (slen intf + slen staip + 50)"
  have "intf \<noteq> None"
    using 19(4) by (cases intf) simp_all
  then have "get_msg_sta_link_information e host port i intf staip staport hs hm
      = send_sync e host port i (\<lambda>_. Inr ?q) (encode_msg_sta_link_information (mallocs e)) (\<lambda>t. t = MSG_GET_LINK_INFO)
          (\<lambda>b. decode_msg_sta_link_information b hm)"
    unfolding get_msg_sta_link_information_def if_not_P [of "intf = None"]
    by (simp only: if_False) (rule send_sync_built,
      use 19 in \<open>simp add: sta_request_def set_size_ok message_size_sta_link_info_def ac_simps\<close>)
  then show ?case
    using 19 by (intro exI [of _ ?q]) (simp add: sta_request_def ok_link_def ok_header_def bytes_link_def)
next
  case (20 input hm h p e hs hm')
  then show ?case
    by (auto simp: process_msg_sta_link_information_def and_then_assoc conj_commute cong: if_cong split: option.splits)
qed (auto simp: ok_link_def norm_link_def bytes_link_def ok_header_def norm_header_def dest: ok_strD)


subsection \<open>Reading the link\<close>

text \<open>What \<open>get_sta_link_information\<close> keeps of a link.\<close>

definition of_link :: "iw_link_info_t \<Rightarrow> sta_link_information" where
  "of_link k = \<lparr>sl_mac = lk_mac k, sl_ssid = lk_SSID k, sl_freq = lk_freq k\<rparr>"

lemma run_prog_project:
  assumes "list_all2 (\<lambda>p q. \<forall>k k'. p k = Inr k' \<longrightarrow> q (g k) = Inr (g k')) ps qs" "run_prog ps k = Inr k'"
  shows "run_prog qs (g k) = Inr (g k')"
  using assms
proof (induction ps qs arbitrary: k rule: list_all2_induct)
  case (Cons p ps q qs)
  then obtain k1 where "p k = Inr k1" "run_prog ps k1 = Inr k'"
    by (auto simp: and_then_eq_Inr)
  then show ?case
    using Cons by simp
qed simp

lemma first_word: "scan_array (sscanf [SLit l, SWord] p) 0 = scan_array (sscanf [SLit l, SWord, SLit m, SWord] p) 0"
  by (auto simp: scan_array_def fun_eq_iff Let_def split: option.split)

lemma run_prog_idle: "run_prog (ps @ [Inr, Inr, Inr, Inr, Inr]) k = run_prog ps k"
  by (simp add: run_prog_append and_then_def split: sum.split)

lemma sta_link_line_project:
  assumes "link_line mal to_ld j l k = Inr k'"
  shows "sta_link_line mal j l (of_link k) = Inr (of_link k')"
proof -
  have "run_prog ([on_text ''Connected'' l (\<lambda>p k. and_then (scan_array (sscanf [SLit ''Connected '', SWord] p) 0 (j 0)) (\<lambda>mac_address.
        and_then (copy_string mal (Some mac_address)) (\<lambda>m. Inr (k\<lparr>sl_mac := m\<rparr>)))),
      on_text ''SSID:'' l (\<lambda>p k. and_then (scan_array (sscanf [SLit ''SSID: '', SWord] p) 0 (j 2)) (\<lambda>ssid.
        and_then (copy_string mal (Some ssid)) (\<lambda>s. Inr (k\<lparr>sl_ssid := s\<rparr>)))),
      on_text ''Freq:'' l (\<lambda>p k. let v = sscanf [SLit ''Freq: '', SNum] p in Inr (k\<lparr>sl_freq := scan_int v 0 (sl_freq k)\<rparr>))] @
      [Inr, Inr, Inr, Inr, Inr]) (of_link k) = Inr (of_link k')"
    by (rule run_prog_project [OF _ assms [unfolded link_line_def]])
      (auto simp: on_text_def of_link_def read_connected_def read_ssid_def Let_def and_then_eq_Inr first_word [of _ _ "'' ''"]
        simp del: sscanf.simps split: option.splits list.splits)
  then show ?thesis
    unfolding run_prog_idle sta_link_line_def .
qed

lemma sta_link_lines_project:
  "link_lines mal to_ld j n ls k = Inr k' \<Longrightarrow> sta_link_lines mal j n ls (of_link k) = Inr (of_link k')"
  by (induction ls arbitrary: n k) (auto simp: and_then_eq_Inr dest: sta_link_line_project)

lemma readers_agree:
  assumes "get_iw_link e iw_path to_ld j intf = Inr (ev, k)"
  shows "get_sta_link_information e iw_path j intf = Inr (ev, map_option of_link k)"
proof -
  have "of_link no_link = \<lparr>sl_mac = None, sl_ssid = None, sl_freq = 0\<rparr>"
    by (simp add: of_link_def no_link_def)
  then have p: "link_lines (mallocs e) to_ld j 0 ls no_link = Inr k'
      \<Longrightarrow> sta_link_lines (mallocs e) j 0 ls \<lparr>sl_mac = None, sl_ssid = None, sl_freq = 0\<rparr> = Inr (of_link k')" for ls k'
    using sta_link_lines_project [of "mallocs e" to_ld j 0 ls no_link] by simp
  show ?thesis
    using assms by (cases "sprintf 2000 [Lit ''sudo '', Str iw_path, Lit '' dev '', Str intf, Lit '' link'']")
      (auto simp: get_iw_link_def get_sta_link_information_def and_then_eq_Inr p split: if_splits option.splits)
qed

text \<open>
  A line that has a word after each of the two keys it contains.  On any other line \<open>sscanf\<close> leaves its array alone, and the
  readers copy what was on their stacks.
\<close>

definition worded :: "u8 list \<Rightarrow> bool" where
  "worded l \<longleftrightarrow> (case find_text (str_bytes ''Connected'') l of None \<Rightarrow> True | Some p \<Rightarrow> sscanf [SLit ''Connected '', SWord] p \<noteq> []) \<and>
     (case find_text (str_bytes ''SSID:'') l of None \<Rightarrow> True | Some p \<Rightarrow> sscanf [SLit ''SSID: '', SWord] p \<noteq> [])"

lemma str_chars_tail: "str_chars (w @ 0 # r) = str_chars (w @ 0 # r')"
  by (induction w) (simp_all add: str_chars_def)

lemma sscanf_word: "sscanf [SLit t, SWord] p \<noteq> [] \<Longrightarrow> hd (sscanf [SLit t, SWord] p) \<noteq> []"
  by (auto simp: Let_def split: option.splits if_splits)

lemma copied_word:
  assumes "v \<noteq> []" "hd v \<noteq> []" "length b = length b'"
  shows "and_then (scan_array v 0 b) (\<lambda>x. and_then (copy_string mal (Some x)) f)
    = and_then (scan_array v 0 b') (\<lambda>x. and_then (copy_string mal (Some x)) f)"
proof -
  obtain c w vs where v: "v = (c # w) # vs"
    using assms(1,2) by (metis list.exhaust list.sel(1))
  have "copy_string mal (Some (c # w @ 0 # r)) = copy_string mal (Some (c # w @ 0 # r'))" for r r'
    using str_chars_tail [of w r r'] str_chars_tail [of "c # w" r r'] by (simp add: copy_string_def strlen_def strcpy_def)
  from this [of "drop (Suc (Suc (length w))) b" "drop (Suc (Suc (length w))) b'"] show ?thesis
    using assms(3) by (simp add: scan_array_def v)
qed

lemma on_text_cong:
  "(\<And>p k. find_text (str_bytes t) l = Some p \<Longrightarrow> f p k = g p k) \<Longrightarrow> on_text t l f = on_text t l g"
  by (auto simp: on_text_def fun_eq_iff split: option.split)

lemma sta_link_lines_junk:
  assumes "\<forall>l\<in>set ls. worded l" "\<forall>n i. length (j n i) = 50 \<and> length (j' n i) = 50"
  shows "sta_link_lines mal j n ls k = sta_link_lines mal j' n ls k"
proof -
  have w: "on_text t l (\<lambda>p k. and_then (scan_array (sscanf [SLit t', SWord] p) 0 (j n i)) (\<lambda>x. and_then (copy_string mal (Some x)) (f k)))
      = on_text t l (\<lambda>p k. and_then (scan_array (sscanf [SLit t', SWord] p) 0 (j' n i)) (\<lambda>x. and_then (copy_string mal (Some x)) (f k)))"
    if "case find_text (str_bytes t) l of None \<Rightarrow> True | Some p \<Rightarrow> sscanf [SLit t', SWord] p \<noteq> []"
    for t t' l n i and f :: "sta_link_information \<Rightarrow> cstr \<Rightarrow> fault + sta_link_information"
    using that assms(2) by (intro on_text_cong copied_word sscanf_word) (simp_all del: sscanf.simps)
  have "sta_link_line mal (j n) l = sta_link_line mal (j' n) l" if "worded l" for n l
    using that unfolding sta_link_line_def worded_def
    using w [where t = "''Connected''" and t' = "''Connected ''"] w [where t = "''SSID:''" and t' = "''SSID: ''"] by simp
  then show ?thesis
    using assms(1) by (induction ls arbitrary: n k) (simp_all add: and_then_def split: sum.split)
qed

text \<open>
  C39 The two readers of the link agree: when \<open>get_iw_link\<close> reads a link without a fault and every line of the output has
  a word after \<open>Connected\<close> and \<open>SSID:\<close> where it has these texts, \<open>get_sta_link_information\<close>
  runs the same command and returns the same address, name and frequency, whatever the stacks of the two functions
  contain.  (On a line without the word both return the rest of an uninitialised array, each its own.)
\<close>

theorem link_readers_agree:
  assumes "get_iw_link e iw_path to_ld j intf = Inr (ev, k)"
    and "\<forall>n i. length (j n i) = 50 \<and> length (j' n i) = 50"
    and "\<forall>cmd ls. System cmd \<in> set ev \<longrightarrow> popen_lines e cmd = Some ls \<longrightarrow> (\<forall>l\<in>set ls. worded l)"
  shows "get_sta_link_information e iw_path j' intf = Inr (ev, map_option of_link k)"
proof -
  have "get_sta_link_information e iw_path j intf = Inr (ev, map_option of_link k)"
    by (rule readers_agree [OF assms(1)])
  moreover have "get_sta_link_information e iw_path j' intf = get_sta_link_information e iw_path j intf"
    using assms(1,3) sta_link_lines_junk [OF _ assms(2)]
    by (cases "sprintf 2000 [Lit ''sudo '', Str iw_path, Lit '' dev '', Str intf, Lit '' link'']")
      (auto simp: get_iw_link_def get_sta_link_information_def and_then_eq_Inr split: if_splits option.splits)
  ultimately show ?thesis
    by simp
qed

definition demo_lines :: "u8 list list" where
  "demo_lines = [str_bytes ''Connected b8:a3 w'' @ [10], 9 # str_bytes ''SSID: net'' @ [10], 9 # str_bytes ''Freq: 2417'' @ [10]]"

theorem link_readers_agree_witness:
  "\<exists>k. get_sta_link_information (demo_env\<lparr>popen_lines := \<lambda>_. Some demo_lines\<rparr>) demo_name (\<lambda>_ _. replicate 50 7) demo_name
     = Inr ([System (str_bytes ''sudo w dev w link'')], Some k) \<and> sl_freq k = 2417 \<and> chars (sl_mac k) = str_bytes ''b8:a3''"
proof -
  let ?e = "demo_env\<lparr>popen_lines := \<lambda>_. Some demo_lines\<rparr>" and ?cmd = "str_bytes ''sudo w dev w link''"
  have "case get_iw_link ?e demo_name (\<lambda>_. None) (\<lambda>_ _. replicate 50 1) demo_name of
      Inr (ev, Some k) \<Rightarrow> ev = [System ?cmd] \<and> lk_freq k = 2417 \<and> chars (lk_mac k) = str_bytes ''b8:a3'' | _ \<Rightarrow> False"
    by code_simp
  then obtain k where g: "get_iw_link ?e demo_name (\<lambda>_. None) (\<lambda>_ _. replicate 50 1) demo_name = Inr ([System ?cmd], Some k)"
      "lk_freq k = 2417" "chars (lk_mac k) = str_bytes ''b8:a3''"
    by (auto split: sum.splits option.splits prod.splits)
  have "\<forall>l\<in>set demo_lines. worded l"
    by code_simp
  then have w: "\<forall>cmd ls. System cmd \<in> set [System ?cmd] \<longrightarrow> popen_lines ?e cmd = Some ls \<longrightarrow> (\<forall>l\<in>set ls. worded l)"
    by simp
  have l: "\<forall>n i. length ((\<lambda>_ _. replicate 50 1 :: u8 list) (n :: nat) (i :: nat)) = 50 \<and> length ((\<lambda>_ _. replicate 50 7 :: u8 list) n i) = 50"
    by simp
  show ?thesis
    using link_readers_agree [OF g(1) l w] g(2,3) by (simp add: of_link_def)
qed


subsection \<open>The link of a station, seen from the controller\<close>

text \<open>
  C35 A controller that asks for the link of a station gets, through the access point, what \<open>iw\<close> prints on the station
  about it: the address of the access point that the station is connected to, the name of the network as \<open>iw\<close> writes
  it, and the frequency.  The answer carries the message id after the one that was asked.
\<close>

theorem link_of_station:
  assumes "copyable (mallocs e0) ETHANOL_VERSION" "copyable (mallocs e0) intf"
      "copyable (mallocs e0) staip" "allocates (mallocs e0)" "reaches e0 host port"
      "serves e0 host port MSG_GET_LINK_INFO (\<lambda>req. process_msg_sta_link_information p1 e1 (req @ j1) hm1 hs1 hm1')"
    and "allocates (mallocs e1)" "copyable (mallocs e1) ETHANOL_VERSION"
      "copyable (mallocs e1) (canon intf)" "\<not> process_station e1" "reaches e1 (canon staip) staport"
      "serves e1 (canon staip) staport MSG_GET_LINK_INFO
         (\<lambda>req. process_msg_sta_link_information (d2, arrays) e2 (req @ j2) hm2 hs2 hm2')"
    and "allocates (mallocs e2)"
    and iw: "roomy (mallocs e2)" "bssid_ok a" "ssid_ok a" "bitrate_ok (\<lambda>_. Some 0) a" "\<forall>n i. length (arrays n i) = 50"
      "sprintf 2000 [Lit ''sudo '', Str (path_to_iw d2), Lit '' dev '', Str (canon intf), Lit '' link''] = Inr cmd"
      "popen_lines e2 cmd = Some (iw_link_output a)"
    and "0 < slen intf" "0 < slen staip" "slen intf + slen staip < 2 ^ 30"
  shows "\<exists>req r. get_msg_sta_link_information e0 host port i intf staip staport hs hm
      = Inr (session e0 host port req, i + 1, Some r) \<and> m_id r = i + 1 \<and> intf_name r = canon intf \<and>
        li_mac r = Some (la_bssid a @ [0]) \<and> li_ssid r = Some (print_ssid_escaped (la_ssid a) @ [0]) \<and>
        li_freq r = (case la_freq a of None \<Rightarrow> 0 | Some f \<Rightarrow> f)"
proof -
  have nn: "canon intf \<noteq> None"
    using assms(21) by (simp add: canon_eq_None)
  obtain n m s where g: "get_iw_link e2 (path_to_iw d2) (\<lambda>_. Some 0) arrays (canon intf) = Inr ([System cmd], Some (link_numbers (\<lambda>_. Some 0) a
        (no_link\<lparr>lk_connected := True, lk_intf := n, lk_mac := m, lk_SSID := s\<rparr>)))"
      "canon m = Some (la_bssid a @ [0])" "canon s = Some (print_ssid_escaped (la_ssid a) @ [0])" "ok_str m" "ok_str s"
    using iw_link_read [OF iw(1-5) nn iw(6,7)] by blast
  let ?v = "(m, s, case la_freq a of None \<Rightarrow> 0 | Some f \<Rightarrow> f)"
  have "\<And>h. intf_name h = canon intf \<Longrightarrow> own_link (d2, arrays) e2 h
      = Inr ([System cmd], (case ?v of (m, s, f) \<Rightarrow> \<lambda>h. h\<lparr>li_mac := m, li_ssid := s, li_freq := f\<rparr>) h)"
    using readers_agree [OF g(1)] nn
    by (simp add: own_link_def of_link_def link_numbers_def no_link_def cong: option.case_cong)
  moreover have "slen m = length (la_bssid a)" "slen s = length (print_ssid_escaped (la_ssid a))"
    using g(2,3) by (auto simp: canon_def slen_def split: if_splits)
  then have "slen intf + slen staip + (case ?v of (m, s, f) \<Rightarrow> slen m + slen s) < 2 ^ 31 - 200"
    using iw(2,3) assms(23) by (simp add: bssid_ok_def ssid_ok_def)
  ultimately have "\<exists>req r. get_msg_sta_link_information e0 host port i intf staip staport hs hm
      = Inr (session e0 host port req, i + 1, Some r) \<and> m_id r = i + 1 \<and> intf_name r = canon intf \<and>
      (li_mac r, li_ssid r, li_freq r) = (case ?v of (m, s, f) \<Rightarrow> (canon m, canon s, f))"
    by (intro link_svc.end_to_end [OF assms(1-13) _ _ assms(21,22)]) (use g(4,5) in simp_all)
  then show ?thesis
    by (simp add: g(2,3))
qed

definition demo_link_msg :: msg_sta_link_information where
  "demo_link_msg = \<lparr>m_type = 0, m_id = 0, p_version = None, m_size = 0, intf_name = None, sta_ip = None, sta_port = 0,
     li_mac = None, li_ssid = None, li_freq = 9\<rparr>"

theorem link_of_station_witness:
  "\<exists>e0 req r. get_msg_sta_link_information e0 demo_name 22222 5 demo_name demo_name 22223 demo_link_msg demo_link_msg
      = Inr (session e0 demo_name 22222 req, 6, Some r) \<and> m_id r = 6 \<and> li_mac r = Some (str_bytes ''b8:a3'' @ [0]) \<and>
        li_ssid r = Some (str_bytes ''net'' @ [0]) \<and> li_freq r = 2417"
proof -
  let ?a = "demo_link (str_bytes ''net'')" and ?j = "\<lambda>_ _. replicate 50 (1 :: u8)"
  define e2 where "e2 = demo_iw_link ?a"
  define s2 where "s2 = (\<lambda>req. process_msg_sta_link_information (demo_device, ?j) e2 (req @ []) demo_link_msg demo_link_msg demo_link_msg)"
  define e1 where "e1 = demo_env\<lparr>ssl_read := demo_peer s2\<rparr>"
  define s1 where "s1 = (\<lambda>req. process_msg_sta_link_information (demo_device, ?j) e1 (req @ []) demo_link_msg demo_link_msg demo_link_msg)"
  define e0 where "e0 = demo_env\<lparr>ssl_read := demo_peer s1\<rparr>"
  have s: "serves e0 h p t s1" "serves e1 h p t s2" for h p t
    unfolding e0_def e1_def by (rule serves_demo_peer)+
  have m: "mallocs e0 = mallocs demo_env" "mallocs e1 = mallocs demo_env" "mallocs e2 = mallocs demo_env"
    "reaches e0 h p" "reaches e1 h p" "\<not> process_station e1" for h p
    by (simp_all add: e0_def e1_def e2_def demo_iw_link_def reaches_def demo_env_def)
  have v: "copyable (mallocs demo_env) ETHANOL_VERSION" "copyable (mallocs demo_env) demo_name"
      "roomy (mallocs demo_env)"
    by (simp_all add: copyable_demo_env) (simp add: demo_env_def roomy_def demo_alloc_def)
  have iw: "path_to_iw demo_device = Some (str_bytes ''iw'' @ [0])" "bitrate_ok (\<lambda>_. Some 0) ?a" "\<forall>n i. length (?j n i) = 50"
    by (simp_all add: demo_device_def bitrate_ok_def demo_link_def)
  have f: "print_ssid_escaped (str_bytes ''net'') = str_bytes ''net''"
    by code_simp
  have "\<exists>req r. get_msg_sta_link_information e0 demo_name 22222 5 demo_name demo_name 22223 demo_link_msg demo_link_msg
      = Inr (session e0 demo_name 22222 req, 5 + 1, Some r) \<and> m_id r = 5 + 1 \<and> intf_name r = canon demo_name \<and>
        li_mac r = Some (la_bssid ?a @ [0]) \<and> li_ssid r = Some (print_ssid_escaped (la_ssid ?a) @ [0]) \<and>
        li_freq r = (case la_freq ?a of None \<Rightarrow> 0 | Some f \<Rightarrow> f)"
    by (rule link_of_station [where ?e1.0 = e1 and ?e2.0 = e2 and ?p1.0 = "(demo_device, ?j)" and ?d2.0 = demo_device and arrays = ?j
        and ?j1.0 = "[]" and ?j2.0 = "[]" and ?hm1.0 = demo_link_msg and ?hs1.0 = demo_link_msg and hm1' = demo_link_msg
        and ?hm2.0 = demo_link_msg and ?hs2.0 = demo_link_msg and hm2' = demo_link_msg and cmd = "str_bytes ''sudo iw dev w link''"])
      (use v s [unfolded s1_def s2_def] m iw demo_link_ok(1,3,4) demo_link_ok(5) [of ?a] demo_link_ok(6) in \<open>simp_all add: allocates_demo_env e2_def\<close>)
  then show ?thesis
    by (intro exI [of _ e0]) (auto simp: demo_link_def f)
qed

end
