(* ===== verification/Msg_Wlans.thy ===== *)
theory Msg_Wlans
  imports Msg_Intf Station_Report
begin

section \<open>The wireless interfaces and the addresses of a machine\<close>

text \<open>
  \<open>messaging/msg_radio_wlans.c\<close>: the wireless interfaces of a machine, or of a station that is asked instead.
  \<open>messaging/msg_mac.c\<close>: the addresses of all interfaces or of one that is named.  Both are answered
  from theory \<open>Interfaces\<close>.
\<close>


subsection \<open>All interfaces of a machine\<close>

text \<open>The address of an interface as text, without terminator; empty when the system reports none.\<close>

definition mac_chars :: "ifaddrs list \<Rightarrow> u8 list \<Rightarrow> u8 list" where
  "mac_chars as n = (case last_of packet_of (entries_of n as) of None \<Rightarrow> [] | Some p \<Rightarrow> mac_text p)"

definition wireless :: "netdevice \<Rightarrow> u8 list \<Rightarrow> bool" where
  "wireless nd n \<longleftrightarrow> sock_ok nd \<and> ioctl nd SIOCGIWNAME (ifr_name n) \<noteq> None"

text \<open>What \<open>get_all_interfaces\<close> says about the interface \<open>n\<close>.\<close>

definition describes :: "netdevice \<Rightarrow> ifaddrs list \<Rightarrow> u8 list \<Rightarrow> interface_fields \<Rightarrow> bool" where
  "describes nd as n d \<longleftrightarrow> name_of d = n \<and> named (if_name d) \<and> chars (if_mac d) = mac_chars as n \<and> wf_str (if_mac d) \<and>
     if_index d = asked nd SIOCGIFINDEX (- 1) n \<and> if_wifi d = wireless nd n"

lemma complete_all_map:
  assumes "\<forall>f\<in>set l. copy_and_desallocate_fields nd f = Inr (g f)"
  shows "complete_all nd l = Inr (map g l)"
  using assms by (induction l) simp_all

lemma get_all_known:
  assumes "\<forall>a\<in>set as. usable_ifa mal a" "allocates mal" "getifaddrs nd = Some as"
  obtains ds where "get_all_interfaces nd mal j = Inr (if as = [] then None else Some (word_of_nat (length ds), ds))"
    "list_all2 (describes nd as) (names_seen as) ds"
proof -
  obtain l where l: "get_interfaces nd mal j = Inr l" "map name_of l = names_seen as" "\<forall>f\<in>set l. gathered mal j as f"
    using get_interfaces_gathered [OF assms] by blast
  let ?g = "\<lambda>f. f\<lparr>if_index := asked nd SIOCGIFINDEX (- 1) (name_of f),
    if_type := asked nd SIOCGIFFLAGS 0 (name_of f), if_metric := asked nd SIOCGIFMETRIC (- 1) (name_of f),
    if_mtu := asked nd SIOCGIFMTU (- 1) (name_of f), if_wifi := wireless nd (name_of f)\<rparr>"
  have "\<forall>f\<in>set l. copy_and_desallocate_fields nd f = Inr (?g f)"
    using l(3) complete_ok [of _ nd] by (simp add: gathered_def wireless_def)
  then have c: "complete_all nd l = Inr (map ?g l)"
    by (rule complete_all_map)
  have u: "\<forall>a\<in>set (entries_of n as). usable_ifa mal a" for n
    using assms(1) by (simp add: entries_of_def)
  have d: "describes nd as (name_of f) (?g f)" if f: "f \<in> set l" for f
  proof -
    obtain k b where g: "named (if_name f)" "f = fold (ifa_update mal) (entries_of (name_of f) as) (blank_fields b (j k))"
      using l(3) f by (auto simp: gathered_def)
    have "chars (if_mac f) = mac_chars as (name_of f)" "wf_str (if_mac f)"
      unfolding mac_chars_def by (subst (1) g(2), use fold_ifa_update [OF u assms(2)] in simp)+
    then show ?thesis
      using g(1) by (simp add: describes_def)
  qed
  have "l = [] \<longleftrightarrow> as = []"
    using arg_cong [OF l(2), of "\<lambda>xs. xs = []"] by (simp add: names_seen_def)
  then have "get_all_interfaces nd mal j = Inr (if as = [] then None else Some (word_of_nat (length (map ?g l)), map ?g l))"
    by (simp add: get_all_interfaces_def l(1) c)
  moreover have "list_all2 (describes nd as) (names_seen as) (map ?g l)"
    using d unfolding l(2) [symmetric] by (auto simp: list_all2_conv_all_nth)
  ultimately show ?thesis
    by (rule that)
qed


subsection \<open>\<open>msg_radio_wlans\<close>\<close>

record list_of_radio_wlans =
  w_name :: cstr
  w_mac :: cstr
  w_wiphy :: c_int

record msg_radio_wlans = ask_msg +
  num_wlans :: c_int
  wlans :: "list_of_radio_wlans list"

definition size_wlan :: "list_of_radio_wlans \<Rightarrow> fault + c_int" where
  "size_wlan x = sum_sizes [strlen_ethanol (w_name x), strlen_ethanol (w_mac x), sizeof 4]"

definition message_size_radio_wlans :: "msg_radio_wlans \<Rightarrow> fault + c_int" where
  "message_size_radio_wlans h = sum_sizes
     [sizeof 4, sizeof 4, strlen_ethanol (p_version h), sizeof 4, strlen_ethanol (ask_ip h), sizeof 4, sizeof 4,
      size_each size_wlan (num_wlans h) (wlans h)]"

definition encode_wlan :: "list_of_radio_wlans \<Rightarrow> wcur step" where
  "encode_wlan x = run_prog [encode_char (w_name x), encode_char (w_mac x), encode_int (w_wiphy x)]"

definition encode_msg_radio_wlans :: "allocator \<Rightarrow> msg_radio_wlans \<Rightarrow> fault + msg_radio_wlans \<times> u8 list" where
  "encode_msg_radio_wlans mal = encode_frame mal message_size_radio_wlans (\<lambda>h.
     [encode_header (m_type h) (m_id h) (m_size h),
      encode_char (ask_ip h),
      encode_int (ask_port h),
      encode_int (num_wlans h),
      encode_each encode_wlan (num_wlans h) (wlans h)])"

text \<open>Every field of an element of the new array is assigned; a count of 0 leaves the array at \<open>NULL\<close>, the empty array here.\<close>

definition decode_wlan :: "rcur \<Rightarrow> fault + list_of_radio_wlans \<times> rcur" where
  "decode_wlan r = and_then (run_prog
     [into decode_char w_name_update, into decode_char w_mac_update, into decode_int w_wiphy_update]
     (r, \<lparr>w_name = None, w_mac = None, w_wiphy = 0\<rparr>)) (\<lambda>(r, x). Inr (x, r))"

definition decode_wlans :: "(rcur \<times> msg_radio_wlans) step" where
  "decode_wlans = (\<lambda>(r, h). and_then (decode_int r) (\<lambda>(n, r).
     and_then (decode_each decode_wlan n r) (\<lambda>(xs, r). Inr (r, h\<lparr>num_wlans := n, wlans := xs\<rparr>))))"

definition decode_msg_radio_wlans :: "u8 list \<Rightarrow> msg_radio_wlans \<Rightarrow> fault + msg_radio_wlans" where
  "decode_msg_radio_wlans = decode_frame
     [decode_header,
      into decode_char ask_ip_update,
      into decode_int ask_port_update,
      decode_wlans]"

definition send_msg_radio_wlans ::
  "env \<Rightarrow> cstr \<Rightarrow> c_int \<Rightarrow> c_int \<Rightarrow> cstr \<Rightarrow> c_int \<Rightarrow> msg_radio_wlans \<Rightarrow> msg_radio_wlans
   \<Rightarrow> fault + effect list \<times> c_int \<times> msg_radio_wlans option" where
  "send_msg_radio_wlans e hostname portnum idc staip staport hs hm =
     send_sync e hostname portnum idc
       (\<lambda>i. run_prog
         [assign m_type_update MSG_GET_RADIO_WLANS,
          assign m_id_update i,
          copy_to e p_version_update ETHANOL_VERSION,
          copy_to e ask_ip_update staip,
          assign ask_port_update staport,
          assign num_wlans_update 0,
          assign wlans_update [],
          set_size message_size_radio_wlans] hs)
       (encode_msg_radio_wlans (mallocs e))
       (\<lambda>t. t = MSG_GET_RADIO_WLANS)
       (\<lambda>buf. decode_msg_radio_wlans buf hm)"

definition of_wifi :: "interface_fields \<Rightarrow> list_of_radio_wlans" where
  "of_wifi d = \<lparr>w_name = if_name d, w_mac = if_mac d, w_wiphy = if_index d\<rparr>"

text \<open>The wireless interfaces of this machine; \<open>j\<close> is uninitialised memory of \<open>get_all_interfaces\<close>.\<close>

definition own_wlans ::
  "netdevice \<times> (nat \<Rightarrow> interface_fields) \<Rightarrow> env \<Rightarrow> msg_radio_wlans \<Rightarrow> fault + effect list \<times> msg_radio_wlans" where
  "own_wlans = (\<lambda>(nd, j) e h. and_then (get_all_interfaces nd (mallocs e) j) (\<lambda>intfs. Inr ([], case intfs of
       Some (_, d) \<Rightarrow> (let w = map of_wifi (filter if_wifi d) in h\<lparr>num_wlans := word_of_nat (length w), wlans := w\<rparr>)
     | None \<Rightarrow> h\<lparr>num_wlans := 0, wlans := []\<rparr>)))"

definition process_msg_radio_wlans ::
  "netdevice \<times> (nat \<Rightarrow> interface_fields) \<Rightarrow> env \<Rightarrow> u8 list \<Rightarrow> msg_radio_wlans \<Rightarrow> msg_radio_wlans \<Rightarrow> msg_radio_wlans
   \<Rightarrow> fault + effect list \<times> u8 list option" where
  "process_msg_radio_wlans p e input hm hs hm' = and_then (decode_msg_radio_wlans input hm) (\<lambda>h.
     and_then
       (if ask_ip h \<noteq> None then
          and_then (send_msg_radio_wlans e (ask_ip h) (ask_port h) (m_id h) None 0 hs hm')
            (\<lambda>(ev, i, h1). Inr (ev, case h1 of
               None \<Rightarrow> h\<lparr>m_id := i\<rparr>
             | Some h1 \<Rightarrow> h\<lparr>m_id := i, num_wlans := num_wlans h1, wlans := wlans h1\<rparr>))
        else own_wlans p e h)
       (\<lambda>(ev, h). and_then (encode_msg_radio_wlans (mallocs e) h) (\<lambda>(_, output). Inr (ev, Some output))))"


subsection \<open>The contract of \<open>msg_radio_wlans\<close>\<close>

definition ser_wlan :: "list_of_radio_wlans \<Rightarrow> u8 list" where
  "ser_wlan x = ser_str (w_name x) @ ser_str (w_mac x) @ le_bytes 4 (w_wiphy x)"

definition ok_wlan :: "list_of_radio_wlans \<Rightarrow> bool" where
  "ok_wlan x \<longleftrightarrow> ok_str (w_name x) \<and> ok_str (w_mac x)"

definition norm_wlan :: "list_of_radio_wlans \<Rightarrow> list_of_radio_wlans" where
  "norm_wlan x = x\<lparr>w_name := canon (w_name x), w_mac := canon (w_mac x)\<rparr>"

definition bytes_wlan :: "list_of_radio_wlans \<Rightarrow> nat" where
  "bytes_wlan x = slen (w_name x) + slen (w_mac x) + 14"

definition bytes_wlans :: "msg_radio_wlans \<Rightarrow> nat" where
  "bytes_wlans h = slen (p_version h) + slen (ask_ip h) + sum_list (map bytes_wlan (wlans h)) + 30"

definition ok_wlans :: "msg_radio_wlans \<Rightarrow> bool" where
  "ok_wlans h \<longleftrightarrow> ok_header h \<and> ok_str (ask_ip h) \<and> counted (num_wlans h) (wlans h) \<and>
     (\<forall>x\<in>set (wlans h). ok_wlan x) \<and> bytes_wlans h < 2 ^ 31"

definition norm_wlans :: "msg_radio_wlans \<Rightarrow> msg_radio_wlans \<Rightarrow> msg_radio_wlans" where
  "norm_wlans h0 h = (norm_header (bytes_wlans h) h)\<lparr>ask_ip := canon (ask_ip h), wlans := map norm_wlan (wlans h)\<rparr>"

lemma encode_wlan_put: "ok_wlan x \<Longrightarrow> encode_wlan x = put (ser_wlan x)"
  using run_prog_put_all [of "[ser_str (w_name x), ser_str (w_mac x), le_bytes 4 (w_wiphy x)]"]
  by (simp add: encode_wlan_def ok_wlan_def encode_char_put codec ser_wlan_def)

lemma decode_wlan_ser: "ok_wlan x \<Longrightarrow> decode_wlan (ser_wlan x @ r) = Inr (norm_wlan x, r)"
  by (simp add: decode_wlan_def ser_wlan_def ok_wlan_def codec norm_wlan_def)

lemma size_wlan_ok: "ok_wlan x \<Longrightarrow> size_wlan x = sizeof (bytes_wlan x)"
  by (simp add: size_wlan_def ok_wlan_def bytes_wlan_def ac_simps)

lemma length_ser_wlan: "length (ser_wlan x) \<le> bytes_wlan x"
  using length_ser_str_le [of "w_name x"] length_ser_str_le [of "w_mac x"] by (simp add: ser_wlan_def bytes_wlan_def)

lemma decode_wlans_ser:
  assumes "counted n xs" "\<And>x. x \<in> set xs \<Longrightarrow> ok_wlan x"
  shows "decode_wlans (le_bytes 4 n @ concat (map ser_wlan xs) @ r, h) = Inr (r, h\<lparr>num_wlans := n, wlans := map norm_wlan xs\<rparr>)"
  using decode_each_ser [OF assms(1), of decode_wlan ser_wlan norm_wlan] decode_wlan_ser [OF assms(2)]
  by (simp add: decode_wlans_def int_f.dec_ser)

interpretation wlans_m: msg_codec encode_msg_radio_wlans decode_msg_radio_wlans ok_wlans norm_wlans bytes_wlans m_type
  unfolding encode_msg_radio_wlans_def [abs_def] decode_msg_radio_wlans_def
proof (rule frame_codecI [where bss = "\<lambda>m. [ser_str (ask_ip m), le_bytes 4 (ask_port m), le_bytes 4 (num_wlans m),
    concat (map ser_wlan (wlans m))]"], goal_cases)
  case (1 m)
  have "size_each size_wlan (num_wlans m) (wlans m) = sizeof (sum_list (map bytes_wlan (wlans m)))"
    using 1 size_wlan_ok by (auto simp: ok_wlans_def intro!: size_each_sum)
  with 1 show ?case
    by (simp add: ok_wlans_def ok_header_def message_size_radio_wlans_def bytes_wlans_def ac_simps)
next
  case (3 m)
  then have "encode_each encode_wlan (num_wlans m) (wlans m) = put (concat (map ser_wlan (wlans m)))"
    by (auto simp: ok_wlans_def encode_wlan_put intro!: encode_each_put)
  with 3 show ?case
    by (simp add: ok_wlans_def codec encode_char_put)
next
  case (4 m)
  then show ?case
    using length_concat_le [of "wlans m" ser_wlan bytes_wlan] length_ser_wlan length_ser_str_le [of "ask_ip m"]
    by (simp add: ok_wlans_def ok_header_def bytes_wlans_def)
next
  case (5 m r h0)
  then show ?case
    using decode_wlans_ser [of "num_wlans m" "wlans m" r] by (simp add: ok_wlans_def codec norm_wlans_def norm_header_def)
qed (simp_all add: ok_wlans_def)

lemma norm_wlan_simps [simp]:
  "norm_wlan (norm_wlan x) = norm_wlan x" "bytes_wlan (norm_wlan x) = bytes_wlan x" "ok_wlan x \<Longrightarrow> ok_wlan (norm_wlan x)"
  by (auto simp: norm_wlan_def bytes_wlan_def ok_wlan_def dest: ok_strD)

lemma counted_map [simp]: "counted n (map g xs) = counted n xs"
  by (simp add: counted_def)

interpretation wlans_svc: station_report encode_msg_radio_wlans decode_msg_radio_wlans ok_wlans norm_wlans bytes_wlans m_type
  m_id "\<lambda>_. None" ask_ip ask_port "\<lambda>e host port i _. send_msg_radio_wlans e host port i" process_msg_radio_wlans own_wlans
  MSG_GET_RADIO_WLANS "\<lambda>s. slen s = 0" "\<lambda>_. True"
  "\<lambda>h. (num_wlans h, wlans h)" "\<lambda>(n, ws) h. h\<lparr>num_wlans := n, wlans := ws\<rparr>"
  "\<lambda>(n, ws). counted n ws \<and> (\<forall>x\<in>set ws. ok_wlan x)" "\<lambda>(n, ws). sum_list (map bytes_wlan ws)" "\<lambda>(n, ws). (n, map norm_wlan ws)"
  "\<lambda>i h. h\<lparr>m_id := i\<rparr>" "\<lambda>i _. i"
proof (unfold_locales, goal_cases)
  case (19 e intf staip i staport host port hs hm)
  let ?q = "hs\<lparr>m_type := MSG_GET_RADIO_WLANS, m_id := i, p_version := dup (mallocs e) ETHANOL_VERSION, ask_ip := dup (mallocs e) staip,
    ask_port := staport, num_wlans := 0, wlans := [], m_size := word_of_nat (slen staip + 35)\<rparr>"
  have c: "counted 0 ([] :: list_of_radio_wlans list)" "canon intf = None"
    using 19(4) by (simp_all add: counted_def canon_eq_None)
  have "size_each size_wlan 0 [] = sizeof 0"
    using size_each_sum [OF c(1), of size_wlan "\<lambda>_. 0"] by simp
  then have "send_msg_radio_wlans e host port i staip staport hs hm
      = send_sync e host port i (\<lambda>_. Inr ?q) (encode_msg_radio_wlans (mallocs e)) (\<lambda>t. t = MSG_GET_RADIO_WLANS)
          (\<lambda>b. decode_msg_radio_wlans b hm)"
    unfolding send_msg_radio_wlans_def
    by (intro send_sync_built) (use 19 in \<open>simp add: set_size_ok message_size_radio_wlans_def ac_simps\<close>)
  then show ?case
    using 19 c by (intro exI [of _ ?q]) (simp add: ok_wlans_def ok_header_def bytes_wlans_def)
next
  case (20 input hm h p e hs hm')
  then show ?case
    by (auto simp: process_msg_radio_wlans_def and_then_assoc cong: if_cong split: option.splits)
qed (auto simp: ok_wlans_def norm_wlans_def bytes_wlans_def ok_header_def norm_header_def comp_def canon_eq_None dest: ok_strD)



subsection \<open>The wireless interfaces of a station\<close>

lemma described_wifi:
  assumes "list_all2 (describes nd as) ns ds"
  shows "map (\<lambda>w. (chars (w_name w), chars (w_mac w), w_wiphy w)) (map of_wifi (filter if_wifi ds))
    = map (\<lambda>n. (n, mac_chars as n, asked nd SIOCGIFINDEX (- 1) n)) (filter (wireless nd) ns)"
  using assms by (induction rule: list_all2_induct) (auto simp: describes_def of_wifi_def)

lemma mac_chars_length:
  assumes "\<forall>a\<in>set as. usable_ifa mal a"
  shows "length (mac_chars as n) \<le> 17"
  using known_packet [OF assms, of n] mac_text_length by (auto simp: mac_chars_def split: option.split)

lemma names_seen_set: "set (names_seen as) = (\<lambda>a. str_chars (ifa_name a)) ` set as" "length (names_seen as) \<le> length as"
  using length_remdups_leq [of "rev (map (\<lambda>a. str_chars (ifa_name a)) as)"] by (simp_all add: names_seen_def)

lemma wifi_fits:
  assumes "list_all2 (describes nd as) (names_seen as) ds" "\<forall>a\<in>set as. usable_ifa mal a \<and> length (str_chars (ifa_name a)) < 16"
  shows "\<forall>x\<in>set (map of_wifi (filter if_wifi ds)). ok_wlan x"
    and "sum_list (map bytes_wlan (map of_wifi (filter if_wifi ds))) \<le> 46 * length as"
proof -
  have d: "slen (if_name d) < 16 \<and> wf_str (if_name d) \<and> slen (if_mac d) \<le> 17 \<and> wf_str (if_mac d)" if d: "d \<in> set ds" for d
  proof -
    obtain n where n: "n \<in> set (names_seen as)" "describes nd as n d"
      using assms(1) d by (metis in_set_conv_nth list_all2_conv_all_nth)
    then have "length n < 16" "length (mac_chars as n) \<le> 17"
      using assms(2) mac_chars_length [of as mal n] by (auto simp: names_seen_set)
    then show ?thesis
      using n(2) by (auto simp: describes_def slen_def named_def)
  qed
  then show "\<forall>x\<in>set (map of_wifi (filter if_wifi ds)). ok_wlan x"
    by (force simp: ok_wlan_def of_wifi_def ok_str_def)
  have "\<forall>x\<in>set (map of_wifi (filter if_wifi ds)). bytes_wlan x \<le> 46"
    using d by (force simp: bytes_wlan_def of_wifi_def)
  then have "sum_list (map bytes_wlan (map of_wifi (filter if_wifi ds))) \<le> sum_list (map (\<lambda>_. 46) (map of_wifi (filter if_wifi ds)))"
    by (intro sum_list_mono) blast
  also have "\<dots> \<le> 46 * length ds"
    using length_filter_le [of if_wifi ds] by (simp add: sum_list_triv comp_def)
  also have "\<dots> \<le> 46 * length as"
    using list_all2_lengthD [OF assms(1)] names_seen_set(2) [of as] by simp
  finally show "sum_list (map bytes_wlan (map of_wifi (filter if_wifi ds))) \<le> 46 * length as" .
qed

text \<open>
  C36 A controller that asks for the wireless interfaces of a station gets, through the access point, exactly those
  interfaces of the station that the kernel answers for as wireless, each once, with the address that the system reports
  last for it and the index that the kernel gives.
\<close>

theorem wlans_of_station:
  assumes "copyable (mallocs e0) ETHANOL_VERSION" "copyable (mallocs e0) staip" "allocates (mallocs e0)" "reaches e0 host port"
      "serves e0 host port MSG_GET_RADIO_WLANS (\<lambda>req. process_msg_radio_wlans p1 e1 (req @ j1) hm1 hs1 hm1')"
    and "allocates (mallocs e1)" "copyable (mallocs e1) ETHANOL_VERSION" "reaches e1 (canon staip) staport"
      "serves e1 (canon staip) staport MSG_GET_RADIO_WLANS (\<lambda>req. process_msg_radio_wlans (nd, j) e2 (req @ j2) hm2 hs2 hm2')"
    and "allocates (mallocs e2)" "getifaddrs nd = Some as"
      "\<forall>a\<in>set as. usable_ifa (mallocs e2) a \<and> length (str_chars (ifa_name a)) < 16" "length as < 2 ^ 20"
    and "0 < slen staip" "slen staip < 2 ^ 30"
  shows "\<exists>req r. send_msg_radio_wlans e0 host port i staip staport hs hm = Inr (session e0 host port req, i + 1, Some r) \<and>
      m_id r = i + 1 \<and> map (\<lambda>w. (chars (w_name w), chars (w_mac w), w_wiphy w)) (wlans r)
        = map (\<lambda>n. (n, mac_chars as n, asked nd SIOCGIFINDEX (- 1) n)) (filter (wireless nd) (names_seen as))"
proof -
  have u: "\<forall>a\<in>set as. usable_ifa (mallocs e2) a"
    using assms(12) by blast
  obtain ds where ds: "get_all_interfaces nd (mallocs e2) j = Inr (if as = [] then None else Some (word_of_nat (length ds), ds))"
      "list_all2 (describes nd as) (names_seen as) ds"
    by (rule get_all_known [OF u assms(10,11)])
  let ?w = "map of_wifi (filter if_wifi ds)"
  let ?v = "(word_of_nat (length ?w) :: c_int, ?w)"
  have "as = [] \<Longrightarrow> ds = []"
    using ds(2) by (simp add: names_seen_def)
  then have h: "own_wlans (nd, j) e2 h = Inr ([], (case ?v of (n, ws) \<Rightarrow> \<lambda>h. h\<lparr>num_wlans := n, wlans := ws\<rparr>) h)" for h
    by (simp add: own_wlans_def ds(1))
  have "length ?w \<le> length ds"
    by simp
  also have "\<dots> \<le> length as"
    using list_all2_lengthD [OF ds(2)] names_seen_set(2) [of as] by simp
  finally have "counted (word_of_nat (length ?w)) ?w"
    using assms(13) by (intro counted_word) simp
  then have f: "case ?v of (n, ws) \<Rightarrow> counted n ws \<and> (\<forall>x\<in>set ws. ok_wlan x)"
    using wifi_fits(1) [OF ds(2) assms(12)] by simp
  have l: "slen None + slen staip + (case ?v of (n, ws) \<Rightarrow> sum_list (map bytes_wlan ws)) < 2 ^ 31 - 200"
    using wifi_fits(2) [OF ds(2) assms(12)] assms(13,15) by simp
  have "\<exists>req r. send_msg_radio_wlans e0 host port i staip staport hs hm = Inr (session e0 host port req, i + 1, Some r) \<and>
      m_id r = i + 1 \<and> None = canon None \<and> (num_wlans r, wlans r) = (case ?v of (n, ws) \<Rightarrow> (n, map norm_wlan ws))"
    by (rule wlans_svc.end_to_end [OF assms(1) copyable_None assms(2-7) _ TrueI assms(8-10) _ _ _ assms(14) l]) (use h f in simp_all)
  then obtain req r where r: "send_msg_radio_wlans e0 host port i staip staport hs hm = Inr (session e0 host port req, i + 1, Some r)"
      "m_id r = i + 1" "wlans r = map norm_wlan ?w"
    by auto
  have "map (\<lambda>w. (chars (w_name w), chars (w_mac w), w_wiphy w)) (wlans r)
      = map (\<lambda>w. (chars (w_name w), chars (w_mac w), w_wiphy w)) ?w"
    by (simp add: r(3) norm_wlan_def)
  then show ?thesis
    using r(1,2) described_wifi [OF ds(2)] by (intro exI [of _ req] exI [of _ r]) simp
qed


subsection \<open>\<open>msg_mac\<close>\<close>

record interface_mac =
  im_wiphy :: c_long
  im_name :: cstr
  im_mac :: cstr

record msg_mac = msg_header +
  mac_n :: c_int
  macs :: "interface_mac list"

definition size_mac :: "interface_mac \<Rightarrow> fault + c_int" where
  "size_mac x = sum_sizes [sizeof 8, strlen_ethanol (im_name x), strlen_ethanol (im_mac x)]"

definition message_size_mac :: "msg_mac \<Rightarrow> fault + c_int" where
  "message_size_mac h = sum_sizes
     [sizeof 4, sizeof 4, strlen_ethanol (p_version h), sizeof 4, sizeof 4, size_eachu size_mac (mac_n h) (macs h)]"

definition encode_mac :: "interface_mac \<Rightarrow> wcur step" where
  "encode_mac x = run_prog [encode_long (im_wiphy x), encode_char (im_name x), encode_char (im_mac x)]"

definition encode_msg_mac :: "allocator \<Rightarrow> msg_mac \<Rightarrow> fault + msg_mac \<times> u8 list" where
  "encode_msg_mac mal = encode_frame mal message_size_mac (\<lambda>h.
     [encode_header (m_type h) (m_id h) (m_size h),
      encode_uint (mac_n h),
      encode_eachu encode_mac (mac_n h) (macs h)])"

definition decode_mac :: "rcur \<Rightarrow> fault + interface_mac \<times> rcur" where
  "decode_mac r = and_then (run_prog
     [into decode_long im_wiphy_update, into decode_char im_name_update, into decode_char im_mac_update]
     (r, \<lparr>im_wiphy = 0, im_name = None, im_mac = None\<rparr>)) (\<lambda>(r, x). Inr (x, r))"

definition decode_macs :: "(rcur \<times> msg_mac) step" where
  "decode_macs = (\<lambda>(r, h). and_then (decode_uint r) (\<lambda>(n, r).
     and_then (decode_eachu decode_mac n r) (\<lambda>(xs, r). Inr (r, h\<lparr>mac_n := n, macs := xs\<rparr>))))"

definition decode_msg_mac :: "u8 list \<Rightarrow> msg_mac \<Rightarrow> fault + msg_mac" where
  "decode_msg_mac = decode_frame [decode_header, decode_macs]"

text \<open>
  One interface is asked for by name, all of them with a null pointer.  The sender then releases \<open>h.m[0].intf_name\<close>,
  without a test of \<open>h.m\<close>.
\<close>

definition ask_mac :: "env \<Rightarrow> cstr \<Rightarrow> msg_mac step" where
  "ask_mac e intf h = (if intf = None then Inr (h\<lparr>mac_n := 0, macs := []\<rparr>)
     else and_then (copy_string (mallocs e) intf) (\<lambda>n.
       Inr (h\<lparr>mac_n := 1, macs := [\<lparr>im_wiphy = 0, im_name = n, im_mac = None\<rparr>]\<rparr>)))"

definition send_msg_get_mac ::
  "env \<Rightarrow> cstr \<Rightarrow> c_int \<Rightarrow> c_int \<Rightarrow> cstr \<Rightarrow> msg_mac \<Rightarrow> msg_mac \<Rightarrow> fault + effect list \<times> c_int \<times> msg_mac option" where
  "send_msg_get_mac e hostname portnum idc intf hs hm =
     and_then (send_sync e hostname portnum idc
       (\<lambda>i. run_prog
         [assign m_type_update MSG_GET_MAC,
          assign m_id_update i,
          copy_to e p_version_update ETHANOL_VERSION,
          ask_mac e intf,
          set_size message_size_mac] hs)
       (encode_msg_mac (mallocs e))
       (\<lambda>t. t = MSG_GET_MAC)
       (\<lambda>buf. decode_msg_mac buf hm)) (\<lambda>res.
     let (err, h_ssl, _) = get_ssl_connection e hostname portnum in
     if err = 0 \<and> ssl h_ssl \<and> intf = None then Inl Null_Dereference else Inr res)"

definition of_mac :: "interface_fields \<Rightarrow> interface_mac" where
  "of_mac d = \<lparr>im_wiphy = scast (if_index d), im_name = if_name d, im_mac = if_mac d\<rparr>"

text \<open>The result of \<open>get_interface\<close> is used without a test.\<close>

definition fill_mac :: "netdevice \<Rightarrow> env \<Rightarrow> (nat \<Rightarrow> interface_fields) \<Rightarrow> interface_mac \<Rightarrow> fault + interface_mac" where
  "fill_mac nd e j x = (if im_name x = None then Inr x
     else and_then (get_interface nd (mallocs e) j (im_name x)) (\<lambda>f. case f of
       None \<Rightarrow> Inl Null_Dereference
     | Some f \<Rightarrow> Inr (x\<lparr>im_wiphy := scast (if_index f), im_mac := if_mac f\<rparr>)))"

primrec fill_macs :: "netdevice \<Rightarrow> env \<Rightarrow> (nat \<Rightarrow> interface_fields) \<Rightarrow> interface_mac list \<Rightarrow> fault + interface_mac list" where
  "fill_macs nd e j [] = Inr []"
| "fill_macs nd e j (x # xs) = and_then (fill_mac nd e j x) (\<lambda>y. and_then (fill_macs nd e j xs) (\<lambda>ys. Inr (y # ys)))"

definition process_msg_mac ::
  "netdevice \<Rightarrow> (nat \<Rightarrow> interface_fields) \<Rightarrow> env \<Rightarrow> u8 list \<Rightarrow> msg_mac \<Rightarrow> fault + effect list \<times> u8 list option" where
  "process_msg_mac nd j e input hm = and_then (decode_msg_mac input hm) (\<lambda>h.
     and_then
       (if mac_n h = 0 then and_then (get_all_interfaces nd (mallocs e) j) (\<lambda>p. Inr (case p of
            Some (n, d) \<Rightarrow> h\<lparr>mac_n := n, macs := map of_mac d\<rparr>
          | None \<Rightarrow> h\<lparr>mac_n := 0, macs := []\<rparr>))
        else and_then (fill_macs nd e j (macs h)) (\<lambda>xs. Inr (h\<lparr>macs := xs\<rparr>)))
       (\<lambda>h. and_then (encode_msg_mac (mallocs e) h) (\<lambda>(_, output). Inr ([], Some output))))"


subsection \<open>The codec of \<open>msg_mac\<close>\<close>

definition ser_mac :: "interface_mac \<Rightarrow> u8 list" where
  "ser_mac x = le_bytes 8 (im_wiphy x) @ ser_str (im_name x) @ ser_str (im_mac x)"

definition ok_mac :: "interface_mac \<Rightarrow> bool" where
  "ok_mac x \<longleftrightarrow> ok_str (im_name x) \<and> ok_str (im_mac x)"

definition norm_mac :: "interface_mac \<Rightarrow> interface_mac" where
  "norm_mac x = x\<lparr>im_name := canon (im_name x), im_mac := canon (im_mac x)\<rparr>"

definition bytes_mac :: "interface_mac \<Rightarrow> nat" where
  "bytes_mac x = slen (im_name x) + slen (im_mac x) + 18"

definition bytes_macs :: "msg_mac \<Rightarrow> nat" where
  "bytes_macs h = slen (p_version h) + sum_list (map bytes_mac (macs h)) + 21"

definition ok_macs :: "msg_mac \<Rightarrow> bool" where
  "ok_macs h \<longleftrightarrow> ok_header h \<and> counted (mac_n h) (macs h) \<and> (\<forall>x\<in>set (macs h). ok_mac x) \<and> bytes_macs h < 2 ^ 31"

definition norm_macs :: "msg_mac \<Rightarrow> msg_mac \<Rightarrow> msg_mac" where
  "norm_macs h0 h = (norm_header (bytes_macs h) h)\<lparr>macs := map norm_mac (macs h)\<rparr>"

lemma encode_mac_put: "ok_mac x \<Longrightarrow> encode_mac x = put (ser_mac x)"
  using run_prog_put_all [of "[le_bytes 8 (im_wiphy x), ser_str (im_name x), ser_str (im_mac x)]"]
  by (simp add: encode_mac_def ok_mac_def encode_char_put codec ser_mac_def)

lemma decode_mac_ser: "ok_mac x \<Longrightarrow> decode_mac (ser_mac x @ r) = Inr (norm_mac x, r)"
  by (simp add: decode_mac_def ser_mac_def ok_mac_def codec norm_mac_def)

lemma size_mac_ok: "ok_mac x \<Longrightarrow> size_mac x = sizeof (bytes_mac x)"
  by (simp add: size_mac_def ok_mac_def bytes_mac_def ac_simps)

lemma length_ser_mac: "length (ser_mac x) \<le> bytes_mac x"
  using length_ser_str_le [of "im_name x"] length_ser_str_le [of "im_mac x"] by (simp add: ser_mac_def bytes_mac_def)

lemma decode_macs_ser:
  assumes "counted n xs" "\<And>x. x \<in> set xs \<Longrightarrow> ok_mac x"
  shows "decode_macs (le_bytes 4 n @ concat (map ser_mac xs) @ r, h) = Inr (r, h\<lparr>mac_n := n, macs := map norm_mac xs\<rparr>)"
  using decode_each_ser [OF assms(1), of decode_mac ser_mac norm_mac] decode_mac_ser [OF assms(2)]
    eachu_each(3) [OF assms(1), of decode_mac]
  by (simp add: decode_macs_def uint_f.dec_ser)

interpretation mac_m: msg_codec encode_msg_mac decode_msg_mac ok_macs norm_macs bytes_macs m_type
  unfolding encode_msg_mac_def [abs_def] decode_msg_mac_def
proof (rule frame_codecI [where bss = "\<lambda>m. [le_bytes 4 (mac_n m), concat (map ser_mac (macs m))]"], goal_cases)
  case (1 m)
  have "size_eachu size_mac (mac_n m) (macs m) = sizeof (sum_list (map bytes_mac (macs m)))"
    using 1 size_mac_ok by (subst eachu_each) (auto simp: ok_macs_def intro!: size_each_sum)
  with 1 show ?case
    by (simp add: ok_macs_def ok_header_def message_size_mac_def bytes_macs_def ac_simps)
next
  case (3 m)
  then have "encode_eachu encode_mac (mac_n m) (macs m) = put (concat (map ser_mac (macs m)))"
    by (subst eachu_each) (auto simp: ok_macs_def encode_mac_put intro!: encode_each_put)
  with 3 show ?case
    by (simp add: ok_macs_def codec)
next
  case (4 m)
  then show ?case
    using length_concat_le [of "macs m" ser_mac bytes_mac] length_ser_mac by (simp add: ok_macs_def ok_header_def bytes_macs_def)
next
  case (5 m r h0)
  then show ?case
    using decode_macs_ser [of "mac_n m" "macs m" r] by (simp add: ok_macs_def codec norm_macs_def norm_header_def)
qed (simp_all add: ok_macs_def)



subsection \<open>The address of an interface\<close>

lemma norm_macs_simps [simp]:
  "m_type (norm_macs h0 h) = m_type h" "m_id (norm_macs h0 h) = m_id h" "mac_n (norm_macs h0 h) = mac_n h"
  "macs (norm_macs h0 h) = map norm_mac (macs h)"
  by (simp_all add: norm_macs_def norm_header_def)

lemma norm_mac_simps [simp]:
  "im_wiphy (norm_mac x) = im_wiphy x" "im_name (norm_mac x) = canon (im_name x)" "im_mac (norm_mac x) = canon (im_mac x)"
  by (simp_all add: norm_mac_def)

lemma ok_norm_header: "ok_header h \<Longrightarrow> ok_header (norm_header n h)"
  by (simp add: ok_header_def norm_header_def)

text \<open>An answer about one interface can be encoded.\<close>

lemma filled_mac_ok:
  assumes "ok_macs q" "macs q = [x]" "slen (im_name x) < 2 ^ 30" "wf_str m" "slen m \<le> 17"
  shows "ok_macs ((norm_macs hm q)\<lparr>macs := [(norm_mac x)\<lparr>im_wiphy := i, im_mac := m\<rparr>]\<rparr>)" (is "ok_macs ?m")
proof -
  let ?y = "(norm_mac x)\<lparr>im_wiphy := i, im_mac := m\<rparr>"
  have "ok_mac ?y" "bytes_mac ?y < 2 ^ 31 - 100"
    using assms by (auto simp: ok_mac_def ok_macs_def ok_str_def bytes_mac_def)
  moreover have "ok_header ?m" "slen (p_version ?m) = 5" "counted (mac_n q) [x]"
    using assms(1,2) by (simp_all add: ok_macs_def ok_header_def norm_macs_def norm_header_def)
  ultimately show ?thesis
    by (simp add: ok_macs_def bytes_macs_def counted_def)
qed

text \<open>
  C37 A request for the address of one interface.  If the system of the machine that is asked reports the interface, the
  answer has its name, the address reported last for it and its index, under the id of the request.  If it
  does not, the server dereferences a null pointer: any client can end it by asking for an interface that does not exist.
\<close>

theorem mac_answered:
  assumes q: "ok_macs q" "allocates mal" "encode_msg_mac mal q = Inr (q', wire)" "macs q = [x]" "0 < slen (im_name x)"
      "slen (im_name x) < 2 ^ 30"
    and e: "allocates (mallocs e)" "\<forall>a\<in>set as. usable_ifa (mallocs e) a" "getifaddrs nd = Some as"
  shows "if entries_of (chars (im_name x)) as = [] then process_msg_mac nd j e (wire @ r) hm = Inl Null_Dereference
    else \<exists>out. process_msg_mac nd j e (wire @ r) hm = Inr ([], Some out) \<and>
      (\<forall>r h0. \<exists>a y. decode_msg_mac (out @ r) h0 = Inr a \<and> m_id a = m_id q \<and> macs a = [y] \<and> im_name y = canon (im_name x) \<and>
         chars (im_mac y) = mac_chars as (chars (im_name x)) \<and> im_wiphy y = scast (asked nd SIOCGIFINDEX (- 1) (chars (im_name x))))"
proof -
  have nm: "named (canon (im_name x))" "canon (im_name x) \<noteq> None"
    using q(1,4,5) by (auto simp: named_def ok_macs_def ok_mac_def canon_eq_None dest: ok_strD)
  have n: "mac_n q \<noteq> 0"
    using q(1,4) by (auto simp: ok_macs_def counted_def)
  note d = mac_m.roundtrip [OF q(1-3), of r hm]
  have k: "if entries_of (chars (im_name x)) as = [] then get_interface nd (mallocs e) j (canon (im_name x)) = Inr None
    else \<exists>d. get_interface nd (mallocs e) j (canon (im_name x)) = Inr (Some d) \<and> chars (if_mac d) = mac_chars as (chars (im_name x)) \<and>
      wf_str (if_mac d) \<and> if_index d = asked nd SIOCGIFINDEX (- 1) (chars (im_name x))"
    using get_interface_known [OF e(2,1,3) nm(1), of j] by (auto simp: mac_chars_def)
  show ?thesis
  proof (cases "entries_of (chars (im_name x)) as = []")
    case True
    then show ?thesis
      using k d n nm(2) by (auto simp: process_msg_mac_def q(4) fill_mac_def)
  next
    case False
    then obtain f where f: "get_interface nd (mallocs e) j (canon (im_name x)) = Inr (Some f)"
        "chars (if_mac f) = mac_chars as (chars (im_name x))" "wf_str (if_mac f)"
        "if_index f = asked nd SIOCGIFINDEX (- 1) (chars (im_name x))"
      using k by auto
    let ?y = "(norm_mac x)\<lparr>im_wiphy := scast (if_index f), im_mac := if_mac f\<rparr>"
    let ?m = "(norm_macs hm q)\<lparr>macs := [?y]\<rparr>"
    have m: "ok_macs ?m"
      using f(2,3) mac_chars_length [OF e(2)] by (intro filled_mac_ok [OF q(1,4,6)]) (simp_all add: slen_def)
    obtain m' out where out: "encode_msg_mac (mallocs e) ?m = Inr (m', out)"
      using mac_m.enc_no_fault [OF m e(1)] by blast
    have "process_msg_mac nd j e (wire @ r) hm = Inr ([], Some out)"
      using d n nm(2) f(1) out by (auto simp: process_msg_mac_def q(4) fill_mac_def)
    moreover have "\<exists>a y. decode_msg_mac (out @ r) h0 = Inr a \<and> m_id a = m_id q \<and> macs a = [y] \<and> im_name y = canon (im_name x) \<and>
         chars (im_mac y) = mac_chars as (chars (im_name x)) \<and> im_wiphy y = scast (asked nd SIOCGIFINDEX (- 1) (chars (im_name x)))" for r h0
      using mac_m.roundtrip [OF m e(1) out, of r h0] f(2,4) by simp
    ultimately show ?thesis
      using False by simp
  qed
qed

lemma macs_fit:
  assumes "list_all2 (describes nd as) (names_seen as) ds" "\<forall>a\<in>set as. usable_ifa mal a \<and> length (str_chars (ifa_name a)) < 16"
  shows "\<forall>x\<in>set (map of_mac ds). ok_mac x \<and> bytes_mac x \<le> 50"
proof
  fix x
  assume "x \<in> set (map of_mac ds)"
  then obtain d where d: "d \<in> set ds" "x = of_mac d"
    by auto
  then obtain n where n: "n \<in> set (names_seen as)" "describes nd as n d"
    using assms(1) by (metis in_set_conv_nth list_all2_conv_all_nth)
  then have "length n < 16" "length (mac_chars as n) \<le> 17"
    using assms(2) mac_chars_length [of as mal n] by (auto simp: names_seen_set)
  then show "ok_mac x \<and> bytes_mac x \<le> 50"
    using n(2) by (auto simp: d(2) describes_def slen_def named_def ok_mac_def of_mac_def bytes_mac_def ok_str_def)
qed

text \<open>
  Asking for all interfaces: the server answers, and the client then dereferences a null pointer when it
  releases its request.
\<close>

theorem mac_all_crashes:
  assumes "copyable (mallocs e0) ETHANOL_VERSION" "allocates (mallocs e0)" "reaches e0 host port"
      "serves e0 host port MSG_GET_MAC (\<lambda>req. process_msg_mac nd j e1 (req @ stack) hm1)"
    and "allocates (mallocs e1)" "getifaddrs nd = Some as"
      "\<forall>a\<in>set as. usable_ifa (mallocs e1) a \<and> length (str_chars (ifa_name a)) < 16" "length as < 2 ^ 20"
  shows "send_msg_get_mac e0 host port i None hs hm = Inl Null_Dereference"
proof -
  let ?q = "hs\<lparr>m_type := MSG_GET_MAC, m_id := i, p_version := dup (mallocs e0) ETHANOL_VERSION, mac_n := 0, macs := [],
    m_size := word_of_nat 26\<rparr>"
  have c: "counted 0 ([] :: interface_mac list)"
    by (simp add: counted_def)
  have "size_eachu size_mac 0 [] = sizeof 0"
    using size_each_sum [OF c, of size_mac "\<lambda>_. 0"] eachu_each(2) [OF c] by simp
  then have s: "send_sync e0 host port i
       (\<lambda>i. run_prog
         [assign m_type_update MSG_GET_MAC,
          assign m_id_update i,
          copy_to e0 p_version_update ETHANOL_VERSION,
          ask_mac e0 None,
          set_size message_size_mac] hs) (encode_msg_mac (mallocs e0)) (\<lambda>t. t = MSG_GET_MAC) (\<lambda>buf. decode_msg_mac buf hm)
      = send_sync e0 host port i (\<lambda>_. Inr ?q) (encode_msg_mac (mallocs e0)) (\<lambda>t. t = MSG_GET_MAC) (\<lambda>buf. decode_msg_mac buf hm)"
    by (intro send_sync_built) (use assms(1) in \<open>simp add: ask_mac_def set_size_ok message_size_mac_def ac_simps\<close>)
  have q: "ok_macs ?q"
    using assms(1) c by (simp add: ok_macs_def ok_header_def bytes_macs_def)
  obtain q' req where w: "encode_msg_mac (mallocs e0) ?q = Inr (q', req)"
    using mac_m.enc_no_fault [OF q assms(2)] by blast
  have u: "\<forall>a\<in>set as. usable_ifa (mallocs e1) a"
    using assms(7) by blast
  obtain ds where ds: "get_all_interfaces nd (mallocs e1) j = Inr (if as = [] then None else Some (word_of_nat (length ds), ds))"
      "list_all2 (describes nd as) (names_seen as) ds"
    by (rule get_all_known [OF u assms(5,6)])
  let ?xs = "map of_mac ds"
  let ?m = "(norm_macs hm1 ?q)\<lparr>mac_n := word_of_nat (length ?xs), macs := ?xs\<rparr>"
  have l: "length ds \<le> length as"
    using list_all2_lengthD [OF ds(2)] names_seen_set(2) [of as] by simp
  have "sum_list (map bytes_mac ?xs) \<le> sum_list (map (\<lambda>_. 50) ?xs)"
    using macs_fit [OF ds(2) assms(7)] by (intro sum_list_mono) blast
  then have b: "sum_list (map bytes_mac ?xs) \<le> 50 * 2 ^ 20"
    using l assms(8) by (simp add: sum_list_triv comp_def)
  have "ok_header ?m" "slen (p_version ?m) = 5"
    by (simp_all add: ok_header_def norm_macs_def norm_header_def)
  moreover have "counted (word_of_nat (length ?xs)) ?xs"
    using l assms(8) by (intro counted_word) simp
  ultimately have m: "ok_macs ?m"
    using b macs_fit [OF ds(2) assms(7)] by (simp add: ok_macs_def bytes_macs_def)
  obtain m' out where out: "encode_msg_mac (mallocs e1) ?m = Inr (m', out)"
    using mac_m.enc_no_fault [OF m assms(5)] by blast
  have "as = [] \<Longrightarrow> ds = []"
    using ds(2) by (simp add: names_seen_def)
  then have "process_msg_mac nd j e1 (req @ stack) hm1 = Inr ([], Some out)"
    using mac_m.roundtrip [OF q assms(2) w, of stack hm1] out by (auto simp: process_msg_mac_def ds(1) split: if_splits)
  then obtain r where r: "ssl_read e0 host port req = out @ r"
    using servesD [OF assms(4)] mac_m.wire_type [OF q assms(2) w] by fastforce
  have "return_message_type (out @ r) = Inr MSG_GET_MAC"
    using mac_m.wire_message_type [OF m assms(5) out] by simp
  then have "\<exists>x. send_sync e0 host port i (\<lambda>_. Inr ?q) (encode_msg_mac (mallocs e0)) (\<lambda>t. t = MSG_GET_MAC) (\<lambda>buf. decode_msg_mac buf hm) = Inr x"
    using mac_m.roundtrip [OF m assms(5) out, of r hm] assms(3) w r by (simp add: send_sync_def Let_def)
  then show ?thesis
    unfolding send_msg_get_mac_def s using assms(3) by auto
qed


subsection \<open>Witnesses\<close>

definition demo_wifi :: netdevice where
  "demo_wifi = demo_netdevice\<lparr>ioctl := \<lambda>r n. if r = SIOCGIWNAME \<and> n \<noteq> ifr_name (str_bytes ''wlan0'') then None else Some 3\<rparr>"

definition demo_wlans :: msg_radio_wlans where
  "demo_wlans = \<lparr>m_type = 0, m_id = 0, p_version = None, m_size = 0, ask_ip = None, ask_port = 0, num_wlans = 0, wlans = []\<rparr>"

definition demo_mac :: msg_mac where
  "demo_mac = \<lparr>m_type = MSG_GET_MAC, m_id = 4, p_version = ETHANOL_VERSION, m_size = 0, mac_n = 1,
     macs = [\<lparr>im_wiphy = 0, im_name = demo_name, im_mac = None\<rparr>]\<rparr>"

lemma demo_short: "\<forall>a\<in>set demo_addrs. usable_ifa demo_alloc a \<and> length (str_chars (ifa_name a)) < 16" "length demo_addrs < 2 ^ 20"
  by code_simp (simp add: demo_addrs_def)

theorem wlans_of_station_witness:
  "\<forall>j. \<exists>e0 req r. send_msg_radio_wlans e0 demo_name 22222 5 demo_name 22223 demo_wlans demo_wlans
      = Inr (session e0 demo_name 22222 req, 6, Some r) \<and> m_id r = 6 \<and>
      map (\<lambda>w. (chars (w_name w), chars (w_mac w), w_wiphy w)) (wlans r) = [(str_bytes ''wlan0'', str_bytes ''0a:0b:0c:0d:0e:0f'', 3)]"
proof
  fix j
  define s2 where "s2 = (\<lambda>req. process_msg_radio_wlans (demo_wifi, j) demo_env (req @ []) demo_wlans demo_wlans demo_wlans)"
  define e1 where "e1 = demo_env\<lparr>ssl_read := demo_peer s2\<rparr>"
  define s1 where "s1 = (\<lambda>req. process_msg_radio_wlans (demo_wifi, j) e1 (req @ []) demo_wlans demo_wlans demo_wlans)"
  define e0 where "e0 = demo_env\<lparr>ssl_read := demo_peer s1\<rparr>"
  have s: "serves e0 h p t s1" "serves e1 h p t s2" for h p t
    unfolding e0_def e1_def by (rule serves_demo_peer)+
  have m: "mallocs e0 = mallocs demo_env" "mallocs e1 = mallocs demo_env" "mallocs demo_env = demo_alloc" "reaches e0 h p" "reaches e1 h p" for h p
    by (simp_all add: e0_def e1_def reaches_def demo_env_def)
  have v: "copyable demo_alloc ETHANOL_VERSION" "copyable demo_alloc demo_name" "getifaddrs demo_wifi = Some demo_addrs"
    by (simp_all add: copyable_demo_alloc demo_wifi_def demo_netdevice_def)
  have w: "map (\<lambda>n. (n, mac_chars demo_addrs n, asked demo_wifi SIOCGIFINDEX (- 1) n)) (filter (wireless demo_wifi) (names_seen demo_addrs))
      = [(str_bytes ''wlan0'', str_bytes ''0a:0b:0c:0d:0e:0f'', 3)]"
    by code_simp
  have "\<exists>req r. send_msg_radio_wlans e0 demo_name 22222 5 demo_name 22223 demo_wlans demo_wlans
      = Inr (session e0 demo_name 22222 req, 5 + 1, Some r) \<and> m_id r = 5 + 1 \<and>
      map (\<lambda>w. (chars (w_name w), chars (w_mac w), w_wiphy w)) (wlans r)
      = map (\<lambda>n. (n, mac_chars demo_addrs n, asked demo_wifi SIOCGIFINDEX (- 1) n)) (filter (wireless demo_wifi) (names_seen demo_addrs))"
    by (rule wlans_of_station [where ?e1.0 = e1 and ?e2.0 = demo_env and ?p1.0 = "(demo_wifi, j)" and j = j
        and ?j1.0 = "[]" and ?j2.0 = "[]" and ?hm1.0 = demo_wlans and ?hs1.0 = demo_wlans and hm1' = demo_wlans
        and ?hm2.0 = demo_wlans and ?hs2.0 = demo_wlans and hm2' = demo_wlans])
      (use v s [unfolded s1_def s2_def] m demo_short allocates_demo_alloc in simp_all)
  then show "\<exists>e0 req r. send_msg_radio_wlans e0 demo_name 22222 5 demo_name 22223 demo_wlans demo_wlans
      = Inr (session e0 demo_name 22222 req, 6, Some r) \<and> m_id r = 6 \<and>
      map (\<lambda>w. (chars (w_name w), chars (w_mac w), w_wiphy w)) (wlans r) = [(str_bytes ''wlan0'', str_bytes ''0a:0b:0c:0d:0e:0f'', 3)]"
    unfolding w by (intro exI [of _ e0]) simp
qed

theorem mac_answered_witness:
  "\<forall>j hm. \<exists>q' wire. encode_msg_mac demo_alloc demo_mac = Inr (q', wire) \<and> process_msg_mac demo_wifi j demo_env (wire @ []) hm = Inl Null_Dereference"
proof (intro allI)
  fix j hm
  have q: "ok_macs demo_mac" "macs demo_mac = [\<lparr>im_wiphy = 0, im_name = demo_name, im_mac = None\<rparr>]"
    by (simp_all add: demo_mac_def ok_macs_def ok_header_def counted_def ok_mac_def ok_str_def bytes_macs_def bytes_mac_def)
  obtain q' wire where w: "encode_msg_mac demo_alloc demo_mac = Inr (q', wire)"
    using mac_m.enc_no_fault [OF q(1) allocates_demo_alloc] by blast
  have e: "allocates (mallocs demo_env)" "\<forall>a\<in>set demo_addrs. usable_ifa (mallocs demo_env) a" "getifaddrs demo_wifi = Some demo_addrs"
    using usable_demo allocates_demo_env by (simp_all add: demo_env_def demo_wifi_def demo_netdevice_def)
  have "entries_of [0x77] demo_addrs = []"
    by code_simp
  then have "process_msg_mac demo_wifi j demo_env (wire @ []) hm = Inl Null_Dereference"
    using mac_answered [OF q(1) allocates_demo_alloc w q(2) _ _ e, of j "[]" hm] by simp
  with w show "\<exists>q' wire. encode_msg_mac demo_alloc demo_mac = Inr (q', wire) \<and> process_msg_mac demo_wifi j demo_env (wire @ []) hm = Inl Null_Dereference"
    by blast
qed

theorem mac_all_crashes_witness:
  "\<forall>j. send_msg_get_mac (demo_env\<lparr>ssl_read := demo_peer (\<lambda>req. process_msg_mac demo_wifi j demo_env (req @ []) demo_mac)\<rparr>)
     demo_name 22222 5 None demo_mac demo_mac = Inl Null_Dereference"
proof
  fix j
  let ?e = "demo_env\<lparr>ssl_read := demo_peer (\<lambda>req. process_msg_mac demo_wifi j demo_env (req @ []) demo_mac)\<rparr>"
  have m: "mallocs ?e = demo_alloc" "mallocs demo_env = demo_alloc" "reaches ?e demo_name 22222"
    by (simp_all add: reaches_def demo_env_def)
  show "send_msg_get_mac ?e demo_name 22222 5 None demo_mac demo_mac = Inl Null_Dereference"
    by (rule mac_all_crashes [OF _ _ m(3) serves_demo_peer, of demo_addrs])
      (use m demo_short allocates_demo_alloc in \<open>simp_all add: copyable_demo_alloc demo_wifi_def demo_netdevice_def\<close>)
qed

end
