(* ===== verification/Msg_Statistics.thy ===== *)
theory Msg_Statistics
  imports Relay
begin

section \<open>The traffic of an interface in one message (\<open>messaging/msg_statistics.c\<close>)\<close>

text \<open>
  Eight counters of an interface with the time at which they were read, of an access point or of a station.  The time is
  text, from \<open>time_stamp\<close>, and is the parameter \<open>stamp\<close>.  When an access point passes on the answer of a station, it
  takes over the pointer to the text and then releases the answer with its strings; the strings of the two structures
  are therefore modelled with their addresses.
\<close>

record msg_radio_linkstatitics = sta_query +
  ls_rx_packets :: c_long
  ls_rx_bytes :: c_long
  ls_rx_dropped :: c_long
  ls_rx_errors :: c_long
  ls_tx_packets :: c_long
  ls_tx_bytes :: c_long
  ls_tx_dropped :: c_long
  ls_tx_errors :: c_long
  ls_time_stamp :: cstr

definition message_size_radio_linkstatitics :: "msg_radio_linkstatitics \<Rightarrow> fault + c_int" where
  "message_size_radio_linkstatitics h = sum_sizes
     [strlen_ethanol (p_version h), sizeof 4, sizeof 4, sizeof 4,
      strlen_ethanol (intf_name h), strlen_ethanol (sta_ip h), sizeof 4,
      sizeof 8, sizeof 8, sizeof 8, sizeof 8, sizeof 8, sizeof 8, sizeof 8, sizeof 8,
      strlen_ethanol (ls_time_stamp h)]"

definition encode_msg_radio_linkstatitics ::
  "allocator \<Rightarrow> msg_radio_linkstatitics \<Rightarrow> fault + msg_radio_linkstatitics \<times> u8 list" where
  "encode_msg_radio_linkstatitics mal = encode_frame mal message_size_radio_linkstatitics (\<lambda>h.
     [encode_header (m_type h) (m_id h) (m_size h),
      encode_char (intf_name h),
      encode_char (sta_ip h),
      encode_int (sta_port h),
      encode_2long (ls_rx_packets h),
      encode_2long (ls_rx_bytes h),
      encode_2long (ls_rx_dropped h),
      encode_2long (ls_rx_errors h),
      encode_2long (ls_tx_packets h),
      encode_2long (ls_tx_bytes h),
      encode_2long (ls_tx_dropped h),
      encode_2long (ls_tx_errors h),
      encode_char (ls_time_stamp h)])"

definition decode_msg_radio_linkstatitics ::
  "u8 list \<Rightarrow> msg_radio_linkstatitics \<Rightarrow> fault + msg_radio_linkstatitics" where
  "decode_msg_radio_linkstatitics = decode_frame
     [decode_header,
      into decode_char intf_name_update,
      into decode_char sta_ip_update,
      into decode_int sta_port_update,
      into decode_2long ls_rx_packets_update,
      into decode_2long ls_rx_bytes_update,
      into decode_2long ls_rx_dropped_update,
      into decode_2long ls_rx_errors_update,
      into decode_2long ls_tx_packets_update,
      into decode_2long ls_tx_bytes_update,
      into decode_2long ls_tx_dropped_update,
      into decode_2long ls_tx_errors_update,
      into decode_char ls_time_stamp_update]"

text \<open>The counters of the request are not initialised.\<close>

definition send_msg_get_statistics ::
  "env \<Rightarrow> cstr \<Rightarrow> c_int \<Rightarrow> c_int \<Rightarrow> cstr \<Rightarrow> cstr \<Rightarrow> c_int \<Rightarrow> msg_radio_linkstatitics \<Rightarrow> msg_radio_linkstatitics
   \<Rightarrow> fault + effect list \<times> c_int \<times> msg_radio_linkstatitics option" where
  "send_msg_get_statistics e hostname portnum idc intf staip staport hs hm =
     (if intf = None then Inr ([], idc, None)
      else send_sync e hostname portnum idc
       (\<lambda>i. run_prog
         [assign m_type_update MSG_GET_STATISTICS,
          assign m_id_update i,
          copy_to e p_version_update ETHANOL_VERSION,
          copy_to e intf_name_update intf,
          copy_to e sta_ip_update staip,
          assign sta_port_update staport,
          assign ls_time_stamp_update None,
          set_size message_size_radio_linkstatitics] hs)
       (encode_msg_radio_linkstatitics (mallocs e))
       (\<lambda>t. t = MSG_GET_STATISTICS)
       (\<lambda>buf. decode_msg_radio_linkstatitics buf hm))"

definition of_netlink :: "netlink_stats \<Rightarrow> msg_radio_linkstatitics \<Rightarrow> msg_radio_linkstatitics" where
  "of_netlink s h = h\<lparr>ls_rx_packets := nl_rx_packets s, ls_rx_bytes := nl_rx_bytes s, ls_rx_dropped := nl_rx_dropped s, ls_rx_errors := nl_rx_errors s,
     ls_tx_packets := nl_tx_packets s, ls_tx_bytes := nl_tx_bytes s, ls_tx_dropped := nl_tx_dropped s, ls_tx_errors := nl_tx_errors s\<rparr>"

definition no_counters :: "msg_radio_linkstatitics \<Rightarrow> msg_radio_linkstatitics" where
  "no_counters h = h\<lparr>ls_rx_packets := 0, ls_rx_bytes := 0, ls_rx_dropped := 0, ls_rx_errors := 0,
     ls_tx_packets := 0, ls_tx_bytes := 0, ls_tx_dropped := 0, ls_tx_errors := 0\<rparr>"

definition of_sysfs :: "net_statistics \<Rightarrow> msg_radio_linkstatitics \<Rightarrow> msg_radio_linkstatitics" where
  "of_sysfs s h = h\<lparr>ls_rx_packets := rx_packets s, ls_rx_bytes := rx_bytes s, ls_rx_dropped := rx_dropped s, ls_rx_errors := rx_errors s,
     ls_tx_packets := tx_packets s, ls_tx_bytes := tx_bytes s, ls_tx_dropped := tx_dropped s, ls_tx_errors := tx_errors s\<rparr>"

definition of_answer :: "msg_radio_linkstatitics \<Rightarrow> msg_radio_linkstatitics \<Rightarrow> msg_radio_linkstatitics" where
  "of_answer a h = h\<lparr>ls_rx_packets := ls_rx_packets a, ls_rx_bytes := ls_rx_bytes a, ls_rx_dropped := ls_rx_dropped a, ls_rx_errors := ls_rx_errors a,
     ls_tx_packets := ls_tx_packets a, ls_tx_bytes := ls_tx_bytes a, ls_tx_dropped := ls_tx_dropped a, ls_tx_errors := ls_tx_errors a\<rparr>"

definition own_statistics ::
  "env \<Rightarrow> net_statistics \<Rightarrow> msg_radio_linkstatitics \<Rightarrow> fault + msg_radio_linkstatitics" where
  "own_statistics e r0 h =
     (if process_station e then
        Inr (case interface_stats e (intf_name h) of Some s \<Rightarrow> of_netlink s h | None \<Rightarrow> no_counters h)
      else and_then (get_statistics e (intf_name h) r0) (\<lambda>s. Inr (of_sysfs s h)))"


subsubsection \<open>The strings of a structure\<close>

text \<open>
  The blocks that \<open>malloc\<close> has handed out, by address, \<open>None\<close> when they are released; a pointer is \<open>None\<close> for \<open>NULL\<close>.
\<close>

type_synonym heap = "u8 list option list"
type_synonym ptr = "nat option"

definition new_block :: "cstr \<Rightarrow> heap \<Rightarrow> ptr \<times> heap" where
  "new_block s H = (case s of None \<Rightarrow> (None, H) | Some b \<Rightarrow> (Some (length H), H @ [Some b]))"

definition load :: "heap \<Rightarrow> ptr \<Rightarrow> fault + cstr" where
  "load H p = (case p of None \<Rightarrow> Inr None
     | Some i \<Rightarrow> if length H \<le> i then Inl Read_Out_Of_Bounds
         else (case H ! i of None \<Rightarrow> Inl Use_After_Free | Some b \<Rightarrow> Inr (Some b)))"

definition free_block :: "ptr \<Rightarrow> heap step" where
  "free_block p H = (case p of None \<Rightarrow> Inr H
     | Some i \<Rightarrow> if i < length H \<and> H ! i \<noteq> None then Inr (H[i := None]) else Inl Invalid_Free)"

record linkstat_ptrs =
  lp_version :: ptr
  lp_intf :: ptr
  lp_sta_ip :: ptr
  lp_time :: ptr

text \<open>The strings of a decoded message are new blocks.\<close>

definition store_strings :: "msg_radio_linkstatitics \<Rightarrow> heap \<Rightarrow> linkstat_ptrs \<times> heap" where
  "store_strings h H = (let (v, H) = new_block (p_version h) H; (i, H) = new_block (intf_name h) H;
     (s, H) = new_block (sta_ip h) H; (t, H) = new_block (ls_time_stamp h) H
     in (\<lparr>lp_version = v, lp_intf = i, lp_sta_ip = s, lp_time = t\<rparr>, H))"

text \<open>The message that the encoder sees through the pointers.\<close>

definition load_strings :: "heap \<Rightarrow> linkstat_ptrs \<Rightarrow> msg_radio_linkstatitics \<Rightarrow> fault + msg_radio_linkstatitics" where
  "load_strings H p h =
     and_then (load H (lp_version p)) (\<lambda>v. and_then (load H (lp_intf p)) (\<lambda>i.
     and_then (load H (lp_sta_ip p)) (\<lambda>s. and_then (load H (lp_time p)) (\<lambda>t.
       Inr (h\<lparr>p_version := v, intf_name := i, sta_ip := s, ls_time_stamp := t\<rparr>)))))"

definition free_msg_radio_linkstatitics :: "linkstat_ptrs \<Rightarrow> heap step" where
  "free_msg_radio_linkstatitics m = run_prog
     [free_block (lp_version m), free_block (lp_sta_ip m), free_block (lp_intf m), free_block (lp_time m)]"


subsubsection \<open>The handler\<close>

text \<open>\<open>h->time_stamp = h1->time_stamp\<close> copies a pointer, and \<open>h1\<close> is released with its strings.\<close>

definition process_msg_statistics ::
  "cstr \<Rightarrow> env \<Rightarrow> u8 list \<Rightarrow> msg_radio_linkstatitics \<Rightarrow> msg_radio_linkstatitics \<Rightarrow> msg_radio_linkstatitics \<Rightarrow> net_statistics
   \<Rightarrow> fault + effect list \<times> u8 list option" where
  "process_msg_statistics stamp e input hm hs hm' r0 =
     and_then (decode_msg_radio_linkstatitics input hm) (\<lambda>h. let (p, H) = store_strings h [] in
     and_then
       (if \<not> process_station e \<and> sta_ip h \<noteq> None then
          and_then (send_msg_get_statistics e (sta_ip h) (sta_port h) (m_id h) (intf_name h) None 0 hs hm')
            (\<lambda>(ev, _, h1). case h1 of
               None \<Rightarrow> Inr (ev, h, p, H)
             | Some a \<Rightarrow> let (q, H) = store_strings a H in
                 and_then (free_msg_radio_linkstatitics q H) (\<lambda>H.
                   Inr (ev, of_answer a h, p\<lparr>lp_time := lp_time q\<rparr>, H)))
        else and_then (own_statistics e r0 h) (\<lambda>h. let (t, H) = new_block stamp H in Inr ([], h, p\<lparr>lp_time := t\<rparr>, H)))
       (\<lambda>(ev, h, p, H).
          and_then (load_strings H p h) (\<lambda>h.
          and_then (encode_msg_radio_linkstatitics (mallocs e) h) (\<lambda>(_, output).
          and_then (free_msg_radio_linkstatitics p H) (\<lambda>_. Inr (ev, Some output))))))"


subsection \<open>The codec\<close>

definition bytes_statistics :: "msg_radio_linkstatitics \<Rightarrow> nat" where
  "bytes_statistics h = slen (p_version h) + slen (intf_name h) + slen (sta_ip h) + slen (ls_time_stamp h) + 100"

definition ok_statistics :: "msg_radio_linkstatitics \<Rightarrow> bool" where
  "ok_statistics h \<longleftrightarrow> ok_header h \<and> ok_str (intf_name h) \<and> ok_str (sta_ip h) \<and> ok_str (ls_time_stamp h) \<and> bytes_statistics h < 2 ^ 31"

definition norm_statistics :: "msg_radio_linkstatitics \<Rightarrow> msg_radio_linkstatitics \<Rightarrow> msg_radio_linkstatitics" where
  "norm_statistics h0 h = (norm_header (bytes_statistics h) h)\<lparr>intf_name := canon (intf_name h), sta_ip := canon (sta_ip h),
     ls_time_stamp := canon (ls_time_stamp h)\<rparr>"

interpretation statistics_m: msg_codec encode_msg_radio_linkstatitics decode_msg_radio_linkstatitics ok_statistics norm_statistics
  bytes_statistics m_type
  unfolding encode_msg_radio_linkstatitics_def [abs_def] decode_msg_radio_linkstatitics_def
  by (rule frame_codecI [where bss = "\<lambda>m. [ser_str (intf_name m), ser_str (sta_ip m), le_bytes 4 (sta_port m),
          le_bytes 8 (ls_rx_packets m), le_bytes 8 (ls_rx_bytes m), le_bytes 8 (ls_rx_dropped m), le_bytes 8 (ls_rx_errors m),
          le_bytes 8 (ls_tx_packets m), le_bytes 8 (ls_tx_bytes m), le_bytes 8 (ls_tx_dropped m), le_bytes 8 (ls_tx_errors m), ser_str (ls_time_stamp m)]"])
    (simp_all add: codec ok_statistics_def ok_header_def bytes_statistics_def norm_statistics_def
      message_size_radio_linkstatitics_def norm_header_def ac_simps encode_char_put length_ser_str)



subsection \<open>Answers\<close>

definition counters :: "msg_radio_linkstatitics \<Rightarrow> c_long list" where
  "counters h = [ls_rx_packets h, ls_rx_bytes h, ls_rx_dropped h, ls_rx_errors h, ls_tx_packets h, ls_tx_bytes h, ls_tx_dropped h, ls_tx_errors h]"

lemma own_fields:
  assumes "own_statistics e r0 h = Inr m"
  shows "m_type m = m_type h" "m_id m = m_id h" "p_version m = p_version h" "intf_name m = intf_name h" "sta_ip m = sta_ip h"
  using assms by (auto simp: own_statistics_def of_netlink_def no_counters_def of_sysfs_def and_then_eq_Inr split: if_splits option.splits)

lemma norm_statistics_simps [simp]:
  "m_type (norm_statistics h0 h) = m_type h" "m_id (norm_statistics h0 h) = m_id h" "intf_name (norm_statistics h0 h) = canon (intf_name h)"
  "sta_ip (norm_statistics h0 h) = canon (sta_ip h)" "sta_port (norm_statistics h0 h) = sta_port h"
  "ls_time_stamp (norm_statistics h0 h) = canon (ls_time_stamp h)" "counters (norm_statistics h0 h) = counters h"
  by (simp_all add: norm_statistics_def norm_header_def counters_def)

text \<open>The blocks of a message, and what is left of them when it is released.\<close>

lemmas block_defs = new_block_def load_def free_block_def Let_def nth_append list_update_append

lemma own_blocks:
  assumes "store_strings h [] = (p, H)" "new_block stamp H = (t, H')"
  shows "load_strings H' (p\<lparr>lp_time := t\<rparr>) m = Inr (m\<lparr>p_version := p_version h, intf_name := intf_name h, sta_ip := sta_ip h, ls_time_stamp := stamp\<rparr>)"
    "\<exists>H''. free_msg_radio_linkstatitics (p\<lparr>lp_time := t\<rparr>) H' = Inr H''"
  using assms
  by (cases "p_version h"; cases "intf_name h"; cases "sta_ip h"; cases "ls_time_stamp h"; cases stamp;
      auto simp: store_strings_def load_strings_def free_msg_radio_linkstatitics_def block_defs)+

lemma released_blocks:
  assumes "store_strings h [] = (p, H)" "store_strings a H = (q, H')" "ls_time_stamp a = Some b"
  shows "\<exists>H''. free_msg_radio_linkstatitics q H' = Inr H'' \<and> load_strings H'' (p\<lparr>lp_time := lp_time q\<rparr>) m = Inl Use_After_Free"
  using assms
  by (cases "p_version h"; cases "intf_name h"; cases "sta_ip h"; cases "ls_time_stamp h";
      cases "p_version a"; cases "intf_name a"; cases "sta_ip a";
      auto simp: store_strings_def load_strings_def free_msg_radio_linkstatitics_def block_defs)

text \<open>A machine that answers itself.\<close>

lemma self_answer:
  assumes "ok_statistics q" "allocates mal" "encode_msg_radio_linkstatitics mal q = Inr (q', wire)"
    and "allocates (mallocs e)" "process_station e \<or> slen (sta_ip q) = 0" "own_statistics e r0 (norm_statistics hm q) = Inr m"
    and "ok_str stamp" "slen (intf_name q) + slen (sta_ip q) + slen stamp < 2 ^ 31 - 200"
  shows "\<exists>out. process_msg_statistics stamp e (wire @ r) hm hs hm' r0 = Inr ([], Some out) \<and>
    (\<forall>r. return_message_type (out @ r) = Inr (m_type q)) \<and>
    (\<forall>r h0. decode_msg_radio_linkstatitics (out @ r) h0 = Inr (norm_statistics h0 (m\<lparr>ls_time_stamp := stamp\<rparr>)))"
proof -
  let ?n = "norm_statistics hm q" and ?m = "m\<lparr>ls_time_stamp := stamp\<rparr>"
  note f = own_fields [OF assms(6)]
  have "ok_header ?m" "slen (p_version ?m) = 5"
    using assms(1) by (simp_all add: ok_statistics_def ok_header_def f norm_statistics_def norm_header_def)
  then have m: "ok_statistics ?m"
    using assms(1,7,8) by (auto simp: ok_statistics_def bytes_statistics_def f dest: ok_strD)
  obtain m' out where out: "encode_msg_radio_linkstatitics (mallocs e) ?m = Inr (m', out)"
    using statistics_m.enc_no_fault [OF m assms(4)] by blast
  obtain p H t H' where H: "store_strings ?n [] = (p, H)" "new_block stamp H = (t, H')"
    by (metis surj_pair)
  obtain H'' where H'': "free_msg_radio_linkstatitics (p\<lparr>lp_time := t\<rparr>) H' = Inr H''"
    using own_blocks(2) [OF H] by blast
  have l: "load_strings H' (p\<lparr>lp_time := t\<rparr>) m = Inr ?m"
    unfolding own_blocks(1) [OF H] using f by simp
  have "\<not> (\<not> process_station e \<and> sta_ip ?n \<noteq> None)"
    using assms(5) by (simp add: canon_eq_None)
  then have "process_msg_statistics stamp e (wire @ r) hm hs hm' r0 = Inr ([], Some out)"
    unfolding process_msg_statistics_def
    by (simp only: statistics_m.roundtrip [OF assms(1-3), of r hm] and_then_simps Let_def H prod.case if_False l assms(6) out H'')
  then show ?thesis
    using statistics_m.wire_message_type [OF m assms(4) out] statistics_m.roundtrip [OF m assms(4) out] f(1) by (intro exI [of _ out]) simp
qed

text \<open>
  An access point that is asked for its own traffic answers with the eight counters of the interface and the time, under
  the id of the request.
\<close>

theorem statistics_of_ap:
  assumes "ok_statistics q" "allocates mal" "encode_msg_radio_linkstatitics mal q = Inr (q', wire)"
    and "allocates (mallocs e)" "\<not> process_station e" "slen (sta_ip q) = 0" "get_statistics e (canon (intf_name q)) r0 = Inr s"
    and "ok_str stamp" "slen (intf_name q) + slen stamp < 2 ^ 31 - 200"
  shows "\<exists>out. process_msg_statistics stamp e (wire @ r) hm hs hm' r0 = Inr ([], Some out) \<and>
    (\<forall>r h0. \<exists>a. decode_msg_radio_linkstatitics (out @ r) h0 = Inr a \<and> m_id a = m_id q \<and> intf_name a = canon (intf_name q) \<and>
       counters a = [rx_packets s, rx_bytes s, rx_dropped s, rx_errors s, tx_packets s, tx_bytes s, tx_dropped s, tx_errors s] \<and> ls_time_stamp a = canon stamp)"
proof -
  let ?m = "(of_sysfs s (norm_statistics hm q))\<lparr>ls_time_stamp := stamp\<rparr>"
  have m: "own_statistics e r0 (norm_statistics hm q) = Inr (of_sysfs s (norm_statistics hm q))"
    using assms(5,7) by (simp add: own_statistics_def)
  have l: "slen (intf_name q) + slen (sta_ip q) + slen stamp < 2 ^ 31 - 200"
    using assms(6,9) by simp
  obtain out where "process_msg_statistics stamp e (wire @ r) hm hs hm' r0 = Inr ([], Some out)"
      "\<And>r. return_message_type (out @ r) = Inr (m_type q)"
      "\<And>r h0. decode_msg_radio_linkstatitics (out @ r) h0 = Inr (norm_statistics h0 ?m)"
    using self_answer [where r = r and hs = hs and hm' = hm', OF assms(1-4) disjI2 [OF assms(6)] m assms(8) l] by auto
  moreover have "counters ?m = [rx_packets s, rx_bytes s, rx_dropped s, rx_errors s, tx_packets s, tx_bytes s, tx_dropped s, tx_errors s]" "m_id ?m = m_id q" "intf_name ?m = canon (intf_name q)"
    by (simp_all add: counters_def of_sysfs_def)
  ultimately show ?thesis
    by (intro exI [of _ out]) simp
qed

text \<open>
  C38 An access point that is asked for the traffic of a station asks the station, and then uses the text of the answer after
  it has released it: whenever the station answers with a time, as it always does, the access point runs into undefined
  behaviour instead of answering.
\<close>

theorem statistics_of_station_freed:
  assumes q: "ok_statistics q" "allocates mal" "encode_msg_radio_linkstatitics mal q = Inr (q', wire)"
    and e: "allocates (mallocs e)" "copyable (mallocs e) ETHANOL_VERSION" "copyable (mallocs e) (canon (intf_name q))" "\<not> process_station e"
    and sta: "0 < slen (sta_ip q)" "0 < slen (intf_name q)" "slen (intf_name q) + slen stamp2 < 2 ^ 31 - 200"
      "reaches e (canon (sta_ip q)) (sta_port q)"
    and station: "allocates (mallocs e2)" "process_station e2" "ok_str stamp2" "0 < slen stamp2"
      "serves e (canon (sta_ip q)) (sta_port q) MSG_GET_STATISTICS (\<lambda>req. process_msg_statistics stamp2 e2 (req @ j) hm2 hs2 hm2' r2)"
  shows "process_msg_statistics stamp e (wire @ r) hm hs hm' r0 = Inl Use_After_Free"
proof -
  let ?ip = "canon (sta_ip q)" and ?in = "canon (intf_name q)"
  have nn: "?ip \<noteq> None" "?in \<noteq> None"
    using sta by (simp_all add: canon_eq_None)
  let ?q = "sta_request (mallocs e) MSG_GET_STATISTICS (m_id q) ?in None 0 (hs\<lparr>ls_time_stamp := None\<rparr>) (slen (intf_name q) + 105)"
  have s: "send_msg_get_statistics e ?ip (sta_port q) (m_id q) ?in None 0 hs hm'
      = send_sync e ?ip (sta_port q) (m_id q) (\<lambda>_. Inr ?q) (encode_msg_radio_linkstatitics (mallocs e)) (\<lambda>t. t = MSG_GET_STATISTICS)
          (\<lambda>b. decode_msg_radio_linkstatitics b hm')"
    unfolding send_msg_get_statistics_def if_not_P [OF nn(2)]
    by (rule send_sync_built) (use e in \<open>simp add: sta_request_def set_size_ok message_size_radio_linkstatitics_def ac_simps\<close>)
  have okq: "ok_statistics ?q" "slen (sta_ip ?q) = 0" "canon (intf_name ?q) = ?in" "slen (intf_name ?q) = slen (intf_name q)" "m_type ?q = MSG_GET_STATISTICS"
    using e(2,3) sta(3) by (simp_all add: sta_request_def ok_statistics_def ok_header_def bytes_statistics_def)
  obtain q1 req where w: "encode_msg_radio_linkstatitics (mallocs e) ?q = Inr (q1, req)"
    using statistics_m.enc_no_fault [OF okq(1) e(1)] by blast
  obtain m where m: "own_statistics e2 r2 (norm_statistics hm2 ?q) = Inr m"
    using station(2) by (simp add: own_statistics_def)
  have l: "slen (intf_name ?q) + slen (sta_ip ?q) + slen stamp2 < 2 ^ 31 - 200"
    using okq(2,4) sta(3) by simp
  obtain out where out: "process_msg_statistics stamp2 e2 (req @ j) hm2 hs2 hm2' r2 = Inr ([], Some out)"
      "\<And>r. return_message_type (out @ r) = Inr (m_type ?q)" "\<And>r h0. decode_msg_radio_linkstatitics (out @ r) h0 = Inr (norm_statistics h0 (m\<lparr>ls_time_stamp := stamp2\<rparr>))"
    using self_answer [where r = j and hs = hs2 and hm' = hm2', OF okq(1) e(1) w station(1) disjI1 [OF station(2)] m station(3) l] by auto
  obtain r' where r': "ssl_read e ?ip (sta_port q) req = out @ r'"
    using servesD [OF station(5) _ out(1)] statistics_m.wire_type [OF okq(1) e(1) w] okq(5) by auto
  let ?a = "norm_statistics hm' (m\<lparr>ls_time_stamp := stamp2\<rparr>)" and ?n = "norm_statistics hm q"
  have g: "send_msg_get_statistics e ?ip (sta_port q) (m_id q) ?in None 0 hs hm'
      = Inr (session e ?ip (sta_port q) req, m_id q + 1, Some ?a)"
    using out(2,3) close_open_connection [OF sta(4), of req] okq(5) by (simp add: s send_sync_def sta(4) w r' Let_def)
  obtain b where b: "ls_time_stamp ?a = Some b"
    using station(4) canon_eq_None [of stamp2] by auto
  obtain p H q2 H' where H: "store_strings ?n [] = (p, H)" "store_strings ?a H = (q2, H')"
    by (metis surj_pair)
  obtain H'' where H'': "free_msg_radio_linkstatitics q2 H' = Inr H''"
      "load_strings H'' (p\<lparr>lp_time := lp_time q2\<rparr>) (of_answer ?a ?n) = Inl Use_After_Free"
    using released_blocks [OF H b] by blast
  have c: "(\<not> process_station e \<and> canon (sta_ip q) \<noteq> None) = True"
    using nn(1) e(4) by (simp del: not_None_eq)
  show ?thesis
    unfolding process_msg_statistics_def
    by (simp only: statistics_m.roundtrip [OF q, of r hm] and_then_simps Let_def H prod.case c if_True norm_statistics_simps g option.case H'')
qed


subsection \<open>Witnesses\<close>

definition demo_traffic :: msg_radio_linkstatitics where
  "demo_traffic = \<lparr>m_type = MSG_GET_STATISTICS, m_id = 4, p_version = ETHANOL_VERSION, m_size = 0, intf_name = demo_name, sta_ip = None,
     sta_port = 0, ls_rx_packets = 0, ls_rx_bytes = 0, ls_rx_dropped = 0, ls_rx_errors = 0, ls_tx_packets = 0, ls_tx_bytes = 0,
     ls_tx_dropped = 0, ls_tx_errors = 0, ls_time_stamp = None\<rparr>"

definition demo_zero_stats :: net_statistics where
  "demo_zero_stats = \<lparr>collisions = 0, multicast = 0, rx_bytes = 0, rx_compressed = 0, rx_crc_errors = 0, rx_dropped = 0, rx_errors = 0,
     rx_fifo_errors = 0, rx_frame_errors = 0, rx_length_errors = 0, rx_missed_errors = 0, rx_over_errors = 0, rx_packets = 0,
     tx_aborted_errors = 0, tx_bytes = 0, tx_carrier_errors = 0, tx_compressed = 0, tx_dropped = 0, tx_errors = 0, tx_fifo_errors = 0,
     tx_heartbeat_errors = 0, tx_packets = 0, tx_window_errors = 0\<rparr>"

lemma ok_demo_traffic: "ok_statistics demo_traffic" "ok_statistics (demo_traffic\<lparr>sta_ip := demo_name\<rparr>)"
  by (simp_all add: demo_traffic_def ok_statistics_def ok_header_def ok_str_def bytes_statistics_def)

theorem statistics_of_ap_witness:
  "\<exists>q' wire out a. encode_msg_radio_linkstatitics demo_alloc demo_traffic = Inr (q', wire) \<and>
     process_msg_statistics demo_name demo_env (wire @ []) demo_traffic demo_traffic demo_traffic demo_zero_stats = Inr ([], Some out) \<and>
     decode_msg_radio_linkstatitics (out @ []) demo_traffic = Inr a \<and> counters a = [42, 42, 42, 42, 42, 42, 42, 42] \<and> ls_time_stamp a = demo_name"
proof -
  obtain q' wire where w: "encode_msg_radio_linkstatitics demo_alloc demo_traffic = Inr (q', wire)"
    using statistics_m.enc_no_fault [OF ok_demo_traffic(1) allocates_demo_alloc] by blast
  have i: "intf_name demo_traffic = demo_name" "slen (sta_ip demo_traffic) = 0" "\<not> process_station demo_env" "ok_str demo_name"
    by (simp_all add: demo_traffic_def demo_env_def ok_str_def)
  obtain s where s: "get_statistics demo_env demo_name demo_zero_stats = Inr s" "[rx_packets s, rx_bytes s, rx_dropped s, rx_errors s, tx_packets s,
      tx_bytes s, tx_dropped s, tx_errors s] = [42, 42, 42, 42, 42, 42, 42, 42]"
    using get_statistics_ok [of "[0x77, 0]" demo_env demo_zero_stats] demo_name_simps(2,4)
    by (auto simp: demo_name_def stat_value_def demo_env_def)
  from statistics_of_ap [OF ok_demo_traffic(1) allocates_demo_alloc w allocates_demo_env i(3,2) _ i(4), of demo_zero_stats s "[]" demo_traffic demo_traffic demo_traffic]
  have "\<exists>out. process_msg_statistics demo_name demo_env (wire @ []) demo_traffic demo_traffic demo_traffic demo_zero_stats = Inr ([], Some out) \<and>
    (\<forall>r h0. \<exists>a. decode_msg_radio_linkstatitics (out @ r) h0 = Inr a \<and> m_id a = m_id demo_traffic \<and> intf_name a = canon (intf_name demo_traffic) \<and>
       counters a = [rx_packets s, rx_bytes s, rx_dropped s, rx_errors s, tx_packets s, tx_bytes s, tx_dropped s, tx_errors s] \<and> ls_time_stamp a = canon demo_name)"
    using s(1) by (simp add: i(1))
  then show ?thesis
    using w unfolding s(2) by (metis demo_name_simps(3))
qed

theorem statistics_of_station_freed_witness:
  "\<exists>q' wire e. encode_msg_radio_linkstatitics demo_alloc (demo_traffic\<lparr>sta_ip := demo_name\<rparr>) = Inr (q', wire) \<and>
     process_msg_statistics demo_name e (wire @ []) demo_traffic demo_traffic demo_traffic demo_zero_stats = Inl Use_After_Free"
proof -
  let ?q = "demo_traffic\<lparr>sta_ip := demo_name\<rparr>"
  define e2 where "e2 = demo_env\<lparr>process_station := True\<rparr>"
  define e where "e = demo_env\<lparr>ssl_read := demo_peer (\<lambda>req. process_msg_statistics demo_name e2 (req @ []) demo_traffic demo_traffic demo_traffic demo_zero_stats)\<rparr>"
  obtain q' wire where w: "encode_msg_radio_linkstatitics demo_alloc ?q = Inr (q', wire)"
    using statistics_m.enc_no_fault [OF ok_demo_traffic(2) allocates_demo_alloc] by blast
  have m: "mallocs e = demo_alloc" "mallocs e2 = demo_alloc" "\<not> process_station e" "process_station e2" "reaches e host port" for host port
    by (simp_all add: e_def e2_def demo_env_def reaches_def)
  have s: "serves e host port t (\<lambda>req. process_msg_statistics demo_name e2 (req @ []) demo_traffic demo_traffic demo_traffic demo_zero_stats)" for host port t
    unfolding e_def by (rule serves_demo_peer)
  have i: "intf_name ?q = demo_name" "sta_ip ?q = demo_name" "ok_str demo_name"
    by (simp_all add: demo_traffic_def ok_str_def)
  have "process_msg_statistics demo_name e (wire @ []) demo_traffic demo_traffic demo_traffic demo_zero_stats = Inl Use_After_Free"
    by (rule statistics_of_station_freed [OF ok_demo_traffic(2) allocates_demo_alloc w _ _ _ m(3) _ _ _ m(5) _ m(4) i(3) _ s])
      (use m i allocates_demo_alloc in \<open>simp_all add: copyable_demo_alloc\<close>)
  with w show ?thesis
    by blast
qed

end
