(* ===== verification/Servlet.thy ===== *)
theory Servlet
  imports Msg_Control Msg_Stats Msg_Settings Msg_AP Msg_Net Msg_Mean Msg_Assoc Msg_Radio Msg_Channel Msg_Device Msg_Intf Handover Msg_Link Msg_Wlans Msg_Statistics
begin

section \<open>The server (\<open>messaging/ssl-server.c\<close>)\<close>

text \<open>
  \<open>servlet\<close> handles one connection: it reads one message into an array on its stack, decodes the
  header, checks the version, calls the handler of the message type and writes the reply, if there
  is one.

  \<open>buf\<close> is the whole memory of the array after \<open>SSL_read\<close>: the \<open>input_len\<close> bytes received, followed by
  what was on the stack.  The handlers of the modules that are not modelled are the parameter
  \<open>others\<close>.  \<open>agent\<close> is the state of the modelled modules that lives in global variables, and \<open>junk\<close>
  what the uninitialised structures of their handlers contain (indexed when a handler has several),
  with the time of the call, the device, the interfaces and the scans that the handlers of the radio use and, for the attempts of a
  handover, the environments before and after each of them.
\<close>

subsection \<open>The handlers of the message types\<close>

datatype (plugins only:) handler =
    H_hello | H_bye | H_ping | H_802_11e_enabled | H_ap_ctsprotection_enabled |
  H_ap_broadcastssid | H_ap_frameburstenabled | H_ap_guardinterval | H_ap_dtiminterval |
  H_ap_rtsthreshold | H_beacon_interval | H_bytesreceived | H_bytessent | H_packetsreceived |
  H_packetslost | H_packetssent | H_deauthenticate_user | H_disconnect_user | H_powersavemode |
  H_delay | H_failed | H_jitter | H_fastbsstransition_compatible | H_frequency |
  H_association_process | H_snr | H_mac | H_radio_wlans | H_channels | H_intf |
  H_radio_linkstatistics | H_currentchannel | H_wlan_info | H_beaconinfo | H_channelbandwitdh |
  H_txpower | H_snr_threshold | H_snr_interval | H_ap_in_range | H_ipv4_address |
  H_ipv6_address | H_retries | H_uptime | H_ap_routes | H_ap_ssid | H_memory | H_cpu |
  H_channelinfo | H_request_beacon | H_interferencemap | H_request_begin_association |
  H_scan_received | H_fragmentationthreshold | H_noiseinfo | H_vap_create | H_tx_bitrates |
  H_get_tx_bitrate | H_set_tx_bitrate | H_sta_link_information | H_supportedinterface |
  H_location | H_conf_ssid_radio | H_statistics | H_acs | H_sta_statistics |
  H_snr_threshold_reached | H_changed_ap | H_mean_sta_statistics |
  H_station_trigger_transition | H_tos_cleanall | H_tos_add | H_tos_replace | H_set_mtu |
  H_set_txqueuelen

text \<open>The \<open>case\<close> labels of the \<open>switch\<close>, in the order of the source.\<close>

definition servlet_cases :: "(c_int \<times> handler) list" where
  "servlet_cases = [
     (MSG_HELLO_TYPE, H_hello),
     (MSG_BYE_TYPE, H_bye),
     (MSG_PING, H_ping),
     (MSG_GET_802_11E_ENABLED, H_802_11e_enabled),
     (MSG_GET_AP_CTSPROTECTION_ENABLED, H_ap_ctsprotection_enabled),
     (MSG_SET_AP_CTSPROTECTION_ENABLED, H_ap_ctsprotection_enabled),
     (MSG_GET_AP_BROADCASTSSID, H_ap_broadcastssid),
     (MSG_SET_AP_BROADCASTSSID, H_ap_broadcastssid),
     (MSG_GET_AP_FRAMEBURSTENABLED, H_ap_frameburstenabled),
     (MSG_SET_AP_FRAMEBURSTENABLED, H_ap_frameburstenabled),
     (MSG_GET_AP_GUARDINTERVAL, H_ap_guardinterval),
     (MSG_SET_AP_GUARDINTERVAL, H_ap_guardinterval),
     (MSG_GET_AP_DTIMINTERVAL, H_ap_dtiminterval),
     (MSG_SET_AP_DTIMINTERVAL, H_ap_dtiminterval),
     (MSG_GET_AP_RTSTHRESHOLD, H_ap_rtsthreshold),
     (MSG_SET_AP_RTSTHRESHOLD, H_ap_rtsthreshold),
     (MSG_GET_BEACON_INTERVAL, H_beacon_interval),
     (MSG_SET_BEACON_INTERVAL, H_beacon_interval),
     (MSG_GET_BYTESRECEIVED, H_bytesreceived),
     (MSG_GET_BYTESSENT, H_bytessent),
     (MSG_GET_PACKETSRECEIVED, H_packetsreceived),
     (MSG_GET_PACKETSLOST, H_packetslost),
     (MSG_GET_PACKETSSENT, H_packetssent),
     (MSG_DEAUTHENTICATE_USER, H_deauthenticate_user),
     (MSG_DISCONNECT_USER, H_disconnect_user),
     (MSG_GET_POWERSAVEMODE, H_powersavemode),
     (MSG_SET_POWERSAVEMODE, H_powersavemode),
     (MSG_GET_DELAY, H_delay),
     (MSG_GET_FAILED, H_failed),
     (MSG_GET_JITTER, H_jitter),
     (MSG_GET_FASTBSSTRANSITION_COMPATIBLE, H_fastbsstransition_compatible),
     (MSG_GET_FREQUENCY, H_frequency),
     (MSG_SET_FREQUENCY, H_frequency),
     (MSG_ASSOCIATION, H_association_process),
     (MSG_DISASSOCIATION, H_association_process),
     (MSG_REASSOCIATION, H_association_process),
     (MSG_AUTHORIZATION, H_association_process),
     (MSG_USER_DISCONNECTING, H_association_process),
     (MSG_USER_CONNECTING, H_association_process),
     (MSG_GET_SNR, H_snr),
     (MSG_GET_MAC, H_mac),
     (MSG_GET_RADIO_WLANS, H_radio_wlans),
     (MSG_GET_VALIDCHANNELS, H_channels),
     (MSG_GET_ALL_INTF, H_intf),
     (MSG_GET_ONE_INTF, H_intf),
     (MSG_GET_RADIO_LINKSTATISTICS, H_radio_linkstatistics),
     (MSG_GET_CURRENTCHANNEL, H_currentchannel),
     (MSG_SET_CURRENTCHANNEL, H_currentchannel),
     (MSG_WLAN_INFO, H_wlan_info),
     (MSG_INFORM_BEACON, H_beaconinfo),
     (MSG_GET_CHANNELBANDWITDH, H_channelbandwitdh),
     (MSG_SET_CHANNELBANDWITDH, H_channelbandwitdh),
     (MSG_GET_TXPOWER, H_txpower),
     (MSG_SET_TXPOWER, H_txpower),
     (MSG_SET_SNR_THRESHOLD, H_snr_threshold),
     (MSG_SET_SNR_INTERVAL, H_snr_interval),
     (MSG_GET_AP_IN_RANGE_TYPE, H_ap_in_range),
     (MSG_GET_IPV4_ADDRESS, H_ipv4_address),
     (MSG_SET_IPV4_ADDRESS, H_ipv4_address),
     (MSG_GET_IPV6_ADDRESS, H_ipv6_address),
     (MSG_SET_IPV6_ADDRESS, H_ipv6_address),
     (MSG_GET_RETRIES, H_retries),
     (MSG_GET_UPTIME, H_uptime),
     (MSG_GET_ROUTES, H_ap_routes),
     (MSG_GET_AP_SSID, H_ap_ssid),
     (MSG_GET_MEMORY, H_memory),
     (MSG_GET_CPU, H_cpu),
     (MSG_GET_CHANNELINFO, H_channelinfo),
     (MSG_REQUEST_BEACON, H_request_beacon),
     (MSG_GET_INTERFERENCEMAP, H_interferencemap),
     (MSG_REQUEST_BEGIN_ASSOCIATION, H_request_begin_association),
     (MSG_SCAN, H_scan_received),
     (MSG_GET_FRAGMENTATIONTHRESHOLD, H_fragmentationthreshold),
     (MSG_GET_NOISEINFO, H_noiseinfo),
     (MSG_SET_FRAGMENTATIONTHRESHOLD, H_fragmentationthreshold),
     (MSG_VAP_CREATE, H_vap_create),
     (MSG_GET_TX_BITRATES, H_tx_bitrates),
     (MSG_GET_TX_BITRATE, H_get_tx_bitrate),
     (MSG_SET_TX_BITRATES, H_set_tx_bitrate),
     (MSG_GET_LINK_INFO, H_sta_link_information),
     (MSG_GET_SUPPORTEDINTERFACE, H_supportedinterface),
     (MSG_GET_LOCATION, H_location),
     (MSG_SET_CONF_SSID_RADIO, H_conf_ssid_radio),
     (MSG_GET_STATISTICS, H_statistics),
     (MSG_GET_ACS, H_acs),
     (MSG_GET_STA_STATISTICS, H_sta_statistics),
     (MSG_SET_SNR_THRESHOLD_REACHED, H_snr_threshold_reached),
     (MSG_CHANGED_AP, H_changed_ap),
     (MSG_MEAN_STA_STATISTICS_GET, H_mean_sta_statistics),
     (MSG_MEAN_STA_STATISTICS_SET_INTERFACE, H_mean_sta_statistics),
     (MSG_MEAN_STA_STATISTICS_REMOVE_INTERFACE, H_mean_sta_statistics),
     (MSG_MEAN_STA_STATISTICS_SET_ALPHA, H_mean_sta_statistics),
     (MSG_MEAN_STA_STATISTICS_SET_TIME, H_mean_sta_statistics),
     (MSG_TRIGGER_TRANSITION, H_station_trigger_transition),
     (MSG_TOS_CLEANALL, H_tos_cleanall),
     (MSG_TOS_ADD, H_tos_add),
     (MSG_TOS_REPLACE, H_tos_replace),
     (MSG_SET_MTU, H_set_mtu),
     (MSG_SET_TXQUEUELEN, H_set_txqueuelen)]"

definition servlet_case :: "c_int \<Rightarrow> handler option" where
  "servlet_case msg_type = map_of servlet_cases msg_type"


subsection \<open>State\<close>

record agent =
  wmm_table :: "bool table"
  snr_intervals :: "c_long table"
  snr_thresholds :: "c_long table"
  collecting :: "timer"
  max_tries :: "c_int"

record junk =
  j_hello :: "nat \<Rightarrow> msg_hello"
  j_bye :: "nat \<Rightarrow> msg_bye"
  j_ping :: "nat \<Rightarrow> msg_ping"
  j_pong :: "nat \<Rightarrow> msg_pong"
  j_80211e :: "nat \<Rightarrow> msg_802_11e_enabled"
  j_switch :: "nat \<Rightarrow> switch_msg"
  j_bcast :: "nat \<Rightarrow> msg_ap_broadcastssid"
  j_guard :: "nat \<Rightarrow> msg_ap_guardinterval"
  j_dtim :: "nat \<Rightarrow> msg_ap_dtiminterval"
  j_rts :: "nat \<Rightarrow> msg_ap_rtsthreshold"
  j_beacon :: "nat \<Rightarrow> msg_beacon_interval"
  j_bytesreceived :: "nat \<Rightarrow> msg_bytesreceived"
  j_bytessent :: "nat \<Rightarrow> msg_bytessent"
  j_packetsreceived :: "nat \<Rightarrow> msg_packetsreceived"
  j_packetssent :: "nat \<Rightarrow> msg_packetssent"
  j_packetslost :: "nat \<Rightarrow> msg_packetslost"
  j_frag :: "nat \<Rightarrow> msg_fragmentationthreshold"
  j_snr_interval :: "nat \<Rightarrow> msg_snr_interval"
  j_snr_threshold :: "nat \<Rightarrow> msg_snr_threshold"
  j_header :: "nat \<Rightarrow> msg_header"
  j_tos :: "nat \<Rightarrow> msg_tos"
  j_mtu :: "nat \<Rightarrow> msg_mtu"
  j_txqueuelen :: "nat \<Rightarrow> msg_txqueuelen"
  j_assoc :: "nat \<Rightarrow> msg_association_process"
  j_changed :: "nat \<Rightarrow> msg_changed_ap"
  j_begin :: "nat \<Rightarrow> msg_request_begin_association"
  j_req_beacon :: "nat \<Rightarrow> msg_req_beaconinfo"
  j_user :: "nat \<Rightarrow> user_msg"
  j_trigger :: "nat \<Rightarrow> msg_station_trigger_transition"
  j_bssid :: "nat \<Rightarrow> u8 list"
  j_mean :: "nat \<Rightarrow> mean_junk"
  j_ps :: "nat \<Rightarrow> msg_powersavemode"
  j_fast :: "nat \<Rightarrow> msg_fastbsstransition_compatible"
  j_snr :: "nat \<Rightarrow> msg_snr"
  j_txpower :: "nat \<Rightarrow> msg_txpower"
  j_memory :: "nat \<Rightarrow> msg_memory"
  j_cpu :: "nat \<Rightarrow> msg_cpu"
  j_channel :: "nat \<Rightarrow> msg_currentchannel"
  j_frequency :: "nat \<Rightarrow> msg_frequency"
  j_failed :: "nat \<Rightarrow> msg_failed"
  j_jitter :: "nat \<Rightarrow> msg_jitter"
  j_retries :: "nat \<Rightarrow> msg_retries"
  j_bandwitdh :: "nat \<Rightarrow> msg_channelbandwitdh"
  j_suppif :: "nat \<Rightarrow> msg_supportedinterface"
  j_uptime :: "nat \<Rightarrow> msg_uptime"
  j_delay :: "nat \<Rightarrow> msg_delay"
  j_intfs :: "nat \<Rightarrow> msg_intf"
  j_in_range :: "nat \<Rightarrow> msg_ap_in_range"
  j_reached :: "nat \<Rightarrow> msg_snr_threshold_reached"
  j_link :: "nat \<Rightarrow> msg_sta_link_information"
  j_wlans :: "nat \<Rightarrow> msg_radio_wlans"
  j_mac :: "nat \<Rightarrow> msg_mac"
  j_traffic :: "nat \<Rightarrow> msg_radio_linkstatitics"
  j_error :: msg_error
  j_stats :: net_statistics
  j_tries :: "nat \<Rightarrow> env \<times> env"
  j_now :: timeval
  j_device :: device
  j_col :: "u8 list"
  j_vals :: "c_long list"
  j_freq0 :: c_double
  j_netdevice :: netdevice
  j_if_fields :: "nat \<Rightarrow> interface_fields"
  j_interface :: interface
  j_scanner :: scanner
  j_got :: bool
  j_arrays :: "nat \<Rightarrow> nat \<Rightarrow> u8 list"
  j_stamp :: cstr


subsection \<open>Calling a handler\<close>

text \<open>A handler that leaves the modelled global variables alone.\<close>

definition stateless ::
  "agent \<Rightarrow> fault + effect list \<times> u8 list option \<Rightarrow> fault + agent \<times> effect list \<times> u8 list option" where
  "stateless st x = and_then x (\<lambda>(ev, reply). Inr (st, ev, reply))"

definition run_handler ::
  "env \<Rightarrow> (handler \<Rightarrow> u8 list \<Rightarrow> nat \<Rightarrow> fault + effect list \<times> u8 list option) \<Rightarrow> junk \<Rightarrow> cstr
   \<Rightarrow> u8 list \<Rightarrow> nat \<Rightarrow> handler \<Rightarrow> agent \<Rightarrow> fault + agent \<times> effect list \<times> u8 list option" where
  "run_handler e others j client_addr buf input_len k st =
    (if k = H_hello then
       stateless st (process_msg_hello e client_addr buf input_len (j_hello j 0))
     else if k = H_bye then
       stateless st (process_msg_bye e client_addr buf input_len (j_bye j 0))
     else if k = H_ping then
       stateless st (process_msg_ping e buf (j_ping j 0) (j_pong j 0))
     else if k = H_802_11e_enabled then
       stateless st (process_msg_802_11e_enabled e (wmm_table st) buf (j_80211e j 0) (j_80211e j 1) (j_80211e j 2))
     else if k = H_ap_ctsprotection_enabled then
       stateless st (process_msg_ap_ctsprotection_enabled e buf (j_switch j 0))
     else if k = H_ap_broadcastssid then
       stateless st (process_msg_ap_broadcastssid e buf (j_bcast j 0))
     else if k = H_ap_frameburstenabled then
       stateless st (process_msg_ap_frameburstenabled e buf (j_switch j 0))
     else if k = H_ap_guardinterval then
       stateless st (process_msg_ap_guardinterval e buf (j_guard j 0))
     else if k = H_ap_dtiminterval then
       stateless st (process_msg_ap_dtiminterval e buf (j_dtim j 0))
     else if k = H_ap_rtsthreshold then
       stateless st (process_msg_ap_rtsthreshold e buf (j_rts j 0))
     else if k = H_beacon_interval then
       stateless st (process_msg_beacon_interval e buf (j_beacon j 0))
     else if k = H_bytesreceived then
       stateless st (process_msg_bytesreceived e buf (j_bytesreceived j 0) (j_bytesreceived j 1) (j_bytesreceived j 2) (j_stats j))
     else if k = H_bytessent then
       stateless st (process_msg_bytessent e buf (j_bytessent j 0) (j_bytessent j 1) (j_bytessent j 2) (j_stats j))
     else if k = H_packetsreceived then
       stateless st (process_msg_packetsreceived e buf (j_packetsreceived j 0) (j_packetsreceived j 1) (j_packetsreceived j 2) (j_stats j))
     else if k = H_packetslost then
       stateless st (process_msg_packetslost e buf (j_packetslost j 0) (j_packetslost j 1) (j_packetslost j 2) (j_stats j))
     else if k = H_packetssent then
       stateless st (process_msg_packetssent e buf (j_packetssent j 0) (j_packetssent j 1) (j_packetssent j 2) (j_stats j))
     else if k = H_deauthenticate_user then
       stateless st (process_msg_deauthenticate_user e buf (j_user j 0))
     else if k = H_disconnect_user then
       stateless st (process_msg_disconnect_user e buf (j_user j 0))
     else if k = H_powersavemode then
       stateless st (process_msg_powersavemode (j_device j) e buf (j_ps j 0) (j_ps j 1) (j_ps j 2))
     else if k = H_delay then
       stateless st (process_msg_delay e buf (j_delay j 0))
     else if k = H_failed then
       stateless st (process_msg_failed e buf (j_failed j 0))
     else if k = H_jitter then
       stateless st (process_msg_jitter e buf (j_jitter j 0))
     else if k = H_fastbsstransition_compatible then
       stateless st (process_msg_fastbsstransition_compatible e buf (j_fast j 0) (j_fast j 1) (j_fast j 2))
     else if k = H_frequency then
       stateless st (process_msg_frequency (j_device j) e buf (j_frequency j 0) (j_frequency j 1) (j_frequency j 2))
     else if k = H_association_process then
       stateless st (process_msg_association_process e buf (j_assoc j 0))
     else if k = H_snr then
       stateless st (process_msg_snr (j_device j) e buf (j_snr j 0) (j_snr j 1) (j_snr j 2))
     else if k = H_mac then
       stateless st (process_msg_mac (j_netdevice j) (j_if_fields j) e buf (j_mac j 0))
     else if k = H_radio_wlans then
       stateless st (process_msg_radio_wlans (j_netdevice j, j_if_fields j) e buf (j_wlans j 0) (j_wlans j 1) (j_wlans j 2))
     else if k = H_intf then
       stateless st (process_msg_intf (j_netdevice j) (j_if_fields j) (j_interface j) e buf (j_intfs j 0) (j_intfs j 1) (j_intfs j 2))
     else if k = H_currentchannel then
       stateless st (process_msg_currentchannel (j_device j) e (j_freq0 j) buf (j_channel j 0) (j_channel j 1) (j_channel j 2))
     else if k = H_channelbandwitdh then
       stateless st (process_msg_channelbandwitdh e buf (j_bandwitdh j 0))
     else if k = H_txpower then
       stateless st (process_msg_txpower (j_device j) e buf (j_txpower j 0) (j_txpower j 1) (j_txpower j 2))
     else if k = H_snr_threshold then
       and_then (process_msg_snr_threshold e (snr_thresholds st) buf (j_snr_threshold j 0) (j_snr_threshold j 1))
       (\<lambda>(tbl, ev, reply). Inr (st\<lparr>snr_thresholds := tbl\<rparr>, ev, reply))
     else if k = H_snr_interval then
       and_then (process_msg_snr_interval e (snr_intervals st) buf (j_snr_interval j 0) (j_snr_interval j 1))
       (\<lambda>(tbl, ev, reply). Inr (st\<lparr>snr_intervals := tbl\<rparr>, ev, reply))
     else if k = H_ap_in_range then
       stateless st (process_msg_ap_in_range (j_scanner j) (j_netdevice j) (j_if_fields j) (j_got j) e buf
          (j_in_range j 0) (j_in_range j 1) (j_in_range j 2))
     else if k = H_retries then
       stateless st (process_msg_retries e buf (j_retries j 0))
     else if k = H_uptime then
       stateless st (process_msg_uptime (j_device j) e buf (j_uptime j 0))
     else if k = H_memory then
       stateless st (process_msg_memory (j_device j) (j_col j) (j_vals j) e buf (j_memory j 0) (j_memory j 1) (j_memory j 2))
     else if k = H_cpu then
       stateless st (process_msg_cpu (j_device j) e buf (j_cpu j 0) (j_cpu j 1) (j_cpu j 2))
     else if k = H_request_beacon then
       stateless st (process_msg_request_beacon e buf (j_req_beacon j 0))
     else if k = H_request_begin_association then
       stateless st (process_msg_request_begin_association e buf (j_begin j 0))
     else if k = H_fragmentationthreshold then
       stateless st (process_msg_fragmentationthreshold e buf (j_frag j 0))
     else if k = H_sta_link_information then
       stateless st (process_msg_sta_link_information (j_device j, j_arrays j) e buf (j_link j 0) (j_link j 1) (j_link j 2))
     else if k = H_supportedinterface then
       stateless st (process_msg_supportedinterface e buf (j_suppif j 0))
     else if k = H_statistics then
       stateless st (process_msg_statistics (j_stamp j) e buf (j_traffic j 0) (j_traffic j 1) (j_traffic j 2) (j_stats j))
     else if k = H_snr_threshold_reached then
       stateless st (process_msg_snr_threshold_reached e buf (j_reached j 0) (j_reached j 1) (j_reached j 2))
     else if k = H_changed_ap then
       stateless st (process_msg_changed_ap e buf (j_changed j 0))
     else if k = H_mean_sta_statistics then
       and_then (process_msg_mean_sta_statistics e (j_now j) buf (j_mean j 0) (collecting st))
       (\<lambda>(s, ev, reply). Inr (st\<lparr>collecting := s\<rparr>, ev, reply))
     else if k = H_station_trigger_transition then
       stateless st (process_msg_station_trigger_transition e (j_tries j) (max_tries st) buf (j_trigger j 0) (j_bssid j 0) (j_bssid j 1))
     else if k = H_tos_cleanall then
       stateless st (process_msg_tos_cleanall e buf (j_header j 0))
     else if k = H_tos_add then
       stateless st (process_msg_tos_add e buf (j_tos j 0))
     else if k = H_tos_replace then
       stateless st (process_msg_tos_replace e buf (j_tos j 0))
     else if k = H_set_mtu then
       stateless st (process_msg_set_mtu e buf (j_mtu j 0) (j_mtu j 1))
     else if k = H_set_txqueuelen then
       stateless st (process_msg_set_txqueuelen e buf (j_txqueuelen j 0) (j_txqueuelen j 1))
     else stateless st (others k buf input_len))"


subsection \<open>The servlet\<close>

text \<open>
  The part of \<open>servlet\<close> after a successful \<open>SSL_accept\<close> and a read of \<open>input_len > 0\<close> bytes.  The
  source is compiled with \<open>DEBUG_SERVLET\<close>, so the version is printed with \<open>%s\<close> before it is compared
  (a null pointer prints; a block without terminator is over-read).  A message with another
  version is treated as one of type \<open>MSG_ERR_TYPE\<close>, which has no case: the \<open>default\<close> of the
  \<open>switch\<close> answers it with an error.
\<close>

definition servlet ::
  "env \<Rightarrow> (handler \<Rightarrow> u8 list \<Rightarrow> nat \<Rightarrow> fault + effect list \<times> u8 list option) \<Rightarrow> junk \<Rightarrow> msg_header \<Rightarrow> cstr
   \<Rightarrow> u8 list \<Rightarrow> nat \<Rightarrow> agent \<Rightarrow> fault + agent \<times> effect list \<times> u8 list option" where
  "servlet e others j h0 client_addr buf input_len st =
     and_then (decode_header (buf, h0)) (\<lambda>(_, h).
     and_then (fmt_str (p_version h)) (\<lambda>_.
     and_then (strcmp (p_version h) ETHANOL_VERSION) (\<lambda>same.
       let msg_type = (if same then m_type h else MSG_ERR_TYPE) in
       case servlet_case msg_type of
         Some hd_case \<Rightarrow> run_handler e others j client_addr buf input_len hd_case st
       | None \<Rightarrow> and_then (return_error_msg_struct (mallocs e) ERROR_UNKNOWN (m_id h) (j_error j)) (\<lambda>reply.
           Inr (st, [], Some reply)))))"

text \<open>
  What a client of the server sees once \<open>SSL_accept\<close> has succeeded: the reply to the request \<open>req\<close>, with
  the effects on the server.  \<open>SSL_read\<close> stores at most the 2048 bytes that the array \<open>buf\<close> holds, in
  front of what the array held before (\<open>stack\<close>); the rest of a longer request is lost.
\<close>

definition server ::
  "env \<Rightarrow> (handler \<Rightarrow> u8 list \<Rightarrow> nat \<Rightarrow> fault + effect list \<times> u8 list option) \<Rightarrow> junk \<Rightarrow> msg_header \<Rightarrow> cstr
   \<Rightarrow> u8 list \<Rightarrow> agent \<Rightarrow> u8 list \<Rightarrow> fault + effect list \<times> u8 list option" where
  "server e others j h0 client_addr stack st req =
     (let received = take 2048 req; input_len = length received; buf = received @ drop input_len stack in
      if 0 < input_len then
        and_then (servlet e others j h0 client_addr buf input_len st) (\<lambda>(_, ev, reply). Inr (ev, reply))
      else Inr ([], None))"

subsection \<open>The error reply\<close>

definition ser_error :: "c_int \<Rightarrow> u8 list" where
  "ser_error i = ser_header MSG_ERR_TYPE i 26 @ le_bytes 4 (0 :: c_int)"

lemma return_error_ok:
  assumes "allocates mal"
  shows "return_error_msg_struct mal ERROR_UNKNOWN i h0 = Inr (ser_error i)"
proof -
  let ?h = "h0\<lparr>m_type := MSG_ERR_TYPE, error_type := 0, m_id := i, p_version := ETHANOL_VERSION\<rparr>"
  define F where "F = (\<lambda>h :: msg_error. [encode_int (m_type h), encode_int (m_id h),
      encode_char (p_version h), encode_int (m_size h), encode_int (error_type h)])"
  let ?bss = "[le_bytes 4 (2 :: c_int), le_bytes 4 i, ser_str ETHANOL_VERSION, le_bytes 4 (26 :: c_int),
      le_bytes 4 (0 :: c_int)]"
  have size: "size_msg_error ?h = sizeof 26"
    by (simp add: size_msg_error_def strlen_wf)
  have flds: "F (?h\<lparr>m_size := word_of_nat 26\<rparr>) = map put ?bss"
    by (simp add: F_def int_f.enc_put encode_char_put)
  have len: "length (concat ?bss) = 26"
    by (simp add: length_ser_str)
  have "encode_frame mal size_msg_error F ?h = Inr (?h\<lparr>m_size := word_of_nat 26\<rparr>, concat ?bss)"
    using encode_frame_ok [of size_msg_error ?h 26 mal F ?bss, OF size _ assms flds] len by fastforce
  then show ?thesis
    by (simp add: return_error_msg_struct_def ser_error_def ser_header_def F_def)
qed


subsection \<open>What the servlet does with a message\<close>

text \<open>The first bytes of a message of this version select its handler.\<close>

lemma strcmp_version: "strcmp ETHANOL_VERSION ETHANOL_VERSION = Inr True"
  by (simp add: strcmp_def ETHANOL_VERSION_def version_chars_def)

lemma servlet_version:
  assumes "buf = ser_header t i n @ r"
  shows "servlet e others j h0 a buf len st = (case servlet_case t of
      Some k \<Rightarrow> run_handler e others j a buf len k st
    | None \<Rightarrow> and_then (return_error_msg_struct (mallocs e) ERROR_UNKNOWN i (j_error j)) (\<lambda>reply.
        Inr (st, [], Some reply)))"
proof -
  have "fmt_str ETHANOL_VERSION = Inr version_chars"
    using fmt_str_wf [of ETHANOL_VERSION] by (simp add: shown_def ETHANOL_VERSION_def split: option.splits)
      (simp add: chars_def version_chars_def str_chars_def)
  then show ?thesis
    by (simp add: servlet_def assms decode_header_ser strcmp_version Let_def split: option.split)
qed

lemma servlet_case_examples:
  "servlet_case MSG_HELLO_TYPE = Some H_hello" "servlet_case MSG_PING = Some H_ping"
  "servlet_case MSG_GET_BYTESRECEIVED = Some H_bytesreceived" "servlet_case MSG_ERR_TYPE = None"
  by (simp_all add: servlet_case_def servlet_cases_def)

text \<open>A header as any client may send it, with its own version \<open>v\<close>.\<close>

definition client_header :: "c_int \<Rightarrow> c_int \<Rightarrow> cstr \<Rightarrow> c_int \<Rightarrow> u8 list" where
  "client_header t i v n = le_bytes 4 t @ le_bytes 4 i @ ser_str v @ le_bytes 4 n"

lemma decode_client_header:
  "ok_str v \<Longrightarrow> decode_header (client_header t i v n @ r, h0)
     = Inr (r, h0\<lparr>m_type := t, m_id := i, p_version := canon v, m_size := n\<rparr>)"
  by (simp add: decode_header_def client_header_def int_f.into_ser into_char_ser)

text \<open>A request that fits in the array reaches its handler whole.\<close>

lemma server_handler:
  assumes "of_type t req" "length req \<le> 2048" "servlet_case t = Some k"
  shows "server e others j h0 a stack st req =
    and_then (run_handler e others j a (req @ drop (length req) stack) (length req) k st)
      (\<lambda>(_, ev, reply). Inr (ev, reply))"
proof -
  obtain i n rest where req: "req = ser_header t i n @ rest"
    using assms(1) by (auto simp: of_type_def)
  then have "0 < length req"
    by (simp add: ser_header_def)
  moreover have "servlet e others j h0 a (req @ drop (length req) stack) (length req) st
      = run_handler e others j a (req @ drop (length req) stack) (length req) k st"
    using servlet_version [of "req @ drop (length req) stack" t i n "rest @ drop (length req) stack"]
    by (simp add: req assms(3))
  ultimately show ?thesis
    using assms(2) by (simp add: server_def Let_def)
qed

text \<open>A handler that answers requests of its type behind the servlet.\<close>

lemma serves_through_servlet:
  assumes "serves e host port t (server e' others j h0 a stack st)" and "servlet_case t = Some k"
    and "\<And>req. run_handler e' others j a (req @ drop (length req) stack) (length req) k st
        = stateless st (srv req)"
  shows "serves_upto 2048 e host port t srv"
  unfolding serves_upto_def
proof (intro allI impI)
  fix req ev out
  assume r: "of_type t req" "length req \<le> 2048" "srv req = Inr (ev, Some out)"
  then have "server e' others j h0 a stack st req = Inr (ev, Some out)"
    by (simp add: server_handler [OF r(1,2) assms(2)] assms(3) stateless_def)
  then show "\<exists>r. ssl_read e host port req = out @ r"
    using servesD [OF assms(1) r(1)] by blast
qed


subsection \<open>Properties\<close>

text \<open>
  A message of this protocol version whose type has no handler is answered with an error message
  that carries the id of the request and the code \<open>ERROR_UNKNOWN\<close>; nothing else happens on the
  server.
\<close>

theorem servlet_unknown_type:
  assumes "servlet_case t = None" "allocates (mallocs e)"
  shows "servlet e others j h0 a (ser_header t i n @ r) len st = Inr (st, [], Some (ser_error i))"
  using servlet_version [OF refl, of e others j h0 a t i n r len st] assms return_error_ok [OF assms(2)]
  by simp

theorem servlet_unknown_type_witness:
  "\<forall>others j h0 st. servlet demo_env others j h0 demo_name (ser_header MSG_PONG 77 30 @ [1, 2]) 24 st
     = Inr (st, [], Some (ser_error 77))"
proof -
  have "servlet_case MSG_PONG = None"
    by (simp add: servlet_case_def servlet_cases_def)
  then show ?thesis
    using servlet_unknown_type allocates_demo_env by blast
qed

text \<open>
  C9 A message of any type with another protocol version reaches no handler.  A version of at least one
  character is answered with an error message that carries the id of the request; the state does
  not change and there are no effects.  An empty version crashes the server: the decoder
  leaves a null pointer, which the servlet passes to \<open>strcmp\<close>.
\<close>

theorem servlet_version_mismatch:
  assumes "ok_str v" "chars v \<noteq> version_chars" "allocates (mallocs e)"
  shows "servlet e others j h0 a (client_header t i v n @ r) len st
    = (if slen v = 0 then Inl Null_Dereference else Inr (st, [], Some (ser_error i)))"
proof (cases "slen v = 0")
  case True
  then have "canon v = None"
    by (simp add: canon_eq_None)
  with True show ?thesis
    by (simp add: servlet_def decode_client_header [OF assms(1)] fmt_str_def strcmp_def)
next
  case False
  then have c: "canon v = Some (chars v @ [0])"
    by (simp add: canon_def slen_def)
  have "strcmp (canon v) ETHANOL_VERSION = Inr False"
    using strcmp_eq_terminated [OF chars_no_zero [of v] chars_no_zero [of ETHANOL_VERSION], of "[]" "[]"] assms(2)
    by (simp add: c strcmp_def ETHANOL_VERSION_def [symmetric])
      (simp add: ETHANOL_VERSION_def strcmp_def)
  moreover have "fmt_str (canon v) = Inr (chars v)"
    using fmt_str_wf [OF wf_str_canon, of v] c by (simp add: chars_no_zero)
  ultimately show ?thesis
    using False return_error_ok [OF assms(3)]
    by (simp add: servlet_def decode_client_header [OF assms(1)] servlet_case_examples(4) Let_def)
qed

theorem servlet_version_mismatch_witness:
  "\<forall>others j h0 st. servlet demo_env others j h0 demo_name (client_header MSG_HELLO_TYPE 5 demo_name 30 @ [1]) 25 st
     = Inr (st, [], Some (ser_error 5)) \<and>
   servlet demo_env others j h0 demo_name (client_header MSG_HELLO_TYPE 5 None 30 @ [1]) 20 st = Inl Null_Dereference"
proof (intro allI)
  fix others j h0 st
  have "ok_str demo_name" "slen demo_name \<noteq> 0" "chars demo_name \<noteq> version_chars"
      "ok_str None" "slen None = 0" "chars None \<noteq> version_chars"
    by (simp_all add: ok_str_def version_chars_def)
  then show "servlet demo_env others j h0 demo_name (client_header MSG_HELLO_TYPE 5 demo_name 30 @ [1]) 25 st
     = Inr (st, [], Some (ser_error 5)) \<and>
   servlet demo_env others j h0 demo_name (client_header MSG_HELLO_TYPE 5 None 30 @ [1]) 20 st = Inl Null_Dereference"
    using servlet_version_mismatch [OF _ _ allocates_demo_env] by simp
qed

text \<open>
  A message whose version field has no terminator makes the server read behind the block of the
  version: the decoder stores exactly the bytes that were announced, and the servlet prints them as a
  string before it has looked at anything else.
\<close>

theorem servlet_unterminated_version:
  fixes n t i m :: c_int
  assumes "n \<noteq> 0" "length vs = unat (n + 1)" "0 \<notin> set vs"
  shows "servlet e others j h0 a (le_bytes 4 t @ le_bytes 4 i @ le_bytes 4 n @ vs @ le_bytes 4 m @ r) len st
    = Inl Read_Out_Of_Bounds"
proof -
  have tw: "takeWhile (\<lambda>c. c \<noteq> 0) vs = vs"
    using assms(3) by (metis (mono_tags, lifting) takeWhile_eq_all_conv)
  have s: "strncpy (vs @ le_bytes 4 m @ r) (unat (n + 1)) = Inr vs"
    using assms(2) by (simp add: strncpy_def str_chars_def Let_def tw)
  have c: "decode_char (le_bytes 4 n @ vs @ le_bytes 4 m @ r) = Inr (Some vs, le_bytes 4 m @ r)"
    using assms(1,2) s by (simp add: decode_char_def uint_f.dec_ser Let_def)
  have "decode_header (le_bytes 4 t @ le_bytes 4 i @ le_bytes 4 n @ vs @ le_bytes 4 m @ r, h0)
      = Inr (r, h0\<lparr>m_type := t, m_id := i, p_version := Some vs, m_size := m\<rparr>)"
    by (simp add: decode_header_def int_f.into_ser) (simp add: into_def c int_f.dec_ser)
  then show ?thesis
    using assms(3) by (simp add: servlet_def fmt_str_def)
qed

theorem servlet_unterminated_version_witness:
  "\<forall>others j h0 st. servlet demo_env others j h0 demo_name
     (le_bytes 4 MSG_HELLO_TYPE @ le_bytes 4 (1 :: c_int) @ le_bytes 4 (1 :: c_int) @ [0x31, 0x31]
        @ le_bytes 4 (18 :: c_int) @ []) 18 st = Inl Read_Out_Of_Bounds"
  by (intro allI servlet_unterminated_version) simp_all

lemma servlet_case_None: "servlet_case t = None \<longleftrightarrow> t \<notin> set (map fst servlet_cases)"
  by (simp only: servlet_case_def map_of_eq_None_iff set_map)

lemma servlet_keys:
  "map fst servlet_cases = [
     MSG_HELLO_TYPE, MSG_BYE_TYPE, MSG_PING, MSG_GET_802_11E_ENABLED,
     MSG_GET_AP_CTSPROTECTION_ENABLED, MSG_SET_AP_CTSPROTECTION_ENABLED,
     MSG_GET_AP_BROADCASTSSID, MSG_SET_AP_BROADCASTSSID, MSG_GET_AP_FRAMEBURSTENABLED,
     MSG_SET_AP_FRAMEBURSTENABLED, MSG_GET_AP_GUARDINTERVAL, MSG_SET_AP_GUARDINTERVAL,
     MSG_GET_AP_DTIMINTERVAL, MSG_SET_AP_DTIMINTERVAL, MSG_GET_AP_RTSTHRESHOLD,
     MSG_SET_AP_RTSTHRESHOLD, MSG_GET_BEACON_INTERVAL, MSG_SET_BEACON_INTERVAL,
     MSG_GET_BYTESRECEIVED, MSG_GET_BYTESSENT, MSG_GET_PACKETSRECEIVED,
     MSG_GET_PACKETSLOST, MSG_GET_PACKETSSENT, MSG_DEAUTHENTICATE_USER,
     MSG_DISCONNECT_USER, MSG_GET_POWERSAVEMODE, MSG_SET_POWERSAVEMODE, MSG_GET_DELAY,
     MSG_GET_FAILED, MSG_GET_JITTER, MSG_GET_FASTBSSTRANSITION_COMPATIBLE,
     MSG_GET_FREQUENCY, MSG_SET_FREQUENCY, MSG_ASSOCIATION, MSG_DISASSOCIATION,
     MSG_REASSOCIATION, MSG_AUTHORIZATION, MSG_USER_DISCONNECTING, MSG_USER_CONNECTING,
     MSG_GET_SNR, MSG_GET_MAC, MSG_GET_RADIO_WLANS, MSG_GET_VALIDCHANNELS,
     MSG_GET_ALL_INTF, MSG_GET_ONE_INTF, MSG_GET_RADIO_LINKSTATISTICS,
     MSG_GET_CURRENTCHANNEL, MSG_SET_CURRENTCHANNEL, MSG_WLAN_INFO, MSG_INFORM_BEACON,
     MSG_GET_CHANNELBANDWITDH, MSG_SET_CHANNELBANDWITDH, MSG_GET_TXPOWER, MSG_SET_TXPOWER,
     MSG_SET_SNR_THRESHOLD, MSG_SET_SNR_INTERVAL, MSG_GET_AP_IN_RANGE_TYPE,
     MSG_GET_IPV4_ADDRESS, MSG_SET_IPV4_ADDRESS, MSG_GET_IPV6_ADDRESS,
     MSG_SET_IPV6_ADDRESS, MSG_GET_RETRIES, MSG_GET_UPTIME, MSG_GET_ROUTES,
     MSG_GET_AP_SSID, MSG_GET_MEMORY, MSG_GET_CPU, MSG_GET_CHANNELINFO, MSG_REQUEST_BEACON,
     MSG_GET_INTERFERENCEMAP, MSG_REQUEST_BEGIN_ASSOCIATION, MSG_SCAN,
     MSG_GET_FRAGMENTATIONTHRESHOLD, MSG_GET_NOISEINFO, MSG_SET_FRAGMENTATIONTHRESHOLD,
     MSG_VAP_CREATE, MSG_GET_TX_BITRATES, MSG_GET_TX_BITRATE, MSG_SET_TX_BITRATES,
     MSG_GET_LINK_INFO, MSG_GET_SUPPORTEDINTERFACE, MSG_GET_LOCATION,
     MSG_SET_CONF_SSID_RADIO, MSG_GET_STATISTICS, MSG_GET_ACS, MSG_GET_STA_STATISTICS,
     MSG_SET_SNR_THRESHOLD_REACHED, MSG_CHANGED_AP, MSG_MEAN_STA_STATISTICS_GET,
     MSG_MEAN_STA_STATISTICS_SET_INTERFACE, MSG_MEAN_STA_STATISTICS_REMOVE_INTERFACE,
     MSG_MEAN_STA_STATISTICS_SET_ALPHA, MSG_MEAN_STA_STATISTICS_SET_TIME,
     MSG_TRIGGER_TRANSITION, MSG_TOS_CLEANALL, MSG_TOS_ADD, MSG_TOS_REPLACE, MSG_SET_MTU,
     MSG_SET_TXQUEUELEN]"
  unfolding servlet_cases_def by (simp only: list.map fst_conv)

text \<open>
  The message types of \<open>enum Enum_msg_type\<close> that the server does not handle, in the order of the
  enumeration; all others have a handler.
\<close>

theorem servlet_unhandled_types:
  "filter (\<lambda>t. servlet_case t = None) Enum_msg_type = [
     MSG_ERR_TYPE, MSG_PONG, MSG_ENABLE_ASSOC_MSG, MSG_QUEUE_CREATE, MSG_QUEUE_CLEAR,
     MSG_QUEUE_DESTROY, MSG_QUEUE_DESTROY_ALL, MSG_QUEUE_CONFIG, MSG_SHOW_PORTS,
     MSG_GET_PREAMBLE, MSG_SET_PREAMBLE, MSG_GET_QUEUEDISCIPLINE, MSG_SET_QUEUEDISCIPLINE,
     MSG_GET_AP_CAC, MSG_SET_AP_CAC, MSG_SET_AP_SSID, MSG_GET_AP_ENABLED,
     MSG_SET_AP_ENABLED, MSG_PROGRAM_PROBE_REQUEST, MSG_PROBERECEIVED,
     MSG_MGMTFRAME_REGISTER, MSG_MGMTFRAME_UNREGISTER, MSG_MGMTFRAME,
     MSG_REQUEST_STATION_REASSOCIATE, MSG_GET_QUALITY, MSG_GET_APSINRANGE,
     MSG_GET_BEACONINFO, MSG_GET_LINKMEASUREMENT]"
  unfolding servlet_case_None servlet_keys by code_simp

end
