(* ===== verification/Listener.thy ===== *)
theory Listener
  imports Servlet "HOL-Library.Multiset"
begin

section \<open>The threads of the server (\<open>messaging/ssl-server.c\<close>)\<close>

text \<open>
  \<open>send_hello_to_controller\<close>, the thread that announces the agent, and the loop of
  \<open>run_ethanol_server\<close>, which accepts connections and starts a thread for each of them.
\<close>

subsection \<open>One hello\<close>

lemma run_hello:
  "run_handler e others j a buf len H_hello st
     = stateless st (process_msg_hello e a buf len (j_hello j 0))"
  by (simp add: run_handler_def)

text \<open>The structure that \<open>send_msg_hello\<close> fills.\<close>

definition hello_request :: "env \<Rightarrow> c_int \<Rightarrow> c_int \<Rightarrow> msg_hello \<Rightarrow> msg_hello" where
  "hello_request e i local_portnum hs = hs\<lparr>m_type := MSG_HELLO_TYPE, m_id := i,
     p_version := dup (mallocs e) ETHANOL_VERSION, device_type := (if process_station e then 2 else 1),
     tcp_port := local_portnum, rtt := 0, m_size := 34\<rparr>"

lemma send_msg_hello_eq:
  assumes "copyable (mallocs e) ETHANOL_VERSION"
  shows "send_msg_hello e host port i lp hs hm =
    and_then (send_sync e host port i (\<lambda>_. Inr (hello_request e i lp hs)) (encode_msg_hello (mallocs e))
       (\<lambda>t. t = MSG_HELLO_TYPE) (\<lambda>buf. decode_msg_hello buf hm))
     (\<lambda>(ev, idc', h1). Inr (ev, idc', map_option (\<lambda>h. h\<lparr>rtt := elapsed e\<rparr>) h1))"
    and "ok_hello (hello_request e i lp hs)"
proof -
  let ?q = "hello_request e i lp hs"
  have "run_prog [assign m_type_update MSG_HELLO_TYPE, assign m_id_update i,
      copy_to e p_version_update ETHANOL_VERSION,
      assign device_type_update (if process_station e then 2 else 1), assign tcp_port_update lp,
      assign rtt_update 0, set_size message_size_hello] hs = Inr ?q"
    using assms by (simp add: hello_request_def set_size_ok [where n = 34] message_size_hello_def)
  from send_sync_built [where build = "\<lambda>i. run_prog [assign m_type_update MSG_HELLO_TYPE,
      assign m_id_update i, copy_to e p_version_update ETHANOL_VERSION,
      assign device_type_update (if process_station e then 2 else 1), assign tcp_port_update lp,
      assign rtt_update 0, set_size message_size_hello] hs", OF this]
  show "send_msg_hello e host port i lp hs hm =
    and_then (send_sync e host port i (\<lambda>_. Inr (hello_request e i lp hs)) (encode_msg_hello (mallocs e))
       (\<lambda>t. t = MSG_HELLO_TYPE) (\<lambda>buf. decode_msg_hello buf hm))
     (\<lambda>(ev, idc', h1). Inr (ev, idc', map_option (\<lambda>h. h\<lparr>rtt := elapsed e\<rparr>) h1))"
    by (simp add: send_msg_hello_def)
  show "ok_hello ?q"
    using assms by (simp add: hello_request_def ok_hello_def ok_header_def)
qed

lemma hello_round:
  assumes "copyable (mallocs e0) ETHANOL_VERSION" "allocates (mallocs e0)" "reaches e0 host port"
    and "serves e0 host port MSG_HELLO_TYPE (server e1 others j h0 addr stack st)" "hello_event_set e1"
  shows "\<exists>req a. send_msg_hello e0 host port i lp hs hm = Inr (session e0 host port req, i + 1, Some a)
     \<and> m_id a = i \<and> tcp_port a = lp \<and> rtt a = elapsed e0
     \<and> server e1 others j h0 addr stack st req
       = Inr ([Hello_Event (if process_station e0 then 2 else 1) addr lp], Some req)
     \<and> (\<forall>h. \<exists>a. decode_msg_hello req h = Inr a \<and> m_id a = i \<and> tcp_port a = lp)"
proof -
  let ?q = "hello_request e0 i lp hs"
  note q = send_msg_hello_eq(2) [OF assms(1), of i lp hs]
  obtain q' req where e: "encode_msg_hello (mallocs e0) ?q = Inr (q', req)"
    using hello.enc_no_fault [OF q assms(2)] by blast
  have t: "of_type MSG_HELLO_TYPE req"
    using hello.wire_type [OF q assms(2) e] by (simp add: hello_request_def)
  have "bytes_hello ?q = 34"
    using assms(1) by (simp add: bytes_hello_def hello_request_def)
  then have len: "length req \<le> 2048"
    using hello.wire_length [OF q assms(2) e] by simp
  have s: "server e1 others j h0 addr stack st req
      = Inr ([Hello_Event (if process_station e0 then 2 else 1) addr lp], Some req)"
    using hello.roundtrip [OF q assms(2) e, of "drop (length req) stack" "j_hello j 0"] assms(5)
    by (simp add: server_handler [OF t len servlet_case_examples(1)] run_hello stateless_def process_msg_hello_def
        hello_request_def norm_header_def)
  obtain r where r: "ssl_read e0 host port req = req @ r"
    using servesD [OF assms(4) t s] by blast
  have "send_msg_hello e0 host port i lp hs hm = Inr (session e0 host port req, i + 1,
      Some ((norm_header (bytes_hello ?q) ?q)\<lparr>rtt := elapsed e0\<rparr>))"
    using hello.roundtrip [OF q assms(2) e, of r hm] of_type_message [OF t, of r]
      close_open_connection [OF assms(3), of req]
    by (simp add: send_msg_hello_eq(1) [OF assms(1)] send_sync_def assms(3) e r Let_def)
  then show ?thesis
    using s hello.roundtrip [OF q assms(2) e, of "[]"] by (auto simp: hello_request_def norm_header_def)
qed

text \<open>When the controller cannot be reached, nothing is written and the counter stays.\<close>

definition writes :: "effect list \<Rightarrow> u8 list list" where
  "writes ev = concat (map (\<lambda>x. case x of Ssl_Write _ _ b \<Rightarrow> [b] | _ \<Rightarrow> []) ev)"

lemma writes_simps [simp]:
  "writes [] = []" "writes (x # ev) = (case x of Ssl_Write _ _ b \<Rightarrow> [b] | _ \<Rightarrow> []) @ writes ev"
  "writes (ev @ ev') = writes ev @ writes ev'"
  by (simp_all add: writes_def)

lemma writes_session [simp]: "writes (session e host port req) = [req]"
  by (simp add: session_def)

lemma hello_unreached:
  assumes "\<not> reaches e host port"
  shows "\<exists>ev. send_msg_hello e host port i lp hs hm = Inr (ev, i, None) \<and> writes ev = []"
  using assms
  by (auto simp: send_msg_hello_def send_sync_def get_ssl_connection_def OpenConnection_def
      close_ssl_connection_def reaches_def Let_def)


subsection \<open>The hello thread\<close>

text \<open>
  The first \<open>n\<close> rounds of the loop that never ends.  Round \<open>k\<close> runs in the environment \<open>es k\<close> with the
  uninitialised structures \<open>js k\<close>; the sleeps between them have no effect on the state.
\<close>

primrec send_hello_to_controller ::
  "(nat \<Rightarrow> env) \<Rightarrow> (nat \<Rightarrow> msg_hello \<times> msg_hello) \<Rightarrow> cstr \<Rightarrow> c_int \<Rightarrow> c_int \<Rightarrow> nat \<Rightarrow> fault + effect list \<times> c_int" where
  "send_hello_to_controller es js serv_addr remote_port local_port 0 = Inr ([], 0)"
| "send_hello_to_controller es js serv_addr remote_port local_port (Suc n) =
     and_then (send_hello_to_controller es js serv_addr remote_port local_port n) (\<lambda>(ev, i).
     and_then (send_msg_hello (es n) serv_addr remote_port i local_port (fst (js n)) (snd (js n)))
       (\<lambda>(ev', i', _). Inr (ev @ ev', i')))"

text \<open>A round with a controller that runs the servlet, or with one that cannot be reached.\<close>

definition demo_hello :: msg_hello where
  "demo_hello = \<lparr>m_type = 0, m_id = 0, p_version = None, m_size = 0, device_type = 0, tcp_port = 0, rtt = 1\<rparr>"

lemma demo_client:
  "copyable (mallocs (demo_env\<lparr>ssl_read := f\<rparr>)) ETHANOL_VERSION"
  "copyable (mallocs (demo_env\<lparr>ssl_read := f\<rparr>)) demo_name"
  "allocates (mallocs (demo_env\<lparr>ssl_read := f\<rparr>))" "reaches (demo_env\<lparr>ssl_read := f\<rparr>) host port"
  "session (demo_env\<lparr>ssl_read := f\<rparr>) host port req = session demo_env host port req"
  using reaches_demo_env [of host port]
  by (simp_all add: copyable_demo_env allocates_demo_env reaches_def session_def)

lemma elapsed_demo: "elapsed demo_env = 0"
  by (simp add: demo_env_def)

definition hello_env :: "env \<Rightarrow> cstr \<Rightarrow> c_int \<Rightarrow> bool" where
  "hello_env e host port \<longleftrightarrow> reaches e host port \<longrightarrow>
     copyable (mallocs e) ETHANOL_VERSION \<and> allocates (mallocs e) \<and>
     (\<exists>e' others j h0 addr stack st. hello_event_set e' \<and>
        serves e host port MSG_HELLO_TYPE (server e' others j h0 addr stack st))"

definition hello_id :: "u8 list \<Rightarrow> (c_int \<times> c_int) option" where
  "hello_id req = (case decode_msg_hello req demo_hello of Inl _ \<Rightarrow> None | Inr h \<Rightarrow> Some (m_id h, tcp_port h))"

lemma hello_round_id:
  assumes "hello_env e host port" "reaches e host port"
  shows "\<exists>req a. send_msg_hello e host port i lp hs hm = Inr (session e host port req, i + 1, Some a) \<and>
    hello_id req = Some (i, lp)"
proof -
  obtain e' others j h0 addr stack st where "hello_event_set e'"
      "serves e host port MSG_HELLO_TYPE (server e' others j h0 addr stack st)"
      "copyable (mallocs e) ETHANOL_VERSION" "allocates (mallocs e)"
    using assms by (auto simp: hello_env_def)
  from hello_round [OF this(3,4) assms(2) this(2,1)]
  obtain req a where "send_msg_hello e host port i lp hs hm = Inr (session e host port req, i + 1, Some a)"
      "\<forall>h. \<exists>a. decode_msg_hello req h = Inr a \<and> m_id a = i \<and> tcp_port a = lp"
    by blast
  then show ?thesis
    by (intro exI conjI) (assumption, auto simp: hello_id_def dest: spec [of _ demo_hello])
qed

text \<open>
  C17 The hello thread.  As long as the controller answers when it can be reached, the thread never
  fails.  After any number of rounds it has sent one hello for each round in which the controller
  could be reached, each with the port the agent listens on, numbered from 0 without gaps (up to
  the wrap-around of \<open>int\<close>); rounds without a connection do not use up a number.
\<close>

theorem hello_thread_numbering:
  assumes "\<forall>k<n. hello_env (es k) host port"
  shows "\<exists>ev. send_hello_to_controller es js host port lp n
      = Inr (ev, word_of_nat (length (filter (\<lambda>k. reaches (es k) host port) [0..<n]))) \<and>
    map hello_id (writes ev)
      = map (\<lambda>m. Some (word_of_nat m, lp)) [0..<length (filter (\<lambda>k. reaches (es k) host port) [0..<n])]"
  using assms
proof (induction n)
  case 0
  then show ?case by simp
next
  case (Suc n)
  then obtain ev where ev: "send_hello_to_controller es js host port lp n
        = Inr (ev, word_of_nat (length (filter (\<lambda>k. reaches (es k) host port) [0..<n])))"
      "map hello_id (writes ev)
        = map (\<lambda>m. Some (word_of_nat m, lp)) [0..<length (filter (\<lambda>k. reaches (es k) host port) [0..<n])]"
    by auto
  show ?case
  proof (cases "reaches (es n) host port")
    case True
    then show ?thesis
      using hello_round_id [OF _ True, of "word_of_nat (length (filter (\<lambda>k. reaches (es k) host port) [0..<n]))"
          lp "fst (js n)" "snd (js n)"] Suc.prems ev by (auto simp: add.commute)
  next
    case False
    then show ?thesis
      using hello_unreached [OF False, of "word_of_nat (length (filter (\<lambda>k. reaches (es k) host port) [0..<n]))"
          lp "fst (js n)" "snd (js n)"] ev by auto
  qed
qed

definition demo_hello_env ::
  "(handler \<Rightarrow> u8 list \<Rightarrow> nat \<Rightarrow> fault + effect list \<times> u8 list option) \<Rightarrow> junk \<Rightarrow> msg_header \<Rightarrow> agent \<Rightarrow> nat \<Rightarrow> env" where
  "demo_hello_env others j h0 st k =
     (if k = 1 then demo_env\<lparr>connects := \<lambda>_ _. False\<rparr>
      else demo_env\<lparr>ssl_read := demo_peer (server demo_env others j h0 demo_name [9] st)\<rparr>)"

lemma demo_hello_reaches: "reaches (demo_hello_env others j h0 st k) host port \<longleftrightarrow> k \<noteq> 1"
  using demo_client(4) by (simp add: demo_hello_env_def reaches_def)

lemma demo_hello_env: "hello_env (demo_hello_env others j h0 st k) host port"
  unfolding hello_env_def demo_hello_reaches
proof (intro impI conjI)
  assume k: "k \<noteq> 1"
  have "hello_event_set demo_env"
    by (simp add: demo_env_def)
  moreover have "serves (demo_hello_env others j h0 st k) host port MSG_HELLO_TYPE
      (server demo_env others j h0 demo_name [9] st)"
    using k serves_demo_peer by (simp add: demo_hello_env_def)
  ultimately show "\<exists>e' others' j' h0' addr stack st'. hello_event_set e' \<and>
      serves (demo_hello_env others j h0 st k) host port MSG_HELLO_TYPE (server e' others' j' h0' addr stack st')"
    by blast
qed (use demo_client(1,3) in \<open>simp_all add: demo_hello_env_def\<close>)

theorem hello_thread_numbering_witness:
  "\<forall>others j h0 st. \<exists>ev. send_hello_to_controller (demo_hello_env others j h0 st) (\<lambda>_. (demo_hello, demo_hello))
       demo_name 22222 22223 3 = Inr (ev, 2) \<and> map hello_id (writes ev) = [Some (0, 22223), Some (1, 22223)]"
proof (intro allI)
  fix others j h0 st
  have "\<forall>k<3. hello_env (demo_hello_env others j h0 st k) demo_name 22222"
    by (simp add: demo_hello_env)
  from hello_thread_numbering [OF this, of "\<lambda>_. (demo_hello, demo_hello)" 22223]
  show "\<exists>ev. send_hello_to_controller (demo_hello_env others j h0 st) (\<lambda>_. (demo_hello, demo_hello))
       demo_name 22222 22223 3 = Inr (ev, 2) \<and> map hello_id (writes ev) = [Some (0, 22223), Some (1, 22223)]"
    by (simp add: demo_hello_reaches upt_rec)
qed


subsection \<open>Accepting connections\<close>

text \<open>
  The loop of \<open>run_ethanol_server\<close> passes a connection to its thread through one structure
  \<open>servlet_params\<close>, which lives in the loop, and the address of the client through the buffer of
  \<open>inet_ntoa\<close>, which every call overwrites.  A new thread reads the structure when it starts, which may be
  any number of statements later.  It then has its own copies of the session and of the port; of the
  address it has only the pointer to the buffer, and what it finds there depends on when it looks.

  The connections are numbered in the order in which they are accepted.  \<open>listener\<close> is the
  position of the loop, the number of connections accepted, the connections to which the text in
  the buffer and the values in the structure belong, the number of threads that have been created and
  have not read their argument yet, and the calls of \<open>servlet\<close>: those in progress (\<open>serving\<close>, the
  connections of the session and of the port they were given), the readings of the address
  (\<open>readings\<close>: the session, the connection whose address was found in the buffer, the port), and those
  that returned (\<open>finished\<close>, the sessions).
\<close>

datatype position = L_Accept | L_Ssl | L_Addr | L_Port | L_Create

record servlet_params =
  p_ssl :: nat
  p_client_port :: nat

record listener =
  position :: position
  connections :: nat
  ntoa_buffer :: nat
  params :: servlet_params
  starting :: nat
  serving :: "(nat \<times> nat) list"
  readings :: "(nat \<times> nat \<times> nat) list"
  finished :: "nat list"

definition init_listener :: listener where
  "init_listener = \<lparr>position = L_Accept, connections = 0, ntoa_buffer = 0,
     params = \<lparr>p_ssl = 0, p_client_port = 0\<rparr>, starting = 0, serving = [], readings = [], finished = []\<rparr>"

text \<open>The next statement of the loop; \<open>connections - 1\<close> is the connection in its variables.\<close>

definition run_ethanol_server :: "listener \<Rightarrow> listener" where
  "run_ethanol_server s = (case position s of
       L_Accept \<Rightarrow> s\<lparr>connections := connections s + 1, ntoa_buffer := connections s, position := L_Ssl\<rparr>
     | L_Ssl \<Rightarrow> s\<lparr>params := (params s)\<lparr>p_ssl := connections s - 1\<rparr>, position := L_Addr\<rparr>
     | L_Addr \<Rightarrow> s\<lparr>position := L_Port\<rparr>
     | L_Port \<Rightarrow> s\<lparr>params := (params s)\<lparr>p_client_port := connections s - 1\<rparr>, position := L_Create\<rparr>
     | L_Create \<Rightarrow> s\<lparr>starting := starting s + 1, position := L_Accept\<rparr>)"

text \<open>A thread starts: it reads the structure and calls \<open>servlet\<close>.\<close>

definition call_servlet :: "listener \<Rightarrow> listener" where
  "call_servlet s = s\<lparr>starting := starting s - 1,
     serving := serving s @ [(p_ssl (params s), p_client_port (params s))]\<rparr>"

text \<open>The \<open>i\<close>-th call in progress prints the address or hands it to a handler; it returns.\<close>

definition read_client_addr :: "nat \<Rightarrow> listener \<Rightarrow> listener" where
  "read_client_addr i s = s\<lparr>readings := readings s @ [(fst (serving s ! i), ntoa_buffer s, snd (serving s ! i))]\<rparr>"

definition end_servlet :: "nat \<Rightarrow> listener \<Rightarrow> listener" where
  "end_servlet i s = s\<lparr>finished := finished s @ [fst (serving s ! i)],
     serving := take i (serving s) @ drop (Suc i) (serving s)\<rparr>"

text \<open>How fast connections arrive: at any time, when no thread is starting, when no thread is at work.\<close>

datatype pace = Anytime | When_Started | When_Finished

fun may_accept :: "pace \<Rightarrow> listener \<Rightarrow> bool" where
  "may_accept Anytime s = True"
| "may_accept When_Started s = (starting s = 0)"
| "may_accept When_Finished s = (starting s = 0 \<and> serving s = [])"

inductive listen_step :: "pace \<Rightarrow> listener \<Rightarrow> listener \<Rightarrow> bool" for pc where
  loop: "position s = L_Accept \<longrightarrow> may_accept pc s \<Longrightarrow> listen_step pc s (run_ethanol_server s)"
| start: "0 < starting s \<Longrightarrow> listen_step pc s (call_servlet s)"
| read: "i < length (serving s) \<Longrightarrow> listen_step pc s (read_client_addr i s)"
| finish: "i < length (serving s) \<Longrightarrow> listen_step pc s (end_servlet i s)"

abbreviation listen_steps :: "pace \<Rightarrow> listener \<Rightarrow> listener \<Rightarrow> bool" where
  "listen_steps pc \<equiv> (listen_step pc)\<^sup>*\<^sup>*"

lemma listen_steps_intros:
  "listen_steps pc s0 s \<Longrightarrow> position s = L_Accept \<longrightarrow> may_accept pc s \<Longrightarrow> listen_steps pc s0 (run_ethanol_server s)"
  "listen_steps pc s0 s \<Longrightarrow> 0 < starting s \<Longrightarrow> listen_steps pc s0 (call_servlet s)"
  "listen_steps pc s0 s \<Longrightarrow> i < length (serving s) \<Longrightarrow> listen_steps pc s0 (read_client_addr i s)"
  "listen_steps pc s0 s \<Longrightarrow> i < length (serving s) \<Longrightarrow> listen_steps pc s0 (end_servlet i s)"
  by (blast intro: listen_step.intros rtranclp.rtrancl_into_rtrancl)+

text \<open>The connections accepted and not given to a thread that runs: at most the last one.\<close>

definition pending :: "listener \<Rightarrow> nat" where
  "pending s = (if position s = L_Accept then starting s else 1)"

text \<open>
  What holds when no connection arrives while a thread is starting: the connection being accepted or
  handed over is the last one, and each of the others has its thread, with its own session and port.
\<close>

definition handed_over :: "listener \<Rightarrow> bool" where
  "handed_over s \<longleftrightarrow> (let c = connections s - 1 in
     pending s \<le> 1 \<and> pending s \<le> connections s \<and> starting s \<le> pending s \<and>
     (position s \<noteq> L_Accept \<longrightarrow> starting s = 0) \<and> (0 < connections s \<longrightarrow> ntoa_buffer s = c) \<and>
     (position s \<in> {L_Addr, L_Port, L_Create} \<or> 0 < starting s \<longrightarrow> p_ssl (params s) = c) \<and>
     (position s = L_Create \<or> 0 < starting s \<longrightarrow> p_client_port (params s) = c) \<and>
     mset (finished s @ map fst (serving s)) = mset [0..<connections s - pending s] \<and>
     (\<forall>(k, p)\<in>set (serving s). p = k) \<and> (\<forall>(k, a, p)\<in>set (readings s). p = k \<and> k \<le> a))"

lemma handed_over_loop:
  assumes "handed_over s" "position s = L_Accept \<longrightarrow> starting s = 0"
  shows "handed_over (run_ethanol_server s)"
  using assms by (cases "position s") (auto simp: run_ethanol_server_def handed_over_def pending_def Let_def)

lemma handed_over_start:
  assumes "handed_over s" "0 < starting s"
  shows "handed_over (call_servlet s)"
proof -
  have p: "position s = L_Accept" "starting s = 1" "0 < connections s"
    using assms by (auto simp: handed_over_def pending_def Let_def split: if_split_asm)
  then have "[0..<connections s] = [0..<connections s - 1] @ [connections s - 1]"
    using upt_Suc_append [of 0 "connections s - 1"] by simp
  then show ?thesis
    using assms p by (simp add: call_servlet_def handed_over_def pending_def Let_def)
qed

lemma handed_over_serving:
  assumes "handed_over s" "i < length (serving s)"
  shows "snd (serving s ! i) = fst (serving s ! i)" "fst (serving s ! i) \<le> ntoa_buffer s"
proof -
  have i: "serving s ! i \<in> set (serving s)"
    using assms(2) by simp
  then show "snd (serving s ! i) = fst (serving s ! i)"
    using assms(1) by (auto simp: handed_over_def Let_def)
  have "fst (serving s ! i) \<in># mset (finished s @ map fst (serving s))"
    using i by (simp del: nth_mem)
  then have "fst (serving s ! i) \<in># mset [0..<connections s - pending s]"
    using assms(1) unfolding handed_over_def Let_def by metis
  then show "fst (serving s ! i) \<le> ntoa_buffer s"
    using assms(1) by (auto simp: handed_over_def Let_def)
qed

lemma handed_over_read:
  "handed_over s \<Longrightarrow> i < length (serving s) \<Longrightarrow> handed_over (read_client_addr i s)"
  using handed_over_serving [of s i]
  by (auto simp: read_client_addr_def handed_over_def pending_def Let_def)

lemma handed_over_finish:
  assumes "handed_over s" "i < length (serving s)"
  shows "handed_over (end_servlet i s)"
proof -
  let ?s = "end_servlet i s"
  have "mset (map fst (serving s)) = mset (map fst (take i (serving s) @ serving s ! i # drop (Suc i) (serving s)))"
    by (rule arg_cong [OF id_take_nth_drop [OF assms(2)]])
  then have m: "mset (finished ?s @ map fst (serving ?s)) = mset (finished s @ map fst (serving s))"
    by (simp add: end_servlet_def)
  have "set (serving ?s) \<subseteq> set (serving s)"
    by (auto simp: end_servlet_def dest: in_set_takeD in_set_dropD)
  moreover have e: "position ?s = position s" "connections ?s = connections s" "starting ?s = starting s"
      "params ?s = params s" "ntoa_buffer ?s = ntoa_buffer s" "readings ?s = readings s"
    by (simp_all add: end_servlet_def)
  ultimately show ?thesis
    using assms(1) unfolding handed_over_def pending_def Let_def e m by blast
qed

lemma handed_over_step: "listen_step pc s s' \<Longrightarrow> pc \<noteq> Anytime \<Longrightarrow> handed_over s \<Longrightarrow> handed_over s'"
proof (induction rule: listen_step.induct)
  case (loop s)
  then show ?case
    by (cases pc) (auto intro: handed_over_loop)
qed (auto intro: handed_over_start handed_over_read handed_over_finish)

lemma handed_over_steps: "listen_steps pc init_listener s \<Longrightarrow> pc \<noteq> Anytime \<Longrightarrow> handed_over s"
proof (induction rule: rtranclp_induct)
  case base
  then show ?case by (simp add: init_listener_def handed_over_def pending_def)
next
  case (step s s')
  then show ?case using handed_over_step by blast
qed

text \<open>When also no connection arrives while a call is in progress, the calls follow one another.\<close>

definition one_by_one :: "listener \<Rightarrow> bool" where
  "one_by_one s \<longleftrightarrow> handed_over s \<and> finished s @ map fst (serving s) = [0..<connections s - pending s] \<and>
     (serving s = [] \<or> position s = L_Accept \<and> starting s = 0 \<and> (\<exists>x. serving s = [x])) \<and>
     (\<forall>(k, a, p)\<in>set (readings s). a = k)"

lemma one_by_one_single:
  assumes "one_by_one s" "i < length (serving s)"
  shows "\<exists>p. serving s = [(ntoa_buffer s, p)]" "i = 0"
proof -
  obtain x where x: "serving s = [x]" "position s = L_Accept" "starting s = 0"
    using assms by (auto simp: one_by_one_def)
  then show "i = 0"
    using assms(2) by simp
  have "finished s @ [fst x] = [0..<connections s]"
    using assms(1) x by (simp add: one_by_one_def pending_def)
  then have "0 < connections s" "fst x = last [0..<connections s]"
    by (metis append_is_Nil_conv list.distinct(1) neq0_conv upt_0, metis last_snoc)
  then have "fst x = ntoa_buffer s"
    using assms(1) by (simp add: one_by_one_def handed_over_def Let_def)
  then show "\<exists>p. serving s = [(ntoa_buffer s, p)]"
    using x(1) by (cases x) auto
qed

lemma one_by_one_step: "listen_step When_Finished s s' \<Longrightarrow> one_by_one s \<Longrightarrow> one_by_one s'"
proof (induction rule: listen_step.induct)
  case (loop s)
  have "handed_over (run_ethanol_server s)"
    using loop by (intro handed_over_loop) (auto simp: one_by_one_def)
  then show ?case
    using loop
    by (cases "position s") (auto simp: run_ethanol_server_def one_by_one_def pending_def handed_over_def Let_def)
next
  case (start s)
  have h: "handed_over (call_servlet s)" "handed_over s"
    using start handed_over_start by (auto simp: one_by_one_def)
  then have p: "position s = L_Accept" "starting s = 1" "p_ssl (params s) = connections s - 1" "0 < connections s"
    using start(1) by (auto simp: handed_over_def pending_def Let_def split: if_split_asm)
  then have "[0..<connections s] = [0..<connections s - 1] @ [connections s - 1]"
    using upt_Suc_append [of 0 "connections s - 1"] by simp
  then show ?case
    using start h(1) p by (auto simp: call_servlet_def one_by_one_def pending_def)
next
  case (read i s)
  have "handed_over (read_client_addr i s)"
    using read handed_over_read by (auto simp: one_by_one_def)
  then show ?case
    using read one_by_one_single [OF read(2,1)] by (auto simp: read_client_addr_def one_by_one_def pending_def)
next
  case (finish i s)
  have "handed_over (end_servlet i s)"
    using finish handed_over_finish by (auto simp: one_by_one_def)
  then show ?case
    using finish one_by_one_single [OF finish(2,1)] by (auto simp: end_servlet_def one_by_one_def pending_def)
qed

lemma one_by_one_steps: "listen_steps When_Finished init_listener s \<Longrightarrow> one_by_one s"
proof (induction rule: rtranclp_induct)
  case base
  then show ?case by (simp add: init_listener_def one_by_one_def handed_over_def pending_def)
next
  case (step s s')
  then show ?case using one_by_one_step by blast
qed

text \<open>
  C18 When connections arrive one after the other (the next one only after the thread of the one
  before has finished), every connection is served exactly once and in the order of arrival: in every
  reachable state the calls of \<open>servlet\<close> that returned and the one in progress are those of the
  connections accepted so far, except the one that is being handed over.  Whenever a call reads the
  address of its client it finds that of its own connection, and it has its own port.
\<close>

theorem connections_served_in_order:
  assumes "listen_steps When_Finished init_listener s"
  shows "finished s @ map fst (serving s)
      = [0..<connections s - (if position s = L_Accept then starting s else 1)] \<and>
    length (serving s) + starting s \<le> 1 \<and>
    (\<forall>(session, port)\<in>set (serving s). port = session) \<and>
    (\<forall>(session, address, port)\<in>set (readings s). address = session \<and> port = session)"
proof -
  have o: "one_by_one s"
    by (rule one_by_one_steps [OF assms])
  then have h: "handed_over s"
    by (simp add: one_by_one_def)
  have "length (serving s) + starting s \<le> 1"
  proof (cases "serving s")
    case Nil
    then show ?thesis
      using h by (simp add: handed_over_def Let_def)
  next
    case (Cons x xs)
    then show ?thesis
      using o by (auto simp: one_by_one_def)
  qed
  moreover have "finished s @ map fst (serving s) = [0..<connections s - pending s]"
      "\<forall>(k, a, p)\<in>set (readings s). a = k"
    using o by (simp_all add: one_by_one_def)
  moreover have "\<forall>(k, p)\<in>set (serving s). p = k" "\<forall>(k, a, p)\<in>set (readings s). p = k"
    using h by (auto simp: handed_over_def Let_def)
  ultimately show ?thesis
    unfolding pending_def by fast
qed

text \<open>
  When the next connection may arrive as soon as the thread of the one before has started, the calls
  still serve every connection exactly once, each with its own session and port; but the address
  that a call reads may be that of any later connection.
\<close>

theorem sessions_kept:
  assumes "listen_steps When_Started init_listener s"
  shows "mset (finished s @ map fst (serving s))
      = mset [0..<connections s - (if position s = L_Accept then starting s else 1)] \<and>
    (\<forall>(session, port)\<in>set (serving s). port = session) \<and>
    (\<forall>(session, address, port)\<in>set (readings s). port = session \<and> session \<le> address)"
  using handed_over_steps [OF assms] by (simp add: handed_over_def pending_def Let_def)

definition demo_late_reader :: listener where
  "demo_late_reader = read_client_addr 0 (run_ethanol_server (call_servlet ((run_ethanol_server ^^ 5) init_listener)))"

lemma demo_late_reader_steps: "listen_steps When_Started init_listener demo_late_reader"
  unfolding demo_late_reader_def numeral_eq_Suc funpow.simps comp_def pred_numeral_simps BitM.simps id_apply
  by (intro listen_steps_intros rtranclp.rtrancl_refl)
    (simp_all add: init_listener_def run_ethanol_server_def call_servlet_def)

theorem address_overwritten:
  "\<exists>s. listen_steps When_Started init_listener s \<and> connections s = 2 \<and> serving s = [(0, 0)] \<and> readings s = [(0, 1, 0)]"
  by (rule exI [of _ demo_late_reader], rule conjI [OF demo_late_reader_steps])
    (simp add: demo_late_reader_def init_listener_def run_ethanol_server_def call_servlet_def read_client_addr_def numeral_eq_Suc)

text \<open>The structure belongs to a later connection than the first, which was not served.\<close>

definition overtaken :: "listener \<Rightarrow> bool" where
  "overtaken s \<longleftrightarrow> 2 \<le> connections s \<and> 0 < p_ssl (params s) \<and> (\<forall>(c, p)\<in>set (serving s). 0 < c) \<and> 0 \<notin> set (finished s)"

lemma overtaken_step: "listen_step pc s s' \<Longrightarrow> overtaken s \<Longrightarrow> overtaken s'"
proof (induction rule: listen_step.induct)
  case (loop s)
  then show ?case
    by (cases "position s") (auto simp: run_ethanol_server_def overtaken_def)
next
  case (finish i s)
  then have "0 < fst (serving s ! i)"
    using nth_mem [OF finish(1)] by (cases "serving s ! i") (auto simp: overtaken_def)
  then show ?case
    using finish by (auto simp: end_servlet_def overtaken_def dest: in_set_takeD in_set_dropD)
qed (auto simp: call_servlet_def read_client_addr_def overtaken_def)

lemma overtaken_steps: "listen_steps pc s s' \<Longrightarrow> overtaken s \<Longrightarrow> overtaken s'"
  by (induction rule: rtranclp_induct) (auto intro: overtaken_step)

definition demo_overtaking :: listener where
  "demo_overtaking = call_servlet (call_servlet ((run_ethanol_server ^^ 10) init_listener))"

lemma demo_overtaking_eq: "demo_overtaking = \<lparr>position = L_Accept, connections = 2, ntoa_buffer = 1,
    params = \<lparr>p_ssl = 1, p_client_port = 1\<rparr>, starting = 0, serving = [(1, 1), (1, 1)], readings = [], finished = []\<rparr>"
  by (simp add: demo_overtaking_def init_listener_def run_ethanol_server_def call_servlet_def numeral_eq_Suc)

lemma loop_steps: "listen_steps Anytime s ((run_ethanol_server ^^ n) s)"
  by (induction n) (auto intro: listen_steps_intros)

lemma demo_overtaking_steps: "listen_steps Anytime init_listener demo_overtaking"
  unfolding demo_overtaking_def
  by (intro listen_steps_intros loop_steps)
    (simp_all add: init_listener_def run_ethanol_server_def call_servlet_def numeral_eq_Suc)

text \<open>
  When two connections arrive together not even the sessions are kept.  There is a run in which the
  thread of the first connection starts after the second one was stored in the shared structure: both
  threads serve the second connection, and no later run of the server ever serves the first.
\<close>

theorem connection_overtaken:
  "\<exists>s. listen_steps Anytime init_listener s \<and> connections s = 2 \<and> starting s = 0 \<and>
     serving s = [(1, 1), (1, 1)] \<and>
     (\<forall>s'. listen_steps Anytime s s' \<longrightarrow> 0 \<notin> set (finished s' @ map fst (serving s')))"
proof -
  have "overtaken demo_overtaking"
    by (simp add: demo_overtaking_eq overtaken_def)
  then have "0 \<notin> set (finished s' @ map fst (serving s'))" if "listen_steps Anytime demo_overtaking s'" for s'
    using overtaken_steps [OF that] by (auto simp: overtaken_def)
  then show ?thesis
    using demo_overtaking_steps by (intro exI [of _ demo_overtaking]) (simp add: demo_overtaking_eq)
qed

theorem connection_overtaken_witness:
  "\<exists>s. listen_steps Anytime init_listener s \<and> connections s = 2 \<and> 0 \<notin> set (finished s @ map fst (serving s))"
  using connection_overtaken by (meson rtranclp.rtrancl_refl)

definition demo_served :: listener where
  "demo_served = end_servlet 0 (read_client_addr 0 (call_servlet (run_ethanol_server (run_ethanol_server
     (run_ethanol_server (run_ethanol_server (run_ethanol_server init_listener)))))))"

lemmas listener_simps = demo_served_def init_listener_def run_ethanol_server_def call_servlet_def
  read_client_addr_def end_servlet_def

theorem connections_served_in_order_witness:
  "listen_steps When_Finished init_listener demo_served \<and> finished demo_served = [0] \<and>
   connections demo_served = 1 \<and> readings demo_served = [(0, 0, 0)]"
proof -
  have "listen_steps When_Finished init_listener demo_served"
    unfolding demo_served_def
    by (intro listen_steps_intros rtranclp.rtrancl_refl) (simp_all add: listener_simps)
  moreover have "connections demo_served = 1" "position demo_served = L_Accept" "starting demo_served = 0"
      "serving demo_served = []" "map fst (readings demo_served) = [0]"
    by (simp_all add: listener_simps)
  ultimately show ?thesis
    using connections_served_in_order [of demo_served] by (auto simp: upt_rec Cons_eq_map_conv)
qed

theorem sessions_kept_witness:
  "listen_steps When_Started init_listener demo_late_reader \<and> mset (finished demo_late_reader @ map fst (serving demo_late_reader)) = {#0#}"
  using sessions_kept [OF demo_late_reader_steps] demo_late_reader_steps
  by (simp add: demo_late_reader_def init_listener_def run_ethanol_server_def call_servlet_def read_client_addr_def numeral_eq_Suc)

end
