(* ===== verification/Server.thy ===== *)
theory Server
  imports Servlet
begin

section \<open>The agent as a server (\<open>messaging/ssl-server.c\<close>)\<close>

text \<open>
  The whole of a connection, and the states to which connections, the threads that collect statistics
  and the daemon can bring the agent.  \<open>agent_step\<close> is one step of the agent: a whole connection that is served, one
  statement of the threads that collect statistics (the walk over all monitored interfaces is one such
  step), or a call from the access point daemon that sets a flag of the 802.11e table.  \<open>agent_reach\<close> are the
  states after any sequence of steps.

  So the connections are handled one after the other here, and no step runs inside another.  The source has no
  lock that would enforce this: the threads of two connections may run inside the same function, and the
  comments on \<open>set_snr_interval\<close> and \<open>set_snr_threshold\<close> say that they are not thread safe.  What two
  calls of \<open>set_snr_interval\<close> that overlap can do to its table is shown at the end of this theory
  (\<open>set_snr_interval_race\<close>).
\<close>

subsection \<open>A connection\<close>

text \<open>
  \<open>servlet\<close> from \<open>SSL_accept\<close> to \<open>close\<close>: \<open>accepted\<close> says that \<open>SSL_accept\<close> did not return \<open>FAIL\<close>,
  \<open>received\<close> are the bytes that \<open>SSL_read\<close> stored (none if it failed, at most 2048), \<open>stack\<close> the rest of the
  array of 2048 bytes and \<open>sd\<close> the socket.  The connection is handled as a whole: no other thread acts in between.
\<close>

definition serve_connection ::
  "env \<Rightarrow> (handler \<Rightarrow> u8 list \<Rightarrow> nat \<Rightarrow> fault + effect list \<times> u8 list option) \<Rightarrow> junk \<Rightarrow> msg_header \<Rightarrow> cstr
   \<Rightarrow> bool \<Rightarrow> u8 list \<Rightarrow> u8 list \<Rightarrow> c_int \<Rightarrow> agent \<Rightarrow> fault + agent \<times> effect list \<times> u8 list option" where
  "serve_connection e others j h0 client_addr accepted received stack sd st =
     and_then
       (if accepted \<and> received \<noteq> [] then
          servlet e others j h0 client_addr (received @ stack) (length received) st
        else Inr (st, [], None))
       (\<lambda>(st, ev, reply). Inr (st, ev @ [Ssl_Free, Socket_Close sd], reply))"


subsection \<open>Handlers and the state\<close>

lemma table_write_wf:
  assumes "wf_table t" "search t s = Inr p"
    and "case p of None \<Rightarrow> \<exists>n. new_name mal s = Inr n \<and> t' = (n, v) # t | Some i \<Rightarrow> t' = t[i := (fst (t ! i), v)]"
  shows "wf_table t'"
proof (cases p)
  case None
  then obtain n where n: "new_name mal s = Inr n" "t' = (n, v) # t"
    using assms(3) by auto
  show ?thesis
    using search_wf [OF assms(1) named_new_name [OF n(1)]] new_name_Inr [OF n(1)] assms(1,2) None
    by (auto simp: n(2) table_map_None)
next
  case (Some i)
  have "map fst (t[i := (fst (t ! i), v)]) = map fst t"
    using search_bound [of t s i] assms(2) Some by (simp add: map_update list_update_same_conv)
  then show ?thesis
    using assms(1,3) Some wf_table_names by fastforce
qed

lemma set_snr_interval_wf: "wf_table t \<Longrightarrow> set_snr_interval mal t s v = Inr t' \<Longrightarrow> wf_table t'"
  by (rule table_write_wf [where t = t and s = s and mal = mal and v = v and p = "projr (search t s)"])
    (auto simp: set_snr_interval_def and_then_eq_Inr split: option.splits)

lemma set_snr_threshold_wf: "wf_table t \<Longrightarrow> set_snr_threshold mal t s v = Inr t' \<Longrightarrow> wf_table t'"
  by (rule table_write_wf [where t = t and s = s and mal = mal and v = v and p = "projr (search t s)"])
    (auto simp: set_snr_threshold_def and_then_eq_Inr split: option.splits)

lemma set_80211e_wf: "wf_table t \<Longrightarrow> set_if_hostapd_is_80211e_enabled mal t s v = Inr t' \<Longrightarrow> wf_table t'"
  by (rule table_write_wf [where t = t and s = s and mal = mal and v = v and p = "projr (search t s)"])
    (auto simp: set_if_hostapd_is_80211e_enabled_def and_then_eq_Inr split: option.splits)

lemma stateless_Inr [simp]:
  "stateless st x = Inr (st', ev, reply) \<longleftrightarrow> st' = st \<and> x = Inr (ev, reply)"
  by (auto simp: stateless_def and_then_eq_Inr)

text \<open>Only three handlers write the global variables of the agent; each writes its own.\<close>

lemma run_handler_frame:
  assumes "run_handler e others j a buf len k st = Inr (st', ev, reply)"
    and "k \<notin> {H_snr_interval, H_snr_threshold, H_mean_sta_statistics}"
  shows "st' = st"
  using assms unfolding run_handler_def by (simp split: if_split_asm)

lemma run_writers:
  "run_handler e others j a buf len H_snr_interval st =
     and_then (process_msg_snr_interval e (snr_intervals st) buf (j_snr_interval j 0) (j_snr_interval j 1))
       (\<lambda>(tbl, ev, reply). Inr (st\<lparr>snr_intervals := tbl\<rparr>, ev, reply))"
  "run_handler e others j a buf len H_snr_threshold st =
     and_then (process_msg_snr_threshold e (snr_thresholds st) buf (j_snr_threshold j 0) (j_snr_threshold j 1))
       (\<lambda>(tbl, ev, reply). Inr (st\<lparr>snr_thresholds := tbl\<rparr>, ev, reply))"
  "run_handler e others j a buf len H_mean_sta_statistics st =
     and_then (process_msg_mean_sta_statistics e (j_now j) buf (j_mean j 0) (collecting st))
       (\<lambda>(s, ev, reply). Inr (st\<lparr>collecting := s\<rparr>, ev, reply))"
  by (simp_all add: run_handler_def)

lemma process_snr_wf:
  "process_msg_snr_interval e t buf hm hs = Inr (t', ev, reply) \<Longrightarrow> wf_table t \<Longrightarrow> wf_table t'"
  "process_msg_snr_threshold e t buf hm' hs' = Inr (t', ev, reply) \<Longrightarrow> wf_table t \<Longrightarrow> wf_table t'"
  by (auto simp: process_msg_snr_interval_def process_msg_snr_threshold_def and_then_eq_Inr
      intro: set_snr_interval_wf set_snr_threshold_wf split: if_split_asm)

lemma process_mean_reach:
  "process_msg_mean_sta_statistics e now buf j s = Inr (s', ev, reply) \<Longrightarrow>
   collector_reach f (means_list s) \<Longrightarrow> collector_reach f (means_list s')"
  by (auto simp: process_msg_mean_sta_statistics_def and_then_eq_Inr
      intro: collector_reach.intros split: if_split_asm)


subsection \<open>The reachable states\<close>

definition wf_agent :: "fpu \<Rightarrow> agent \<Rightarrow> bool" where
  "wf_agent f st \<longleftrightarrow> wf_table (wmm_table st) \<and> wf_table (snr_intervals st) \<and> wf_table (snr_thresholds st) \<and>
     collector_reach f (means_list (collecting st))"

lemma run_handler_wf:
  assumes "run_handler e others j a buf len k st = Inr (st', ev, reply)" "wf_agent f st"
  shows "wf_agent f st'"
proof -
  consider "k = H_snr_interval" | "k = H_snr_threshold" | "k = H_mean_sta_statistics" | "st' = st"
    using run_handler_frame [OF assms(1)] by blast
  then show ?thesis
    by cases (use assms in \<open>auto simp: run_writers wf_agent_def and_then_eq_Inr
        intro: process_snr_wf process_mean_reach\<close>)
qed

lemma servlet_runs:
  assumes "servlet e others j h0 a buf len st = Inr (st', ev, reply)"
  shows "st' = st \<and> ev = [] \<or> (\<exists>k t. servlet_case t = Some k \<and>
    run_handler e others j a buf len k st = Inr (st', ev, reply))"
  using assms by (auto simp: servlet_def and_then_eq_Inr Let_def split: option.split_asm if_split_asm)

lemma servlet_wf:
  "servlet e others j h0 a buf len st = Inr (st', ev, reply) \<Longrightarrow> wf_agent f st \<Longrightarrow> wf_agent f st'"
  using servlet_runs run_handler_wf by metis

text \<open>If the state changes, the message had the current version and the handler of its type ran.\<close>

lemma servlet_dispatch:
  assumes "servlet e others j h0 a buf len st = Inr (st', ev, reply)"
    and "decode_header (buf, h0) = Inr (r, h)" "st' \<noteq> st"
  shows "\<exists>k. strcmp (p_version h) ETHANOL_VERSION = Inr True \<and> servlet_case (m_type h) = Some k \<and>
    run_handler e others j a buf len k st = Inr (st', ev, reply)"
  using assms servlet_case_examples(4)
  by (auto simp: servlet_def and_then_eq_Inr Let_def split: option.split_asm if_split_asm)

lemma servlet_case_writers:
  "servlet_case t = Some H_snr_interval \<Longrightarrow> t = MSG_SET_SNR_INTERVAL"
  "servlet_case t = Some H_snr_threshold \<Longrightarrow> t = MSG_SET_SNR_THRESHOLD"
  "servlet_case t = Some H_mean_sta_statistics \<Longrightarrow> t \<in> {MSG_MEAN_STA_STATISTICS_GET,
     MSG_MEAN_STA_STATISTICS_SET_INTERFACE, MSG_MEAN_STA_STATISTICS_REMOVE_INTERFACE,
     MSG_MEAN_STA_STATISTICS_SET_ALPHA, MSG_MEAN_STA_STATISTICS_SET_TIME}"
  by (drule map_of_SomeD [OF trans [OF servlet_case_def [symmetric]]], simp add: servlet_cases_def)+

lemma decode_header_type:
  assumes "decode_header (b, h0) = Inr (r, h)" "decode_header (b, h1) = Inr (r1, h')"
  shows "m_type h' = m_type h"
  using assms by (auto simp: decode_header_def and_then_eq_Inr into_def)

lemma process_mean_get:
  assumes "process_msg_mean_sta_statistics e now buf j s = Inr (s', ev, reply)"
    and "decode_header (buf, h0) = Inr (r, h)" "m_type h = MSG_MEAN_STA_STATISTICS_GET"
  shows "s' = s"
proof -
  obtain r1 h' where h': "decode_header (buf, j_head j) = Inr (r1, h')"
    using assms(1) by (auto simp: process_msg_mean_sta_statistics_def and_then_eq_Inr)
  have "m_type h' = MSG_MEAN_STA_STATISTICS_GET"
    using decode_header_type [OF assms(2) h'] assms(3) by simp
  then show ?thesis
    using assms(1) h' by (auto simp: process_msg_mean_sta_statistics_def and_then_eq_Inr)
qed

inductive agent_step :: "fpu \<Rightarrow> agent \<Rightarrow> agent \<Rightarrow> bool" for f where
  connection: "serve_connection e others j h0 a accepted received stack sd st = Inr (st', ev, reply)
    \<Longrightarrow> agent_step f st st'"
| collection: "timer_step f (\<lambda>_. False) (collecting st) s \<Longrightarrow> agent_step f st (st\<lparr>collecting := s\<rparr>)"
| daemon: "set_if_hostapd_is_80211e_enabled mal (wmm_table st) intf v = Inr tbl
    \<Longrightarrow> agent_step f st (st\<lparr>wmm_table := tbl\<rparr>)"

definition init_agent :: "fpu \<Rightarrow> agent" where
  "init_agent f = \<lparr>wmm_table = [], snr_intervals = [], snr_thresholds = [], collecting = init_timer f,
     max_tries = 1\<rparr>"

abbreviation agent_reach :: "fpu \<Rightarrow> agent \<Rightarrow> bool" where
  "agent_reach f \<equiv> (agent_step f)\<^sup>*\<^sup>* (init_agent f)"

lemma timer_step_reach:
  "timer_step f ok s s' \<Longrightarrow> collector_reach f (means_list s) \<Longrightarrow> collector_reach f (means_list s')"
proof (induction rule: timer_step.induct)
  case (call usec s)
  then show ?case by simp
next
  case (setter i s created s' x)
  then have "means_list s' = means_list s"
    by (cases "setters s ! i") (auto split: if_split_asm)
  then show ?case using setter by simp
next
  case (worker i s e s0 now s' x)
  then show ?case
    by (cases "workers s ! i") (auto simp: and_then_eq_Inr intro: collector_reach.update)
qed

lemma agent_step_wf: "agent_step f st st' \<Longrightarrow> wf_agent f st \<Longrightarrow> wf_agent f st'"
proof (induction rule: agent_step.induct)
  case (connection e others j h0 a accepted received stack sd st st' ev reply)
  then consider "st' = st" | ev' where
      "servlet e others j h0 a (received @ stack) (length received) st = Inr (st', ev', reply)"
    by (auto simp: serve_connection_def and_then_eq_Inr split: if_split_asm)
  then show ?case
    by cases (use connection.prems servlet_wf in auto)
next
  case (collection st s)
  then show ?case
    by (auto simp: wf_agent_def intro: timer_step_reach)
next
  case (daemon mal st intf v tbl)
  then show ?case
    by (auto simp: wf_agent_def intro: set_80211e_wf)
qed

lemma agent_reach_wf: "agent_reach f st \<Longrightarrow> wf_agent f st"
proof (induction rule: rtranclp_induct)
  case base
  show ?case
    by (simp add: wf_agent_def init_agent_def init_timer_def collector_reach.start)
next
  case (step st st')
  then show ?case using agent_step_wf by blast
qed


subsection \<open>Properties\<close>

text \<open>
  C3 In every state that the agent reaches by handling connections one after the other, whatever bytes its
  clients send, with steps of the collecting threads (a walk over the monitored interfaces counts as one
  step) and calls of the daemon between them, every lookup of a usable interface name succeeds: the
  three tables and the list of monitored interfaces never get an entry that makes a walk fault, and no name
  occurs twice.  Connections that overlap are not covered: the tables are not protected against them.
\<close>

theorem agent_lookups_succeed:
  assumes "agent_reach f st" "named s"
  shows "is_80211e_enabled (wmm_table st) s
        = Inr (case table_map (wmm_table st) (chars s) of None \<Rightarrow> False | Some b \<Rightarrow> b) \<and>
    get_snr_interval (snr_intervals st) s
        = Inr (case table_map (snr_intervals st) (chars s) of None \<Rightarrow> 1000 | Some i \<Rightarrow> i) \<and>
    get_snr_threshold (snr_thresholds st) s
        = Inr (case table_map (snr_thresholds st) (chars s) of None \<Rightarrow> - 50 | Some t \<Rightarrow> t) \<and>
    (\<forall>x. table_map (list_net_statistics (means_list (collecting st))) (chars s) = Some x \<longrightarrow>
       get_mean_net_statistics s (means_list (collecting st)) = Inr (Some (means x)))"
  using agent_reach_wf [OF assms(1)] assms(2) wmm.get_val snr_interval.get_val snr_threshold.get_val
    get_mean_known collector_invariant
  unfolding wf_agent_def by metis

theorem agent_lookups_succeed_witness:
  "\<exists>st. agent_reach demo_fpu st \<and>
     is_80211e_enabled (wmm_table st) demo_name = Inr True \<and>
     get_snr_interval (snr_intervals st) demo_name = Inr 1000"
proof -
  obtain tbl where tbl: "set_if_hostapd_is_80211e_enabled demo_alloc [] demo_name True = Inr tbl"
      "table_map tbl = [chars demo_name \<mapsto> True]"
    using wmm.set_val [OF wmm.inv_empty named_demo allocates_demo_alloc, of True] by auto
  let ?st = "(init_agent demo_fpu)\<lparr>wmm_table := tbl\<rparr>"
  have r: "agent_reach demo_fpu ?st"
    using tbl(1) by (intro r_into_rtranclp agent_step.daemon) (simp add: init_agent_def)
  then show ?thesis
    using agent_lookups_succeed [OF r named_demo] tbl(2) by (intro exI [of _ ?st]) (simp add: init_agent_def)
qed

text \<open>
  C14 Who may change the agent.  A connection changes the global variables of the agent only if the
  message it delivers has the current version and one of six types, and each of the types changes its
  own variable alone: the SNR interval and threshold messages their table, the four messages that
  configure the statistics the state of the collector.
\<close>

theorem agent_writers:
  assumes "serve_connection e others j h0 a accepted received stack sd st = Inr (st', ev, reply)"
    and "decode_header (received @ stack, h0) = Inr (r, h)" and "st' \<noteq> st"
  shows "accepted \<and> strcmp (p_version h) ETHANOL_VERSION = Inr True \<and>
    (m_type h = MSG_SET_SNR_INTERVAL \<and> st' = st\<lparr>snr_intervals := snr_intervals st'\<rparr>
     \<or> m_type h = MSG_SET_SNR_THRESHOLD \<and> st' = st\<lparr>snr_thresholds := snr_thresholds st'\<rparr>
     \<or> m_type h \<in> {MSG_MEAN_STA_STATISTICS_SET_INTERFACE, MSG_MEAN_STA_STATISTICS_REMOVE_INTERFACE,
          MSG_MEAN_STA_STATISTICS_SET_ALPHA, MSG_MEAN_STA_STATISTICS_SET_TIME}
       \<and> st' = st\<lparr>collecting := collecting st'\<rparr>)"
proof -
  have acc: "accepted" and srv: "\<exists>ev. servlet e others j h0 a (received @ stack) (length received) st = Inr (st', ev, reply)"
    using assms(1,3) by (auto simp: serve_connection_def and_then_eq_Inr split: if_split_asm)
  then obtain k ev' where k: "strcmp (p_version h) ETHANOL_VERSION = Inr True" "servlet_case (m_type h) = Some k"
      "run_handler e others j a (received @ stack) (length received) k st = Inr (st', ev', reply)"
    using assms(2,3) servlet_dispatch by blast
  then consider "k = H_snr_interval" | "k = H_snr_threshold" | "k = H_mean_sta_statistics"
    using run_handler_frame [OF k(3)] assms(3) by blast
  then show ?thesis
  proof cases
    case 1
    then have "m_type h = MSG_SET_SNR_INTERVAL" "\<exists>t. st' = st\<lparr>snr_intervals := t\<rparr>"
      using k(2,3) servlet_case_writers by (auto simp: run_writers and_then_eq_Inr)
    then show ?thesis using acc k(1) by auto
  next
    case 2
    then have "m_type h = MSG_SET_SNR_THRESHOLD" "\<exists>t. st' = st\<lparr>snr_thresholds := t\<rparr>"
      using k(2,3) servlet_case_writers by (auto simp: run_writers and_then_eq_Inr)
    then show ?thesis using acc k(1) by auto
  next
    case 3
    then obtain s where s: "st' = st\<lparr>collecting := s\<rparr>" "process_msg_mean_sta_statistics e (j_now j)
        (received @ stack) (j_mean j 0) (collecting st) = Inr (s, ev', reply)"
      using k(3) by (auto simp: run_writers and_then_eq_Inr)
    then have "m_type h \<noteq> MSG_MEAN_STA_STATISTICS_GET"
      using assms(2,3) process_mean_get by fastforce
    then show ?thesis
      using acc k(1) s(1) servlet_case_writers(3) [OF k(2) [unfolded 3]] by auto
  qed
qed

text \<open>A message that sets the interval on the agent itself, as a connection delivers it.\<close>

lemma interval_served:
  assumes q: "ok_snr_interval_msg q" "m_type q = MSG_SET_SNR_INTERVAL" "slen (sta_ip q) = 0" "0 < slen (intf_name q)"
    and "allocates mal" "encode_msg_snr_interval mal q = Inr (q', req)" "allocates (mallocs e)"
    and "wf_table (snr_intervals st)"
  obtains tbl r h where
    "serve_connection e others j h0 a True req stack sd st
       = Inr (st\<lparr>snr_intervals := tbl\<rparr>, [Ssl_Free, Socket_Close sd], None)"
    "table_map tbl = (table_map (snr_intervals st))(chars (intf_name q) \<mapsto> interval q)"
    "decode_header (req @ stack, h0) = Inr (r, h)"
proof -
  obtain i n rest where req: "req = ser_header MSG_SET_SNR_INTERVAL i n @ rest"
    using snr_interval_msg.wire_type [OF q(1) assms(5,6)] q(2) by (auto simp: of_type_def)
  obtain tbl where tbl: "process_msg_snr_interval e (snr_intervals st) (req @ stack) (j_snr_interval j 0)
      (j_snr_interval j 1) = Inr (tbl, [], None)"
      "table_map tbl = (table_map (snr_intervals st))(chars (intf_name q) \<mapsto> interval q)"
    using snr_interval_svc.stored [OF q(1) assms(5,6) q(3,4) assms(8,7)] by blast
  have "servlet_case MSG_SET_SNR_INTERVAL = Some H_snr_interval"
    by (simp add: servlet_case_def servlet_cases_def)
  then have "servlet e others j h0 a (req @ stack) (length req) st = Inr (st\<lparr>snr_intervals := tbl\<rparr>, [], None)"
    using servlet_version [where buf = "req @ stack" and r = "rest @ stack"] tbl(1) req
    by (simp add: run_writers)
  moreover have "req \<noteq> []"
    using length_le_bytes [of 4 n] by (auto simp: req ser_header_def simp del: length_le_bytes)
  moreover obtain r h where "decode_header (req @ stack, h0) = Inr (r, h)"
    using req by (simp add: decode_header_ser)
  ultimately show thesis
    using that [OF _ tbl(2)] by (simp add: serve_connection_def)
qed

text \<open>
  C19 In every reachable state of the agent, a connection that delivers a whole message with the interval of
  one of its interfaces is answered with nothing but the end of the connection, leads to a
  reachable state, and from then on a lookup gives the new interval for that interface and the old
  one for every other.
\<close>

theorem interval_message_takes_effect:
  assumes "agent_reach f st"
    and "ok_snr_interval_msg q" "m_type q = MSG_SET_SNR_INTERVAL" "slen (sta_ip q) = 0" "0 < slen (intf_name q)"
    and "allocates mal" "encode_msg_snr_interval mal q = Inr (q', req)" "allocates (mallocs e)"
  shows "\<exists>st'. serve_connection e others j h0 a True req stack sd st
       = Inr (st', [Ssl_Free, Socket_Close sd], None) \<and> agent_reach f st' \<and>
    (\<forall>s. named s \<longrightarrow> get_snr_interval (snr_intervals st') s =
       (if chars s = chars (intf_name q) then Inr (interval q) else get_snr_interval (snr_intervals st) s))"
proof -
  have wf: "wf_table (snr_intervals st)"
    using agent_reach_wf [OF assms(1)] by (simp add: wf_agent_def)
  obtain tbl where tbl: "serve_connection e others j h0 a True req stack sd st
       = Inr (st\<lparr>snr_intervals := tbl\<rparr>, [Ssl_Free, Socket_Close sd], None)"
    "table_map tbl = (table_map (snr_intervals st))(chars (intf_name q) \<mapsto> interval q)"
    using interval_served [OF assms(2-8) wf] by metis
  have r: "agent_reach f (st\<lparr>snr_intervals := tbl\<rparr>)"
    using rtranclp.rtrancl_into_rtrancl [OF assms(1) agent_step.connection [OF tbl(1)]] .
  have "wf_table tbl"
    using agent_reach_wf [OF r] by (simp add: wf_agent_def)
  then have "get_snr_interval tbl s =
      (if chars s = chars (intf_name q) then Inr (interval q) else get_snr_interval (snr_intervals st) s)"
    if "named s" for s
    using that snr_interval.get_val wf tbl(2) by simp
  then show ?thesis
    using tbl(1) r by (intro exI [of _ "st\<lparr>snr_intervals := tbl\<rparr>"]) simp
qed

definition demo_interval :: msg_snr_interval where
  "demo_interval = \<lparr>m_type = MSG_SET_SNR_INTERVAL, m_id = 8, p_version = ETHANOL_VERSION, m_size = 0,
     intf_name = demo_name, sta_ip = None, sta_port = 0, interval = 250\<rparr>"

lemma demo_interval_ok:
  "ok_snr_interval_msg demo_interval" "m_type demo_interval = MSG_SET_SNR_INTERVAL"
  "slen (sta_ip demo_interval) = 0" "0 < slen (intf_name demo_interval)" "intf_name demo_interval = demo_name"
  "interval demo_interval = 250"
  by (simp_all add: demo_interval_def ok_snr_interval_msg_def ok_header_def bytes_snr_interval_msg_def ok_str_def)

theorem interval_message_takes_effect_witness:
  "\<exists>q' req. encode_msg_snr_interval demo_alloc demo_interval = Inr (q', req) \<and>
     (\<forall>others j h0. \<exists>st'. serve_connection demo_env others j h0 demo_name True req [3] 4 (init_agent demo_fpu)
        = Inr (st', [Ssl_Free, Socket_Close 4], None) \<and> get_snr_interval (snr_intervals st') demo_name = Inr 250)"
proof -
  obtain q' req where e: "encode_msg_snr_interval demo_alloc demo_interval = Inr (q', req)"
    using snr_interval_msg.enc_no_fault [OF demo_interval_ok(1) allocates_demo_alloc] by blast
  have "\<exists>st'. serve_connection demo_env others j h0 demo_name True req [3] 4 (init_agent demo_fpu)
        = Inr (st', [Ssl_Free, Socket_Close 4], None) \<and> get_snr_interval (snr_intervals st') demo_name = Inr 250"
    for others j h0
    using interval_message_takes_effect [OF _ demo_interval_ok(1-4) allocates_demo_alloc e
        allocates_demo_env, where f = demo_fpu and st = "init_agent demo_fpu"
          and others = others and j = j and a = demo_name and stack = "[3]" and sd = 4, of h0] named_demo
    unfolding demo_interval_ok(5,6) by auto
  then show ?thesis using e by blast
qed

theorem agent_writers_witness:
  "\<exists>q' req. encode_msg_snr_interval demo_alloc demo_interval = Inr (q', req) \<and>
     (\<forall>others j h0. \<exists>st'. serve_connection demo_env others j h0 demo_name True req [3] 4 (init_agent demo_fpu)
        = Inr (st', [Ssl_Free, Socket_Close 4], None) \<and> st' \<noteq> init_agent demo_fpu \<and>
        (\<exists>r h. decode_header (req @ [3], h0) = Inr (r, h) \<and> strcmp (p_version h) ETHANOL_VERSION = Inr True))"
proof -
  obtain q' req where e: "encode_msg_snr_interval demo_alloc demo_interval = Inr (q', req)"
    using snr_interval_msg.enc_no_fault [OF demo_interval_ok(1) allocates_demo_alloc] by blast
  have "\<exists>st'. serve_connection demo_env others j h0 demo_name True req [3] 4 (init_agent demo_fpu)
        = Inr (st', [Ssl_Free, Socket_Close 4], None) \<and> st' \<noteq> init_agent demo_fpu \<and>
        (\<exists>r h. decode_header (req @ [3], h0) = Inr (r, h) \<and> strcmp (p_version h) ETHANOL_VERSION = Inr True)"
    for others j h0
  proof -
    have wf: "wf_table (snr_intervals (init_agent demo_fpu))"
      by (simp add: init_agent_def)
    obtain tbl r h where tbl: "serve_connection demo_env others j h0 demo_name True req [3] 4 (init_agent demo_fpu)
         = Inr ((init_agent demo_fpu)\<lparr>snr_intervals := tbl\<rparr>, [Ssl_Free, Socket_Close 4], None)"
      "table_map tbl = (table_map (snr_intervals (init_agent demo_fpu)))(chars demo_name \<mapsto> 250)"
      "decode_header (req @ [3], h0) = Inr (r, h)"
      using interval_served [OF demo_interval_ok(1-4) allocates_demo_alloc e allocates_demo_env wf]
        demo_interval_ok(5,6) by metis
    have "(init_agent demo_fpu)\<lparr>snr_intervals := tbl\<rparr> \<noteq> init_agent demo_fpu"
      using fun_cong [OF tbl(2), of "chars demo_name"] by (auto simp: init_agent_def)
    then show ?thesis
      using agent_writers [OF tbl(1,3)] tbl by blast
  qed
  then show ?thesis using e by blast
qed


subsection \<open>Connections that overlap\<close>

text \<open>
  \<open>set_snr_interval\<close> in the two parts between which another thread can get at the table: the search with, for a
  new name, the allocation of the entry, and the insertion.  One after the other they are
  \<open>set_snr_interval\<close>.
\<close>

datatype interval_writer = W_Search | W_Insert "u8 list" | W_Done

fun set_snr_interval_part ::
  "allocator \<Rightarrow> cstr \<Rightarrow> c_long \<Rightarrow> interval_writer \<Rightarrow> c_long table \<Rightarrow> fault + interval_writer \<times> c_long table" where
  "set_snr_interval_part mal intf t W_Search l = and_then (search l intf) (\<lambda>p. case p of
     Some i \<Rightarrow> Inr (W_Done, l[i := (fst (l ! i), t)])
   | None \<Rightarrow> and_then (new_name mal intf) (\<lambda>n. Inr (W_Insert n, l)))"
| "set_snr_interval_part mal intf t (W_Insert n) l = Inr (W_Done, (n, t) # l)"
| "set_snr_interval_part mal intf t W_Done l = Inr (W_Done, l)"

lemma set_snr_interval_parts:
  "set_snr_interval mal l intf t = and_then (set_snr_interval_part mal intf t W_Search l) (\<lambda>(w, l).
     and_then (set_snr_interval_part mal intf t w l) (\<lambda>(_, l). Inr l))"
proof (cases "search l intf")
  case (Inr p)
  then show ?thesis
    by (cases p; cases "new_name mal intf") (simp_all add: set_snr_interval_def)
qed (simp add: set_snr_interval_def)

text \<open>
  Two threads that set the interval of the same new name at the same time both search before either
  inserts: the name is then in the table twice, and the invariant of the table is lost.
\<close>

theorem set_snr_interval_race:
  assumes "wf_table l" "named s" "table_map l (chars s) = None" "allocates mal"
  shows "\<exists>n. set_snr_interval_part mal s v1 W_Search l = Inr (W_Insert n, l) \<and>
    set_snr_interval_part mal s v2 W_Search l = Inr (W_Insert n, l) \<and>
    set_snr_interval_part mal s v1 (W_Insert n) l = Inr (W_Done, (n, v1) # l) \<and>
    set_snr_interval_part mal s v2 (W_Insert n) ((n, v1) # l) = Inr (W_Done, (n, v2) # (n, v1) # l) \<and>
    \<not> wf_table ((n, v2) # (n, v1) # l)"
proof -
  have "search l s = Inr None"
    using search_wf [OF assms(1,2)] assms(3) by (auto simp: table_map_None)
  moreover obtain n where "new_name mal s = Inr n"
    using new_name_ok [OF assms(2,4)] by metis
  ultimately show ?thesis
    by (intro exI [of _ n]) simp
qed

theorem set_snr_interval_race_witness:
  "\<exists>n. set_snr_interval_part demo_alloc demo_name 100 W_Search [] = Inr (W_Insert n, []) \<and>
     \<not> wf_table [(n, 200 :: c_long), (n, 100)]"
  using set_snr_interval_race [OF _ named_demo _ allocates_demo_alloc, of "[]" 100 200] by auto

end
