(* ===== verification/Snr_Info.thy ===== *)
theory Snr_Info
  imports Intf_Table
begin

section \<open>SNR settings of the sleep loop (\<open>ethanol_functions/set_snr_information.c\<close>)\<close>

text \<open>
  A list of interfaces with a threshold and an interval each, kept in the global \<open>intfs\<close> with
  pointers to its first and last element.  The state is the counter and the list from \<open>First\<close> to
  \<open>Last\<close>.  \<open>stale\<close> says whether the block that \<open>malloc\<close> returned for a new element holds a non-null
  value where the name pointer will be: \<open>createinterface\<close> initialises that pointer for the first
  element only, and \<open>copy_string\<close> frees what it finds there.
\<close>

record snr_information =
  snr_intf :: cstr
  threshold :: c_long
  interval :: c_int

record interfaces =
  num_interfaces :: c_int
  infos :: "snr_information list"

definition no_interfaces :: interfaces where
  "no_interfaces = \<lparr>num_interfaces = 0, infos = []\<rparr>"

abbreviation VAL1 :: nat where "VAL1 \<equiv> 500"
abbreviation VAL2 :: nat where "VAL2 \<equiv> 100"

definition emptyinterfaces :: "interfaces \<Rightarrow> bool" where
  "emptyinterfaces st \<longleftrightarrow> infos st = []"

definition createinterface :: "allocator \<Rightarrow> bool \<Rightarrow> cstr \<Rightarrow> interfaces \<Rightarrow> fault + interfaces" where
  "createinterface mal stale intf st =
     and_then (if \<not> emptyinterfaces st \<and> stale then Inl Invalid_Free else copy_string mal intf) (\<lambda>n.
       Inr \<lparr>num_interfaces = num_interfaces st + 1,
         infos = infos st @ [\<lparr>snr_intf = n, threshold = of_nat VAL2, interval = of_nat VAL1\<rparr>]\<rparr>)"

primrec search_infos :: "snr_information list \<Rightarrow> cstr \<Rightarrow> fault + nat option" where
  "search_infos [] intf = Inr None"
| "search_infos (x # xs) intf = and_then (strcmp (snr_intf x) intf) (\<lambda>eq.
     if eq then Inr (Some 0) else and_then (search_infos xs intf) (\<lambda>i. Inr (map_option Suc i)))"

definition searchinterfaces :: "cstr \<Rightarrow> interfaces \<Rightarrow> fault + nat option" where
  "searchinterfaces intf st =
     (if num_interfaces st = 0 then Inr None else search_infos (infos st) intf)"

definition set_last_threshold :: "c_long \<Rightarrow> interfaces \<Rightarrow> interfaces" where
  "set_last_threshold t st =
     st\<lparr>infos := (infos st)[length (infos st) - 1 := (last (infos st))\<lparr>threshold := t\<rparr>]\<rparr>"

text \<open>For a new interface \<open>set_interval\<close> assigns the threshold.\<close>

definition set_interval :: "allocator \<Rightarrow> bool \<Rightarrow> c_int \<Rightarrow> cstr \<Rightarrow> interfaces \<Rightarrow> fault + interfaces" where
  "set_interval mal stale t intf st = and_then (searchinterfaces intf st) (\<lambda>p.
     case p of
       None \<Rightarrow> and_then (createinterface mal stale intf st) (\<lambda>st. Inr (set_last_threshold (scast t) st))
     | Some i \<Rightarrow> Inr (st\<lparr>infos := (infos st)[i := (infos st ! i)\<lparr>interval := t\<rparr>]\<rparr>))"

definition return_interval :: "cstr \<Rightarrow> interfaces \<Rightarrow> fault + c_int" where
  "return_interval intf st = and_then (searchinterfaces intf st) (\<lambda>p.
     case p of None \<Rightarrow> Inr (of_nat VAL2) | Some i \<Rightarrow> Inr (interval (infos st ! i)))"

definition set_threshold :: "allocator \<Rightarrow> bool \<Rightarrow> c_long \<Rightarrow> cstr \<Rightarrow> interfaces \<Rightarrow> fault + interfaces" where
  "set_threshold mal stale t intf st = and_then (searchinterfaces intf st) (\<lambda>p.
     case p of
       None \<Rightarrow> and_then (createinterface mal stale intf st) (\<lambda>st. Inr (set_last_threshold t st))
     | Some i \<Rightarrow> Inr (st\<lparr>infos := (infos st)[i := (infos st ! i)\<lparr>threshold := t\<rparr>]\<rparr>))"

definition return_threshold :: "cstr \<Rightarrow> interfaces \<Rightarrow> fault + c_long" where
  "return_threshold intf st = and_then (searchinterfaces intf st) (\<lambda>p.
     case p of None \<Rightarrow> Inr (of_nat VAL1) | Some i \<Rightarrow> Inr (threshold (infos st ! i)))"


subsection \<open>Searching\<close>

text \<open>The counter is the length of the list, and the names are different strings.\<close>

definition wf_interfaces :: "interfaces \<Rightarrow> bool" where
  "wf_interfaces st \<longleftrightarrow> num_interfaces st = word_of_nat (length (infos st)) \<and>
     length (infos st) < 2 ^ 32 - 1 \<and> (\<forall>x\<in>set (infos st). named (snr_intf x)) \<and>
     distinct (map (\<lambda>x. chars (snr_intf x)) (infos st))"

text \<open>The position of a name, and the specification of the search by it.\<close>

fun position :: "u8 list \<Rightarrow> snr_information list \<Rightarrow> nat option" where
  "position k [] = None"
| "position k (x # xs) = (if chars (snr_intf x) = k then Some 0 else map_option Suc (position k xs))"

lemma search_infos_position:
  "\<forall>x\<in>set xs. named (snr_intf x) \<Longrightarrow> named s \<Longrightarrow> search_infos xs s = Inr (position (chars s) xs)"
  by (induction xs) (simp_all add: strcmp_named)

lemma searchinterfaces_position:
  assumes "wf_interfaces st" "named s"
  shows "searchinterfaces s st = Inr (position (chars s) (infos st))"
proof (cases "infos st = []")
  case True
  then show ?thesis using assms by (simp add: searchinterfaces_def wf_interfaces_def)
next
  case False
  have "num_interfaces st \<noteq> 0"
    using assms(1) False unat_word_of_small [of "length (infos st)"]
    by (auto simp: wf_interfaces_def)
  then show ?thesis
    using assms search_infos_position [of "infos st" s] by (simp add: searchinterfaces_def wf_interfaces_def)
qed

lemma position_Some:
  "position k xs = Some i \<Longrightarrow> i < length xs \<and> chars (snr_intf (xs ! i)) = k"
  by (induction xs arbitrary: i) (auto split: if_splits)

lemma position_None: "position k xs = None \<longleftrightarrow> k \<notin> (\<lambda>x. chars (snr_intf x)) ` set xs"
  by (induction xs) auto

lemma position_append:
  "position k (xs @ ys) = (case position k xs of Some i \<Rightarrow> Some i
     | None \<Rightarrow> map_option (\<lambda>i. length xs + i) (position k ys))"
  by (induction xs) (cases "position k ys"; auto split: option.splits)+

lemma position_update:
  "i < length xs \<Longrightarrow> chars (snr_intf y) = chars (snr_intf (xs ! i)) \<Longrightarrow> position k (xs[i := y]) = position k xs"
  by (induction xs arbitrary: i) (auto simp: nth_Cons split: nat.splits)

lemma last_update: "xs \<noteq> [] \<Longrightarrow> (xs @ [y])[length xs := z] = xs @ [z]"
  by simp


subsection \<open>Creating an element\<close>

text \<open>When the element can be created: the name can be copied, and no stale pointer is freed.\<close>

definition creatable :: "allocator \<Rightarrow> bool \<Rightarrow> cstr \<Rightarrow> interfaces \<Rightarrow> bool" where
  "creatable mal stale s st \<longleftrightarrow> copyable mal s \<and> s \<noteq> None \<and> (infos st = [] \<or> \<not> stale) \<and>
     length (infos st) < 2 ^ 32 - 2"

lemma create_new:
  assumes "wf_interfaces st" "creatable mal stale s st" "position (chars s) (infos st) = None"
  shows "createinterface mal stale s st = Inr \<lparr>num_interfaces = num_interfaces st + 1,
      infos = infos st @ [\<lparr>snr_intf = dup mal s, threshold = 100, interval = 500\<rparr>]\<rparr>"
    and "wf_interfaces \<lparr>num_interfaces = num_interfaces st + 1,
      infos = infos st @ [\<lparr>snr_intf = dup mal s, threshold = t, interval = i\<rparr>]\<rparr>"
proof -
  have d: "copyable mal s" "s \<noteq> None"
    using assms(2) by (simp_all add: creatable_def)
  then show "createinterface mal stale s st = Inr \<lparr>num_interfaces = num_interfaces st + 1,
      infos = infos st @ [\<lparr>snr_intf = dup mal s, threshold = 100, interval = 500\<rparr>]\<rparr>"
    using assms(2) by (auto simp: createinterface_def creatable_def emptyinterfaces_def)
  have "named (dup mal s)"
    using d ok_strD(1) [OF dup_simps(3)] by (simp add: named_def)
  then show "wf_interfaces \<lparr>num_interfaces = num_interfaces st + 1,
      infos = infos st @ [\<lparr>snr_intf = dup mal s, threshold = t, interval = i\<rparr>]\<rparr>"
    using assms d(1) by (auto simp: wf_interfaces_def creatable_def position_None)
qed

lemma set_last_threshold_append [simp]:
  "set_last_threshold t \<lparr>num_interfaces = n, infos = xs @ [\<lparr>snr_intf = d, threshold = a, interval = b\<rparr>]\<rparr>
     = \<lparr>num_interfaces = n, infos = xs @ [\<lparr>snr_intf = d, threshold = t, interval = b\<rparr>]\<rparr>"
  by (simp add: set_last_threshold_def)


subsection \<open>Properties\<close>

text \<open>
  \<open>set_threshold\<close> does what it says: afterwards \<open>return_threshold\<close> gives the new value for the
  interface, known or new, and the list is well-formed again; other interfaces keep theirs.
\<close>

theorem set_threshold_return:
  assumes "wf_interfaces st" "named s" "creatable mal stale s st"
  shows "\<exists>st'. set_threshold mal stale t s st = Inr st' \<and> wf_interfaces st' \<and>
    return_threshold s st' = Inr t \<and>
    (\<forall>n. named n \<and> chars n \<noteq> chars s \<longrightarrow> return_threshold n st' = return_threshold n st)"
proof (cases "position (chars s) (infos st)")
  case None
  let ?st = "\<lparr>num_interfaces = num_interfaces st + 1,
      infos = infos st @ [\<lparr>snr_intf = dup mal s, threshold = t, interval = 500\<rparr>]\<rparr>"
  have wf: "wf_interfaces ?st"
    by (rule create_new [OF assms(1,3) None])
  have c: "copyable mal s"
    using assms(3) by (simp add: creatable_def)
  have "set_threshold mal stale t s st = Inr ?st"
    using create_new(1) [OF assms(1,3) None] None searchinterfaces_position [OF assms(1,2)]
    by (simp add: set_threshold_def)
  moreover have "return_threshold s ?st = Inr t"
    using searchinterfaces_position [OF wf assms(2)] None c
    by (simp add: return_threshold_def position_append)
  moreover have "return_threshold n ?st = return_threshold n st" if "named n" "chars n \<noteq> chars s" for n
    using searchinterfaces_position [OF wf that(1)] searchinterfaces_position [OF assms(1) that(1)] that(2) c
    by (auto simp: return_threshold_def position_append nth_append position_Some split: option.splits)
  ultimately show ?thesis using wf by blast
next
  case (Some i)
  let ?st = "st\<lparr>infos := (infos st)[i := (infos st ! i)\<lparr>threshold := t\<rparr>]\<rparr>"
  have i: "i < length (infos st)" "chars (snr_intf (infos st ! i)) = chars s"
    using position_Some [OF Some] by auto
  have m: "map (\<lambda>x. chars (snr_intf x)) (infos ?st) = map (\<lambda>x. chars (snr_intf x)) (infos st)"
    using i by (intro nth_equalityI) (simp_all add: nth_list_update)
  have wf: "wf_interfaces ?st"
    using assms(1) i(1) m by (auto simp: wf_interfaces_def dest!: set_update_subset_insert [THEN subsetD])
  have p: "position k (infos ?st) = position k (infos st)" for k
    using i(1) by (simp add: position_update)
  have "set_threshold mal stale t s st = Inr ?st"
    using Some searchinterfaces_position [OF assms(1,2)] by (simp add: set_threshold_def)
  moreover have "return_threshold s ?st = Inr t"
    using searchinterfaces_position [OF wf assms(2)] Some p [of "chars s"] i(1)
    by (simp add: return_threshold_def)
  moreover have "return_threshold n ?st = return_threshold n st" if "named n" "chars n \<noteq> chars s" for n
    using searchinterfaces_position [OF wf that(1)] searchinterfaces_position [OF assms(1) that(1)] that(2)
      p [of "chars n"] i position_Some [of "chars n" "infos st"]
    by (auto simp: return_threshold_def nth_list_update split: option.splits)
  ultimately show ?thesis using wf by blast
qed

theorem set_threshold_return_witness:
  "\<exists>st'. set_threshold demo_alloc True 9 demo_name no_interfaces = Inr st' \<and> wf_interfaces st'
     \<and> return_threshold demo_name st' = Inr 9"
proof -
  have w: "wf_interfaces no_interfaces" "creatable demo_alloc True demo_name no_interfaces"
    by (simp_all add: wf_interfaces_def no_interfaces_def creatable_def copyable_demo_alloc)
  show ?thesis
    using set_threshold_return [OF w(1) named_demo w(2), of 9] by blast
qed

text \<open>
  \<open>set_interval\<close> of an interface that is not in the list yet does not set its interval: it
  overwrites the threshold with the value, and \<open>return_interval\<close> gives the initial 500 ms.
\<close>

theorem set_interval_new:
  assumes "wf_interfaces st" "named s" "creatable mal stale s st"
    and new: "chars s \<notin> (\<lambda>x. chars (snr_intf x)) ` set (infos st)"
  shows "\<exists>st'. set_interval mal stale t s st = Inr st' \<and> wf_interfaces st' \<and>
    return_interval s st' = Inr 500 \<and> return_threshold s st' = Inr (scast t)"
proof -
  have None: "position (chars s) (infos st) = None"
    using new by (simp add: position_None)
  let ?st = "\<lparr>num_interfaces = num_interfaces st + 1,
      infos = infos st @ [\<lparr>snr_intf = dup mal s, threshold = scast t, interval = 500\<rparr>]\<rparr>"
  have wf: "wf_interfaces ?st"
    by (rule create_new [OF assms(1,3) None])
  have "set_interval mal stale t s st = Inr ?st"
    using create_new(1) [OF assms(1,3) None] None searchinterfaces_position [OF assms(1,2)]
    by (simp add: set_interval_def)
  moreover have "copyable mal s"
    using assms(3) by (simp add: creatable_def)
  then have "return_interval s ?st = Inr 500" "return_threshold s ?st = Inr (scast t)"
    using searchinterfaces_position [OF wf assms(2)] None
    by (simp_all add: return_threshold_def return_interval_def position_append)
  ultimately show ?thesis using wf by blast
qed

theorem set_interval_new_witness:
  "\<exists>st'. set_interval demo_alloc True 2000 demo_name no_interfaces = Inr st' \<and>
     return_interval demo_name st' = Inr 500 \<and> return_threshold demo_name st' = Inr 2000"
proof -
  have w: "wf_interfaces no_interfaces" "creatable demo_alloc True demo_name no_interfaces"
      "chars demo_name \<notin> (\<lambda>x. chars (snr_intf x)) ` set (infos no_interfaces)"
    by (simp_all add: wf_interfaces_def no_interfaces_def creatable_def copyable_demo_alloc)
  show ?thesis
    using set_interval_new [OF w(1) named_demo w(2,3), of 2000] by auto
qed

end
