(* ===== verification/Sleep_Queue.thy ===== *)
theory Sleep_Queue
  imports Snr_Info "HOL-Library.Multiset"
begin

section \<open>The sleep loop (\<open>ethanol_functions/sleep_intervals.c\<close>)\<close>

text \<open>
  The station measures the SNR of each interface at the interval that \<open>set_snr_information.c\<close> keeps
  for it.  \<open>return_interface_list\<close> sleeps until the next measurement is due and returns the names of
  the interfaces to measure.  The list \<open>intervallist\<close> is ordered by time and holds differences: the
  \<open>sleep_time\<close> of an element is the time that remains after the element before it is due.
  Elements that are due are moved to the list \<open>aux\<close> and inserted again with their full interval.

  The lists have a pointer to their first and to their last element.  Every operation that appends
  sets \<open>last\<close>, and a list that has become empty is recognised by \<open>first\<close>, so the model is the list
  of the elements.  In \<open>sleep_remove\<close> an element that is removed is the first one each time.
\<close>

record intervals =
  iv_name :: cstr
  iv_interval :: c_int
  sleep_time :: c_int
  iv_sleep :: bool

text \<open>\<open>due\<close> is the array \<open>interfaceslist.intf_name\<close>, with \<open>num_aux\<close> elements.\<close>

record sleeper =
  intervallist :: "intervals list"
  aux :: "intervals list"
  num_aux :: nat
  due :: "cstr list"

definition no_sleeper :: sleeper where
  "no_sleeper = \<lparr>intervallist = [], aux = [], num_aux = 0, due = []\<rparr>"


subsection \<open>Operations\<close>

primrec verify :: "intervals list \<Rightarrow> cstr \<Rightarrow> fault + bool" where
  "verify [] intf = Inr False"
| "verify (y # ys) intf = and_then (strcmp (iv_name y) intf) (\<lambda>eq. if eq then Inr True else verify ys intf)"

text \<open>
  The loop that looks for a place: behind an element with a smaller \<open>sleep_time\<close> that is the last
  one or is followed by one that is not smaller.  There is none when the loop ends.
\<close>

fun place :: "intervals \<Rightarrow> intervals list \<Rightarrow> intervals list option" where
  "place x [] = None"
| "place x [y] = (if sleep_time y <s sleep_time x then Some [y, x] else None)"
| "place x (y # z # zs) =
     (if sleep_time y <s sleep_time x \<and> sleep_time x \<le>s sleep_time z then Some (y # x # z # zs)
      else map_option (Cons y) (place x (z # zs)))"

definition put_in_order :: "intervals \<Rightarrow> intervals list \<Rightarrow> intervals list" where
  "put_in_order x ys = (case place x ys of None \<Rightarrow> x # ys | Some zs \<Rightarrow> zs)"

definition insert_on_list :: "allocator \<Rightarrow> c_int \<Rightarrow> cstr \<Rightarrow> intervals list step" where
  "insert_on_list mal i intf l =
     and_then (copy_string mal intf) (\<lambda>n.
     and_then (verify l intf) (\<lambda>known.
       if known then Inr l
       else Inr (put_in_order \<lparr>iv_name = n, iv_interval = i, sleep_time = i, iv_sleep = False\<rparr> l)))"

definition create_list :: "allocator \<Rightarrow> interfaces \<Rightarrow> intervals list step" where
  "create_list mal st = run_prog (map (\<lambda>x. insert_on_list mal (interval x) (snr_intf x)) (infos st))"

primrec set_differences :: "c_int \<Rightarrow> intervals list \<Rightarrow> intervals list" where
  "set_differences prev [] = []"
| "set_differences prev (y # ys) =
     (if iv_sleep y then y else y\<lparr>sleep_time := iv_interval y - prev, iv_sleep := True\<rparr>)
     # set_differences (iv_interval y) ys"

fun set_sleep_time :: "intervals list step" where
  "set_sleep_time [] = Inl Null_Dereference"
| "set_sleep_time (y # ys) = Inr (y\<lparr>iv_sleep := True\<rparr> # set_differences (iv_interval y) ys)"

definition insert_on_aux :: "allocator \<Rightarrow> c_int \<Rightarrow> cstr \<Rightarrow> intervals list step" where
  "insert_on_aux mal i intf l = and_then (copy_string mal intf) (\<lambda>n.
     Inr (put_in_order \<lparr>iv_name = n, iv_interval = i, sleep_time = i, iv_sleep = True\<rparr> l))"

primrec sleep_remove ::
  "allocator \<Rightarrow> intervals list \<Rightarrow> intervals list \<Rightarrow> nat \<Rightarrow> fault + intervals list \<times> intervals list \<times> nat" where
  "sleep_remove mal [] a n = Inr ([], a, n)"
| "sleep_remove mal (y # ys) a n =
     (if sleep_time y \<noteq> 0 then Inr (y # ys, a, n)
      else and_then (insert_on_aux mal (iv_interval y) (iv_name y) a) (\<lambda>a. sleep_remove mal ys a (n + 1)))"

text \<open>The loop of \<open>sleep_insert\<close>, which turns the time of the new element into a difference.\<close>

primrec delta_insert :: "intervals \<Rightarrow> intervals list \<Rightarrow> intervals list" where
  "delta_insert x [] = [x]"
| "delta_insert x (y # ys) =
     (if sleep_time x <s sleep_time y then x # y\<lparr>sleep_time := sleep_time y - sleep_time x\<rparr> # ys
      else y # delta_insert (x\<lparr>sleep_time := sleep_time x - sleep_time y\<rparr>) ys)"

text \<open>\<open>k\<close> is the number of elements of the array of names that are not written yet.\<close>

primrec sleep_insert ::
  "allocator \<Rightarrow> intervals list \<Rightarrow> nat \<Rightarrow> intervals list \<Rightarrow> fault + intervals list \<times> cstr list" where
  "sleep_insert mal [] k l = Inr (l, [])"
| "sleep_insert mal (c # cs) k l =
     and_then (copy_string mal (iv_name c)) (\<lambda>n.
     if k = 0 then Inl Write_Out_Of_Bounds
     else and_then (copy_string mal (iv_name c)) (\<lambda>d.
       and_then (sleep_insert mal cs (k - 1)
         (delta_insert \<lparr>iv_name = n, iv_interval = iv_interval c, sleep_time = iv_interval c, iv_sleep = True\<rparr> l))
         (\<lambda>(l, ds). Inr (l, d # ds))))"

text \<open>The time slept, in milliseconds, is the first result.\<close>

definition execute_sleep :: "allocator \<Rightarrow> sleeper \<Rightarrow> fault + c_int \<times> sleeper" where
  "execute_sleep mal s = (case intervallist s of
       [] \<Rightarrow> Inl Null_Dereference
     | y # ys \<Rightarrow>
         and_then (sleep_remove mal (y\<lparr>sleep_time := 0\<rparr> # ys) (aux s) (num_aux s)) (\<lambda>(l, a, n).
         and_then (sleep_insert mal a n l) (\<lambda>(l, ds).
           Inr (sleep_time y, \<lparr>intervallist = l, aux = a, num_aux = n, due = ds\<rparr>))))"

definition freeaux :: "sleeper \<Rightarrow> sleeper" where
  "freeaux s = s\<lparr>aux := []\<rparr>"

definition freeinterfacelist :: "sleeper \<Rightarrow> sleeper" where
  "freeinterfacelist s = s\<lparr>due := [], num_aux := 0\<rparr>"

definition return_interface_list :: "allocator \<Rightarrow> interfaces \<Rightarrow> sleeper \<Rightarrow> fault + c_int \<times> sleeper" where
  "return_interface_list mal st s =
     and_then (create_list mal st (intervallist s)) (\<lambda>l.
     and_then (set_sleep_time l) (\<lambda>l.
     and_then (execute_sleep mal (s\<lparr>intervallist := l\<rparr>)) (\<lambda>(slept, s).
       Inr (slept, freeaux s))))"

text \<open>
  The loop of the program: wake up, measure the interfaces that are due, free their list.  The log
  has the time of each wake-up since the start and the names.
\<close>

fun wake_ups ::
  "allocator \<Rightarrow> interfaces \<Rightarrow> nat \<Rightarrow> int \<Rightarrow> sleeper \<Rightarrow> fault + (int \<times> u8 list multiset) list" where
  "wake_ups mal st 0 t s = Inr []"
| "wake_ups mal st (Suc n) t s = and_then (return_interface_list mal st s) (\<lambda>(slept, s').
     and_then (wake_ups mal st n (t + sint slept) (freeinterfacelist s')) (\<lambda>log.
       Inr ((t + sint slept, mset (map chars (due s'))) # log)))"


subsection \<open>The plan\<close>

text \<open>
  The abstract state: for each interface its name, its interval and the time until it is due, which
  is the sum of the differences up to it.
\<close>

definition iv_key :: "intervals \<Rightarrow> u8 list \<times> int" where
  "iv_key y = (chars (iv_name y), sint (iv_interval y))"

primrec plan_from :: "int \<Rightarrow> intervals list \<Rightarrow> ((u8 list \<times> int) \<times> int) list" where
  "plan_from a [] = []"
| "plan_from a (y # ys) = (iv_key y, a + sint (sleep_time y)) # plan_from (a + sint (sleep_time y)) ys"

abbreviation plan :: "intervals list \<Rightarrow> ((u8 list \<times> int) \<times> int) multiset" where
  "plan l \<equiv> mset (plan_from 0 l)"

definition forward :: "intervals list \<Rightarrow> bool" where
  "forward l \<longleftrightarrow> (\<forall>y\<in>set l. 0 \<le> sint (sleep_time y))"

lemma forward_simps [simp]:
  "forward []" "forward (y # ys) \<longleftrightarrow> 0 \<le> sint (sleep_time y) \<and> forward ys"
  by (simp_all add: forward_def)

lemma sint_minus_nonneg:
  assumes "0 \<le> sint a" "0 \<le> sint (b :: c_int)"
  shows "sint (a - b) = sint a - sint b"
proof -
  have "sint (a - b) = signed_take_bit 31 (sint a - sint b)"
    by (simp only: sint_word_ariths) simp
  moreover have "sint a < 2 ^ 31" "sint b < 2 ^ 31"
    using sint_lt [of a] sint_lt [of b] by simp_all
  ultimately show ?thesis
    using assms by (simp add: signed_take_bit_int_eq_self)
qed

lemma sint_eq_0 [simp]: "sint (w :: c_int) = 0 \<longleftrightarrow> w = 0"
proof
  have "of_int (sint w) = w" by simp
  then show "sint w = 0 \<Longrightarrow> w = 0" by simp
qed simp

lemma iv_key_update [simp]: "iv_key (y\<lparr>sleep_time := t\<rparr>) = iv_key y" "iv_key (y\<lparr>iv_sleep := f\<rparr>) = iv_key y"
  by (simp_all add: iv_key_def)

text \<open>The insertion with differences adds one entry to the plan and leaves the others alone.\<close>

lemma delta_insert_plan:
  assumes "forward l" "0 \<le> sint (sleep_time x)"
  shows "mset (plan_from a (delta_insert x l)) = add_mset (iv_key x, a + sint (sleep_time x)) (mset (plan_from a l))
    \<and> forward (delta_insert x l)"
  using assms
proof (induction l arbitrary: a x)
  case Nil
  then show ?case by simp
next
  case (Cons y ys)
  show ?case
  proof (cases "sint (sleep_time x) < sint (sleep_time y)")
    case True
    then show ?thesis
      using Cons.prems by (simp add: word_sless_alt sint_minus_nonneg)
  next
    case False
    then have "0 \<le> sint (sleep_time x - sleep_time y)"
      using Cons.prems by (simp add: sint_minus_nonneg)
    then show ?thesis
      using Cons False by (simp add: word_sless_alt sint_minus_nonneg)
  qed
qed

definition usable :: "allocator \<Rightarrow> intervals \<Rightarrow> bool" where
  "usable mal y \<longleftrightarrow> copyable mal (iv_name y) \<and> iv_name y \<noteq> None"

lemma usable_update [simp]:
  "usable mal (y\<lparr>sleep_time := t\<rparr>) = usable mal y" "usable mal (y\<lparr>iv_sleep := b\<rparr>) = usable mal y"
  by (simp_all add: usable_def)

lemma usable_copy:
  assumes "usable mal y"
  shows "usable mal \<lparr>iv_name = dup mal (iv_name y), iv_interval = i, sleep_time = t, iv_sleep = b\<rparr>"
    and "iv_key \<lparr>iv_name = dup mal (iv_name y), iv_interval = iv_interval y, sleep_time = t, iv_sleep = b\<rparr> = iv_key y"
    and "copy_string mal (iv_name y) = Inr (dup mal (iv_name y))"
  using assms copyable_dup [of mal "iv_name y"] by (simp_all add: usable_def iv_key_def del: not_None_eq)

lemma delta_insert_set:
  "iv_key ` set (delta_insert x l) = insert (iv_key x) (iv_key ` set l)"
  "(\<forall>y\<in>set (delta_insert x l). iv_sleep y \<and> usable mal y) \<longleftrightarrow>
     iv_sleep x \<and> usable mal x \<and> (\<forall>y\<in>set l. iv_sleep y \<and> usable mal y)"
  by (induction l arbitrary: x) (auto simp: usable_def)

lemma plan_from_keys: "map fst (plan_from a l) = map iv_key l"
  by (induction l arbitrary: a) simp_all

lemma mset_put_in_order: "mset (put_in_order x l) = add_mset x (mset l)"
proof -
  have "place x l = Some l' \<Longrightarrow> mset l' = add_mset x (mset l)" for l'
    by (induction x l arbitrary: l' rule: place.induct) (auto split: if_splits)
  then show ?thesis
    by (simp add: put_in_order_def split: option.split)
qed

text \<open>
  Removing what is due: on a list whose differences are not negative, the elements with time 0 are
  at the front.
\<close>

lemma plan_positive:
  "forward l \<Longrightarrow> (k, t) \<in> set (plan_from a l) \<Longrightarrow> a \<le> t"
  by (induction l arbitrary: a) fastforce+

lemma sleep_remove_plan:
  assumes "forward l" "\<forall>y\<in>set l. usable mal y"
  shows "\<exists>l' a' n'. sleep_remove mal l a n = Inr (l', a', n') \<and>
    plan l' = filter_mset (\<lambda>p. snd p \<noteq> 0) (plan l) \<and>
    image_mset iv_key (mset a') = image_mset iv_key (mset a) + image_mset fst (filter_mset (\<lambda>p. snd p = 0) (plan l)) \<and>
    n' + length a = n + length a' \<and> set l' \<subseteq> set l \<and>
    ((\<forall>y\<in>set a. usable mal y) \<longrightarrow> (\<forall>y\<in>set a'. usable mal y))"
  using assms
proof (induction l arbitrary: a n)
  case Nil
  then show ?case by simp
next
  case (Cons y ys)
  show ?case
  proof (cases "sleep_time y = 0")
    case False
    then have "0 < sint (sleep_time y)"
      using Cons.prems by (simp add: order_less_le)
    then have "filter (\<lambda>p. snd p \<noteq> 0) (plan_from (sint (sleep_time y)) ys) = plan_from (sint (sleep_time y)) ys"
      "filter (\<lambda>p. snd p = 0) (plan_from (sint (sleep_time y)) ys) = []"
      using plan_positive [of ys _ _ "sint (sleep_time y)"] Cons.prems
      by (force simp: filter_id_conv filter_empty_conv)+
    then show ?thesis
      using False by (auto simp flip: mset_filter)
  next
    case True
    let ?x = "\<lparr>iv_name = dup mal (iv_name y), iv_interval = iv_interval y, sleep_time = iv_interval y, iv_sleep = True\<rparr>"
    have c: "usable mal y"
      using Cons.prems by simp
    then have "insert_on_aux mal (iv_interval y) (iv_name y) a = Inr (put_in_order ?x a)"
      by (simp add: insert_on_aux_def usable_copy)
    moreover have "iv_key ?x = iv_key y" "usable mal ?x"
      using usable_copy [OF c] by simp_all
    moreover have "set (put_in_order ?x a) = insert ?x (set a)"
      using arg_cong [OF mset_put_in_order [of ?x a], of set_mset] by simp
    moreover have "length (put_in_order ?x a) = Suc (length a)"
      using arg_cong [OF mset_put_in_order [of ?x a], of size] by simp
    ultimately show ?thesis
      using Cons.IH [of "put_in_order ?x a" "n + 1"] Cons.prems True mset_put_in_order [of ?x a]
      by auto
  qed
qed

text \<open>Inserting them again: each gets its whole interval, and its name is reported.\<close>

definition ready :: "allocator \<Rightarrow> intervals list \<Rightarrow> bool" where
  "ready mal l \<longleftrightarrow> forward l \<and> (\<forall>y\<in>set l. iv_sleep y \<and> usable mal y)"

lemma sleep_insert_plan:
  assumes "ready mal l" "length cs \<le> k"
    and "\<forall>c\<in>set cs. usable mal c \<and> 0 \<le> sint (iv_interval c)"
  shows "\<exists>l' ds. sleep_insert mal cs k l = Inr (l', ds) \<and> ready mal l' \<and>
    plan l' = image_mset (\<lambda>c. (iv_key c, snd (iv_key c))) (mset cs) + plan l \<and>
    map chars ds = map (\<lambda>c. chars (iv_name c)) cs"
  using assms
proof (induction cs arbitrary: k l)
  case Nil
  then show ?case by simp
next
  case (Cons c cs)
  let ?x = "\<lparr>iv_name = dup mal (iv_name c), iv_interval = iv_interval c, sleep_time = iv_interval c, iv_sleep = True\<rparr>"
  have c: "usable mal c" "0 \<le> sint (iv_interval c)"
    using Cons.prems by simp_all
  note copy = usable_copy [OF c(1)]
  have d: "chars (dup mal (iv_name c)) = chars (iv_name c)"
    using c(1) by (simp add: usable_def)
  have "forward l" "0 \<le> sint (sleep_time ?x)"
    using Cons.prems(1) c by (simp_all add: ready_def)
  note ins = delta_insert_plan [OF this, of 0]
  then have r: "ready mal (delta_insert ?x l)"
    using Cons.prems(1) copy(1) delta_insert_set(2) [of ?x l mal] by (simp add: ready_def)
  have "length cs \<le> k - 1"
    using Cons.prems(2) by simp
  from Cons.IH [OF r this] obtain l' ds where "sleep_insert mal cs (k - 1) (delta_insert ?x l) = Inr (l', ds)"
      "ready mal l'" "plan l' = image_mset (\<lambda>c. (iv_key c, snd (iv_key c))) (mset cs) + plan (delta_insert ?x l)"
      "map chars ds = map (\<lambda>c. chars (iv_name c)) cs"
    using Cons.prems(3) by auto
  then show ?case
    using c ins copy d Cons.prems(2) by (simp add: iv_key_def [of c])
qed

lemma plan_shift: "plan_from (a - d) l = map (\<lambda>(k, t). (k, t - d)) (plan_from a l)"
  by (induction l arbitrary: a) (simp_all add: diff_add_eq)

lemma restart_due:
  "image_mset (\<lambda>k. (k, snd k)) (image_mset fst (filter_mset (\<lambda>p. snd p = 0) (image_mset (\<lambda>(k, t). (k, t - d)) M)))
     + filter_mset (\<lambda>p. snd p \<noteq> 0) (image_mset (\<lambda>(k, t). (k, t - d)) M)
   = image_mset (\<lambda>(k, t). (k, if t = d then snd k else t - (d :: int))) M"
  by (induction M) auto

lemma names_due:
  "image_mset fst (image_mset fst (filter_mset (\<lambda>p. snd p = 0) (image_mset (\<lambda>(k, t). (k, t - d)) M)))
   = image_mset (\<lambda>p. fst (fst p)) (filter_mset (\<lambda>p. snd p = (d :: int)) M)"
  by (induction M) auto

text \<open>One sleep, on the plan: the time of everybody goes down by what was slept, and who is due starts again.\<close>

lemma execute_sleep_plan:
  assumes "ready mal (y # ys)" "\<forall>p\<in>#plan (y # ys). 0 \<le> snd (fst p)"
  shows "\<exists>s'. execute_sleep mal \<lparr>intervallist = y # ys, aux = [], num_aux = 0, due = d\<rparr> = Inr (sleep_time y, s') \<and>
    ready mal (intervallist s') \<and>
    plan (intervallist s') = image_mset (\<lambda>(k, t). (k, if t = sint (sleep_time y) then snd k else t - sint (sleep_time y)))
      (plan (y # ys)) \<and>
    mset (map chars (due s')) = image_mset (\<lambda>p. fst (fst p)) (filter_mset (\<lambda>p. snd p = sint (sleep_time y)) (plan (y # ys)))"
proof -
  let ?t = "sint (sleep_time y)" and ?l = "y\<lparr>sleep_time := 0\<rparr> # ys"
  have "plan_from 0 ?l = map (\<lambda>(k, t). (k, t - ?t)) (plan_from 0 (y # ys))"
    using plan_shift [of ?t ?t ys] by simp
  then have pl: "plan ?l = image_mset (\<lambda>(k, t). (k, t - ?t)) (plan (y # ys))"
    by (simp only: mset_map)
  have "forward ?l" "\<forall>y\<in>set ?l. usable mal y"
    using assms(1) by (auto simp: ready_def usable_def)
  from sleep_remove_plan [OF this, of "[]" 0] obtain l' a' n' where
    r: "sleep_remove mal ?l [] 0 = Inr (l', a', n')" "plan l' = filter_mset (\<lambda>p. snd p \<noteq> 0) (plan ?l)"
      "image_mset iv_key (mset a') = image_mset fst (filter_mset (\<lambda>p. snd p = 0) (plan ?l))"
      "n' = length a'" "set l' \<subseteq> set ?l" "\<forall>y\<in>set a'. usable mal y"
    by auto
  have l': "ready mal l'"
    using r(5) assms(1) by (auto simp: ready_def forward_def usable_def)
  have "0 \<le> sint (iv_interval c)" if "c \<in> set a'" for c
  proof -
    have "iv_key c \<in># image_mset fst (filter_mset (\<lambda>p. snd p = 0) (plan ?l))"
      using that unfolding r(3) [symmetric] by simp
    then show ?thesis
      using assms(2) unfolding pl by (auto simp: iv_key_def)
  qed
  with sleep_insert_plan [OF l', of a' n'] r(4,6) obtain l'' ds where
    i: "sleep_insert mal a' n' l' = Inr (l'', ds)" "ready mal l''"
      "plan l'' = image_mset (\<lambda>c. (iv_key c, snd (iv_key c))) (mset a') + plan l'"
      "map chars ds = map (\<lambda>c. chars (iv_name c)) a'"
    by auto
  have "image_mset (\<lambda>c. (iv_key c, snd (iv_key c))) (mset a') = image_mset (\<lambda>k. (k, snd k)) (image_mset iv_key (mset a'))"
    by (simp add: multiset.map_comp comp_def)
  also have "\<dots> + plan l' = image_mset (\<lambda>(k, t). (k, if t = ?t then snd k else t - ?t)) (plan (y # ys))"
    unfolding r(2,3) pl by (rule restart_due)
  finally have p: "plan l'' = image_mset (\<lambda>(k, t). (k, if t = ?t then snd k else t - ?t)) (plan (y # ys))"
    using i(3) by simp
  have "mset (map chars ds) = image_mset fst (image_mset iv_key (mset a'))"
    using i(4) by (simp add: iv_key_def comp_def flip: mset_map)
  also have "\<dots> = image_mset (\<lambda>p. fst (fst p)) (filter_mset (\<lambda>p. snd p = ?t) (plan (y # ys)))"
    unfolding r(3) pl by (rule names_due)
  finally show ?thesis
    using r(1) i(1,2) p by (simp add: execute_sleep_def)
qed


subsection \<open>Time\<close>

text \<open>
  The state after \<open>T\<close> milliseconds of an agent with the interfaces \<open>K\<close>, names with intervals: each
  is due at the next multiple of its interval.
\<close>

definition sleeping :: "allocator \<Rightarrow> (u8 list \<times> int) multiset \<Rightarrow> int \<Rightarrow> intervals list \<Rightarrow> bool" where
  "sleeping mal K T l \<longleftrightarrow> ready mal l \<and> plan l = image_mset (\<lambda>k. (k, snd k - T mod snd k)) K"

lemma next_multiple:
  fixes d :: int
  assumes "0 < t" "t \<le> d - T mod d" "0 < d"
  shows "(d - T mod d = t) = (d dvd T + t)"
    and "(if d - T mod d = t then d else d - T mod d - t) = d - (T + t) mod d"
proof -
  let ?m = "T mod d"
  have m: "(T + t) mod d = (?m + t) mod d" "0 \<le> ?m"
    using assms(3) by (simp_all add: mod_add_left_eq)
  have eq: "(?m + t) mod d = (if d - ?m = t then 0 else ?m + t)"
  proof (cases "d - ?m = t")
    case True
    then have "?m + t = d" by simp
    then have "(?m + t) mod d = 0" by (simp only: mod_self)
    then show ?thesis using True by simp
  next
    case False
    then have "?m + t < d" using assms(2) by simp
    then show ?thesis using False m(2) assms(1) by simp
  qed
  show "(d - ?m = t) = (d dvd T + t)"
    unfolding dvd_eq_mod_eq_0 m(1) eq using m(2) assms(1) by (cases "d - ?m = t") simp_all
  show "(if d - ?m = t then d else d - ?m - t) = d - (T + t) mod d"
    unfolding m(1) eq by simp
qed

lemma sleeping_step:
  assumes "sleeping mal K T l" "K \<noteq> {#}" "\<forall>k\<in>#K. 0 < snd k"
  shows "\<exists>t s'. execute_sleep mal \<lparr>intervallist = l, aux = [], num_aux = 0, due = ds\<rparr> = Inr (t, s') \<and> 0 < sint t \<and>
    sleeping mal K (T + sint t) (intervallist s') \<and>
    mset (map chars (due s')) = image_mset fst (filter_mset (\<lambda>k. snd k dvd T + sint t) K) \<and>
    (\<forall>u. 0 < u \<and> u < sint t \<longrightarrow> (\<forall>k\<in>#K. \<not> snd k dvd T + u))"
proof -
  have r: "ready mal l" and pl: "plan l = image_mset (\<lambda>k. (k, snd k - T mod snd k)) K"
    using assms(1) by (simp_all add: sleeping_def)
  obtain y ys where l: "l = y # ys"
    using pl assms(2) by (cases l) auto
  let ?t = "sint (sleep_time y)"
  have first: "?t \<le> snd k - T mod snd k" "0 < snd k" if "k \<in># K" for k
  proof -
    have "(k, snd k - T mod snd k) \<in> set (plan_from 0 l)"
      using that pl by (metis (no_types, lifting) image_eqI set_image_mset set_mset_mset)
    then show "?t \<le> snd k - T mod snd k"
      using plan_positive [of ys k _ ?t] r by (auto simp: l ready_def)
    show "0 < snd k" using that assms(3) by simp
  qed
  have "(iv_key y, ?t) \<in># plan l"
    by (simp add: l)
  then obtain k where "k \<in># K" "?t = snd k - T mod snd k"
    unfolding pl by auto
  then have t: "0 < ?t"
    using first(2) by simp
  have "\<forall>p\<in>#plan (y # ys). 0 \<le> snd (fst p)"
    using first(2) pl unfolding l by fastforce
  from execute_sleep_plan [OF r [unfolded l] this, of ds] obtain s' where
    s: "execute_sleep mal \<lparr>intervallist = l, aux = [], num_aux = 0, due = ds\<rparr> = Inr (sleep_time y, s')"
      "ready mal (intervallist s')"
      "plan (intervallist s') = image_mset (\<lambda>(k, t). (k, if t = ?t then snd k else t - ?t)) (plan l)"
      "mset (map chars (due s')) = image_mset (\<lambda>p. fst (fst p)) (filter_mset (\<lambda>p. snd p = ?t) (plan l))"
    unfolding l by blast
  have "plan (intervallist s') = image_mset (\<lambda>k. (k, snd k - (T + ?t) mod snd k)) K"
    unfolding s(3) pl using next_multiple(2) [OF t first]
    by (auto simp: multiset.map_comp comp_def intro!: image_mset_cong)
  moreover have "mset (map chars (due s')) = image_mset fst (filter_mset (\<lambda>k. snd k dvd T + ?t) K)"
    unfolding s(4) pl using next_multiple(1) [OF t first]
    by (auto simp: filter_mset_image_mset multiset.map_comp comp_def intro!: arg_cong [where f = "image_mset fst"]
        filter_mset_cong)
  moreover have "\<not> snd k dvd T + u" if "0 < u" "u < ?t" "k \<in># K" for u k
    using next_multiple(1) [OF that(1), of "snd k" T] first [OF that(3)] that(2) by auto
  ultimately show ?thesis
    using s(1,2) t by (auto simp: sleeping_def)
qed


subsection \<open>The first list\<close>

definition ordered :: "intervals list \<Rightarrow> bool" where
  "ordered l \<longleftrightarrow> sorted (map (\<lambda>y. sint (sleep_time y)) l)"

lemma ordered_simps [simp]:
  "ordered []" "ordered (y # ys) \<longleftrightarrow> (\<forall>z\<in>set ys. sint (sleep_time y) \<le> sint (sleep_time z)) \<and> ordered ys"
  by (simp_all add: ordered_def)

lemma place_None: "place x (y # ys) = None \<Longrightarrow> ordered (y # ys) \<Longrightarrow> sint (sleep_time x) \<le> sint (sleep_time y)"
  by (induction ys arbitrary: y) (auto simp: word_sless_alt word_sle_eq split: if_splits)

lemma place_ordered: "place x l = Some l' \<Longrightarrow> ordered l \<Longrightarrow> ordered l' \<and> set l' = insert x (set l)"
proof (induction x l arbitrary: l' rule: place.induct)
  case (3 x y z zs)
  show ?case
  proof (cases "sleep_time y <s sleep_time x \<and> sleep_time x \<le>s sleep_time z")
    case True
    then show ?thesis
      using 3 by (fastforce simp: word_sless_alt word_sle_eq)
  next
    case False
    then obtain l1 where l1: "place x (z # zs) = Some l1" "l' = y # l1"
      using 3(2) by auto
    then have "ordered l1" "set l1 = insert x (set (z # zs))"
      using 3(1) [OF False] 3(3) by auto
    moreover have "sint (sleep_time y) \<le> sint (sleep_time x)"
    proof (rule ccontr)
      assume "\<not> ?thesis"
      then have "\<forall>v\<in>set (z # zs). \<not> sleep_time v <s sleep_time x"
        using 3(3) by (auto simp: word_sless_alt)
      moreover have "place x vs \<noteq> None \<Longrightarrow> \<exists>v\<in>set vs. sleep_time v <s sleep_time x" for vs
        by (induction x vs rule: place.induct) (auto split: if_splits)
      ultimately show False
        using l1(1) by (metis option.distinct(1))
    qed
    ultimately show ?thesis
      using l1(2) 3(3) by auto
  qed
qed (auto simp: word_sless_alt split: if_splits)

lemma put_in_order_ordered: "ordered l \<Longrightarrow> ordered (put_in_order x l)"
  using place_None [of x] place_ordered [of x l]
  by (cases l) (fastforce simp: put_in_order_def split: option.splits)+

text \<open>A list that was just created, with the interfaces \<open>xs\<close>: ordered, and the times are the intervals.\<close>

definition created :: "allocator \<Rightarrow> snr_information list \<Rightarrow> intervals list \<Rightarrow> bool" where
  "created mal xs l \<longleftrightarrow> ordered l \<and> (\<forall>y\<in>set l. usable mal y \<and> \<not> iv_sleep y \<and> sleep_time y = iv_interval y) \<and>
     image_mset iv_key (mset l) = mset (map (\<lambda>x. (chars (snr_intf x), sint (interval x))) xs)"

lemma verify_names:
  "\<forall>y\<in>set l. named (iv_name y) \<Longrightarrow> named s \<Longrightarrow> verify l s = Inr (chars s \<in> (\<lambda>y. chars (iv_name y)) ` set l)"
  by (induction l) (auto simp: strcmp_named)

lemma usable_named: "usable mal y \<Longrightarrow> named (iv_name y)"
  by (auto simp: usable_def named_def copyable_def)

lemma created_names:
  assumes "created mal xs l"
  shows "(\<lambda>y. chars (iv_name y)) ` set l = (\<lambda>x. chars (snr_intf x)) ` set xs"
proof -
  have "set_mset (image_mset fst (image_mset iv_key (mset l)))
      = set_mset (image_mset fst (mset (map (\<lambda>x. (chars (snr_intf x), sint (interval x))) xs)))"
    using assms by (simp add: created_def)
  then show ?thesis
    by (simp add: image_image iv_key_def)
qed

lemma insert_created:
  assumes "created mal xs l" "copyable mal (snr_intf x)" "snr_intf x \<noteq> None"
    and "chars (snr_intf x) \<notin> (\<lambda>x. chars (snr_intf x)) ` set xs"
  shows "\<exists>l'. insert_on_list mal (interval x) (snr_intf x) l = Inr l' \<and> created mal (xs @ [x]) l'"
proof -
  let ?y = "\<lparr>iv_name = dup mal (snr_intf x), iv_interval = interval x, sleep_time = interval x, iv_sleep = False\<rparr>"
  have n: "\<forall>y\<in>set l. named (iv_name y)" "named (snr_intf x)"
    using assms(1-3) usable_named by (auto simp: created_def named_def copyable_def)
  have "verify l (snr_intf x) = Inr False"
    using assms(4) by (simp add: verify_names [OF n] created_names [OF assms(1)])
  then have "insert_on_list mal (interval x) (snr_intf x) l = Inr (put_in_order ?y l)"
    using assms(2) by (simp add: insert_on_list_def)
  moreover have "usable mal ?y"
    using copyable_dup [OF assms(2)] assms(2,3) by (simp add: usable_def del: not_None_eq)
  moreover have "set (put_in_order ?y l) = insert ?y (set l)"
    using arg_cong [OF mset_put_in_order [of ?y l], of set_mset] by simp
  moreover have "iv_key ?y = (chars (snr_intf x), sint (interval x))"
    using assms(2) by (simp add: iv_key_def)
  ultimately show ?thesis
    using assms(1) put_in_order_ordered [of l ?y] mset_put_in_order [of ?y l]
    by (auto simp: created_def)
qed

lemma create_created:
  assumes "created mal xs l" "\<forall>x\<in>set ys. copyable mal (snr_intf x) \<and> snr_intf x \<noteq> None"
    and "distinct (map (\<lambda>x. chars (snr_intf x)) (xs @ ys))"
  shows "\<exists>l'. run_prog (map (\<lambda>x. insert_on_list mal (interval x) (snr_intf x)) ys) l = Inr l' \<and> created mal (xs @ ys) l'"
  using assms
proof (induction ys arbitrary: xs l)
  case Nil
  then show ?case by simp
next
  case (Cons y ys)
  obtain l1 where l1: "insert_on_list mal (interval y) (snr_intf y) l = Inr l1" "created mal (xs @ [y]) l1"
    using insert_created [OF Cons.prems(1), of y] Cons.prems(2,3) by auto
  obtain l' where "run_prog (map (\<lambda>x. insert_on_list mal (interval x) (snr_intf x)) ys) l1 = Inr l'"
      "created mal ((xs @ [y]) @ ys) l'"
    using Cons.IH [OF l1(2)] Cons.prems(2,3) by auto
  then show ?case
    using l1(1) by auto
qed

lemma set_differences_plan:
  assumes "ordered ys" "\<forall>y\<in>set ys. \<not> iv_sleep y \<and> sleep_time y = iv_interval y \<and> sint prev \<le> sint (iv_interval y)"
    and "0 \<le> sint prev"
  shows "plan_from (sint prev) (set_differences prev ys) = map (\<lambda>y. (iv_key y, sint (iv_interval y))) ys \<and>
    forward (set_differences prev ys)"
  using assms
proof (induction ys arbitrary: prev)
  case Nil
  then show ?case by simp
next
  case (Cons y ys)
  have "0 \<le> sint (iv_interval y)" "sint (iv_interval y - prev) = sint (iv_interval y) - sint prev"
    using Cons.prems by (simp_all add: sint_minus_nonneg)
  moreover have "\<forall>z\<in>set ys. \<not> iv_sleep z \<and> sleep_time z = iv_interval z \<and> sint (iv_interval y) \<le> sint (iv_interval z)"
    using Cons.prems by simp
  ultimately show ?case
    using Cons.IH [of "iv_interval y"] Cons.prems by simp
qed

lemma set_differences_set:
  "\<forall>y\<in>set ys. usable mal y \<Longrightarrow> \<forall>y\<in>set (set_differences prev ys). iv_sleep y \<and> usable mal y"
  by (induction ys arbitrary: prev) simp_all

lemma first_sleeping:
  assumes "created mal xs l" "xs \<noteq> []" "\<forall>x\<in>set xs. 0 < sint (interval x)"
  shows "\<exists>l'. set_sleep_time l = Inr l' \<and> sleeping mal (mset (map (\<lambda>x. (chars (snr_intf x), sint (interval x))) xs)) 0 l'"
proof -
  have k: "image_mset iv_key (mset l) = mset (map (\<lambda>x. (chars (snr_intf x), sint (interval x))) xs)"
    using assms(1) by (simp add: created_def)
  obtain y ys where l: "l = y # ys"
    using k assms(2) by (cases l) auto
  have "iv_key y \<in># mset (map (\<lambda>x. (chars (snr_intf x), sint (interval x))) xs)"
    unfolding k [symmetric] l by simp
  then have y: "0 \<le> sint (iv_interval y)"
    using assms(3) by (auto simp: iv_key_def)
  have c: "ordered ys" "\<forall>z\<in>set ys. \<not> iv_sleep z \<and> sleep_time z = iv_interval z \<and> sint (iv_interval y) \<le> sint (iv_interval z)"
      "sleep_time y = iv_interval y"
    using assms(1) by (auto simp: l created_def)
  have u: "usable mal y" "\<forall>z\<in>set ys. usable mal z"
    using assms(1) by (auto simp: l created_def)
  note d = set_differences_plan [OF c(1,2) y]
  have snd: "sint (iv_interval z) = snd (iv_key z)" for z
    by (simp add: iv_key_def)
  have "plan (y\<lparr>iv_sleep := True\<rparr> # set_differences (iv_interval y) ys)
      = image_mset (\<lambda>k. (k, snd k)) (image_mset iv_key (mset l))"
    using d c(3) by (simp add: l snd multiset.map_comp comp_def)
  moreover have "ready mal (y\<lparr>iv_sleep := True\<rparr> # set_differences (iv_interval y) ys)"
    using d y u c(3) set_differences_set [OF u(2), of "iv_interval y"]
    by (simp add: ready_def)
  ultimately show ?thesis
    unfolding k by (simp add: l sleeping_def)
qed


subsection \<open>Later rounds\<close>

lemma insert_known:
  assumes "\<forall>y\<in>set l. named (iv_name y)" "copyable mal s" "s \<noteq> None" "chars s \<in> (\<lambda>y. chars (iv_name y)) ` set l"
  shows "insert_on_list mal i s l = Inr l"
proof -
  have "named s"
    using assms(2,3) by (auto simp: named_def copyable_def)
  then show ?thesis
    using assms by (simp add: insert_on_list_def verify_names)
qed

lemma run_prog_id: "\<forall>f\<in>set fs. f s = Inr s \<Longrightarrow> run_prog fs s = Inr s"
  by (induction fs) simp_all

lemma set_sleep_time_ready: "ready mal l \<Longrightarrow> l \<noteq> [] \<Longrightarrow> set_sleep_time l = Inr l"
proof -
  have "\<forall>y\<in>set ys. iv_sleep y \<Longrightarrow> set_differences prev ys = ys" for prev ys
    by (induction ys arbitrary: prev) simp_all
  then show "ready mal l \<Longrightarrow> l \<noteq> [] \<Longrightarrow> set_sleep_time l = Inr l"
    by (cases l) (simp_all add: ready_def)
qed

lemma sleeping_names:
  assumes "sleeping mal K T l"
  shows "(\<lambda>y. chars (iv_name y)) ` set l = fst ` set_mset K"
proof -
  have "iv_key ` set l = fst ` set (plan_from 0 l)"
    using plan_from_keys [of 0 l] by (metis list.set_map)
  also have "\<dots> = set_mset K"
  proof -
    have "plan l = image_mset (\<lambda>k. (k, snd k - T mod snd k)) K"
      using assms by (simp add: sleeping_def)
    then have "set_mset (plan l) = set_mset (image_mset (\<lambda>k. (k, snd k - T mod snd k)) K)"
      by (simp only:)
    then show ?thesis by (simp add: image_image)
  qed
  finally show ?thesis
    by (metis (no_types, lifting) fst_conv image_cong image_image iv_key_def)
qed

text \<open>The interfaces of the settings, as the plan sees them.\<close>

definition timed :: "interfaces \<Rightarrow> (u8 list \<times> int) multiset" where
  "timed st = mset (map (\<lambda>x. (chars (snr_intf x), sint (interval x))) (infos st))"

definition good_settings :: "allocator \<Rightarrow> interfaces \<Rightarrow> bool" where
  "good_settings mal st \<longleftrightarrow> infos st \<noteq> [] \<and> distinct (map (\<lambda>x. chars (snr_intf x)) (infos st)) \<and>
     (\<forall>x\<in>set (infos st). copyable mal (snr_intf x) \<and> snr_intf x \<noteq> None \<and> 0 < sint (interval x))"

text \<open>Either nothing was created yet and no time has passed, or the list is that of the interfaces.\<close>

definition in_time :: "allocator \<Rightarrow> interfaces \<Rightarrow> int \<Rightarrow> sleeper \<Rightarrow> bool" where
  "in_time mal st T s \<longleftrightarrow> aux s = [] \<and> num_aux s = 0 \<and>
     (intervallist s = [] \<and> T = 0 \<or> sleeping mal (timed st) T (intervallist s))"

lemma list_ready:
  assumes "good_settings mal st" "in_time mal st T s"
  shows "\<exists>l. and_then (create_list mal st (intervallist s)) set_sleep_time = Inr l \<and> sleeping mal (timed st) T l"
proof (cases "intervallist s = [] \<and> T = 0")
  case True
  have "created mal [] []"
    by (simp add: created_def)
  then obtain l where "create_list mal st [] = Inr l" "created mal (infos st) l"
    using create_created [of mal "[]" "[]" "infos st"] assms(1) by (auto simp: create_list_def good_settings_def)
  then show ?thesis
    using first_sleeping [of mal "infos st" l] assms(1) True by (auto simp: good_settings_def timed_def)
next
  case False
  let ?l = "intervallist s"
  have sl: "sleeping mal (timed st) T ?l"
    using assms(2) False by (auto simp: in_time_def)
  then have r: "ready mal ?l" "\<forall>y\<in>set ?l. named (iv_name y)"
    using usable_named by (auto simp: sleeping_def ready_def)
  have "?l \<noteq> []"
    using sl assms(1) by (auto simp: sleeping_def timed_def good_settings_def)
  moreover have "insert_on_list mal (interval x) (snr_intf x) ?l = Inr ?l" if "x \<in> set (infos st)" for x
    by (rule insert_known [OF r(2)])
      (use assms(1) that in \<open>auto simp: good_settings_def sleeping_names [OF sl] timed_def image_image\<close>)
  then have "create_list mal st ?l = Inr ?l"
    unfolding create_list_def by (intro run_prog_id) auto
  ultimately show ?thesis
    using set_sleep_time_ready [OF r(1)] sl by simp
qed

lemma round_in_time:
  assumes "good_settings mal st" "in_time mal st T s"
  shows "\<exists>t s'. return_interface_list mal st s = Inr (t, s') \<and> 0 < sint t \<and>
    in_time mal st (T + sint t) (freeinterfacelist s') \<and>
    mset (map chars (due s')) = image_mset fst (filter_mset (\<lambda>k. snd k dvd T + sint t) (timed st)) \<and>
    (\<forall>u. 0 < u \<and> u < sint t \<longrightarrow> (\<forall>k\<in>#timed st. \<not> snd k dvd T + u))"
proof -
  obtain l where l: "and_then (create_list mal st (intervallist s)) set_sleep_time = Inr l" "sleeping mal (timed st) T l"
    using list_ready [OF assms] by blast
  have K: "timed st \<noteq> {#}" "\<forall>k\<in>#timed st. 0 < snd k"
    using assms(1) by (auto simp: timed_def good_settings_def)
  have s: "s\<lparr>intervallist := l\<rparr> = \<lparr>intervallist = l, aux = [], num_aux = 0, due = due s\<rparr>"
    using assms(2) by (simp add: in_time_def)
  from sleeping_step [OF l(2) K, of "due s"] obtain t s' where
    t: "execute_sleep mal (s\<lparr>intervallist := l\<rparr>) = Inr (t, s')" "0 < sint t"
      "sleeping mal (timed st) (T + sint t) (intervallist s')"
      "mset (map chars (due s')) = image_mset fst (filter_mset (\<lambda>k. snd k dvd T + sint t) (timed st))"
      "\<forall>u. 0 < u \<and> u < sint t \<longrightarrow> (\<forall>k\<in>#timed st. \<not> snd k dvd T + u)"
    unfolding s by blast
  have "return_interface_list mal st s = Inr (t, freeaux s')"
    using l(1) t(1) by (auto simp: return_interface_list_def and_then_eq_Inr)
  then show ?thesis
    using t(2-5) by (simp add: freeaux_def freeinterfacelist_def in_time_def)
qed

text \<open>The log of a run that started at \<open>T\<close>: when it wakes up, for whom, and that it misses nothing.\<close>

definition punctual :: "interfaces \<Rightarrow> int \<Rightarrow> (int \<times> u8 list multiset) list \<Rightarrow> bool" where
  "punctual st T log \<longleftrightarrow> sorted_wrt (<) (T # map fst log) \<and>
     (\<forall>(t, names)\<in>set log. names = mset (map (\<lambda>x. chars (snr_intf x))
        (filter (\<lambda>x. sint (interval x) dvd t) (infos st)))) \<and>
     (\<forall>x\<in>set (infos st). \<forall>t. T < t \<and> t \<le> last (T # map fst log) \<and> sint (interval x) dvd t \<longrightarrow> t \<in> fst ` set log)"

lemma names_of_timed:
  "image_mset fst (filter_mset (\<lambda>k. snd k dvd t) (timed st))
   = mset (map (\<lambda>x. chars (snr_intf x)) (filter (\<lambda>x. sint (interval x) dvd t) (infos st)))"
  by (simp add: timed_def filter_map comp_def flip: mset_filter mset_map)

lemma punctual_Cons:
  assumes "0 < d" "punctual st (T + d) log"
    and "names = mset (map (\<lambda>x. chars (snr_intf x)) (filter (\<lambda>x. sint (interval x) dvd T + d) (infos st)))"
    and "\<forall>u. 0 < u \<and> u < d \<longrightarrow> (\<forall>k\<in>#timed st. \<not> snd k dvd T + u)"
  shows "punctual st T ((T + d, names) # log)"
proof -
  have "t \<in> fst ` set ((T + d, names) # log)"
    if x: "x \<in> set (infos st)" "T < t" "t \<le> last ((T + d) # map fst log)" "sint (interval x) dvd t" for x t
  proof (cases "t < T + d")
    case True
    then show ?thesis
      using assms(4) x by (auto simp: timed_def dest!: spec [of _ "t - T"])
  next
    case False
    then show ?thesis
      using assms(2) x by (cases "t = T + d") (auto simp: punctual_def)
  qed
  moreover have "sorted_wrt (<) (T # (T + d) # map fst log)"
    using assms(1,2) by (auto simp: punctual_def)
  ultimately show ?thesis
    using assms(2,3) unfolding punctual_def by (simp del: sorted_wrt.simps(2)) 
qed

lemma wake_ups_punctual:
  assumes "good_settings mal st" "in_time mal st T s"
  shows "\<exists>log. wake_ups mal st n T s = Inr log \<and> length log = n \<and> punctual st T log"
  using assms(2)
proof (induction n arbitrary: T s)
  case 0
  then show ?case by (auto simp: punctual_def)
next
  case (Suc n)
  obtain t s' where t: "return_interface_list mal st s = Inr (t, s')" "0 < sint t"
      "in_time mal st (T + sint t) (freeinterfacelist s')"
      "mset (map chars (due s')) = image_mset fst (filter_mset (\<lambda>k. snd k dvd T + sint t) (timed st))"
      "\<forall>u. 0 < u \<and> u < sint t \<longrightarrow> (\<forall>k\<in>#timed st. \<not> snd k dvd T + u)"
    using round_in_time [OF assms(1) Suc.prems] by blast
  obtain log where log: "wake_ups mal st n (T + sint t) (freeinterfacelist s') = Inr log" "length log = n"
      "punctual st (T + sint t) log"
    using Suc.IH [OF t(3)] by blast
  have "punctual st T ((T + sint t, mset (map chars (due s'))) # log)"
    by (rule punctual_Cons [OF t(2) log(3) _ t(5)]) (simp only: t(4) names_of_timed)
  then show ?case
    using t(1) log(1,2) by simp
qed


subsection \<open>Properties\<close>

text \<open>
  C4 The sleep loop is punctual.  For any settings with positive intervals, starting from the empty
  lists of the program: \<open>n\<close> wake-ups happen without a fault, one after the other; at the wake-up
  after \<open>t\<close> milliseconds the interfaces reported are exactly those whose interval divides \<open>t\<close>, each
  once; and no multiple of an interval is missed between the first and the last wake-up.
\<close>

theorem sleep_loop_punctual:
  assumes "infos st \<noteq> []" "distinct (map (\<lambda>x. chars (snr_intf x)) (infos st))"
    and "\<forall>x\<in>set (infos st). copyable mal (snr_intf x) \<and> snr_intf x \<noteq> None \<and> 0 < sint (interval x)"
  shows "\<exists>log. wake_ups mal st n 0 no_sleeper = Inr log \<and> length log = n \<and> sorted_wrt (<) (0 # map fst log) \<and>
     (\<forall>(t, names)\<in>set log. names = mset (map (\<lambda>x. chars (snr_intf x))
        (filter (\<lambda>x. sint (interval x) dvd t) (infos st)))) \<and>
     (\<forall>x\<in>set (infos st). \<forall>t. 0 < t \<and> t \<le> last (0 # map fst log) \<and> sint (interval x) dvd t \<longrightarrow> t \<in> fst ` set log)"
proof -
  have "good_settings mal st" "in_time mal st 0 no_sleeper"
    using assms by (simp_all add: good_settings_def in_time_def no_sleeper_def)
  from wake_ups_punctual [OF this, of n] show ?thesis
    unfolding punctual_def by blast
qed

definition demo_settings :: interfaces where
  "demo_settings = \<lparr>num_interfaces = 2, infos = [\<lparr>snr_intf = Some [0x77, 0], threshold = 0, interval = 2000\<rparr>,
     \<lparr>snr_intf = Some [0x78, 0], threshold = 0, interval = 3000\<rparr>]\<rparr>"

theorem sleep_loop_punctual_witness:
  "\<exists>log. wake_ups demo_alloc demo_settings 4 0 no_sleeper = Inr log \<and> length log = 4 \<and>
     sorted_wrt (<) (0 # map fst log)"
proof -
  have "chars (Some [0x77, 0]) = [0x77]" "chars (Some [0x78, 0]) = [0x78]" "slen (Some [0x77, 0]) = 1"
      "slen (Some [0x78, 0]) = 1" "wf_str (Some [0x77, 0])" "wf_str (Some [0x78, 0])"
    by code_simp+
  then show ?thesis
    using sleep_loop_punctual [of demo_settings demo_alloc 4] by (auto simp: demo_settings_def copyable_demo_alloc)
qed

end
