(* ===== verification/Station.thy ===== *)
theory Station
  imports Handover Link
begin

section \<open>The station of the handover experiment (\<open>messaging/run-station.c\<close>)\<close>

text \<open>
  Compiled with \<open>HANDOVER\<close>, the program of a station starts its server and then enters a loop: it measures
  the ratio of signal to noise, and when it is not above the threshold that the controller has set,
  asks the controller for another access point, moves there and reports.  The rest of
  the interval is slept.  \<open>station_round\<close> is one turn of the loop.

  As the program is written the loop is hardly ever reached: \<open>main\<close> calls \<open>run_threaded_server\<close> with
  \<open>join = true\<close> and so waits for the thread of the server, which does not end
  (\<open>station_loop_unreached\<close>).  Only when \<open>pthread_create\<close> fails does the loop run, and then this process has no
  server.  The theorems about the loop say what its turns do when they run; where the controller asks the
  station something in the meantime, the answer is that of an agent at the address that the controller
  has for the station, which has to be another process.

  The machine is the record \<open>station\<close>: the signal and the noise of an interface (\<open>get_interface_stats\<close>), the
  first lines of files, the path of \<open>iw\<close>, and the environments of the attempts to move.  The calls of
  \<open>sleep\<close> are not recorded.
\<close>

record station =
  sta_link :: "cstr \<Rightarrow> (c_int \<times> c_int) option"
  sta_files :: "u8 list \<Rightarrow> u8 list option"
  sta_iw :: cstr
  sta_to_ld :: "u8 list \<Rightarrow> c_ldouble option"
  sta_tries :: "nat \<Rightarrow> env \<times> env"
  sta_max_tries :: c_int

record station_junk =
  sj_arrays :: "nat \<Rightarrow> nat \<Rightarrow> u8 list"
  sj_sent :: msg_snr_threshold_reached
  sj_got :: msg_snr_threshold_reached
  sj_bssid :: "nat \<Rightarrow> u8 list"
  sj_changed :: msg_changed_ap

text \<open>The addresses of the controller and of the interface, from the command line.\<close>

record station_config =
  sc_addr :: cstr
  sc_port :: c_int
  sc_intf :: cstr


subsection \<open>The loop\<close>

text \<open>\<open>-1*(ns->signal - ns->noise)\<close> is computed in \<open>int\<close>; the default is meant to be above every threshold.\<close>

definition measured_snr :: "(c_int \<times> c_int) option \<Rightarrow> c_long" where
  "measured_snr link = (case link of
       None \<Rightarrow> 5000000
     | Some (signal, noise) \<Rightarrow> scast (- 1 * (signal - noise)))"

text \<open>The answer \<open>m\<close> of the controller: another address than the current one makes the station move and report.\<close>

definition follow ::
  "station \<Rightarrow> env \<Rightarrow> station_junk \<Rightarrow> station_config \<Rightarrow> iw_link_info_t \<Rightarrow> msg_snr_threshold_reached \<Rightarrow> c_int
   \<Rightarrow> fault + effect list \<times> c_int" where
  "follow s e j cf iwl m idc =
     and_then (fmt_str (th_ap m)) (\<lambda>_. and_then (fmt_str (lk_mac iwl)) (\<lambda>_.
     and_then (strcmp (th_ap m) (lk_mac iwl)) (\<lambda>same.
       if same then Inr ([], idc)
       else
         and_then (roam_change_ap e (sta_tries s) (sta_max_tries s) (sc_intf cf) (th_ap m) (sj_bssid j 0) (sj_bssid j 1)) (\<lambda>(ev1, st).
         and_then (send_msg_changed_ap e (sc_addr cf) (sc_port cf) idc st (if st = 0 then th_ap m else lk_mac iwl) (sc_intf cf)
             (sj_changed j)) (\<lambda>(ev2, idc).
           Inr (ev1 @ ev2, idc))))))"

definition ask_controller ::
  "station \<Rightarrow> env \<Rightarrow> station_junk \<Rightarrow> station_config \<Rightarrow> c_long \<Rightarrow> c_int \<Rightarrow> fault + effect list \<times> c_int" where
  "ask_controller s e j cf snr idc =
     and_then (get_iw_link e (sta_iw s) (sta_to_ld s) (sj_arrays j) (sc_intf cf)) (\<lambda>(ev0, iwl).
     and_then (getmacaddress (sta_files s) (mallocs e) (sc_intf cf)) (\<lambda>maclist.
       case iwl of
         None \<Rightarrow> Inr (ev0, idc)
       | Some iwl \<Rightarrow> (case maclist of
           None \<Rightarrow> Inl Null_Dereference
         | Some maclist \<Rightarrow>
             and_then (send_msg_snr_threshold_reached e (sc_addr cf) (sc_port cf) idc None 0 (al_mac maclist) (sc_intf cf)
               (lk_mac iwl) snr (sj_sent j) (sj_got j)) (\<lambda>(ev1, idc, m).
             case m of
               None \<Rightarrow> Inr (ev0 @ ev1, idc)
             | Some m \<Rightarrow> and_then (follow s e j cf iwl m idc) (\<lambda>(ev2, idc). Inr (ev0 @ ev1 @ ev2, idc))))))"

definition station_round ::
  "station \<Rightarrow> env \<Rightarrow> station_junk \<Rightarrow> station_config \<Rightarrow> c_long table \<Rightarrow> c_int \<Rightarrow> fault + effect list \<times> c_int" where
  "station_round s e j cf thresholds idc =
     and_then (get_snr_threshold thresholds (sc_intf cf)) (\<lambda>snr_t.
       let snr = measured_snr (sta_link s (sc_intf cf)) in
       if snr \<le>s snr_t then ask_controller s e j cf snr idc else Inr ([], idc))"

text \<open>
  The time to sleep, if it is positive: the interval in whole seconds less the time since the round
  began.  \<open>in_seconds\<close> is the division of the interval by 1000.0, cut to an integer.
\<close>

definition station_pause ::
  "fpu \<Rightarrow> (c_long \<Rightarrow> c_long) \<Rightarrow> c_long table \<Rightarrow> station_config \<Rightarrow> timeval \<Rightarrow> timeval \<Rightarrow> fault + c_ldouble option" where
  "station_pause f in_seconds intervals cf t_now t_then =
     and_then (get_snr_interval intervals (sc_intf cf)) (\<lambda>v.
       let t_sleep = ld_sub f (ld_of_long f (in_seconds v)) (diff_timeofday f t_then t_now)
       in Inr (if ld_less f (ld_of_long f 0) t_sleep then Some t_sleep else None))"

text \<open>
  \<open>run_threaded_server\<close> with the result \<open>err\<close> of \<open>pthread_create\<close>; \<open>ends\<close> says whether the thread of the server
  ever ends, and \<open>None\<close> is a call that does not return.
\<close>

definition run_threaded_server :: "c_int \<Rightarrow> bool \<Rightarrow> bool \<Rightarrow> c_int option" where
  "run_threaded_server err ends join = (if join \<and> err = 0 \<and> \<not> ends then None else Some err)"

text \<open>The first \<open>n\<close> turns of the loop; turn \<open>k\<close> finds the machine, the environment and the thresholds of index \<open>k\<close>.\<close>

primrec station_rounds ::
  "(nat \<Rightarrow> station) \<Rightarrow> (nat \<Rightarrow> env) \<Rightarrow> (nat \<Rightarrow> station_junk) \<Rightarrow> station_config \<Rightarrow> (nat \<Rightarrow> c_long table) \<Rightarrow> nat
   \<Rightarrow> fault + effect list \<times> c_int" where
  "station_rounds ss es js cf ts 0 = Inr ([], 0)"
| "station_rounds ss es js cf ts (Suc n) = and_then (station_rounds ss es js cf ts n) (\<lambda>(ev, idc).
     and_then (station_round (ss n) (es n) (js n) cf (ts n) idc) (\<lambda>(ev', idc). Inr (ev @ ev', idc)))"

text \<open>
  \<open>main\<close> from the start of the server: \<open>None\<close> when the loop is not reached, otherwise its first \<open>n\<close> turns.
\<close>

definition run_station ::
  "c_int \<Rightarrow> bool \<Rightarrow> (nat \<Rightarrow> station) \<Rightarrow> (nat \<Rightarrow> env) \<Rightarrow> (nat \<Rightarrow> station_junk) \<Rightarrow> station_config \<Rightarrow> (nat \<Rightarrow> c_long table) \<Rightarrow> nat
   \<Rightarrow> (fault + effect list \<times> c_int) option" where
  "run_station err ends ss es js cf ts n =
     map_option (\<lambda>_. station_rounds ss es js cf ts n) (run_threaded_server err ends True)"

text \<open>The server does not end, so the loop of the station runs exactly when its server could not be started.\<close>

theorem station_loop_unreached:
  "run_station err False ss es js cf ts n = (if err = 0 then None else Some (station_rounds ss es js cf ts n))"
  by (simp add: run_station_def run_threaded_server_def)


subsection \<open>When the station asks\<close>

lemma measured_snr_int:
  assumes "- (2 ^ 30) < sint signal" "sint signal < 2 ^ 30" "- (2 ^ 30) < sint noise" "sint noise < 2 ^ 30"
  shows "measured_snr (Some (signal, noise)) = word_of_int (sint noise - sint signal)"
    and "sint (measured_snr (Some (signal, noise))) = sint noise - sint signal"
proof -
  define x where "x = sint noise - sint signal"
  have x: "- (2 ^ 31) \<le> x" "x < 2 ^ 31"
    using assms by (simp_all add: x_def)
  then have r: "sint (word_of_int x :: c_int) = x" "sint (word_of_int x :: c_long) = x"
    by (simp_all add: signed_of_int signed_take_bit_int_eq_self)
  have "- 1 * (signal - noise) = word_of_int x"
    by (simp add: x_def)
  then have "measured_snr (Some (signal, noise)) = scast (word_of_int x :: c_int)"
    by (simp only: measured_snr_def option.case prod.case)
  also have "\<dots> = word_of_int (sint (word_of_int x :: c_int))"
    by (rule scast_eq)
  finally have m: "measured_snr (Some (signal, noise)) = word_of_int x"
    unfolding r .
  then show "measured_snr (Some (signal, noise)) = word_of_int (sint noise - sint signal)"
    unfolding x_def .
  show "sint (measured_snr (Some (signal, noise))) = sint noise - sint signal"
    using r(2) unfolding m x_def .
qed

text \<open>
  C29 The station asks the controller for another access point exactly when the signal is at least minus the
  threshold above the noise: with the thresholds that are negative, as the default -50 is, it asks when the
  reception is good, and never when it is bad.
\<close>

theorem station_asks_when_strong:
  assumes "sta_link s (sc_intf cf) = Some (signal, noise)" "- (2 ^ 30) < sint signal" "sint signal < 2 ^ 30"
    and "- (2 ^ 30) < sint noise" "sint noise < 2 ^ 30"
    and "wf_table thresholds" "named (sc_intf cf)"
  shows "station_round s e j cf thresholds idc =
    (if - sint (case table_map thresholds (chars (sc_intf cf)) of None \<Rightarrow> - 50 | Some t \<Rightarrow> t) \<le> sint signal - sint noise
     then ask_controller s e j cf (word_of_int (sint noise - sint signal)) idc else Inr ([], idc))"
proof -
  have "get_snr_threshold thresholds (sc_intf cf)
      = Inr (case table_map thresholds (chars (sc_intf cf)) of None \<Rightarrow> - 50 | Some t \<Rightarrow> t)"
    by (rule snr_threshold.get_val [OF assms(6,7)])
  then show ?thesis
    using measured_snr_int [OF assms(2-5)]
    by (auto simp: station_round_def assms(1) word_sle_eq Let_def split: option.split)
qed



subsection \<open>What the station does with the answer\<close>

lemma send_reached_eq:
  assumes "copyable (mallocs e) ETHANOL_VERSION" "copyable (mallocs e) sta" "copyable (mallocs e) intf" "copyable (mallocs e) ap"
    and "slen sta + slen intf + slen ap < 2 ^ 30 - 300"
  obtains q where "ok_reached q" "bytes_reached q < 2 ^ 30 - 200" "m_type q = MSG_SET_SNR_THRESHOLD_REACHED" "m_id q = i" "sta_ip q = None"
    "canon (th_sta q) = canon sta" "canon (intf_name q) = canon intf" "canon (th_ap q) = canon ap" "th_snr q = v"
    "send_msg_snr_threshold_reached e host port i None 0 sta intf ap v hs hm
      = send_sync e host port i (\<lambda>_. Inr q) (encode_msg_snr_threshold_reached (mallocs e))
          (\<lambda>t. t = MSG_SET_SNR_THRESHOLD_REACHED) (\<lambda>b. decode_msg_snr_threshold_reached b hm)"
proof -
  let ?p = "hs\<lparr>m_type := MSG_SET_SNR_THRESHOLD_REACHED, m_id := i, p_version := dup (mallocs e) ETHANOL_VERSION,
    intf_name := dup (mallocs e) intf, th_ap := dup (mallocs e) ap, sta_ip := dup (mallocs e) None, sta_port := 0,
    th_sta := dup (mallocs e) sta, th_snr := v\<rparr>"
  let ?q = "?p\<lparr>m_size := word_of_nat (bytes_reached ?p)\<rparr>"
  have ok: "ok_reached ?p"
    using assms by (simp add: ok_reached_def ok_header_def bytes_reached_def)
  then have "size_msg_snr_threshold_reached ?p = sizeof (bytes_reached ?p)"
    by (simp add: size_msg_snr_threshold_reached_def ok_reached_def ok_header_def bytes_reached_def codec ac_simps)
  then have "run_prog [assign m_type_update MSG_SET_SNR_THRESHOLD_REACHED, assign m_id_update i,
      copy_to e p_version_update ETHANOL_VERSION, copy_to e intf_name_update intf, copy_to e th_ap_update ap,
      copy_to e sta_ip_update None, assign sta_port_update 0, copy_to e th_sta_update sta, assign th_snr_update v,
      set_size size_msg_snr_threshold_reached] hs = Inr ?q"
    using assms(1-4) set_size_ok [of size_msg_snr_threshold_reached ?p] by simp
  then have s: "send_msg_snr_threshold_reached e host port i None 0 sta intf ap v hs hm
      = send_sync e host port i (\<lambda>_. Inr ?q) (encode_msg_snr_threshold_reached (mallocs e))
          (\<lambda>t. t = MSG_SET_SNR_THRESHOLD_REACHED) (\<lambda>b. decode_msg_snr_threshold_reached b hm)"
    unfolding send_msg_snr_threshold_reached_def by (rule send_sync_built)
  have "ok_reached ?q" "bytes_reached ?q < 2 ^ 30 - 200"
    using ok assms by (simp_all add: ok_reached_def ok_header_def bytes_reached_def)
  then show ?thesis
    by (rule that [OF _ _ _ _ _ _ _ _ _ s]) (use assms in simp_all)
qed


text \<open>The controller answers the question \<open>q\<close> with an access point of the set \<open>M\<close>.\<close>

definition advises ::
  "allocator \<Rightarrow> (u8 list \<Rightarrow> fault + effect list \<times> u8 list option) \<Rightarrow> cstr set \<Rightarrow> msg_snr_threshold_reached \<Rightarrow> bool" where
  "advises mal srv M q \<longleftrightarrow> (\<forall>q' req. encode_msg_snr_threshold_reached mal q = Inr (q', req) \<longrightarrow>
     (\<exists>mac\<in>M. \<exists>ev out. srv req = Inr (ev, Some out) \<and> tells_ap q mac out))"

text \<open>The questions of a station with the address \<open>sta\<close> that is connected to \<open>ap\<close> on the interface \<open>intf\<close>.\<close>

definition question :: "cstr \<Rightarrow> cstr \<Rightarrow> cstr \<Rightarrow> msg_snr_threshold_reached \<Rightarrow> bool" where
  "question sta intf ap q \<longleftrightarrow> ok_reached q \<and> bytes_reached q < 2 ^ 30 - 200 \<and> m_type q = MSG_SET_SNR_THRESHOLD_REACHED \<and>
     sta_ip q = None \<and> canon (th_sta q) = canon sta \<and> canon (intf_name q) = canon intf \<and> canon (th_ap q) = canon ap"

lemma advised:
  assumes "copyable (mallocs e) ETHANOL_VERSION" "copyable (mallocs e) sta" "copyable (mallocs e) intf" "copyable (mallocs e) ap"
      "slen sta + slen intf + slen ap < 2 ^ 30 - 300" "allocates (mallocs e)" "reaches e host port"
    and "serves e host port MSG_SET_SNR_THRESHOLD_REACHED srv"
    and "\<forall>q. question sta intf ap q \<longrightarrow> advises (mallocs e) srv M q"
  obtains req m mac where "send_msg_snr_threshold_reached e host port i None 0 sta intf ap v hs hm
      = Inr (session e host port req, i + 1, Some m)" "th_ap m = canon mac" "mac \<in> M"
proof -
  obtain q where q: "ok_reached q" "bytes_reached q < 2 ^ 30 - 200" "m_type q = MSG_SET_SNR_THRESHOLD_REACHED" "m_id q = i" "sta_ip q = None"
    "canon (th_sta q) = canon sta" "canon (intf_name q) = canon intf" "canon (th_ap q) = canon ap"
    and s: "send_msg_snr_threshold_reached e host port i None 0 sta intf ap v hs hm
      = send_sync e host port i (\<lambda>_. Inr q) (encode_msg_snr_threshold_reached (mallocs e))
          (\<lambda>t. t = MSG_SET_SNR_THRESHOLD_REACHED) (\<lambda>b. decode_msg_snr_threshold_reached b hm)"
    by (rule send_reached_eq [OF assms(1-5)])
  obtain q' req where w: "encode_msg_snr_threshold_reached (mallocs e) q = Inr (q', req)"
    using reached.enc_no_fault [OF q(1) assms(6)] by blast
  have "question sta intf ap q"
    using q by (simp add: question_def)
  then obtain ev out mac where out: "srv req = Inr (ev, Some out)" "tells_ap q mac out" "mac \<in> M"
    using assms(9) w unfolding advises_def by blast
  obtain r where r: "ssl_read e host port req = out @ r"
    using servesD [OF assms(8) _ out(1)] reached.wire_type [OF q(1) assms(6) w] q(3) by auto
  obtain m where m: "decode_msg_snr_threshold_reached (out @ r) hm = Inr m" "th_ap m = canon mac"
    using out(2) unfolding tells_ap_def by blast
  have "of_type MSG_SET_SNR_THRESHOLD_REACHED out"
    using out(2) q(3) by (simp add: tells_ap_def)
  then have "send_msg_snr_threshold_reached e host port i None 0 sta intf ap v hs hm = Inr (session e host port req, i + 1, Some m)"
    using m(1) of_type_message [of MSG_SET_SNR_THRESHOLD_REACHED out r] close_open_connection [OF assms(7), of req]
    by (simp add: s send_sync_def assms(7) w r Let_def)
  then show ?thesis
    using that m(2) out(3) by blast
qed

text \<open>The report: the message says which access point the station has moved to, with a status.\<close>

definition reports_ap :: "c_int \<Rightarrow> cstr \<Rightarrow> cstr \<Rightarrow> u8 list \<Rightarrow> bool" where
  "reports_ap st ap intf req \<longleftrightarrow> of_type MSG_CHANGED_AP req \<and> (\<forall>r h0. \<exists>m. decode_msg_changed_ap (req @ r) h0 = Inr m \<and>
     status m = st \<and> current_ap m = canon ap \<and> intf_name m = canon intf)"

lemma sent_changed:
  assumes "copyable (mallocs e) ap" "copyable (mallocs e) intf" "slen ap + slen intf < 2 ^ 31 - 100" "allocates (mallocs e)" "reaches e host port"
  obtains req where "send_msg_changed_ap e host port i st ap intf hs = Inr (session e host port req, i + 1)" "reports_ap st ap intf req"
proof -
  let ?p = "hs\<lparr>m_type := MSG_CHANGED_AP, m_id := i, p_version := ETHANOL_VERSION, status := st,
    current_ap := dup (mallocs e) ap, intf_name := dup (mallocs e) intf\<rparr>"
  let ?q = "?p\<lparr>m_size := word_of_nat (bytes_changed ?p)\<rparr>"
  have ok: "ok_changed ?p"
    using assms(1-3) by (simp add: ok_changed_def ok_header_def bytes_changed_def)
  then have "size_msg_changed_ap ?p = sizeof (bytes_changed ?p)"
    by (simp add: size_msg_changed_ap_def ok_changed_def ok_header_def bytes_changed_def codec ac_simps)
  then have "run_prog [assign m_type_update MSG_CHANGED_AP, assign m_id_update i, assign p_version_update ETHANOL_VERSION,
      assign status_update st, copy_to e current_ap_update ap, copy_to e intf_name_update intf, set_size size_msg_changed_ap] hs = Inr ?q"
    using assms(1,2) set_size_ok [of size_msg_changed_ap ?p] by simp
  then have s: "send_msg_changed_ap e host port i st ap intf hs = send_async e host port i (\<lambda>_. Inr ?q) (encode_msg_changed_ap (mallocs e))"
    unfolding send_msg_changed_ap_def by (rule send_async_built)
  have okq: "ok_changed ?q"
    using ok by (simp add: ok_changed_def ok_header_def bytes_changed_def)
  obtain q' req where w: "encode_msg_changed_ap (mallocs e) ?q = Inr (q', req)"
    using changed.enc_no_fault [OF okq assms(4)] by blast
  have "reports_ap st ap intf req"
    using changed.roundtrip [OF okq assms(4) w] changed.wire_type [OF okq assms(4) w] assms(1,2)
    by (simp add: reports_ap_def norm_changed_def norm_header_def)
  then show ?thesis
    using that send_async_session [where encode = "encode_msg_changed_ap (mallocs e)" and q = ?q, OF assms(5) w] s by simp
qed


lemma roam_ok:
  assumes "which_path e ''wpa_cli'' = Inr (Some w)" "wf_str (Some w)" "wf_str intf" "named ap"
    and "length (shown (Some w)) + length (shown intf) + length (shown ap) \<le> 1900"
    and "\<forall>k. bssids_fit (fst (es k)) (status_command (Some w) intf) \<and> bssids_fit (snd (es k)) (status_command (Some w) intf)"
    and "bssid_array actual" "bssid_array new" "0 < sint max_tries"
  obtains m where "0 < m" "int m \<le> sint max_tries"
    "roam_change_ap e es max_tries intf ap actual new = Inr (concat (replicate m (attempt (Some w) intf ap)), 0)"
proof -
  obtain m where "m \<le> nat (sint max_tries)" "m = 0 \<longrightarrow> nat (sint max_tries) = 0"
      "roam_tries es (Some w) intf ap actual new (nat (sint max_tries)) = Inr (concat (replicate m (attempt (Some w) intf ap)))"
    using roam_tries_ok [OF assms(2-5) _ assms(7,8)] assms(6) by blast
  then show ?thesis
    using that [of m] assms(1,9) by (auto simp: roam_change_ap_def)
qed

lemma station_advised:
  assumes thr: "get_snr_threshold thresholds (sc_intf cf) = Inr t" "measured_snr (sta_link s (sc_intf cf)) \<le>s t"
    and link: "get_iw_link e (sta_iw s) (sta_to_ld s) (sj_arrays j) (sc_intf cf) = Inr (ev0, Some k)"
      "getmacaddress (sta_files s) (mallocs e) (sc_intf cf) = Inr (Some ml)"
    and e: "copyable (mallocs e) ETHANOL_VERSION" "copyable (mallocs e) (al_mac ml)" "copyable (mallocs e) (sc_intf cf)"
      "copyable (mallocs e) (lk_mac k)" "slen (al_mac ml) + slen (sc_intf cf) + slen (lk_mac k) < 2 ^ 30 - 300"
      "allocates (mallocs e)" "reaches e (sc_addr cf) (sc_port cf)" "lk_mac k \<noteq> None" "sc_intf cf \<noteq> None"
    and controller: "serves e (sc_addr cf) (sc_port cf) MSG_SET_SNR_THRESHOLD_REACHED srv"
      "\<forall>q. question (al_mac ml) (sc_intf cf) (lk_mac k) q \<longrightarrow> advises (mallocs e) srv M q"
      "\<forall>mac\<in>M. copyable (mallocs e) (canon mac) \<and> 0 < slen mac \<and> slen mac < 200"
    and roam: "which_path e ''wpa_cli'' = Inr (Some w)" "wf_str (Some w)"
      "length (shown (Some w)) + slen (sc_intf cf) \<le> 1700"
      "\<forall>k. bssids_fit (fst (sta_tries s k)) (status_command (Some w) (sc_intf cf)) \<and>
           bssids_fit (snd (sta_tries s k)) (status_command (Some w) (sc_intf cf))"
      "bssid_array (sj_bssid j 0)" "bssid_array (sj_bssid j 1)" "0 < sint (sta_max_tries s)"
  shows "\<exists>mac\<in>M. \<exists>req. if chars mac = chars (lk_mac k)
    then station_round s e j cf thresholds idc = Inr (ev0 @ session e (sc_addr cf) (sc_port cf) req, idc + 1)
    else \<exists>m req2. 0 < m \<and> int m \<le> sint (sta_max_tries s) \<and>
      station_round s e j cf thresholds idc = Inr (ev0 @ session e (sc_addr cf) (sc_port cf) req @
        concat (replicate m (attempt (Some w) (sc_intf cf) (canon mac))) @ session e (sc_addr cf) (sc_port cf) req2, idc + 2) \<and>
      reports_ap 0 mac (sc_intf cf) req2"
proof -
  obtain req m mac where a: "send_msg_snr_threshold_reached e (sc_addr cf) (sc_port cf) idc None 0 (al_mac ml) (sc_intf cf) (lk_mac k)
        (measured_snr (sta_link s (sc_intf cf))) (sj_sent j) (sj_got j)
      = Inr (session e (sc_addr cf) (sc_port cf) req, idc + 1, Some m)" "th_ap m = canon mac" "mac \<in> M"
    by (rule advised [OF e(1-7) controller(1,2)])
  have mac: "copyable (mallocs e) (canon mac)" "0 < slen mac" "slen mac < 200"
    using controller(3) a(3) by blast+
  have n: "named (canon mac)" "named (lk_mac k)" "canon mac \<noteq> None" "wf_str (sc_intf cf)"
    using mac(2) e(4,8) copyable_ok_str [OF e(4)] copyable_ok_str [OF e(3)] ok_strD(1) by (auto simp: named_def canon_eq_None)
  have run: "station_round s e j cf thresholds idc = and_then (follow s e j cf k m (idc + 1)) (\<lambda>(ev2, idc).
      Inr (ev0 @ session e (sc_addr cf) (sc_port cf) req @ ev2, idc))"
    using thr link a(1) by (simp add: station_round_def ask_controller_def Let_def)
  have cmp: "strcmp (th_ap m) (lk_mac k) = Inr (chars mac = chars (lk_mac k))"
    using strcmp_named [OF n(1,2)] by (simp add: a(2))
  have shown: "\<exists>x. fmt_str (th_ap m) = Inr x" "\<exists>x. fmt_str (lk_mac k) = Inr x"
    using fmt_str_wf n(1,2) by (auto simp: a(2) named_def)
  have "\<exists>req. if chars mac = chars (lk_mac k)
    then station_round s e j cf thresholds idc = Inr (ev0 @ session e (sc_addr cf) (sc_port cf) req, idc + 1)
    else \<exists>m req2. 0 < m \<and> int m \<le> sint (sta_max_tries s) \<and>
      station_round s e j cf thresholds idc = Inr (ev0 @ session e (sc_addr cf) (sc_port cf) req @
        concat (replicate m (attempt (Some w) (sc_intf cf) (canon mac))) @ session e (sc_addr cf) (sc_port cf) req2, idc + 2) \<and>
      reports_ap 0 mac (sc_intf cf) req2"
  proof (cases "chars mac = chars (lk_mac k)")
    case True
    then have "follow s e j cf k m (idc + 1) = Inr ([], idc + 1)"
      using cmp shown by (auto simp: follow_def)
    then show ?thesis
      using True run by auto
  next
    case False
    have len: "length (shown (Some w)) + length (shown (sc_intf cf)) + length (shown (canon mac)) \<le> 1900"
    proof -
      have "shown x = chars x" if "x \<noteq> None" for x
        using that by auto
      moreover have "slen (canon mac) < 200"
        using mac(3) by simp
      ultimately show ?thesis
        using roam(3) e(9) n(3) by (simp add: slen_def del: not_None_eq)
    qed
    obtain i where i: "0 < i" "int i \<le> sint (sta_max_tries s)"
        "roam_change_ap e (sta_tries s) (sta_max_tries s) (sc_intf cf) (canon mac) (sj_bssid j 0) (sj_bssid j 1)
          = Inr (concat (replicate i (attempt (Some w) (sc_intf cf) (canon mac))), 0)"
      by (rule roam_ok [OF roam(1,2) n(4,1) len roam(4-7)])
    have "slen (canon mac) + slen (sc_intf cf) < 2 ^ 31 - 100"
      using mac(3) e(5) by simp
    from sent_changed [OF mac(1) e(3) this e(6,7), of "idc + 1" 0 "sj_changed j"]
    obtain req2 where r: "send_msg_changed_ap e (sc_addr cf) (sc_port cf) (idc + 1) 0 (canon mac) (sc_intf cf) (sj_changed j)
        = Inr (session e (sc_addr cf) (sc_port cf) req2, idc + 1 + 1)" "reports_ap 0 (canon mac) (sc_intf cf) req2"
      by blast
    have "follow s e j cf k m (idc + 1) = Inr (concat (replicate i (attempt (Some w) (sc_intf cf) (canon mac))) @
        session e (sc_addr cf) (sc_port cf) req2, idc + 2)"
      using cmp shown False i(3) r(1) by (auto simp: follow_def a(2))
    then show ?thesis
      using False run i(1,2) r(2) by (auto simp: reports_ap_def)
  qed
  with a(3) show ?thesis ..
qed

text \<open>
  C6 A station that asks gets the advice of the controller and follows it.  If the advice is the access point it is
  connected to, nothing else happens.  Otherwise it tells \<open>wpa_cli\<close> to move to the advised
  access point, in at least one and at most \<open>max_tries\<close> attempts, and then reports to the controller
  that it has moved there: the status of the report is 0 whatever came of the attempts.
\<close>

theorem station_follows_advice:
  assumes thr: "get_snr_threshold thresholds (sc_intf cf) = Inr t" "measured_snr (sta_link s (sc_intf cf)) \<le>s t"
    and link: "get_iw_link e (sta_iw s) (sta_to_ld s) (sj_arrays j) (sc_intf cf) = Inr (ev0, Some k)"
      "getmacaddress (sta_files s) (mallocs e) (sc_intf cf) = Inr (Some ml)"
    and e: "copyable (mallocs e) ETHANOL_VERSION" "copyable (mallocs e) (al_mac ml)" "copyable (mallocs e) (sc_intf cf)"
      "copyable (mallocs e) (lk_mac k)" "slen (al_mac ml) + slen (sc_intf cf) + slen (lk_mac k) < 2 ^ 30 - 300"
      "allocates (mallocs e)" "reaches e (sc_addr cf) (sc_port cf)" "lk_mac k \<noteq> None" "sc_intf cf \<noteq> None"
    and controller: "serves e (sc_addr cf) (sc_port cf) MSG_SET_SNR_THRESHOLD_REACHED srv"
      "\<forall>q. question (al_mac ml) (sc_intf cf) (lk_mac k) q \<longrightarrow> advises (mallocs e) srv M q"
      "\<forall>mac\<in>M. copyable (mallocs e) (canon mac) \<and> 0 < slen mac \<and> slen mac < 200"
    and roam: "which_path e ''wpa_cli'' = Inr (Some w)" "wf_str (Some w)"
      "length (shown (Some w)) + slen (sc_intf cf) \<le> 1700"
      "\<forall>k. bssids_fit (fst (sta_tries s k)) (status_command (Some w) (sc_intf cf)) \<and>
           bssids_fit (snd (sta_tries s k)) (status_command (Some w) (sc_intf cf))"
      "bssid_array (sj_bssid j 0)" "bssid_array (sj_bssid j 1)" "0 < sint (sta_max_tries s)"
  shows "\<exists>mac\<in>M. \<exists>req. if chars mac = chars (lk_mac k)
    then station_round s e j cf thresholds idc = Inr (ev0 @ session e (sc_addr cf) (sc_port cf) req, idc + 1)
    else \<exists>m req2. 0 < m \<and> int m \<le> sint (sta_max_tries s) \<and>
      station_round s e j cf thresholds idc = Inr (ev0 @ session e (sc_addr cf) (sc_port cf) req @
        concat (replicate m (attempt (Some w) (sc_intf cf) (canon mac))) @ session e (sc_addr cf) (sc_port cf) req2, idc + 2) \<and>
      reports_ap 0 mac (sc_intf cf) req2"
  by (rule station_advised [OF assms])


subsection \<open>The whole experiment\<close>

text \<open>
  What the controller \<open>c\<close> needs to advise a station \<open>sta\<close> with the address \<open>mac\<close>, connected to \<open>cur\<close>: the station is
  known and answers with the access points that its scan \<open>ss\<close> detects; each known access point that can be
  reached answers with the means of its collector; and the machine compares their traffic.  The pointer to the
  means in the structure of the request, which is never initialised, is taken to be null.
\<close>

definition can_advise ::
  "fpu \<Rightarrow> (c_ldouble \<Rightarrow> 'v::linorder) \<Rightarrow> env \<Rightarrow> handover_junk \<Rightarrow> controller \<Rightarrow> list_devices_t \<Rightarrow> cstr \<Rightarrow> cstr \<Rightarrow> scan_info_t list
   \<Rightarrow> (list_devices_t \<Rightarrow> timer) \<Rightarrow> bool" where
  "can_advise f val e j c sta mac intf ss collector_of \<longleftrightarrow>
     wf_devices (list_of_aps c) \<and> wf_devices (list_of_stations c) \<and> device_map (list_of_stations c) (chars mac) = Some sta \<and>
     allocates (mallocs e) \<and> copyable (mallocs e) ETHANOL_VERSION \<and> copyable (mallocs e) (canon intf) \<and>
     all_means (j_traffic j 0) = None \<and> reaches e (dev_host sta) (dev_port sta) \<and>
     (\<exists>e2 sc nd j2 got2 stack hm2 hs2 hm2'. allocates (mallocs e2) \<and> sc_results sc (canon intf) = ss \<and>
        serves e (dev_host sta) (dev_port sta) MSG_GET_AP_IN_RANGE_TYPE
          (\<lambda>req. process_msg_ap_in_range sc nd j2 got2 e2 (req @ stack) hm2 hs2 hm2')) \<and>
     sendable_scan ss \<and> (\<forall>s\<in>set ss. 0 < slen (s_mac s)) \<and>
     (\<forall>ap\<in>ran (device_map (list_of_aps c)). reaches e (dev_host ap) (dev_port ap) \<longrightarrow>
        serves_means e ap (collector_of ap) \<and> list_net_statistics (means_list (collector_of ap)) \<noteq> [])"

text \<open>The traffic of the access points as the controller learns it, the candidates, and the best of them.\<close>

definition load_of :: "env \<Rightarrow> (list_devices_t \<Rightarrow> timer) \<Rightarrow> list_devices_t \<Rightarrow> (c_ldouble \<times> c_ldouble) option" where
  "load_of e collector_of ap = (if reaches e (dev_host ap) (dev_port ap) then first_load (collector_of ap) else None)"

definition candidates :: "fpu \<Rightarrow> controller \<Rightarrow> cstr \<Rightarrow> scan_info_t list \<Rightarrow> scan_info_t list" where
  "candidates f c cur ss = filter (\<lambda>s. candidate f c (chars cur) (of_scan s)) ss"

definition least_loaded ::
  "fpu \<Rightarrow> (c_ldouble \<Rightarrow> 'v::linorder) \<Rightarrow> env \<Rightarrow> (list_devices_t \<Rightarrow> timer) \<Rightarrow> controller \<Rightarrow> scan_info_t list \<Rightarrow> scan_info_t \<Rightarrow> bool" where
  "least_loaded f val e collector_of c cands s \<longleftrightarrow> s \<in> set cands \<and> load_of e collector_of (device_of c (of_scan s)) \<noteq> None \<and>
     (\<forall>s'\<in>set cands. load_of e collector_of (device_of c (of_scan s')) \<noteq> None \<longrightarrow>
        val (traffic_sum f (load_of e collector_of) (device_of c (of_scan s)))
          \<le> val (traffic_sum f (load_of e collector_of) (device_of c (of_scan s'))))"

lemma controller_advises:
  assumes adv: "can_advise f val e2 j2 c sta mac intf ss collector_of"
    and cands: "comparable f val (load_of e2 collector_of) ((\<lambda>s. device_of c (of_scan s)) ` set (candidates f c cur ss))"
      "\<exists>s\<in>set (candidates f c cur ss). load_of e2 collector_of (device_of c (of_scan s)) \<noteq> None"
    and q: "question mac intf cur q" "allocates mal" "0 < slen mac" "0 < slen cur" "0 < slen intf"
  shows "advises mal (\<lambda>req. and_then (process_msg_snr_threshold_reached_handover f True j2 e2 (req @ stack) hm hs hm' c)
       (\<lambda>(_, ev, reply). Inr (ev, reply)))
     {s_mac s |s. least_loaded f val e2 collector_of c (candidates f c cur ss) s} q"
  unfolding advises_def
proof (intro allI impI)
  fix q' req
  assume w: "encode_msg_snr_threshold_reached mal q = Inr (q', req)"
  have eq: "ok_reached q" "bytes_reached q < 2 ^ 30 - 200" "sta_ip q = None" "canon (th_sta q) = canon mac" "canon (intf_name q) = canon intf"
      "canon (th_ap q) = canon cur"
    using q(1) by (simp_all add: question_def)
  have chars: "chars x = chars y" if "canon x = canon y" for x y :: cstr
    using that by (metis chars_canon)
  have ch: "chars (th_sta q) = chars mac" "chars (th_ap q) = chars cur" "slen (sta_ip q) = 0" "0 < slen (th_sta q)" "0 < slen (th_ap q)" "0 < slen (intf_name q)"
    using chars [OF eq(4)] chars [OF eq(5)] chars [OF eq(6)] q(3-5) by (simp_all add: slen_def eq(3))
  show "\<exists>mac\<in>{s_mac s |s. least_loaded f val e2 collector_of c (candidates f c cur ss) s}. \<exists>ev out.
      and_then (process_msg_snr_threshold_reached_handover f True j2 e2 (req @ stack) hm hs hm' c) (\<lambda>(_, ev, reply). Inr (ev, reply))
        = Inr (ev, Some out) \<and> tells_ap q mac out"
  proof -
    let ?c = "candidates f c cur ss" and ?run = "process_msg_snr_threshold_reached_handover f True j2 e2 (req @ stack) hm hs hm' c"
    obtain e3 sc nd j3 got3 st hm3 hs3 hm3' where sta: "allocates (mallocs e3)" "sc_results sc (canon intf) = ss"
        "serves e2 (dev_host sta) (dev_port sta) MSG_GET_AP_IN_RANGE_TYPE (\<lambda>req. process_msg_ap_in_range sc nd j3 got3 e3 (req @ st) hm3 hs3 hm3')"
      using adv unfolding can_advise_def by blast
    have ld: "load_of e2 collector_of = (\<lambda>ap. if reaches e2 (dev_host ap) (dev_port ap) then first_load (collector_of ap) else None)"
      by (simp add: load_of_def fun_eq_iff)
    have p: "wf_devices (list_of_aps c)" "wf_devices (list_of_stations c)" "device_map (list_of_stations c) (chars (th_sta q)) = Some sta"
        "allocates (mallocs e2)" "copyable (mallocs e2) ETHANOL_VERSION" "copyable (mallocs e2) (canon (intf_name q))"
        "all_means (j_traffic j2 0) = None" "reaches e2 (dev_host sta) (dev_port sta)"
        "sendable_scan (sc_results sc (canon (intf_name q)))" "\<forall>s\<in>set (sc_results sc (canon (intf_name q))). 0 < slen (s_mac s)"
        "\<forall>ap\<in>ran (device_map (list_of_aps c)). reaches e2 (dev_host ap) (dev_port ap) \<longrightarrow>
          serves_means e2 ap (collector_of ap) \<and> list_net_statistics (means_list (collector_of ap)) \<noteq> []"
      using adv unfolding can_advise_def ch(1) eq(5) sta(2) by blast+
    have fold: "?c = filter (\<lambda>s. candidate f c (chars (th_ap q)) (of_scan s)) (sc_results sc (canon (intf_name q)))"
      by (simp only: candidates_def ch(2) eq(5) sta(2))
    have "if ?c = [] then \<exists>c' ev out. ?run = Inr (c', ev, Some out) \<and> tells_ap q (th_ap q) out
      else if \<forall>s\<in>set ?c. load_of e2 collector_of (device_of c (of_scan s)) = None then ?run = Inl Use_After_Free
      else \<exists>s\<in>set ?c. \<exists>c' ev out. ?run = Inr (c', ev, Some out) \<and> tells_ap q (s_mac s) out \<and>
        load_of e2 collector_of (device_of c (of_scan s)) \<noteq> None \<and>
        (\<forall>s'\<in>set ?c. load_of e2 collector_of (device_of c (of_scan s')) \<noteq> None \<longrightarrow>
           val (traffic_sum f (load_of e2 collector_of) (device_of c (of_scan s)))
             \<le> val (traffic_sum f (load_of e2 collector_of) (device_of c (of_scan s'))))"
      using cands(1) unfolding fold ld
      by (rule handover_choice [OF eq(1) q(2) w ch(3-6) eq(2) p(1-8) sta(1) p(9,10) sta(3) p(11)])
    moreover have "?c \<noteq> []" "\<not> (\<forall>s\<in>set ?c. load_of e2 collector_of (device_of c (of_scan s)) = None)"
      using cands(2) by auto
    ultimately have "\<exists>s\<in>set ?c. \<exists>c' ev out. ?run = Inr (c', ev, Some out) \<and> tells_ap q (s_mac s) out \<and>
        load_of e2 collector_of (device_of c (of_scan s)) \<noteq> None \<and>
        (\<forall>s'\<in>set ?c. load_of e2 collector_of (device_of c (of_scan s')) \<noteq> None \<longrightarrow>
           val (traffic_sum f (load_of e2 collector_of) (device_of c (of_scan s)))
             \<le> val (traffic_sum f (load_of e2 collector_of) (device_of c (of_scan s'))))"
      by (simp only: if_False)
    then obtain s c' ev out where s: "s \<in> set ?c" "?run = Inr (c', ev, Some out)" "tells_ap q (s_mac s) out"
        "load_of e2 collector_of (device_of c (of_scan s)) \<noteq> None"
        "\<forall>s'\<in>set ?c. load_of e2 collector_of (device_of c (of_scan s')) \<noteq> None \<longrightarrow>
           val (traffic_sum f (load_of e2 collector_of) (device_of c (of_scan s)))
             \<le> val (traffic_sum f (load_of e2 collector_of) (device_of c (of_scan s')))"
      by (elim bexE exE conjE)
    then have "least_loaded f val e2 collector_of c ?c s"
      by (simp add: least_loaded_def)
    then show ?thesis
      using s(2,3) by (intro bexI [of _ "s_mac s"]) auto
  qed
qed

text \<open>
  C5 The whole handover, as one turn of the loop of the station.  A station that asks sends its question to the
  controller; the controller asks the agent of the station for the access points that it detects and the known
  ones among them for their traffic; and the station then tells \<open>wpa_cli\<close> to move to a candidate that
  no other reachable candidate undercuts in traffic, and reports that access point.  Controller, access
  points and the agent of the station run the code of this repository.

  Two things are assumed that the code does not ensure.  The agent that answers for the station runs in
  another process than the loop, since the loop is only reached when its own server could not be
  started.  And the uninitialised pointer in the request for the traffic is null
  (\<open>all_means (j_traffic j 0) = None\<close>, in \<open>can_advise\<close>).
\<close>

theorem handover_experiment:
  assumes thr: "get_snr_threshold thresholds (sc_intf cf) = Inr t" "measured_snr (sta_link s (sc_intf cf)) \<le>s t"
    and link: "get_iw_link e (sta_iw s) (sta_to_ld s) (sj_arrays j) (sc_intf cf) = Inr (ev0, Some k)"
      "getmacaddress (sta_files s) (mallocs e) (sc_intf cf) = Inr (Some ml)"
    and e: "copyable (mallocs e) ETHANOL_VERSION" "copyable (mallocs e) (al_mac ml)" "copyable (mallocs e) (sc_intf cf)"
      "copyable (mallocs e) (lk_mac k)" "slen (al_mac ml) + slen (sc_intf cf) + slen (lk_mac k) < 2 ^ 30 - 300"
      "allocates (mallocs e)" "reaches e (sc_addr cf) (sc_port cf)" "lk_mac k \<noteq> None" "sc_intf cf \<noteq> None" "al_mac ml \<noteq> None"
    and controller: "serves e (sc_addr cf) (sc_port cf) MSG_SET_SNR_THRESHOLD_REACHED (\<lambda>req.
        and_then (process_msg_snr_threshold_reached_handover f True j2 e2 (req @ stack) hm hs hm' c) (\<lambda>(_, ev, reply). Inr (ev, reply)))"
      "can_advise f val e2 j2 c sta (al_mac ml) (sc_intf cf) ss collector_of"
    and aps: "comparable f val (load_of e2 collector_of) ((\<lambda>s. device_of c (of_scan s)) ` set (candidates f c (lk_mac k) ss))"
      "\<exists>s\<in>set (candidates f c (lk_mac k) ss). load_of e2 collector_of (device_of c (of_scan s)) \<noteq> None"
      "\<forall>s\<in>set ss. copyable (mallocs e) (canon (s_mac s)) \<and> slen (s_mac s) < 200"
    and roam: "which_path e ''wpa_cli'' = Inr (Some w)" "wf_str (Some w)"
      "length (shown (Some w)) + slen (sc_intf cf) \<le> 1700"
      "\<forall>k. bssids_fit (fst (sta_tries s k)) (status_command (Some w) (sc_intf cf)) \<and>
           bssids_fit (snd (sta_tries s k)) (status_command (Some w) (sc_intf cf))"
      "bssid_array (sj_bssid j 0)" "bssid_array (sj_bssid j 1)" "0 < sint (sta_max_tries s)"
  shows "\<exists>a. least_loaded f val e2 collector_of c (candidates f c (lk_mac k) ss) a \<and>
    (\<exists>req m req2. 0 < m \<and> int m \<le> sint (sta_max_tries s) \<and>
      station_round s e j cf thresholds idc = Inr (ev0 @ session e (sc_addr cf) (sc_port cf) req @
        concat (replicate m (attempt (Some w) (sc_intf cf) (canon (s_mac a)))) @ session e (sc_addr cf) (sc_port cf) req2, idc + 2) \<and>
      reports_ap 0 (s_mac a) (sc_intf cf) req2)"
proof -
  let ?M = "{s_mac s |s. least_loaded f val e2 collector_of c (candidates f c (lk_mac k) ss) s}"
  let ?srv = "\<lambda>req. and_then (process_msg_snr_threshold_reached_handover f True j2 e2 (req @ stack) hm hs hm' c) (\<lambda>(_, ev, reply). Inr (ev, reply))"
  have len: "0 < slen (al_mac ml)" "0 < slen (lk_mac k)" "0 < slen (sc_intf cf)"
    using e(2-4,8-10) by (auto simp: copyable_def)
  have adv: "\<forall>q. question (al_mac ml) (sc_intf cf) (lk_mac k) q \<longrightarrow> advises (mallocs e) ?srv ?M q"
    using controller_advises [OF controller(2) aps(1,2) _ e(6) len] by blast
  have ll: "s \<in> set ss \<and> chars (s_mac s) \<noteq> chars (lk_mac k)" if "least_loaded f val e2 collector_of c (candidates f c (lk_mac k) ss) s" for s
    using that by (auto simp: least_loaded_def candidates_def candidate_def)
  have "\<forall>s\<in>set ss. 0 < slen (s_mac s)"
    using controller(2) by (simp add: can_advise_def)
  then have "\<forall>mac\<in>?M. copyable (mallocs e) (canon mac) \<and> 0 < slen mac \<and> slen mac < 200"
    using ll aps(3) by blast
  from station_advised [OF thr link e(1-9) controller(1) adv this roam, of idc]
  obtain mac req where "mac \<in> ?M" and r: "if chars mac = chars (lk_mac k)
    then station_round s e j cf thresholds idc = Inr (ev0 @ session e (sc_addr cf) (sc_port cf) req, idc + 1)
    else \<exists>m req2. 0 < m \<and> int m \<le> sint (sta_max_tries s) \<and>
      station_round s e j cf thresholds idc = Inr (ev0 @ session e (sc_addr cf) (sc_port cf) req @
        concat (replicate m (attempt (Some w) (sc_intf cf) (canon mac))) @ session e (sc_addr cf) (sc_port cf) req2, idc + 2) \<and>
      reports_ap 0 mac (sc_intf cf) req2"
    by blast
  then obtain a where a: "mac = s_mac a" "least_loaded f val e2 collector_of c (candidates f c (lk_mac k) ss) a"
    by blast
  then show ?thesis
    using r ll [OF a(2)] by (intro exI [of _ a] conjI) auto
qed

text \<open>
  A station whose signal is 60 above the noise.  The controller answers every question with
  the access point \<open>c\<close>; \<open>wpa_cli\<close> says before and after each attempt that the station is connected to \<open>w\<close>.
\<close>

definition demo_sta :: station where
  "demo_sta = \<lparr>sta_link = (\<lambda>_. Some (- 30, - 90)), sta_files = (\<lambda>_. Some (str_bytes ''s'' @ [10])), sta_iw = Some (str_bytes ''iw'' @ [0]),
     sta_to_ld = (\<lambda>_. None), sta_tries = (\<lambda>_. (demo_roaming, demo_roaming)), sta_max_tries = 1\<rparr>"

definition demo_changed :: msg_changed_ap where
  "demo_changed = \<lparr>m_type = 0, m_id = 0, p_version = None, m_size = 0, intf_name = None, current_ap = None, status = 9\<rparr>"

definition demo_sta_junk :: station_junk where
  "demo_sta_junk = \<lparr>sj_arrays = (\<lambda>_ _. replicate 50 1), sj_sent = demo_reached, sj_got = demo_reached,
     sj_bssid = (\<lambda>_. replicate 20 0), sj_changed = demo_changed\<rparr>"

definition demo_cf :: station_config where
  "demo_cf = \<lparr>sc_addr = demo_name, sc_port = 22222, sc_intf = demo_name\<rparr>"

definition demo_advice :: "u8 list \<Rightarrow> fault + effect list \<times> u8 list option" where
  "demo_advice req = and_then (decode_msg_snr_threshold_reached req demo_reached) (\<lambda>h.
     and_then (encode_msg_snr_threshold_reached demo_alloc (h\<lparr>th_ap := Some (str_bytes ''c'' @ [0])\<rparr>)) (\<lambda>(_, out). Inr ([], Some out)))"


definition demo_sta_env :: "(u8 list \<Rightarrow> fault + effect list \<times> u8 list option) \<Rightarrow> env" where
  "demo_sta_env srv = demo_env\<lparr>popen_lines := (\<lambda>cmd. Some [if contains (str_bytes ''which'') cmd
     then str_bytes ''/sbin/wpa_cli'' @ [10] else str_bytes ''Connected w w'' @ [10]]), ssl_read := demo_peer srv\<rparr>"

definition demo_connected :: iw_link_info_t where
  "demo_connected = no_link\<lparr>lk_connected := True, lk_intf := demo_name, lk_mac := demo_name\<rparr>"

definition demo_own :: addr_list where
  "demo_own = \<lparr>al_intf = demo_name, al_mac = Some (str_bytes ''s'' @ [0])\<rparr>"

definition demo_wpa_cli :: "u8 list" where
  "demo_wpa_cli = str_bytes ''/sbin/wpa_cli'' @ [0]"

lemma demo_sta_parts:
  "get_iw_link (demo_sta_env srv) (sta_iw demo_sta) (sta_to_ld demo_sta) (sj_arrays demo_sta_junk) (sc_intf demo_cf)
     = Inr ([System (str_bytes ''sudo iw dev w link'')], Some demo_connected)"
  "getmacaddress (sta_files demo_sta) (mallocs (demo_sta_env srv)) (sc_intf demo_cf) = Inr (Some demo_own)"
  "which_path (demo_sta_env srv) ''wpa_cli'' = Inr (Some demo_wpa_cli)"
  "get_snr_threshold ([] :: c_long table) (sc_intf demo_cf) = Inr (- 50)" "measured_snr (sta_link demo_sta (sc_intf demo_cf)) \<le>s - 50"
  by code_simp+

lemma demo_cf_simps [simp]: "sc_intf demo_cf = demo_name" "sc_addr demo_cf = demo_name" "sc_port demo_cf = 22222"
  "lk_mac demo_connected = demo_name" "mallocs (demo_sta_env srv) = demo_alloc" "reaches (demo_sta_env srv) host port"
  by (simp_all add: demo_cf_def demo_connected_def demo_sta_env_def demo_env_def reaches_def)

lemma demo_sta_ready:
  "copyable (mallocs (demo_sta_env srv)) ETHANOL_VERSION" "copyable (mallocs (demo_sta_env srv)) (al_mac demo_own)"
  "copyable (mallocs (demo_sta_env srv)) (sc_intf demo_cf)" "copyable (mallocs (demo_sta_env srv)) (lk_mac demo_connected)"
  "slen (al_mac demo_own) + slen (sc_intf demo_cf) + slen (lk_mac demo_connected) < 2 ^ 30 - 300"
  "allocates (mallocs (demo_sta_env srv))" "reaches (demo_sta_env srv) (sc_addr demo_cf) (sc_port demo_cf)"
  "lk_mac demo_connected \<noteq> None" "sc_intf demo_cf \<noteq> None"
  "serves (demo_sta_env srv) (sc_addr demo_cf) (sc_port demo_cf) MSG_SET_SNR_THRESHOLD_REACHED srv"
proof -
  have "slen (al_mac demo_own) = 1" "wf_str (al_mac demo_own)"
    by code_simp+
  then show "copyable (mallocs (demo_sta_env srv)) (al_mac demo_own)"
      "slen (al_mac demo_own) + slen (sc_intf demo_cf) + slen (lk_mac demo_connected) < 2 ^ 30 - 300"
    by (simp_all add: copyable_demo_alloc)
qed (use allocates_demo_alloc in \<open>simp_all add: copyable_demo_alloc demo_sta_env_def [THEN arg_cong, of ssl_read] serves_def demo_peer_def\<close>)

lemma demo_roam_ready:
  "wf_str (Some demo_wpa_cli)" "length (shown (Some demo_wpa_cli)) + slen (sc_intf demo_cf) \<le> 1700"
  "\<forall>k. bssids_fit (fst (sta_tries demo_sta k)) (status_command (Some demo_wpa_cli) (sc_intf demo_cf)) \<and>
       bssids_fit (snd (sta_tries demo_sta k)) (status_command (Some demo_wpa_cli) (sc_intf demo_cf))"
  "bssid_array (sj_bssid demo_sta_junk 0)" "bssid_array (sj_bssid demo_sta_junk 1)" "0 < sint (sta_max_tries demo_sta)"
proof -
  have s: "shown (Some demo_wpa_cli) = str_bytes ''/sbin/wpa_cli''" "status_command (Some demo_wpa_cli) demo_name = str_bytes ''sudo /sbin/wpa_cli -i w status''"
    "length (str_bytes ''/sbin/wpa_cli'') + 1 \<le> 1700" "wf_str (Some demo_wpa_cli)"
    by code_simp+
  then show "wf_str (Some demo_wpa_cli)" "length (shown (Some demo_wpa_cli)) + slen (sc_intf demo_cf) \<le> 1700"
    by simp_all
  have "popen_lines demo_roaming (str_bytes ''sudo /sbin/wpa_cli -i w status'') = Some [str_bytes ''bssid=w'' @ [10]]"
    "find_text (str_bytes ''bssid'') (str_bytes ''bssid=w'' @ [10]) = Some (str_bytes ''bssid=w'' @ [10])"
    "length (takeWhile (\<lambda>c. \<not> is_space c) (dropWhile is_space (drop 6 (str_bytes ''bssid=w'' @ [10])))) \<le> 19"
    by code_simp+
  then show "\<forall>k. bssids_fit (fst (sta_tries demo_sta k)) (status_command (Some demo_wpa_cli) (sc_intf demo_cf)) \<and>
       bssids_fit (snd (sta_tries demo_sta k)) (status_command (Some demo_wpa_cli) (sc_intf demo_cf))"
    unfolding demo_cf_simps s(2) by (simp add: bssids_fit_def demo_sta_def)
qed (simp_all add: demo_sta_def demo_sta_junk_def bssid_array_def)


lemma demo_advises:
  assumes "ok_reached q" "bytes_reached q < 2 ^ 30 - 200"
  shows "advises demo_alloc demo_advice {Some (str_bytes ''c'' @ [0])} q"
  unfolding advises_def
proof (intro allI impI)
  fix q' req
  assume a: "encode_msg_snr_threshold_reached demo_alloc q = Inr (q', req)"
  have "wf_str (Some (str_bytes ''c'' @ [0]))" "slen (Some (str_bytes ''c'' @ [0])) = 1"
    by code_simp+
  then have "ok_str (Some (str_bytes ''c'' @ [0]))" "bytes_reached q + slen (Some (str_bytes ''c'' @ [0])) < 2 ^ 31"
    using assms(2) by (simp_all add: ok_str_def)
  from reply_tells [OF assms(1) allocates_demo_alloc this, of demo_reached]
  obtain m' out where "encode_msg_snr_threshold_reached demo_alloc ((norm_reached demo_reached q)\<lparr>th_ap := Some (str_bytes ''c'' @ [0])\<rparr>)
      = Inr (m', out)" "tells_ap q (Some (str_bytes ''c'' @ [0])) out"
    by blast
  then show "\<exists>mac\<in>{Some (str_bytes ''c'' @ [0])}. \<exists>ev out. demo_advice req = Inr (ev, Some out) \<and> tells_ap q mac out"
    using reached.roundtrip [OF assms(1) allocates_demo_alloc a, of "[]" demo_reached] by (simp add: demo_advice_def)
qed

theorem station_asks_when_strong_witness:
  "station_round demo_sta demo_env demo_sta_junk demo_cf [] 4 = ask_controller demo_sta demo_env demo_sta_junk demo_cf (word_of_int (- 60)) 4 \<and>
   station_round (demo_sta\<lparr>sta_link := \<lambda>_. Some (- 85, - 90)\<rparr>) demo_env demo_sta_junk demo_cf [] 4 = Inr ([], 4)"
proof -
  have n: "named (sc_intf demo_cf)" "wf_table ([] :: c_long table)" "table_map ([] :: c_long table) = Map.empty"
    by (simp_all add: demo_cf_def named_demo fun_eq_iff wf_table_def snr_threshold.inv_empty snr_threshold.abs_empty)
  have l: "sta_link demo_sta (sc_intf demo_cf) = Some (- 30, - 90)"
    "sta_link (demo_sta\<lparr>sta_link := \<lambda>_. Some (- 85, - 90)\<rparr>) (sc_intf demo_cf) = Some (- 85, - 90)"
    by (simp_all add: demo_sta_def)
  show ?thesis
    using station_asks_when_strong [OF l(1) _ _ _ _ n(2,1)] station_asks_when_strong [OF l(2) _ _ _ _ n(2,1)] n(3) by simp
qed

lemma demo_target:
  "chars (Some (str_bytes ''c'' @ [0])) = str_bytes ''c''" "slen (Some (str_bytes ''c'' @ [0])) = 1" "wf_str (Some (str_bytes ''c'' @ [0]))"
  "canon (Some (str_bytes ''c'' @ [0])) = Some (str_bytes ''c'' @ [0])" "str_bytes ''c'' \<noteq> [0x77]"
  by code_simp+

text \<open>One attempt at most: the concatenated attempts are one.\<close>

lemma demo_one_attempt: "0 < m \<Longrightarrow> int m \<le> sint (sta_max_tries demo_sta) \<Longrightarrow> m = 1"
  by (simp add: demo_sta_def)

theorem station_follows_advice_witness:
  "\<exists>req req2. station_round demo_sta (demo_sta_env demo_advice) demo_sta_junk demo_cf [] 4
     = Inr (System (str_bytes ''sudo iw dev w link'') # session (demo_sta_env demo_advice) demo_name 22222 req @
         attempt (Some demo_wpa_cli) demo_name (Some (str_bytes ''c'' @ [0])) @
         session (demo_sta_env demo_advice) demo_name 22222 req2, 6) \<and>
     reports_ap 0 (Some (str_bytes ''c'' @ [0])) demo_name req2"
proof -
  let ?e = "demo_sta_env demo_advice" and ?c = "Some (str_bytes ''c'' @ [0])"
  have adv: "\<forall>q. question (al_mac demo_own) (sc_intf demo_cf) (lk_mac demo_connected) q \<longrightarrow> advises (mallocs ?e) demo_advice {?c} q"
    using demo_advises by (simp add: question_def)
  have mac: "\<forall>mac\<in>{?c}. copyable (mallocs ?e) (canon mac) \<and> 0 < slen mac \<and> slen mac < 200"
    unfolding ball_simps demo_target(4) using demo_target(2,3) by (simp add: copyable_demo_alloc)
  have "\<exists>req m req2. 0 < m \<and> int m \<le> sint (sta_max_tries demo_sta) \<and> station_round demo_sta ?e demo_sta_junk demo_cf [] 4
     = Inr ([System (str_bytes ''sudo iw dev w link'')] @ session ?e demo_name 22222 req @
         concat (replicate m (attempt (Some demo_wpa_cli) demo_name (canon ?c))) @ session ?e demo_name 22222 req2, 4 + 2) \<and>
     reports_ap 0 ?c demo_name req2"
    using station_follows_advice [OF demo_sta_parts(4,5,1,2) demo_sta_ready adv mac demo_sta_parts(3) demo_roam_ready, of 4] demo_target(1,5) by simp
  then obtain req m req2 where r: "0 < m" "int m \<le> sint (sta_max_tries demo_sta)"
     "station_round demo_sta ?e demo_sta_junk demo_cf [] 4
     = Inr ([System (str_bytes ''sudo iw dev w link'')] @ session ?e demo_name 22222 req @
         concat (replicate m (attempt (Some demo_wpa_cli) demo_name (canon ?c))) @ session ?e demo_name 22222 req2, 4 + 2)"
     "reports_ap 0 ?c demo_name req2"
    by blast
  then show ?thesis
    using demo_one_attempt [OF r(1,2)] unfolding demo_target(4) by (intro exI [of _ req] exI [of _ req2]) simp
qed


text \<open>The experiment of theory \<open>Handover\<close> with the station \<open>s\<close>, connected to the unknown access point \<open>w\<close>.\<close>

definition demo_controller_srv :: "u8 list \<Rightarrow> fault + effect list \<times> u8 list option" where
  "demo_controller_srv req = and_then (process_msg_snr_threshold_reached_handover demo_fpu True demo_handover_junk (demo_world demo_mean_junk)
     (req @ []) demo_reached demo_reached demo_reached demo_controller) (\<lambda>(_, ev, reply). Inr (ev, reply))"

lemma demo_can_advise:
  "can_advise demo_fpu sint (demo_world demo_mean_junk) demo_handover_junk demo_controller (demo_dev 0x73 1) (Some (str_bytes ''s'' @ [0]))
     demo_name (sc_results demo_scanner demo_name) demo_collector"
proof -
  let ?e = "demo_world demo_mean_junk"
  have "chars (Some (str_bytes ''s'' @ [0])) = [0x73]"
    by code_simp
  moreover have "allocates (mallocs ?e)" "copyable (mallocs ?e) ETHANOL_VERSION" "copyable (mallocs ?e) (canon demo_name)"
      "all_means (j_traffic demo_handover_junk 0) = None" "reaches ?e (dev_host (demo_dev 0x73 1)) (dev_port (demo_dev 0x73 1))"
    using allocates_demo_alloc by (simp_all add: copyable_demo_alloc demo_handover_junk_def demo_mean_def)
  moreover have "serves ?e (dev_host (demo_dev 0x73 1)) (dev_port (demo_dev 0x73 1)) MSG_GET_AP_IN_RANGE_TYPE
      (\<lambda>req. process_msg_ap_in_range demo_scanner demo_netdevice (\<lambda>_. demo_fields) True demo_env (req @ [5])
         demo_in_range demo_in_range demo_in_range)"
    using demo_world_serves(1) by (simp add: demo_dev_def demo_station_srv_def [abs_def])
  then have "\<exists>e2 sc nd j2 got2 stack hm2 hs2 hm2'. allocates (mallocs e2) \<and> sc_results sc (canon demo_name) = sc_results demo_scanner demo_name \<and>
      serves ?e (dev_host (demo_dev 0x73 1)) (dev_port (demo_dev 0x73 1)) MSG_GET_AP_IN_RANGE_TYPE
        (\<lambda>req. process_msg_ap_in_range sc nd j2 got2 e2 (req @ stack) hm2 hs2 hm2')"
    using allocates_demo_env demo_name_simps(3) by metis
  ultimately show ?thesis
    unfolding can_advise_def using demo_devices(1-3) demo_scan_ok(1,2) demo_aps_serve by metis
qed

lemma demo_best:
  "comparable demo_fpu sint (load_of (demo_world demo_mean_junk) demo_collector)
     ((\<lambda>s. device_of demo_controller (of_scan s)) ` set (candidates demo_fpu demo_controller demo_name (sc_results demo_scanner demo_name)))"
  "\<exists>s\<in>set (candidates demo_fpu demo_controller demo_name (sc_results demo_scanner demo_name)).
     load_of (demo_world demo_mean_junk) demo_collector (device_of demo_controller (of_scan s)) \<noteq> None"
  "least_loaded demo_fpu sint (demo_world demo_mean_junk) demo_collector demo_controller
     (candidates demo_fpu demo_controller demo_name (sc_results demo_scanner demo_name)) a \<Longrightarrow> s_mac a = Some (str_bytes ''c'' @ [0])"
proof -
  have c: "candidates demo_fpu demo_controller demo_name (sc_results demo_scanner demo_name) = [demo_scan 0x62, demo_scan 0x63]"
    by (simp add: candidates_def demo_scanner_def demo_candidates)
  have ld: "load_of (demo_world demo_mean_junk) demo_collector (demo_dev 0x62 2) = Some (10, 0)"
      "load_of (demo_world demo_mean_junk) demo_collector (demo_dev 0x63 3) = Some (5, 0)"
    by (simp_all add: load_of_def demo_first_load)
  show "comparable demo_fpu sint (load_of (demo_world demo_mean_junk) demo_collector)
     ((\<lambda>s. device_of demo_controller (of_scan s)) ` set (candidates demo_fpu demo_controller demo_name (sc_results demo_scanner demo_name)))"
    unfolding c comparable_def using compares_demo ld by (auto simp: demo_fpu_def demo_candidates)
  show "\<exists>s\<in>set (candidates demo_fpu demo_controller demo_name (sc_results demo_scanner demo_name)).
     load_of (demo_world demo_mean_junk) demo_collector (device_of demo_controller (of_scan s)) \<noteq> None"
    by (simp add: c demo_candidates ld)
  assume "least_loaded demo_fpu sint (demo_world demo_mean_junk) demo_collector demo_controller
     (candidates demo_fpu demo_controller demo_name (sc_results demo_scanner demo_name)) a"
  moreover have "\<not> sint (traffic_sum demo_fpu (load_of (demo_world demo_mean_junk) demo_collector) (demo_dev 0x62 2))
      \<le> sint (traffic_sum demo_fpu (load_of (demo_world demo_mean_junk) demo_collector) (demo_dev 0x63 3))"
    unfolding traffic_sum_def ld by (simp add: demo_fpu_def)
  ultimately have "a = demo_scan 0x63"
    unfolding least_loaded_def c by (auto simp: demo_candidates ld)
  then show "s_mac a = Some (str_bytes ''c'' @ [0])"
    by (simp add: demo_scan_def str_bytes_def)
qed

theorem handover_experiment_witness:
  "\<exists>req req2. station_round demo_sta (demo_sta_env demo_controller_srv) demo_sta_junk demo_cf [] 4
     = Inr (System (str_bytes ''sudo iw dev w link'') # session (demo_sta_env demo_controller_srv) demo_name 22222 req @
         attempt (Some demo_wpa_cli) demo_name (Some (str_bytes ''c'' @ [0])) @
         session (demo_sta_env demo_controller_srv) demo_name 22222 req2, 6) \<and>
     reports_ap 0 (Some (str_bytes ''c'' @ [0])) demo_name req2"
proof -
  let ?e = "demo_sta_env demo_controller_srv" and ?c = "Some (str_bytes ''c'' @ [0])" and ?ss = "sc_results demo_scanner demo_name"
  let ?ll = "least_loaded demo_fpu sint (demo_world demo_mean_junk) demo_collector demo_controller
    (candidates demo_fpu demo_controller demo_name ?ss)"
  have own: "al_mac demo_own = Some (str_bytes ''s'' @ [0])"
    by (simp add: demo_own_def)
  have adv: "can_advise demo_fpu sint (demo_world demo_mean_junk) demo_handover_junk demo_controller (demo_dev 0x73 1) (al_mac demo_own)
     (sc_intf demo_cf) ?ss demo_collector"
    using demo_can_advise by (simp add: own)
  have srv: "serves ?e (sc_addr demo_cf) (sc_port demo_cf) MSG_SET_SNR_THRESHOLD_REACHED (\<lambda>req.
        and_then (process_msg_snr_threshold_reached_handover demo_fpu True demo_handover_junk (demo_world demo_mean_junk) (req @ [])
          demo_reached demo_reached demo_reached demo_controller) (\<lambda>(_, ev, reply). Inr (ev, reply)))"
    using demo_sta_ready(10) [of demo_controller_srv] by (simp only: demo_controller_srv_def [abs_def])
  have macs: "\<forall>s\<in>set ?ss. copyable (mallocs ?e) (canon (s_mac s)) \<and> slen (s_mac s) < 200"
    by (simp add: demo_scanner_def demo_scan_def copyable_demo_alloc wf_str_def slen_def canon_def chars_def str_chars_def)
  have best: "comparable demo_fpu sint (load_of (demo_world demo_mean_junk) demo_collector)
      ((\<lambda>s. device_of demo_controller (of_scan s)) ` set (candidates demo_fpu demo_controller (lk_mac demo_connected) ?ss))"
      "\<exists>s\<in>set (candidates demo_fpu demo_controller (lk_mac demo_connected) ?ss).
         load_of (demo_world demo_mean_junk) demo_collector (device_of demo_controller (of_scan s)) \<noteq> None"
    unfolding demo_cf_simps by (rule demo_best)+
  have no: "al_mac demo_own \<noteq> None"
    by (simp add: own)
  obtain a req m req2 where a: "?ll a" and r: "0 < m" "int m \<le> sint (sta_max_tries demo_sta)"
     "station_round demo_sta ?e demo_sta_junk demo_cf [] 4
     = Inr ([System (str_bytes ''sudo iw dev w link'')] @ session ?e demo_name 22222 req @
         concat (replicate m (attempt (Some demo_wpa_cli) demo_name (canon (s_mac a)))) @ session ?e demo_name 22222 req2, 4 + 2)"
     "reports_ap 0 (s_mac a) demo_name req2"
    using handover_experiment [OF demo_sta_parts(4,5,1,2) demo_sta_ready(1-9) no srv adv best macs demo_sta_parts(3) demo_roam_ready, of 4]
    unfolding demo_cf_simps by (elim exE conjE)
  then show ?thesis
    using demo_one_attempt [OF r(1,2)] unfolding demo_best(3) [OF a] demo_target(4) by (intro exI [of _ req] exI [of _ req2]) simp
qed

end
