(* ===== verification/Spec2Isabelle.thy ===== *)
theory Spec2Isabelle
  imports Listener Server Sleep_Queue Ini Text_Utils Station
begin

text \<open>
  A verification development of the Ethanol agent, the program that this fork adds to \<open>hostapd\<close>: a
  server that runs beside the access point daemon (or on a station), answers the requests of a
  controller about the radio and the traffic, and changes settings on its behalf.

  \<^bold>\<open>The program.\<close>  All paths are below \<open>src/hostapd-2.6/src\<close>.  A controller, access points and stations
  exchange messages over TLS, one message per connection.  \<open>messaging/ssl-server.c\<close> accepts connections,
  starts a thread for each, reads one message, checks its version and dispatches on its type;
  a second thread announces the agent to the controller.  Each message type has a module
  \<open>messaging/msg_*.c\<close> with a structure, a size function, an encoder, a decoder, a server side function
  \<open>process_...\<close> and client side functions \<open>send_...\<close>.  The field encoders are in
  \<open>messaging/buffer_handler_fun.c\<close>, the connections in \<open>messaging/ssl_common.c\<close>.  The modules under
  \<open>ethanol_functions/\<close> read and change the machine: counters, tables of settings, commands,
  configuration files.  \<open>ini/\<close> reads the configuration of the agent.

  \<^bold>\<open>Modelling.\<close>  C integers are words of their width and wrap.  A block of memory is the list of its bytes,
  a pointer the bytes from there to the end of the block; reading or writing outside, using a null
  pointer and freeing twice are values of the type \<open>fault\<close>, so that every statement about
  a result also says that nothing of the kind happens, and the faults the code does have are theorems.
  Uninitialised memory is an argument.  Sockets, OpenSSL, \<open>malloc\<close>, the files of \<open>/sys\<close>, the
  output of commands and the callbacks are fields of the record \<open>env\<close> (theory \<open>Frame\<close>), the radio and the
  hooks of the daemon are the record \<open>device\<close> (theory \<open>Radio\<close>), floating point arithmetic the
  record \<open>fpu\<close> (theory \<open>Net_Stats\<close>); none of them is fixed by the model.  What a function does to the
  outside is the list of its \<open>effect\<close>s.  A whole message that is only copied is a list of bytes.  \<open>Msg_Statistics\<close> has
  in addition a heap of string blocks, since what it shows is a use after release, and \<open>Text_Utils\<close> the tables
  and destinations that the trimming functions write, in place or not.

  \<^bold>\<open>Theories.\<close>
  \<^item> \<open>Prelude\<close>: widths, faults, sequential programs, C strings.
  \<^item> \<open>Buffer\<close> (\<open>buffer_handler_fun.c\<close>): all field encoders and decoders; the locale \<open>scalar_codec\<close> with its
    instances; the round trip of strings and which received strings are C strings.
  \<^item> \<open>Strings\<close> (\<open>utils_str.c\<close>), \<open>Text_Utils\<close> (\<open>utils.c\<close>, \<open>strlib.c\<close>): copying and trimming, equal to
    specifications by filters; text of addresses; channels of frequencies.
  \<^item> \<open>Msg_Types\<close> (\<open>msg_common.h\<close>): the message types and error codes.
  \<^item> \<open>Frame\<close> (\<open>ssl_common.c\<close> and the parts all message modules share): connections, \<open>encode_frame\<close>,
    \<open>decode_frame\<close>, \<open>send_sync\<close>, \<open>send_async\<close>; the locale \<open>msg_codec\<close>, the contract between a message
    module and its users, of which every module has an interpretation; senders release what they open.
  \<^item> \<open>Msg_Control\<close> (hello, bye, ping, error), \<open>Msg_Assoc\<close> (association, handover with \<open>change_ap.c\<close>),
    \<open>Msg_AP\<close> (options of the access point), \<open>Msg_Net\<close> (MTU, queue length, TOS rules), \<open>Msg_Device\<close> (fixed and
    local answers; locale \<open>local_service\<close>).
  \<^item> \<open>Sys_Stats\<close>, \<open>Relay\<close>, \<open>Msg_Stats\<close> (\<open>net_statistics.c\<close>, the five counter modules): counters of an access
    point or, through it, of a station; locale \<open>counter_service\<close> with the path from controller to station.
  \<^item> \<open>Station_Query\<close>, \<open>Radio\<close>, \<open>Msg_Radio\<close>, \<open>Msg_Channel\<close> (\<open>iw_powersave.c\<close>, \<open>ap_txpower.c\<close>,
    \<open>get_meminfo.c\<close>, \<open>hostapd_hooks.c\<close> and the modules for power save, fast transition, SNR, power, memory,
    CPU, channel and frequency): locale \<open>station_query\<close>, which also says what becomes of the message id.
  \<^item> \<open>Intf_Table\<close>, \<open>Msg_Settings\<close>, \<open>Snr_Info\<close> (\<open>80211e.c\<close>, \<open>msg_set_snr_*.c\<close>, \<open>set_snr_information.c\<close>):
    linked lists of settings that implement maps (locale \<open>intf_store\<close>), set through messages
    (locale \<open>setting_service\<close>).
  \<^item> \<open>Net_Stats\<close>, \<open>Collector\<close>, \<open>Arrays\<close>, \<open>Msg_Mean\<close> (\<open>net_statistics.c\<close>, \<open>msg_mean_sta_stats.c\<close>): moving
    averages of the counters; the list of interfaces refines a map; the collecting thread
    and the requests as an interleaving of statements; the reports with arrays.
  \<^item> \<open>Sleep_Queue\<close> (\<open>sleep_intervals.c\<close>): the queue of differences wakes up exactly at the multiples of the
    intervals.
  \<^item> \<open>Commands\<close> (\<open>connect.c\<close>, \<open>setip.c\<close>), \<open>Conf_File\<close> (\<open>config_hostapd.c\<close>), \<open>Ini\<close> (\<open>ini.c\<close>,
    \<open>ethanol_config_file.c\<close>): command lines with the bounds of their arrays, the two configuration files,
    written and read back.
  \<^item> \<open>Interfaces\<close>, \<open>Msg_Intf\<close>, \<open>Msg_In_Range\<close> (\<open>get_interfaces.c\<close>, \<open>is_wireless.c\<close>, \<open>msg_intf.c\<close>,
    \<open>msg_ap_in_range.c\<close>): the interfaces of a machine and the access points it detects, answered here or
    by a station.
  \<^item> \<open>Station_Report\<close>, \<open>Msg_Wlans\<close>, \<open>Msg_Link\<close>, \<open>Msg_Statistics\<close> (\<open>msg_radio_wlans.c\<close>, \<open>msg_mac.c\<close>,
    \<open>sta_link_information.c\<close>, \<open>msg_sta_link_information.c\<close>, \<open>msg_statistics.c\<close>): reports with text that an
    access point passes on from a station (locale \<open>station_report\<close>): its wireless interfaces and its link
    as they are on the station, the addresses of interfaces, and the traffic, which is never passed on because the
    access point uses the report after releasing it.
  \<^item> \<open>Devices\<close>, \<open>Handover\<close> (\<open>list_devices.c\<close>, \<open>list_aps.c\<close>, \<open>list_stations.c\<close>,
    \<open>msg_snr_threshold_reached.c\<close>, \<open>run-server.c\<close>): the controller of the handover experiment.  The lists of
    devices refine maps (locale \<open>device_store\<close>); devices that say hello are entered and configured; a
    station that asks for another access point is told the least loaded one that it can use.
  \<^item> \<open>Link\<close>, \<open>Station\<close> (\<open>iw_link.c\<close>, \<open>getmac.c\<close>, \<open>run-station.c\<close>, \<open>iw-4.9/link.c\<close>): the station of the
    handover experiment.  What \<open>iw\<close> prints about the link is read back; a turn of the station's loop asks,
    moves and reports; and the whole experiment, from the measured ratio over the choice of the controller
    to the commands that the station runs (\<open>handover_experiment\<close>).  As \<open>main\<close> is written the loop only runs when the
    server of the station could not be started (\<open>station_loop_unreached\<close>).
  \<^item> \<open>Servlet\<close>, \<open>Server\<close>, \<open>Listener\<close> (\<open>ssl-server.c\<close>): the dispatch over all message types with the call of
    every modelled handler on the at most 2048 bytes that were read, the states the agent can reach
    (\<open>agent_reach\<close>) with their invariant, the hello thread, and the accept loop with its threads, their shared
    structure and the buffer of \<open>inet_ntoa\<close>, as a step relation.
  \<^item> This theory: exchanges in which every machine runs the whole server.

  \<^bold>\<open>Threads.\<close>  Three parts are modelled statement by statement: the accept loop with the start of its threads
  (\<open>Listener\<close>), the threads and calls that start and stop the collection (\<open>Collector\<close>), and, for
  the race that it has, \<open>set_snr_interval\<close> (\<open>Server\<close>).  Elsewhere larger steps are atomic: in \<open>agent_step\<close> a whole
  connection is one step, and so is one walk of \<open>update_means\<close> over all monitored interfaces.  The source
  has no locks that make them so; the theorems over \<open>agent_reach\<close> are about connections that are
  handled one after the other.

  \<^bold>\<open>Bounds and fuel.\<close>  Loops over data are structural recursion and total; the hello thread and
  the loop of the station are functions of the number of their rounds, the accept loop and the
  collecting thread are step relations, and no definition has fuel.  The retries of the handover and of the ping are counted by the source itself.
  The bounds in hypotheses are those of the code: \<open>2 ^ 31\<close> for the size of a message, which the code keeps
  in an \<open>int\<close>, and the sizes of its arrays.

  \<^bold>\<open>Not modelled.\<close>  The daemon itself and the other upstream parts of \<open>hostapd\<close>, \<open>iw\<close> except for the printing
  of the link, and the generated documentation; the functions that translate a query to \<open>netlink\<close> or
  to an \<open>ioctl\<close> and copy the reply, whose behaviour is that of the kernel; the message modules that remain (in \<open>Servlet\<close> they are
  the argument \<open>others\<close>, and \<open>agent_writers\<close> assumes nothing of them but that they leave the
  modelled variables alone, which they cannot name); functions that only print; the option parsing
  of the main programs and the test client; releasing memory, except where it is done twice or too early.  A
  \<open>malloc\<close> that fails is not modelled: an \<open>allocator\<close> gives a block, and that it has at least the size asked for is the
  hypothesis \<open>allocates\<close>; the blocks of the decoders have exactly the size asked for.  When \<open>SSL_new\<close> fails the source still passes its
  null result to \<open>SSL_set_fd\<close> and \<open>SSL_connect\<close>, which refuse it; the model goes on with a connection without session.
\<close>

section \<open>From a client to the server and back\<close>

lemma run_bytesreceived:
  "run_handler e others j a buf len H_bytesreceived st = stateless st (process_msg_bytesreceived e buf
     (j_bytesreceived j 0) (j_bytesreceived j 1) (j_bytesreceived j 2) (j_stats j))"
  by (simp add: run_handler_def)

text \<open>
  C2 The hello exchange.  An agent sends its hello to a server that runs the servlet.  The server
  raises its hello callback once, with the device type, the address of the agent and the port the
  agent listens on, and sends the message back; the agent gets it with the id it sent and the
  measured round trip time, closes the connection and advances its counter.
\<close>

theorem hello_exchange:
  assumes "copyable (mallocs e0) ETHANOL_VERSION" "allocates (mallocs e0)" "reaches e0 host port"
    and "serves e0 host port MSG_HELLO_TYPE (server e1 others j h0 addr stack st)" "hello_event_set e1"
  shows "\<exists>req a. send_msg_hello e0 host port i lp hs hm = Inr (session e0 host port req, i + 1, Some a)
     \<and> m_id a = i \<and> tcp_port a = lp \<and> rtt a = elapsed e0
     \<and> server e1 others j h0 addr stack st req
       = Inr ([Hello_Event (if process_station e0 then 2 else 1) addr lp], Some req)"
  using hello_round [OF assms] by blast

theorem hello_exchange_witness:
  "\<forall>others j h0 st. \<exists>req a.
     send_msg_hello (demo_env\<lparr>ssl_read := demo_peer (server demo_env others j h0 demo_name [9] st)\<rparr>)
       demo_name 22222 3 22223 demo_hello demo_hello
     = Inr (session demo_env demo_name 22222 req, 4, Some a) \<and> m_id a = 3 \<and> tcp_port a = 22223 \<and> rtt a = 0"
proof (intro allI)
  fix others j h0 st
  have "hello_event_set demo_env"
    by (simp add: demo_env_def)
  from hello_exchange [OF demo_client(1,3,4) serves_demo_peer [where e = demo_env and srv = "server demo_env others j h0 demo_name [9] st"] this,
      where host = demo_name and port = 22222 and i = 3 and lp = 22223
      and hs = demo_hello and hm = demo_hello]
  show "\<exists>req a.
     send_msg_hello (demo_env\<lparr>ssl_read := demo_peer (server demo_env others j h0 demo_name [9] st)\<rparr>)
       demo_name 22222 3 22223 demo_hello demo_hello
     = Inr (session demo_env demo_name 22222 req, 4, Some a) \<and> m_id a = 3 \<and> tcp_port a = 22223 \<and> rtt a = 0"
    by (simp add: demo_client(5) elapsed_demo) blast
qed

text \<open>
  C1 The relay of a counter, through complete servers.  A controller asks an access point for the
  received bytes of an interface of a station; access point and station both run the servlet.
  The request is dispatched at the access point, sent on, dispatched at the station, and the
  answer comes back: the controller gets the counter of the station under its own message id.  The
  names have less than 2000 bytes together, so that each request fits in the 2048 bytes that a server
  reads; of a longer one it would only see the beginning.
\<close>

theorem counter_through_servers:
  assumes "copyable (mallocs e0) ETHANOL_VERSION" "copyable (mallocs e0) intf"
      "copyable (mallocs e0) staip" "allocates (mallocs e0)" "reaches e0 host port"
      "serves e0 host port MSG_GET_BYTESRECEIVED (server e1 others1 j1 h1 addr1 stack1 st1)"
    and "allocates (mallocs e1)" "copyable (mallocs e1) ETHANOL_VERSION"
      "copyable (mallocs e1) (canon intf)" "reaches e1 (canon staip) staport"
      "serves e1 (canon staip) staport MSG_GET_BYTESRECEIVED (server e2 others2 j2 h2 addr2 stack2 st2)"
    and "process_station e2" "allocates (mallocs e2)"
    and "0 < slen intf" "0 < slen staip" "slen intf + slen staip < 2000"
  shows "\<exists>req a. send_msg_bytesreceived e0 host port i intf staip staport hs hm
      = Inr (session e0 host port req, i + 1, Some a) \<and> m_id a = i \<and> intf_name a = canon intf
      \<and> bytes_received a
        = (case interface_stats e2 (canon intf) of Some s \<Rightarrow> nl_rx_bytes s | None \<Rightarrow> 0)"
proof -
  note s1 = serves_through_servlet [OF assms(6) servlet_case_examples(3) run_bytesreceived]
  note s2 = serves_through_servlet [OF assms(11) servlet_case_examples(3) run_bytesreceived]
  have fits: "bytes_bytesreceived q \<le> 2048"
    if "ok_bytesreceived q" "slen (p_version q) = slen ETHANOL_VERSION"
      "slen (intf_name q) + slen (sta_ip q) \<le> slen intf + slen staip" for q
    using that(2,3) assms(16) by (simp add: bytes_bytesreceived_def)
  have names: "slen intf + slen staip < 2 ^ 31 - 100"
    using assms(16) by simp
  show ?thesis
    by (rule bytesreceived_svc.end_to_end [OF assms(1-5) s1 assms(7-10) s2 assms(12-15) names fits])
qed

theorem counter_through_servers_witness:
  "\<forall>others j h0 st. let ap = demo_env\<lparr>ssl_read := demo_peer (server demo_station others j h0 demo_name [5] st)\<rparr>;
       controller = demo_env\<lparr>ssl_read := demo_peer (server ap others j h0 demo_name [6] st)\<rparr> in
     \<exists>req a. send_msg_bytesreceived controller demo_name 22222 4 demo_name demo_name 22223 demo_msg demo_msg
       = Inr (session controller demo_name 22222 req, 5, Some a)
       \<and> m_id a = 4 \<and> intf_name a = demo_name \<and> bytes_received a = 2"
proof (intro allI)
  fix others j h0 st
  let ?ap = "demo_env\<lparr>ssl_read := demo_peer (server demo_station others j h0 demo_name [5] st)\<rparr>"
  let ?controller = "demo_env\<lparr>ssl_read := demo_peer (server ?ap others j h0 demo_name [6] st)\<rparr>"
  have st: "process_station demo_station" "allocates (mallocs demo_station)"
      "interface_stats demo_station demo_name = Some demo_counters"
    by (simp_all add: demo_station_def allocates_demo_env)
  have "\<exists>req a. send_msg_bytesreceived ?controller demo_name 22222 4 demo_name demo_name 22223 demo_msg demo_msg
       = Inr (session ?controller demo_name 22222 req, 4 + 1, Some a)
       \<and> m_id a = 4 \<and> intf_name a = canon demo_name \<and> bytes_received a
        = (case interface_stats demo_station (canon demo_name) of Some s \<Rightarrow> nl_rx_bytes s | None \<Rightarrow> 0)"
    by (rule counter_through_servers [of ?controller demo_name demo_name _ _ ?ap])
      (use demo_client st serves_demo_peer in \<open>simp_all del: split_paired_All\<close>)
  then show "let ap = ?ap; controller = demo_env\<lparr>ssl_read := demo_peer (server ap others j h0 demo_name [6] st)\<rparr> in
     \<exists>req a. send_msg_bytesreceived controller demo_name 22222 4 demo_name demo_name 22223 demo_msg demo_msg
       = Inr (session controller demo_name 22222 req, 5, Some a)
       \<and> m_id a = 4 \<and> intf_name a = demo_name \<and> bytes_received a = 2"
    by (simp add: Let_def st demo_counters_def)
qed

end
